(* ===== verification/Go_Prelude.thy ===== *)
theory Go_Prelude
  imports Main
begin

text \<open>
  Shared vocabulary of the development: the parts of the Go language and of its standard library
  that the sources use (strings, slices, \<open>fmt.Sprintf\<close>, pointers, multi-value returns), and the
  lemmas about them that the component theories share.

  \<^item> A Go \<open>string\<close> is an Isabelle \<open>string\<close>: a list of bytes.
  \<^item> A pointer is an \<open>option\<close>: \<open>None\<close> is \<open>nil\<close>.
  \<^item> A pair \<open>(value, error)\<close> is a sum: \<open>Inl\<close> the error, \<open>Inr\<close> the value; a function that only
    returns an \<open>error\<close> returns an \<open>option\<close> of it.
  \<^item> A slice is a list.  Where the code tells a nil slice from an empty one, the field is a list
    option.
\<close>

named_theorems go_defs \<open>definitions of Go standard library functions\<close>
named_theorems result_simps \<open>rewriting of sequenced fallible computations\<close>
named_theorems panic_simps \<open>when a composed computation panics\<close>

section \<open>Fallible computations\<close>

type_synonym ('e, 'a) result = "'e + 'a"

text \<open>\<open>if err != nil { return err }\<close> after a call that yields a value.\<close>

definition rbind :: "('e, 'a) result \<Rightarrow> ('a \<Rightarrow> ('e, 'b) result) \<Rightarrow> ('e, 'b) result" where
  "rbind m f = (case m of Inl e \<Rightarrow> Inl e | Inr a \<Rightarrow> f a)"

lemma rbind_simps [simp, result_simps]:
  "rbind (Inl e) f = Inl e"
  "rbind (Inr a) f = f a"
  by (simp_all add: rbind_def)

lemma rbind_eq_Inr [result_simps]: "rbind m f = Inr b \<longleftrightarrow> (\<exists>a. m = Inr a \<and> f a = Inr b)"
  by (cases m) auto

lemma rbind_eq_Inl [result_simps]:
  "rbind m f = Inl e \<longleftrightarrow> m = Inl e \<or> (\<exists>a. m = Inr a \<and> f a = Inl e)"
  by (cases m) auto

text \<open>\<open>if err := check(); err != nil { return err }\<close> for calls that only return an error: the first
  error of a list of checks, evaluated in order.\<close>

definition orelse :: "'e option \<Rightarrow> 'e option \<Rightarrow> 'e option" where
  "orelse a b = (case a of None \<Rightarrow> b | Some e \<Rightarrow> Some e)"

lemma orelse_simps [simp, result_simps]:
  "orelse None b = b"
  "orelse (Some e) b = Some e"
  "orelse a None = a"
  by (auto simp: orelse_def split: option.split)

lemma orelse_eq_None [simp, result_simps]: "orelse a b = None \<longleftrightarrow> a = None \<and> b = None"
  by (cases a) auto

lemma orelse_eq_Some [result_simps]:
  "orelse a b = Some e \<longleftrightarrow> a = Some e \<or> (a = None \<and> b = Some e)"
  by (cases a) auto

text \<open>A loop \<open>for _, x := range xs { if err := f(x); err != nil { return err } }\<close>.\<close>

fun range_check :: "('a \<Rightarrow> 'e option) \<Rightarrow> 'a list \<Rightarrow> 'e option" where
  "range_check f [] = None"
| "range_check f (x # xs) = orelse (f x) (range_check f xs)"

lemma range_check_None: "range_check f xs = None \<longleftrightarrow> (\<forall>x\<in>set xs. f x = None)"
  by (induction xs) auto

lemma range_check_Some:
  assumes "range_check f xs = Some e"
  obtains ys x zs where "xs = ys @ x # zs" and "\<forall>y\<in>set ys. f y = None" and "f x = Some e"
proof -
  from assms have "\<exists>ys x zs. xs = ys @ x # zs \<and> (\<forall>y\<in>set ys. f y = None) \<and> f x = Some e"
  proof (induction xs)
    case Nil
    then show ?case by simp
  next
    case (Cons x xs)
    show ?case
    proof (cases "f x")
      case None
      with Cons obtain ys y zs where "xs = ys @ y # zs" "\<forall>z\<in>set ys. f z = None" "f y = Some e"
        by auto
      with None have "x # xs = (x # ys) @ y # zs \<and> (\<forall>z\<in>set (x # ys). f z = None) \<and> f y = Some e"
        by simp
      then show ?thesis by blast
    next
      case (Some d)
      with Cons.prems have "x # xs = [] @ x # xs \<and> (\<forall>z\<in>set []. f z = None) \<and> f x = Some e"
        by simp
      then show ?thesis by blast
    qed
  qed
  with that show thesis by blast
qed

text \<open>\<open>ptr.Deref(p, def)\<close>.\<close>

definition deref :: "'a option \<Rightarrow> 'a \<Rightarrow> 'a" where
  "deref p d = (case p of None \<Rightarrow> d | Some v \<Rightarrow> v)"

lemma deref_simps [simp]: "deref None d = d" "deref (Some v) d = v"
  by (simp_all add: deref_def)

section \<open>Strings\<close>

definition HasPrefix :: "string \<Rightarrow> string \<Rightarrow> bool" where
  [go_defs]: "HasPrefix s p \<longleftrightarrow> take (length p) s = p"

definition HasSuffix :: "string \<Rightarrow> string \<Rightarrow> bool" where
  [go_defs]: "HasSuffix s p \<longleftrightarrow> length p \<le> length s \<and> drop (length s - length p) s = p"

fun Contains :: "string \<Rightarrow> string \<Rightarrow> bool" where
  "Contains [] p = (p = [])"
| "Contains (c # s) p = (HasPrefix (c # s) p \<or> Contains s p)"

fun Join :: "string list \<Rightarrow> string \<Rightarrow> string" where
  "Join [] sep = []"
| "Join [x] sep = x"
| "Join (x # y # xs) sep = x @ sep @ Join (y # xs) sep"

lemma HasPrefix_append [simp]: "HasPrefix (p @ s) p"
  by (simp add: HasPrefix_def)

lemma HasPrefix_iff: "HasPrefix s p \<longleftrightarrow> (\<exists>t. s = p @ t)"
  by (metis HasPrefix_append HasPrefix_def append_take_drop_id)

lemma HasSuffix_append [simp]: "HasSuffix (s @ p) p"
  by (simp add: HasSuffix_def)

lemma HasSuffix_iff: "HasSuffix s p \<longleftrightarrow> (\<exists>t. s = t @ p)"
proof
  assume "HasSuffix s p"
  then have "s = take (length s - length p) s @ p"
    by (metis HasSuffix_def append_take_drop_id)
  then show "\<exists>t. s = t @ p" ..
next
  assume "\<exists>t. s = t @ p"
  then show "HasSuffix s p" by auto
qed

text \<open>\<open>fmt.Sprintf\<close> restricted to the verbs the sources use in format strings that are looked up at
  run time: \<open>%s\<close> and \<open>%%\<close>, with Go's marks for missing and surplus arguments.\<close>

fun Sprintf :: "string \<Rightarrow> string list \<Rightarrow> string" where
  "Sprintf [] [] = []"
| "Sprintf [] (a # as) =
     ''%!(EXTRA '' @ Join (map (\<lambda>x. ''string='' @ x) (a # as)) '', '' @ '')''"
| "Sprintf (c # s) as =
     (if c = CHR ''%'' then
        (case s of
           [] \<Rightarrow> ''%!(NOVERB)'' @ (if as = [] then [] else Sprintf [] as)
         | d # s' \<Rightarrow>
             if d = CHR ''s'' then
               (case as of [] \<Rightarrow> ''%!s(MISSING)'' @ Sprintf s' [] | a # as' \<Rightarrow> a @ Sprintf s' as')
             else if d = CHR ''%'' then CHR ''%'' # Sprintf s' as
             else c # d # Sprintf s' as)
      else c # Sprintf s as)"

definition verb_free :: "string \<Rightarrow> bool" where
  "verb_free s \<longleftrightarrow> CHR ''%'' \<notin> set s"

lemma Sprintf_verb_free_prefix:
  "verb_free s \<Longrightarrow> Sprintf (s @ t) as = s @ Sprintf t as"
  by (induction s) (auto simp: verb_free_def)

lemma Sprintf_one:
  "verb_free pre \<Longrightarrow> verb_free post \<Longrightarrow> Sprintf (pre @ ''%s'' @ post) [a] = pre @ a @ post"
  using Sprintf_verb_free_prefix [of post "[]" "[]"]
  by (simp add: Sprintf_verb_free_prefix)

text \<open>\<open>strconv.Itoa\<close> of a number that is not negative.\<close>

fun Itoa :: "nat \<Rightarrow> string" where
  "Itoa n = (if n < 10 then [char_of (48 + n)] else Itoa (n div 10) @ [char_of (48 + n mod 10)])"

declare Itoa.simps [simp del]

section \<open>Slices\<close>

text \<open>\<open>slices.Compact\<close>: drop all but the first of each run of equal elements.\<close>

fun Compact :: "'a list \<Rightarrow> 'a list" where
  "Compact [] = []"
| "Compact [x] = [x]"
| "Compact (x # y # xs) = (if x = y then Compact (y # xs) else x # Compact (y # xs))"

lemma set_Compact [simp]: "set (Compact xs) = set xs"
  by (induction xs rule: Compact.induct) auto

lemma Compact_sorted:
  fixes xs :: "'a::linorder list"
  shows "sorted xs \<Longrightarrow> sorted (Compact xs) \<and> distinct (Compact xs)"
proof (induction xs rule: Compact.induct)
  case (3 x y xs)
  show ?case
  proof (cases "x = y")
    case True
    with 3 show ?thesis by simp
  next
    case False
    with 3 have IH: "sorted (Compact (y # xs)) \<and> distinct (Compact (y # xs))" by simp
    moreover from "3.prems" False have "\<forall>z\<in>set (y # xs). x < z"
      by (auto simp: order.strict_iff_order)
    ultimately show ?thesis using False
      by (simp del: set_Compact add: set_Compact [of "y # xs"]) (metis order.strict_implies_order less_irrefl)
  qed
qed simp_all

text \<open>Keep the first occurrence of each element: the \<open>seen\<close>-map idiom of the sources.\<close>

fun dedup_seen :: "'a set \<Rightarrow> 'a list \<Rightarrow> 'a list" where
  "dedup_seen S [] = []"
| "dedup_seen S (x # xs) =
     (if x \<in> S then dedup_seen S xs else x # dedup_seen (insert x S) xs)"

lemma set_dedup_seen: "set (dedup_seen S xs) = set xs - S"
  by (induction xs arbitrary: S) auto

lemma distinct_dedup_seen: "distinct (dedup_seen S xs)"
  by (induction xs arbitrary: S) (auto simp: set_dedup_seen)

lemma dedup_seen_distinct: "distinct xs \<Longrightarrow> set xs \<inter> S = {} \<Longrightarrow> dedup_seen S xs = xs"
  by (induction xs arbitrary: S) auto

text \<open>The elements of a slice whose nil is told from the empty slice.\<close>

definition elems :: "'a list option \<Rightarrow> 'a list" where
  "elems s = deref s []"

lemma elems_simps [simp]: "elems None = []" "elems (Some xs) = xs"
  by (simp_all add: elems_def)

section \<open>Panics\<close>

text \<open>A computation that may stop with a run-time panic, such as a nil dereference.\<close>

datatype 'a go = Panic | Ret 'a

definition gbind :: "'a go \<Rightarrow> ('a \<Rightarrow> 'b go) \<Rightarrow> 'b go" where
  "gbind m f = (case m of Panic \<Rightarrow> Panic | Ret a \<Rightarrow> f a)"

lemma gbind_simps [simp, result_simps]:
  "gbind Panic f = Panic"
  "gbind (Ret a) f = f a"
  by (simp_all add: gbind_def)

lemma gbind_eq_Ret [result_simps]: "gbind m f = Ret b \<longleftrightarrow> (\<exists>a. m = Ret a \<and> f a = Ret b)"
  by (cases m) auto

text \<open>\<open>if err := m; err != nil { return err }\<close>, followed by \<open>f\<close>.\<close>

definition gcheck :: "'e option go \<Rightarrow> 'e option go \<Rightarrow> 'e option go" where
  "gcheck m f = gbind m (\<lambda>e. case e of None \<Rightarrow> f | Some x \<Rightarrow> Ret (Some x))"

lemma gcheck_simps [simp, result_simps]:
  "gcheck Panic f = Panic"
  "gcheck (Ret None) f = f"
  "gcheck (Ret (Some e)) f = Ret (Some e)"
  by (simp_all add: gcheck_def)

lemma gcheck_None [simp, result_simps]: "gcheck m f = Ret None \<longleftrightarrow> m = Ret None \<and> f = Ret None"
  by (cases m) (auto simp: gcheck_def split: option.splits)

lemma gcheck_Some [result_simps]:
  "gcheck m f = Ret (Some e) \<longleftrightarrow> m = Ret (Some e) \<or> (m = Ret None \<and> f = Ret (Some e))"
  by (cases m) (auto simp: gcheck_def split: option.splits)

text \<open>Dereferencing a pointer.\<close>

definition gderef :: "'a option \<Rightarrow> ('a \<Rightarrow> 'b go) \<Rightarrow> 'b go" where
  "gderef p f = (case p of None \<Rightarrow> Panic | Some a \<Rightarrow> f a)"

lemma gderef_simps [simp, result_simps]:
  "gderef None f = Panic"
  "gderef (Some a) f = f a"
  by (simp_all add: gderef_def)

text \<open>\<open>x, err := m; if err != nil { return err }\<close> for a call that may also panic.\<close>

definition grbind :: "('e, 'a) result go \<Rightarrow> ('a \<Rightarrow> ('e, 'b) result go) \<Rightarrow> ('e, 'b) result go" where
  "grbind m f = gbind m (\<lambda>r. case r of Inl e \<Rightarrow> Ret (Inl e) | Inr a \<Rightarrow> f a)"

lemma grbind_simps [simp, result_simps]:
  "grbind Panic f = Panic"
  "grbind (Ret (Inl e)) f = Ret (Inl e)"
  "grbind (Ret (Inr a)) f = f a"
  by (simp_all add: grbind_def)

lemma grbind_eq_Inr [result_simps]:
  "grbind m f = Ret (Inr b) \<longleftrightarrow> (\<exists>a. m = Ret (Inr a) \<and> f a = Ret (Inr b))"
  by (cases m) (auto simp: grbind_def split: sum.splits)

text \<open>\<open>fmt.Errorf\<close> around the error of a call.\<close>

definition gwrap :: "('e \<Rightarrow> 'e) \<Rightarrow> ('e, 'a) result go \<Rightarrow> ('e, 'a) result go" where
  "gwrap f m = gbind m (\<lambda>r. case r of Inl e \<Rightarrow> Ret (Inl (f e)) | Inr a \<Rightarrow> Ret (Inr a))"

lemma gwrap_simps [simp, result_simps]:
  "gwrap f Panic = Panic" "gwrap f (Ret (Inl e)) = Ret (Inl (f e))" "gwrap f (Ret (Inr a)) = Ret (Inr a)"
  by (simp_all add: gwrap_def)

lemma gwrap_eq_Inr [simp, result_simps]: "gwrap f m = Ret (Inr b) \<longleftrightarrow> m = Ret (Inr b)"
  by (cases m) (auto simp: gwrap_def split: sum.splits)

text \<open>A loop over a slice that threads a state and stops at the first error.\<close>

fun range_state :: "('a \<Rightarrow> 's \<Rightarrow> ('e, 's) result go) \<Rightarrow> 'a list \<Rightarrow> 's \<Rightarrow> ('e, 's) result go" where
  "range_state f [] s = Ret (Inr s)"
| "range_state f (x # xs) s = grbind (f x s) (range_state f xs)"

lemma range_state_inv:
  assumes "range_state f xs s = Ret (Inr s')" and "I s"
    and "\<And>x s s'. x \<in> set xs \<Longrightarrow> I s \<Longrightarrow> f x s = Ret (Inr s') \<Longrightarrow> I s'"
  shows "I s'"
  using assms
proof (induction xs arbitrary: s)
  case (Cons x xs)
  from Cons.prems(1) obtain s1 where s1: "f x s = Ret (Inr s1)" and rest: "range_state f xs s1 = Ret (Inr s')"
    by (auto simp: grbind_eq_Inr)
  have "I s1" using Cons.prems(2) Cons.prems(3) [OF _ _ s1] by simp
  with Cons.IH [OF rest] Cons.prems(3) show ?case by auto
qed simp

text \<open>When a computation panics.\<close>

lemma gbind_Panic [panic_simps]: "gbind m f = Panic \<longleftrightarrow> m = Panic \<or> (\<exists>a. m = Ret a \<and> f a = Panic)"
  by (cases m) auto

lemma gcheck_Panic [panic_simps]: "gcheck m f = Panic \<longleftrightarrow> m = Panic \<or> (m = Ret None \<and> f = Panic)"
  by (cases m) (auto simp: gcheck_def split: option.splits)

lemma grbind_Panic [panic_simps]: "grbind m f = Panic \<longleftrightarrow> m = Panic \<or> (\<exists>a. m = Ret (Inr a) \<and> f a = Panic)"
  by (cases m) (auto simp: grbind_def split: sum.splits)

lemma gderef_Panic [panic_simps]: "gderef p f = Panic \<longleftrightarrow> p = None \<or> (\<exists>a. p = Some a \<and> f a = Panic)"
  by (cases p) (simp_all add: gderef_def)

lemma range_state_no_panic:
  "(\<And>p st. p \<in> set ps \<Longrightarrow> f p st \<noteq> Panic) \<Longrightarrow> range_state f ps st \<noteq> Panic"
  by (induction ps arbitrary: st) (auto simp: panic_simps)

text \<open>A text in single quotes.\<close>

definition quoted :: "string \<Rightarrow> string" where
  "quoted s = CHR 0x27 # s @ [CHR 0x27]"

end
