(* ===== verification/Api_Types.thy ===== *)
theory Api_Types
  imports Go_Prelude
begin

text \<open>
  The custom resources of the module, as \<open>apis/telemetry/v1beta1\<close> (the storage version) and
  \<open>apis/telemetry/v1alpha1\<close> declare them, and the few Kubernetes meta types they embed.  One
  record per Go struct, one field per struct field, in the order of the source; field names carry
  the struct's initials because record fields share one name space.

  Structs that the two API versions declare with the same fields in the same order (the generated
  converters reinterpret their memory through \<open>unsafe.Pointer\<close>) are one record here.  The structs
  that differ have a second record whose name ends in \<open>A\<close> for \<open>v1alpha1\<close>.  Named string types
  (\<open>OTLPProtocol\<close>, \<open>TemporalityType\<close>) are strings: the Go values are not restricted to the
  declared constants.
\<close>

section \<open>Kubernetes meta types\<close>

record NamespacedName =
  nn_Namespace :: string
  nn_Name :: string

record OwnerReference =
  or_Kind :: string
  or_Name :: string
  or_UID :: string

record ObjectMeta =
  om_Name :: string
  om_Namespace :: string
  om_UID :: string
  om_Generation :: int
  om_ResourceVersion :: string
  om_DeletionTimestamp :: "int option"
  om_Labels :: "(string \<rightharpoonup> string) option"
  om_Annotations :: "(string \<rightharpoonup> string) option"
  om_OwnerReferences :: "OwnerReference list"

text \<open>\<open>metav1.Condition\<close> without its transition time, which no code of the module reads.\<close>

datatype ConditionStatus = ConditionTrue | ConditionFalse | ConditionUnknown

record Condition =
  c_Type :: string
  c_Status :: ConditionStatus
  c_ObservedGeneration :: int
  c_Reason :: string
  c_Message :: string

section \<open>Shared types\<close>

record SecretKeyRef =
  skr_Name :: string
  skr_Namespace :: string
  skr_Key :: string

record ValueFromSource =
  vfs_SecretKeyRef :: "SecretKeyRef option"

record ValueType =
  vt_Value :: string
  vt_ValueFrom :: "ValueFromSource option"

type_synonym OTLPProtocol = string

definition OTLPProtocolHTTP :: OTLPProtocol where
  "OTLPProtocolHTTP = ''http''"

definition OTLPProtocolGRPC :: OTLPProtocol where
  "OTLPProtocolGRPC = ''grpc''"

type_synonym OTLPCompressionEncoding = string

record BasicAuthOptions =
  ba_User :: ValueType
  ba_Password :: ValueType

record OAuth2Options =
  oa_TokenURL :: ValueType
  oa_ClientID :: ValueType
  oa_ClientSecret :: ValueType
  oa_Scopes :: "string list"
  oa_Params :: "(string \<times> string) list"

record AuthenticationOptions =
  ao_Basic :: "BasicAuthOptions option"
  ao_OAuth2 :: "OAuth2Options option"

record Header =
  h_ValueType :: ValueType
  h_Name :: string
  h_Prefix :: string

record OutputTLS =
  tls_Insecure :: bool
  tls_InsecureSkipVerify :: bool
  tls_CA :: "ValueType option"
  tls_Cert :: "ValueType option"
  tls_Key :: "ValueType option"

record OTLPOutput =
  oo_Protocol :: OTLPProtocol
  oo_Endpoint :: ValueType
  oo_Path :: string
  oo_Authentication :: "AuthenticationOptions option"
  oo_Headers :: "Header list"
  oo_TLS :: "OutputTLS option"
  oo_Compression :: OTLPCompressionEncoding

record NamespaceSelector =
  ns_Include :: "string list"
  ns_Exclude :: "string list"

record OTLPInput =
  oi_Enabled :: "bool option"
  oi_Namespaces :: "NamespaceSelector option"

record TransformSpec =
  ts_Conditions :: "string list"
  ts_Statements :: "string list"

record FilterSpec =
  fs_Conditions :: "string list"

section \<open>MetricPipeline\<close>

type_synonym TemporalityType = string

definition TemporalityPreserve :: TemporalityType where
  "TemporalityPreserve = ''preserve''"

definition TemporalityDelta :: TemporalityType where
  "TemporalityDelta = ''delta''"

record DiagnosticMetrics =
  dm_Enabled :: "bool option"

record EnvoyMetrics =
  em_Enabled :: "bool option"

record MetricPipelinePrometheusInput =
  mpp_Enabled :: "bool option"
  mpp_Namespaces :: "NamespaceSelector option"
  mpp_DiagnosticMetrics :: "DiagnosticMetrics option"

record RuntimeInputResource =
  rir_Enabled :: "bool option"

record RuntimeInputResources =
  res_Pod :: "RuntimeInputResource option"
  res_Container :: "RuntimeInputResource option"
  res_Node :: "RuntimeInputResource option"
  res_Volume :: "RuntimeInputResource option"
  res_DaemonSet :: "RuntimeInputResource option"
  res_Deployment :: "RuntimeInputResource option"
  res_StatefulSet :: "RuntimeInputResource option"
  res_Job :: "RuntimeInputResource option"

record MetricPipelineRuntimeInput =
  mpr_Enabled :: "bool option"
  mpr_Namespaces :: "NamespaceSelector option"
  mpr_Resources :: "RuntimeInputResources option"
  mpr_AdditionalMetrics :: "string list"

record MetricPipelineIstioInput =
  mpi_Enabled :: "bool option"
  mpi_Namespaces :: "NamespaceSelector option"
  mpi_DiagnosticMetrics :: "DiagnosticMetrics option"
  mpi_EnvoyMetrics :: "EnvoyMetrics option"

record MetricPipelineInput =
  mi_Prometheus :: "MetricPipelinePrometheusInput option"
  mi_Runtime :: "MetricPipelineRuntimeInput option"
  mi_Istio :: "MetricPipelineIstioInput option"
  mi_OTLP :: "OTLPInput option"

record MetricPipelineOTLPOutput =
  mo_OTLPOutput :: OTLPOutput
  mo_Temporality :: "TemporalityType option"

record MetricPipelineSpec =
  ms_Input :: MetricPipelineInput
  ms_Output :: "MetricPipelineOTLPOutput option"
  ms_Transforms :: "TransformSpec list"
  ms_Filters :: "FilterSpec list option"

record MetricPipeline =
  mp_ObjectMeta :: ObjectMeta
  mp_Spec :: MetricPipelineSpec
  mp_Conditions :: "Condition list"

section \<open>TracePipeline\<close>

record TracePipelineSpec =
  tps_Output :: "OTLPOutput option"
  tps_Transforms :: "TransformSpec list"
  tps_Filters :: "FilterSpec list option"

record TracePipeline =
  tp_ObjectMeta :: ObjectMeta
  tp_Spec :: TracePipelineSpec
  tp_Conditions :: "Condition list"

section \<open>LogPipeline\<close>

text \<open>The converters tell a nil container list from an empty one, so these two fields keep the
  difference.\<close>

record LogPipelineContainerSelector =
  lcs_Include :: "string list option"
  lcs_Exclude :: "string list option"

record LogPipelineRuntimeInput =
  lri_Enabled :: "bool option"
  lri_Namespaces :: "NamespaceSelector option"
  lri_Containers :: "LogPipelineContainerSelector option"
  lri_FluentBitKeepAnnotations :: "bool option"
  lri_FluentBitDropLabels :: "bool option"
  lri_KeepOriginalBody :: "bool option"

record LogPipelineInput =
  li_Runtime :: "LogPipelineRuntimeInput option"
  li_OTLP :: "OTLPInput option"

record FluentBitHTTPOutput =
  fh_Host :: ValueType
  fh_User :: "ValueType option"
  fh_Password :: "ValueType option"
  fh_URI :: string
  fh_Port :: string
  fh_Compress :: string
  fh_Format :: string
  fh_TLS :: OutputTLS
  fh_Dedot :: bool

record LogPipelineOutput =
  lo_FluentBitCustom :: string
  lo_FluentBitHTTP :: "FluentBitHTTPOutput option"
  lo_OTLP :: "OTLPOutput option"

record FluentBitFilter =
  fbf_Custom :: string

record FluentBitFile =
  file_Name :: string
  file_Content :: string

record FluentBitVariable =
  fbv_Name :: string
  fbv_ValueFrom :: ValueFromSource

record LogPipelineSpec =
  ls_Input :: LogPipelineInput
  ls_FluentBitFilters :: "FluentBitFilter list"
  ls_Output :: LogPipelineOutput
  ls_FluentBitFiles :: "FluentBitFile list"
  ls_FluentBitVariables :: "FluentBitVariable list"
  ls_Transforms :: "TransformSpec list"
  ls_Filters :: "FilterSpec list option"

record LogPipelineStatus =
  lst_Conditions :: "Condition list"
  lst_UnsupportedMode :: "bool option"

record LogPipeline =
  lp_ObjectMeta :: ObjectMeta
  lp_Spec :: LogPipelineSpec
  lp_Status :: LogPipelineStatus

section \<open>The structs of v1alpha1 that differ\<close>

record OTLPOutputA =
  ooA_Protocol :: string
  ooA_Endpoint :: ValueType
  ooA_Path :: string
  ooA_Authentication :: "AuthenticationOptions option"
  ooA_Headers :: "Header list"
  ooA_TLS :: "OutputTLS option"

record OTLPInputA =
  oiA_Disabled :: bool
  oiA_Namespaces :: "NamespaceSelector option"

record MetricPipelineInputA =
  miA_Prometheus :: "MetricPipelinePrometheusInput option"
  miA_Runtime :: "MetricPipelineRuntimeInput option"
  miA_Istio :: "MetricPipelineIstioInput option"
  miA_OTLP :: "OTLPInputA option"

record MetricPipelineOTLPOutputA =
  moA_OTLPOutput :: OTLPOutputA
  moA_Temporality :: "TemporalityType option"

record MetricPipelineSpecA =
  msA_Input :: MetricPipelineInputA
  msA_Output :: "MetricPipelineOTLPOutputA option"
  msA_Transforms :: "TransformSpec list"
  msA_Filters :: "FilterSpec list option"

record MetricPipelineA =
  mpA_ObjectMeta :: ObjectMeta
  mpA_Spec :: MetricPipelineSpecA
  mpA_Conditions :: "Condition list"

record LogPipelineNamespaceSelectorA =
  lnsA_Include :: "string list"
  lnsA_Exclude :: "string list"
  lnsA_System :: bool

record LogPipelineApplicationInputA =
  laiA_Enabled :: "bool option"
  laiA_Namespaces :: LogPipelineNamespaceSelectorA
  laiA_Containers :: LogPipelineContainerSelector
  laiA_FluentBitKeepAnnotations :: "bool option"
  laiA_FluentBitDropLabels :: "bool option"
  laiA_KeepOriginalBody :: "bool option"

record LogPipelineInputA =
  liA_Application :: "LogPipelineApplicationInputA option"
  liA_OTLP :: "OTLPInputA option"

record FluentBitHTTPOutputTLSA =
  ftA_Disabled :: bool
  ftA_SkipCertificateValidation :: bool
  ftA_CA :: "ValueType option"
  ftA_Cert :: "ValueType option"
  ftA_Key :: "ValueType option"

record FluentBitHTTPOutputA =
  fhA_Host :: ValueType
  fhA_User :: "ValueType option"
  fhA_Password :: "ValueType option"
  fhA_URI :: string
  fhA_Port :: string
  fhA_Compress :: string
  fhA_Format :: string
  fhA_TLS :: FluentBitHTTPOutputTLSA
  fhA_Dedot :: bool

record LogPipelineOutputA =
  loA_FluentBitCustom :: string
  loA_FluentBitHTTP :: "FluentBitHTTPOutputA option"
  loA_OTLP :: "OTLPOutputA option"

record LogPipelineSpecA =
  lsA_Input :: LogPipelineInputA
  lsA_FluentBitFilters :: "FluentBitFilter list"
  lsA_Output :: LogPipelineOutputA
  lsA_FluentBitFiles :: "FluentBitFile list"
  lsA_FluentBitVariables :: "FluentBitVariable list"
  lsA_Transforms :: "TransformSpec list"
  lsA_Filters :: "FilterSpec list option"

record LogPipelineA =
  lpA_ObjectMeta :: ObjectMeta
  lpA_Spec :: LogPipelineSpecA
  lpA_Status :: LogPipelineStatus

section \<open>Predicates on the specs\<close>

text \<open>\<open>internal/utils/sharedtypes\<close>, \<open>internal/utils/metricpipeline\<close> and
  \<open>internal/utils/logpipeline\<close>.  The accessors that dereference a pointer without a nil check are
  only called behind the check that the input is enabled; here a nil pointer reads as not
  enabled in them.\<close>

definition IsValid :: "ValueType option \<Rightarrow> bool" where
  "IsValid v = (case v of
     None \<Rightarrow> False
   | Some v \<Rightarrow>
       (if vt_Value v \<noteq> [] then True
        else (case vt_ValueFrom v of
                None \<Rightarrow> False
              | Some vf \<Rightarrow>
                  (case vfs_SecretKeyRef vf of
                     None \<Rightarrow> False
                   | Some r \<Rightarrow> skr_Name r \<noteq> [] \<and> skr_Key r \<noteq> [] \<and> skr_Namespace r \<noteq> []))))"

definition IsOTLPInputEnabled :: "OTLPInput option \<Rightarrow> bool" where
  "IsOTLPInputEnabled i = (case i of None \<Rightarrow> True | Some i \<Rightarrow> deref (oi_Enabled i) True)"

definition IsFilterDefined :: "FilterSpec list option \<Rightarrow> bool" where
  "IsFilterDefined fs \<longleftrightarrow> length (elems fs) > 0"

definition IsTransformDefined :: "TransformSpec list \<Rightarrow> bool" where
  "IsTransformDefined ts \<longleftrightarrow> length ts > 0"

definition IsIstioInputEnabled :: "MetricPipelineInput \<Rightarrow> bool" where
  "IsIstioInputEnabled i = (case mi_Istio i of None \<Rightarrow> False | Some x \<Rightarrow> deref (mpi_Enabled x) False)"

definition IsPrometheusInputEnabled :: "MetricPipelineInput \<Rightarrow> bool" where
  "IsPrometheusInputEnabled i =
     (case mi_Prometheus i of None \<Rightarrow> False | Some x \<Rightarrow> deref (mpp_Enabled x) False)"

definition IsRuntimeInputEnabled :: "MetricPipelineInput \<Rightarrow> bool" where
  "IsRuntimeInputEnabled i =
     (case mi_Runtime i of None \<Rightarrow> False | Some x \<Rightarrow> deref (mpr_Enabled x) False)"

datatype Mode = OTel | FluentBit

definition PipelineMode :: "LogPipeline \<Rightarrow> Mode" where
  "PipelineMode lp = (if lo_OTLP (ls_Output (lp_Spec lp)) \<noteq> None then OTel else FluentBit)"

definition GetOutputType :: "LogPipeline \<Rightarrow> Mode" where
  "GetOutputType t = (if lo_OTLP (ls_Output (lp_Spec t)) \<noteq> None then OTel else FluentBit)"

definition IsCustomOutputDefined :: "LogPipelineOutput \<Rightarrow> bool" where
  "IsCustomOutputDefined out \<longleftrightarrow> lo_FluentBitCustom out \<noteq> []"

definition IsHTTPOutputDefined :: "LogPipelineOutput \<Rightarrow> bool" where
  "IsHTTPOutputDefined out =
     (case lo_FluentBitHTTP out of None \<Rightarrow> False | Some h \<Rightarrow> IsValid (Some (fh_Host h)))"

definition IsVariablesDefined :: "FluentBitVariable list \<Rightarrow> bool" where
  "IsVariablesDefined vs \<longleftrightarrow> length vs > 0"

definition IsFilesDefined :: "FluentBitFile list \<Rightarrow> bool" where
  "IsFilesDefined fs \<longleftrightarrow> length fs > 0"

definition IsLogRuntimeInputEnabled :: "LogPipelineInput \<Rightarrow> bool" where
  "IsLogRuntimeInputEnabled i =
     (case li_Runtime i of None \<Rightarrow> False | Some r \<Rightarrow> deref (lri_Enabled r) True)"

fun IsCustomFilterDefined :: "FluentBitFilter list \<Rightarrow> bool" where
  "IsCustomFilterDefined [] = False"
| "IsCustomFilterDefined (f # fs) = (if fbf_Custom f \<noteq> [] then True else IsCustomFilterDefined fs)"

definition ContainsCustomPlugin :: "LogPipeline \<Rightarrow> bool" where
  "ContainsCustomPlugin lp \<longleftrightarrow>
     IsCustomOutputDefined (ls_Output (lp_Spec lp)) \<or>
     IsCustomFilterDefined (ls_FluentBitFilters (lp_Spec lp))"

lemma IsCustomFilterDefined_iff: "IsCustomFilterDefined fs \<longleftrightarrow> (\<exists>f\<in>set fs. fbf_Custom f \<noteq> [])"
  by (induction fs) auto

definition isMetricAgentRequired :: "MetricPipeline \<Rightarrow> bool" where
  "isMetricAgentRequired p = (let i = ms_Input (mp_Spec p) in
     IsRuntimeInputEnabled i \<or> IsPrometheusInputEnabled i \<or> IsIstioInputEnabled i)"

section \<open>Zero values\<close>

text \<open>The zero values of the structs that examples build on.\<close>

definition zeroObjectMeta :: ObjectMeta where
  "zeroObjectMeta = \<lparr>om_Name = [], om_Namespace = [], om_UID = [], om_Generation = 0,
     om_ResourceVersion = [], om_DeletionTimestamp = None, om_Labels = None, om_Annotations = None,
     om_OwnerReferences = []\<rparr>"

definition zeroMetricPipeline :: MetricPipeline where
  "zeroMetricPipeline = \<lparr>mp_ObjectMeta = zeroObjectMeta,
     mp_Spec = \<lparr>ms_Input = \<lparr>mi_Prometheus = None, mi_Runtime = None, mi_Istio = None, mi_OTLP = None\<rparr>,
       ms_Output = None, ms_Transforms = [], ms_Filters = None\<rparr>,
     mp_Conditions = []\<rparr>"

definition zeroLogPipeline :: LogPipeline where
  "zeroLogPipeline = \<lparr>lp_ObjectMeta = zeroObjectMeta,
     lp_Spec = \<lparr>ls_Input = \<lparr>li_Runtime = None, li_OTLP = None\<rparr>, ls_FluentBitFilters = [],
       ls_Output = \<lparr>lo_FluentBitCustom = [], lo_FluentBitHTTP = None, lo_OTLP = None\<rparr>,
       ls_FluentBitFiles = [], ls_FluentBitVariables = [], ls_Transforms = [], ls_Filters = None\<rparr>,
     lp_Status = \<lparr>lst_Conditions = [], lst_UnsupportedMode = None\<rparr>\<rparr>"

definition zeroLogPipelineA :: LogPipelineA where
  "zeroLogPipelineA = \<lparr>lpA_ObjectMeta = zeroObjectMeta,
     lpA_Spec = \<lparr>lsA_Input = \<lparr>liA_Application = None, liA_OTLP = None\<rparr>, lsA_FluentBitFilters = [],
       lsA_Output = \<lparr>loA_FluentBitCustom = [], loA_FluentBitHTTP = None, loA_OTLP = None\<rparr>,
       lsA_FluentBitFiles = [], lsA_FluentBitVariables = [], lsA_Transforms = [],
       lsA_Filters = None\<rparr>,
     lpA_Status = \<lparr>lst_Conditions = [], lst_UnsupportedMode = None\<rparr>\<rparr>"

end
