(* ===== verification/Regexp.thy ===== *)
theory Regexp
  imports Main
begin

text \<open>
  The regular expressions of the sources (\<open>regexp.MustCompile\<close> of anchored patterns), as values with their
  language, and an executable matcher by derivatives that is proved to decide the language.
\<close>

datatype rx =
    Zero
  | Eps
  | Class "char \<Rightarrow> bool"
  | Seq rx rx
  | Alt rx rx
  | Star rx
  | Opt rx

fun star_lang :: "nat \<Rightarrow> string set \<Rightarrow> string set" where
  "star_lang 0 L = {[]}"
| "star_lang (Suc n) L = {u @ v | u v. u \<in> L \<and> v \<in> star_lang n L}"

fun lang :: "rx \<Rightarrow> string set" where
  "lang Zero = {}"
| "lang Eps = {[]}"
| "lang (Class P) = {[c] | c. P c}"
| "lang (Seq r s) = {u @ v | u v. u \<in> lang r \<and> v \<in> lang s}"
| "lang (Alt r s) = lang r \<union> lang s"
| "lang (Star r) = (\<Union>n. star_lang n (lang r))"
| "lang (Opt r) = insert [] (lang r)"

section \<open>Matching by derivatives\<close>

fun nullable :: "rx \<Rightarrow> bool" where
  "nullable Zero = False"
| "nullable Eps = True"
| "nullable (Class P) = False"
| "nullable (Seq r s) = (nullable r \<and> nullable s)"
| "nullable (Alt r s) = (nullable r \<or> nullable s)"
| "nullable (Star r) = True"
| "nullable (Opt r) = True"

fun deriv :: "char \<Rightarrow> rx \<Rightarrow> rx" where
  "deriv c Zero = Zero"
| "deriv c Eps = Zero"
| "deriv c (Class P) = (if P c then Eps else Zero)"
| "deriv c (Seq r s) =
     (if nullable r then Alt (Seq (deriv c r) s) (deriv c s) else Seq (deriv c r) s)"
| "deriv c (Alt r s) = Alt (deriv c r) (deriv c s)"
| "deriv c (Star r) = Seq (deriv c r) (Star r)"
| "deriv c (Opt r) = deriv c r"

definition MatchString :: "rx \<Rightarrow> string \<Rightarrow> bool" where
  "MatchString r s = nullable (fold deriv s r)"

lemma nullable_lang: "nullable r \<longleftrightarrow> [] \<in> lang r"
proof (induction r)
  case (Star r)
  have "[] \<in> star_lang 0 (lang r)" by simp
  then have "[] \<in> lang (Star r)" unfolding lang.simps by blast
  then show ?case by simp
qed auto

lemma Cons_in_Seq:
  "c # s \<in> {u @ v | u v. u \<in> A \<and> v \<in> B} \<longleftrightarrow>
     (\<exists>u v. s = u @ v \<and> c # u \<in> A \<and> v \<in> B) \<or> ([] \<in> A \<and> c # s \<in> B)"
proof
  assume "c # s \<in> {u @ v | u v. u \<in> A \<and> v \<in> B}"
  then obtain u v where *: "c # s = u @ v" "u \<in> A" "v \<in> B" by blast
  then show "(\<exists>u v. s = u @ v \<and> c # u \<in> A \<and> v \<in> B) \<or> ([] \<in> A \<and> c # s \<in> B)"
    by (cases u) auto
next
  assume "(\<exists>u v. s = u @ v \<and> c # u \<in> A \<and> v \<in> B) \<or> ([] \<in> A \<and> c # s \<in> B)"
  then show "c # s \<in> {u @ v | u v. u \<in> A \<and> v \<in> B}"
    by (metis (mono_tags, lifting) append_Cons append_Nil mem_Collect_eq)
qed

lemma Cons_in_star_lang:
  "c # s \<in> star_lang n L \<Longrightarrow> \<exists>u v m. s = u @ v \<and> c # u \<in> L \<and> v \<in> star_lang m L"
proof (induction n)
  case (Suc n)
  from Suc.prems consider u v where "s = u @ v" "c # u \<in> L" "v \<in> star_lang n L"
    | "c # s \<in> star_lang n L"
    unfolding star_lang.simps Cons_in_Seq by blast
  then show ?case using Suc.IH by cases blast+
qed simp

lemma Cons_in_Star:
  "c # s \<in> lang (Star r) \<longleftrightarrow> (\<exists>u v. s = u @ v \<and> c # u \<in> lang r \<and> v \<in> lang (Star r))"
proof
  assume "c # s \<in> lang (Star r)"
  then show "\<exists>u v. s = u @ v \<and> c # u \<in> lang r \<and> v \<in> lang (Star r)"
    unfolding lang.simps by (blast dest: Cons_in_star_lang)
next
  assume "\<exists>u v. s = u @ v \<and> c # u \<in> lang r \<and> v \<in> lang (Star r)"
  then obtain u v n where "s = u @ v" "c # u \<in> lang r" "v \<in> star_lang n (lang r)"
    unfolding lang.simps by blast
  then have "c # s \<in> star_lang (Suc n) (lang r)"
    unfolding star_lang.simps Cons_in_Seq by blast
  then show "c # s \<in> lang (Star r)" unfolding lang.simps by blast
qed

lemma deriv_lang: "s \<in> lang (deriv c r) \<longleftrightarrow> c # s \<in> lang r"
proof (induction r arbitrary: s)
  case (Seq r1 r2)
  have "c # s \<in> lang (Seq r1 r2) \<longleftrightarrow>
      (\<exists>u v. s = u @ v \<and> c # u \<in> lang r1 \<and> v \<in> lang r2) \<or> ([] \<in> lang r1 \<and> c # s \<in> lang r2)"
    unfolding lang.simps(4) by (rule Cons_in_Seq)
  moreover have "s \<in> lang (deriv c (Seq r1 r2)) \<longleftrightarrow>
      (\<exists>u v. s = u @ v \<and> c # u \<in> lang r1 \<and> v \<in> lang r2) \<or> ([] \<in> lang r1 \<and> c # s \<in> lang r2)"
    using Seq by (simp add: nullable_lang)
  ultimately show ?case by blast
next
  case (Star r)
  have "s \<in> lang (deriv c (Star r)) \<longleftrightarrow> (\<exists>u v. s = u @ v \<and> c # u \<in> lang r \<and> v \<in> lang (Star r))"
    using Star by (simp del: lang.simps(6))
  then show ?case unfolding Cons_in_Star .
qed auto

lemma fold_deriv_lang: "t \<in> lang (fold deriv s r) \<longleftrightarrow> s @ t \<in> lang r"
  by (induction s arbitrary: r) (simp_all add: deriv_lang)

text \<open>The matcher decides the language.\<close>

lemma MatchString_lang: "MatchString r s \<longleftrightarrow> s \<in> lang r"
  using fold_deriv_lang [of "[]" s r] by (simp add: MatchString_def nullable_lang)

section \<open>Parsing expressions\<close>

text \<open>The syntax of \<open>regexp\<close> that the sources use: literals, the dot, classes, groups, alternatives, the repetitions
  \<open>*\<close>, \<open>+\<close> and \<open>?\<close>, and \<open>\d\<close>.  A question mark after a repetition makes it lazy and a group may capture; neither
  changes what is matched.\<close>

datatype rx_token = TClass "char \<Rightarrow> bool" | TOpen | TClose | TBar | TStar | TPlus | TOpt

definition anyChar :: "char \<Rightarrow> bool" where
  "anyChar c \<longleftrightarrow> c \<noteq> CHR 0x0A"

definition between :: "char \<Rightarrow> char \<Rightarrow> char \<Rightarrow> bool" where
  "between a b c \<longleftrightarrow> (of_char a :: nat) \<le> of_char c \<and> (of_char c :: nat) \<le> of_char b"

fun inClass :: "string \<Rightarrow> char \<Rightarrow> bool" where
  "inClass (a # m # b # items) c =
     (if m = CHR ''-'' then between a b c \<or> inClass items c else c = a \<or> inClass (m # b # items) c)"
| "inClass items c = (c \<in> set items)"

definition dropLazy :: "string \<Rightarrow> string" where
  "dropLazy s = (case s of [] \<Rightarrow> [] | c # t \<Rightarrow> if c = CHR ''?'' then t else s)"

definition dropNonCapturing :: "string \<Rightarrow> string" where
  "dropNonCapturing s = (if take 2 s = ''?:'' then drop 2 s else s)"

lemma shorter [simp]:
  "length (dropLazy s) \<le> length s" "length (dropNonCapturing s) \<le> length s" "length (dropWhile P s) \<le> length s"
  by (auto simp: dropLazy_def dropNonCapturing_def length_dropWhile_le split: list.split)

function rx_tokens :: "string \<Rightarrow> rx_token list" where
  "rx_tokens [] = []"
| "rx_tokens (c # s) =
     (if c = CHR ''('' then TOpen # rx_tokens (dropNonCapturing s)
      else if c = CHR '')'' then TClose # rx_tokens s
      else if c = CHR ''|'' then TBar # rx_tokens s
      else if c = CHR ''*'' then TStar # rx_tokens (dropLazy s)
      else if c = CHR ''+'' then TPlus # rx_tokens (dropLazy s)
      else if c = CHR ''?'' then TOpt # rx_tokens (dropLazy s)
      else if c = CHR ''.'' then TClass anyChar # rx_tokens s
      else if c = CHR ''['' then
        TClass (inClass (takeWhile (\<lambda>d. d \<noteq> CHR '']'') s)) # rx_tokens (drop 1 (dropWhile (\<lambda>d. d \<noteq> CHR '']'') s))
      else if c = CHR 0x5C then
        (case s of
           [] \<Rightarrow> []
         | d # t \<Rightarrow> TClass (if d = CHR ''d'' then between CHR ''0'' CHR ''9'' else (\<lambda>x. x = d)) # rx_tokens t)
      else TClass (\<lambda>d. d = c) # rx_tokens s)"
  by pat_completeness auto
termination
  by (relation "measure length") (auto simp: less_Suc_eq_le intro: le_trans [OF diff_le_self])

text \<open>The items of a sequence are collected last one first; \<open>stack\<close> holds the alternatives and the items around the open
  groups.\<close>

definition seqOf :: "rx list \<Rightarrow> rx" where
  "seqOf items = fold Seq items Eps"

definition altOf :: "rx list \<Rightarrow> rx list \<Rightarrow> rx" where
  "altOf alts items = foldr Alt alts (seqOf items)"

fun rx_parse :: "(rx list \<times> rx list) list \<Rightarrow> rx list \<Rightarrow> rx list \<Rightarrow> rx_token list \<Rightarrow> rx option" where
  "rx_parse stack alts items [] = (if stack = [] then Some (altOf alts items) else None)"
| "rx_parse stack alts items (TClass P # ts) = rx_parse stack alts (Class P # items) ts"
| "rx_parse stack alts items (TOpen # ts) = rx_parse ((alts, items) # stack) [] [] ts"
| "rx_parse stack alts items (TClose # ts) =
     (case stack of
        [] \<Rightarrow> None
      | (alts', items') # stack' \<Rightarrow> rx_parse stack' alts' (altOf alts items # items') ts)"
| "rx_parse stack alts items (TBar # ts) = rx_parse stack (alts @ [seqOf items]) [] ts"
| "rx_parse stack alts items (TStar # ts) =
     (case items of [] \<Rightarrow> None | r # rs \<Rightarrow> rx_parse stack alts (Star r # rs) ts)"
| "rx_parse stack alts items (TPlus # ts) =
     (case items of [] \<Rightarrow> None | r # rs \<Rightarrow> rx_parse stack alts (Seq r (Star r) # rs) ts)"
| "rx_parse stack alts items (TOpt # ts) =
     (case items of [] \<Rightarrow> None | r # rs \<Rightarrow> rx_parse stack alts (Opt r # rs) ts)"

definition rx_compile :: "string \<Rightarrow> rx option" where
  "rx_compile s = rx_parse [] [] [] (rx_tokens s)"

section \<open>Languages\<close>

lemma Star_Class: "v \<in> lang (Star (Class P)) \<longleftrightarrow> list_all P v"
proof (induction v)
  case Nil
  show ?case using nullable_lang [of "Star (Class P)"] by (simp del: lang.simps(6))
next
  case (Cons c v)
  have "c # u \<in> lang (Class P) \<longleftrightarrow> u = [] \<and> P c" for u by auto
  then show ?case unfolding Cons_in_Star using Cons by (simp del: lang.simps)
qed

lemma in_Seq: "s \<in> lang (Seq r q) \<longleftrightarrow> (\<exists>u v. s = u @ v \<and> u \<in> lang r \<and> v \<in> lang q)"
  by simp

lemma in_char_Seq: "s \<in> lang (Seq (Class (\<lambda>d. d = c)) q) \<longleftrightarrow> (\<exists>v. s = c # v \<and> v \<in> lang q)"
  by auto

lemma in_plus: "s \<in> lang (Seq (Class P) (Star (Class P))) \<longleftrightarrow> s \<noteq> [] \<and> list_all P s"
proof (cases s)
  case (Cons c v)
  have "c # v \<in> lang (Seq (Class P) (Star (Class P))) \<longleftrightarrow> v \<in> lang (deriv c (Seq (Class P) (Star (Class P))))"
    by (simp only: deriv_lang)
  also have "\<dots> \<longleftrightarrow> P c \<and> v \<in> lang (Star (Class P))" by (simp del: lang.simps(6))
  finally show ?thesis using Cons by (simp add: Star_Class del: lang.simps)
qed simp

lemma in_plus_Seq:
  "s \<in> lang (Seq (Seq (Class P) (Star (Class P))) q) \<longleftrightarrow> (\<exists>x v. s = x @ v \<and> (x \<noteq> [] \<and> list_all P x) \<and> v \<in> lang q)"
  unfolding in_Seq [of s "Seq (Class P) (Star (Class P))"] in_plus by blast

end
