(* ===== verification/Api_Conversion.thy ===== *)
theory Api_Conversion
  imports Api_Types Regexp
begin

text \<open>
  The conversion webhook of the custom resources: \<open>apis/telemetry/v1alpha1/*_conversion.go\<close> and the
  generated \<open>zz_generated.conversion.go\<close> they call, in both directions, for \<open>MetricPipeline\<close> and
  \<open>LogPipeline\<close> (\<open>TracePipeline\<close> shares the OTLP output converters).

  Two effects of the Go code that a purely functional reading would lose are explicit:
  \<^item> \<open>out.ObjectMeta = in.ObjectMeta\<close> copies the struct but shares the annotation map, so writing
    the data annotation into a converted object also writes it into the source object, and
    deleting it there deletes it in both;
  \<^item> the generated converter of the metric runtime input aliases the namespace selector of the
    source, and the hand-written wrapper then overwrites its lists.
  The converters therefore return the source object as the call leaves it, next to the result.

  The JSON encoder and the unstructured converter are parameters.
\<close>

section \<open>Namespace names\<close>

text \<open>The regular expression of \<open>internal/namespaces/regex.go\<close>.\<close>

definition lower_alnum :: "char \<Rightarrow> bool" where
  "lower_alnum c = (let n = (of_char c :: nat) in (97 \<le> n \<and> n \<le> 122) \<or> (48 \<le> n \<and> n \<le> 57))"

definition lower_alnum_dash :: "char \<Rightarrow> bool" where
  "lower_alnum_dash c \<longleftrightarrow> c = CHR ''-'' \<or> lower_alnum c"

definition ValidNameRegexp :: rx where
  "ValidNameRegexp =
     Seq (Class lower_alnum) (Opt (Seq (Star (Class lower_alnum_dash)) (Class lower_alnum)))"

text \<open>The matcher: what \<open>ValidNameRegexp.MatchString\<close> computes for this expression, which is anchored
  at both ends.\<close>

definition MatchNamespaceName :: "string \<Rightarrow> bool" where
  "MatchNamespaceName s = (case s of
     [] \<Rightarrow> False
   | c # r \<Rightarrow> lower_alnum c \<and>
       (r = [] \<or> (list_all lower_alnum_dash (butlast r) \<and> lower_alnum (last r))))"

lemma append_Class:
  "s \<in> {u @ v | u v. u \<in> lang (Class P) \<and> v \<in> L} \<longleftrightarrow> (\<exists>c t. s = c # t \<and> P c \<and> t \<in> L)"
proof
  assume "\<exists>c t. s = c # t \<and> P c \<and> t \<in> L"
  then obtain c t where "s = [c] @ t" "[c] \<in> lang (Class P)" "t \<in> L" by auto
  then show "s \<in> {u @ v | u v. u \<in> lang (Class P) \<and> v \<in> L}" by blast
qed auto

lemma star_lang_Class: "star_lang n (lang (Class P)) = {s. length s = n \<and> list_all P s}"
proof (induction n)
  case (Suc n)
  show ?case
  proof (rule set_eqI)
    fix s
    show "s \<in> star_lang (Suc n) (lang (Class P)) \<longleftrightarrow> s \<in> {s. length s = Suc n \<and> list_all P s}"
      unfolding star_lang.simps append_Class Suc by (cases s) auto
  qed
qed auto

lemma lang_Star_Class: "lang (Star (Class P)) = {s. list_all P s}"
  by (simp only: lang.simps(6) star_lang_Class) auto

lemma lang_Seq_first: "s \<in> lang (Seq (Class P) r) \<longleftrightarrow> (\<exists>c t. s = c # t \<and> P c \<and> t \<in> lang r)"
  unfolding lang.simps(4) by (rule append_Class)

lemma lang_Seq_last:
  "s \<in> lang (Seq r (Class P)) \<longleftrightarrow> s \<noteq> [] \<and> butlast s \<in> lang r \<and> P (last s)"
proof (cases s rule: rev_cases)
  case (snoc t c)
  then show ?thesis by fastforce
qed simp

lemma MatchNamespaceName_lang: "MatchNamespaceName s \<longleftrightarrow> s \<in> lang ValidNameRegexp"
  unfolding ValidNameRegexp_def lang_Seq_first lang.simps(7) insert_iff lang_Seq_last
    lang_Star_Class mem_Collect_eq MatchNamespaceName_def
  by (cases s) auto

definition sanitizeNamespaceNames :: "string list \<Rightarrow> string list" where
  "sanitizeNamespaceNames names = filter (\<lambda>n. length n \<le> 63 \<and> MatchNamespaceName n) names"

definition valid_namespaces :: "string list \<Rightarrow> bool" where
  "valid_namespaces names \<longleftrightarrow> (\<forall>n\<in>set names. length n \<le> 63 \<and> MatchNamespaceName n)"

lemma sanitize_valid [simp]: "valid_namespaces (sanitizeNamespaceNames names)"
  by (simp add: sanitizeNamespaceNames_def valid_namespaces_def)

lemma sanitize_id: "sanitizeNamespaceNames names = names \<longleftrightarrow> valid_namespaces names"
  by (simp add: sanitizeNamespaceNames_def valid_namespaces_def filter_id_conv)

lemma sanitize_idem [simp]:
  "sanitizeNamespaceNames (sanitizeNamespaceNames names) = sanitizeNamespaceNames names"
  by (simp add: sanitize_id)

definition SystemNamespaces :: "string list" where
  "SystemNamespaces = [''kyma-system'', ''kube-system'', ''istio-system'']"

lemma SystemNamespaces_valid: "valid_namespaces SystemNamespaces"
  by code_simp

definition sanitizeSelector :: "NamespaceSelector \<Rightarrow> NamespaceSelector" where
  "sanitizeSelector s =
     \<lparr>ns_Include = sanitizeNamespaceNames (ns_Include s),
      ns_Exclude = sanitizeNamespaceNames (ns_Exclude s)\<rparr>"

lemma sanitizeSelector_idem [simp]: "sanitizeSelector (sanitizeSelector s) = sanitizeSelector s"
  by (simp add: sanitizeSelector_def)

lemma sanitizeSelector_comp [simp]: "sanitizeSelector \<circ> sanitizeSelector = sanitizeSelector"
  by (rule ext) simp

section \<open>Shared structs\<close>

definition Convert_v1alpha1_OTLPInput_To_v1beta1_OTLPInput :: "OTLPInputA \<Rightarrow> OTLPInput" where
  "Convert_v1alpha1_OTLPInput_To_v1beta1_OTLPInput i =
     \<lparr>oi_Enabled = Some (\<not> oiA_Disabled i),
      oi_Namespaces = map_option sanitizeSelector (oiA_Namespaces i)\<rparr>"

definition Convert_v1beta1_OTLPInput_To_v1alpha1_OTLPInput :: "OTLPInput \<Rightarrow> OTLPInputA" where
  "Convert_v1beta1_OTLPInput_To_v1alpha1_OTLPInput i =
     \<lparr>oiA_Disabled = (oi_Enabled i \<noteq> None \<and> \<not> deref (oi_Enabled i) False),
      oiA_Namespaces = map_option sanitizeSelector (oi_Namespaces i)\<rparr>"

text \<open>A freshly allocated \<open>v1beta1.OTLPOutput\<close> has the empty compression.\<close>

definition Convert_v1alpha1_OTLPOutput_To_v1beta1_OTLPOutput :: "OTLPOutputA \<Rightarrow> OTLPOutput" where
  "Convert_v1alpha1_OTLPOutput_To_v1beta1_OTLPOutput out =
     \<lparr>oo_Protocol = ooA_Protocol out, oo_Endpoint = ooA_Endpoint out, oo_Path = ooA_Path out,
      oo_Authentication = ooA_Authentication out, oo_Headers = ooA_Headers out,
      oo_TLS = ooA_TLS out, oo_Compression = []\<rparr>"

definition Convert_v1beta1_OTLPOutput_To_v1alpha1_OTLPOutput :: "OTLPOutput \<Rightarrow> OTLPOutputA" where
  "Convert_v1beta1_OTLPOutput_To_v1alpha1_OTLPOutput out =
     \<lparr>ooA_Protocol = oo_Protocol out, ooA_Endpoint = oo_Endpoint out, ooA_Path = oo_Path out,
      ooA_Authentication = oo_Authentication out, ooA_Headers = oo_Headers out,
      ooA_TLS = oo_TLS out\<rparr>"

section \<open>MetricPipeline\<close>

text \<open>The pair is (source after the call, result): both share one namespace selector.\<close>

definition Convert_v1alpha1_MetricPipelineRuntimeInput_To_v1beta1_MetricPipelineRuntimeInput ::
    "MetricPipelineRuntimeInput \<Rightarrow> MetricPipelineRuntimeInput \<times> MetricPipelineRuntimeInput" where
  "Convert_v1alpha1_MetricPipelineRuntimeInput_To_v1beta1_MetricPipelineRuntimeInput i =
     (let shared = map_option sanitizeSelector (mpr_Namespaces i)
      in (i\<lparr>mpr_Namespaces := shared\<rparr>,
          \<lparr>mpr_Enabled = mpr_Enabled i, mpr_Namespaces = shared,
           mpr_Resources = mpr_Resources i,
           mpr_AdditionalMetrics = mpr_AdditionalMetrics i\<rparr>))"

definition Convert_v1beta1_MetricPipelineRuntimeInput_To_v1alpha1_MetricPipelineRuntimeInput ::
    "MetricPipelineRuntimeInput \<Rightarrow> MetricPipelineRuntimeInput" where
  "Convert_v1beta1_MetricPipelineRuntimeInput_To_v1alpha1_MetricPipelineRuntimeInput i =
     \<lparr>mpr_Enabled = mpr_Enabled i, mpr_Namespaces = mpr_Namespaces i,
      mpr_Resources = mpr_Resources i, mpr_AdditionalMetrics = mpr_AdditionalMetrics i\<rparr>"

definition Convert_v1alpha1_MetricPipelineInput_To_v1beta1_MetricPipelineInput ::
    "MetricPipelineInputA \<Rightarrow> MetricPipelineInputA \<times> MetricPipelineInput" where
  "Convert_v1alpha1_MetricPipelineInput_To_v1beta1_MetricPipelineInput i =
     (let rt = map_option
            Convert_v1alpha1_MetricPipelineRuntimeInput_To_v1beta1_MetricPipelineRuntimeInput
            (miA_Runtime i)
      in (i\<lparr>miA_Runtime := map_option fst rt\<rparr>,
          \<lparr>mi_Prometheus = miA_Prometheus i, mi_Runtime = map_option snd rt,
           mi_Istio = miA_Istio i,
           mi_OTLP = map_option Convert_v1alpha1_OTLPInput_To_v1beta1_OTLPInput (miA_OTLP i)\<rparr>))"

definition Convert_v1beta1_MetricPipelineInput_To_v1alpha1_MetricPipelineInput ::
    "MetricPipelineInput \<Rightarrow> MetricPipelineInputA" where
  "Convert_v1beta1_MetricPipelineInput_To_v1alpha1_MetricPipelineInput i =
     \<lparr>miA_Prometheus = mi_Prometheus i,
      miA_Runtime = map_option
        Convert_v1beta1_MetricPipelineRuntimeInput_To_v1alpha1_MetricPipelineRuntimeInput
        (mi_Runtime i),
      miA_Istio = mi_Istio i,
      miA_OTLP = map_option Convert_v1beta1_OTLPInput_To_v1alpha1_OTLPInput (mi_OTLP i)\<rparr>"

definition Convert_v1alpha1_MetricPipelineOTLPOutput_To_v1beta1_MetricPipelineOTLPOutput ::
    "MetricPipelineOTLPOutputA \<Rightarrow> MetricPipelineOTLPOutput" where
  "Convert_v1alpha1_MetricPipelineOTLPOutput_To_v1beta1_MetricPipelineOTLPOutput out =
     \<lparr>mo_OTLPOutput = Convert_v1alpha1_OTLPOutput_To_v1beta1_OTLPOutput (moA_OTLPOutput out),
      mo_Temporality = moA_Temporality out\<rparr>"

definition Convert_v1beta1_MetricPipelineOTLPOutput_To_v1alpha1_MetricPipelineOTLPOutput ::
    "MetricPipelineOTLPOutput \<Rightarrow> MetricPipelineOTLPOutputA" where
  "Convert_v1beta1_MetricPipelineOTLPOutput_To_v1alpha1_MetricPipelineOTLPOutput out =
     \<lparr>moA_OTLPOutput = Convert_v1beta1_OTLPOutput_To_v1alpha1_OTLPOutput (mo_OTLPOutput out),
      moA_Temporality = mo_Temporality out\<rparr>"

definition Convert_v1alpha1_MetricPipelineSpec_To_v1beta1_MetricPipelineSpec ::
    "MetricPipelineSpecA \<Rightarrow> MetricPipelineSpecA \<times> MetricPipelineSpec" where
  "Convert_v1alpha1_MetricPipelineSpec_To_v1beta1_MetricPipelineSpec s =
     (let i = Convert_v1alpha1_MetricPipelineInput_To_v1beta1_MetricPipelineInput (msA_Input s)
      in (s\<lparr>msA_Input := fst i\<rparr>,
          \<lparr>ms_Input = snd i,
           ms_Output = map_option
             Convert_v1alpha1_MetricPipelineOTLPOutput_To_v1beta1_MetricPipelineOTLPOutput
             (msA_Output s),
           ms_Transforms = msA_Transforms s, ms_Filters = msA_Filters s\<rparr>))"

definition Convert_v1beta1_MetricPipelineSpec_To_v1alpha1_MetricPipelineSpec ::
    "MetricPipelineSpec \<Rightarrow> MetricPipelineSpecA" where
  "Convert_v1beta1_MetricPipelineSpec_To_v1alpha1_MetricPipelineSpec s =
     \<lparr>msA_Input = Convert_v1beta1_MetricPipelineInput_To_v1alpha1_MetricPipelineInput (ms_Input s),
      msA_Output = map_option
        Convert_v1beta1_MetricPipelineOTLPOutput_To_v1alpha1_MetricPipelineOTLPOutput
        (ms_Output s),
      msA_Transforms = ms_Transforms s, msA_Filters = ms_Filters s\<rparr>"

definition Convert_v1alpha1_MetricPipeline_To_v1beta1_MetricPipeline ::
    "MetricPipelineA \<Rightarrow> MetricPipelineA \<times> MetricPipeline" where
  "Convert_v1alpha1_MetricPipeline_To_v1beta1_MetricPipeline p =
     (let s = Convert_v1alpha1_MetricPipelineSpec_To_v1beta1_MetricPipelineSpec (mpA_Spec p)
      in (p\<lparr>mpA_Spec := fst s\<rparr>,
          \<lparr>mp_ObjectMeta = mpA_ObjectMeta p, mp_Spec = snd s,
           mp_Conditions = mpA_Conditions p\<rparr>))"

definition Convert_v1beta1_MetricPipeline_To_v1alpha1_MetricPipeline ::
    "MetricPipeline \<Rightarrow> MetricPipelineA" where
  "Convert_v1beta1_MetricPipeline_To_v1alpha1_MetricPipeline p =
     \<lparr>mpA_ObjectMeta = mp_ObjectMeta p,
      mpA_Spec = Convert_v1beta1_MetricPipelineSpec_To_v1alpha1_MetricPipelineSpec (mp_Spec p),
      mpA_Conditions = mp_Conditions p\<rparr>"

text \<open>The webhook's entry points take a \<open>conversion.Hub\<close> and assert its dynamic type.\<close>

datatype Hub = HubMetricPipeline MetricPipeline | HubLogPipeline LogPipeline

datatype conversion_error =
    errSrcTypeUnsupported
  | errDstTypeUnsupported
  | MarshalFailed string
  | UnmarshalFailed string

definition MetricPipeline_ConvertTo ::
    "MetricPipelineA \<Rightarrow> Hub \<Rightarrow> (conversion_error, MetricPipelineA \<times> Hub) result" where
  "MetricPipeline_ConvertTo mp dstRaw = (case dstRaw of
     HubMetricPipeline _ \<Rightarrow>
       (let r = Convert_v1alpha1_MetricPipeline_To_v1beta1_MetricPipeline mp
        in Inr (fst r, HubMetricPipeline (snd r)))
   | HubLogPipeline _ \<Rightarrow> Inl errDstTypeUnsupported)"

definition MetricPipeline_ConvertFrom :: "Hub \<Rightarrow> (conversion_error, MetricPipelineA) result" where
  "MetricPipeline_ConvertFrom srcRaw = (case srcRaw of
     HubMetricPipeline src \<Rightarrow>
       Inr (Convert_v1beta1_MetricPipeline_To_v1alpha1_MetricPipeline src)
   | HubLogPipeline _ \<Rightarrow> Inl errSrcTypeUnsupported)"

lemmas metric_conversion_defs =
  Convert_v1alpha1_OTLPInput_To_v1beta1_OTLPInput_def
  Convert_v1beta1_OTLPInput_To_v1alpha1_OTLPInput_def
  Convert_v1alpha1_OTLPOutput_To_v1beta1_OTLPOutput_def
  Convert_v1beta1_OTLPOutput_To_v1alpha1_OTLPOutput_def
  Convert_v1alpha1_MetricPipelineRuntimeInput_To_v1beta1_MetricPipelineRuntimeInput_def
  Convert_v1beta1_MetricPipelineRuntimeInput_To_v1alpha1_MetricPipelineRuntimeInput_def
  Convert_v1alpha1_MetricPipelineInput_To_v1beta1_MetricPipelineInput_def
  Convert_v1beta1_MetricPipelineInput_To_v1alpha1_MetricPipelineInput_def
  Convert_v1alpha1_MetricPipelineOTLPOutput_To_v1beta1_MetricPipelineOTLPOutput_def
  Convert_v1beta1_MetricPipelineOTLPOutput_To_v1alpha1_MetricPipelineOTLPOutput_def
  Convert_v1alpha1_MetricPipelineSpec_To_v1beta1_MetricPipelineSpec_def
  Convert_v1beta1_MetricPipelineSpec_To_v1alpha1_MetricPipelineSpec_def
  Convert_v1alpha1_MetricPipeline_To_v1beta1_MetricPipeline_def
  Convert_v1beta1_MetricPipeline_To_v1alpha1_MetricPipeline_def

section \<open>LogPipeline\<close>

definition Convert_v1alpha1_FluentBitHTTPOutputTLS_To_v1beta1_OutputTLS ::
    "FluentBitHTTPOutputTLSA \<Rightarrow> OutputTLS" where
  "Convert_v1alpha1_FluentBitHTTPOutputTLS_To_v1beta1_OutputTLS i =
     \<lparr>tls_Insecure = ftA_Disabled i, tls_InsecureSkipVerify = ftA_SkipCertificateValidation i,
      tls_CA = ftA_CA i, tls_Cert = ftA_Cert i, tls_Key = ftA_Key i\<rparr>"

definition Convert_v1beta1_OutputTLS_To_v1alpha1_FluentBitHTTPOutputTLS ::
    "OutputTLS \<Rightarrow> FluentBitHTTPOutputTLSA" where
  "Convert_v1beta1_OutputTLS_To_v1alpha1_FluentBitHTTPOutputTLS i =
     \<lparr>ftA_Disabled = tls_Insecure i, ftA_SkipCertificateValidation = tls_InsecureSkipVerify i,
      ftA_CA = tls_CA i, ftA_Cert = tls_Cert i, ftA_Key = tls_Key i\<rparr>"

definition Convert_v1alpha1_FluentBitHTTPOutput_To_v1beta1_FluentBitHTTPOutput ::
    "FluentBitHTTPOutputA \<Rightarrow> FluentBitHTTPOutput" where
  "Convert_v1alpha1_FluentBitHTTPOutput_To_v1beta1_FluentBitHTTPOutput i =
     \<lparr>fh_Host = fhA_Host i, fh_User = fhA_User i, fh_Password = fhA_Password i,
      fh_URI = fhA_URI i, fh_Port = fhA_Port i, fh_Compress = fhA_Compress i,
      fh_Format = fhA_Format i,
      fh_TLS = Convert_v1alpha1_FluentBitHTTPOutputTLS_To_v1beta1_OutputTLS (fhA_TLS i),
      fh_Dedot = fhA_Dedot i\<rparr>"

definition Convert_v1beta1_FluentBitHTTPOutput_To_v1alpha1_FluentBitHTTPOutput ::
    "FluentBitHTTPOutput \<Rightarrow> FluentBitHTTPOutputA" where
  "Convert_v1beta1_FluentBitHTTPOutput_To_v1alpha1_FluentBitHTTPOutput i =
     \<lparr>fhA_Host = fh_Host i, fhA_User = fh_User i, fhA_Password = fh_Password i,
      fhA_URI = fh_URI i, fhA_Port = fh_Port i, fhA_Compress = fh_Compress i,
      fhA_Format = fh_Format i,
      fhA_TLS = Convert_v1beta1_OutputTLS_To_v1alpha1_FluentBitHTTPOutputTLS (fh_TLS i),
      fhA_Dedot = fh_Dedot i\<rparr>"

definition Convert_v1alpha1_LogPipelineOutput_To_v1beta1_LogPipelineOutput ::
    "LogPipelineOutputA \<Rightarrow> LogPipelineOutput" where
  "Convert_v1alpha1_LogPipelineOutput_To_v1beta1_LogPipelineOutput i =
     \<lparr>lo_FluentBitCustom = loA_FluentBitCustom i,
      lo_FluentBitHTTP = map_option
        Convert_v1alpha1_FluentBitHTTPOutput_To_v1beta1_FluentBitHTTPOutput (loA_FluentBitHTTP i),
      lo_OTLP = map_option Convert_v1alpha1_OTLPOutput_To_v1beta1_OTLPOutput (loA_OTLP i)\<rparr>"

definition Convert_v1beta1_LogPipelineOutput_To_v1alpha1_LogPipelineOutput ::
    "LogPipelineOutput \<Rightarrow> LogPipelineOutputA" where
  "Convert_v1beta1_LogPipelineOutput_To_v1alpha1_LogPipelineOutput i =
     \<lparr>loA_FluentBitCustom = lo_FluentBitCustom i,
      loA_FluentBitHTTP = map_option
        Convert_v1beta1_FluentBitHTTPOutput_To_v1alpha1_FluentBitHTTPOutput (lo_FluentBitHTTP i),
      loA_OTLP = map_option Convert_v1beta1_OTLPOutput_To_v1alpha1_OTLPOutput (lo_OTLP i)\<rparr>"

text \<open>\<open>out.Runtime\<close> is only assigned when the source has an application input: the second argument is
  the destination before the call.\<close>

definition Convert_v1alpha1_LogPipelineInput_To_v1beta1_LogPipelineInput ::
    "LogPipelineInputA \<Rightarrow> LogPipelineInput \<Rightarrow> LogPipelineInput" where
  "Convert_v1alpha1_LogPipelineInput_To_v1beta1_LogPipelineInput i out =
     (let out1 = out\<lparr>li_OTLP :=
            map_option Convert_v1alpha1_OTLPInput_To_v1beta1_OTLPInput (liA_OTLP i)\<rparr>
      in case liA_Application i of
           None \<Rightarrow> out1
         | Some app \<Rightarrow>
             (let nss = laiA_Namespaces app;
                  excludes =
                    (if lnsA_Include nss = [] \<and> lnsA_Exclude nss = [] \<and> \<not> lnsA_System nss
                     then SystemNamespaces
                     else sanitizeNamespaceNames (lnsA_Exclude nss));
                  cs = laiA_Containers app
              in out1\<lparr>li_Runtime := Some
                   \<lparr>lri_Enabled = laiA_Enabled app,
                    lri_Namespaces = Some
                      \<lparr>ns_Include = sanitizeNamespaceNames (lnsA_Include nss),
                       ns_Exclude = excludes\<rparr>,
                    lri_Containers =
                      (if lcs_Include cs \<noteq> None \<or> lcs_Exclude cs \<noteq> None
                       then Some \<lparr>lcs_Include = lcs_Include cs, lcs_Exclude = lcs_Exclude cs\<rparr>
                       else None),
                    lri_FluentBitKeepAnnotations = laiA_FluentBitKeepAnnotations app,
                    lri_FluentBitDropLabels = laiA_FluentBitDropLabels app,
                    lri_KeepOriginalBody = laiA_KeepOriginalBody app\<rparr>\<rparr>))"

definition Convert_v1beta1_LogPipelineInput_To_v1alpha1_LogPipelineInput ::
    "LogPipelineInput \<Rightarrow> LogPipelineInputA \<Rightarrow> LogPipelineInputA" where
  "Convert_v1beta1_LogPipelineInput_To_v1alpha1_LogPipelineInput i out =
     (let out1 = out\<lparr>liA_OTLP :=
            map_option Convert_v1beta1_OTLPInput_To_v1alpha1_OTLPInput (li_OTLP i)\<rparr>
      in case li_Runtime i of
           None \<Rightarrow> out1
         | Some rt \<Rightarrow>
             out1\<lparr>liA_Application := Some
               \<lparr>laiA_Enabled = lri_Enabled rt,
                laiA_Namespaces =
                  (case lri_Namespaces rt of
                     None \<Rightarrow> \<lparr>lnsA_Include = [], lnsA_Exclude = [], lnsA_System = False\<rparr>
                   | Some nss \<Rightarrow>
                       (if ns_Include nss = [] \<and> ns_Exclude nss = []
                        then \<lparr>lnsA_Include = [], lnsA_Exclude = [], lnsA_System = True\<rparr>
                        else \<lparr>lnsA_Include = ns_Include nss, lnsA_Exclude = ns_Exclude nss,
                              lnsA_System = False\<rparr>)),
                laiA_Containers =
                  (case lri_Containers rt of
                     None \<Rightarrow> \<lparr>lcs_Include = None, lcs_Exclude = None\<rparr>
                   | Some cs \<Rightarrow> \<lparr>lcs_Include = lcs_Include cs, lcs_Exclude = lcs_Exclude cs\<rparr>),
                laiA_FluentBitKeepAnnotations = lri_FluentBitKeepAnnotations rt,
                laiA_FluentBitDropLabels = lri_FluentBitDropLabels rt,
                laiA_KeepOriginalBody = lri_KeepOriginalBody rt\<rparr>\<rparr>)"

definition Convert_v1alpha1_LogPipelineSpec_To_v1beta1_LogPipelineSpec ::
    "LogPipelineSpecA \<Rightarrow> LogPipelineSpec \<Rightarrow> LogPipelineSpec" where
  "Convert_v1alpha1_LogPipelineSpec_To_v1beta1_LogPipelineSpec i out =
     \<lparr>ls_Input = Convert_v1alpha1_LogPipelineInput_To_v1beta1_LogPipelineInput
        (lsA_Input i) (ls_Input out),
      ls_FluentBitFilters = lsA_FluentBitFilters i,
      ls_Output = Convert_v1alpha1_LogPipelineOutput_To_v1beta1_LogPipelineOutput (lsA_Output i),
      ls_FluentBitFiles = lsA_FluentBitFiles i,
      ls_FluentBitVariables = lsA_FluentBitVariables i,
      ls_Transforms = lsA_Transforms i, ls_Filters = lsA_Filters i\<rparr>"

definition Convert_v1beta1_LogPipelineSpec_To_v1alpha1_LogPipelineSpec ::
    "LogPipelineSpec \<Rightarrow> LogPipelineSpecA \<Rightarrow> LogPipelineSpecA" where
  "Convert_v1beta1_LogPipelineSpec_To_v1alpha1_LogPipelineSpec i out =
     \<lparr>lsA_Input = Convert_v1beta1_LogPipelineInput_To_v1alpha1_LogPipelineInput
        (ls_Input i) (lsA_Input out),
      lsA_FluentBitFilters = ls_FluentBitFilters i,
      lsA_Output = Convert_v1beta1_LogPipelineOutput_To_v1alpha1_LogPipelineOutput (ls_Output i),
      lsA_FluentBitFiles = ls_FluentBitFiles i,
      lsA_FluentBitVariables = ls_FluentBitVariables i,
      lsA_Transforms = ls_Transforms i, lsA_Filters = ls_Filters i\<rparr>"

definition Convert_v1alpha1_LogPipeline_To_v1beta1_LogPipeline ::
    "LogPipelineA \<Rightarrow> LogPipeline \<Rightarrow> LogPipeline" where
  "Convert_v1alpha1_LogPipeline_To_v1beta1_LogPipeline i out =
     \<lparr>lp_ObjectMeta = lpA_ObjectMeta i,
      lp_Spec = Convert_v1alpha1_LogPipelineSpec_To_v1beta1_LogPipelineSpec
        (lpA_Spec i) (lp_Spec out),
      lp_Status = lpA_Status i\<rparr>"

definition Convert_v1beta1_LogPipeline_To_v1alpha1_LogPipeline ::
    "LogPipeline \<Rightarrow> LogPipelineA \<Rightarrow> LogPipelineA" where
  "Convert_v1beta1_LogPipeline_To_v1alpha1_LogPipeline i out =
     \<lparr>lpA_ObjectMeta = lp_ObjectMeta i,
      lpA_Spec = Convert_v1beta1_LogPipelineSpec_To_v1alpha1_LogPipelineSpec
        (lp_Spec i) (lpA_Spec out),
      lpA_Status = lp_Status i\<rparr>"

subsection \<open>The data annotation\<close>

definition dataAnnotation :: string where
  "dataAnnotation = ''telemetry.kyma-project.io/conversion-data''"

text \<open>The unstructured converter, the JSON encoder and the JSON decoder.\<close>

record 'v codec =
  cd_ToUnstructured :: "LogPipelineA \<Rightarrow> (string, string \<rightharpoonup> 'v) result"
  cd_Marshal :: "(string \<rightharpoonup> 'v) \<Rightarrow> (string, string) result"
  cd_Unmarshal :: "string \<Rightarrow> (string, LogPipelineA) result"

text \<open>\<open>marshalData src dst\<close>, as the annotations it leaves in \<open>src\<close> and in \<open>dst\<close>.  \<open>dst\<close> was just
  converted from \<open>src\<close>, so a non-nil annotation map is one map shared by both; with a nil map
  \<open>dst\<close> gets a new one.\<close>

definition marshalData ::
    "'v codec \<Rightarrow> LogPipelineA \<Rightarrow> LogPipeline \<Rightarrow>
      (conversion_error, LogPipelineA \<times> LogPipeline) result" where
  "marshalData cd src dst =
     (case cd_ToUnstructured cd src of
        Inl e \<Rightarrow> Inl (MarshalFailed e)
      | Inr u \<Rightarrow>
          (case cd_Marshal cd (u(''status'' := None)) of
             Inl e \<Rightarrow> Inl (MarshalFailed e)
           | Inr data \<Rightarrow>
               (case om_Annotations (lp_ObjectMeta dst) of
                  None \<Rightarrow>
                    Inr (src, dst\<lparr>lp_ObjectMeta := (lp_ObjectMeta dst)
                                    \<lparr>om_Annotations := Some [dataAnnotation \<mapsto> data]\<rparr>\<rparr>)
                | Some m \<Rightarrow>
                    (let m' = m(dataAnnotation \<mapsto> data)
                     in Inr (src\<lparr>lpA_ObjectMeta := (lpA_ObjectMeta src)
                                    \<lparr>om_Annotations := Some m'\<rparr>\<rparr>,
                             dst\<lparr>lp_ObjectMeta := (lp_ObjectMeta dst)
                                    \<lparr>om_Annotations := Some m'\<rparr>\<rparr>)))))"

text \<open>\<open>unmarshalData\<close>: the restored object, if the annotation is there, and the annotations of the
  object it was read from, from which it has been deleted.\<close>

definition unmarshalData ::
    "'v codec \<Rightarrow> ObjectMeta \<Rightarrow> (conversion_error, LogPipelineA option \<times> ObjectMeta) result" where
  "unmarshalData cd from =
     (case om_Annotations from of
        None \<Rightarrow> Inr (None, from)
      | Some m \<Rightarrow>
          (case m dataAnnotation of
             None \<Rightarrow> Inr (None, from)
           | Some data \<Rightarrow>
               (case cd_Unmarshal cd data of
                  Inl e \<Rightarrow> Inl (UnmarshalFailed e)
                | Inr obj \<Rightarrow>
                    Inr (Some obj, from\<lparr>om_Annotations := Some (m(dataAnnotation := None))\<rparr>))))"

definition LogPipeline_ConvertTo ::
    "'v codec \<Rightarrow> LogPipelineA \<Rightarrow> Hub \<Rightarrow> (conversion_error, LogPipelineA \<times> Hub) result" where
  "LogPipeline_ConvertTo cd src dstRaw = (case dstRaw of
     HubMetricPipeline _ \<Rightarrow> Inl errDstTypeUnsupported
   | HubLogPipeline dst \<Rightarrow>
       rbind (marshalData cd src (Convert_v1alpha1_LogPipeline_To_v1beta1_LogPipeline src dst))
         (\<lambda>r. Inr (fst r, HubLogPipeline (snd r))))"

text \<open>The pair is (the hub object after the call, the converted object): the annotation map is shared
  by both, so the deletion shows in both.\<close>

definition LogPipeline_ConvertFrom ::
    "'v codec \<Rightarrow> LogPipelineA \<Rightarrow> Hub \<Rightarrow> (conversion_error, Hub \<times> LogPipelineA) result" where
  "LogPipeline_ConvertFrom cd dst srcRaw = (case srcRaw of
     HubMetricPipeline _ \<Rightarrow> Inl errSrcTypeUnsupported
   | HubLogPipeline src \<Rightarrow>
       (let dst1 = Convert_v1beta1_LogPipeline_To_v1alpha1_LogPipeline src dst
        in rbind (unmarshalData cd (lp_ObjectMeta src)) (\<lambda>(restored, om).
             let src' = src\<lparr>lp_ObjectMeta := om\<rparr>;
                 dst2 = dst1\<lparr>lpA_ObjectMeta := om\<rparr>
             in case restored of
                  None \<Rightarrow> Inr (HubLogPipeline src', dst2)
                | Some r \<Rightarrow>
                    (if om_Generation (lpA_ObjectMeta r) = om_Generation (lp_ObjectMeta src)
                     then Inr (HubLogPipeline src', dst2\<lparr>lpA_Spec := lpA_Spec r\<rparr>)
                     else Inr (HubLogPipeline src', dst2)))))"

lemmas log_conversion_defs =
  Convert_v1alpha1_FluentBitHTTPOutputTLS_To_v1beta1_OutputTLS_def
  Convert_v1beta1_OutputTLS_To_v1alpha1_FluentBitHTTPOutputTLS_def
  Convert_v1alpha1_FluentBitHTTPOutput_To_v1beta1_FluentBitHTTPOutput_def
  Convert_v1beta1_FluentBitHTTPOutput_To_v1alpha1_FluentBitHTTPOutput_def
  Convert_v1alpha1_LogPipelineOutput_To_v1beta1_LogPipelineOutput_def
  Convert_v1beta1_LogPipelineOutput_To_v1alpha1_LogPipelineOutput_def

section \<open>Properties\<close>

subsection \<open>MetricPipeline round trips\<close>

text \<open>What a stored (\<open>v1beta1\<close>) object loses on the way through \<open>v1alpha1\<close>: the compression, the
  difference between an unset and an enabled OTLP input, and invalid namespace names of the OTLP and
  runtime selectors.\<close>

definition normalizeOTLPInput :: "OTLPInput \<Rightarrow> OTLPInput" where
  "normalizeOTLPInput i =
     \<lparr>oi_Enabled = Some (deref (oi_Enabled i) True),
      oi_Namespaces = map_option sanitizeSelector (oi_Namespaces i)\<rparr>"

definition sanitizeRuntimeInput :: "MetricPipelineRuntimeInput \<Rightarrow> MetricPipelineRuntimeInput" where
  "sanitizeRuntimeInput i =
     i\<lparr>mpr_Namespaces := map_option sanitizeSelector (mpr_Namespaces i)\<rparr>"

definition normalizeMetricSpec :: "MetricPipelineSpec \<Rightarrow> MetricPipelineSpec" where
  "normalizeMetricSpec s =
     s\<lparr>ms_Input := (ms_Input s)
         \<lparr>mi_Runtime := map_option sanitizeRuntimeInput (mi_Runtime (ms_Input s)),
          mi_OTLP := map_option normalizeOTLPInput (mi_OTLP (ms_Input s))\<rparr>,
       ms_Output := map_option
         (\<lambda>out. out\<lparr>mo_OTLPOutput := (mo_OTLPOutput out)\<lparr>oo_Compression := []\<rparr>\<rparr>) (ms_Output s)\<rparr>"

lemma OTLPInput_roundtrip:
  "Convert_v1alpha1_OTLPInput_To_v1beta1_OTLPInput
     (Convert_v1beta1_OTLPInput_To_v1alpha1_OTLPInput i) = normalizeOTLPInput i"
  by (cases "oi_Enabled i")
    (simp_all add: metric_conversion_defs normalizeOTLPInput_def option.map_comp)

lemma OTLPOutput_roundtrip:
  "Convert_v1alpha1_OTLPOutput_To_v1beta1_OTLPOutput
     (Convert_v1beta1_OTLPOutput_To_v1alpha1_OTLPOutput out) = out\<lparr>oo_Compression := []\<rparr>"
  "Convert_v1beta1_OTLPOutput_To_v1alpha1_OTLPOutput
     (Convert_v1alpha1_OTLPOutput_To_v1beta1_OTLPOutput outA) = outA"
  by (simp_all add: metric_conversion_defs)

lemma MetricPipelineInput_roundtrip:
  "snd (Convert_v1alpha1_MetricPipelineInput_To_v1beta1_MetricPipelineInput
     (Convert_v1beta1_MetricPipelineInput_To_v1alpha1_MetricPipelineInput i)) =
   i\<lparr>mi_Runtime := map_option sanitizeRuntimeInput (mi_Runtime i),
     mi_OTLP := map_option normalizeOTLPInput (mi_OTLP i)\<rparr>"
  by (cases "mi_Runtime i"; cases "mi_OTLP i")
    (simp_all add: Convert_v1alpha1_MetricPipelineInput_To_v1beta1_MetricPipelineInput_def
       Convert_v1beta1_MetricPipelineInput_To_v1alpha1_MetricPipelineInput_def
       Convert_v1alpha1_MetricPipelineRuntimeInput_To_v1beta1_MetricPipelineRuntimeInput_def
       Convert_v1beta1_MetricPipelineRuntimeInput_To_v1alpha1_MetricPipelineRuntimeInput_def
       OTLPInput_roundtrip sanitizeRuntimeInput_def Let_def)

lemma MetricPipelineSpec_roundtrip:
  "snd (Convert_v1alpha1_MetricPipelineSpec_To_v1beta1_MetricPipelineSpec
     (Convert_v1beta1_MetricPipelineSpec_To_v1alpha1_MetricPipelineSpec s)) = normalizeMetricSpec s"
  by (cases "ms_Output s")
    (simp_all add: Convert_v1alpha1_MetricPipelineSpec_To_v1beta1_MetricPipelineSpec_def
       Convert_v1beta1_MetricPipelineSpec_To_v1alpha1_MetricPipelineSpec_def
       Convert_v1alpha1_MetricPipelineOTLPOutput_To_v1beta1_MetricPipelineOTLPOutput_def
       Convert_v1beta1_MetricPipelineOTLPOutput_To_v1alpha1_MetricPipelineOTLPOutput_def
       MetricPipelineInput_roundtrip OTLPOutput_roundtrip normalizeMetricSpec_def Let_def)

text \<open>C38: converting a stored \<open>MetricPipeline\<close> to \<open>v1alpha1\<close> and back never fails and returns the same
  object up to the compression, the explicit OTLP-enabled flag and the invalid names of the OTLP and
  runtime namespace selectors.\<close>

theorem metric_pipeline_hub_spoke_hub:
  "\<exists>a a'. MetricPipeline_ConvertFrom (HubMetricPipeline p) = Inr a \<and>
     MetricPipeline_ConvertTo a (HubMetricPipeline d) =
       Inr (a', HubMetricPipeline (p\<lparr>mp_Spec := normalizeMetricSpec (mp_Spec p)\<rparr>))"
  by (simp add: MetricPipeline_ConvertFrom_def MetricPipeline_ConvertTo_def Let_def
        Convert_v1alpha1_MetricPipeline_To_v1beta1_MetricPipeline_def
        Convert_v1beta1_MetricPipeline_To_v1alpha1_MetricPipeline_def
        MetricPipelineSpec_roundtrip)

definition sanitizeOTLPInputA :: "OTLPInputA \<Rightarrow> OTLPInputA" where
  "sanitizeOTLPInputA i = i\<lparr>oiA_Namespaces := map_option sanitizeSelector (oiA_Namespaces i)\<rparr>"

definition sanitizeMetricA :: "MetricPipelineA \<Rightarrow> MetricPipelineA" where
  "sanitizeMetricA p = p\<lparr>mpA_Spec := (mpA_Spec p)\<lparr>msA_Input := (msA_Input (mpA_Spec p))
     \<lparr>miA_Runtime := map_option sanitizeRuntimeInput (miA_Runtime (msA_Input (mpA_Spec p))),
      miA_OTLP := map_option sanitizeOTLPInputA (miA_OTLP (msA_Input (mpA_Spec p)))\<rparr>\<rparr>\<rparr>"

lemma OTLPInputA_roundtrip:
  "Convert_v1beta1_OTLPInput_To_v1alpha1_OTLPInput
     (Convert_v1alpha1_OTLPInput_To_v1beta1_OTLPInput i) = sanitizeOTLPInputA i"
  by (simp add: metric_conversion_defs sanitizeOTLPInputA_def option.map_comp)

lemma MetricPipelineInputA_roundtrip:
  "Convert_v1beta1_MetricPipelineInput_To_v1alpha1_MetricPipelineInput
     (snd (Convert_v1alpha1_MetricPipelineInput_To_v1beta1_MetricPipelineInput i)) =
   i\<lparr>miA_Runtime := map_option sanitizeRuntimeInput (miA_Runtime i),
     miA_OTLP := map_option sanitizeOTLPInputA (miA_OTLP i)\<rparr>"
  by (cases "miA_Runtime i"; cases "miA_OTLP i")
    (simp_all add: Convert_v1alpha1_MetricPipelineInput_To_v1beta1_MetricPipelineInput_def
       Convert_v1beta1_MetricPipelineInput_To_v1alpha1_MetricPipelineInput_def
       Convert_v1alpha1_MetricPipelineRuntimeInput_To_v1beta1_MetricPipelineRuntimeInput_def
       Convert_v1beta1_MetricPipelineRuntimeInput_To_v1alpha1_MetricPipelineRuntimeInput_def
       OTLPInputA_roundtrip sanitizeRuntimeInput_def Let_def)

text \<open>Converting a \<open>v1alpha1\<close> \<open>MetricPipeline\<close> to the hub and back only drops invalid namespace
  names; in particular it is the identity on an object whose selectors are valid.\<close>

lemma metric_pipeline_spoke_hub_spoke:
  "\<exists>a' h. MetricPipeline_ConvertTo a (HubMetricPipeline d) = Inr (a', h) \<and>
     MetricPipeline_ConvertFrom h = Inr (sanitizeMetricA a)"
  by (cases "msA_Output (mpA_Spec a)")
    (simp_all add: MetricPipeline_ConvertFrom_def MetricPipeline_ConvertTo_def Let_def
        Convert_v1alpha1_MetricPipeline_To_v1beta1_MetricPipeline_def
        Convert_v1beta1_MetricPipeline_To_v1alpha1_MetricPipeline_def
        Convert_v1alpha1_MetricPipelineSpec_To_v1beta1_MetricPipelineSpec_def
        Convert_v1beta1_MetricPipelineSpec_To_v1alpha1_MetricPipelineSpec_def
        Convert_v1alpha1_MetricPipelineOTLPOutput_To_v1beta1_MetricPipelineOTLPOutput_def
        Convert_v1beta1_MetricPipelineOTLPOutput_To_v1alpha1_MetricPipelineOTLPOutput_def
        MetricPipelineInputA_roundtrip OTLPOutput_roundtrip sanitizeMetricA_def)

subsection \<open>LogPipeline: the data annotation\<close>

lemma ConvertTo_LogPipeline_eq:
  assumes "cd_ToUnstructured cd src = Inr u"
    and "cd_Marshal cd (u(''status'' := None)) = Inr data"
  shows "LogPipeline_ConvertTo cd src (HubLogPipeline dst) =
    Inr (src\<lparr>lpA_ObjectMeta := (lpA_ObjectMeta src)\<lparr>om_Annotations :=
           map_option (\<lambda>m. m(dataAnnotation \<mapsto> data)) (om_Annotations (lpA_ObjectMeta src))\<rparr>\<rparr>,
         HubLogPipeline
           ((Convert_v1alpha1_LogPipeline_To_v1beta1_LogPipeline src dst)
              \<lparr>lp_ObjectMeta := (lpA_ObjectMeta src)\<lparr>om_Annotations :=
                 Some ((deref (om_Annotations (lpA_ObjectMeta src)) Map.empty)
                        (dataAnnotation \<mapsto> data))\<rparr>\<rparr>))"
  using assms
  by (cases "om_Annotations (lpA_ObjectMeta src)")
    (simp_all add: LogPipeline_ConvertTo_def marshalData_def Let_def
       Convert_v1alpha1_LogPipeline_To_v1beta1_LogPipeline_def)

text \<open>C17: a \<open>v1alpha1\<close> \<open>LogPipeline\<close> that is stored and read back unmodified has the specification and
  status it had, including the fields \<open>v1beta1\<close> cannot represent, and its metadata without the data
  annotation.  The assumptions say that the encoder accepts the object and that decoding what it
  encoded gives back the specification and the generation.\<close>

theorem log_pipeline_spoke_hub_spoke:
  assumes "cd_ToUnstructured cd src = Inr u"
    and "cd_Marshal cd (u(''status'' := None)) = Inr data"
    and "cd_Unmarshal cd data = Inr r"
    and "lpA_Spec r = lpA_Spec src"
    and "om_Generation (lpA_ObjectMeta r) = om_Generation (lpA_ObjectMeta src)"
  shows "\<exists>src' h h' lp. LogPipeline_ConvertTo cd src (HubLogPipeline dst) = Inr (src', h) \<and>
    LogPipeline_ConvertFrom cd dst' h = Inr (h', lp) \<and>
    lpA_Spec lp = lpA_Spec src \<and> lpA_Status lp = lpA_Status src \<and>
    lpA_ObjectMeta lp = (lpA_ObjectMeta src)\<lparr>om_Annotations :=
      Some ((deref (om_Annotations (lpA_ObjectMeta src)) Map.empty)(dataAnnotation := None))\<rparr>"
  unfolding ConvertTo_LogPipeline_eq [OF assms(1,2)]
  using assms(3-)
  by (simp add: LogPipeline_ConvertFrom_def unmarshalData_def Let_def
        Convert_v1alpha1_LogPipeline_To_v1beta1_LogPipeline_def
        Convert_v1beta1_LogPipeline_To_v1alpha1_LogPipeline_def)

text \<open>An instance: a pipeline that asks for the system namespaces, which \<open>v1beta1\<close> has no field for, and a
  codec that knows the JSON text of this one object.\<close>

definition sampleLogPipelineA :: LogPipelineA where
  "sampleLogPipelineA = zeroLogPipelineA
     \<lparr>lpA_ObjectMeta := zeroObjectMeta\<lparr>om_Name := ''sample'', om_Generation := 2\<rparr>,
      lpA_Spec := (lpA_Spec zeroLogPipelineA)\<lparr>lsA_Input := \<lparr>liA_Application = Some
        \<lparr>laiA_Enabled = Some True,
         laiA_Namespaces = \<lparr>lnsA_Include = [''app''], lnsA_Exclude = [], lnsA_System = True\<rparr>,
         laiA_Containers = \<lparr>lcs_Include = None, lcs_Exclude = None\<rparr>,
         laiA_FluentBitKeepAnnotations = None, laiA_FluentBitDropLabels = None,
         laiA_KeepOriginalBody = None\<rparr>, liA_OTLP = None\<rparr>\<rparr>\<rparr>"

definition sampleCodec :: "LogPipelineA codec" where
  "sampleCodec = \<lparr>cd_ToUnstructured = (\<lambda>lp. Inr [''spec'' \<mapsto> lp, ''status'' \<mapsto> lp]),
     cd_Marshal = (\<lambda>u. if u ''spec'' = Some sampleLogPipelineA \<and> u ''status'' = None
        then Inr ''sample-json'' else Inl ''unsupported value''),
     cd_Unmarshal = (\<lambda>s. if s = ''sample-json'' then Inr sampleLogPipelineA
        else Inl ''unexpected end of JSON input'')\<rparr>"

theorem log_pipeline_spoke_hub_spoke_witness:
  "\<exists>src' h h' lp.
    LogPipeline_ConvertTo sampleCodec sampleLogPipelineA (HubLogPipeline zeroLogPipeline) =
      Inr (src', h) \<and>
    LogPipeline_ConvertFrom sampleCodec zeroLogPipelineA h = Inr (h', lp) \<and>
    lpA_Spec lp = lpA_Spec sampleLogPipelineA \<and> lpA_Status lp = lpA_Status sampleLogPipelineA \<and>
    lpA_ObjectMeta lp = (lpA_ObjectMeta sampleLogPipelineA)\<lparr>om_Annotations :=
      Some ((deref (om_Annotations (lpA_ObjectMeta sampleLogPipelineA)) Map.empty)
        (dataAnnotation := None))\<rparr>"
  by (rule log_pipeline_spoke_hub_spoke
        [where u = "[''spec'' \<mapsto> sampleLogPipelineA, ''status'' \<mapsto> sampleLogPipelineA]"
           and data = "''sample-json''" and r = sampleLogPipelineA])
    (simp_all add: sampleCodec_def)

text \<open>When the stored object was changed after the annotation was written (another generation), the
  annotation does not win: the down-converted specification is computed from the stored one, and the
  annotation is removed from both objects.\<close>

lemma log_pipeline_stale_annotation:
  assumes "om_Annotations (lp_ObjectMeta src) = Some m"
    and "m dataAnnotation = Some data"
    and "cd_Unmarshal cd data = Inr r"
    and "om_Generation (lpA_ObjectMeta r) \<noteq> om_Generation (lp_ObjectMeta src)"
  shows "\<exists>h' lp. LogPipeline_ConvertFrom cd dst (HubLogPipeline src) = Inr (h', lp) \<and>
    lpA_Spec lp = Convert_v1beta1_LogPipelineSpec_To_v1alpha1_LogPipelineSpec
      (lp_Spec src) (lpA_Spec dst) \<and>
    om_Annotations (lpA_ObjectMeta lp) = Some (m(dataAnnotation := None)) \<and>
    h' = HubLogPipeline (src\<lparr>lp_ObjectMeta := lpA_ObjectMeta lp\<rparr>)"
  using assms
  by (simp add: LogPipeline_ConvertFrom_def unmarshalData_def Let_def
        Convert_v1beta1_LogPipeline_To_v1alpha1_LogPipeline_def)

lemma log_pipeline_stale_annotation_witness:
  "\<exists>h' lp. LogPipeline_ConvertFrom sampleCodec zeroLogPipelineA (HubLogPipeline (zeroLogPipeline
      \<lparr>lp_ObjectMeta := zeroObjectMeta\<lparr>om_Generation := 3,
        om_Annotations := Some [dataAnnotation \<mapsto> ''sample-json'']\<rparr>\<rparr>)) = Inr (h', lp) \<and>
    lpA_Spec lp = Convert_v1beta1_LogPipelineSpec_To_v1alpha1_LogPipelineSpec
      (lp_Spec zeroLogPipeline) (lpA_Spec zeroLogPipelineA) \<and>
    om_Annotations (lpA_ObjectMeta lp) = Some Map.empty"
  using log_pipeline_stale_annotation
    [of "zeroLogPipeline\<lparr>lp_ObjectMeta := zeroObjectMeta\<lparr>om_Generation := 3,
          om_Annotations := Some [dataAnnotation \<mapsto> ''sample-json'']\<rparr>\<rparr>"
        "[dataAnnotation \<mapsto> ''sample-json'']" "''sample-json''" sampleCodec sampleLogPipelineA
        zeroLogPipelineA]
  by (force simp: sampleCodec_def sampleLogPipelineA_def)

end
