(* ===== verification/Errors.thy ===== *)
theory Errors
  imports Go_Prelude
begin

text \<open>
  Error values.  Go's \<open>error\<close> is an interface; the values the sources create are the constructors of
  \<open>go_error\<close>: sentinels (compared by identity, so every sentinel is a constructor of its own, also where
  two of them have the same text), wrapped errors (\<open>fmt.Errorf\<close> with \<open>%w\<close>), joined errors, errors of the
  Kubernetes API and the error structs of the module.  \<open>errors.Is\<close> and \<open>errors.As\<close> follow \<open>Unwrap\<close>,
  which of the structs only \<open>EndpointInvalidError\<close> has.
\<close>

section \<open>Kubernetes API errors\<close>

datatype StatusReason = ReasonNotFound | ReasonAlreadyExists | ReasonConflict | ReasonOther string

record kube_error =
  ke_Reason :: StatusReason
  ke_Message :: string

definition IsNotFound :: "kube_error \<Rightarrow> bool" where
  "IsNotFound e \<longleftrightarrow> ke_Reason e = ReasonNotFound"

section \<open>The error values\<close>

datatype sentinel =
    ErrMaxPipelinesExceeded
  | ErrSecretKeyNotFound | ErrSecretRefNotFound | ErrSecretRefMissingFields
  | ErrValueOrSecretRefUndefined
  | ErrCertDecodeFailed | ErrCertParseFailed | ErrKeyDecodeFailed | ErrCADecodeFailed
  | ErrCAParseFailed | ErrMissingCertKeyPair | ErrTLSValueResolveFailed
  | ErrInvalidCertificateKeyPair | ErrCertIsNotCA
  | ErrEndpointValueResolveFailed | ErrPortMissing | ErrUnsupportedScheme | ErrGRPCOAuth2NoTLS
  | ErrHTTPWithTLS | ErrGRPCWithPath
  | ErrNoPodsDeployed | ErrDaemonSetNotFound | ErrDaemonSetFetching | ErrDeploymentNotFound
  | ErrDeploymentFetching | ErrFailedToGetLatestReplicaSet
  | ErrClientStopped | ErrUnsupportedOutputType
  | errInvalidPipelineDefinition

text \<open>\<open>Errorf pre e post\<close> is \<open>fmt.Errorf(pre + "%w" + post, e)\<close>; \<open>NewError\<close> is an error created on the
  spot; the times of the certificate errors are in nanoseconds since the epoch.\<close>

datatype go_error =
    Sentinel sentinel
  | NewError string
  | KubeError kube_error
  | Errorf string go_error string
  | Joined "go_error list"
  | APIRequestFailedError go_error
  | EndpointInvalidError go_error
  | CertExpiredError int bool
  | CertAboutToExpireError int bool
  | InvalidOTTLSpecError go_error
  | InvalidAdditionalMetricError go_error
  | PodIsNotScheduledError string
  | PodIsPendingError string string string
  | PodIsFailingError string
  | FailedToListReplicaSetError go_error
  | FailedToFetchReplicaSetError go_error
  | RolloutInProgressError

text \<open>\<open>errors.As\<close> with a target type: the first error of the wrapped tree, in depth-first order, that
  the target accepts.\<close>

fun errors_As :: "(go_error \<Rightarrow> 'a option) \<Rightarrow> go_error \<Rightarrow> 'a option"
  and errors_As_list :: "(go_error \<Rightarrow> 'a option) \<Rightarrow> go_error list \<Rightarrow> 'a option" where
  "errors_As p e = (case p e of
     Some a \<Rightarrow> Some a
   | None \<Rightarrow>
       (case e of
          Errorf _ e' _ \<Rightarrow> errors_As p e'
        | EndpointInvalidError e' \<Rightarrow> errors_As p e'
        | Joined es \<Rightarrow> errors_As_list p es
        | _ \<Rightarrow> None))"
| "errors_As_list p [] = None"
| "errors_As_list p (e # es) =
     (case errors_As p e of Some a \<Rightarrow> Some a | None \<Rightarrow> errors_As_list p es)"

declare errors_As.simps [simp del]

lemma errors_As_unfold [simp]:
  "errors_As p (Sentinel s) = p (Sentinel s)"
  "errors_As p (NewError m) = p (NewError m)"
  "errors_As p (KubeError k) = p (KubeError k)"
  "errors_As p (APIRequestFailedError e) = p (APIRequestFailedError e)"
  "errors_As p (CertExpiredError t ca) = p (CertExpiredError t ca)"
  "errors_As p (CertAboutToExpireError t ca) = p (CertAboutToExpireError t ca)"
  "errors_As p (InvalidOTTLSpecError e) = p (InvalidOTTLSpecError e)"
  "errors_As p (InvalidAdditionalMetricError e) = p (InvalidAdditionalMetricError e)"
  "errors_As p (PodIsNotScheduledError m) = p (PodIsNotScheduledError m)"
  "errors_As p (PodIsPendingError c r m) = p (PodIsPendingError c r m)"
  "errors_As p (PodIsFailingError m) = p (PodIsFailingError m)"
  "errors_As p (FailedToListReplicaSetError e) = p (FailedToListReplicaSetError e)"
  "errors_As p (FailedToFetchReplicaSetError e) = p (FailedToFetchReplicaSetError e)"
  "errors_As p RolloutInProgressError = p RolloutInProgressError"
  by (simp_all add: errors_As.simps split: option.split)

lemma errors_As_wrapped:
  "errors_As p (Errorf a e b) =
     (case p (Errorf a e b) of Some x \<Rightarrow> Some x | None \<Rightarrow> errors_As p e)"
  "errors_As p (EndpointInvalidError e) =
     (case p (EndpointInvalidError e) of Some x \<Rightarrow> Some x | None \<Rightarrow> errors_As p e)"
  "errors_As p (Joined es) =
     (case p (Joined es) of Some x \<Rightarrow> Some x | None \<Rightarrow> errors_As_list p es)"
  by (simp_all add: errors_As.simps [of p "Errorf a e b"]
      errors_As.simps [of p "EndpointInvalidError e"] errors_As.simps [of p "Joined es"] split: option.split)

text \<open>\<open>errors.Is\<close> for a sentinel target.\<close>

definition errors_Is :: "go_error \<Rightarrow> sentinel \<Rightarrow> bool" where
  "errors_Is e s \<longleftrightarrow> errors_As (\<lambda>x. if x = Sentinel s then Some () else None) e \<noteq> None"

lemma errors_Is_simps [simp]:
  "errors_Is (Sentinel t) s \<longleftrightarrow> t = s"
  "errors_Is (NewError m) s = False"
  "errors_Is (KubeError k) s = False"
  "errors_Is (APIRequestFailedError e) s = False"
  "errors_Is (CertExpiredError x ca) s = False"
  "errors_Is (CertAboutToExpireError x ca) s = False"
  "errors_Is (InvalidOTTLSpecError e) s = False"
  "errors_Is (InvalidAdditionalMetricError e) s = False"
  "errors_Is (Errorf a e b) s = errors_Is e s"
  "errors_Is (EndpointInvalidError e) s = errors_Is e s"
  "errors_Is (PodIsNotScheduledError m) s = False"
  "errors_Is (PodIsPendingError c r m) s = False"
  "errors_Is (PodIsFailingError m) s = False"
  "errors_Is (FailedToListReplicaSetError e) s = False"
  "errors_Is (FailedToFetchReplicaSetError e) s = False"
  "errors_Is RolloutInProgressError s = False"
  by (simp_all add: errors_Is_def errors_As_wrapped)

text \<open>The type tests of the module, each an \<open>errors.As\<close>.\<close>

definition asAPIRequestFailed :: "go_error \<Rightarrow> go_error option" where
  "asAPIRequestFailed = errors_As (\<lambda>e. case e of APIRequestFailedError d \<Rightarrow> Some d | _ \<Rightarrow> None)"

definition IsCertExpiredError :: "go_error \<Rightarrow> bool" where
  "IsCertExpiredError e \<longleftrightarrow>
     errors_As (\<lambda>e. case e of CertExpiredError t ca \<Rightarrow> Some (t, ca) | _ \<Rightarrow> None) e \<noteq> None"

definition IsCertAboutToExpireError :: "go_error \<Rightarrow> bool" where
  "IsCertAboutToExpireError e \<longleftrightarrow>
     errors_As (\<lambda>e. case e of CertAboutToExpireError t ca \<Rightarrow> Some (t, ca) | _ \<Rightarrow> None) e \<noteq> None"

definition IsEndpointInvalidError :: "go_error \<Rightarrow> bool" where
  "IsEndpointInvalidError e \<longleftrightarrow>
     errors_As (\<lambda>e. case e of EndpointInvalidError d \<Rightarrow> Some d | _ \<Rightarrow> None) e \<noteq> None"

definition IsInvalidOTTLSpecError :: "go_error \<Rightarrow> bool" where
  "IsInvalidOTTLSpecError e \<longleftrightarrow>
     errors_As (\<lambda>e. case e of InvalidOTTLSpecError d \<Rightarrow> Some d | _ \<Rightarrow> None) e \<noteq> None"

definition IsInvalidAdditionalMetricError :: "go_error \<Rightarrow> bool" where
  "IsInvalidAdditionalMetricError e \<longleftrightarrow>
     errors_As (\<lambda>e. case e of InvalidAdditionalMetricError d \<Rightarrow> Some d | _ \<Rightarrow> None) e \<noteq> None"

definition IsRolloutInProgressError :: "go_error \<Rightarrow> bool" where
  "IsRolloutInProgressError e \<longleftrightarrow>
     errors_As (\<lambda>e. case e of RolloutInProgressError \<Rightarrow> Some () | _ \<Rightarrow> None) e \<noteq> None"

lemmas error_type_defs =
  asAPIRequestFailed_def IsCertExpiredError_def IsCertAboutToExpireError_def
  IsEndpointInvalidError_def IsInvalidOTTLSpecError_def IsInvalidAdditionalMetricError_def
  IsRolloutInProgressError_def

lemma error_types_direct [simp]:
  "IsCertExpiredError (CertExpiredError t ca)"
  "IsCertAboutToExpireError (CertAboutToExpireError t ca)"
  "IsEndpointInvalidError (EndpointInvalidError e)"
  "IsInvalidOTTLSpecError (InvalidOTTLSpecError e)"
  "IsInvalidAdditionalMetricError (InvalidAdditionalMetricError e)"
  "asAPIRequestFailed (APIRequestFailedError e) = Some e"
  by (simp_all add: error_type_defs errors_As_wrapped)

text \<open>The certificate errors see through a wrap, as every target of the module does.\<close>

lemma error_types_wrapped [simp]:
  "IsCertExpiredError (Errorf a e b) = IsCertExpiredError e"
  "IsCertAboutToExpireError (Errorf a e b) = IsCertAboutToExpireError e"
  "IsEndpointInvalidError (Errorf a e b) = IsEndpointInvalidError e"
  "asAPIRequestFailed (Errorf a e b) = asAPIRequestFailed e"
  by (simp_all add: error_type_defs errors_As_wrapped)

section \<open>Messages\<close>

primrec sentinel_msg :: "sentinel \<Rightarrow> string" where
  "sentinel_msg ErrMaxPipelinesExceeded = ''maximum pipeline count limit exceeded''"
| "sentinel_msg ErrSecretKeyNotFound = ''one or more keys in a referenced Secret are missing''"
| "sentinel_msg ErrSecretRefNotFound = ''one or more referenced Secrets are missing''"
| "sentinel_msg ErrSecretRefMissingFields = ''secret reference is missing field/s''"
| "sentinel_msg ErrValueOrSecretRefUndefined =
     ''either value or secret key reference must be defined''"
| "sentinel_msg ErrCertDecodeFailed = ''failed to decode PEM block containing certificate''"
| "sentinel_msg ErrCertParseFailed = ''failed to parse certificate''"
| "sentinel_msg ErrKeyDecodeFailed = ''failed to decode PEM block containing private key''"
| "sentinel_msg ErrCADecodeFailed = ''failed to decode PEM block containing CA certificate''"
| "sentinel_msg ErrCAParseFailed = ''failed to parse CA certificate''"
| "sentinel_msg ErrMissingCertKeyPair =
     ''a certificate and private key must either both be provided or both be missing''"
| "sentinel_msg ErrTLSValueResolveFailed = ''failed to resolve value''"
| "sentinel_msg ErrInvalidCertificateKeyPair = ''certificate and private key do not match''"
| "sentinel_msg ErrCertIsNotCA = ''not a CA certificate''"
| "sentinel_msg ErrEndpointValueResolveFailed = ''failed to resolve value''"
| "sentinel_msg ErrPortMissing = ''missing port''"
| "sentinel_msg ErrUnsupportedScheme = ''missing or unsupported protocol scheme''"
| "sentinel_msg ErrGRPCOAuth2NoTLS = ''OAuth2 requires TLS when using gRPC protocol''"
| "sentinel_msg ErrHTTPWithTLS = ''HTTP scheme with TLS not allowed''"
| "sentinel_msg ErrGRPCWithPath = ''gRPC endpoints cannot contain paths''"
| "sentinel_msg ErrNoPodsDeployed = ''no Pods deployed''"
| "sentinel_msg ErrDaemonSetNotFound = ''DaemonSet is not yet created''"
| "sentinel_msg ErrDaemonSetFetching = ''failed to get DaemonSet''"
| "sentinel_msg ErrDeploymentNotFound = ''deployment is not yet created''"
| "sentinel_msg ErrDeploymentFetching = ''failed to get Deployment''"
| "sentinel_msg ErrFailedToGetLatestReplicaSet = ''failed to get latest ReplicaSets''"
| "sentinel_msg ErrClientStopped = ''secret watcher client has been stopped''"
| "sentinel_msg ErrUnsupportedOutputType = ''unsupported output type''"
| "sentinel_msg errInvalidPipelineDefinition = ''invalid pipeline definition''"

text \<open>\<open>time.Format(time.DateOnly)\<close> of a UTC time: the proleptic Gregorian date of a day number, and
  its digits.\<close>

definition civil_from_days :: "int \<Rightarrow> int \<times> int \<times> int" where
  "civil_from_days days =
     (let z = days + 719468;
          era = z div 146097;
          doe = z mod 146097;
          yoe = (doe - doe div 1460 + doe div 36524 - doe div 146096) div 365;
          doy = doe - (365 * yoe + yoe div 4 - yoe div 100);
          mp = (5 * doy + 2) div 153;
          d = doy - (153 * mp + 2) div 5 + 1;
          m = (if mp < 10 then mp + 3 else mp - 9);
          y = yoe + era * 400 + (if m \<le> 2 then 1 else 0)
      in (y, m, d))"

definition digit :: "nat \<Rightarrow> char" where
  "digit n = ''0123456789'' ! (n mod 10)"

fun padded :: "nat \<Rightarrow> nat \<Rightarrow> string" where
  "padded 0 n = []"
| "padded (Suc w) n = padded w (n div 10) @ [digit n]"

definition DateOnly :: "int \<Rightarrow> string" where
  "DateOnly t =
     (let (y, m, d) = civil_from_days (t div 86400000000000)
      in padded 4 (nat y) @ ''-'' @ padded 2 (nat m) @ ''-'' @ padded 2 (nat d))"

lemma DateOnly_leap_day: "DateOnly 951782400000000000 = ''2000-02-29''"
  by code_simp

text \<open>\<open>err.Error()\<close>.\<close>

fun err_msg :: "go_error \<Rightarrow> string" where
  "err_msg (Sentinel s) = sentinel_msg s"
| "err_msg (NewError m) = m"
| "err_msg (KubeError k) = ke_Message k"
| "err_msg (Errorf pre e post) = pre @ err_msg e @ post"
| "err_msg (Joined es) = Join (map err_msg es) [CHR 0x0A]"
| "err_msg (APIRequestFailedError e) = err_msg e"
| "err_msg (EndpointInvalidError e) = err_msg e"
| "err_msg (CertExpiredError t ca) =
     (if ca then ''TLS CA certificate expired on '' @ DateOnly t
      else ''TLS certificate expired on '' @ DateOnly t)"
| "err_msg (CertAboutToExpireError t ca) =
     (if ca
      then ''TLS CA certificate is about to expire, configured certificate is valid until '' @
             DateOnly t
      else ''TLS certificate is about to expire, configured certificate is valid until '' @
             DateOnly t)"
| "err_msg (InvalidOTTLSpecError e) = err_msg e"
| "err_msg (InvalidAdditionalMetricError e) = err_msg e"
| "err_msg (PodIsNotScheduledError m) = ''Pod is not scheduled: '' @ m"
| "err_msg (PodIsPendingError c r m) =
     ''Pod is in the pending state: reason: '' @ r @ '', message: '' @ m"
| "err_msg (PodIsFailingError m) = ''Pod has failed: '' @ m"
| "err_msg (FailedToListReplicaSetError e) = ''failed to list ReplicaSets: '' @ err_msg e"
| "err_msg (FailedToFetchReplicaSetError e) = ''failed to fetch ReplicaSets: '' @ err_msg e"
| "err_msg RolloutInProgressError = ''Rollout is in progress''"

end
