(* ===== verification/Kube.thy ===== *)
theory Kube
  imports Api_Types Errors
begin

text \<open>
  The Kubernetes API as the controllers use it.  The client (\<open>sigs.k8s.io/controller-runtime\<close>) and the
  API server behind it are not part of the repository: operations that talk to them take the client
  as an argument, a record of functions on a server state.  What the code relies on are the laws of
  the locale \<open>optimistic_api\<close>: reads return stored objects, every write gets a new resource version and
  an update is refused unless it carries the current one.

  On top of it stands the read--modify--write pattern that the pipeline lock and the coordination
  ConfigMap share: a reconciler reads an object (from a cache, so possibly an old version), decides
  what to write, and writes.  \<open>rmw_step\<close> interleaves any number of such reconcilers; the locale \<open>rmw\<close>
  shows that every write that is applied was decided on the version it replaces, and derives the
  invariant rule that the components use.
\<close>

section \<open>ConfigMaps and the client\<close>

record ConfigMap =
  cm_ObjectMeta :: ObjectMeta
  cm_Data :: "(string \<rightharpoonup> string) option"

definition cm_key :: "ConfigMap \<Rightarrow> NamespacedName" where
  "cm_key cm = \<lparr>nn_Namespace = om_Namespace (cm_ObjectMeta cm), nn_Name = om_Name (cm_ObjectMeta cm)\<rparr>"

definition cm_RV :: "ConfigMap \<Rightarrow> string" where
  "cm_RV cm = om_ResourceVersion (cm_ObjectMeta cm)"

definition cm_Owners :: "ConfigMap \<Rightarrow> OwnerReference list" where
  "cm_Owners cm = om_OwnerReferences (cm_ObjectMeta cm)"

definition set_RV :: "string \<Rightarrow> ConfigMap \<Rightarrow> ConfigMap" where
  "set_RV v cm = cm\<lparr>cm_ObjectMeta := (cm_ObjectMeta cm)\<lparr>om_ResourceVersion := v\<rparr>\<rparr>"

lemma set_RV_simps [simp]:
  "cm_key (set_RV v cm) = cm_key cm"
  "cm_RV (set_RV v cm) = v"
  "cm_Owners (set_RV v cm) = cm_Owners cm"
  "cm_Data (set_RV v cm) = cm_Data cm"
  by (simp_all add: set_RV_def cm_key_def cm_RV_def cm_Owners_def)

text \<open>What the server keeps of an object it is sent, besides the metadata it manages itself.\<close>

definition same_content :: "ConfigMap \<Rightarrow> ConfigMap \<Rightarrow> bool" where
  "same_content a b \<longleftrightarrow> cm_key a = cm_key b \<and> cm_Owners a = cm_Owners b \<and> cm_Data a = cm_Data b"

record 's cm_client =
  cc_Get :: "NamespacedName \<Rightarrow> 's \<Rightarrow> (kube_error, ConfigMap) result"
  cc_Create :: "ConfigMap \<Rightarrow> 's \<Rightarrow> 's \<times> kube_error option"
  cc_Update :: "ConfigMap \<Rightarrow> 's \<Rightarrow> 's \<times> kube_error option"

datatype cm_write = WCreate ConfigMap | WUpdate ConfigMap

primrec exec_write :: "'s cm_client \<Rightarrow> cm_write \<Rightarrow> 's \<Rightarrow> 's \<times> kube_error option" where
  "exec_write c (WCreate cm) s = cc_Create c cm s"
| "exec_write c (WUpdate cm) s = cc_Update c cm s"

section \<open>The laws of the API\<close>

text \<open>\<open>store\<close> is what the server holds, \<open>rvn\<close> its revision counter and \<open>fmt\<close> how a revision is written as
  a resource version.  A call may fail for reasons of its own, and a failing write may or may not have
  been applied (a time-out); one that returns no error was applied.\<close>

locale optimistic_api =
  fixes c :: "'s cm_client"
    and store :: "'s \<Rightarrow> NamespacedName \<Rightarrow> ConfigMap option"
    and rvn :: "'s \<Rightarrow> nat"
    and fmt :: "nat \<Rightarrow> string"
  assumes get_found: "cc_Get c k s = Inr cm \<Longrightarrow> store s k = Some cm"
    and get_missing: "cc_Get c k s = Inl e \<Longrightarrow> IsNotFound e \<Longrightarrow> store s k = None"
    and store_key: "store s k = Some cm \<Longrightarrow> cm_key cm = k"
    and store_rev: "store s k = Some cm \<Longrightarrow> \<exists>n\<le>rvn s. cm_RV cm = fmt n"
    and fmt_inj: "fmt m = fmt n \<Longrightarrow> m = n"
    and fmt_nonempty: "fmt n \<noteq> []"
    and create_law: "cc_Create c cm s = (s', err) \<Longrightarrow>
      (err \<noteq> None \<and> store s' = store s \<and> rvn s' = rvn s) \<or>
      (store s (cm_key cm) = None \<and> rvn s < rvn s' \<and>
       (\<exists>cm'. same_content cm cm' \<and> cm_RV cm' = fmt (rvn s') \<and>
          store s' = (store s)(cm_key cm \<mapsto> cm')))"
    and update_law: "cc_Update c cm s = (s', err) \<Longrightarrow> cm_RV cm \<noteq> [] \<Longrightarrow>
      (err \<noteq> None \<and> store s' = store s \<and> rvn s' = rvn s) \<or>
      (\<exists>cur. store s (cm_key cm) = Some cur \<and> cm_RV cur = cm_RV cm \<and> rvn s < rvn s' \<and>
       (\<exists>cm'. same_content cm cm' \<and> cm_RV cm' = fmt (rvn s') \<and>
          store s' = (store s)(cm_key cm \<mapsto> cm')))"
begin

lemma store_RV_nonempty: "store s k = Some cm \<Longrightarrow> cm_RV cm \<noteq> []"
  using store_rev fmt_nonempty by metis

text \<open>A revision that is written later than \<open>rvn s\<close> is different from every version stored in \<open>s\<close>.\<close>

lemma fresh_RV: "store s k = Some cm \<Longrightarrow> rvn s < n \<Longrightarrow> cm_RV cm \<noteq> fmt n"
  using store_rev fmt_inj by (metis not_le)

end

section \<open>Interleaved read--modify--write\<close>

text \<open>\<open>rw_Past\<close> are the states the server has been in: a read through a cache sees one of them.
  \<open>rw_Pending\<close> are the writes that have been decided and not yet sent, per reconciler, and \<open>rw_Log\<close> the
  reconcilers whose writes were applied, in order.\<close>

record ('s, 'p) rmw_state =
  rw_Server :: 's
  rw_Past :: "'s list"
  rw_Pending :: "'p \<Rightarrow> cm_write option"
  rw_Log :: "'p list"

inductive rmw_step ::
    "'s cm_client \<Rightarrow> ('s \<Rightarrow> nat) \<Rightarrow> NamespacedName \<Rightarrow>
      ('p \<Rightarrow> (kube_error, ConfigMap) result \<Rightarrow> cm_write option) \<Rightarrow> ('s \<Rightarrow> 's \<Rightarrow> bool) \<Rightarrow>
      ('s, 'p) rmw_state \<Rightarrow> ('s, 'p) rmw_state \<Rightarrow> bool"
  for c rvn key decide env where
  rmw_read: "s0 \<in> set (rw_Server st # rw_Past st) \<Longrightarrow>
    rmw_step c rvn key decide env st
      (st\<lparr>rw_Pending := (rw_Pending st)(p := decide p (cc_Get c key s0))\<rparr>)"
| rmw_write: "rw_Pending st p = Some w \<Longrightarrow> exec_write c w (rw_Server st) = (s', err) \<Longrightarrow>
    rmw_step c rvn key decide env st
      \<lparr>rw_Server = s', rw_Past = rw_Server st # rw_Past st,
       rw_Pending = (rw_Pending st)(p := None),
       rw_Log = (if rvn s' = rvn (rw_Server st) then rw_Log st else rw_Log st @ [p])\<rparr>"
| rmw_env: "env (rw_Server st) s' \<Longrightarrow>
    rmw_step c rvn key decide env st
      (st\<lparr>rw_Server := s', rw_Past := rw_Server st # rw_Past st\<rparr>)"

inductive rmw_reach ::
    "'s cm_client \<Rightarrow> ('s \<Rightarrow> nat) \<Rightarrow> NamespacedName \<Rightarrow>
      ('p \<Rightarrow> (kube_error, ConfigMap) result \<Rightarrow> cm_write option) \<Rightarrow> ('s \<Rightarrow> 's \<Rightarrow> bool) \<Rightarrow>
      's \<Rightarrow> ('s, 'p) rmw_state \<Rightarrow> bool"
  for c rvn key decide env s0 where
  rmw_init: "rmw_reach c rvn key decide env s0
    \<lparr>rw_Server = s0, rw_Past = [], rw_Pending = (\<lambda>_. None), rw_Log = []\<rparr>"
| rmw_next: "rmw_reach c rvn key decide env s0 st \<Longrightarrow> rmw_step c rvn key decide env st st' \<Longrightarrow>
    rmw_reach c rvn key decide env s0 st'"

inductive_cases rmw_stepE: "rmw_step c rvn key decide env st st'"

text \<open>A reconciler decides on an update only for an object it has read, keeping its resource version,
  and on a creation only when the object is missing.  The environment may write too, at new revisions,
  or delete.\<close>

locale rmw = optimistic_api +
  fixes key :: NamespacedName
    and decide :: "'p \<Rightarrow> (kube_error, ConfigMap) result \<Rightarrow> cm_write option"
    and env :: "'s \<Rightarrow> 's \<Rightarrow> bool"
  assumes decide_update: "decide p r = Some (WUpdate cm) \<Longrightarrow>
      \<exists>cur. r = Inr cur \<and> cm_RV cm = cm_RV cur \<and> cm_key cm = cm_key cur"
    and decide_create: "decide p r = Some (WCreate cm) \<Longrightarrow>
      \<exists>e. r = Inl e \<and> IsNotFound e \<and> cm_key cm = key"
    and env_rev: "env s s' \<Longrightarrow> rvn s \<le> rvn s'"
    and env_write: "env s s' \<Longrightarrow> store s' k = Some cm \<Longrightarrow>
      store s k = Some cm \<or> (\<exists>n. rvn s < n \<and> cm_RV cm = fmt n)"
begin

lemma write_cases:
  assumes "exec_write c w s = (s', err)" and "decide p (cc_Get c key s0) = Some w"
  obtains (refused) "store s' = store s" "rvn s' = rvn s" "err \<noteq> None"
  | (created) cm cm' e where "w = WCreate cm" "cc_Get c key s0 = Inl e" "IsNotFound e"
      "store s key = None" "rvn s < rvn s'" "same_content cm cm'" "cm_RV cm' = fmt (rvn s')"
      "store s' = (store s)(key \<mapsto> cm')"
  | (updated) cm cm' cur read where "w = WUpdate cm" "cc_Get c key s0 = Inr read"
      "store s key = Some cur" "cm_RV cur = cm_RV read" "rvn s < rvn s'" "same_content cm cm'"
      "cm_RV cm' = fmt (rvn s')" "store s' = (store s)(key \<mapsto> cm')"
proof (cases w)
  case (WCreate cm)
  with assms(2) obtain e where e: "cc_Get c key s0 = Inl e" "IsNotFound e" "cm_key cm = key"
    using decide_create by blast
  from WCreate assms(1) have "cc_Create c cm s = (s', err)" by simp
  from create_law [OF this] show thesis
    using that(1) that(2) [OF WCreate e(1,2)] e(3) by fastforce
next
  case (WUpdate cm)
  with assms(2) obtain cur where cur: "cc_Get c key s0 = Inr cur" "cm_RV cm = cm_RV cur"
    "cm_key cm = cm_key cur"
    using decide_update by blast
  then have stored: "store s0 key = Some cur" by (simp add: get_found)
  then have k: "cm_key cm = key" "cm_RV cm \<noteq> []"
    using cur store_key store_RV_nonempty by simp_all
  from WUpdate assms(1) have "cc_Update c cm s = (s', err)" by simp
  from update_law [OF this k(2)] show thesis
    using that(1) that(3) [OF WUpdate cur(1)] k(1) cur(2) by fastforce
qed

lemma write_elsewhere:
  assumes "exec_write c w s = (s', err)" and "decide p (cc_Get c key s0) = Some w" and "k \<noteq> key"
  shows "store s' k = store s k"
  using assms by (cases rule: write_cases) auto

text \<open>The versions a server has shown identify their contents.\<close>

definition coherent :: "'s \<Rightarrow> 's \<Rightarrow> bool" where
  "coherent s0 s \<longleftrightarrow> rvn s0 \<le> rvn s \<and>
     (\<forall>k cm0 cm. store s0 k = Some cm0 \<longrightarrow> store s k = Some cm \<longrightarrow> cm_RV cm0 = cm_RV cm \<longrightarrow> cm0 = cm)"

definition rmw_inv :: "('s, 'p) rmw_state \<Rightarrow> bool" where
  "rmw_inv st \<longleftrightarrow>
     (\<forall>s0\<in>set (rw_Server st # rw_Past st). coherent s0 (rw_Server st)) \<and>
     (\<forall>p w. rw_Pending st p = Some w \<longrightarrow>
        (\<exists>s0\<in>set (rw_Server st # rw_Past st). decide p (cc_Get c key s0) = Some w))"

lemma rmw_inv_pending:
  "rmw_inv st \<Longrightarrow> rw_Pending st p = Some w \<Longrightarrow>
    \<exists>s0. coherent s0 (rw_Server st) \<and> decide p (cc_Get c key s0) = Some w"
  unfolding rmw_inv_def by blast

lemma coherent_refl [simp]: "coherent s s"
  by (simp add: coherent_def)

lemma coherent_trans_write:
  assumes "coherent s0 s" and "rvn s \<le> rvn s'"
    and "\<And>k cm. store s' k = Some cm \<Longrightarrow>
      store s k = Some cm \<or> (\<exists>n. rvn s < n \<and> cm_RV cm = fmt n)"
  shows "coherent s0 s'"
  unfolding coherent_def
proof (intro conjI allI impI)
  show "rvn s0 \<le> rvn s'" using assms(1,2) by (auto simp: coherent_def)
  fix k cm0 cm
  assume *: "store s0 k = Some cm0" "store s' k = Some cm" "cm_RV cm0 = cm_RV cm"
  from assms(3) [OF *(2)] show "cm0 = cm"
  proof
    assume "store s k = Some cm"
    with * assms(1) show ?thesis by (auto simp: coherent_def)
  next
    assume "\<exists>n. rvn s < n \<and> cm_RV cm = fmt n"
    then obtain n where "rvn s < n" "cm_RV cm = fmt n" by blast
    with assms(1) fresh_RV [OF *(1), of n] *(3) show ?thesis by (simp add: coherent_def)
  qed
qed

lemma write_new_revision:
  assumes "exec_write c w s = (s', err)" and "decide p (cc_Get c key s0) = Some w"
  shows "rvn s \<le> rvn s' \<and> (\<forall>k cm. store s' k = Some cm \<longrightarrow>
    store s k = Some cm \<or> (\<exists>n. rvn s < n \<and> cm_RV cm = fmt n))"
  using assms by (cases rule: write_cases) auto

lemma rmw_inv_reach:
  "rmw_reach c rvn key decide env s0 st \<Longrightarrow> rmw_inv st"
proof (induction rule: rmw_reach.induct)
  case rmw_init
  then show ?case by (simp add: rmw_inv_def)
next
  case (rmw_next st st')
  from rmw_next.hyps(2) show ?case
  proof (cases rule: rmw_step.cases)
    case (rmw_read s0 p)
    with rmw_next.IH show ?thesis by (auto simp: rmw_inv_def)
  next
    case (rmw_write p w s' err)
    from rmw_inv_pending [OF rmw_next.IH rmw_write(2)]
    obtain s0 where "decide p (cc_Get c key s0) = Some w" by blast
    note new = write_new_revision [OF rmw_write(3) this]
    then have "coherent s1 s'" if "coherent s1 (rw_Server st)" for s1
      using coherent_trans_write [OF that] by blast
    with rmw_next.IH rmw_write(1) show ?thesis by (auto simp: rmw_inv_def)
  next
    case (rmw_env s')
    then have "coherent s1 s'" if "coherent s1 (rw_Server st)" for s1
      using coherent_trans_write [OF that env_rev] env_write by blast
    with rmw_next.IH rmw_env(1) show ?thesis by (auto simp: rmw_inv_def)
  qed
qed

text \<open>The serialisation lemma: a write that is applied was decided on the version it replaces.\<close>

lemma applied_write:
  assumes "rmw_reach c rvn key decide env s0 st" and "rw_Pending st p = Some w"
    and "exec_write c w (rw_Server st) = (s', err)" and "rvn s' \<noteq> rvn (rw_Server st)"
  obtains (create) cm cm' e where "w = WCreate cm" "IsNotFound e" "decide p (Inl e) = Some w"
      "store (rw_Server st) key = None" "same_content cm cm'"
      "store s' = (store (rw_Server st))(key \<mapsto> cm')"
  | (update) cm cm' cur where "w = WUpdate cm" "store (rw_Server st) key = Some cur"
      "decide p (Inr cur) = Some w" "same_content cm cm'"
      "store s' = (store (rw_Server st))(key \<mapsto> cm')"
proof -
  from assms(1) have "rmw_inv st" by (rule rmw_inv_reach)
  from rmw_inv_pending [OF this assms(2)] obtain s1 where
    coh: "coherent s1 (rw_Server st)" and s1: "decide p (cc_Get c key s1) = Some w" by blast
  from assms(3) s1 show thesis
  proof (cases rule: write_cases)
    case refused
    with assms(4) show thesis by simp
  next
    case (created cm cm' e)
    with s1 show thesis by (intro create) simp_all
  next
    case (updated cm cm' cur read)
    then have "store s1 key = Some read" by (simp add: get_found)
    with coh updated(3,4) have "read = cur" by (simp add: coherent_def)
    with updated s1 show thesis by (intro update) simp_all
  qed
qed

text \<open>The invariant rule: a property of the stored object and of the log of applied writes holds in
  every interleaving if every decision taken on the current object keeps it.\<close>

lemma rmw_invariant:
  assumes reach: "rmw_reach c rvn key decide env s0 st"
    and init: "P [] (store s0 key)"
    and create: "\<And>l p e cm cm'. P l None \<Longrightarrow> IsNotFound e \<Longrightarrow>
      decide p (Inl e) = Some (WCreate cm) \<Longrightarrow> same_content cm cm' \<Longrightarrow> P (l @ [p]) (Some cm')"
    and update: "\<And>l p cur cm cm'. P l (Some cur) \<Longrightarrow> decide p (Inr cur) = Some (WUpdate cm) \<Longrightarrow>
      same_content cm cm' \<Longrightarrow> P (l @ [p]) (Some cm')"
    and environment: "\<And>l s s'. P l (store s key) \<Longrightarrow> env s s' \<Longrightarrow> P l (store s' key)"
  shows "P (rw_Log st) (store (rw_Server st) key)"
  using reach
proof (induction rule: rmw_reach.induct)
  case rmw_init
  then show ?case by (simp add: init)
next
  case (rmw_next st st')
  from rmw_next.hyps(2) show ?case
  proof (cases rule: rmw_step.cases)
    case (rmw_read s1 p)
    with rmw_next.IH show ?thesis by simp
  next
    case (rmw_write p w s' err)
    show ?thesis
    proof (cases "rvn s' = rvn (rw_Server st)")
      case True
      from rmw_inv_pending [OF rmw_inv_reach [OF rmw_next.hyps(1)] rmw_write(2)] obtain s1
        where "decide p (cc_Get c key s1) = Some w" by blast
      from rmw_write(3) this True have "store s' = store (rw_Server st)"
        by (cases rule: write_cases) auto
      with True rmw_write(1) rmw_next.IH show ?thesis by simp
    next
      case False
      from rmw_next.hyps(1) rmw_write(2,3) False show ?thesis
      proof (cases rule: applied_write)
        case (create cm cm' e)
        with assms(3) rmw_next.IH False rmw_write(1) show ?thesis by simp
      next
        case (update cm cm' cur)
        with assms(4) rmw_next.IH False rmw_write(1) show ?thesis by simp
      qed
    qed
  next
    case (rmw_env s')
    with rmw_next.IH environment show ?thesis by simp
  qed
qed

end

section \<open>An API server in memory\<close>

text \<open>A server that satisfies the laws: its state is the list of writes it has accepted, newest first, and
  the revision of a write is its position.  As in Kubernetes, an update without a resource version is
  unconditional.\<close>

datatype mem_event = Put ConfigMap | Del NamespacedName

definition rv_fmt :: "nat \<Rightarrow> string" where
  "rv_fmt n = replicate (Suc n) (CHR ''1'')"

fun mem_store :: "mem_event list \<Rightarrow> NamespacedName \<Rightarrow> ConfigMap option" where
  "mem_store [] k = None"
| "mem_store (Put cm # s) k =
     (if cm_key cm = k then Some (set_RV (rv_fmt (Suc (length s))) cm) else mem_store s k)"
| "mem_store (Del k' # s) k = (if k' = k then None else mem_store s k)"

definition mem_Get :: "NamespacedName \<Rightarrow> mem_event list \<Rightarrow> (kube_error, ConfigMap) result" where
  "mem_Get k s = (case mem_store s k of
     None \<Rightarrow> Inl \<lparr>ke_Reason = ReasonNotFound, ke_Message = ''not found''\<rparr>
   | Some cm \<Rightarrow> Inr cm)"

definition mem_Create :: "ConfigMap \<Rightarrow> mem_event list \<Rightarrow> mem_event list \<times> kube_error option" where
  "mem_Create cm s = (case mem_store s (cm_key cm) of
     None \<Rightarrow> (Put cm # s, None)
   | Some _ \<Rightarrow> (s, Some \<lparr>ke_Reason = ReasonAlreadyExists, ke_Message = ''already exists''\<rparr>))"

definition mem_Update :: "ConfigMap \<Rightarrow> mem_event list \<Rightarrow> mem_event list \<times> kube_error option" where
  "mem_Update cm s = (case mem_store s (cm_key cm) of
     None \<Rightarrow> (s, Some \<lparr>ke_Reason = ReasonNotFound, ke_Message = ''not found''\<rparr>)
   | Some cur \<Rightarrow>
       if cm_RV cm = [] \<or> cm_RV cm = cm_RV cur then (Put cm # s, None)
       else (s, Some \<lparr>ke_Reason = ReasonConflict, ke_Message = ''the object has been modified''\<rparr>))"

definition mem_client :: "mem_event list cm_client" where
  "mem_client = \<lparr>cc_Get = mem_Get, cc_Create = mem_Create, cc_Update = mem_Update\<rparr>"

lemma mem_client_simps [simp]:
  "cc_Get mem_client = mem_Get" "cc_Create mem_client = mem_Create"
  "cc_Update mem_client = mem_Update"
  by (simp_all add: mem_client_def)

lemma rv_fmt_inj: "rv_fmt m = rv_fmt n \<Longrightarrow> m = n"
  unfolding rv_fmt_def by (metis length_replicate nat.inject)

lemma mem_store_rev: "mem_store s k = Some cm \<Longrightarrow> \<exists>n\<le>length s. cm_RV cm = rv_fmt n"
  by (induction s k rule: mem_store.induct) (auto split: if_splits intro: le_SucI)

lemma mem_store_key: "mem_store s k = Some cm \<Longrightarrow> cm_key cm = k"
  by (induction s k rule: mem_store.induct) (auto split: if_splits)

lemma mem_store_Put:
  "mem_store (Put cm # s) = (mem_store s)(cm_key cm \<mapsto> set_RV (rv_fmt (Suc (length s))) cm)"
  by (rule ext) simp

lemma same_content_set_RV [simp]: "same_content cm (set_RV v cm)"
  by (simp add: same_content_def)

interpretation mem: optimistic_api mem_client mem_store length rv_fmt
proof
  fix k s cm
  show "cc_Get mem_client k s = Inr cm \<Longrightarrow> mem_store s k = Some cm"
    by (simp add: mem_Get_def split: option.splits)
next
  fix cm s s' err
  assume "cc_Create mem_client cm s = (s', err)"
  then show "(err \<noteq> None \<and> mem_store s' = mem_store s \<and> length s' = length s) \<or>
      (mem_store s (cm_key cm) = None \<and> length s < length s' \<and>
       (\<exists>cm'. same_content cm cm' \<and> cm_RV cm' = rv_fmt (length s') \<and>
          mem_store s' = (mem_store s)(cm_key cm \<mapsto> cm')))"
    by (auto simp: mem_Create_def mem_store_Put split: option.splits
        intro!: exI [where x = "set_RV (rv_fmt (Suc (length s))) cm"])
next
  fix cm s s' err
  assume "cc_Update mem_client cm s = (s', err)" and "cm_RV cm \<noteq> []"
  then show "(err \<noteq> None \<and> mem_store s' = mem_store s \<and> length s' = length s) \<or>
      (\<exists>cur. mem_store s (cm_key cm) = Some cur \<and> cm_RV cur = cm_RV cm \<and> length s < length s' \<and>
       (\<exists>cm'. same_content cm cm' \<and> cm_RV cm' = rv_fmt (length s') \<and>
          mem_store s' = (mem_store s)(cm_key cm \<mapsto> cm')))"
    by (auto simp: mem_Update_def mem_store_Put split: option.splits if_splits
        intro!: exI [where x = "set_RV (rv_fmt (Suc (length s))) cm"])
qed (auto simp: mem_Get_def rv_fmt_def mem_store_key dest: mem_store_rev rv_fmt_inj
     split: option.splits)

section \<open>Secrets\<close>

record Secret =
  sec_ObjectMeta :: ObjectMeta
  sec_Data :: "string \<rightharpoonup> string"

text \<open>A \<open>client.Reader\<close> restricted to secrets.\<close>

type_synonym secret_reader = "NamespacedName \<Rightarrow> (kube_error, Secret) result"

end
