(* ===== verification/SecretRef.thy ===== *)
theory SecretRef
  imports Kube
begin

text \<open>
  \<open>internal/validators/secretref/secret_ref.go\<close> and \<open>ResolveValue\<close> of \<open>internal/utils/sharedtypes\<close>:
  which secrets a pipeline references, whether they can be read, and the values they hold.  The secrets
  are read through a \<open>client.Reader\<close>, a parameter.
\<close>

section \<open>Reading a value\<close>

definition checkForMissingFields :: "SecretKeyRef \<Rightarrow> go_error option" where
  "checkForMissingFields ref =
     (let missingAttributes =
            (if skr_Name ref = [] then [''Name''] else []) @
            (if skr_Namespace ref = [] then [''Namespace''] else []) @
            (if skr_Key ref = [] then [''Key''] else [])
      in if missingAttributes \<noteq> []
         then Some (Errorf [] (Sentinel ErrSecretRefMissingFields)
                ('': '' @ Join missingAttributes '', ''))
         else None)"

definition secretKeyRefName :: "SecretKeyRef \<Rightarrow> NamespacedName" where
  "secretKeyRefName ref = \<lparr>nn_Namespace = skr_Namespace ref, nn_Name = skr_Name ref\<rparr>"

definition GetValue :: "secret_reader \<Rightarrow> SecretKeyRef \<Rightarrow> (go_error, string) result" where
  "GetValue get ref =
     (case checkForMissingFields ref of
        Some e \<Rightarrow> Inl e
      | None \<Rightarrow>
          (case get (secretKeyRefName ref) of
             Inl e \<Rightarrow>
               (if IsNotFound e
                then Inl (Errorf [] (Sentinel ErrSecretRefNotFound)
                       ('': Secret '' @ quoted (skr_Name ref) @ '' of Namespace '' @
                        quoted (skr_Namespace ref)))
                else Inl (APIRequestFailedError
                       (Errorf (''failed to get Secret '' @ quoted (skr_Name ref) @
                          '' of Namespace '' @ quoted (skr_Namespace ref) @ '': '') (KubeError e) [])))
           | Inr secret \<Rightarrow>
               (case sec_Data secret (skr_Key ref) of
                  Some v \<Rightarrow> Inr v
                | None \<Rightarrow>
                    Inl (Errorf [] (Sentinel ErrSecretKeyNotFound)
                      ('': Key '' @ quoted (skr_Key ref) @ '' in Secret '' @ quoted (skr_Name ref) @
                       '' of Namespace '' @ quoted (skr_Namespace ref))))))"

text \<open>\<open>sharedtypes.ResolveValue\<close> dereferences \<open>value.ValueFrom\<close> without a check.\<close>

definition ResolveValue :: "secret_reader \<Rightarrow> ValueType \<Rightarrow> (go_error, string) result go" where
  "ResolveValue get v =
     (if vt_Value v \<noteq> [] then Ret (Inr (vt_Value v))
      else gderef (vt_ValueFrom v) (\<lambda>vf.
        case vfs_SecretKeyRef vf of
          Some ref \<Rightarrow> Ret (GetValue get ref)
        | None \<Rightarrow> Ret (Inl (Sentinel ErrValueOrSecretRefUndefined))))"

section \<open>The references of a pipeline\<close>

definition appendIfSecretRef :: "SecretKeyRef list \<Rightarrow> ValueType option \<Rightarrow> SecretKeyRef list" where
  "appendIfSecretRef refs v =
     (case v of
        None \<Rightarrow> refs
      | Some vt \<Rightarrow>
          (if vt_Value vt = [] then
             (case vt_ValueFrom vt of
                None \<Rightarrow> refs
              | Some vf \<Rightarrow>
                  (case vfs_SecretKeyRef vf of None \<Rightarrow> refs | Some ref \<Rightarrow> refs @ [ref]))
           else refs))"

definition getSecretRefsInHTTPOutput :: "FluentBitHTTPOutput option \<Rightarrow> SecretKeyRef list" where
  "getSecretRefsInHTTPOutput httpOutput =
     (case httpOutput of
        None \<Rightarrow> []
      | Some h \<Rightarrow>
          foldl appendIfSecretRef []
            [Some (fh_Host h), fh_User h, fh_Password h,
             tls_CA (fh_TLS h), tls_Cert (fh_TLS h), tls_Key (fh_TLS h)])"

definition getSecretRefsInOTLPOutput :: "OTLPOutput \<Rightarrow> SecretKeyRef list" where
  "getSecretRefsInOTLPOutput otlpOut =
     (let refs1 = appendIfSecretRef [] (Some (oo_Endpoint otlpOut));
          basic = Option.bind (oo_Authentication otlpOut) ao_Basic;
          refs2 = (case basic of
              None \<Rightarrow> refs1
            | Some b \<Rightarrow> appendIfSecretRef (appendIfSecretRef refs1 (Some (ba_User b)))
                          (Some (ba_Password b)));
          oauth2 = Option.bind (oo_Authentication otlpOut) ao_OAuth2;
          refs3 = (case oauth2 of
              None \<Rightarrow> refs2
            | Some a \<Rightarrow> appendIfSecretRef (appendIfSecretRef (appendIfSecretRef refs2
                          (Some (oa_TokenURL a))) (Some (oa_ClientID a))) (Some (oa_ClientSecret a)));
          refs4 = foldl (\<lambda>refs h. appendIfSecretRef refs (Some (h_ValueType h))) refs3
                    (oo_Headers otlpOut)
      in case oo_TLS otlpOut of
           None \<Rightarrow> refs4
         | Some t \<Rightarrow>
             (if \<not> tls_Insecure t
              then appendIfSecretRef (appendIfSecretRef (appendIfSecretRef refs4
                     (tls_CA t)) (tls_Cert t)) (tls_Key t)
              else refs4))"

definition getSecretRefsFluentBitLogPipeline :: "LogPipeline \<Rightarrow> SecretKeyRef list" where
  "getSecretRefsFluentBitLogPipeline lp =
     foldl (\<lambda>refs v. case vfs_SecretKeyRef (fbv_ValueFrom v) of
              None \<Rightarrow> refs | Some ref \<Rightarrow> refs @ [ref]) [] (ls_FluentBitVariables (lp_Spec lp)) @
     getSecretRefsInHTTPOutput (lo_FluentBitHTTP (ls_Output (lp_Spec lp)))"

definition GetSecretRefsTracePipeline :: "TracePipeline \<Rightarrow> SecretKeyRef list go" where
  "GetSecretRefsTracePipeline tp =
     gderef (tps_Output (tp_Spec tp)) (\<lambda>out. Ret (getSecretRefsInOTLPOutput out))"

definition GetSecretRefsMetricPipeline :: "MetricPipeline \<Rightarrow> SecretKeyRef list go" where
  "GetSecretRefsMetricPipeline mp =
     gderef (ms_Output (mp_Spec mp)) (\<lambda>out. Ret (getSecretRefsInOTLPOutput (mo_OTLPOutput out)))"

definition GetSecretRefsLogPipeline :: "LogPipeline \<Rightarrow> SecretKeyRef list" where
  "GetSecretRefsLogPipeline lp =
     (case lo_OTLP (ls_Output (lp_Spec lp)) of
        Some out \<Rightarrow> getSecretRefsInOTLPOutput out
      | None \<Rightarrow> getSecretRefsFluentBitLogPipeline lp)"

definition RefsToSecretNames :: "SecretKeyRef list \<Rightarrow> NamespacedName list" where
  "RefsToSecretNames refs = dedup_seen {} (map secretKeyRefName refs)"

section \<open>Validation\<close>

definition secretref_validate :: "secret_reader \<Rightarrow> SecretKeyRef list \<Rightarrow> go_error option" where
  "secretref_validate get refs =
     range_check (\<lambda>ref. case GetValue get ref of Inl e \<Rightarrow> Some e | Inr _ \<Rightarrow> None) refs"

definition secretref_ValidateTracePipeline :: "secret_reader \<Rightarrow> TracePipeline \<Rightarrow> go_error option go" where
  "secretref_ValidateTracePipeline get tp =
     gbind (GetSecretRefsTracePipeline tp) (\<lambda>refs. Ret (secretref_validate get refs))"

definition secretref_ValidateMetricPipeline ::
    "secret_reader \<Rightarrow> MetricPipeline \<Rightarrow> go_error option go" where
  "secretref_ValidateMetricPipeline get mp =
     gbind (GetSecretRefsMetricPipeline mp) (\<lambda>refs. Ret (secretref_validate get refs))"

definition secretref_ValidateLogPipeline :: "secret_reader \<Rightarrow> LogPipeline \<Rightarrow> go_error option" where
  "secretref_ValidateLogPipeline get lp = secretref_validate get (GetSecretRefsLogPipeline lp)"

section \<open>Properties\<close>

definition opt_list :: "'a option \<Rightarrow> 'a list" where
  "opt_list x = (case x of None \<Rightarrow> [] | Some y \<Rightarrow> [y])"

text \<open>The values an OTLP output is rendered from: TLS values only when TLS is on.\<close>

definition tlsValues :: "OutputTLS \<Rightarrow> ValueType list" where
  "tlsValues t = concat (map opt_list [tls_CA t, tls_Cert t, tls_Key t])"

definition otlpValues :: "OTLPOutput \<Rightarrow> ValueType list" where
  "otlpValues out =
     [oo_Endpoint out] @
     (case Option.bind (oo_Authentication out) ao_Basic of
        None \<Rightarrow> [] | Some b \<Rightarrow> [ba_User b, ba_Password b]) @
     (case Option.bind (oo_Authentication out) ao_OAuth2 of
        None \<Rightarrow> [] | Some a \<Rightarrow> [oa_TokenURL a, oa_ClientID a, oa_ClientSecret a]) @
     map h_ValueType (oo_Headers out) @
     (case oo_TLS out of None \<Rightarrow> [] | Some t \<Rightarrow> if tls_Insecure t then [] else tlsValues t)"

definition secretRefOf :: "ValueType \<Rightarrow> SecretKeyRef option" where
  "secretRefOf v =
     (if vt_Value v = [] then Option.bind (vt_ValueFrom v) vfs_SecretKeyRef else None)"

definition secretRefsOf :: "ValueType list \<Rightarrow> SecretKeyRef list" where
  "secretRefsOf vs = concat (map (\<lambda>v. opt_list (secretRefOf v)) vs)"

lemma secretRefsOf_simps [simp]:
  "secretRefsOf [] = []" "secretRefsOf (v # vs) = opt_list (secretRefOf v) @ secretRefsOf vs"
  "secretRefsOf (vs @ ws) = secretRefsOf vs @ secretRefsOf ws"
  by (simp_all add: secretRefsOf_def)

lemma set_secretRefsOf: "ref \<in> set (secretRefsOf vs) \<longleftrightarrow> (\<exists>v\<in>set vs. secretRefOf v = Some ref)"
  by (force simp: secretRefsOf_def opt_list_def split: option.splits)

lemma appendIfSecretRef_simps [simp]:
  "appendIfSecretRef refs (Some v) = refs @ opt_list (secretRefOf v)"
  "appendIfSecretRef refs None = refs"
  by (auto simp: appendIfSecretRef_def secretRefOf_def opt_list_def split: option.split)

lemma foldl_append_refs:
  "foldl (\<lambda>refs h. refs @ opt_list (secretRefOf (h_ValueType h))) refs hs =
     refs @ secretRefsOf (map h_ValueType hs)"
  by (induction hs arbitrary: refs) simp_all

lemma append_tlsValues:
  "appendIfSecretRef (appendIfSecretRef (appendIfSecretRef refs (tls_CA t)) (tls_Cert t)) (tls_Key t) =
     refs @ secretRefsOf (tlsValues t)"
  by (cases "tls_CA t"; cases "tls_Cert t"; cases "tls_Key t") (simp_all add: tlsValues_def opt_list_def)

lemma getSecretRefsInOTLPOutput_eq:
  "getSecretRefsInOTLPOutput out = secretRefsOf (otlpValues out)"
  by (cases "Option.bind (oo_Authentication out) ao_Basic";
      cases "Option.bind (oo_Authentication out) ao_OAuth2"; cases "oo_TLS out")
    (simp_all add: getSecretRefsInOTLPOutput_def otlpValues_def foldl_append_refs append_tlsValues)

lemma secretref_validate_None:
  "secretref_validate get refs = None \<longleftrightarrow> (\<forall>ref\<in>set refs. \<exists>b. GetValue get ref = Inr b)"
proof -
  have "(case r of Inl e \<Rightarrow> Some e | Inr _ \<Rightarrow> None) = None \<longleftrightarrow> (\<exists>b. r = Inr b)"
    for r :: "(go_error, string) result"
    by (cases r) simp_all
  then show ?thesis by (simp add: secretref_validate_def range_check_None)
qed

lemma ResolveValue_defined:
  assumes "vt_Value v \<noteq> [] \<or> secretRefOf v \<noteq> None"
  shows "(\<exists>b. ResolveValue get v = Ret (Inr b)) \<longleftrightarrow>
    (\<forall>ref. secretRefOf v = Some ref \<longrightarrow> (\<exists>b. GetValue get ref = Inr b))"
  using assms by (auto simp: ResolveValue_def secretRefOf_def bind_eq_Some_conv split: if_splits)

text \<open>The secret references of a metric pipeline validate if and only if every value of its output
  resolves, so a pipeline that passed can be rendered and none is rejected whose values resolve.  Every
  value is either given or refers to a secret, as the resource definition demands.\<close>

lemma secretref_validates_resolvable:
  assumes "ms_Output (mp_Spec mp) = Some out"
    and "\<forall>v\<in>set (otlpValues (mo_OTLPOutput out)). vt_Value v \<noteq> [] \<or> secretRefOf v \<noteq> None"
  shows "secretref_ValidateMetricPipeline get mp = Ret None \<longleftrightarrow>
    (\<forall>v\<in>set (otlpValues (mo_OTLPOutput out)). \<exists>b. ResolveValue get v = Ret (Inr b))"
proof -
  have "secretref_ValidateMetricPipeline get mp = Ret None \<longleftrightarrow>
      (\<forall>v\<in>set (otlpValues (mo_OTLPOutput out)). \<forall>ref. secretRefOf v = Some ref \<longrightarrow>
         (\<exists>b. GetValue get ref = Inr b))"
    using assms(1)
    by (auto simp: secretref_ValidateMetricPipeline_def GetSecretRefsMetricPipeline_def
        secretref_validate_None getSecretRefsInOTLPOutput_eq set_secretRefsOf)
  also have "\<dots> \<longleftrightarrow> (\<forall>v\<in>set (otlpValues (mo_OTLPOutput out)). \<exists>b. ResolveValue get v = Ret (Inr b))"
    using assms(2) by (intro ball_cong refl, subst ResolveValue_defined) simp_all
  finally show ?thesis .
qed

definition plainValue :: "string \<Rightarrow> ValueType" where
  "plainValue s = \<lparr>vt_Value = s, vt_ValueFrom = None\<rparr>"

definition secretValue :: "string \<Rightarrow> string \<Rightarrow> string \<Rightarrow> ValueType" where
  "secretValue ns name key = \<lparr>vt_Value = [], vt_ValueFrom = Some \<lparr>vfs_SecretKeyRef = Some
     \<lparr>skr_Name = name, skr_Namespace = ns, skr_Key = key\<rparr>\<rparr>\<rparr>"

definition plainOTLPOutput :: "ValueType \<Rightarrow> OTLPOutput" where
  "plainOTLPOutput endpoint = \<lparr>oo_Protocol = OTLPProtocolGRPC, oo_Endpoint = endpoint, oo_Path = [],
     oo_Authentication = None, oo_Headers = [], oo_TLS = None, oo_Compression = []\<rparr>"

definition metricPipelineWith :: "OTLPOutput \<Rightarrow> MetricPipeline" where
  "metricPipelineWith out = zeroMetricPipeline\<lparr>mp_Spec := (mp_Spec zeroMetricPipeline)
     \<lparr>ms_Output := Some \<lparr>mo_OTLPOutput = out, mo_Temporality = None\<rparr>\<rparr>\<rparr>"

lemma secretref_validates_resolvable_witness:
  "secretref_ValidateMetricPipeline
      (\<lambda>_. Inr \<lparr>sec_ObjectMeta = zeroObjectMeta, sec_Data = [''key'' \<mapsto> ''https://backend:4317'']\<rparr>)
      (metricPipelineWith (plainOTLPOutput (secretValue ''ns'' ''creds'' ''key''))) = Ret None"
proof -
  have "ms_Output (mp_Spec (metricPipelineWith (plainOTLPOutput (secretValue ''ns'' ''creds'' ''key'')))) =
      Some \<lparr>mo_OTLPOutput = plainOTLPOutput (secretValue ''ns'' ''creds'' ''key''), mo_Temporality = None\<rparr>"
    by (simp add: metricPipelineWith_def)
  from secretref_validates_resolvable [OF this] show ?thesis
    by (simp add: otlpValues_def plainOTLPOutput_def secretValue_def secretRefOf_def ResolveValue_def
        GetValue_def checkForMissingFields_def)
qed

end
