(* ===== verification/EndpointValidator.thy ===== *)
theory EndpointValidator
  imports SecretRef
begin

text \<open>
  \<open>internal/validators/endpoint/endpoint_validator.go\<close>.  \<open>net.SplitHostPort\<close> and \<open>strconv.Atoi\<close> are modelled;
  \<open>url.Parse\<close> is an argument.
\<close>

section \<open>Go library functions\<close>

fun indexOf :: "char \<Rightarrow> string \<Rightarrow> nat option" where
  "indexOf c [] = None"
| "indexOf c (x # xs) = (if x = c then Some 0 else map_option Suc (indexOf c xs))"

fun lastIndexOf :: "char \<Rightarrow> string \<Rightarrow> nat option" where
  "lastIndexOf c [] = None"
| "lastIndexOf c (x # xs) =
     (case lastIndexOf c xs of
        Some i \<Rightarrow> Some (Suc i)
      | None \<Rightarrow> if x = c then Some 0 else None)"

lemma lastIndexOf_None: "lastIndexOf c s = None \<longleftrightarrow> c \<notin> set s"
  by (induction s) (auto split: option.splits)

lemma lastIndexOf_append: "c \<notin> set t \<Longrightarrow> lastIndexOf c (s @ c # t) = Some (length s)"
  by (induction s) (auto simp: lastIndexOf_None split: option.splits)

text \<open>\<open>net.AddrError\<close>'s message and \<open>net.SplitHostPort\<close>.\<close>

definition addrErr :: "string \<Rightarrow> string \<Rightarrow> string" where
  "addrErr addr why = (if addr = [] then why else ''address '' @ addr @ '': '' @ why)"

definition splitRest :: "string \<Rightarrow> nat \<Rightarrow> string \<Rightarrow> nat \<Rightarrow> nat \<Rightarrow> (string, string \<times> string) result" where
  "splitRest hostport i host j k =
     (if CHR ''['' \<in> set (drop j hostport)
      then Inl (addrErr hostport (''unexpected '' @ quoted ''['' @ '' in address''))
      else if CHR '']'' \<in> set (drop k hostport)
      then Inl (addrErr hostport (''unexpected '' @ quoted '']'' @ '' in address''))
      else Inr (host, drop (i + 1) hostport))"

definition SplitHostPort :: "string \<Rightarrow> (string, string \<times> string) result" where
  "SplitHostPort hostport =
     (let missingPort = Inl (addrErr hostport ''missing port in address'');
          tooManyColons = Inl (addrErr hostport ''too many colons in address'')
      in case lastIndexOf (CHR '':'') hostport of
           None \<Rightarrow> missingPort
         | Some i \<Rightarrow>
             (if hd hostport = CHR ''['' then
                (case indexOf (CHR '']'') hostport of
                   None \<Rightarrow> Inl (addrErr hostport (''missing '' @ quoted '']'' @ '' in address''))
                 | Some e \<Rightarrow>
                     (if e + 1 = length hostport then missingPort
                      else if e + 1 = i then splitRest hostport i (drop 1 (take e hostport)) 1 (e + 1)
                      else if hostport ! (e + 1) = CHR '':'' then tooManyColons
                      else missingPort))
              else if CHR '':'' \<in> set (take i hostport) then tooManyColons
              else splitRest hostport i (take i hostport) 0 0))"

lemma SplitHostPort_join:
  assumes "set host \<inter> {CHR '':'', CHR ''['', CHR '']''} = {}"
    and "set port \<inter> {CHR '':'', CHR ''['', CHR '']''} = {}"
  shows "SplitHostPort (host @ CHR '':'' # port) = Inr (host, port)"
proof -
  have "lastIndexOf (CHR '':'') (host @ CHR '':'' # port) = Some (length host)"
    using assms by (intro lastIndexOf_append) auto
  moreover have "hd (host @ CHR '':'' # port) \<noteq> CHR ''[''"
    using assms by (cases host) auto
  ultimately show ?thesis
    using assms by (auto simp: SplitHostPort_def splitRest_def Let_def)
qed

text \<open>\<open>strconv.Atoi\<close>: an optional sign, at least one digit, and a value that fits 64 bits.\<close>

definition isDigit :: "char \<Rightarrow> bool" where
  "isDigit c \<longleftrightarrow> 48 \<le> (of_char c :: nat) \<and> (of_char c :: nat) \<le> 57"

definition digitsVal :: "string \<Rightarrow> int" where
  "digitsVal s = foldl (\<lambda>n c. 10 * n + (of_char c - 48)) 0 s"

definition Atoi :: "string \<Rightarrow> int option" where
  "Atoi s =
     (let neg = (s \<noteq> [] \<and> hd s = CHR ''-'');
          ds = (if s \<noteq> [] \<and> (hd s = CHR ''-'' \<or> hd s = CHR ''+'') then tl s else s);
          n = (if neg then - digitsVal ds else digitsVal ds)
      in if ds \<noteq> [] \<and> list_all isDigit ds \<and> - (2 ^ 63) \<le> n \<and> n < 2 ^ 63 then Some n else None)"

fun ReplaceFirst :: "string \<Rightarrow> string \<Rightarrow> string \<Rightarrow> string" where
  "ReplaceFirst [] old new = (if old = [] then new else [])"
| "ReplaceFirst (c # s) old new =
     (if HasPrefix (c # s) old then new @ drop (length old) (c # s)
      else c # ReplaceFirst s old new)"

record URL =
  u_Scheme :: string
  u_Opaque :: string
  u_Host :: string
  u_Path :: string

section \<open>The validator\<close>

definition FluentdProtocolHTTP :: OTLPProtocol where
  "FluentdProtocolHTTP = ''fluentd-http''"

record EndpointValidationParams =
  evp_Endpoint :: "ValueType option"
  evp_Protocol :: OTLPProtocol
  evp_OutputTLS :: "OutputTLS option"
  evp_OTLPOAuth2 :: "OAuth2Options option"

definition endpointErr :: "sentinel \<Rightarrow> go_error" where
  "endpointErr s = EndpointInvalidError (Sentinel s)"

definition endpoint_resolveValue :: "secret_reader \<Rightarrow> ValueType \<Rightarrow> (go_error, string) result" where
  "endpoint_resolveValue get v =
     (if vt_Value v \<noteq> [] then Inr (vt_Value v)
      else case Option.bind (vt_ValueFrom v) vfs_SecretKeyRef of
          None \<Rightarrow> Inl (endpointErr ErrEndpointValueResolveFailed)
        | Some ref \<Rightarrow>
            (case GetValue get ref of
               Inl e \<Rightarrow> Inl (endpointErr ErrEndpointValueResolveFailed)
             | Inr b \<Rightarrow> Inr b))"

type_synonym url_parser = "string \<Rightarrow> (string, URL) result"

definition parseEndpoint :: "url_parser \<Rightarrow> string \<Rightarrow> (go_error, URL) result" where
  "parseEndpoint parse endpoint =
     (case parse endpoint of
        Inl e \<Rightarrow> Inl (EndpointInvalidError (NewError e))
      | Inr u \<Rightarrow>
          (if u_Opaque u \<noteq> [] \<or> u_Scheme u = [] \<or> u_Host u = [] then
             (case parse (''plhd://'' @ endpoint) of
                Inl e \<Rightarrow> Inl (EndpointInvalidError (NewError (ReplaceFirst e ''plhd://'' [])))
              | Inr u' \<Rightarrow> Inr (u'\<lparr>u_Scheme := []\<rparr>))
           else Inr u))"

definition validatePort :: "string \<Rightarrow> bool \<Rightarrow> go_error option" where
  "validatePort hostport allowMissing =
     (case SplitHostPort hostport of
        Inl err \<Rightarrow>
          (if Contains err ''missing port in address'' then
             (if \<not> allowMissing then Some (endpointErr ErrPortMissing) else None)
           else Some (EndpointInvalidError (NewError err)))
      | Inr (_, port) \<Rightarrow>
          (if allowMissing then None
           else if port = [] \<or> Atoi port = None then Some (endpointErr ErrPortMissing)
           else None))"

definition validateSchemeHTTP :: "string \<Rightarrow> go_error option" where
  "validateSchemeHTTP scheme =
     (if scheme \<noteq> ''http'' \<and> scheme \<noteq> ''https'' then Some (endpointErr ErrUnsupportedScheme) else None)"

definition validateGRPCPath :: "string \<Rightarrow> go_error option" where
  "validateGRPCPath path = (if path \<noteq> [] then Some (endpointErr ErrGRPCWithPath) else None)"

definition validateGRPCWithOAuth2 :: "string \<Rightarrow> OutputTLS option \<Rightarrow> go_error option" where
  "validateGRPCWithOAuth2 scheme t =
     (if (case t of None \<Rightarrow> False | Some tls \<Rightarrow> tls_Insecure tls)
      then Some (endpointErr ErrGRPCOAuth2NoTLS)
      else if scheme = ''http''
      then Some (EndpointInvalidError
             (NewError (sentinel_msg ErrGRPCOAuth2NoTLS @ '': HTTP scheme not allowed'')))
      else None)"

definition isTLSConfigured :: "OutputTLS option \<Rightarrow> bool" where
  "isTLSConfigured t =
     (case t of
        None \<Rightarrow> False
      | Some tls \<Rightarrow>
          (if tls_Insecure tls then False
           else tls_CA tls \<noteq> None \<or> tls_Cert tls \<noteq> None \<or> tls_Key tls \<noteq> None))"

definition validateHTTPWithOAuth2 :: "string \<Rightarrow> OutputTLS option \<Rightarrow> go_error option" where
  "validateHTTPWithOAuth2 scheme t =
     (if scheme = ''http'' \<and> isTLSConfigured t then Some (endpointErr ErrHTTPWithTLS) else None)"

text \<open>With OAuth2 and a protocol that is neither gRPC nor HTTP the function value is nil, and calling it
  panics.\<close>

definition endpoint_oauth2 :: "EndpointValidationParams \<Rightarrow> URL \<Rightarrow> go_error option go" where
  "endpoint_oauth2 params u =
     (case evp_OTLPOAuth2 params of
        None \<Rightarrow> Ret None
      | Some _ \<Rightarrow>
          (if evp_Protocol params = OTLPProtocolGRPC
           then Ret (validateGRPCWithOAuth2 (u_Scheme u) (evp_OutputTLS params))
           else if evp_Protocol params = OTLPProtocolHTTP
           then Ret (validateHTTPWithOAuth2 (u_Scheme u) (evp_OutputTLS params))
           else Panic))"

definition endpoint_checks :: "EndpointValidationParams \<Rightarrow> URL \<Rightarrow> go_error option go" where
  "endpoint_checks params u =
     gcheck (Ret (validatePort (u_Host u) (evp_Protocol params \<noteq> OTLPProtocolGRPC)))
       (if evp_Protocol params = FluentdProtocolHTTP then Ret None
        else
          gcheck (Ret (if evp_Protocol params = OTLPProtocolHTTP
                       then validateSchemeHTTP (u_Scheme u) else None))
          (gcheck (Ret (if evp_Protocol params = OTLPProtocolGRPC
                        then validateGRPCPath (u_Path u) else None))
            (endpoint_oauth2 params u)))"

definition endpoint_Validate ::
    "url_parser \<Rightarrow> secret_reader \<Rightarrow> EndpointValidationParams \<Rightarrow> go_error option go" where
  "endpoint_Validate parse get params =
     (case evp_Endpoint params of
        None \<Rightarrow> Ret (Some (endpointErr ErrEndpointValueResolveFailed))
      | Some v \<Rightarrow>
          (case rbind (endpoint_resolveValue get v) (parseEndpoint parse) of
             Inl e \<Rightarrow> Ret (Some e)
           | Inr u \<Rightarrow> endpoint_checks params u))"

section \<open>Properties\<close>

lemma IsEndpointInvalidError_intro [simp]:
  "IsEndpointInvalidError (EndpointInvalidError e)" "IsEndpointInvalidError (endpointErr s)"
  by (simp_all add: IsEndpointInvalidError_def errors_As_wrapped endpointErr_def)

lemma endpoint_resolveValue_error:
  "endpoint_resolveValue get v = Inl e \<Longrightarrow> IsEndpointInvalidError e"
  by (auto simp: endpoint_resolveValue_def split: if_splits option.splits sum.splits)

lemma parseEndpoint_error: "parseEndpoint parse s = Inl e \<Longrightarrow> IsEndpointInvalidError e"
  by (auto simp: parseEndpoint_def split: if_splits sum.splits)

lemma endpoint_step_errors:
  "validatePort h a = Some e \<Longrightarrow> IsEndpointInvalidError e"
  "validateSchemeHTTP s = Some e \<Longrightarrow> IsEndpointInvalidError e"
  "validateGRPCPath p = Some e \<Longrightarrow> IsEndpointInvalidError e"
  "validateGRPCWithOAuth2 s t = Some e \<Longrightarrow> IsEndpointInvalidError e"
  "validateHTTPWithOAuth2 s t = Some e \<Longrightarrow> IsEndpointInvalidError e"
  by (auto simp: validatePort_def validateSchemeHTTP_def validateGRPCPath_def
      validateGRPCWithOAuth2_def validateHTTPWithOAuth2_def split: if_splits sum.splits option.splits)

text \<open>Every error of the endpoint validator is an \<open>EndpointInvalidError\<close>, which the status handlers
  turn into the endpoint-invalid condition, and with one of the two OTLP protocols or Fluent Bit's it
  never panics.\<close>

lemma endpoint_Validate_total:
  assumes "evp_Protocol params \<in> {OTLPProtocolGRPC, OTLPProtocolHTTP, FluentdProtocolHTTP}"
  shows "\<exists>r. endpoint_Validate parse get params = Ret r \<and>
    (\<forall>e. r = Some e \<longrightarrow> IsEndpointInvalidError e)"
proof -
  have oauth2: "\<exists>r. endpoint_oauth2 params u = Ret r \<and> (\<forall>e. r = Some e \<longrightarrow> IsEndpointInvalidError e)"
    if "evp_Protocol params \<noteq> FluentdProtocolHTTP" for u
    using assms that endpoint_step_errors(4,5)
    by (auto simp: endpoint_oauth2_def split: option.split)
  have checks: "\<exists>r. endpoint_checks params u = Ret r \<and> (\<forall>e. r = Some e \<longrightarrow> IsEndpointInvalidError e)" for u
    using oauth2 [of u] endpoint_step_errors(1-3)
    by (auto simp: endpoint_checks_def gcheck_def split: option.split)
  show ?thesis
    using checks endpoint_resolveValue_error parseEndpoint_error
    by (auto simp: endpoint_Validate_def rbind_eq_Inl split: option.split sum.split)
qed

definition sampleURL :: URL where
  "sampleURL = \<lparr>u_Scheme = ''https'', u_Opaque = [], u_Host = ''backend:4317'', u_Path = []\<rparr>"

definition sampleEndpointParams :: EndpointValidationParams where
  "sampleEndpointParams = \<lparr>evp_Endpoint = Some (plainValue ''https://backend:4317''),
     evp_Protocol = OTLPProtocolGRPC, evp_OutputTLS = None,
     evp_OTLPOAuth2 = Some \<lparr>oa_TokenURL = plainValue ''https://auth'', oa_ClientID = plainValue ''id'',
       oa_ClientSecret = plainValue ''secret'', oa_Scopes = [], oa_Params = []\<rparr>\<rparr>"

lemma sampleEndpoint_port: "SplitHostPort ''backend:4317'' = Inr (''backend'', ''4317'')"
  using SplitHostPort_join [of "''backend''" "''4317''"] by simp

lemma sampleEndpoint_accepted:
  "endpoint_Validate (\<lambda>_. Inr sampleURL) get sampleEndpointParams = Ret None"
proof -
  have "Atoi ''4317'' \<noteq> None" by code_simp
  then show ?thesis
    by (simp add: endpoint_Validate_def sampleEndpointParams_def plainValue_def
        endpoint_resolveValue_def parseEndpoint_def sampleURL_def endpoint_checks_def validatePort_def
        sampleEndpoint_port OTLPProtocolGRPC_def OTLPProtocolHTTP_def FluentdProtocolHTTP_def
        validateGRPCPath_def endpoint_oauth2_def validateGRPCWithOAuth2_def)
qed

lemma endpoint_Validate_total_witness:
  "\<exists>r. endpoint_Validate (\<lambda>_. Inl ''invalid URL escape'')
      (\<lambda>_. Inl \<lparr>ke_Reason = ReasonNotFound, ke_Message = []\<rparr>) sampleEndpointParams = Ret r \<and>
    (\<forall>e. r = Some e \<longrightarrow> IsEndpointInvalidError e)"
  by (rule endpoint_Validate_total) (simp add: sampleEndpointParams_def)

text \<open>Credentials never travel in the clear over gRPC: an accepted gRPC endpoint with OAuth2 has TLS
  switched on, no plain HTTP scheme, a numeric port and no path.\<close>

lemma endpoint_grpc_oauth2_secure:
  assumes "evp_Protocol params = OTLPProtocolGRPC" and "evp_OTLPOAuth2 params = Some auth"
    and "endpoint_Validate parse get params = Ret None"
  shows "\<exists>v s u host port n. evp_Endpoint params = Some v \<and> endpoint_resolveValue get v = Inr s \<and>
    parseEndpoint parse s = Inr u \<and> u_Scheme u \<noteq> ''http'' \<and> u_Path u = [] \<and>
    SplitHostPort (u_Host u) = Inr (host, port) \<and> Atoi port = Some n \<and>
    (\<forall>t. evp_OutputTLS params = Some t \<longrightarrow> \<not> tls_Insecure t)"
proof -
  from assms(3) obtain v s u where v: "evp_Endpoint params = Some v"
      "endpoint_resolveValue get v = Inr s" "parseEndpoint parse s = Inr u"
    and checks: "endpoint_checks params u = Ret None"
    by (auto simp: endpoint_Validate_def rbind_eq_Inr split: option.splits sum.splits)
  have grpc: "OTLPProtocolGRPC \<noteq> FluentdProtocolHTTP" "OTLPProtocolGRPC \<noteq> OTLPProtocolHTTP"
    by (simp_all add: OTLPProtocolGRPC_def FluentdProtocolHTTP_def OTLPProtocolHTTP_def)
  with checks assms(1,2) have "validatePort (u_Host u) False = None" "validateGRPCPath (u_Path u) = None"
    "validateGRPCWithOAuth2 (u_Scheme u) (evp_OutputTLS params) = None"
    by (simp_all add: endpoint_checks_def endpoint_oauth2_def)
  moreover from this(1) obtain host port n where
    "SplitHostPort (u_Host u) = Inr (host, port)" "Atoi port = Some n"
    by (auto simp: validatePort_def split: sum.splits if_splits)
  ultimately show ?thesis
    using v by (auto simp: validateGRPCPath_def validateGRPCWithOAuth2_def split: if_splits)
qed

lemma endpoint_grpc_oauth2_secure_witness:
  "\<exists>v s u host port n. evp_Endpoint sampleEndpointParams = Some v \<and>
    endpoint_resolveValue (\<lambda>_. Inl \<lparr>ke_Reason = ReasonNotFound, ke_Message = []\<rparr>) v = Inr s \<and>
    parseEndpoint (\<lambda>_. Inr sampleURL) s = Inr u \<and> u_Scheme u \<noteq> ''http'' \<and> u_Path u = [] \<and>
    SplitHostPort (u_Host u) = Inr (host, port) \<and> Atoi port = Some n \<and>
    (\<forall>t. evp_OutputTLS sampleEndpointParams = Some t \<longrightarrow> \<not> tls_Insecure t)"
  by (rule endpoint_grpc_oauth2_secure [OF _ _ sampleEndpoint_accepted])
    (simp_all add: sampleEndpointParams_def)

end
