(* ===== verification/TLSCertValidator.thy ===== *)
theory TLSCertValidator
  imports SecretRef
begin

text \<open>
  \<open>internal/validators/tlscert/tls_cert_validator.go\<close>.  The decoders of \<open>encoding/pem\<close>, \<open>crypto/x509\<close> and
  \<open>crypto/tls\<close> are the fields of a record argument.  A byte slice is a string; after \<open>sanitizeValue\<close> the
  slice is nil exactly when it is empty, since \<open>bytes.ReplaceAll\<close> copies an empty slice to a nil one.
  The code reads the clock for each certificate; a call is taken to happen at one point in time.  \<open>pem.Decode\<close> returns
  the first PEM block of its argument.
\<close>

section \<open>Certificates\<close>

text \<open>Times are nanoseconds since the epoch; \<open>Sub\<close> saturates at the bounds of \<open>time.Duration\<close>.\<close>

type_synonym time = int

definition time_After :: "time \<Rightarrow> time \<Rightarrow> bool" where
  "time_After t u \<longleftrightarrow> u < t"

definition time_Sub :: "time \<Rightarrow> time \<Rightarrow> int" where
  "time_Sub t u = max (- (2 ^ 63)) (min (2 ^ 63 - 1) (t - u))"

definition twoWeeks :: int where
  "twoWeeks = 1000000000 * 60 * 60 * 24 * 7 * 2"

record Certificate =
  x_NotAfter :: time
  x_IsCA :: bool

definition zeroCertificate :: Certificate where
  "zeroCertificate = \<lparr>x_NotAfter = - 62135596800000000000, x_IsCA = False\<rparr>"

record crypto =
  pem_Decode :: "string \<Rightarrow> string option"
  x509_ParseCertificate :: "string \<Rightarrow> (string, Certificate) result"
  x509_ParseCertificates :: "string \<Rightarrow> (string, Certificate list) result"
  tls_X509KeyPair :: "string \<Rightarrow> string \<Rightarrow> string option"

section \<open>The validator\<close>

record TLSValidationParams =
  tvp_Cert :: "ValueType option"
  tvp_Key :: "ValueType option"
  tvp_CA :: "ValueType option"

text \<open>Replace each backslash followed by \<open>n\<close> by a newline.\<close>

fun sanitizeValue :: "string \<Rightarrow> string" where
  "sanitizeValue [] = []"
| "sanitizeValue [c] = [c]"
| "sanitizeValue (c # d # s) =
     (if c = CHR 0x5C \<and> d = CHR ''n'' then CHR 0x0A # sanitizeValue s else c # sanitizeValue (d # s))"

definition tls_resolveValue :: "secret_reader \<Rightarrow> ValueType \<Rightarrow> (go_error, string) result" where
  "tls_resolveValue get v =
     (if vt_Value v \<noteq> [] then Inr (vt_Value v)
      else case Option.bind (vt_ValueFrom v) vfs_SecretKeyRef of
          None \<Rightarrow> Inl (Sentinel ErrTLSValueResolveFailed)
        | Some ref \<Rightarrow>
            (case GetValue get ref of
               Inl e \<Rightarrow> Inl (Sentinel ErrTLSValueResolveFailed)
             | Inr b \<Rightarrow> Inr b))"

definition resolveOpt :: "secret_reader \<Rightarrow> ValueType option \<Rightarrow> (go_error, string) result" where
  "resolveOpt get v = (case v of None \<Rightarrow> Inr [] | Some vt \<Rightarrow> tls_resolveValue get vt)"

definition resolveValues ::
    "secret_reader \<Rightarrow> TLSValidationParams \<Rightarrow> (go_error, string \<times> string \<times> string) result" where
  "resolveValues get p =
     rbind (resolveOpt get (tvp_Cert p)) (\<lambda>certPEM.
     rbind (resolveOpt get (tvp_Key p)) (\<lambda>keyPEM.
     rbind (resolveOpt get (tvp_CA p)) (\<lambda>caPEM. Inr (certPEM, keyPEM, caPEM))))"

definition parseCertificate :: "crypto \<Rightarrow> string \<Rightarrow> (go_error, Certificate) result" where
  "parseCertificate cr certPEM =
     (if certPEM = [] then Inr zeroCertificate
      else case pem_Decode cr certPEM of
          None \<Rightarrow> Inl (Sentinel ErrCertDecodeFailed)
        | Some block \<Rightarrow>
            (case x509_ParseCertificate cr block of
               Inl _ \<Rightarrow> Inl (Sentinel ErrCertParseFailed)
             | Inr cert \<Rightarrow> Inr cert))"

definition parsePrivateKey :: "crypto \<Rightarrow> string \<Rightarrow> go_error option" where
  "parsePrivateKey cr keyPEM =
     (if keyPEM = [] then None
      else if pem_Decode cr keyPEM = None then Some (Sentinel ErrKeyDecodeFailed)
      else None)"

definition parseCA :: "crypto \<Rightarrow> string \<Rightarrow> (go_error, Certificate list) result" where
  "parseCA cr caPEM =
     (if caPEM = [] then Inr []
      else case pem_Decode cr caPEM of
          None \<Rightarrow> Inl (Sentinel ErrCADecodeFailed)
        | Some block \<Rightarrow>
            (case x509_ParseCertificates cr block of
               Inl _ \<Rightarrow> Inl (Sentinel ErrCAParseFailed)
             | Inr certs \<Rightarrow> Inr certs))"

definition validateCertKeyPair :: "crypto \<Rightarrow> string \<Rightarrow> string \<Rightarrow> go_error option" where
  "validateCertKeyPair cr cert key =
     (if tls_X509KeyPair cr cert key \<noteq> None then Some (Sentinel ErrInvalidCertificateKeyPair) else None)"

definition validateExpiry :: "bool \<Rightarrow> time \<Rightarrow> time \<Rightarrow> go_error option" where
  "validateExpiry isCa expiry now =
     (if time_After now expiry then Some (CertExpiredError expiry isCa)
      else if time_Sub expiry now \<le> twoWeeks then Some (CertAboutToExpireError expiry isCa)
      else None)"

definition validateCertificate :: "Certificate \<Rightarrow> time \<Rightarrow> go_error option" where
  "validateCertificate cert now = validateExpiry False (x_NotAfter cert) now"

definition validateCA :: "Certificate \<Rightarrow> time \<Rightarrow> go_error option" where
  "validateCA ca now =
     (if \<not> x_IsCA ca then Some (Sentinel ErrCertIsNotCA)
      else validateExpiry True (x_NotAfter ca) now)"

definition tlscert_Validate ::
    "crypto \<Rightarrow> secret_reader \<Rightarrow> time \<Rightarrow> TLSValidationParams \<Rightarrow> go_error option" where
  "tlscert_Validate cr get now p =
     (if (tvp_Cert p = None) \<noteq> (tvp_Key p = None) then Some (Sentinel ErrMissingCertKeyPair)
      else case resolveValues get p of
          Inl e \<Rightarrow> Some e
        | Inr (certPEM, keyPEM, caPEM) \<Rightarrow>
            (let sanitizedCert = sanitizeValue certPEM;
                 sanitizedKey = sanitizeValue keyPEM;
                 sanitizedCA = sanitizeValue caPEM
             in case parseCertificate cr sanitizedCert of
                  Inl e \<Rightarrow> Some e
                | Inr parsedCert \<Rightarrow>
                    orelse (parsePrivateKey cr sanitizedKey)
                      (case parseCA cr sanitizedCA of
                         Inl e \<Rightarrow> Some e
                       | Inr parsedCA \<Rightarrow>
                           orelse
                             (if tvp_Cert p \<noteq> None \<and> tvp_Key p \<noteq> None
                              then orelse (validateCertKeyPair cr sanitizedCert sanitizedKey)
                                     (validateCertificate parsedCert now)
                              else None)
                             (if tvp_CA p = None then None
                              else range_check (\<lambda>ca. validateCA ca now) parsedCA))))"

section \<open>Properties\<close>

lemma sanitizeValue_Nil [simp]: "sanitizeValue s = [] \<longleftrightarrow> s = []"
  by (cases s rule: sanitizeValue.cases) auto

lemma validateExpiry_None: "validateExpiry ca expiry now = None \<longleftrightarrow> now + twoWeeks < expiry"
  by (auto simp: validateExpiry_def time_After_def time_Sub_def twoWeeks_def min_def max_def)

text \<open>Values that do not resolve are never hidden by a warning about the expiry.\<close>

lemma tlscert_resolved:
  assumes "tlscert_Validate cr get now p = None \<or>
      (\<exists>e. tlscert_Validate cr get now p = Some e \<and> IsCertAboutToExpireError e)"
  shows "(tvp_Cert p = None \<longleftrightarrow> tvp_Key p = None) \<and>
    (\<forall>v. Some v \<in> {tvp_Cert p, tvp_Key p, tvp_CA p} \<longrightarrow> (\<exists>b. tls_resolveValue get v = Inr b))"
proof -
  have not_expiring: "\<not> IsCertAboutToExpireError (Sentinel x)" for x
    by (simp add: IsCertAboutToExpireError_def errors_As_wrapped)
  have pair: "tvp_Cert p = None \<longleftrightarrow> tvp_Key p = None"
    using assms not_expiring by (cases "tvp_Cert p"; cases "tvp_Key p") (simp_all add: tlscert_Validate_def)
  have sentinel: "\<exists>x. e = Sentinel x" if "resolveOpt get v = Inl e" for v e
    using that by (auto simp: resolveOpt_def tls_resolveValue_def split: option.splits if_splits sum.splits)
  have "\<exists>x. e = Sentinel x" if "resolveValues get p = Inl e" for e
    using that sentinel by (auto simp: resolveValues_def rbind_def split: sum.splits)
  with assms pair have "\<exists>q. resolveValues get p = Inr q"
    using not_expiring by (cases "resolveValues get p") (auto simp: tlscert_Validate_def)
  then have opt: "\<exists>b. resolveOpt get v = Inr b" if "v \<in> {tvp_Cert p, tvp_Key p, tvp_CA p}" for v
    using that by (auto simp: resolveValues_def rbind_def split: sum.splits)
  have "\<exists>b. tls_resolveValue get v = Inr b" if "Some v \<in> {tvp_Cert p, tvp_Key p, tvp_CA p}" for v
    using opt [OF that] by (simp add: resolveOpt_def)
  with pair show ?thesis by blast
qed

text \<open>The certificates of the first PEM block of a CA value; an empty value has none.\<close>

definition firstBlockCAs :: "crypto \<Rightarrow> string \<Rightarrow> Certificate list option" where
  "firstBlockCAs cr caPEM =
     (if caPEM = [] then Some []
      else Option.bind (pem_Decode cr caPEM) (\<lambda>block.
        case x509_ParseCertificates cr block of Inl e \<Rightarrow> None | Inr certs \<Rightarrow> Some certs))"

lemma parseCA_Inr: "parseCA cr caPEM = Inr certs \<longleftrightarrow> firstBlockCAs cr caPEM = Some certs"
  by (auto simp: parseCA_def firstBlockCAs_def split: option.splits sum.splits)

text \<open>C19: when a TLS configuration is accepted.  It is exactly when a client certificate and its key are given together or
  not at all, every value that is given resolves, a certificate that is given matches its key, both can be decoded, and
  the certificate is valid for more than two weeks from now, and the first PEM block of a CA value that is given and not
  empty consists of certificates of authorities that are valid for more than two weeks.  The other blocks of a CA
  value are not looked at.\<close>

theorem tlscert_accepted:
  "tlscert_Validate cr get now p = None \<longleftrightarrow>
    (tvp_Cert p = None \<longleftrightarrow> tvp_Key p = None) \<and>
    (\<forall>c k. tvp_Cert p = Some c \<and> tvp_Key p = Some k \<longrightarrow>
       (\<exists>certPEM keyPEM cert. tls_resolveValue get c = Inr certPEM \<and> tls_resolveValue get k = Inr keyPEM \<and>
          (keyPEM = [] \<or> pem_Decode cr (sanitizeValue keyPEM) \<noteq> None) \<and>
          tls_X509KeyPair cr (sanitizeValue certPEM) (sanitizeValue keyPEM) = None \<and>
          parseCertificate cr (sanitizeValue certPEM) = Inr cert \<and> now + twoWeeks < x_NotAfter cert)) \<and>
    (\<forall>a. tvp_CA p = Some a \<longrightarrow>
       (\<exists>caPEM certs. tls_resolveValue get a = Inr caPEM \<and> firstBlockCAs cr (sanitizeValue caPEM) = Some certs \<and>
          (\<forall>ca\<in>set certs. x_IsCA ca \<and> now + twoWeeks < x_NotAfter ca)))"
proof -
  have ca: "range_check (\<lambda>ca. validateCA ca now) certs = None \<longleftrightarrow> (\<forall>ca\<in>set certs. x_IsCA ca \<and> now + twoWeeks < x_NotAfter ca)"
    for certs by (auto simp: range_check_None validateCA_def validateExpiry_None)
  have key: "parsePrivateKey cr (sanitizeValue k) = None \<longleftrightarrow> k = [] \<or> pem_Decode cr (sanitizeValue k) \<noteq> None" for k
    by (simp add: parsePrivateKey_def)
  have none: "parseCertificate cr [] = Inr zeroCertificate" "parsePrivateKey cr [] = None" "firstBlockCAs cr [] = Some []"
    by (simp_all add: parseCertificate_def parsePrivateKey_def firstBlockCAs_def)
  show ?thesis
    using none
    by (cases "tvp_Cert p"; cases "tvp_Key p"; cases "tvp_CA p")
      (auto simp: tlscert_Validate_def resolveValues_def resolveOpt_def Let_def rbind_def ca key parseCA_Inr
        validateCertKeyPair_def validateCertificate_def validateExpiry_None split: sum.splits if_splits
        dest: parseCA_Inr [THEN iffD1] parseCA_Inr [THEN iffD2])
qed

definition sampleCrypto :: crypto where
  "sampleCrypto = \<lparr>pem_Decode = (\<lambda>s. Some s),
     x509_ParseCertificate = (\<lambda>_. Inr \<lparr>x_NotAfter = 2 ^ 62, x_IsCA = False\<rparr>),
     x509_ParseCertificates = (\<lambda>_. Inr [\<lparr>x_NotAfter = 2 ^ 62, x_IsCA = True\<rparr>]),
     tls_X509KeyPair = (\<lambda>_ _. None)\<rparr>"

definition sampleTLSParams :: TLSValidationParams where
  "sampleTLSParams = \<lparr>tvp_Cert = Some (plainValue ''cert''), tvp_Key = Some (plainValue ''key''),
     tvp_CA = Some (plainValue ''ca'')\<rparr>"

lemma sampleTLS_accepted: "tlscert_Validate sampleCrypto get 0 sampleTLSParams = None"
  by (simp add: tlscert_Validate_def sampleTLSParams_def resolveValues_def resolveOpt_def
      tls_resolveValue_def plainValue_def sampleCrypto_def parseCertificate_def parsePrivateKey_def
      parseCA_def validateCertKeyPair_def validateCertificate_def validateExpiry_None validateCA_def
      twoWeeks_def Let_def)

theorem tlscert_accepted_witness:
  "\<exists>certPEM cert. tls_resolveValue (\<lambda>_. Inl \<lparr>ke_Reason = ReasonNotFound, ke_Message = []\<rparr>)
      (plainValue ''cert'') = Inr certPEM \<and>
    parseCertificate sampleCrypto (sanitizeValue certPEM) = Inr cert \<and> twoWeeks < x_NotAfter cert"
  using tlscert_accepted [THEN iffD1,
      OF sampleTLS_accepted [of "\<lambda>_. Inl \<lparr>ke_Reason = ReasonNotFound, ke_Message = []\<rparr>"]]
  by (auto simp: sampleTLSParams_def)

text \<open>A CA value that resolves to an empty text is accepted without any certificate being checked: the
  sanitised value is a nil slice, which stands for \<open>no CA given\<close>.\<close>

lemma tlscert_empty_ca_accepted:
  assumes "tvp_Cert p = None" and "tvp_Key p = None" and "tvp_CA p = Some ca"
    and "tls_resolveValue get ca = Inr []"
  shows "tlscert_Validate cr get now p = None"
  using assms
  by (simp add: tlscert_Validate_def resolveValues_def resolveOpt_def parseCertificate_def
      parsePrivateKey_def parseCA_def)

lemma tlscert_empty_ca_accepted_witness:
  "tlscert_Validate sampleCrypto
     (\<lambda>_. Inr \<lparr>sec_ObjectMeta = zeroObjectMeta, sec_Data = [''ca.crt'' \<mapsto> []]\<rparr>) 0
     \<lparr>tvp_Cert = None, tvp_Key = None, tvp_CA = Some (secretValue ''ns'' ''tls'' ''ca.crt'')\<rparr> = None"
  by (rule tlscert_empty_ca_accepted [where ca = "secretValue ''ns'' ''tls'' ''ca.crt''"])
    (simp_all add: tls_resolveValue_def secretValue_def GetValue_def checkForMissingFields_def)

end
