(* ===== verification/ResourceLock.thy ===== *)
theory ResourceLock
  imports Kube
begin

text \<open>
  \<open>internal/resourcelock/lock.go\<close>: the ConfigMap whose owner references are the pipelines that may be
  active.  \<open>TryAcquireLock\<close> is modelled as the code has it, over a client; \<open>lock_decide\<close> is its decision
  on what it read, so that several reconcilers can be interleaved between their read and their write.
  \<open>controllerutil.SetOwnerReference\<close> is a parameter.
\<close>

section \<open>The checker\<close>

definition MaxPipelineCount :: int where
  "MaxPipelineCount = 5"

definition UnlimitedPipelineCount :: int where
  "UnlimitedPipelineCount = - 1"

record Checker =
  ck_lockName :: NamespacedName
  ck_maxOwners :: int

definition newChecker :: "NamespacedName \<Rightarrow> int \<Rightarrow> string \<Rightarrow> Checker" where
  "newChecker lockName maxOwners suffix =
     \<lparr>ck_lockName =
        (if HasSuffix (nn_Name lockName) (''-'' @ suffix) then lockName
         else lockName\<lparr>nn_Name := nn_Name lockName @ ''-'' @ suffix\<rparr>),
      ck_maxOwners = maxOwners\<rparr>"

definition NewLocker :: "NamespacedName \<Rightarrow> int \<Rightarrow> Checker" where
  "NewLocker lockName maxOwners = newChecker lockName maxOwners ''lock''"

definition NewSyncer :: "NamespacedName \<Rightarrow> Checker" where
  "NewSyncer lockName = newChecker lockName 0 ''syncer''"

definition ModuleLabels :: "string \<rightharpoonup> string" where
  "ModuleLabels =
     [''kyma-project.io/module'' \<mapsto> ''telemetry'',
      ''app.kubernetes.io/part-of'' \<mapsto> ''telemetry'',
      ''app.kubernetes.io/managed-by'' \<mapsto> ''telemetry-manager'']"

text \<open>\<open>controllerutil.SetOwnerReference(owner, lock, scheme)\<close>.\<close>

type_synonym set_owner = "ObjectMeta \<Rightarrow> ConfigMap \<Rightarrow> (string, ConfigMap) result"

fun hasOwner :: "ObjectMeta \<Rightarrow> OwnerReference list \<Rightarrow> bool" where
  "hasOwner owner [] = False"
| "hasOwner owner (ref # refs) =
     (if or_Name ref = om_Name owner \<and> or_UID ref = om_UID owner then True
      else hasOwner owner refs)"

lemma hasOwner_iff:
  "hasOwner owner refs \<longleftrightarrow> (\<exists>ref\<in>set refs. or_Name ref = om_Name owner \<and> or_UID ref = om_UID owner)"
  by (induction refs) auto

definition canAddOwner :: "nat \<Rightarrow> int \<Rightarrow> bool" where
  "canAddOwner numOwners maxOwners =
     (if maxOwners = UnlimitedPipelineCount then True else int numOwners < maxOwners)"

definition newLock :: "Checker \<Rightarrow> ConfigMap" where
  "newLock ck =
     \<lparr>cm_ObjectMeta = zeroObjectMeta\<lparr>om_Name := nn_Name (ck_lockName ck),
        om_Namespace := nn_Namespace (ck_lockName ck), om_Labels := Some ModuleLabels\<rparr>,
      cm_Data = None\<rparr>"

definition createLock ::
    "'s cm_client \<Rightarrow> set_owner \<Rightarrow> Checker \<Rightarrow> ObjectMeta \<Rightarrow> 's \<Rightarrow> 's \<times> go_error option" where
  "createLock c sor ck owner s =
     (case sor owner (newLock ck) of
        Inl e \<Rightarrow> (s, Some (Errorf ''failed to set owner reference: '' (NewError e) []))
      | Inr lock \<Rightarrow>
          (let (s', err) = cc_Create c lock s
           in (s', map_option (\<lambda>e. Errorf ''failed to create lock: '' (KubeError e) []) err)))"

definition TryAcquireLock ::
    "'s cm_client \<Rightarrow> set_owner \<Rightarrow> Checker \<Rightarrow> ObjectMeta \<Rightarrow> 's \<Rightarrow> 's \<times> go_error option" where
  "TryAcquireLock c sor ck owner s =
     (case cc_Get c (ck_lockName ck) s of
        Inl e \<Rightarrow>
          (if IsNotFound e then createLock c sor ck owner s
           else (s, Some (Errorf ''failed to get lock: '' (KubeError e) [])))
      | Inr lock \<Rightarrow>
          (if hasOwner owner (cm_Owners lock) then (s, None)
           else if ck_maxOwners ck = 0 \<or> canAddOwner (length (cm_Owners lock)) (ck_maxOwners ck)
           then (case sor owner lock of
               Inl e \<Rightarrow> (s, Some (Errorf ''failed to set owner reference: '' (NewError e) []))
             | Inr lock' \<Rightarrow>
                 (let (s', err) = cc_Update c lock' s
                  in (s', map_option (\<lambda>e. Errorf ''failed to update lock: '' (KubeError e) []) err)))
           else (s, Some (Sentinel ErrMaxPipelinesExceeded))))"

definition IsLockHolder :: "'s cm_client \<Rightarrow> Checker \<Rightarrow> ObjectMeta \<Rightarrow> 's \<Rightarrow> go_error option" where
  "IsLockHolder c ck obj s =
     (case cc_Get c (ck_lockName ck) s of
        Inl e \<Rightarrow>
          Some (APIRequestFailedError (Errorf ''failed to get lock: '' (KubeError e) []))
      | Inr lock \<Rightarrow>
          (if hasOwner obj (cm_Owners lock) then None
           else Some (Sentinel ErrMaxPipelinesExceeded)))"

lemma IsLockHolder_None:
  "IsLockHolder c ck obj s = None \<longleftrightarrow>
     (\<exists>lock. cc_Get c (ck_lockName ck) s = Inr lock \<and> hasOwner obj (cm_Owners lock))"
  by (auto simp: IsLockHolder_def split: sum.split)

section \<open>Decisions\<close>

text \<open>What \<open>TryAcquireLock\<close> writes, as a function of what its read returned.\<close>

definition lock_decide ::
    "set_owner \<Rightarrow> Checker \<Rightarrow> ObjectMeta \<Rightarrow> (kube_error, ConfigMap) result \<Rightarrow> cm_write option" where
  "lock_decide sor ck owner r =
     (case r of
        Inl e \<Rightarrow>
          (if IsNotFound e
           then (case sor owner (newLock ck) of Inl _ \<Rightarrow> None | Inr lock \<Rightarrow> Some (WCreate lock))
           else None)
      | Inr lock \<Rightarrow>
          (if hasOwner owner (cm_Owners lock) then None
           else if ck_maxOwners ck = 0 \<or> canAddOwner (length (cm_Owners lock)) (ck_maxOwners ck)
           then (case sor owner lock of Inl _ \<Rightarrow> None | Inr lock' \<Rightarrow> Some (WUpdate lock'))
           else None))"

text \<open>A call without interleaving is a read followed by the write it decides on.\<close>

lemma TryAcquireLock_write:
  "fst (TryAcquireLock c sor ck owner s) =
     (case lock_decide sor ck owner (cc_Get c (ck_lockName ck) s) of
        None \<Rightarrow> s
      | Some w \<Rightarrow> fst (exec_write c w s))"
  by (auto simp: TryAcquireLock_def createLock_def lock_decide_def Let_def
      split: sum.split option.split prod.split)

text \<open>What is relied on of \<open>SetOwnerReference\<close>: it changes only the owner references, adds at most one,
  the owner is then among them, and it replaces no reference of another name.\<close>

definition lawful_SetOwnerReference :: "set_owner \<Rightarrow> bool" where
  "lawful_SetOwnerReference sor \<longleftrightarrow>
     (\<forall>owner cm cm'. sor owner cm = Inr cm' \<longrightarrow>
        (\<exists>refs. cm' = cm\<lparr>cm_ObjectMeta := (cm_ObjectMeta cm)\<lparr>om_OwnerReferences := refs\<rparr>\<rparr> \<and>
          length refs \<le> Suc (length (cm_Owners cm)) \<and> hasOwner owner refs \<and>
          (\<forall>ref\<in>set (cm_Owners cm). or_Name ref \<noteq> om_Name owner \<longrightarrow> ref \<in> set refs)))"

lemma SetOwnerReference_props:
  assumes "lawful_SetOwnerReference sor" and "sor owner cm = Inr cm'"
  shows "cm_key cm' = cm_key cm" "cm_RV cm' = cm_RV cm"
    "length (cm_Owners cm') \<le> Suc (length (cm_Owners cm))" "hasOwner owner (cm_Owners cm')"
    "\<And>ref. ref \<in> set (cm_Owners cm) \<Longrightarrow> or_Name ref \<noteq> om_Name owner \<Longrightarrow> ref \<in> set (cm_Owners cm')"
proof -
  from assms obtain refs where "cm' = cm\<lparr>cm_ObjectMeta := (cm_ObjectMeta cm)\<lparr>om_OwnerReferences := refs\<rparr>\<rparr>"
    "length refs \<le> Suc (length (cm_Owners cm))" "hasOwner owner refs"
    "\<forall>ref\<in>set (cm_Owners cm). or_Name ref \<noteq> om_Name owner \<longrightarrow> ref \<in> set refs"
    unfolding lawful_SetOwnerReference_def by blast
  then show "cm_key cm' = cm_key cm" "cm_RV cm' = cm_RV cm"
    "length (cm_Owners cm') \<le> Suc (length (cm_Owners cm))" "hasOwner owner (cm_Owners cm')"
    "\<And>ref. ref \<in> set (cm_Owners cm) \<Longrightarrow> or_Name ref \<noteq> om_Name owner \<Longrightarrow> ref \<in> set (cm_Owners cm')"
    by (simp_all add: cm_key_def cm_RV_def cm_Owners_def)
qed

text \<open>The environment of a lock: the garbage collector drops references to deleted owners and the lock
  itself when none is left, and other objects change.\<close>

definition owner_gc ::
    "('s \<Rightarrow> NamespacedName \<Rightarrow> ConfigMap option) \<Rightarrow> ('s \<Rightarrow> nat) \<Rightarrow> (nat \<Rightarrow> string) \<Rightarrow> NamespacedName \<Rightarrow>
      's \<Rightarrow> 's \<Rightarrow> bool" where
  "owner_gc store rvn fmt key s s' \<longleftrightarrow>
     rvn s \<le> rvn s' \<and>
     (\<forall>k cm. store s' k = Some cm \<longrightarrow>
        store s k = Some cm \<or> (\<exists>n. rvn s < n \<and> cm_RV cm = fmt n)) \<and>
     (\<forall>cm'. store s' key = Some cm' \<longrightarrow>
        (\<exists>cm. store s key = Some cm \<and> set (cm_Owners cm') \<subseteq> set (cm_Owners cm) \<and>
           length (cm_Owners cm') \<le> length (cm_Owners cm)))"

lemma newLock_simps [simp]:
  "cm_key (newLock ck) = ck_lockName ck" "cm_Owners (newLock ck) = []"
  by (simp_all add: newLock_def cm_key_def cm_Owners_def zeroObjectMeta_def)

lemma lock_rmw:
  assumes "optimistic_api c store rvn fmt" and "lawful_SetOwnerReference sor"
  shows "rmw c store rvn fmt (ck_lockName ck) (lock_decide sor ck)
    (owner_gc store rvn fmt (ck_lockName ck))"
proof (intro rmw.intro assms(1) rmw_axioms.intro)
  fix p r cm
  show "lock_decide sor ck p r = Some (WUpdate cm) \<Longrightarrow>
      \<exists>cur. r = Inr cur \<and> cm_RV cm = cm_RV cur \<and> cm_key cm = cm_key cur"
    using SetOwnerReference_props(1,2) [OF assms(2)]
    by (auto simp: lock_decide_def split: sum.splits if_splits)
  show "lock_decide sor ck p r = Some (WCreate cm) \<Longrightarrow>
      \<exists>e. r = Inl e \<and> IsNotFound e \<and> cm_key cm = ck_lockName ck"
    using SetOwnerReference_props(1) [OF assms(2)]
    by (fastforce simp: lock_decide_def split: sum.splits if_splits)
qed (auto simp: owner_gc_def)

text \<open>A call leaves every other object alone.\<close>

lemma TryAcquireLock_elsewhere:
  assumes "optimistic_api c store rvn fmt" and "lawful_SetOwnerReference sor" and "k \<noteq> ck_lockName ck"
  shows "store (fst (TryAcquireLock c sor ck owner s)) k = store s k"
  using rmw.write_elsewhere [OF lock_rmw [OF assms(1,2)] _ _ assms(3), where p = owner and ?s0.0 = s]
  by (auto simp: TryAcquireLock_write split: option.split) (metis prod.collapse)

section \<open>Properties\<close>

lemma lock_limit_create:
  assumes "lawful_SetOwnerReference sor" "lock_decide sor ck p (Inl e) = Some (WCreate cm)"
  shows "length (cm_Owners cm) \<le> 1"
  using SetOwnerReference_props(3) [OF assms(1)] assms(2)
  by (force simp: lock_decide_def split: sum.splits if_splits)

lemma lock_limit_update:
  assumes "lawful_SetOwnerReference sor" "lock_decide sor ck p (Inr cur) = Some (WUpdate cm)"
    and "0 < ck_maxOwners ck"
  shows "int (length (cm_Owners cm)) \<le> ck_maxOwners ck"
  using SetOwnerReference_props(3) [OF assms(1)] assms(2,3)
  by (force simp: lock_decide_def canAddOwner_def UnlimitedPipelineCount_def
      split: sum.splits if_splits)

lemma owner_gc_limit:
  "owner_gc store rvn fmt key s s' \<Longrightarrow> store s' key = Some cm' \<Longrightarrow>
    \<exists>cm. store s key = Some cm \<and> length (cm_Owners cm') \<le> length (cm_Owners cm)"
  unfolding owner_gc_def by blast

text \<open>C1: the lock never has more owners than its limit, however many reconcilers interleave their
  reads (from a cache that may be stale) and writes, with the garbage collector running: in every
  reachable state the stored lock has at most \<open>maxOwners\<close> owner references.\<close>

theorem lock_limit:
  assumes "optimistic_api c store rvn fmt" and "lawful_SetOwnerReference sor"
    and "0 < ck_maxOwners ck"
    and "store s0 (ck_lockName ck) = None"
    and "rmw_reach c rvn (ck_lockName ck) (lock_decide sor ck)
      (owner_gc store rvn fmt (ck_lockName ck)) s0 st"
    and "store (rw_Server st) (ck_lockName ck) = Some lock"
  shows "int (length (cm_Owners lock)) \<le> ck_maxOwners ck"
proof -
  have "\<forall>lock. store (rw_Server st) (ck_lockName ck) = Some lock \<longrightarrow>
      int (length (cm_Owners lock)) \<le> ck_maxOwners ck"
    using assms(5)
  proof (rule rmw.rmw_invariant [OF lock_rmw [OF assms(1,2)],
        where P = "\<lambda>_ x. \<forall>lock. x = Some lock \<longrightarrow> int (length (cm_Owners lock)) \<le> ck_maxOwners ck"])
    fix e p cm cm'
    assume "lock_decide sor ck p (Inl e) = Some (WCreate cm)" "same_content cm cm'"
    with lock_limit_create [OF assms(2)] assms(3)
    show "\<forall>lock. Some cm' = Some lock \<longrightarrow> int (length (cm_Owners lock)) \<le> ck_maxOwners ck"
      by (fastforce simp: same_content_def)
  next
    fix p cur cm cm'
    assume "lock_decide sor ck p (Inr cur) = Some (WUpdate cm)" "same_content cm cm'"
    with lock_limit_update [OF assms(2) _ assms(3)]
    show "\<forall>lock. Some cm' = Some lock \<longrightarrow> int (length (cm_Owners lock)) \<le> ck_maxOwners ck"
      by (fastforce simp: same_content_def)
  next
    fix s s'
    assume bound: "\<forall>lock. store s (ck_lockName ck) = Some lock \<longrightarrow>
        int (length (cm_Owners lock)) \<le> ck_maxOwners ck"
      and gc: "owner_gc store rvn fmt (ck_lockName ck) s s'"
    show "\<forall>lock. store s' (ck_lockName ck) = Some lock \<longrightarrow>
        int (length (cm_Owners lock)) \<le> ck_maxOwners ck"
    proof (intro allI impI)
      fix lock
      assume "store s' (ck_lockName ck) = Some lock"
      from owner_gc_limit [OF gc this] bound
      show "int (length (cm_Owners lock)) \<le> ck_maxOwners ck" by force
    qed
  qed (simp add: assms(4))
  with assms(6) show ?thesis by blast
qed

text \<open>An instance: \<open>upsertOwnerRef\<close> replaces the reference of the same kind and name or appends one, as
  \<open>controllerutil\<close> documents it.\<close>

definition ownerRefOf :: "ObjectMeta \<Rightarrow> OwnerReference" where
  "ownerRefOf owner = \<lparr>or_Kind = ''MetricPipeline'', or_Name = om_Name owner, or_UID = om_UID owner\<rparr>"

fun upsertRef :: "OwnerReference \<Rightarrow> OwnerReference list \<Rightarrow> OwnerReference list" where
  "upsertRef ref [] = [ref]"
| "upsertRef ref (r # rs) =
     (if or_Kind r = or_Kind ref \<and> or_Name r = or_Name ref then ref # rs else r # upsertRef ref rs)"

definition upsertOwnerRef :: set_owner where
  "upsertOwnerRef owner cm = Inr (cm\<lparr>cm_ObjectMeta := (cm_ObjectMeta cm)
     \<lparr>om_OwnerReferences := upsertRef (ownerRefOf owner) (cm_Owners cm)\<rparr>\<rparr>)"

lemma upsertRef_props:
  "length (upsertRef ref rs) \<le> Suc (length rs)"
  "ref \<in> set (upsertRef ref rs)"
  "r \<in> set rs \<Longrightarrow> or_Name r \<noteq> or_Name ref \<Longrightarrow> r \<in> set (upsertRef ref rs)"
  by (induction rs) auto

lemma upsertOwnerRef_lawful: "lawful_SetOwnerReference upsertOwnerRef"
  unfolding lawful_SetOwnerReference_def
proof (intro allI impI)
  fix owner cm cm'
  let ?refs = "upsertRef (ownerRefOf owner) (cm_Owners cm)"
  assume "upsertOwnerRef owner cm = Inr cm'"
  then have "cm' = cm\<lparr>cm_ObjectMeta := (cm_ObjectMeta cm)\<lparr>om_OwnerReferences := ?refs\<rparr>\<rparr>"
    by (simp add: upsertOwnerRef_def)
  moreover have "hasOwner owner ?refs"
    unfolding hasOwner_iff using upsertRef_props(2)
    by (intro bexI [where x = "ownerRefOf owner"]) (simp_all add: ownerRefOf_def)
  moreover have "\<forall>ref\<in>set (cm_Owners cm). or_Name ref \<noteq> om_Name owner \<longrightarrow> ref \<in> set ?refs"
    using upsertRef_props(3) [of _ _ "ownerRefOf owner"] by (simp add: ownerRefOf_def)
  ultimately show "\<exists>refs. cm' = cm\<lparr>cm_ObjectMeta := (cm_ObjectMeta cm)\<lparr>om_OwnerReferences := refs\<rparr>\<rparr> \<and>
      length refs \<le> Suc (length (cm_Owners cm)) \<and> hasOwner owner refs \<and>
      (\<forall>ref\<in>set (cm_Owners cm). or_Name ref \<noteq> om_Name owner \<longrightarrow> ref \<in> set refs)"
    using upsertRef_props(1) by (intro exI [where x = ?refs]) simp
qed

interpretation lock: rmw mem_client mem_store length rv_fmt "ck_lockName ck"
  "lock_decide upsertOwnerRef ck" "owner_gc mem_store length rv_fmt (ck_lockName ck)" for ck
  by (rule lock_rmw [OF mem.optimistic_api_axioms upsertOwnerRef_lawful])

definition sampleLocker :: Checker where
  "sampleLocker = NewLocker \<lparr>nn_Namespace = ''kyma-system'', nn_Name = ''telemetry-metricpipeline''\<rparr> 5"

definition sampleOwner :: ObjectMeta where
  "sampleOwner = zeroObjectMeta\<lparr>om_Name := ''sample'', om_UID := ''1''\<rparr>"

definition sampleLock :: ConfigMap where
  "sampleLock = (newLock sampleLocker)\<lparr>cm_ObjectMeta := (cm_ObjectMeta (newLock sampleLocker))
     \<lparr>om_OwnerReferences := [ownerRefOf sampleOwner]\<rparr>\<rparr>"

lemma sampleLock_simps [simp]:
  "cm_key sampleLock = ck_lockName sampleLocker" "cm_Owners sampleLock = [ownerRefOf sampleOwner]"
  by (simp_all add: sampleLock_def newLock_def cm_key_def cm_Owners_def zeroObjectMeta_def)

lemma upsert_sample: "upsertOwnerRef sampleOwner (newLock sampleLocker) = Inr sampleLock"
  by (simp add: upsertOwnerRef_def sampleLock_def)

lemma sampleOwner_write:
  "lock_decide upsertOwnerRef sampleLocker sampleOwner (mem_Get (ck_lockName sampleLocker) []) =
     Some (WCreate sampleLock)"
  by (simp add: lock_decide_def mem_Get_def IsNotFound_def upsertOwnerRef_def sampleLock_def)

abbreviation sample_reach :: "(mem_event list, ObjectMeta) rmw_state \<Rightarrow> bool" where
  "sample_reach \<equiv> rmw_reach mem_client length (ck_lockName sampleLocker)
      (lock_decide upsertOwnerRef sampleLocker)
      (owner_gc mem_store length rv_fmt (ck_lockName sampleLocker)) []"

lemma sample_reach_locked:
  "sample_reach \<lparr>rw_Server = [Put sampleLock], rw_Past = [[]], rw_Pending = (\<lambda>_. None),
     rw_Log = [sampleOwner]\<rparr>" (is "sample_reach ?st2")
proof -
  let ?st0 = "\<lparr>rw_Server = [], rw_Past = [], rw_Pending = (\<lambda>_. None), rw_Log = []\<rparr>"
  let ?st1 = "\<lparr>rw_Server = [], rw_Past = [],
    rw_Pending = (\<lambda>_. None)(sampleOwner := Some (WCreate sampleLock)), rw_Log = []\<rparr>"
  have "sample_reach ?st0" by (rule rmw_init)
  then have 1: "sample_reach ?st1"
    by (rule rmw_next)
      (use rmw_read [of "[]" ?st0 mem_client length "ck_lockName sampleLocker"
         "lock_decide upsertOwnerRef sampleLocker" _ sampleOwner] sampleOwner_write in simp)
  have "mem_Create sampleLock [] = ([Put sampleLock], None)"
    by (simp add: mem_Create_def)
  then have "rmw_step mem_client length (ck_lockName sampleLocker)
      (lock_decide upsertOwnerRef sampleLocker)
      (owner_gc mem_store length rv_fmt (ck_lockName sampleLocker)) ?st1 ?st2"
    using rmw_write [of ?st1 sampleOwner "WCreate sampleLock" mem_client "[Put sampleLock]" None length]
    by simp
  with 1 show ?thesis by (rule rmw_next)
qed

theorem lock_limit_witness:
  "\<exists>st lock. sample_reach st \<and>
    mem_store (rw_Server st) (ck_lockName sampleLocker) = Some lock \<and>
    hasOwner sampleOwner (cm_Owners lock) \<and>
    int (length (cm_Owners lock)) \<le> ck_maxOwners sampleLocker"
proof -
  have stored: "mem_store (rw_Server \<lparr>rw_Server = [Put sampleLock], rw_Past = [[]],
      rw_Pending = (\<lambda>_. None), rw_Log = [sampleOwner]\<rparr>) (ck_lockName sampleLocker) =
    Some (set_RV (rv_fmt 1) sampleLock)"
    by simp
  have "0 < ck_maxOwners sampleLocker"
    by (simp add: sampleLocker_def NewLocker_def newChecker_def)
  note lock_limit [OF mem.optimistic_api_axioms upsertOwnerRef_lawful this mem_store.simps(1)
      sample_reach_locked stored]
  moreover have "hasOwner sampleOwner (cm_Owners (set_RV (rv_fmt 1) sampleLock))"
    by (simp add: ownerRefOf_def)
  ultimately show ?thesis
    using sample_reach_locked stored by blast
qed

text \<open>What a call that returns no error leaves in the store.\<close>

lemma createLock_post:
  assumes api: "optimistic_api c store rvn fmt" and law: "lawful_SetOwnerReference sor"
    and call: "createLock c sor ck owner s = (s', None)"
    and get: "cc_Get c (ck_lockName ck) s' = Inr lock"
  shows "hasOwner owner (cm_Owners lock) \<and> store s (ck_lockName ck) = None"
proof -
  from call obtain l where l: "sor owner (newLock ck) = Inr l" "cc_Create c l s = (s', None)"
    by (auto simp: createLock_def Let_def split: sum.splits prod.splits)
  note props = SetOwnerReference_props [OF law l(1)]
  from optimistic_api.create_law [OF api l(2)] props(1) obtain cm' where
    "store s (ck_lockName ck) = None" "same_content l cm'" "store s' (ck_lockName ck) = Some cm'"
    by auto
  moreover from optimistic_api.get_found [OF api get] this(3) have "lock = cm'" by simp
  ultimately show ?thesis using props(4) by (simp add: same_content_def)
qed

lemma updateLock_post:
  assumes api: "optimistic_api c store rvn fmt" and law: "lawful_SetOwnerReference sor"
    and read: "cc_Get c (ck_lockName ck) s = Inr cur" "sor owner cur = Inr l"
    and call: "cc_Update c l s = (s', None)"
    and get: "cc_Get c (ck_lockName ck) s' = Inr lock"
  shows "cm_Owners lock = cm_Owners l"
proof -
  note props = SetOwnerReference_props [OF law read(2)]
  from optimistic_api.get_found [OF api read(1)] have stored: "store s (ck_lockName ck) = Some cur" .
  then have "cm_key l = ck_lockName ck" "cm_RV l \<noteq> []"
    using props(1,2) optimistic_api.store_key [OF api stored]
      optimistic_api.store_RV_nonempty [OF api stored] by simp_all
  with optimistic_api.update_law [OF api call] obtain cm' where
    "same_content l cm'" "store s' (ck_lockName ck) = Some cm'" by auto
  with optimistic_api.get_found [OF api get] show ?thesis by (simp add: same_content_def)
qed

lemma TryAcquireLock_post:
  assumes "optimistic_api c store rvn fmt" and "lawful_SetOwnerReference sor"
    and "TryAcquireLock c sor ck owner s = (s', None)"
    and "cc_Get c (ck_lockName ck) s' = Inr lock"
  shows "hasOwner owner (cm_Owners lock) \<and>
    (\<forall>cur ref. cc_Get c (ck_lockName ck) s = Inr cur \<longrightarrow> ref \<in> set (cm_Owners cur) \<longrightarrow>
       or_Name ref \<noteq> om_Name owner \<longrightarrow> ref \<in> set (cm_Owners lock))"
proof (cases "cc_Get c (ck_lockName ck) s")
  case (Inl e)
  with assms(3) have "createLock c sor ck owner s = (s', None)"
    by (simp add: TryAcquireLock_def split: if_splits)
  from createLock_post [OF assms(1,2) this assms(4)] Inl show ?thesis by simp
next
  case (Inr cur)
  show ?thesis
  proof (cases "hasOwner owner (cm_Owners cur)")
    case True
    with Inr assms(3,4) show ?thesis by (simp add: TryAcquireLock_def)
  next
    case False
    with Inr assms(3) obtain l where l: "sor owner cur = Inr l" "cc_Update c l s = (s', None)"
      by (auto simp: TryAcquireLock_def Let_def split: sum.splits prod.splits if_splits)
    show ?thesis
      using SetOwnerReference_props(4,5) [OF assms(2) l(1)] Inr
        updateLock_post [OF assms(1,2) Inr l assms(4)] by simp
  qed
qed

text \<open>An acquisition that returns no error leaves the pipeline a holder of the lock, keeps every
  other holder (of another name), and a second acquisition then changes nothing.  The read of the
  lock after the call is taken to succeed.\<close>

lemma TryAcquireLock_acquired:
  assumes "optimistic_api c store rvn fmt" and "lawful_SetOwnerReference sor"
    and "TryAcquireLock c sor ck owner s = (s', None)"
    and "cc_Get c (ck_lockName ck) s' = Inr lock"
  shows "IsLockHolder c ck owner s' = None \<and>
    (\<forall>other. om_Name other \<noteq> om_Name owner \<longrightarrow> IsLockHolder c ck other s = None \<longrightarrow>
       IsLockHolder c ck other s' = None) \<and>
    TryAcquireLock c sor ck owner s' = (s', None)"
proof (intro conjI allI impI)
  note post = TryAcquireLock_post [OF assms]
  show "IsLockHolder c ck owner s' = None" and "TryAcquireLock c sor ck owner s' = (s', None)"
    using post assms(4) by (simp_all add: IsLockHolder_None TryAcquireLock_def)
  fix other
  assume "om_Name other \<noteq> om_Name owner" and "IsLockHolder c ck other s = None"
  with post assms(4) show "IsLockHolder c ck other s' = None"
    by (fastforce simp: IsLockHolder_None hasOwner_iff)
qed

lemma TryAcquireLock_acquired_witness:
  "IsLockHolder mem_client sampleLocker sampleOwner [Put sampleLock] = None"
proof -
  have "TryAcquireLock mem_client upsertOwnerRef sampleLocker sampleOwner [] = ([Put sampleLock], None)"
    using upsert_sample
    by (simp add: TryAcquireLock_def mem_Get_def IsNotFound_def createLock_def mem_Create_def)
  moreover have "cc_Get mem_client (ck_lockName sampleLocker) [Put sampleLock] =
    Inr (set_RV (rv_fmt 1) sampleLock)"
    by (simp add: mem_Get_def)
  ultimately show ?thesis
    using TryAcquireLock_acquired [OF mem.optimistic_api_axioms upsertOwnerRef_lawful] by blast
qed

text \<open>A pipeline that is not a holder is refused exactly when the lock is full, and a refusal writes
  nothing.\<close>

lemma TryAcquireLock_refused:
  "(snd (TryAcquireLock c sor ck owner s) = Some (Sentinel ErrMaxPipelinesExceeded) \<longleftrightarrow>
     (\<exists>lock. cc_Get c (ck_lockName ck) s = Inr lock \<and> \<not> hasOwner owner (cm_Owners lock) \<and>
        ck_maxOwners ck \<notin> {0, UnlimitedPipelineCount} \<and>
        ck_maxOwners ck \<le> int (length (cm_Owners lock)))) \<and>
   (snd (TryAcquireLock c sor ck owner s) = Some (Sentinel ErrMaxPipelinesExceeded) \<longleftrightarrow>
      TryAcquireLock c sor ck owner s = (s, Some (Sentinel ErrMaxPipelinesExceeded)))"
proof (cases "cc_Get c (ck_lockName ck) s")
  case (Inl e)
  then show ?thesis
    by (simp add: TryAcquireLock_def createLock_def Let_def split: sum.split prod.split)
next
  case (Inr lock)
  then show ?thesis
    by (simp add: TryAcquireLock_def canAddOwner_def Let_def not_less split: sum.split prod.split)
qed

end
