(* ===== verification/RuntimeMetrics.thy ===== *)
theory RuntimeMetrics
  imports Api_Types Errors
begin

text \<open>
  The runtime metrics of the metric agent: the metric names of the kubelet and cluster receivers
  (\<open>kubeletstats_metrics.go\<close>, \<open>k8scluster_metrics.go\<close> in \<open>internal/otelcollector/config/metricagent\<close>), the
  validator of additional metrics (\<open>internal/validators/runtimemetrics\<close>), and the selection of additional
  metrics per pipeline in the agent's configuration builder.
\<close>

section \<open>The metrics of the receivers\<close>

definition kubeletStatsReceiverContainerMetrics :: "string list" where
  "kubeletStatsReceiverContainerMetrics =
     [''container.cpu.time'', ''container.cpu.usage'', ''container.filesystem.available'',
      ''container.filesystem.capacity'', ''container.filesystem.usage'',
      ''container.memory.available'', ''container.memory.major_page_faults'',
      ''container.memory.page_faults'', ''container.memory.rss'', ''container.memory.usage'',
      ''container.memory.working_set'']"

definition kubeletStatsReceiverNodeMetrics :: "string list" where
  "kubeletStatsReceiverNodeMetrics =
     [''k8s.node.cpu.usage'', ''k8s.node.filesystem.available'',
      ''k8s.node.filesystem.capacity'', ''k8s.node.filesystem.usage'',
      ''k8s.node.memory.available'', ''k8s.node.memory.rss'', ''k8s.node.memory.usage'',
      ''k8s.node.memory.working_set'', ''k8s.node.network.errors'', ''k8s.node.network.io'']"

definition kubeletStatsReceiverPodMetrics :: "string list" where
  "kubeletStatsReceiverPodMetrics =
     [''k8s.pod.cpu.time'', ''k8s.pod.cpu.usage'', ''k8s.pod.filesystem.available'',
      ''k8s.pod.filesystem.capacity'', ''k8s.pod.filesystem.usage'',
      ''k8s.pod.memory.available'', ''k8s.pod.memory.major_page_faults'',
      ''k8s.pod.memory.page_faults'', ''k8s.pod.memory.rss'', ''k8s.pod.memory.usage'',
      ''k8s.pod.memory.working_set'', ''k8s.pod.network.errors'', ''k8s.pod.network.io'']"

definition kubeletStatsReceiverVolumeMetrics :: "string list" where
  "kubeletStatsReceiverVolumeMetrics =
     [''k8s.volume.available'', ''k8s.volume.capacity'', ''k8s.volume.inodes'',
      ''k8s.volume.inodes.free'', ''k8s.volume.inodes.used'']"

definition kubeletStatsReceiverExtraMetrics :: "string list" where
  "kubeletStatsReceiverExtraMetrics =
     [''k8s.node.cpu.time'', ''k8s.node.memory.major_page_faults'',
      ''k8s.node.memory.page_faults'', ''container.uptime'',
      ''k8s.container.cpu.node.utilization'', ''k8s.container.cpu_limit_utilization'',
      ''k8s.container.cpu_request_utilization'', ''k8s.container.ephemeral_storage.usage'',
      ''k8s.container.memory.node.utilization'', ''k8s.container.memory_limit_utilization'',
      ''k8s.container.memory_request_utilization'', ''k8s.node.system_container.cpu.time'',
      ''k8s.node.system_container.cpu.usage'', ''k8s.node.system_container.memory.usage'',
      ''k8s.node.system_container.memory.working_set'', ''k8s.node.uptime'',
      ''k8s.pod.cpu.node.utilization'', ''k8s.pod.cpu_limit_utilization'',
      ''k8s.pod.cpu_request_utilization'', ''k8s.pod.memory.node.utilization'',
      ''k8s.pod.memory_limit_utilization'', ''k8s.pod.memory_request_utilization'',
      ''k8s.pod.uptime'', ''k8s.pod.volume.usage'']"

definition KubeletStatsReceiverMetrics :: "string list" where
  "KubeletStatsReceiverMetrics =
     kubeletStatsReceiverContainerMetrics @
     kubeletStatsReceiverNodeMetrics @
     kubeletStatsReceiverPodMetrics @
     kubeletStatsReceiverVolumeMetrics @
     kubeletStatsReceiverExtraMetrics"

definition k8sClusterReceiverPodMetrics :: "string list" where
  "k8sClusterReceiverPodMetrics =
     [''k8s.pod.phase'']"

definition k8sClusterReceiverContainerMetrics :: "string list" where
  "k8sClusterReceiverContainerMetrics =
     [''k8s.container.cpu_request'', ''k8s.container.cpu_limit'',
      ''k8s.container.memory_request'', ''k8s.container.memory_limit'',
      ''k8s.container.restarts'']"

definition k8sClusterReceiverStatefulSetMetrics :: "string list" where
  "k8sClusterReceiverStatefulSetMetrics =
     [''k8s.statefulset.current_pods'', ''k8s.statefulset.desired_pods'',
      ''k8s.statefulset.ready_pods'', ''k8s.statefulset.updated_pods'']"

definition k8sClusterReceiverJobMetrics :: "string list" where
  "k8sClusterReceiverJobMetrics =
     [''k8s.job.active_pods'', ''k8s.job.desired_successful_pods'', ''k8s.job.failed_pods'',
      ''k8s.job.max_parallel_pods'', ''k8s.job.successful_pods'']"

definition k8sClusterReceiverDeploymentMetrics :: "string list" where
  "k8sClusterReceiverDeploymentMetrics =
     [''k8s.deployment.available'', ''k8s.deployment.desired'']"

definition k8sClusterReceiverDaemonSetMetrics :: "string list" where
  "k8sClusterReceiverDaemonSetMetrics =
     [''k8s.daemonset.current_scheduled_nodes'', ''k8s.daemonset.desired_scheduled_nodes'',
      ''k8s.daemonset.misscheduled_nodes'', ''k8s.daemonset.ready_nodes'']"

definition k8sClusterReceiverExtraMetrics :: "string list" where
  "k8sClusterReceiverExtraMetrics =
     [''k8s.container.storage_request'', ''k8s.container.storage_limit'',
      ''k8s.container.ephemeralstorage_request'', ''k8s.container.ephemeralstorage_limit'',
      ''k8s.container.ready'', ''k8s.namespace.phase'', ''k8s.hpa.current_replicas'',
      ''k8s.hpa.desired_replicas'', ''k8s.hpa.min_replicas'', ''k8s.hpa.max_replicas'',
      ''k8s.replicaset.available'', ''k8s.replicaset.desired'',
      ''k8s.replication_controller.available'', ''k8s.replication_controller.desired'',
      ''k8s.resource_quota.hard_limit'', ''k8s.resource_quota.used'',
      ''k8s.cronjob.active_jobs'', ''k8s.container.status.reason'',
      ''k8s.container.status.state'', ''k8s.node.condition'',
      ''k8s.persistentvolume.status.phase'', ''k8s.persistentvolume.storage.capacity'',
      ''k8s.persistentvolumeclaim.status.phase'', ''k8s.persistentvolumeclaim.storage.capacity'',
      ''k8s.persistentvolumeclaim.storage.request'', ''k8s.pod.status_reason'',
      ''k8s.service.endpoint.count'', ''k8s.service.load_balancer.ingress.count'']"

definition K8sClusterReceiverMetrics :: "string list" where
  "K8sClusterReceiverMetrics =
     k8sClusterReceiverPodMetrics @
     k8sClusterReceiverContainerMetrics @
     k8sClusterReceiverStatefulSetMetrics @
     k8sClusterReceiverJobMetrics @
     k8sClusterReceiverDeploymentMetrics @
     k8sClusterReceiverDaemonSetMetrics @
     k8sClusterReceiverExtraMetrics"

section \<open>Enabled resources\<close>

text \<open>The eight predicates of \<open>internal/utils/metricpipeline\<close> share one shape: enabled unless switched off
  explicitly.  They are called with an enabled runtime input only; on a nil one the Go code panics.\<close>

definition resourceEnabled ::
    "(RuntimeInputResources \<Rightarrow> RuntimeInputResource option) \<Rightarrow> MetricPipelineRuntimeInput \<Rightarrow> bool" where
  "resourceEnabled sel rt =
     (case mpr_Resources rt of
        None \<Rightarrow> True
      | Some res \<Rightarrow>
          (case sel res of
             None \<Rightarrow> True
           | Some r \<Rightarrow> (case rir_Enabled r of None \<Rightarrow> True | Some b \<Rightarrow> b)))"

definition IsRuntimePodInputEnabled :: "MetricPipelineRuntimeInput \<Rightarrow> bool" where
  "IsRuntimePodInputEnabled = resourceEnabled res_Pod"

definition IsRuntimeContainerInputEnabled :: "MetricPipelineRuntimeInput \<Rightarrow> bool" where
  "IsRuntimeContainerInputEnabled = resourceEnabled res_Container"

definition IsRuntimeNodeInputEnabled :: "MetricPipelineRuntimeInput \<Rightarrow> bool" where
  "IsRuntimeNodeInputEnabled = resourceEnabled res_Node"

definition IsRuntimeVolumeInputEnabled :: "MetricPipelineRuntimeInput \<Rightarrow> bool" where
  "IsRuntimeVolumeInputEnabled = resourceEnabled res_Volume"

definition IsRuntimeStatefulSetInputEnabled :: "MetricPipelineRuntimeInput \<Rightarrow> bool" where
  "IsRuntimeStatefulSetInputEnabled = resourceEnabled res_StatefulSet"

definition IsRuntimeDeploymentInputEnabled :: "MetricPipelineRuntimeInput \<Rightarrow> bool" where
  "IsRuntimeDeploymentInputEnabled = resourceEnabled res_Deployment"

definition IsRuntimeDaemonSetInputEnabled :: "MetricPipelineRuntimeInput \<Rightarrow> bool" where
  "IsRuntimeDaemonSetInputEnabled = resourceEnabled res_DaemonSet"

definition IsRuntimeJobInputEnabled :: "MetricPipelineRuntimeInput \<Rightarrow> bool" where
  "IsRuntimeJobInputEnabled = resourceEnabled res_Job"

section \<open>The validator\<close>

definition validRuntimeMetrics :: "string list" where
  "validRuntimeMetrics = KubeletStatsReceiverMetrics @ K8sClusterReceiverMetrics"

definition docuLink :: string where
  "docuLink = ''https://kyma-project.io/external-content/telemetry-manager/docs/user/'' @
     ''collecting-metrics/runtime-metrics.html#runtime-additional-metrics''"

definition additionalMetricsOf :: "MetricPipeline \<Rightarrow> string list" where
  "additionalMetricsOf mp =
     (case mi_Runtime (ms_Input (mp_Spec mp)) of None \<Rightarrow> [] | Some rt \<Rightarrow> mpr_AdditionalMetrics rt)"

definition runtimemetrics_Validate :: "MetricPipeline \<Rightarrow> go_error option" where
  "runtimemetrics_Validate mp =
     (if \<not> IsRuntimeInputEnabled (ms_Input (mp_Spec mp)) then None
      else if additionalMetricsOf mp = [] then None
      else range_check (\<lambda>m.
             if m \<notin> set validRuntimeMetrics
             then Some (InvalidAdditionalMetricError (NewError
                    (''invalid runtime additional metric: '' @ m @
                     ''. For the list of valid runtime additional metrics, check documentation: '' @
                     docuLink)))
             else None) (additionalMetricsOf mp))"

section \<open>Selection per pipeline\<close>

text \<open>The loop of \<open>getRuntimeAdditionalMetrics\<close>: the metrics of one receiver asked for by any pipeline, each
  once, in the order of first occurrence.\<close>

definition requestedMetrics :: "MetricPipeline list \<Rightarrow> string list" where
  "requestedMetrics pipelines =
     concat (map additionalMetricsOf
       (filter (\<lambda>mp. IsRuntimeInputEnabled (ms_Input (mp_Spec mp))) pipelines))"

definition getRuntimeAdditionalMetrics :: "MetricPipeline list \<Rightarrow> string list \<times> string list" where
  "getRuntimeAdditionalMetrics pipelines =
     (dedup_seen {} (filter (\<lambda>m. m \<in> set K8sClusterReceiverMetrics) (requestedMetrics pipelines)),
      dedup_seen {} (filter (\<lambda>m. m \<in> set KubeletStatsReceiverMetrics) (requestedMetrics pipelines)))"

definition enabledResourceMetrics :: "MetricPipelineRuntimeInput \<Rightarrow> string list" where
  "enabledResourceMetrics rt =
     (if IsRuntimePodInputEnabled rt
      then k8sClusterReceiverPodMetrics @ kubeletStatsReceiverPodMetrics else []) @
     (if IsRuntimeContainerInputEnabled rt
      then k8sClusterReceiverContainerMetrics @ kubeletStatsReceiverContainerMetrics else []) @
     (if IsRuntimeNodeInputEnabled rt then kubeletStatsReceiverNodeMetrics else []) @
     (if IsRuntimeVolumeInputEnabled rt then kubeletStatsReceiverVolumeMetrics else []) @
     (if IsRuntimeDeploymentInputEnabled rt then k8sClusterReceiverDeploymentMetrics else []) @
     (if IsRuntimeDaemonSetInputEnabled rt then k8sClusterReceiverDaemonSetMetrics else []) @
     (if IsRuntimeStatefulSetInputEnabled rt then k8sClusterReceiverStatefulSetMetrics else []) @
     (if IsRuntimeJobInputEnabled rt then k8sClusterReceiverJobMetrics else [])"

definition additionalMetricsToDrop ::
    "string list \<Rightarrow> string list \<Rightarrow> MetricPipelineRuntimeInput \<Rightarrow> string list" where
  "additionalMetricsToDrop allAdditionalMetrics pipelineAdditionalMetrics rt =
     (let excludedMetrics = pipelineAdditionalMetrics @ enabledResourceMetrics rt
      in filter (\<lambda>m. m \<notin> set excludedMetrics) allAdditionalMetrics)"

section \<open>Properties\<close>

lemma set_getRuntimeAdditionalMetrics:
  "set (fst (getRuntimeAdditionalMetrics ps) @ snd (getRuntimeAdditionalMetrics ps)) =
     set (requestedMetrics ps) \<inter> set validRuntimeMetrics"
  by (auto simp: getRuntimeAdditionalMetrics_def set_dedup_seen validRuntimeMetrics_def)

lemma runtimemetrics_Validate_None:
  "runtimemetrics_Validate mp = None \<longleftrightarrow>
     \<not> IsRuntimeInputEnabled (ms_Input (mp_Spec mp)) \<or>
     set (additionalMetricsOf mp) \<subseteq> set validRuntimeMetrics"
  by (auto simp: runtimemetrics_Validate_def range_check_None)

text \<open>Of the additional runtime metrics that the shared receivers emit for all pipelines together, a
  pipeline with a valid specification keeps all it asked for and, of the rest, exactly those of the
  resources it has enabled; no metric is requested from a receiver twice.\<close>

lemma runtime_additional_metrics_exact:
  assumes "mp \<in> set ps" and "runtimemetrics_Validate mp = None"
    and "mi_Runtime (ms_Input (mp_Spec mp)) = Some rt"
    and "IsRuntimeInputEnabled (ms_Input (mp_Spec mp))"
  defines "emitted \<equiv> fst (getRuntimeAdditionalMetrics ps) @ snd (getRuntimeAdditionalMetrics ps)"
  shows "set (mpr_AdditionalMetrics rt) \<subseteq> set emitted \<and>
    set emitted - set (additionalMetricsToDrop emitted (mpr_AdditionalMetrics rt) rt) =
      set (mpr_AdditionalMetrics rt) \<union> (set emitted \<inter> set (enabledResourceMetrics rt)) \<and>
    distinct (fst (getRuntimeAdditionalMetrics ps)) \<and> distinct (snd (getRuntimeAdditionalMetrics ps))"
proof -
  have "set (additionalMetricsOf mp) \<subseteq> set (requestedMetrics ps)"
    using assms(1,4) by (auto simp: requestedMetrics_def)
  moreover have "additionalMetricsOf mp = mpr_AdditionalMetrics rt"
    by (simp add: additionalMetricsOf_def assms(3))
  ultimately have "set (mpr_AdditionalMetrics rt) \<subseteq> set emitted"
    using assms(2,4) unfolding emitted_def set_getRuntimeAdditionalMetrics
    by (auto simp: runtimemetrics_Validate_None)
  then show ?thesis
    by (auto simp: additionalMetricsToDrop_def getRuntimeAdditionalMetrics_def distinct_dedup_seen)
qed

definition sampleRuntimePipeline :: MetricPipeline where
  "sampleRuntimePipeline = zeroMetricPipeline\<lparr>mp_Spec := (mp_Spec zeroMetricPipeline)
     \<lparr>ms_Input := (ms_Input (mp_Spec zeroMetricPipeline))\<lparr>mi_Runtime := Some
        \<lparr>mpr_Enabled = Some True, mpr_Namespaces = None, mpr_Resources = None,
         mpr_AdditionalMetrics = [''container.uptime'']\<rparr>\<rparr>\<rparr>\<rparr>"

lemma runtime_additional_metrics_exact_witness:
  "set [''container.uptime''] \<subseteq>
     set (fst (getRuntimeAdditionalMetrics [sampleRuntimePipeline]) @
          snd (getRuntimeAdditionalMetrics [sampleRuntimePipeline]))"
proof -
  let ?rt = "\<lparr>mpr_Enabled = Some True, mpr_Namespaces = None, mpr_Resources = None,
         mpr_AdditionalMetrics = [''container.uptime'']\<rparr>"
  have rt: "mi_Runtime (ms_Input (mp_Spec sampleRuntimePipeline)) = Some ?rt"
    by (simp add: sampleRuntimePipeline_def)
  then have on: "IsRuntimeInputEnabled (ms_Input (mp_Spec sampleRuntimePipeline))"
    by (simp add: IsRuntimeInputEnabled_def)
  have "''container.uptime'' \<in> set kubeletStatsReceiverExtraMetrics"
    by (simp add: kubeletStatsReceiverExtraMetrics_def)
  then have "runtimemetrics_Validate sampleRuntimePipeline = None"
    using rt by (simp add: runtimemetrics_Validate_None additionalMetricsOf_def
        validRuntimeMetrics_def KubeletStatsReceiverMetrics_def)
  from runtime_additional_metrics_exact [OF _ this rt on, of "[sampleRuntimePipeline]"]
  show ?thesis by simp
qed

end
