(* ===== verification/PipelineValidators.thy ===== *)
theory PipelineValidators
  imports EndpointValidator TLSCertValidator ResourceLock RuntimeMetrics
begin

text \<open>
  The validators of the OTLP pipelines: \<open>validator.go\<close> of the metric, trace and OTel log reconcilers, and the
  OTTL validators they call (\<open>internal/validators/ottl\<close>).  A \<open>Validator\<close> is a struct of interfaces, here a
  record of functions; the locale \<open>otlp_validator\<close> states what each interface promises about its errors, and
  it is interpreted on the validators of the module.  The OTTL parser is a parameter.
\<close>

section \<open>OTTL specs\<close>

record ottl_parser =
  op_ParseStatements :: "string list \<Rightarrow> string list \<Rightarrow> string option"
  op_ParseConditions :: "string list \<Rightarrow> string option"

definition parseStatementsWithConditions ::
    "ottl_parser \<Rightarrow> string list \<Rightarrow> string list \<Rightarrow> string option" where
  "parseStatementsWithConditions op statements conditions = op_ParseStatements op statements conditions"

definition parseConditions :: "ottl_parser \<Rightarrow> string list \<Rightarrow> string option" where
  "parseConditions op conditions =
     (if conditions = [] then None else op_ParseConditions op conditions)"

definition ottlErr :: "string \<Rightarrow> string \<Rightarrow> go_error" where
  "ottlErr msg e = InvalidOTTLSpecError (Errorf (msg @ '': '') (NewError e) [])"

definition ValidateStatementsAndConditions ::
    "ottl_parser \<Rightarrow> string list \<Rightarrow> string list \<Rightarrow> go_error option" where
  "ValidateStatementsAndConditions op statements conditions =
     orelse (map_option (ottlErr ''invalid TransformSpec'')
               (parseStatementsWithConditions op statements conditions))
       (map_option (ottlErr ''invalid TransformSpec'') (parseConditions op conditions))"

definition TransformSpecValidator_Validate :: "ottl_parser \<Rightarrow> TransformSpec list \<Rightarrow> go_error option" where
  "TransformSpecValidator_Validate op transforms =
     range_check (\<lambda>ts. ValidateStatementsAndConditions op (ts_Statements ts) (ts_Conditions ts)) transforms"

definition ValidateConditions :: "ottl_parser \<Rightarrow> string list \<Rightarrow> go_error option" where
  "ValidateConditions op conditions =
     map_option (ottlErr ''invalid FilterSpec'') (parseConditions op conditions)"

definition FilterSpecValidator_Validate :: "ottl_parser \<Rightarrow> FilterSpec list option \<Rightarrow> go_error option" where
  "FilterSpecValidator_Validate op filters =
     range_check (\<lambda>fs. ValidateConditions op (fs_Conditions fs)) (elems filters)"

section \<open>The validator of an OTLP pipeline\<close>

text \<open>The fields of \<open>Validator\<close>.  \<open>'p\<close> is the pipeline type; the trace and log validators have no
  \<open>RuntimeAdditionalMetricsValidator\<close>.\<close>

record 'p Validator =
  v_SecretRef :: "'p \<Rightarrow> go_error option go"
  v_Endpoint :: "EndpointValidationParams \<Rightarrow> go_error option go"
  v_TLSCert :: "TLSValidationParams \<Rightarrow> go_error option"
  v_IsLockHolder :: "ObjectMeta \<Rightarrow> go_error option"
  v_Transform :: "TransformSpec list \<Rightarrow> go_error option"
  v_Filter :: "FilterSpec list option \<Rightarrow> go_error option"
  v_AdditionalMetrics :: "'p \<Rightarrow> go_error option"

definition tlsValidationRequired :: "OTLPOutput option \<Rightarrow> bool" where
  "tlsValidationRequired otlp =
     (case otlp of
        None \<Rightarrow> False
      | Some out \<Rightarrow>
          (case oo_TLS out of
             None \<Rightarrow> False
           | Some t \<Rightarrow> tls_Cert t \<noteq> None \<or> tls_Key t \<noteq> None \<or> tls_CA t \<noteq> None))"

definition endpointParams :: "OTLPOutput \<Rightarrow> EndpointValidationParams" where
  "endpointParams out =
     \<lparr>evp_Endpoint = Some (oo_Endpoint out), evp_Protocol = oo_Protocol out,
      evp_OutputTLS = oo_TLS out,
      evp_OTLPOAuth2 = Option.bind (oo_Authentication out) ao_OAuth2\<rparr>"

definition tlsParams :: "OutputTLS \<Rightarrow> TLSValidationParams" where
  "tlsParams t = \<lparr>tvp_Cert = tls_Cert t, tvp_Key = tls_Key t, tvp_CA = tls_CA t\<rparr>"

definition validateOTLPOutput :: "'p Validator \<Rightarrow> OTLPOutput option \<Rightarrow> go_error option go" where
  "validateOTLPOutput v otlp =
     gcheck (case otlp of None \<Rightarrow> Ret None | Some out \<Rightarrow> v_Endpoint v (endpointParams out))
       (if tlsValidationRequired otlp
        then gderef otlp (\<lambda>out. gderef (oo_TLS out) (\<lambda>t. Ret (v_TLSCert v (tlsParams t))))
        else Ret None)"

definition metric_validate :: "MetricPipeline Validator \<Rightarrow> MetricPipeline \<Rightarrow> go_error option go" where
  "metric_validate v p =
     gcheck (v_SecretRef v p)
     (gcheck (validateOTLPOutput v (map_option mo_OTLPOutput (ms_Output (mp_Spec p))))
     (gcheck (Ret (v_IsLockHolder v (mp_ObjectMeta p)))
     (gcheck (Ret (v_Transform v (ms_Transforms (mp_Spec p))))
     (gcheck (Ret (v_Filter v (ms_Filters (mp_Spec p))))
       (Ret (v_AdditionalMetrics v p))))))"

definition trace_validate :: "TracePipeline Validator \<Rightarrow> TracePipeline \<Rightarrow> go_error option go" where
  "trace_validate v p =
     gcheck (v_SecretRef v p)
     (gcheck (validateOTLPOutput v (tps_Output (tp_Spec p)))
     (gcheck (Ret (v_IsLockHolder v (tp_ObjectMeta p)))
     (gcheck (Ret (v_Transform v (tps_Transforms (tp_Spec p))))
       (Ret (v_Filter v (tps_Filters (tp_Spec p)))))))"

definition logotel_validate :: "LogPipeline Validator \<Rightarrow> LogPipeline \<Rightarrow> go_error option go" where
  "logotel_validate v p =
     gcheck (v_SecretRef v p)
     (gcheck (validateOTLPOutput v (lo_OTLP (ls_Output (lp_Spec p))))
     (gcheck (Ret (v_IsLockHolder v (lp_ObjectMeta p)))
     (gcheck (Ret (v_Transform v (ls_Transforms (lp_Spec p))))
       (Ret (v_Filter v (ls_Filters (lp_Spec p)))))))"

text \<open>The validators the controllers wire up.\<close>

definition newMetricValidator ::
    "url_parser \<Rightarrow> crypto \<Rightarrow> ottl_parser \<Rightarrow> ottl_parser \<Rightarrow> secret_reader \<Rightarrow> time \<Rightarrow> 's cm_client \<Rightarrow>
      Checker \<Rightarrow> 's \<Rightarrow> MetricPipeline Validator" where
  "newMetricValidator parse cr tp fp get now c ck s =
     \<lparr>v_SecretRef = secretref_ValidateMetricPipeline get,
      v_Endpoint = endpoint_Validate parse get,
      v_TLSCert = tlscert_Validate cr get now,
      v_IsLockHolder = (\<lambda>obj. IsLockHolder c ck obj s),
      v_Transform = TransformSpecValidator_Validate tp,
      v_Filter = FilterSpecValidator_Validate fp,
      v_AdditionalMetrics = runtimemetrics_Validate\<rparr>"

definition newTraceValidator ::
    "url_parser \<Rightarrow> crypto \<Rightarrow> ottl_parser \<Rightarrow> ottl_parser \<Rightarrow> secret_reader \<Rightarrow> time \<Rightarrow> 's cm_client \<Rightarrow>
      Checker \<Rightarrow> 's \<Rightarrow> TracePipeline Validator" where
  "newTraceValidator parse cr tp fp get now c ck s =
     \<lparr>v_SecretRef = secretref_ValidateTracePipeline get,
      v_Endpoint = endpoint_Validate parse get,
      v_TLSCert = tlscert_Validate cr get now,
      v_IsLockHolder = (\<lambda>obj. IsLockHolder c ck obj s),
      v_Transform = TransformSpecValidator_Validate tp,
      v_Filter = FilterSpecValidator_Validate fp,
      v_AdditionalMetrics = (\<lambda>_. None)\<rparr>"

definition newLogOtelValidator ::
    "url_parser \<Rightarrow> crypto \<Rightarrow> ottl_parser \<Rightarrow> ottl_parser \<Rightarrow> secret_reader \<Rightarrow> time \<Rightarrow> 's cm_client \<Rightarrow>
      Checker \<Rightarrow> 's \<Rightarrow> LogPipeline Validator" where
  "newLogOtelValidator parse cr tp fp get now c ck s =
     \<lparr>v_SecretRef = (\<lambda>p. Ret (secretref_ValidateLogPipeline get p)),
      v_Endpoint = endpoint_Validate parse get,
      v_TLSCert = tlscert_Validate cr get now,
      v_IsLockHolder = (\<lambda>obj. IsLockHolder c ck obj s),
      v_Transform = TransformSpecValidator_Validate tp,
      v_Filter = FilterSpecValidator_Validate fp,
      v_AdditionalMetrics = (\<lambda>_. None)\<rparr>"

section \<open>Error classes\<close>

text \<open>The classes of errors that the status handlers and reconcilers distinguish.\<close>

definition is_secret_error :: "go_error \<Rightarrow> bool" where
  "is_secret_error e \<longleftrightarrow>
     (\<exists>s m. s \<in> {ErrSecretRefNotFound, ErrSecretKeyNotFound, ErrSecretRefMissingFields} \<and>
        e = Errorf [] (Sentinel s) m)"

definition is_api_error :: "go_error \<Rightarrow> bool" where
  "is_api_error e \<longleftrightarrow> (\<exists>d. e = APIRequestFailedError d)"

definition tls_sentinels :: "sentinel set" where
  "tls_sentinels = {ErrCertDecodeFailed, ErrCertParseFailed, ErrKeyDecodeFailed, ErrCADecodeFailed,
     ErrCAParseFailed, ErrMissingCertKeyPair, ErrTLSValueResolveFailed, ErrInvalidCertificateKeyPair,
     ErrCertIsNotCA}"

definition is_tls_error :: "go_error \<Rightarrow> bool" where
  "is_tls_error e \<longleftrightarrow> (\<exists>s\<in>tls_sentinels. e = Sentinel s) \<or>
     (\<exists>t ca. e = CertExpiredError t ca) \<or> (\<exists>t ca. e = CertAboutToExpireError t ca)"

lemma GetValue_error:
  "GetValue get ref = Inl e \<Longrightarrow> is_secret_error e \<or> is_api_error e"
  by (auto simp: GetValue_def checkForMissingFields_def Let_def is_secret_error_def is_api_error_def
      split: option.splits sum.splits if_splits)

lemma secretref_validate_error:
  "secretref_validate get refs = Some e \<Longrightarrow> is_secret_error e \<or> is_api_error e"
  unfolding secretref_validate_def
  by (elim range_check_Some) (auto dest: GetValue_error split: sum.splits)

lemma validateExpiry_error: "validateExpiry ca t now = Some e \<Longrightarrow> is_tls_error e"
  by (auto simp: validateExpiry_def is_tls_error_def split: if_splits)

lemma tls_resolve_error: "resolveOpt get v = Inl e \<Longrightarrow> is_tls_error e"
  by (auto simp: resolveOpt_def tls_resolveValue_def is_tls_error_def tls_sentinels_def
      split: option.splits sum.splits if_splits)

lemma tls_parse_errors:
  "parseCertificate cr s = Inl e \<Longrightarrow> is_tls_error e"
  "parsePrivateKey cr s = Some e \<Longrightarrow> is_tls_error e"
  "parseCA cr s = Inl e \<Longrightarrow> is_tls_error e"
  "validateCertKeyPair cr s k = Some e \<Longrightarrow> is_tls_error e"
  "validateCertificate x now = Some e \<Longrightarrow> is_tls_error e"
  "validateCA x now = Some e \<Longrightarrow> is_tls_error e"
  by (auto simp: parseCertificate_def parsePrivateKey_def parseCA_def validateCertKeyPair_def
      validateCertificate_def validateCA_def is_tls_error_def tls_sentinels_def validateExpiry_def
      split: option.splits sum.splits if_splits)

lemma tlscert_Validate_error: "tlscert_Validate cr get now p = Some e \<Longrightarrow> is_tls_error e"
  by (auto simp: tlscert_Validate_def resolveValues_def Let_def rbind_eq_Inl orelse_eq_Some
      is_tls_error_def [of "Sentinel ErrMissingCertKeyPair"] tls_sentinels_def
      dest: tls_resolve_error tls_parse_errors elim!: range_check_Some
      split: sum.splits if_splits)

lemma ottl_errors:
  "TransformSpecValidator_Validate op ts = Some e \<Longrightarrow> \<exists>d. e = InvalidOTTLSpecError d"
  "FilterSpecValidator_Validate op fs = Some e \<Longrightarrow> \<exists>d. e = InvalidOTTLSpecError d"
  by (auto simp: TransformSpecValidator_Validate_def FilterSpecValidator_Validate_def
      ValidateStatementsAndConditions_def ValidateConditions_def ottlErr_def orelse_eq_Some
      elim!: range_check_Some)

lemma IsLockHolder_error:
  "IsLockHolder c ck obj s = Some e \<Longrightarrow> e = Sentinel ErrMaxPipelinesExceeded \<or> is_api_error e"
  by (auto simp: IsLockHolder_def is_api_error_def split: sum.splits if_splits)

lemma runtimemetrics_error:
  "runtimemetrics_Validate p = Some e \<Longrightarrow> \<exists>d. e = InvalidAdditionalMetricError d"
  by (auto simp: runtimemetrics_Validate_def elim!: range_check_Some split: if_splits)

definition endpoint_sentinels :: "sentinel set" where
  "endpoint_sentinels = {ErrEndpointValueResolveFailed, ErrPortMissing, ErrUnsupportedScheme,
     ErrGRPCOAuth2NoTLS, ErrHTTPWithTLS, ErrGRPCWithPath}"

definition is_endpoint_error :: "go_error \<Rightarrow> bool" where
  "is_endpoint_error e \<longleftrightarrow> (\<exists>m. e = EndpointInvalidError (NewError m)) \<or>
     (\<exists>s\<in>endpoint_sentinels. e = EndpointInvalidError (Sentinel s))"

lemma endpoint_error_intros [intro, simp]:
  "is_endpoint_error (EndpointInvalidError (NewError m))"
  "s \<in> endpoint_sentinels \<Longrightarrow> is_endpoint_error (endpointErr s)"
  by (auto simp: is_endpoint_error_def endpointErr_def)

lemma endpoint_part_errors:
  "endpoint_resolveValue get x = Inl e \<Longrightarrow> is_endpoint_error e"
  "parseEndpoint parse s = Inl e \<Longrightarrow> is_endpoint_error e"
  "validatePort h a = Some e \<Longrightarrow> is_endpoint_error e"
  "validateSchemeHTTP s = Some e \<Longrightarrow> is_endpoint_error e"
  "validateGRPCPath s = Some e \<Longrightarrow> is_endpoint_error e"
  "validateGRPCWithOAuth2 s t = Some e \<Longrightarrow> is_endpoint_error e"
  "validateHTTPWithOAuth2 s t = Some e \<Longrightarrow> is_endpoint_error e"
  by (auto simp: endpoint_resolveValue_def parseEndpoint_def validatePort_def validateSchemeHTTP_def
      validateGRPCPath_def validateGRPCWithOAuth2_def validateHTTPWithOAuth2_def endpoint_sentinels_def
      split: if_splits sum.splits option.splits)

lemma endpoint_Validate_error:
  "endpoint_Validate parse get q = Ret (Some e) \<Longrightarrow> is_endpoint_error e"
  by (auto simp: endpoint_Validate_def endpoint_checks_def endpoint_oauth2_def gcheck_Some rbind_eq_Inl
      endpoint_sentinels_def dest: endpoint_part_errors split: option.splits sum.splits if_splits)

lemma not_about_to_expire:
  "is_secret_error e \<Longrightarrow> \<not> IsCertAboutToExpireError e"
  "is_api_error e \<Longrightarrow> \<not> IsCertAboutToExpireError e"
  "is_endpoint_error e \<Longrightarrow> \<not> IsCertAboutToExpireError e"
  "\<not> IsCertAboutToExpireError (Sentinel s)"
  "\<not> IsCertAboutToExpireError (InvalidOTTLSpecError d)"
  "\<not> IsCertAboutToExpireError (InvalidAdditionalMetricError d)"
  by (auto simp: is_secret_error_def is_api_error_def is_endpoint_error_def
      IsCertAboutToExpireError_def errors_As_wrapped)

section \<open>The interface of the validators\<close>

text \<open>What the reconcilers and status handlers rely on: which errors each field returns.\<close>

locale otlp_validator =
  fixes v :: "'p Validator"
  assumes secretref_errors: "v_SecretRef v p = Ret (Some e) \<Longrightarrow> is_secret_error e \<or> is_api_error e"
    and endpoint_errors: "v_Endpoint v q = Ret (Some e) \<Longrightarrow> is_endpoint_error e"
    and tls_errors: "v_TLSCert v t = Some e \<Longrightarrow> is_tls_error e"
    and lock_errors: "v_IsLockHolder v m = Some e \<Longrightarrow>
      e = Sentinel ErrMaxPipelinesExceeded \<or> is_api_error e"
    and transform_errors: "v_Transform v ts = Some e \<Longrightarrow> \<exists>d. e = InvalidOTTLSpecError d"
    and filter_errors: "v_Filter v fs = Some e \<Longrightarrow> \<exists>d. e = InvalidOTTLSpecError d"
    and additional_errors: "v_AdditionalMetrics v p = Some e \<Longrightarrow>
      \<exists>d. e = InvalidAdditionalMetricError d"
begin

lemma otlp_output_errors:
  "validateOTLPOutput v otlp = Ret (Some e) \<Longrightarrow> is_endpoint_error e \<or> is_tls_error e"
  using endpoint_errors tls_errors
  by (cases otlp)
    (auto simp: validateOTLPOutput_def gcheck_Some gderef_def split: if_splits option.splits)

text \<open>A warning about expiry is only ever reported for an output whose endpoint is valid.\<close>

lemma about_to_expire_output:
  assumes "validateOTLPOutput v otlp = Ret (Some e)" and "IsCertAboutToExpireError e"
  shows "\<exists>out t. otlp = Some out \<and> oo_TLS out = Some t \<and> v_Endpoint v (endpointParams out) = Ret None \<and>
    v_TLSCert v (tlsParams t) = Some e"
  using assms endpoint_errors not_about_to_expire(3)
  by (cases otlp)
    (auto simp: validateOTLPOutput_def gcheck_Some gderef_def split: if_splits option.splits)

text \<open>Whatever the later checks say, a result that makes a pipeline reconcilable means that its secrets were
  readable and its endpoint was valid.\<close>

lemma reconcilable_prefix:
  assumes "gcheck (v_SecretRef v p) (gcheck (validateOTLPOutput v (Some out)) rest) = Ret r"
    and "r = None \<or> (\<exists>e. r = Some e \<and> IsCertAboutToExpireError e)"
  shows "v_SecretRef v p = Ret None \<and> v_Endpoint v (endpointParams out) = Ret None"
proof (cases r)
  case None
  with assms(1) show ?thesis by (simp add: validateOTLPOutput_def)
next
  case (Some e)
  with assms(2) have ate: "IsCertAboutToExpireError e" by simp
  from ate have "v_SecretRef v p \<noteq> Ret (Some e)"
    using secretref_errors not_about_to_expire(1,2) by blast
  with assms(1) Some consider "v_SecretRef v p = Ret None" "validateOTLPOutput v (Some out) = Ret (Some e)"
    | "v_SecretRef v p = Ret None" "validateOTLPOutput v (Some out) = Ret None"
    by (auto simp: gcheck_Some)
  then show ?thesis
  proof cases
    case 1
    with about_to_expire_output [OF 1(2) ate] show ?thesis by auto
  next
    case 2
    then show ?thesis by (simp add: validateOTLPOutput_def)
  qed
qed

lemma reconcilable_tls:
  assumes "gcheck (v_SecretRef v p) (gcheck (validateOTLPOutput v (Some out)) rest) = Ret r"
    and "r = None \<or> (\<exists>e. r = Some e \<and> IsCertAboutToExpireError e)"
    and "oo_TLS out = Some t" and "tlsValidationRequired (Some out)"
  shows "v_TLSCert v (tlsParams t) = None \<or>
    (\<exists>e. v_TLSCert v (tlsParams t) = Some e \<and> IsCertAboutToExpireError e)"
proof -
  from reconcilable_prefix [OF assms(1,2)] assms(1)
  have "gcheck (Ret (v_TLSCert v (tlsParams t))) rest = Ret r"
    by (simp add: validateOTLPOutput_def assms(3,4))
  with assms(2) show ?thesis by (cases "v_TLSCert v (tlsParams t)") auto
qed

end

interpretation metric_v: otlp_validator "newMetricValidator parse cr tp fp get now c ck s"
  for parse cr tp fp get now c ck s
proof (unfold_locales, goal_cases)
  case 1
  then show ?case
    using secretref_validate_error
    by (auto simp: newMetricValidator_def secretref_ValidateMetricPipeline_def
        GetSecretRefsMetricPipeline_def gderef_def split: option.splits)
qed (auto simp: newMetricValidator_def dest: endpoint_Validate_error tlscert_Validate_error
      IsLockHolder_error ottl_errors runtimemetrics_error)

interpretation trace_v: otlp_validator "newTraceValidator parse cr tp fp get now c ck s"
  for parse cr tp fp get now c ck s
proof (unfold_locales, goal_cases)
  case 1
  then show ?case
    using secretref_validate_error
    by (auto simp: newTraceValidator_def secretref_ValidateTracePipeline_def
        GetSecretRefsTracePipeline_def gderef_def split: option.splits)
qed (auto simp: newTraceValidator_def dest: endpoint_Validate_error tlscert_Validate_error
      IsLockHolder_error ottl_errors)

interpretation logotel_v: otlp_validator "newLogOtelValidator parse cr tp fp get now c ck s"
  for parse cr tp fp get now c ck s
  by unfold_locales
    (auto simp: newLogOtelValidator_def secretref_ValidateLogPipeline_def
      dest: endpoint_Validate_error tlscert_Validate_error IsLockHolder_error ottl_errors
        secretref_validate_error)

section \<open>Reconcilable pipelines\<close>

text \<open>\<open>isReconcilable\<close> of the three reconcilers, which differ only in the validator they call.\<close>

definition reconcilable_by :: "go_error option go \<Rightarrow> ObjectMeta \<Rightarrow> (go_error, bool) result go" where
  "reconcilable_by validate m =
     (if om_DeletionTimestamp m \<noteq> None then Ret (Inr False)
      else gbind validate (\<lambda>err. case err of
          None \<Rightarrow> Ret (Inr True)
        | Some e \<Rightarrow>
            (if IsCertAboutToExpireError e then Ret (Inr True)
             else case asAPIRequestFailed e of
                 Some d \<Rightarrow> Ret (Inl d)
               | None \<Rightarrow> Ret (Inr False))))"

definition metric_isReconcilable ::
    "MetricPipeline Validator \<Rightarrow> MetricPipeline \<Rightarrow> (go_error, bool) result go" where
  "metric_isReconcilable v p = reconcilable_by (metric_validate v p) (mp_ObjectMeta p)"

definition trace_isReconcilable ::
    "TracePipeline Validator \<Rightarrow> TracePipeline \<Rightarrow> (go_error, bool) result go" where
  "trace_isReconcilable v p = reconcilable_by (trace_validate v p) (tp_ObjectMeta p)"

definition logotel_isReconcilable ::
    "LogPipeline Validator \<Rightarrow> LogPipeline \<Rightarrow> (go_error, bool) result go" where
  "logotel_isReconcilable v p = reconcilable_by (logotel_validate v p) (lp_ObjectMeta p)"

text \<open>\<open>getReconcilablePipelines\<close>: the pipelines that are rendered; the first API failure stops it.\<close>

fun metric_getReconcilablePipelines ::
    "MetricPipeline Validator \<Rightarrow> MetricPipeline list \<Rightarrow> (go_error, MetricPipeline list) result go" where
  "metric_getReconcilablePipelines v [] = Ret (Inr [])"
| "metric_getReconcilablePipelines v (p # ps) =
     gbind (metric_isReconcilable v p) (\<lambda>r. case r of
         Inl e \<Rightarrow> Ret (Inl e)
       | Inr ok \<Rightarrow>
           gbind (metric_getReconcilablePipelines v ps) (\<lambda>r'.
             Ret (rbind r' (\<lambda>rest. Inr (if ok then p # rest else rest)))))"

lemma reconcilable_by_True:
  "reconcilable_by validate m = Ret (Inr True) \<longleftrightarrow>
     om_DeletionTimestamp m = None \<and>
     (validate = Ret None \<or> (\<exists>e. validate = Ret (Some e) \<and> IsCertAboutToExpireError e))"
  by (cases validate) (auto simp: reconcilable_by_def split: option.splits)

section \<open>Properties\<close>

text \<open>A pipeline with a client certificate that expires in a week, and a lock held by another one.\<close>

definition expiringCrypto :: crypto where
  "expiringCrypto = sampleCrypto\<lparr>x509_ParseCertificate :=
     (\<lambda>_. Inr \<lparr>x_NotAfter = 7 * 24 * 60 * 60 * 1000000000, x_IsCA = False\<rparr>)\<rparr>"

definition tlsOutput :: OTLPOutput where
  "tlsOutput = (plainOTLPOutput (plainValue ''https://backend:4317''))\<lparr>oo_TLS := Some
     \<lparr>tls_Insecure = False, tls_InsecureSkipVerify = False, tls_CA = None,
      tls_Cert = Some (plainValue ''cert''), tls_Key = Some (plainValue ''key'')\<rparr>\<rparr>"

abbreviation noSecrets :: secret_reader where
  "noSecrets \<equiv> (\<lambda>_. Inl \<lparr>ke_Reason = ReasonNotFound, ke_Message = []\<rparr>)"

abbreviation permissiveOTTL :: ottl_parser where
  "permissiveOTTL \<equiv> \<lparr>op_ParseStatements = (\<lambda>_ _. None), op_ParseConditions = (\<lambda>_. None)\<rparr>"

abbreviation expiringValidator :: "MetricPipeline Validator" where
  "expiringValidator \<equiv> newMetricValidator (\<lambda>_. Inr sampleURL) expiringCrypto permissiveOTTL permissiveOTTL
     noSecrets 0 mem_client sampleLocker [Put sampleLock]"

lemma tlsOutput_values: "otlpValues tlsOutput = [plainValue ''https://backend:4317'', plainValue ''cert'', plainValue ''key'']"
  by (simp add: otlpValues_def tlsOutput_def plainOTLPOutput_def tlsValues_def opt_list_def)

lemma tlsOutput_secrets:
  "secretref_ValidateMetricPipeline noSecrets (metricPipelineWith tlsOutput) = Ret None"
  by (simp add: secretref_ValidateMetricPipeline_def GetSecretRefsMetricPipeline_def metricPipelineWith_def
      getSecretRefsInOTLPOutput_eq tlsOutput_values secretRefOf_def plainValue_def opt_list_def
      secretref_validate_def)

lemma tlsOutput_endpoint:
  "endpoint_Validate (\<lambda>_. Inr sampleURL) noSecrets (endpointParams tlsOutput) = Ret None"
proof -
  have "Atoi ''4317'' \<noteq> None" by code_simp
  then show ?thesis
    by (simp add: endpoint_Validate_def endpointParams_def tlsOutput_def plainOTLPOutput_def plainValue_def
        endpoint_resolveValue_def parseEndpoint_def sampleURL_def endpoint_checks_def validatePort_def
        sampleEndpoint_port OTLPProtocolGRPC_def OTLPProtocolHTTP_def FluentdProtocolHTTP_def
        validateGRPCPath_def endpoint_oauth2_def)
qed

lemma tlsOutput_expiring:
  "tlscert_Validate expiringCrypto noSecrets 0
     \<lparr>tvp_Cert = Some (plainValue ''cert''), tvp_Key = Some (plainValue ''key''), tvp_CA = None\<rparr> =
   Some (CertAboutToExpireError (7 * 24 * 60 * 60 * 1000000000) False)"
  by (simp add: tlscert_Validate_def resolveValues_def resolveOpt_def
      tls_resolveValue_def plainValue_def expiringCrypto_def sampleCrypto_def parseCertificate_def
      parsePrivateKey_def parseCA_def validateCertKeyPair_def validateCertificate_def validateExpiry_def
      time_After_def time_Sub_def twoWeeks_def)

text \<open>C37: a certificate that is about to expire ends the validation before the lock, the OTTL specs and the
  additional metrics are checked, and the result counts as reconcilable: such a pipeline is rendered even
  if it does not hold the lock, contrary to what \<open>getReconcilablePipelines\<close> documents.\<close>

theorem cert_warning_skips_remaining_checks:
  assumes "om_DeletionTimestamp (mp_ObjectMeta p) = None"
    and "v_SecretRef v p = Ret None"
    and "ms_Output (mp_Spec p) = Some out" and "oo_TLS (mo_OTLPOutput out) = Some t"
    and "tls_Cert t \<noteq> None \<or> tls_CA t \<noteq> None"
    and "v_Endpoint v (endpointParams (mo_OTLPOutput out)) = Ret None"
    and "v_TLSCert v (tlsParams t) = Some (CertAboutToExpireError expiry ca)"
  shows "metric_isReconcilable v p = Ret (Inr True)"
  using assms
  by (auto simp: metric_isReconcilable_def reconcilable_by_True metric_validate_def validateOTLPOutput_def
      tlsValidationRequired_def gcheck_Some)

theorem cert_warning_skips_remaining_checks_witness:
  "v_IsLockHolder expiringValidator (mp_ObjectMeta (metricPipelineWith tlsOutput)) =
     Some (Sentinel ErrMaxPipelinesExceeded) \<and>
   metric_isReconcilable expiringValidator (metricPipelineWith tlsOutput) = Ret (Inr True)"
proof
  show "v_IsLockHolder expiringValidator (mp_ObjectMeta (metricPipelineWith tlsOutput)) =
     Some (Sentinel ErrMaxPipelinesExceeded)"
    by (simp add: newMetricValidator_def IsLockHolder_def mem_Get_def ownerRefOf_def sampleOwner_def
        metricPipelineWith_def zeroMetricPipeline_def zeroObjectMeta_def)
  show "metric_isReconcilable expiringValidator (metricPipelineWith tlsOutput) = Ret (Inr True)"
    by (rule cert_warning_skips_remaining_checks
        [where out = "\<lparr>mo_OTLPOutput = tlsOutput, mo_Temporality = None\<rparr>"
           and t = "the (oo_TLS tlsOutput)" and expiry = "7 * 24 * 60 * 60 * 1000000000" and ca = False])
      (use tlsOutput_secrets tlsOutput_endpoint tlsOutput_expiring in
        \<open>simp_all add: newMetricValidator_def metricPipelineWith_def zeroMetricPipeline_def
          zeroObjectMeta_def tlsOutput_def tlsParams_def\<close>)
qed

lemma expiring_reconcilable:
  "metric_isReconcilable expiringValidator (metricPipelineWith tlsOutput) = Ret (Inr True)"
  using tlsOutput_secrets tlsOutput_endpoint tlsOutput_expiring
  by (simp add: metric_isReconcilable_def reconcilable_by_True metric_validate_def
      validateOTLPOutput_def tlsValidationRequired_def
      newMetricValidator_def metricPipelineWith_def zeroMetricPipeline_def zeroObjectMeta_def
      tlsParams_def) (simp add: tlsOutput_def)

end
