(* ===== verification/Conditions.thy ===== *)
theory Conditions
  imports PipelineValidators
begin

text \<open>
  \<open>internal/conditions\<close>: the condition types, reasons and messages of the custom resources' status, and how
  an error becomes a message or a condition.
\<close>

section \<open>Constants\<close>

abbreviation LinkNoDataArriveAtBackend :: string where
  "LinkNoDataArriveAtBackend \<equiv>
      ''https://kyma-project.io/external-content/telemetry-manager/docs/user/troubleshoo'' @
      ''ting.html#no-data-arrive-at-the-backend''"

abbreviation LinkNotAllDataArriveAtBackend :: string where
  "LinkNotAllDataArriveAtBackend \<equiv>
      ''https://kyma-project.io/external-content/telemetry-manager/docs/user/troubleshoo'' @
      ''ting.html#not-all-data-arrive-at-the-backend''"

abbreviation LinkGatewayThrottling :: string where
  "LinkGatewayThrottling \<equiv>
      ''https://kyma-project.io/external-content/telemetry-manager/docs/user/troubleshoo'' @
      ''ting.html#gateway-throttling''"

abbreviation LinkOTTLSpecInvalid :: string where
  "LinkOTTLSpecInvalid \<equiv>
      ''https://kyma-project.io/external-content/telemetry-manager/docs/user/troubleshoo'' @
      ''ting.html#ottl-spec-invalid-with-unspecific-error-message''"

abbreviation LinkFluentBitNoLogsArriveAtBackend :: string where
  "LinkFluentBitNoLogsArriveAtBackend \<equiv>
      ''https://kyma-project.io/#/telemetry-manager/user/02-logs?id=no-logs-arrive-at-th'' @
      ''e-backend''"

abbreviation LinkFluentBitNotAllLogsArriveAtBackend :: string where
  "LinkFluentBitNotAllLogsArriveAtBackend \<equiv>
      ''https://kyma-project.io/#/telemetry-manager/user/02-logs?id=not-all-logs-arrive-'' @
      ''at-the-backend''"

abbreviation LinkFluenBitBufferFillingUp :: string where
  "LinkFluenBitBufferFillingUp \<equiv>
      ''https://kyma-project.io/#/telemetry-manager/user/02-logs?id=agent-buffer-filling'' @
      ''-up''"

abbreviation TypeAgentHealthy :: string where
  "TypeAgentHealthy \<equiv> ''AgentHealthy''"

abbreviation TypeConfigurationGenerated :: string where
  "TypeConfigurationGenerated \<equiv> ''ConfigurationGenerated''"

abbreviation TypeFlowHealthy :: string where
  "TypeFlowHealthy \<equiv> ''TelemetryFlowHealthy''"

abbreviation TypeGatewayHealthy :: string where
  "TypeGatewayHealthy \<equiv> ''GatewayHealthy''"

abbreviation TypeLogComponentsHealthy :: string where
  "TypeLogComponentsHealthy \<equiv> ''LogComponentsHealthy''"

abbreviation TypeMetricComponentsHealthy :: string where
  "TypeMetricComponentsHealthy \<equiv> ''MetricComponentsHealthy''"

abbreviation TypeTraceComponentsHealthy :: string where
  "TypeTraceComponentsHealthy \<equiv> ''TraceComponentsHealthy''"

abbreviation ReasonAgentNotReady :: string where
  "ReasonAgentNotReady \<equiv> ''AgentNotReady''"

abbreviation ReasonAgentReady :: string where
  "ReasonAgentReady \<equiv> ''AgentReady''"

abbreviation ReasonEndpointInvalid :: string where
  "ReasonEndpointInvalid \<equiv> ''EndpointInvalid''"

abbreviation ReasonGatewayConfigured :: string where
  "ReasonGatewayConfigured \<equiv> ''GatewayConfigured''"

abbreviation ReasonGatewayNotReady :: string where
  "ReasonGatewayNotReady \<equiv> ''GatewayNotReady''"

abbreviation ReasonGatewayReady :: string where
  "ReasonGatewayReady \<equiv> ''GatewayReady''"

abbreviation ReasonMaxPipelinesExceeded :: string where
  "ReasonMaxPipelinesExceeded \<equiv> ''MaxPipelinesExceeded''"

abbreviation ReasonReferencedSecretMissing :: string where
  "ReasonReferencedSecretMissing \<equiv> ''ReferencedSecretMissing''"

abbreviation ReasonSelfMonFlowHealthy :: string where
  "ReasonSelfMonFlowHealthy \<equiv> ''FlowHealthy''"

abbreviation ReasonSelfMonGatewayAllDataDropped :: string where
  "ReasonSelfMonGatewayAllDataDropped \<equiv> ''GatewayAllTelemetryDataDropped''"

abbreviation ReasonSelfMonAgentAllDataDropped :: string where
  "ReasonSelfMonAgentAllDataDropped \<equiv> ''AgentAllTelemetryDataDropped''"

abbreviation ReasonSelfMonGatewaySomeDataDropped :: string where
  "ReasonSelfMonGatewaySomeDataDropped \<equiv> ''GatewaySomeTelemetryDataDropped''"

abbreviation ReasonSelfMonAgentSomeDataDropped :: string where
  "ReasonSelfMonAgentSomeDataDropped \<equiv> ''AgentSomeTelemetryDataDropped''"

abbreviation ReasonSelfMonAgentBufferFillingUp :: string where
  "ReasonSelfMonAgentBufferFillingUp \<equiv> ''AgentBufferFillingUp''"

abbreviation ReasonSelfMonGatewayProbingFailed :: string where
  "ReasonSelfMonGatewayProbingFailed \<equiv> ''GatewayProbingFailed''"

abbreviation ReasonSelfMonAgentProbingFailed :: string where
  "ReasonSelfMonAgentProbingFailed \<equiv> ''AgentProbingFailed''"

abbreviation ReasonSelfMonGatewayThrottling :: string where
  "ReasonSelfMonGatewayThrottling \<equiv> ''GatewayThrottling''"

abbreviation ReasonSelfMonConfigNotGenerated :: string where
  "ReasonSelfMonConfigNotGenerated \<equiv> ''ConfigurationNotGenerated''"

abbreviation ReasonGatewayConfigurationNotGenerated :: string where
  "ReasonGatewayConfigurationNotGenerated \<equiv> ''GatewayConfigurationNotGenerated''"

abbreviation ReasonTLSCertificateAboutToExpire :: string where
  "ReasonTLSCertificateAboutToExpire \<equiv> ''TLSCertificateAboutToExpire''"

abbreviation ReasonTLSCertificateExpired :: string where
  "ReasonTLSCertificateExpired \<equiv> ''TLSCertificateExpired''"

abbreviation ReasonTLSConfigurationInvalid :: string where
  "ReasonTLSConfigurationInvalid \<equiv> ''TLSConfigurationInvalid''"

abbreviation ReasonValidationFailed :: string where
  "ReasonValidationFailed \<equiv> ''ValidationFailed''"

abbreviation ReasonRolloutInProgress :: string where
  "ReasonRolloutInProgress \<equiv> ''RolloutInProgress''"

abbreviation ReasonOTTLSpecInvalid :: string where
  "ReasonOTTLSpecInvalid \<equiv> ''OTTLSpecInvalid''"

abbreviation ReasonRuntimeAdditionalMetricInvalid :: string where
  "ReasonRuntimeAdditionalMetricInvalid \<equiv> ''RuntimeAdditionalMetricInvalid''"

abbreviation ReasonComponentsRunning :: string where
  "ReasonComponentsRunning \<equiv> ''ComponentsRunning''"

abbreviation ReasonNoPipelineDeployed :: string where
  "ReasonNoPipelineDeployed \<equiv> ''NoPipelineDeployed''"

abbreviation ReasonResourceBlocksDeletion :: string where
  "ReasonResourceBlocksDeletion \<equiv> ''ResourceBlocksDeletion''"

abbreviation ReasonNoFluentbitInFipsMode :: string where
  "ReasonNoFluentbitInFipsMode \<equiv> ''FipsModeEnabled''"

abbreviation ReasonAgentConfigured :: string where
  "ReasonAgentConfigured \<equiv> ''AgentConfigured''"

abbreviation ReasonSelfMonAgentNoLogsDelivered :: string where
  "ReasonSelfMonAgentNoLogsDelivered \<equiv> ''AgentNoLogsDelivered''"

abbreviation ReasonLogAgentNotRequired :: string where
  "ReasonLogAgentNotRequired \<equiv> ''AgentNotRequired''"

abbreviation ReasonMetricAgentNotRequired :: string where
  "ReasonMetricAgentNotRequired \<equiv> ''AgentNotRequired''"

abbreviation podIsNotScheduled :: string where
  "podIsNotScheduled \<equiv> ''Pod is not scheduled: %s''"

abbreviation podIsPending :: string where
  "podIsPending \<equiv>
      ''Pod is in the pending state because container: %s is not running due to: %s. '' @
      ''Please check the container: %s logs.''"

abbreviation podIsFailed :: string where
  "podIsFailed \<equiv> ''Pod is in the failed state due to: %s''"

abbreviation podRolloutInProgress :: string where
  "podRolloutInProgress \<equiv> ''Pods are being started/updated''"

section \<open>Messages\<close>

definition commonMessages :: "string \<rightharpoonup> string" where
  "commonMessages =
     [ReasonTLSConfigurationInvalid \<mapsto>
      ''TLS configuration invalid: %s'',
      ReasonValidationFailed \<mapsto>
      ''Pipeline validation failed due to an error from the Kubernetes API server'',
      ReasonOTTLSpecInvalid \<mapsto>
      ''OTTL specification is invalid, %s. Fix the syntax error indicated by the '' @
      ''message or see troubleshooting: '' @ LinkOTTLSpecInvalid,
      ReasonGatewayNotReady \<mapsto>
      ''OTLP Gateway DaemonSet is not ready'',
      ReasonGatewayReady \<mapsto>
      ''OTLP Gateway DaemonSet is ready'',
      ReasonNoPipelineDeployed \<mapsto>
      ''No pipelines have been deployed'',
      ReasonSelfMonFlowHealthy \<mapsto>
      ''No problems detected in the telemetry flow'',
      ReasonSelfMonGatewayProbingFailed \<mapsto>
      ''Could not determine the health of the telemetry flow because the self monitor '' @
      ''probing of gateway failed'',
      ReasonSelfMonAgentProbingFailed \<mapsto>
      ''Could not determine the health of the telemetry flow because the self monitor '' @
      ''probing of agent failed'']"

definition commonLogPipelineMessages :: "string \<rightharpoonup> string" where
  "commonLogPipelineMessages =
     [ReasonAgentConfigured \<mapsto>
      ''LogPipeline specification is successfully applied to the configuration of Log '' @
      ''Agent'',
      ReasonAgentNotReady \<mapsto>
      ''Log Agent DaemonSet is not ready'',
      ReasonAgentReady \<mapsto>
      ''Log Agent DaemonSet is ready'',
      ReasonComponentsRunning \<mapsto>
      ''All log components are running'',
      ReasonNoFluentbitInFipsMode \<mapsto>
      ''HTTP/custom output types are not supported when FIPS mode is enabled'']"

definition fluentBitLogPipelineMessages :: "string \<rightharpoonup> string" where
  "fluentBitLogPipelineMessages =
     [ReasonEndpointInvalid \<mapsto>
      ''HTTP output host invalid: %s'',
      ReasonSelfMonAgentAllDataDropped \<mapsto>
      ''Backend is not reachable or rejecting logs. All logs are dropped. See '' @
      ''troubleshooting: '' @ LinkFluentBitNoLogsArriveAtBackend,
      ReasonSelfMonAgentBufferFillingUp \<mapsto>
      ''Buffer nearing capacity. Incoming log rate exceeds export rate. See '' @
      ''troubleshooting: '' @ LinkFluenBitBufferFillingUp,
      ReasonSelfMonConfigNotGenerated \<mapsto>
      ''No logs delivered to backend because LogPipeline specification is not applied '' @
      ''to the configuration of Log Agent. Check the 'ConfigurationGenerated' condition '' @
      ''for more details'',
      ReasonSelfMonAgentNoLogsDelivered \<mapsto>
      ''Backend is not reachable or rejecting logs. Logs are buffered and not yet '' @
      ''dropped. See troubleshooting: '' @ LinkFluentBitNoLogsArriveAtBackend,
      ReasonSelfMonAgentSomeDataDropped \<mapsto>
      ''Backend is reachable, but rejecting logs. Some logs are dropped. See '' @
      ''troubleshooting: '' @ LinkFluentBitNotAllLogsArriveAtBackend]"

definition otelLogPipelineMessages :: "string \<rightharpoonup> string" where
  "otelLogPipelineMessages =
     [ReasonEndpointInvalid \<mapsto>
      ''OTLP output endpoint invalid: %s'',
      ReasonGatewayConfigured \<mapsto>
      ''LogPipeline specification is successfully applied to the configuration of OTLP '' @
      ''Gateway'',
      ReasonGatewayConfigurationNotGenerated \<mapsto>
      ''This LogPipeline's specification is not applied to the configuration of the '' @
      ''OTLP gateway. Check the 'ConfigurationGenerated' condition for more details'',
      ReasonSelfMonAgentAllDataDropped \<mapsto>
      ''Backend is not reachable or rejecting logs. All logs are dropped in Log Agent. '' @
      ''See troubleshooting: '' @ LinkNoDataArriveAtBackend,
      ReasonSelfMonAgentSomeDataDropped \<mapsto>
      ''Backend is reachable, but rejecting logs. Some logs are dropped in Log Agent. '' @
      ''See troubleshooting: '' @ LinkNotAllDataArriveAtBackend,
      ReasonSelfMonConfigNotGenerated \<mapsto>
      ''No logs delivered to backend because LogPipeline specification is not applied '' @
      ''to the configuration of Log Agent and OTLP Gateway. Check the '' @
      '''ConfigurationGenerated' condition for more details'',
      ReasonSelfMonGatewayAllDataDropped \<mapsto>
      ''Backend is not reachable or rejecting logs. All logs are dropped in OTLP '' @
      ''Gateway. See troubleshooting: '' @ LinkNoDataArriveAtBackend,
      ReasonSelfMonGatewaySomeDataDropped \<mapsto>
      ''Backend is reachable, but rejecting logs. Some logs are dropped in OTLP '' @
      ''Gateway. See troubleshooting: '' @ LinkNotAllDataArriveAtBackend,
      ReasonSelfMonGatewayThrottling \<mapsto>
      ''OTLP Gateway is unable to receive logs at current rate. See troubleshooting: '' @ LinkGatewayThrottling]"

definition tracePipelineMessages :: "string \<rightharpoonup> string" where
  "tracePipelineMessages =
     [ReasonEndpointInvalid \<mapsto>
      ''OTLP output endpoint invalid: %s'',
      ReasonComponentsRunning \<mapsto>
      ''All trace components are running'',
      ReasonGatewayConfigured \<mapsto>
      ''TracePipeline specification is successfully applied to the configuration of '' @
      ''OTLP Gateway'',
      ReasonGatewayConfigurationNotGenerated \<mapsto>
      ''This TracePipeline's specification is not applied to the configuration of the '' @
      ''OTLP gateway. Check the 'ConfigurationGenerated' condition for more details'',
      ReasonSelfMonConfigNotGenerated \<mapsto>
      ''No spans delivered to backend because TracePipeline specification is not '' @
      ''applied to the configuration of OTLP Gateway. Check the '' @
      '''ConfigurationGenerated' condition for more details'',
      ReasonSelfMonGatewayAllDataDropped \<mapsto>
      ''Backend is not reachable or rejecting spans. All spans are dropped in OTLP '' @
      ''Gateway. See troubleshooting: '' @ LinkNoDataArriveAtBackend,
      ReasonSelfMonGatewaySomeDataDropped \<mapsto>
      ''Backend is reachable, but rejecting spans. Some spans are dropped in OTLP '' @
      ''Gateway. See troubleshooting: '' @ LinkNotAllDataArriveAtBackend,
      ReasonSelfMonGatewayThrottling \<mapsto>
      ''OTLP Gateway is unable to receive spans at current rate. See troubleshooting: '' @ LinkGatewayThrottling]"

definition metricPipelineMessages :: "string \<rightharpoonup> string" where
  "metricPipelineMessages =
     [ReasonEndpointInvalid \<mapsto>
      ''OTLP output endpoint invalid: %s'',
      ReasonAgentNotReady \<mapsto>
      ''Metric Agent DaemonSet is not ready'',
      ReasonAgentReady \<mapsto>
      ''Metric Agent DaemonSet is ready'',
      ReasonComponentsRunning \<mapsto>
      ''All metric components are running'',
      ReasonGatewayConfigured \<mapsto>
      ''MetricPipeline specification is successfully applied to the configuration of '' @
      ''OTLP Gateway'',
      ReasonGatewayConfigurationNotGenerated \<mapsto>
      ''This MetricPipeline's specification is not applied to the configuration of the '' @
      ''OTLP gateway. Check the 'ConfigurationGenerated' condition for more details'',
      ReasonSelfMonAgentAllDataDropped \<mapsto>
      ''Backend is not reachable or rejecting metrics. All metrics are dropped in '' @
      ''Metric Agent. See troubleshooting: '' @ LinkNoDataArriveAtBackend,
      ReasonSelfMonAgentSomeDataDropped \<mapsto>
      ''Backend is reachable, but rejecting metrics. Some metrics are dropped in Metric '' @
      ''Agent. See troubleshooting: '' @ LinkNotAllDataArriveAtBackend,
      ReasonSelfMonConfigNotGenerated \<mapsto>
      ''No metrics delivered to backend because MetricPipeline specification is not '' @
      ''applied to the configuration of OTLP Gateway. Check the '' @
      '''ConfigurationGenerated' condition for more details'',
      ReasonSelfMonGatewayAllDataDropped \<mapsto>
      ''Backend is not reachable or rejecting metrics. All metrics are dropped in OTLP '' @
      ''Gateway. See troubleshooting: '' @ LinkNoDataArriveAtBackend,
      ReasonSelfMonGatewaySomeDataDropped \<mapsto>
      ''Backend is reachable, but rejecting metrics. Some metrics are dropped in OTLP '' @
      ''Gateway. See troubleshooting: '' @ LinkNotAllDataArriveAtBackend,
      ReasonSelfMonGatewayThrottling \<mapsto>
      ''OTLP Gateway is unable to receive metrics at current rate. See troubleshooting: '' @ LinkGatewayThrottling]"

definition message :: "string \<Rightarrow> (string \<rightharpoonup> string) \<Rightarrow> string" where
  "message reason specializedMessages =
     (case commonMessages reason of
        Some condMessage \<Rightarrow> condMessage
      | None \<Rightarrow>
          (case specializedMessages reason of
             Some condMessage \<Rightarrow> condMessage
           | None \<Rightarrow> []))"

definition messageForLogPipelines :: "string \<Rightarrow> (string \<rightharpoonup> string) \<Rightarrow> string" where
  "messageForLogPipelines reason specializedMessages =
     (case commonMessages reason of
        Some condMessage \<Rightarrow> condMessage
      | None \<Rightarrow>
          (case commonLogPipelineMessages reason of
             Some condMessage \<Rightarrow> condMessage
           | None \<Rightarrow>
               (case specializedMessages reason of
                  Some condMessage \<Rightarrow> condMessage
                | None \<Rightarrow> [])))"

definition MessageForOtelLogPipeline :: "string \<Rightarrow> string" where
  "MessageForOtelLogPipeline reason = messageForLogPipelines reason otelLogPipelineMessages"

definition MessageForFluentBitLogPipeline :: "string \<Rightarrow> string" where
  "MessageForFluentBitLogPipeline reason = messageForLogPipelines reason fluentBitLogPipelineMessages"

definition MessageForTracePipeline :: "string \<Rightarrow> string" where
  "MessageForTracePipeline reason = message reason tracePipelineMessages"

definition MessageForMetricPipeline :: "string \<Rightarrow> string" where
  "MessageForMetricPipeline reason = message reason metricPipelineMessages"

section \<open>From errors to messages\<close>

text \<open>\<open>strings.ToUpper\<close> of a one-byte string: an ASCII letter is capitalised, and a byte that is not
  ASCII is no valid UTF-8 on its own and becomes the replacement character.  Slicing an empty message panics.\<close>

definition upperByte :: "char \<Rightarrow> string" where
  "upperByte c =
     (let n = (of_char c :: nat)
      in if 97 \<le> n \<and> n \<le> 122 then [char_of (n - 32)]
         else if 128 \<le> n then [CHR 0xEF, CHR 0xBF, CHR 0xBD]
         else [c])"

definition ConvertErrToMsg :: "go_error \<Rightarrow> string go" where
  "ConvertErrToMsg e =
     (case err_msg e of [] \<Rightarrow> Panic | c # s \<Rightarrow> Ret (upperByte c @ s))"

definition asPodIsNotScheduled :: "go_error \<Rightarrow> string option" where
  "asPodIsNotScheduled = errors_As (\<lambda>e. case e of PodIsNotScheduledError m \<Rightarrow> Some m | _ \<Rightarrow> None)"

definition asPodIsPending :: "go_error \<Rightarrow> (string \<times> string \<times> string) option" where
  "asPodIsPending =
     errors_As (\<lambda>e. case e of PodIsPendingError c r m \<Rightarrow> Some (c, r, m) | _ \<Rightarrow> None)"

definition asPodIsFailing :: "go_error \<Rightarrow> string option" where
  "asPodIsFailing = errors_As (\<lambda>e. case e of PodIsFailingError m \<Rightarrow> Some m | _ \<Rightarrow> None)"

definition asFailedToList :: "go_error \<Rightarrow> go_error option" where
  "asFailedToList = errors_As (\<lambda>e. case e of FailedToListReplicaSetError d \<Rightarrow> Some d | _ \<Rightarrow> None)"

definition asFailedToFetch :: "go_error \<Rightarrow> go_error option" where
  "asFailedToFetch = errors_As (\<lambda>e. case e of FailedToFetchReplicaSetError d \<Rightarrow> Some d | _ \<Rightarrow> None)"

definition ErrorToMessage_Convert :: "go_error \<Rightarrow> string go" where
  "ErrorToMessage_Convert err =
     (case asPodIsNotScheduled err of
        Some m \<Rightarrow> Ret (Sprintf podIsNotScheduled [m])
      | None \<Rightarrow>
     (case asPodIsPending err of
        Some (c, r, m) \<Rightarrow>
          (if r = [] then Ret (Sprintf podIsPending [c, m, c]) else Ret (Sprintf podIsPending [c, r, c]))
      | None \<Rightarrow>
     (case asPodIsFailing err of
        Some m \<Rightarrow> Ret (Sprintf podIsFailed [m])
      | None \<Rightarrow>
          (if IsRolloutInProgressError err then Ret podRolloutInProgress
           else case asFailedToList err of
               Some d \<Rightarrow> ConvertErrToMsg d
             | None \<Rightarrow>
                 (case asFailedToFetch err of
                    Some d \<Rightarrow> ConvertErrToMsg d
                  | None \<Rightarrow> ConvertErrToMsg err)))))"

definition asCertExpired :: "go_error \<Rightarrow> go_error option" where
  "asCertExpired = errors_As (\<lambda>e. case e of CertExpiredError t ca \<Rightarrow> Some e | _ \<Rightarrow> None)"

definition asCertAboutToExpire :: "go_error \<Rightarrow> go_error option" where
  "asCertAboutToExpire = errors_As (\<lambda>e. case e of CertAboutToExpireError t ca \<Rightarrow> Some e | _ \<Rightarrow> None)"

definition EvaluateTLSCertCondition :: "go_error \<Rightarrow> ConditionStatus \<times> string \<times> string" where
  "EvaluateTLSCertCondition errValidation =
     (case asCertExpired errValidation of
        Some e \<Rightarrow> (ConditionFalse, ReasonTLSCertificateExpired, err_msg e)
      | None \<Rightarrow>
     (case asCertAboutToExpire errValidation of
        Some e \<Rightarrow> (ConditionTrue, ReasonTLSCertificateAboutToExpire, err_msg e)
      | None \<Rightarrow>
          (ConditionFalse, ReasonTLSConfigurationInvalid,
           Sprintf (deref (commonMessages ReasonTLSConfigurationInvalid) []) [err_msg errValidation])))"

end
