(* ===== verification/WorkloadStatus.thy ===== *)
theory WorkloadStatus
  imports Conditions
begin

text \<open>
  \<open>internal/workloadstatus\<close>: whether the DaemonSet or Deployment of a component is ready, and what is wrong
  with its pods if it is not.  Reads of the Kubernetes API are arguments.
\<close>

section \<open>Pods\<close>

text \<open>The fields of \<open>corev1.PodStatus\<close> that are read.  A container's \<open>State.Waiting\<close> is its reason and
  message, \<open>LastTerminationState.Terminated\<close> its reason.\<close>

record PodCondition =
  pc_Type :: string
  pc_Status :: string
  pc_Message :: string

record ContainerStatus =
  cs_Name :: string
  cs_Waiting :: "(string \<times> string) option"
  cs_LastTerminated :: "string option"

record PodStatus =
  ps_Phase :: string
  ps_Message :: string
  ps_Conditions :: "PodCondition list"
  ps_ContainerStatuses :: "ContainerStatus list"

fun findPodCondition :: "PodCondition list \<Rightarrow> string \<Rightarrow> PodCondition" where
  "findPodCondition [] s = \<lparr>pc_Type = [], pc_Status = [], pc_Message = []\<rparr>"
| "findPodCondition (c # cs) s = (if pc_Type c = s then c else findPodCondition cs s)"

text \<open>The loop over the containers of a pending pod: the first waiting container decides.\<close>

fun pendingContainer :: "ContainerStatus list \<Rightarrow> go_error option" where
  "pendingContainer [] = None"
| "pendingContainer (c # cs) =
     (case cs_Waiting c of
        None \<Rightarrow> pendingContainer cs
      | Some (reason, msg) \<Rightarrow>
          (if reason = ''PodInitializing'' \<or> reason = ''ContainerCreating'' then None
           else if reason \<noteq> [] then Some (PodIsPendingError (cs_Name c) reason msg)
           else Some (PodIsPendingError (cs_Name c) [] msg)))"

definition checkPodPendingState :: "PodStatus \<Rightarrow> go_error option" where
  "checkPodPendingState status =
     (if ps_Phase status \<noteq> ''Pending'' then None
      else
        let condition = findPodCondition (ps_Conditions status) ''PodScheduled''
        in if pc_Status condition = ''False'' then Some (PodIsPendingError [] [] (pc_Message condition))
           else pendingContainer (ps_ContainerStatuses status))"

definition checkPodFailedState :: "PodStatus \<Rightarrow> go_error option" where
  "checkPodFailedState status =
     (if ps_Phase status \<noteq> ''Failed'' then None else Some (PodIsFailingError (ps_Message status)))"

definition checkPodsWaitingState :: "PodStatus \<Rightarrow> ContainerStatus \<Rightarrow> go_error option" where
  "checkPodsWaitingState status c =
     (if ps_Phase status \<noteq> ''Running'' then None
      else case cs_Waiting c of
          None \<Rightarrow> None
        | Some (reason, msg) \<Rightarrow>
            (case cs_LastTerminated c of
               Some lastReason \<Rightarrow> Some (PodIsPendingError (cs_Name c) lastReason msg)
             | None \<Rightarrow> Some (PodIsPendingError (cs_Name c) [] msg)))"

text \<open>The body of the loop of \<open>checkPodStatus\<close>.\<close>

definition podIssue :: "PodStatus \<Rightarrow> go_error option" where
  "podIssue status =
     (let podReadyCondition = findPodCondition (ps_Conditions status) ''Ready''
      in if ps_Phase status = ''Running'' \<and> pc_Status podReadyCondition = ''True'' then None
         else orelse (checkPodPendingState status)
               (orelse (checkPodFailedState status)
                 (range_check (checkPodsWaitingState status) (ps_ContainerStatuses status))))"

text \<open>Listing pods by namespace and labels.\<close>

type_synonym pod_lister = "string \<Rightarrow> (string \<rightharpoonup> string) \<Rightarrow> (kube_error, PodStatus list) result"

definition checkPodStatus :: "pod_lister \<Rightarrow> string \<Rightarrow> (string \<rightharpoonup> string) option \<Rightarrow> go_error option go" where
  "checkPodStatus listPods namespace selector =
     gderef selector (\<lambda>matchLabels.
       Ret (case listPods namespace matchLabels of
              Inl err \<Rightarrow> Some (KubeError err)
            | Inr pods \<Rightarrow>
                (if pods = [] then Some (Sentinel ErrNoPodsDeployed) else range_check podIssue pods)))"

section \<open>DaemonSets\<close>

record DaemonSet =
  ds_Selector :: "(string \<rightharpoonup> string) option"
  ds_UpdatedNumberScheduled :: int
  ds_DesiredNumberScheduled :: int
  ds_NumberReady :: int

type_synonym daemonset_getter = "NamespacedName \<Rightarrow> (kube_error, DaemonSet) result"

definition DaemonSetProber_IsReady ::
    "daemonset_getter \<Rightarrow> pod_lister \<Rightarrow> NamespacedName \<Rightarrow> go_error option go" where
  "DaemonSetProber_IsReady get listPods name =
     (case get name of
        Inl err \<Rightarrow>
          (if IsNotFound err then Ret (Some (Sentinel ErrDaemonSetNotFound))
           else Ret (Some (Sentinel ErrDaemonSetFetching)))
      | Inr ds \<Rightarrow>
          (let updated = ds_UpdatedNumberScheduled ds;
               desired = ds_DesiredNumberScheduled ds;
               ready = ds_NumberReady ds
           in if updated = desired \<and> ready \<ge> desired then Ret None
              else gcheck (checkPodStatus listPods (nn_Namespace name) (ds_Selector ds))
                     (Ret (Some RolloutInProgressError))))"

section \<open>Deployments\<close>

text \<open>Pod templates have their labels and the rest; \<open>apiequality.Semantic.DeepEqual\<close> on templates and
  \<open>metav1.IsControlledBy\<close> are arguments.\<close>

record PodTemplateSpec =
  pt_Labels :: "(string \<rightharpoonup> string) option"
  pt_Rest :: string

record ReplicaSet =
  rs_ObjectMeta :: ObjectMeta
  rs_CreationTimestamp :: int
  rs_Template :: PodTemplateSpec
  rs_ReadyReplicas :: int

record Deployment =
  dep_ObjectMeta :: ObjectMeta
  dep_Replicas :: "int option"
  dep_Selector :: "(string \<rightharpoonup> string) option"
  dep_Template :: PodTemplateSpec

text \<open>Go's order of strings: by bytes.\<close>

fun str_less :: "string \<Rightarrow> string \<Rightarrow> bool" where
  "str_less _ [] = False"
| "str_less [] (_ # _) = True"
| "str_less (a # as) (b # bs) =
     ((of_char a :: nat) < of_char b \<or> (a = b \<and> str_less as bs))"

definition rs_Less :: "ReplicaSet \<Rightarrow> ReplicaSet \<Rightarrow> bool" where
  "rs_Less a b =
     (if rs_CreationTimestamp a = rs_CreationTimestamp b
      then str_less (om_Name (rs_ObjectMeta a)) (om_Name (rs_ObjectMeta b))
      else rs_CreationTimestamp a < rs_CreationTimestamp b)"

text \<open>\<open>sort.Sort\<close> with that order; names within a namespace are unique, so the order of the result does not
  depend on the algorithm.\<close>

fun rs_insert :: "ReplicaSet \<Rightarrow> ReplicaSet list \<Rightarrow> ReplicaSet list" where
  "rs_insert x [] = [x]"
| "rs_insert x (y # ys) = (if rs_Less y x then y # rs_insert x ys else x # y # ys)"

definition rs_sort :: "ReplicaSet list \<Rightarrow> ReplicaSet list" where
  "rs_sort xs = foldr rs_insert xs []"

definition DefaultDeploymentUniqueLabelKey :: string where
  "DefaultDeploymentUniqueLabelKey = ''pod-template-hash''"

definition withoutHash :: "PodTemplateSpec \<Rightarrow> PodTemplateSpec" where
  "withoutHash t =
     t\<lparr>pt_Labels := map_option (\<lambda>m. m(DefaultDeploymentUniqueLabelKey := None)) (pt_Labels t)\<rparr>"

definition equalIgnoreHash ::
    "(PodTemplateSpec \<Rightarrow> PodTemplateSpec \<Rightarrow> bool) \<Rightarrow> PodTemplateSpec \<Rightarrow> PodTemplateSpec \<Rightarrow> bool" where
  "equalIgnoreHash deepEqual template1 template2 =
     deepEqual (withoutHash template1) (withoutHash template2)"

definition findNewReplicaSet ::
    "(PodTemplateSpec \<Rightarrow> PodTemplateSpec \<Rightarrow> bool) \<Rightarrow> Deployment \<Rightarrow> ReplicaSet list \<Rightarrow> ReplicaSet option" where
  "findNewReplicaSet deepEqual deployment rsList =
     find (\<lambda>rs. equalIgnoreHash deepEqual (rs_Template rs) (dep_Template deployment)) (rs_sort rsList)"

definition getLatestReplicaSet ::
    "(PodTemplateSpec \<Rightarrow> PodTemplateSpec \<Rightarrow> bool) \<Rightarrow> (ReplicaSet \<Rightarrow> Deployment \<Rightarrow> bool) \<Rightarrow>
     Deployment \<Rightarrow> ReplicaSet list \<Rightarrow> ReplicaSet option" where
  "getLatestReplicaSet deepEqual isControlledBy deployment allReplicaSets =
     (let ownedReplicaSets = filter (\<lambda>rs. isControlledBy rs deployment) allReplicaSets
      in if ownedReplicaSets = [] then None
         else findNewReplicaSet deepEqual deployment ownedReplicaSets)"

text \<open>The Deployment is read twice; the second read comes after the replica sets were listed.\<close>

definition DeploymentProber_IsReady ::
    "(PodTemplateSpec \<Rightarrow> PodTemplateSpec \<Rightarrow> bool) \<Rightarrow> (ReplicaSet \<Rightarrow> Deployment \<Rightarrow> bool) \<Rightarrow>
     (kube_error, Deployment) result \<Rightarrow> (kube_error, Deployment) result \<Rightarrow>
     (string \<Rightarrow> (string \<rightharpoonup> string) \<Rightarrow> (kube_error, ReplicaSet list) result) \<Rightarrow> pod_lister \<Rightarrow>
     NamespacedName \<Rightarrow> go_error option go" where
  "DeploymentProber_IsReady deepEqual isControlledBy get1 get2 listReplicaSets listPods name =
     (case get1 of
        Inl err \<Rightarrow>
          (if IsNotFound err then Ret (Some (Sentinel ErrDeploymentNotFound))
           else Ret (Some (Sentinel ErrDeploymentFetching)))
      | Inr d1 \<Rightarrow>
          gderef (dep_Replicas d1) (\<lambda>desiredReplicas.
          gderef (dep_Selector d1) (\<lambda>matchLabels.
            (case listReplicaSets (om_Namespace (dep_ObjectMeta d1)) matchLabels of
               Inl err \<Rightarrow> Ret (Some (FailedToListReplicaSetError (KubeError err)))
             | Inr allReplicaSets \<Rightarrow>
                 (case get2 of
                    Inl err \<Rightarrow> Ret (Some (FailedToFetchReplicaSetError (KubeError err)))
                  | Inr d \<Rightarrow>
                      (case getLatestReplicaSet deepEqual isControlledBy d allReplicaSets of
                         None \<Rightarrow> Ret (Some (Sentinel ErrFailedToGetLatestReplicaSet))
                       | Some replicaSet \<Rightarrow>
                           (if rs_ReadyReplicas replicaSet \<ge> desiredReplicas then Ret None
                            else gcheck (checkPodStatus listPods (nn_Namespace name) (dep_Selector d))
                                   (Ret (Some RolloutInProgressError)))))))))"

section \<open>Readiness\<close>

text \<open>What can be wrong with a pod.\<close>

definition is_pod_error :: "go_error \<Rightarrow> bool" where
  "is_pod_error e \<longleftrightarrow> (\<exists>c r m. e = PodIsPendingError c r m) \<or> (\<exists>m. e = PodIsFailingError m)"

lemma pendingContainer_error: "pendingContainer cs = Some e \<Longrightarrow> is_pod_error e"
  by (induction cs) (auto simp: is_pod_error_def split: option.splits prod.splits if_splits)

lemma podIssue_error: "podIssue p = Some e \<Longrightarrow> is_pod_error e"
  by (auto simp: podIssue_def checkPodPendingState_def checkPodFailedState_def Let_def orelse_eq_Some
      dest: pendingContainer_error elim!: range_check_Some split: if_splits)
    (auto simp: is_pod_error_def checkPodsWaitingState_def split: if_splits option.splits prod.splits)

lemma checkPodStatus_error:
  assumes "checkPodStatus lp ns sel = Ret (Some e)"
  shows "is_pod_error e \<or> e = Sentinel ErrNoPodsDeployed \<or> (\<exists>k. e = KubeError k)"
  using assms
  by (auto simp: checkPodStatus_def gderef_def split: option.splits sum.splits if_splits
      elim!: range_check_Some dest: podIssue_error)

lemma checkPodStatus_not_rollout: "checkPodStatus lp ns sel \<noteq> Ret (Some RolloutInProgressError)"
  using checkPodStatus_error [of lp ns sel RolloutInProgressError] by (auto simp: is_pod_error_def)

lemma checkPodStatus_None:
  "checkPodStatus lp ns sel = Ret None \<longleftrightarrow>
     (\<exists>labels pods. sel = Some labels \<and> lp ns labels = Inr pods \<and> pods \<noteq> [] \<and>
        list_all (\<lambda>p. podIssue p = None) pods)"
  by (auto simp: checkPodStatus_def gderef_def range_check_None list_all_iff split: option.splits sum.splits)

definition rolled_out :: "DaemonSet \<Rightarrow> bool" where
  "rolled_out ds \<longleftrightarrow> ds_UpdatedNumberScheduled ds = ds_DesiredNumberScheduled ds \<and>
     ds_DesiredNumberScheduled ds \<le> ds_NumberReady ds"

text \<open>A DaemonSet is reported ready exactly when it exists, all its pods run the current template and all
  are ready; a roll-out is reported exactly when it exists, is not ready, has pods, and no pod of it has an
  issue.\<close>

lemma daemonset_readiness:
  "(DaemonSetProber_IsReady get lp name = Ret None \<longleftrightarrow> (\<exists>ds. get name = Inr ds \<and> rolled_out ds)) \<and>
   (DaemonSetProber_IsReady get lp name = Ret (Some RolloutInProgressError) \<longleftrightarrow>
     (\<exists>ds labels pods. get name = Inr ds \<and> \<not> rolled_out ds \<and> ds_Selector ds = Some labels \<and>
        lp (nn_Namespace name) labels = Inr pods \<and> pods \<noteq> [] \<and> list_all (\<lambda>p. podIssue p = None) pods))"
proof (cases "get name")
  case (Inl e)
  then show ?thesis by (simp add: DaemonSetProber_IsReady_def)
next
  case (Inr ds)
  have "DaemonSetProber_IsReady get lp name =
      (if rolled_out ds then Ret None
       else gcheck (checkPodStatus lp (nn_Namespace name) (ds_Selector ds)) (Ret (Some RolloutInProgressError)))"
    using Inr by (auto simp: DaemonSetProber_IsReady_def rolled_out_def Let_def)
  then show ?thesis
    using Inr checkPodStatus_not_rollout [of lp "nn_Namespace name" "ds_Selector ds"]
    by (simp add: gcheck_Some checkPodStatus_None)
qed

text \<open>A pod that cannot be scheduled is reported as pending because of a container, with an empty name: the
  message for pods that are not scheduled is never used, because no code creates its error.\<close>

lemma unschedulable_pod_message:
  assumes "get name = Inr ds" and "\<not> rolled_out ds" and "ds_Selector ds = Some labels"
    and "lp (nn_Namespace name) labels = Inr (p # ps)" and "ps_Phase p = ''Pending''"
    and "pc_Status (findPodCondition (ps_Conditions p) ''PodScheduled'') = ''False''"
    and "pc_Message (findPodCondition (ps_Conditions p) ''PodScheduled'') = m"
  shows "DaemonSetProber_IsReady get lp name = Ret (Some (PodIsPendingError [] [] m)) \<and>
    ErrorToMessage_Convert (PodIsPendingError [] [] m) =
      Ret (''Pod is in the pending state because container:  is not running due to: '' @ m @
           ''. Please check the container:  logs.'')"
proof
  have "podIssue p = Some (PodIsPendingError [] [] m)"
    using assms(5-7) by (simp add: podIssue_def checkPodPendingState_def Let_def)
  with assms(1-4) show "DaemonSetProber_IsReady get lp name = Ret (Some (PodIsPendingError [] [] m))"
    by (auto simp: DaemonSetProber_IsReady_def rolled_out_def checkPodStatus_def Let_def)
  show "ErrorToMessage_Convert (PodIsPendingError [] [] m) =
      Ret (''Pod is in the pending state because container:  is not running due to: '' @ m @
           ''. Please check the container:  logs.'')"
    by (simp add: ErrorToMessage_Convert_def asPodIsNotScheduled_def asPodIsPending_def)
qed

definition unschedulablePod :: PodStatus where
  "unschedulablePod =
     \<lparr>ps_Phase = ''Pending'', ps_Message = [],
      ps_Conditions = [\<lparr>pc_Type = ''PodScheduled'', pc_Status = ''False'', pc_Message = ''no nodes''\<rparr>],
      ps_ContainerStatuses = []\<rparr>"

definition startingDaemonSet :: DaemonSet where
  "startingDaemonSet =
     \<lparr>ds_Selector = Some Map.empty, ds_UpdatedNumberScheduled = 1, ds_DesiredNumberScheduled = 1,
      ds_NumberReady = 0\<rparr>"

lemma unschedulable_pod_message_witness:
  "DaemonSetProber_IsReady (\<lambda>_. Inr startingDaemonSet) (\<lambda>_ _. Inr [unschedulablePod])
     \<lparr>nn_Namespace = ''kyma-system'', nn_Name = ''gateway''\<rparr> =
   Ret (Some (PodIsPendingError [] [] ''no nodes''))"
  using unschedulable_pod_message [of "\<lambda>_. Inr startingDaemonSet"
      "\<lparr>nn_Namespace = ''kyma-system'', nn_Name = ''gateway''\<rparr>" startingDaemonSet Map.empty
      "\<lambda>_ _. Inr [unschedulablePod]" unschedulablePod "[]" "''no nodes''"]
  by (simp add: rolled_out_def startingDaemonSet_def unschedulablePod_def)

section \<open>The replica set of a Deployment\<close>

lemma set_rs_insert [simp]: "set (rs_insert x xs) = insert x (set xs)"
  by (induction xs) auto

lemma set_rs_sort [simp]: "set (rs_sort xs) = set xs"
  by (induction xs) (auto simp: rs_sort_def)

abbreviation older :: "ReplicaSet \<Rightarrow> ReplicaSet \<Rightarrow> bool" where
  "older a b \<equiv> rs_CreationTimestamp a \<le> rs_CreationTimestamp b"

lemma rs_Less_older: "rs_Less a b \<Longrightarrow> older a b" "\<not> rs_Less a b \<Longrightarrow> older b a"
  by (auto simp: rs_Less_def split: if_splits)

lemma sorted_rs_insert: "sorted_wrt older xs \<Longrightarrow> sorted_wrt older (rs_insert x xs)"
proof (induction xs)
  case (Cons y ys)
  then show ?case
    using rs_Less_older [of y x] by (cases "rs_Less y x") fastforce+
qed simp

lemma sorted_rs_sort: "sorted_wrt older (rs_sort xs)"
  by (induction xs) (auto simp: rs_sort_def intro: sorted_rs_insert)

lemma find_first:
  "sorted_wrt R xs \<Longrightarrow> find P xs = Some x \<Longrightarrow> y \<in> set xs \<Longrightarrow> P y \<Longrightarrow> y = x \<or> R x y"
  by (induction xs) (auto split: if_splits)

lemma find_sat: "find P xs = Some x \<Longrightarrow> x \<in> set xs \<and> P x"
  by (induction xs) (auto split: if_splits)

text \<open>Of the replica sets with the template of the Deployment the oldest one is taken, and none only if
  there is none.\<close>

lemma new_replica_set_oldest:
  assumes "getLatestReplicaSet deepEqual isControlledBy d rss = res"
  shows "case res of
      None \<Rightarrow> \<not> (\<exists>rs\<in>set rss. isControlledBy rs d \<and>
        equalIgnoreHash deepEqual (rs_Template rs) (dep_Template d))
    | Some rs \<Rightarrow> rs \<in> set rss \<and> isControlledBy rs d \<and>
        equalIgnoreHash deepEqual (rs_Template rs) (dep_Template d) \<and>
        (\<forall>other\<in>set rss. isControlledBy other d \<longrightarrow>
           equalIgnoreHash deepEqual (rs_Template other) (dep_Template d) \<longrightarrow> older rs other)"
proof -
  let ?P = "\<lambda>rs. equalIgnoreHash deepEqual (rs_Template rs) (dep_Template d)"
  let ?owned = "filter (\<lambda>rs. isControlledBy rs d) rss"
  have res: "res = find ?P (rs_sort ?owned)"
    using assms by (auto simp: getLatestReplicaSet_def findNewReplicaSet_def rs_sort_def Let_def)
  show ?thesis
  proof (cases res)
    case None
    with res show ?thesis using find_None_iff [of ?P "rs_sort ?owned"] by simp
  next
    case (Some rs)
    with res have found: "find ?P (rs_sort ?owned) = Some rs" by simp
    have "older rs other" if "other \<in> set rss" "isControlledBy other d" "?P other" for other
      using find_first [OF sorted_rs_sort found, of other] that by auto
    with find_sat [OF found] Some show ?thesis by simp
  qed
qed

definition sampleReplicaSet :: "string \<Rightarrow> int \<Rightarrow> ReplicaSet" where
  "sampleReplicaSet name created =
     \<lparr>rs_ObjectMeta = zeroObjectMeta\<lparr>om_Name := name\<rparr>, rs_CreationTimestamp = created,
      rs_Template = \<lparr>pt_Labels = Some [DefaultDeploymentUniqueLabelKey \<mapsto> name], pt_Rest = []\<rparr>,
      rs_ReadyReplicas = 1\<rparr>"

definition sampleDeployment :: Deployment where
  "sampleDeployment =
     \<lparr>dep_ObjectMeta = zeroObjectMeta, dep_Replicas = Some 1, dep_Selector = Some Map.empty,
      dep_Template = \<lparr>pt_Labels = Some Map.empty, pt_Rest = []\<rparr>\<rparr>"

lemma new_replica_set_oldest_witness:
  "getLatestReplicaSet (=) (\<lambda>_ _. True) sampleDeployment [sampleReplicaSet ''b'' 2, sampleReplicaSet ''a'' 1] =
     Some (sampleReplicaSet ''a'' 1) \<and>
   older (sampleReplicaSet ''a'' 1) (sampleReplicaSet ''b'' 2)"
proof
  let ?rss = "[sampleReplicaSet ''b'' 2, sampleReplicaSet ''a'' 1]"
  have same: "equalIgnoreHash (=) (rs_Template (sampleReplicaSet n t)) (dep_Template sampleDeployment)" for n t
    by (simp add: equalIgnoreHash_def withoutHash_def sampleReplicaSet_def sampleDeployment_def)
  show latest: "getLatestReplicaSet (=) (\<lambda>_ _. True) sampleDeployment ?rss = Some (sampleReplicaSet ''a'' 1)"
    using same by (simp add: getLatestReplicaSet_def findNewReplicaSet_def rs_sort_def rs_Less_def
        sampleReplicaSet_def)
  show "older (sampleReplicaSet ''a'' 1) (sampleReplicaSet ''b'' 2)"
    using new_replica_set_oldest [OF latest] same by simp
qed

end
