(* ===== verification/Names.thy ===== *)
theory Names
  imports Go_Prelude
begin

text \<open>
  \<open>internal/resources/names\<close>: the names of the Kubernetes objects the manager creates or watches.
\<close>

abbreviation telemetryPrefix :: string where
  "telemetryPrefix \<equiv> ''telemetry-''"

abbreviation metricsSuffix :: string where
  "metricsSuffix \<equiv> ''-metrics''"

abbreviation exporterMetricsSuffix :: string where
  "exporterMetricsSuffix \<equiv> ''-exporter-metrics''"

abbreviation LogAgent :: string where
  "LogAgent \<equiv> telemetryPrefix @ ''log-agent''"

abbreviation MetricAgent :: string where
  "MetricAgent \<equiv> telemetryPrefix @ ''metric-agent''"

abbreviation LogGateway :: string where
  "LogGateway \<equiv> telemetryPrefix @ ''log-gateway''"

abbreviation MetricGateway :: string where
  "MetricGateway \<equiv> telemetryPrefix @ ''metric-gateway''"

abbreviation TraceGateway :: string where
  "TraceGateway \<equiv> telemetryPrefix @ ''trace-gateway''"

abbreviation OTLPGateway :: string where
  "OTLPGateway \<equiv> telemetryPrefix @ ''otlp-gateway''"

abbreviation LogAgentMetricsService :: string where
  "LogAgentMetricsService \<equiv> LogAgent @ metricsSuffix"

abbreviation MetricAgentMetricsService :: string where
  "MetricAgentMetricsService \<equiv> MetricAgent @ metricsSuffix"

abbreviation OTLPGatewayMetricsService :: string where
  "OTLPGatewayMetricsService \<equiv> OTLPGateway @ metricsSuffix"

abbreviation FluentBit :: string where
  "FluentBit \<equiv> telemetryPrefix @ ''fluent-bit''"

abbreviation FluentBitMetricsService :: string where
  "FluentBitMetricsService \<equiv> FluentBit @ metricsSuffix"

abbreviation FluentBitExporterMetricsService :: string where
  "FluentBitExporterMetricsService \<equiv> FluentBit @ exporterMetricsSuffix"

abbreviation FluentBitSectionsConfigMap :: string where
  "FluentBitSectionsConfigMap \<equiv> FluentBit @ ''-sections''"

abbreviation FluentBitFilesConfigMap :: string where
  "FluentBitFilesConfigMap \<equiv> FluentBit @ ''-files''"

abbreviation FluentBitLuaScriptsConfigMap :: string where
  "FluentBitLuaScriptsConfigMap \<equiv> FluentBit @ ''-luascripts''"

abbreviation FluentBitEnvSecret :: string where
  "FluentBitEnvSecret \<equiv> FluentBit @ ''-env''"

abbreviation FluentBitTLSConfigSecret :: string where
  "FluentBitTLSConfigSecret \<equiv> FluentBit @ ''-output-tls-config''"

abbreviation OTLPMetricsService :: string where
  "OTLPMetricsService \<equiv> telemetryPrefix @ ''otlp-metrics''"

abbreviation OTLPTracesService :: string where
  "OTLPTracesService \<equiv> telemetryPrefix @ ''otlp-traces''"

abbreviation OTLPLogsService :: string where
  "OTLPLogsService \<equiv> telemetryPrefix @ ''otlp-logs''"

abbreviation OTLPService :: string where
  "OTLPService \<equiv> telemetryPrefix @ ''otlp''"

abbreviation SelfMonitor :: string where
  "SelfMonitor \<equiv> telemetryPrefix @ ''self-monitor''"

abbreviation SelfMonitorContainerName :: string where
  "SelfMonitorContainerName \<equiv> ''self-monitor''"

abbreviation ManagerName :: string where
  "ManagerName \<equiv> telemetryPrefix @ ''manager''"

abbreviation ManagerLeaseName :: string where
  "ManagerLeaseName \<equiv> ''cdd7ef0b.kyma-project.io''"

abbreviation ManagerMetricsService :: string where
  "ManagerMetricsService \<equiv> telemetryPrefix @ ''manager-metrics''"

abbreviation ManagerWebhookService :: string where
  "ManagerWebhookService \<equiv> telemetryPrefix @ ''manager-webhook''"

abbreviation ManagerWebhookCertSecret :: string where
  "ManagerWebhookCertSecret \<equiv> telemetryPrefix @ ''webhook-cert''"

abbreviation ValidatingWebhookConfig :: string where
  "ValidatingWebhookConfig \<equiv> telemetryPrefix @ ''validating-webhook.kyma-project.io''"

abbreviation MutatingWebhookConfig :: string where
  "MutatingWebhookConfig \<equiv> telemetryPrefix @ ''mutating-webhook.kyma-project.io''"

abbreviation LogPipelineLock :: string where
  "LogPipelineLock \<equiv> telemetryPrefix @ ''logpipeline-lock''"

abbreviation LogPipelineSync :: string where
  "LogPipelineSync \<equiv> telemetryPrefix @ ''logpipeline-sync''"

abbreviation MetricPipelineLock :: string where
  "MetricPipelineLock \<equiv> telemetryPrefix @ ''metricpipeline-lock''"

abbreviation MetricPipelineSync :: string where
  "MetricPipelineSync \<equiv> telemetryPrefix @ ''metricpipeline-sync''"

abbreviation TracePipelineLock :: string where
  "TracePipelineLock \<equiv> telemetryPrefix @ ''tracepipeline-lock''"

abbreviation TracePipelineSync :: string where
  "TracePipelineSync \<equiv> telemetryPrefix @ ''tracepipeline-sync''"

abbreviation OverrideConfigMap :: string where
  "OverrideConfigMap \<equiv> telemetryPrefix @ ''overrides''"

abbreviation DefaultTelemetry :: string where
  "DefaultTelemetry \<equiv> ''default''"

abbreviation LogPipelineCRD :: string where
  "LogPipelineCRD \<equiv> ''logpipelines.telemetry.kyma-project.io''"

abbreviation MetricPipelineCRD :: string where
  "MetricPipelineCRD \<equiv> ''metricpipelines.telemetry.kyma-project.io''"

abbreviation VpaKind :: string where
  "VpaKind \<equiv> ''VerticalPodAutoscaler''"

definition MetricsServiceName :: "string \<Rightarrow> string" where
  "MetricsServiceName componentName = componentName @ metricsSuffix"

end
