(* ===== verification/SelfMonitor.thy ===== *)
theory SelfMonitor
  imports Names Api_Types Errors
begin

text \<open>
  \<open>internal/selfmonitor\<close>: the alerting rules of the self monitor, how alerts are matched with pipelines, the
  probers that turn the alerts of Prometheus into a result for the status of a pipeline, and the webhook that
  turns alerts into reconcile events.
\<close>

section \<open>Expressions\<close>

text \<open>\<open>expr_builder.go\<close>: PromQL expressions are built as text.  The thresholds the rules compare with are
  whole numbers, which \<open>strconv.FormatFloat\<close> prints without a fraction.\<close>

definition defaultRateDuration :: string where "defaultRateDuration = ''5m''"

abbreviation labelService :: string where
  "labelService \<equiv> ''service''"
abbreviation labelPipelineName :: string where
  "labelPipelineName \<equiv> ''pipeline_name''"
abbreviation labelPipelineType :: string where
  "labelPipelineType \<equiv> ''pipeline_type''"
abbreviation labelReceiver :: string where
  "labelReceiver \<equiv> ''receiver''"

definition selectService :: "string \<Rightarrow> string \<Rightarrow> string" where
  "selectService serviceName metric =
     metric @ ''{'' @ labelService @ ''='' @ [CHR 0x22] @ serviceName @ [CHR 0x22] @ ''}''"

definition instant :: "string \<Rightarrow> (string \<Rightarrow> string) list \<Rightarrow> string" where
  "instant metric selectors = fold (\<lambda>s m. s m) selectors metric"

definition rate :: "string \<Rightarrow> (string \<Rightarrow> string) list \<Rightarrow> string" where
  "rate metric selectors =
     ''rate('' @ fold (\<lambda>s m. s m) selectors metric @ ''['' @ defaultRateDuration @ ''])''"

definition sumBy :: "string list \<Rightarrow> string \<Rightarrow> string" where
  "sumBy labels expr = ''sum by ('' @ Join labels '','' @ '') ('' @ expr @ '')''"

definition maxBy :: "string list \<Rightarrow> string \<Rightarrow> string" where
  "maxBy labels expr = ''max by ('' @ Join labels '','' @ '') ('' @ expr @ '')''"

definition greaterThan :: "nat \<Rightarrow> string \<Rightarrow> string" where
  "greaterThan v expr = expr @ '' > '' @ Itoa v"

definition equalTo :: "nat \<Rightarrow> string \<Rightarrow> string" where
  "equalTo v expr = expr @ '' == '' @ Itoa v"

definition wrapInParentheses :: "string list \<Rightarrow> string list" where
  "wrapInParentheses input = map (\<lambda>s. ''('' @ s @ '')'') input"

definition expr_and :: "string list \<Rightarrow> string" where
  "expr_and exprs = Join (wrapInParentheses exprs) '' and ''"

definition expr_or :: "string list \<Rightarrow> string" where
  "expr_or exprs = Join (wrapInParentheses exprs) '' or ''"

definition expr_unless :: "string list \<Rightarrow> string" where
  "expr_unless exprs = Join (wrapInParentheses exprs) '' unless ''"

section \<open>Rules\<close>

abbreviation RuleNameGatewayAllDataDropped :: string where
  "RuleNameGatewayAllDataDropped \<equiv> ''GatewayAllDataDropped''"
abbreviation RuleNameGatewaySomeDataDropped :: string where
  "RuleNameGatewaySomeDataDropped \<equiv> ''GatewaySomeDataDropped''"
abbreviation RuleNameGatewayThrottling :: string where
  "RuleNameGatewayThrottling \<equiv> ''GatewayThrottling''"
abbreviation RuleNameAgentAllDataDropped :: string where
  "RuleNameAgentAllDataDropped \<equiv> ''AgentAllDataDropped''"
abbreviation RuleNameAgentSomeDataDropped :: string where
  "RuleNameAgentSomeDataDropped \<equiv> ''AgentSomeDataDropped''"
abbreviation RuleNameLogFluentBitAllDataDropped :: string where
  "RuleNameLogFluentBitAllDataDropped \<equiv> ''FluentBitAllDataDropped''"
abbreviation RuleNameLogFluentBitSomeDataDropped :: string where
  "RuleNameLogFluentBitSomeDataDropped \<equiv> ''FluentBitSomeDataDropped''"
abbreviation RuleNameLogFluentBitBufferInUse :: string where
  "RuleNameLogFluentBitBufferInUse \<equiv> ''FluentBitBufferInUse''"
abbreviation RuleNameLogFluentBitNoLogsDelivered :: string where
  "RuleNameLogFluentBitNoLogsDelivered \<equiv> ''FluentBitNoLogsDelivered''"


text \<open>A rule without the labels and annotations, which no rule has.\<close>

record Rule =
  ru_Alert :: string
  ru_Expr :: string
  ru_For :: int

datatype pipelineType = typeMetricPipeline | typeTracePipeline | typeLogPipeline

primrec ruleDataType :: "pipelineType \<Rightarrow> string" where
  "ruleDataType typeMetricPipeline = ''metric_points_total''"
| "ruleDataType typeTracePipeline = ''spans_total''"
| "ruleDataType typeLogPipeline = ''log_records_total''"

primrec ruleNamePrefix :: "pipelineType \<Rightarrow> string" where
  "ruleNamePrefix typeMetricPipeline = ''Metric''"
| "ruleNamePrefix typeTracePipeline = ''Trace''"
| "ruleNamePrefix typeLogPipeline = ''Log''"

primrec pipelineComponentType :: "pipelineType \<Rightarrow> string" where
  "pipelineComponentType typeMetricPipeline = ''metricpipeline''"
| "pipelineComponentType typeTracePipeline = ''tracepipeline''"
| "pipelineComponentType typeLogPipeline = ''logpipeline''"

text \<open>One minute, in nanoseconds.\<close>

definition alertWaitTime :: int where "alertWaitTime = 60000000000"

record otelCollectorRuleBuilder =
  rb_serviceName :: string
  rb_dataType :: string
  rb_namePrefix :: string

definition appendDataType :: "otelCollectorRuleBuilder \<Rightarrow> string \<Rightarrow> string" where
  "appendDataType rb baseMetricName = baseMetricName @ ''_'' @ rb_dataType rb"

definition otelRateExpr :: "otelCollectorRuleBuilder \<Rightarrow> string \<Rightarrow> string \<Rightarrow> string" where
  "otelRateExpr rb metric label =
     greaterThan 0 (sumBy [label] (rate (appendDataType rb metric) [selectService (rb_serviceName rb)]))"

definition otel_exporterSentExpr :: "otelCollectorRuleBuilder \<Rightarrow> string" where
  "otel_exporterSentExpr rb = otelRateExpr rb ''otelcol_exporter_sent'' labelPipelineName"

definition otel_exporterDroppedExpr :: "otelCollectorRuleBuilder \<Rightarrow> string" where
  "otel_exporterDroppedExpr rb = otelRateExpr rb ''otelcol_exporter_send_failed'' labelPipelineName"

definition otel_exporterEnqueueFailedExpr :: "otelCollectorRuleBuilder \<Rightarrow> string" where
  "otel_exporterEnqueueFailedExpr rb =
     otelRateExpr rb ''otelcol_exporter_enqueue_failed'' labelPipelineName"

definition otel_throttlingExpr :: "otelCollectorRuleBuilder \<Rightarrow> string" where
  "otel_throttlingExpr rb = otelRateExpr rb ''otelcol_receiver_refused'' labelReceiver"

definition otel_allDataDroppedExpr :: "otelCollectorRuleBuilder \<Rightarrow> string" where
  "otel_allDataDroppedExpr rb =
     expr_unless [expr_or [otel_exporterEnqueueFailedExpr rb, otel_exporterDroppedExpr rb],
       otel_exporterSentExpr rb]"

definition otel_someDataDroppedExpr :: "otelCollectorRuleBuilder \<Rightarrow> string" where
  "otel_someDataDroppedExpr rb =
     expr_and [expr_or [otel_exporterEnqueueFailedExpr rb, otel_exporterDroppedExpr rb],
       otel_exporterSentExpr rb]"

definition otel_makeRule :: "otelCollectorRuleBuilder \<Rightarrow> string \<Rightarrow> string \<Rightarrow> Rule" where
  "otel_makeRule rb baseName expr =
     \<lparr>ru_Alert = rb_namePrefix rb @ baseName, ru_Expr = expr, ru_For = alertWaitTime\<rparr>"

definition gatewayRules :: "otelCollectorRuleBuilder \<Rightarrow> Rule list" where
  "gatewayRules rb =
     [otel_makeRule rb RuleNameGatewayAllDataDropped (otel_allDataDroppedExpr rb),
      otel_makeRule rb RuleNameGatewaySomeDataDropped (otel_someDataDroppedExpr rb),
      otel_makeRule rb RuleNameGatewayThrottling (otel_throttlingExpr rb)]"

definition agentRules :: "otelCollectorRuleBuilder \<Rightarrow> Rule list" where
  "agentRules rb =
     [otel_makeRule rb RuleNameAgentAllDataDropped (otel_allDataDroppedExpr rb),
      otel_makeRule rb RuleNameAgentSomeDataDropped (otel_someDataDroppedExpr rb)]"

definition inputStorageChunksDown300Chunks :: nat where
  "inputStorageChunksDown300Chunks = 300"

definition fluentBitRate :: "string \<Rightarrow> string" where
  "fluentBitRate metric =
     sumBy [labelPipelineName] (rate metric [selectService FluentBitMetricsService])"

definition fb_exporterDroppedExpr :: string where
  "fb_exporterDroppedExpr = greaterThan 0 (fluentBitRate ''fluentbit_output_dropped_records_total'')"

definition fb_exporterSentExpr :: string where
  "fb_exporterSentExpr = greaterThan 0 (fluentBitRate ''fluentbit_output_proc_bytes_total'')"

definition fb_allDataDroppedExpr :: string where
  "fb_allDataDroppedExpr = expr_unless [fb_exporterDroppedExpr, fb_exporterSentExpr]"

definition fb_someDataDroppedExpr :: string where
  "fb_someDataDroppedExpr = expr_and [fb_exporterDroppedExpr, fb_exporterSentExpr]"

definition fb_bufferInUseExpr :: string where
  "fb_bufferInUseExpr =
     greaterThan inputStorageChunksDown300Chunks
       (maxBy [labelPipelineName]
         (instant ''fluentbit_input_storage_chunks_down'' [selectService FluentBitMetricsService]))"

definition fb_noLogsDeliveredExpr :: string where
  "fb_noLogsDeliveredExpr =
     (let receiverReadExpr = greaterThan 0 (fluentBitRate ''fluentbit_input_bytes_total'');
          exporterNotSentExpr = equalTo 0 (fluentBitRate ''fluentbit_output_proc_bytes_total'')
      in expr_and [receiverReadExpr, exporterNotSentExpr])"

definition fb_makeRule :: "string \<Rightarrow> string \<Rightarrow> Rule" where
  "fb_makeRule baseName expr =
     \<lparr>ru_Alert = ruleNamePrefix typeLogPipeline @ baseName, ru_Expr = expr, ru_For = alertWaitTime\<rparr>"

definition fb_rules :: "Rule list" where
  "fb_rules =
     [fb_makeRule RuleNameLogFluentBitAllDataDropped fb_allDataDroppedExpr,
      fb_makeRule RuleNameLogFluentBitSomeDataDropped fb_someDataDroppedExpr,
      fb_makeRule RuleNameLogFluentBitBufferInUse fb_bufferInUseExpr,
      fb_makeRule RuleNameLogFluentBitNoLogsDelivered fb_noLogsDeliveredExpr]"

definition ruleBuilder :: "string \<Rightarrow> pipelineType \<Rightarrow> otelCollectorRuleBuilder" where
  "ruleBuilder serviceName t =
     \<lparr>rb_serviceName = serviceName, rb_dataType = ruleDataType t, rb_namePrefix = ruleNamePrefix t\<rparr>"

text \<open>The rules of the one group \<open>MakeRules\<close> returns.\<close>

definition MakeRules :: "Rule list" where
  "MakeRules =
     gatewayRules (ruleBuilder OTLPGatewayMetricsService typeMetricPipeline) @
     agentRules (ruleBuilder MetricAgentMetricsService typeMetricPipeline) @
     gatewayRules (ruleBuilder OTLPGatewayMetricsService typeTracePipeline) @
     gatewayRules (ruleBuilder OTLPGatewayMetricsService typeLogPipeline) @
     agentRules (ruleBuilder LogAgentMetricsService typeLogPipeline) @
     fb_rules"

section \<open>Matching alerts with pipelines\<close>

type_synonym labelSet = "string \<rightharpoonup> string"

abbreviation RulesAny :: string where
  "RulesAny \<equiv> ''any''"

text \<open>\<open>model.AlertNameLabel\<close> of the Prometheus model package.\<close>

abbreviation AlertNameLabel :: string where
  "AlertNameLabel \<equiv> ''alertname''"

definition matchesRuleName :: "labelSet \<Rightarrow> string \<Rightarrow> pipelineType \<Rightarrow> bool" where
  "matchesRuleName labels unprefixedRuleName t =
     (case labels AlertNameLabel of
        None \<Rightarrow> False
      | Some ruleName \<Rightarrow>
          (if \<not> HasPrefix ruleName (ruleNamePrefix t) then False
           else if unprefixedRuleName \<noteq> RulesAny \<and> ruleName \<noteq> ruleNamePrefix t @ unprefixedRuleName then False
           else True))"

definition matchesRule :: "labelSet \<Rightarrow> string \<Rightarrow> string \<Rightarrow> pipelineType \<Rightarrow> bool" where
  "matchesRule labels unprefixedRuleName pipelineName t =
     (if \<not> matchesRuleName labels unprefixedRuleName t then False
      else case labels labelPipelineName of
          None \<Rightarrow> True
        | Some pipelineNameLabel \<Rightarrow>
            (case labels labelPipelineType of
               Some pipelineTypeLabel \<Rightarrow>
                 (if pipelineTypeLabel \<noteq> pipelineComponentType t then False
                  else pipelineNameLabel = pipelineName)
             | None \<Rightarrow> pipelineNameLabel = pipelineName))"

section \<open>Probers\<close>

text \<open>An alert as the Prometheus API reports it.  The probers take the alerts, or the error of the query, as
  an argument.\<close>

datatype AlertState = AlertStateFiring | AlertStateInactive | AlertStatePending

record Alert =
  al_State :: AlertState
  al_Labels :: labelSet

type_synonym alertGetter = "(go_error, Alert list) result"

definition retrieveAlerts :: "alertGetter \<Rightarrow> (go_error, Alert list) result" where
  "retrieveAlerts getter =
     (case getter of
        Inl err \<Rightarrow> Inl (Errorf ''failed to query Prometheus alerts: '' err [])
      | Inr alerts \<Rightarrow> Inr alerts)"

fun isFiringWithMatcher :: "Alert list \<Rightarrow> string \<Rightarrow> string \<Rightarrow> pipelineType \<Rightarrow> bool" where
  "isFiringWithMatcher [] ruleName pipelineName t = False"
| "isFiringWithMatcher (alert # alerts) ruleName pipelineName t =
     (if al_State alert = AlertStateFiring \<and> matchesRule (al_Labels alert) ruleName pipelineName t then True
      else isFiringWithMatcher alerts ruleName pipelineName t)"

record PipelineProbeResult =
  pr_AllDataDropped :: bool
  pr_SomeDataDropped :: bool
  pr_Healthy :: bool

record OTelGatewayProbeResult = PipelineProbeResult +
  pr_Throttling :: bool

type_synonym OTelAgentProbeResult = PipelineProbeResult

record FluentBitProbeResult = PipelineProbeResult +
  pr_NoLogsDelivered :: bool
  pr_BufferFillingUp :: bool

definition OTelGatewayProber_Probe ::
    "pipelineType \<Rightarrow> alertGetter \<Rightarrow> string \<Rightarrow> (go_error, OTelGatewayProbeResult) result" where
  "OTelGatewayProber_Probe t getter pipelineName =
     (case retrieveAlerts getter of
        Inl err \<Rightarrow> Inl (Errorf ''failed to retrieve alerts: '' err [])
      | Inr alerts \<Rightarrow>
          (let allDropped = isFiringWithMatcher alerts RuleNameGatewayAllDataDropped pipelineName t;
               someDropped = isFiringWithMatcher alerts RuleNameGatewaySomeDataDropped pipelineName t;
               throttling = isFiringWithMatcher alerts RuleNameGatewayThrottling pipelineName t;
               healthy = (\<not> allDropped \<and> \<not> someDropped \<and> \<not> throttling)
           in Inr \<lparr>pr_AllDataDropped = allDropped, pr_SomeDataDropped = someDropped, pr_Healthy = healthy,
                pr_Throttling = throttling\<rparr>))"

definition OTelAgentProber_Probe ::
    "pipelineType \<Rightarrow> alertGetter \<Rightarrow> string \<Rightarrow> (go_error, OTelAgentProbeResult) result" where
  "OTelAgentProber_Probe t getter pipelineName =
     (case retrieveAlerts getter of
        Inl err \<Rightarrow> Inl (Errorf ''failed to retrieve alerts: '' err [])
      | Inr alerts \<Rightarrow>
          (let allDropped = isFiringWithMatcher alerts RuleNameAgentAllDataDropped pipelineName t;
               someDropped = isFiringWithMatcher alerts RuleNameAgentSomeDataDropped pipelineName t;
               healthy = (\<not> allDropped \<and> \<not> someDropped)
           in Inr \<lparr>pr_AllDataDropped = allDropped, pr_SomeDataDropped = someDropped, pr_Healthy = healthy\<rparr>))"

definition FluentBitProber_Probe ::
    "alertGetter \<Rightarrow> string \<Rightarrow> (go_error, FluentBitProbeResult) result" where
  "FluentBitProber_Probe getter pipelineName =
     (case retrieveAlerts getter of
        Inl err \<Rightarrow> Inl (Errorf ''failed to retrieve alerts: '' err [])
      | Inr alerts \<Rightarrow>
          (let firing = (\<lambda>rule. isFiringWithMatcher alerts rule pipelineName typeLogPipeline);
               allDropped = firing RuleNameLogFluentBitAllDataDropped;
               someDropped = firing RuleNameLogFluentBitSomeDataDropped;
               bufferFillingUp = firing RuleNameLogFluentBitBufferInUse;
               noLogs = firing RuleNameLogFluentBitNoLogsDelivered;
               healthy = (\<not> allDropped \<and> \<not> someDropped \<and> \<not> bufferFillingUp \<and> \<not> noLogs)
           in Inr \<lparr>pr_AllDataDropped = allDropped, pr_SomeDataDropped = someDropped, pr_Healthy = healthy,
                pr_NoLogsDelivered = noLogs, pr_BufferFillingUp = bufferFillingUp\<rparr>))"

section \<open>The webhook\<close>

text \<open>\<open>toMetricPipelineReconcileEvents\<close> and its two siblings differ in the list they read and the matcher;
  an event is the object it is about.  One event is sent per pair of a pipeline and a matching alert.\<close>

definition toReconcileEvents ::
    "pipelineType \<Rightarrow> (go_error, ObjectMeta list) result \<Rightarrow> labelSet list \<Rightarrow> ObjectMeta list" where
  "toReconcileEvents t listed alerts =
     (case listed of
        Inl err \<Rightarrow> []
      | Inr items \<Rightarrow>
          concat (map (\<lambda>item.
            map (\<lambda>_. item) (filter (\<lambda>labels. matchesRule labels RulesAny (om_Name item) t) alerts)) items))"

text \<open>\<open>ServeHTTP\<close>: the status code and, per subscriber, the events sent.  The body is given as the result of
  decoding it.\<close>

definition ServeHTTP ::
    "(pipelineType \<Rightarrow> (go_error, ObjectMeta list) result) \<Rightarrow> string \<Rightarrow> (string, labelSet list) result \<Rightarrow>
     nat \<times> (pipelineType \<Rightarrow> ObjectMeta list)" where
  "ServeHTTP listPipelines requestMethod body =
     (if requestMethod \<noteq> ''POST'' then (405, \<lambda>_. [])
      else case body of
          Inl err \<Rightarrow> (400, \<lambda>_. [])
        | Inr alerts \<Rightarrow> (200, \<lambda>t. toReconcileEvents t (listPipelines t) alerts))"

section \<open>Properties\<close>

lemma isFiring_iff:
  "isFiringWithMatcher alerts rule name t \<longleftrightarrow>
     (\<exists>a\<in>set alerts. al_State a = AlertStateFiring \<and> matchesRule (al_Labels a) rule name t)"
  by (induction alerts) auto

lemma matchesRuleName_iff:
  "matchesRuleName ls rule t \<longleftrightarrow>
     (\<exists>n. ls AlertNameLabel = Some n \<and> HasPrefix n (ruleNamePrefix t) \<and>
        (rule = RulesAny \<or> n = ruleNamePrefix t @ rule))"
  by (auto simp: matchesRuleName_def split: option.split)

lemma matchesRule_iff:
  "matchesRule ls rule name t \<longleftrightarrow>
     matchesRuleName ls rule t \<and>
     (ls labelPipelineName = None \<or>
      ls labelPipelineName = Some name \<and>
        (ls labelPipelineType = None \<or> ls labelPipelineType = Some (pipelineComponentType t)))"
  by (auto simp: matchesRule_def split: option.split)

lemma matchesRule_any: "matchesRule ls rule name t \<Longrightarrow> matchesRule ls RulesAny name t"
  by (auto simp: matchesRule_iff matchesRuleName_iff)

lemma prefixes_disjoint:
  "HasPrefix n (ruleNamePrefix t) \<Longrightarrow> HasPrefix n (ruleNamePrefix t') \<Longrightarrow> t = t'"
  by (cases t; cases t'; cases n) (auto simp: HasPrefix_def)

lemma matchesRule_type:
  "matchesRule ls rule name t \<Longrightarrow> matchesRule ls rule' name' t' \<Longrightarrow> t = t'"
  by (auto simp: matchesRule_iff matchesRuleName_iff dest: prefixes_disjoint)

text \<open>The alerts that can concern a pipeline.\<close>

definition concerns :: "pipelineType \<Rightarrow> string \<Rightarrow> Alert \<Rightarrow> bool" where
  "concerns t name a \<longleftrightarrow>
     al_State a = AlertStateFiring \<and>
     (\<exists>n. al_Labels a AlertNameLabel = Some n \<and> HasPrefix n (ruleNamePrefix t)) \<and>
     al_Labels a labelPipelineName \<in> {None, Some name}"

lemma isFiring_concerns:
  "isFiringWithMatcher (filter (concerns t name) alerts) rule name t =
   isFiringWithMatcher alerts rule name t"
  by (auto simp: isFiring_iff concerns_def matchesRule_iff matchesRuleName_iff)

lemma retrieveAlerts_Inr [simp]: "retrieveAlerts (Inr alerts) = Inr alerts"
  by (simp add: retrieveAlerts_def)

text \<open>The health of a pipeline depends only on the alerts that are firing, are of its own type and are
  either about it or about no pipeline in particular: the alerts of other pipelines and other signal types
  change the result of none of the three probers.\<close>

lemma probe_isolation:
  "OTelGatewayProber_Probe t (Inr (filter (concerns t name) alerts)) name =
     OTelGatewayProber_Probe t (Inr alerts) name \<and>
   OTelAgentProber_Probe t (Inr (filter (concerns t name) alerts)) name =
     OTelAgentProber_Probe t (Inr alerts) name \<and>
   FluentBitProber_Probe (Inr (filter (concerns typeLogPipeline name) alerts)) name =
     FluentBitProber_Probe (Inr alerts) name"
  by (simp add: OTelGatewayProber_Probe_def OTelAgentProber_Probe_def FluentBitProber_Probe_def
      isFiring_concerns)

text \<open>What each prober calls unhealthy: one of its rules fires.\<close>

lemma isFiring_matches:
  "isFiringWithMatcher alerts rule name t \<Longrightarrow> \<exists>a\<in>set alerts. \<exists>rule. matchesRule (al_Labels a) rule name t"
  by (auto simp: isFiring_iff)

lemma gateway_unhealthy:
  assumes "OTelGatewayProber_Probe t (Inr alerts) name = Inr res" and "\<not> pr_Healthy res"
  shows "\<exists>a\<in>set alerts. \<exists>rule. matchesRule (al_Labels a) rule name t"
  using assms by (auto simp: OTelGatewayProber_Probe_def Let_def dest!: isFiring_matches)

lemma agent_unhealthy:
  assumes "OTelAgentProber_Probe t (Inr alerts) name = Inr res" and "\<not> pr_Healthy res"
  shows "\<exists>a\<in>set alerts. \<exists>rule. matchesRule (al_Labels a) rule name t"
  using assms by (auto simp: OTelAgentProber_Probe_def Let_def dest!: isFiring_matches)

lemma fluentbit_unhealthy:
  assumes "FluentBitProber_Probe (Inr alerts) name = Inr res" and "\<not> pr_Healthy res"
  shows "\<exists>a\<in>set alerts. \<exists>rule. matchesRule (al_Labels a) rule name typeLogPipeline"
  using assms by (auto simp: FluentBitProber_Probe_def Let_def dest!: isFiring_matches)

lemma toReconcileEvents_iff:
  "x \<in> set (toReconcileEvents t (Inr items) alerts) \<longleftrightarrow>
     x \<in> set items \<and> (\<exists>ls\<in>set alerts. matchesRule ls RulesAny (om_Name x) t)"
  by (auto simp: toReconcileEvents_def)

text \<open>The three probers by the signal type they are used for; a result is healthy or not.\<close>

definition probed_unhealthy :: "pipelineType \<Rightarrow> Alert list \<Rightarrow> string \<Rightarrow> bool" where
  "probed_unhealthy t alerts name \<longleftrightarrow>
     (\<exists>r. OTelGatewayProber_Probe t (Inr alerts) name = Inr r \<and> \<not> pr_Healthy r) \<or>
     (\<exists>r. OTelAgentProber_Probe t (Inr alerts) name = Inr r \<and> \<not> pr_Healthy r) \<or>
     (t = typeLogPipeline \<and> (\<exists>r. FluentBitProber_Probe (Inr alerts) name = Inr r \<and> \<not> pr_Healthy r))"

text \<open>The probers that the controllers use: one for the gateway per signal type, agent probers for metrics and logs, and
  the Fluent Bit prober.  An alert is noticed if, firing alone and for no pipeline in particular, it makes the result of
  one of them unhealthy.\<close>

definition unhealthyFor :: "(go_error, ('a PipelineProbeResult_scheme)) result \<Rightarrow> bool" where
  "unhealthyFor result = (case result of Inl e \<Rightarrow> False | Inr r \<Rightarrow> \<not> pr_Healthy r)"

definition firingAlone :: "string \<Rightarrow> alertGetter" where
  "firingAlone alertName = Inr [\<lparr>al_State = AlertStateFiring, al_Labels = [AlertNameLabel \<mapsto> alertName]\<rparr>]"

definition noticedBy :: "string \<Rightarrow> string \<Rightarrow> bool list" where
  "noticedBy alertName pipelineName =
     (let alerts = firingAlone alertName
      in [unhealthyFor (OTelGatewayProber_Probe typeMetricPipeline alerts pipelineName),
          unhealthyFor (OTelAgentProber_Probe typeMetricPipeline alerts pipelineName),
          unhealthyFor (OTelGatewayProber_Probe typeTracePipeline alerts pipelineName),
          unhealthyFor (OTelGatewayProber_Probe typeLogPipeline alerts pipelineName),
          unhealthyFor (OTelAgentProber_Probe typeLogPipeline alerts pipelineName),
          unhealthyFor (FluentBitProber_Probe alerts pipelineName)])"

lemma alone_matches:
  "rule \<noteq> RulesAny \<Longrightarrow> matchesRule [AlertNameLabel \<mapsto> alertName] rule pipelineName t \<longleftrightarrow> alertName = ruleNamePrefix t @ rule"
  by (auto simp: matchesRule_iff matchesRuleName_iff HasPrefix_def)

lemmas noticed_defs = firingAlone_def alone_matches unhealthyFor_def Let_def

lemma noticed_gateway:
  "unhealthyFor (OTelGatewayProber_Probe t (firingAlone alertName) pipelineName) \<longleftrightarrow>
     alertName \<in> ru_Alert ` set (gatewayRules (ruleBuilder service t))"
  by (auto simp: OTelGatewayProber_Probe_def noticed_defs gatewayRules_def otel_makeRule_def ruleBuilder_def)

lemma noticed_agent:
  "unhealthyFor (OTelAgentProber_Probe t (firingAlone alertName) pipelineName) \<longleftrightarrow>
     alertName \<in> ru_Alert ` set (agentRules (ruleBuilder service t))"
  by (auto simp: OTelAgentProber_Probe_def noticed_defs agentRules_def otel_makeRule_def ruleBuilder_def)

lemma noticed_fluentbit:
  "unhealthyFor (FluentBitProber_Probe (firingAlone alertName) pipelineName) \<longleftrightarrow> alertName \<in> ru_Alert ` set fb_rules"
  by (auto simp: FluentBitProber_Probe_def noticed_defs fb_rules_def fb_makeRule_def)

lemma rule_names_distinct: "distinct (map ru_Alert MakeRules)"
  by (simp add: MakeRules_def gatewayRules_def agentRules_def fb_rules_def otel_makeRule_def fb_makeRule_def ruleBuilder_def)

lemma distinct_concat_once:
  "distinct (concat xss) \<Longrightarrow> length (filter (\<lambda>xs. x \<in> set xs) xss) = (if x \<in> set (concat xss) then 1 else 0)"
proof (induction xss)
  case (Cons xs xss)
  then show ?case by (cases "x \<in> set xs") auto
qed simp

text \<open>C32: the rules and the probers fit.  Whatever its name, an alert that fires is noticed, by exactly one of the probers
  of the controllers, if it is the alert of a generated rule, and by none otherwise: no rule is generated in vain, and no
  prober waits for an alert that cannot fire.  No two rules have the same alert name.\<close>

theorem rules_probed:
  "length (filter id (noticedBy alertName pipelineName)) = (if alertName \<in> ru_Alert ` set MakeRules then 1 else 0) \<and>
   distinct (map ru_Alert MakeRules)"
proof -
  let ?groups = "map (map ru_Alert)
    [gatewayRules (ruleBuilder OTLPGatewayMetricsService typeMetricPipeline),
     agentRules (ruleBuilder MetricAgentMetricsService typeMetricPipeline),
     gatewayRules (ruleBuilder OTLPGatewayMetricsService typeTracePipeline),
     gatewayRules (ruleBuilder OTLPGatewayMetricsService typeLogPipeline),
     agentRules (ruleBuilder LogAgentMetricsService typeLogPipeline), fb_rules]"
  have groups: "map ru_Alert MakeRules = concat ?groups" by (simp add: MakeRules_def)
  have "noticedBy alertName pipelineName = map (\<lambda>names. alertName \<in> set names) ?groups"
    by (simp add: noticedBy_def Let_def noticed_gateway [where service = OTLPGatewayMetricsService] noticed_fluentbit
        noticed_agent [where t = typeMetricPipeline and service = MetricAgentMetricsService]
        noticed_agent [where t = typeLogPipeline and service = LogAgentMetricsService])
  then have "length (filter id (noticedBy alertName pipelineName)) = length (filter (\<lambda>names. alertName \<in> set names) ?groups)"
    by (simp only: filter_map o_def id_apply length_map)
  also have "\<dots> = (if alertName \<in> set (map ru_Alert MakeRules) then 1 else 0)"
    unfolding groups by (rule distinct_concat_once) (use rule_names_distinct groups in simp)
  finally show ?thesis using rule_names_distinct by simp
qed

text \<open>C29: when Prometheus posts the alerts because of which a prober would call a pipeline unhealthy, the
  webhook answers 200 and sends the controller of that signal type an event for the pipeline: no change for
  the worse waits for the next periodic reconciliation.\<close>

theorem webhook_triggers_unhealthy:
  assumes "listPipelines t = Inr items" and "p \<in> set items"
    and "probed_unhealthy t alerts (om_Name p)"
  shows "fst (ServeHTTP listPipelines ''POST'' (Inr (map al_Labels alerts))) = 200 \<and>
    p \<in> set (snd (ServeHTTP listPipelines ''POST'' (Inr (map al_Labels alerts))) t)"
proof -
  from assms(3) obtain a rule where "a \<in> set alerts" "matchesRule (al_Labels a) rule (om_Name p) t"
    unfolding probed_unhealthy_def using gateway_unhealthy agent_unhealthy fluentbit_unhealthy by metis
  then have "\<exists>ls\<in>set (map al_Labels alerts). matchesRule ls RulesAny (om_Name p) t"
    using matchesRule_any by fastforce
  with assms(1,2) show ?thesis
    by (simp add: ServeHTTP_def toReconcileEvents_iff)
qed

definition sampleAlert :: Alert where
  "sampleAlert =
     \<lparr>al_State = AlertStateFiring,
      al_Labels = [AlertNameLabel \<mapsto> ''MetricGatewayAllDataDropped'', labelPipelineName \<mapsto> ''cls'']\<rparr>"

lemma sampleAlert_unhealthy: "probed_unhealthy typeMetricPipeline [sampleAlert] ''cls''"
  by (simp add: probed_unhealthy_def OTelGatewayProber_Probe_def isFiring_iff matchesRule_iff
      matchesRuleName_iff sampleAlert_def
      HasPrefix_def)

theorem webhook_triggers_unhealthy_witness:
  "\<exists>items p. p \<in> set items \<and> om_Name p = ''cls'' \<and>
     p \<in> set (snd (ServeHTTP (\<lambda>_. Inr items) ''POST'' (Inr [al_Labels sampleAlert])) typeMetricPipeline)"
proof -
  let ?p = "zeroObjectMeta\<lparr>om_Name := ''cls''\<rparr>"
  have "?p \<in> set (snd (ServeHTTP (\<lambda>_. Inr [?p]) ''POST'' (Inr (map al_Labels [sampleAlert])))
      typeMetricPipeline)"
    using webhook_triggers_unhealthy [of "\<lambda>_. Inr [?p]" typeMetricPipeline "[?p]" ?p "[sampleAlert]"]
      sampleAlert_unhealthy by simp
  then have "?p \<in> set [?p] \<and> om_Name ?p = ''cls'' \<and>
      ?p \<in> set (snd (ServeHTTP (\<lambda>_. Inr [?p]) ''POST'' (Inr [al_Labels sampleAlert])) typeMetricPipeline)"
    by simp
  then show ?thesis by blast
qed

end
