(* ===== verification/CoordinationConfig.thy ===== *)
theory CoordinationConfig
  imports Kube
begin

text \<open>
  \<open>internal/resources/coordinationconfig/otlp_gateway.go\<close> and \<open>internal/pipelines\<close>: the ConfigMap through
  which the pipeline reconcilers tell the OTLP gateway reconciler which pipelines to render.  The YAML
  encoder is a parameter.  The updates refine operations on finite maps, and interleaved updates of any
  number of reconcilers take effect one after the other: none is lost.
\<close>

section \<open>Pipelines and references\<close>

type_synonym SignalType = string

definition SignalTypeTrace :: SignalType where
  "SignalTypeTrace = ''trace''"

definition SignalTypeMetric :: SignalType where
  "SignalTypeMetric = ''metric''"

definition SignalTypeLog :: SignalType where
  "SignalTypeLog = ''log''"

definition SignalTypeLogFluentBit :: SignalType where
  "SignalTypeLogFluentBit = ''log-fluentbit''"

lemmas signal_type_defs =
  SignalTypeTrace_def SignalTypeMetric_def SignalTypeLog_def SignalTypeLogFluentBit_def

definition SignalType_Validate :: "SignalType \<Rightarrow> go_error option" where
  "SignalType_Validate s =
     (if s = SignalTypeTrace \<or> s = SignalTypeMetric \<or> s = SignalTypeLog \<or> s = SignalTypeLogFluentBit
      then None else Some (NewError (''invalid SignalType: '' @ s)))"

record PipelineRef =
  pl_name :: string
  pl_signalType :: SignalType

definition TypePrefix :: "PipelineRef \<Rightarrow> string" where
  "TypePrefix r = (if pl_signalType r = [] then [] else pl_signalType r @ ''pipeline'')"

definition QualifiedName :: "PipelineRef \<Rightarrow> string" where
  "QualifiedName r =
     (if TypePrefix r = [] then pl_name r else TypePrefix r @ ''-'' @ pl_name r)"

record PipelineReference =
  pr_Name :: string
  pr_Generation :: int
  pr_SecretVersions :: "string \<rightharpoonup> string"

record OTLPGatewayConfigMap =
  ogc_Trace :: "PipelineReference list"
  ogc_Log :: "PipelineReference list"
  ogc_Metric :: "PipelineReference list"

definition emptyConfig :: OTLPGatewayConfigMap where
  "emptyConfig = \<lparr>ogc_Trace = [], ogc_Log = [], ogc_Metric = []\<rparr>"

definition ConfigMapDataKey :: string where
  "ConfigMapDataKey = ''pipelines.yaml''"

definition OTLPGatewayCoordinationConfigMap :: string where
  "OTLPGatewayCoordinationConfigMap = ''telemetry-otlp-gateway-coordination''"

text \<open>\<open>yaml.Marshal\<close> and \<open>yaml.Unmarshal\<close>.\<close>

record yaml_codec =
  ym_Marshal :: "OTLPGatewayConfigMap \<Rightarrow> (string, string) result"
  ym_Unmarshal :: "string \<Rightarrow> (string, OTLPGatewayConfigMap) result"

section \<open>Reading\<close>

definition coord_key :: "string \<Rightarrow> NamespacedName" where
  "coord_key namespace =
     \<lparr>nn_Namespace = namespace, nn_Name = OTLPGatewayCoordinationConfigMap\<rparr>"

text \<open>\<open>yamlData, ok := cm.Data[key]; !ok || yamlData == ""\<close>, on a nil map too.\<close>

definition yamlDataOf :: "ConfigMap \<Rightarrow> string option" where
  "yamlDataOf cm = (case cm_Data cm of
     None \<Rightarrow> None
   | Some m \<Rightarrow> (case m ConfigMapDataKey of
       None \<Rightarrow> None
     | Some y \<Rightarrow> if y = [] then None else Some y))"

definition ReadOTLPGatewayConfig ::
    "'s cm_client \<Rightarrow> yaml_codec \<Rightarrow> string \<Rightarrow> 's \<Rightarrow> (go_error, OTLPGatewayConfigMap) result" where
  "ReadOTLPGatewayConfig c ym namespace s =
     (case cc_Get c (coord_key namespace) s of
        Inl e \<Rightarrow>
          (if IsNotFound e then Inr emptyConfig
           else Inl (Errorf ''failed to get OTLP Gateway coordination ConfigMap: '' (KubeError e) []))
      | Inr cm \<Rightarrow>
          (case yamlDataOf cm of
             None \<Rightarrow> Inr emptyConfig
           | Some y \<Rightarrow>
               (case ym_Unmarshal ym y of
                  Inl e \<Rightarrow> Inl (Errorf ''failed to unmarshal ConfigMap data: '' (NewError e) [])
                | Inr config \<Rightarrow> Inr config)))"

section \<open>Updating\<close>

text \<open>\<open>getPipelineSlice\<close> returns a pointer to the slice: reading through it and writing through it.\<close>

definition getPipelineSlice :: "OTLPGatewayConfigMap \<Rightarrow> SignalType \<Rightarrow> PipelineReference list option" where
  "getPipelineSlice config ty =
     (if ty = SignalTypeTrace then Some (ogc_Trace config)
      else if ty = SignalTypeLog then Some (ogc_Log config)
      else if ty = SignalTypeMetric then Some (ogc_Metric config)
      else None)"

definition setPipelineSlice ::
    "OTLPGatewayConfigMap \<Rightarrow> SignalType \<Rightarrow> PipelineReference list \<Rightarrow> OTLPGatewayConfigMap" where
  "setPipelineSlice config ty refs =
     (if ty = SignalTypeTrace then config\<lparr>ogc_Trace := refs\<rparr>
      else if ty = SignalTypeLog then config\<lparr>ogc_Log := refs\<rparr>
      else if ty = SignalTypeMetric then config\<lparr>ogc_Metric := refs\<rparr>
      else config)"

text \<open>The loop of \<open>AddPipelineReference\<close>: update the first reference of that name in place, or append.\<close>

fun upsertReference :: "PipelineReference \<Rightarrow> PipelineReference list \<Rightarrow> PipelineReference list" where
  "upsertReference input [] = [input]"
| "upsertReference input (r # rs) =
     (if pr_Name r = pr_Name input
      then r\<lparr>pr_Generation := pr_Generation input, pr_SecretVersions := pr_SecretVersions input\<rparr> # rs
      else r # upsertReference input rs)"

datatype coord_op =
    AddReference SignalType PipelineReference
  | RemoveReference SignalType string

definition updateFn :: "coord_op \<Rightarrow> OTLPGatewayConfigMap \<Rightarrow> (go_error, OTLPGatewayConfigMap) result" where
  "updateFn op config =
     (case op of
        AddReference ty input \<Rightarrow>
          (case getPipelineSlice config ty of
             None \<Rightarrow> Inl (NewError (''invalid pipeline type: '' @ ty))
           | Some refs \<Rightarrow> Inr (setPipelineSlice config ty (upsertReference input refs)))
      | RemoveReference ty name \<Rightarrow>
          (case getPipelineSlice config ty of
             None \<Rightarrow> Inl (NewError (''invalid pipeline type: '' @ ty))
           | Some refs \<Rightarrow>
               Inr (setPipelineSlice config ty (filter (\<lambda>ref. pr_Name ref \<noteq> name) refs))))"

definition getConfigMap ::
    "'s cm_client \<Rightarrow> string \<Rightarrow> 's \<Rightarrow> (go_error, ConfigMap option) result" where
  "getConfigMap c namespace s =
     (case cc_Get c (coord_key namespace) s of
        Inl e \<Rightarrow>
          (if IsNotFound e then Inr None
           else Inl (Errorf ''failed to get ConfigMap: '' (KubeError e) []))
      | Inr cm \<Rightarrow> Inr (Some cm))"

definition parseConfig ::
    "yaml_codec \<Rightarrow> ConfigMap option \<Rightarrow> (go_error, OTLPGatewayConfigMap) result" where
  "parseConfig ym cm =
     (case cm of
        None \<Rightarrow> Inr emptyConfig
      | Some m \<Rightarrow>
          (case yamlDataOf m of
             None \<Rightarrow> Inr emptyConfig
           | Some y \<Rightarrow>
               (case ym_Unmarshal ym y of
                  Inl e \<Rightarrow> Inl (Errorf ''failed to unmarshal ConfigMap: '' (NewError e) [])
                | Inr config \<Rightarrow> Inr config)))"

definition newCoordinationConfigMap :: "string \<Rightarrow> string \<Rightarrow> ConfigMap" where
  "newCoordinationConfigMap namespace y =
     \<lparr>cm_ObjectMeta = zeroObjectMeta\<lparr>om_Name := OTLPGatewayCoordinationConfigMap,
        om_Namespace := namespace\<rparr>,
      cm_Data = Some [ConfigMapDataKey \<mapsto> y]\<rparr>"

definition withYamlData :: "ConfigMap \<Rightarrow> string \<Rightarrow> ConfigMap" where
  "withYamlData cm y = cm\<lparr>cm_Data := Some ((deref (cm_Data cm) Map.empty)(ConfigMapDataKey \<mapsto> y))\<rparr>"

definition createConfigMap ::
    "'s cm_client \<Rightarrow> string \<Rightarrow> string \<Rightarrow> 's \<Rightarrow> 's \<times> go_error option" where
  "createConfigMap c namespace y s =
     (let (s', err) = cc_Create c (newCoordinationConfigMap namespace y) s
      in (s', map_option (\<lambda>e. Errorf ''failed to create ConfigMap: '' (KubeError e) []) err))"

definition updateConfigMap ::
    "'s cm_client \<Rightarrow> ConfigMap \<Rightarrow> string \<Rightarrow> 's \<Rightarrow> 's \<times> go_error option" where
  "updateConfigMap c cm y s =
     (let (s', err) = cc_Update c (withYamlData cm y) s
      in (s', map_option (\<lambda>e. Errorf ''failed to update ConfigMap: '' (KubeError e) []) err))"

definition applyConfigUpdate ::
    "'s cm_client \<Rightarrow> yaml_codec \<Rightarrow> string \<Rightarrow>
      (OTLPGatewayConfigMap \<Rightarrow> (go_error, OTLPGatewayConfigMap) result) \<Rightarrow> 's \<Rightarrow>
      's \<times> go_error option" where
  "applyConfigUpdate c ym namespace f s =
     (case getConfigMap c namespace s of
        Inl e \<Rightarrow> (s, Some e)
      | Inr cm \<Rightarrow>
          (case parseConfig ym cm of
             Inl e \<Rightarrow> (s, Some e)
           | Inr config \<Rightarrow>
               (case f config of
                  Inl e \<Rightarrow> (s, Some (Errorf ''update function failed: '' e []))
                | Inr config' \<Rightarrow>
                    (case ym_Marshal ym config' of
                       Inl e \<Rightarrow> (s, Some (Errorf ''failed to marshal config: '' (NewError e) []))
                     | Inr y \<Rightarrow>
                         (case cm of
                            None \<Rightarrow> createConfigMap c namespace y s
                          | Some m \<Rightarrow> updateConfigMap c m y s)))))"

definition AddPipelineReference ::
    "'s cm_client \<Rightarrow> yaml_codec \<Rightarrow> string \<Rightarrow> SignalType \<Rightarrow> PipelineReference \<Rightarrow> 's \<Rightarrow>
      's \<times> go_error option" where
  "AddPipelineReference c ym namespace ty input s =
     applyConfigUpdate c ym namespace (updateFn (AddReference ty input)) s"

definition RemovePipelineReference ::
    "'s cm_client \<Rightarrow> yaml_codec \<Rightarrow> string \<Rightarrow> SignalType \<Rightarrow> string \<Rightarrow> 's \<Rightarrow> 's \<times> go_error option" where
  "RemovePipelineReference c ym namespace ty name s =
     applyConfigUpdate c ym namespace (updateFn (RemoveReference ty name)) s"

section \<open>Secret versions\<close>

text \<open>The loop of \<open>CollectSecretVersions\<close>.\<close>

fun collectVersions ::
    "secret_reader \<Rightarrow> NamespacedName set \<Rightarrow> (string \<rightharpoonup> string) \<Rightarrow> SecretKeyRef list \<Rightarrow>
      (go_error, string \<rightharpoonup> string) result" where
  "collectVersions get seen versions [] = Inr versions"
| "collectVersions get seen versions (ref # refs) =
     (let key = \<lparr>nn_Namespace = skr_Namespace ref, nn_Name = skr_Name ref\<rparr>;
          mapKey = skr_Namespace ref @ ''/'' @ skr_Name ref
      in if key \<in> seen then collectVersions get seen versions refs
         else case get key of
             Inl e \<Rightarrow>
               (if IsNotFound e then collectVersions get (insert key seen) versions refs
                else Inl (Errorf (''failed to get secret '' @ mapKey @ '': '') (KubeError e) []))
           | Inr sec \<Rightarrow>
               collectVersions get (insert key seen)
                 (versions(mapKey \<mapsto> om_ResourceVersion (sec_ObjectMeta sec))) refs)"

definition CollectSecretVersions ::
    "secret_reader \<Rightarrow> SecretKeyRef list \<Rightarrow> (go_error, string \<rightharpoonup> string) result" where
  "CollectSecretVersions get refs = collectVersions get {} Map.empty refs"

section \<open>The updates as map operations\<close>

text \<open>The contract: per signal type, a finite map from pipeline names to their generation and secret
  versions.\<close>

type_synonym coord_spec = "SignalType \<Rightarrow> string \<rightharpoonup> int \<times> (string \<rightharpoonup> string)"

definition slice_map :: "PipelineReference list \<Rightarrow> string \<rightharpoonup> int \<times> (string \<rightharpoonup> string)" where
  "slice_map refs = map_of (map (\<lambda>r. (pr_Name r, (pr_Generation r, pr_SecretVersions r))) refs)"

definition coord_abs :: "OTLPGatewayConfigMap \<Rightarrow> coord_spec" where
  "coord_abs config ty = slice_map (case getPipelineSlice config ty of None \<Rightarrow> [] | Some refs \<Rightarrow> refs)"

fun spec_op :: "coord_op \<Rightarrow> coord_spec \<Rightarrow> coord_spec" where
  "spec_op (AddReference ty input) m =
     m(ty := (m ty)(pr_Name input \<mapsto> (pr_Generation input, pr_SecretVersions input)))"
| "spec_op (RemoveReference ty name) m = m(ty := (m ty)(name := None))"

definition distinct_names :: "OTLPGatewayConfigMap \<Rightarrow> bool" where
  "distinct_names config \<longleftrightarrow>
     distinct (map pr_Name (ogc_Trace config)) \<and> distinct (map pr_Name (ogc_Log config)) \<and>
     distinct (map pr_Name (ogc_Metric config))"

lemma slice_map_upsert:
  "slice_map (upsertReference input refs) =
     (slice_map refs)(pr_Name input \<mapsto> (pr_Generation input, pr_SecretVersions input))"
  by (induction refs) (auto simp: slice_map_def fun_eq_iff)

lemma slice_map_remove:
  "slice_map (filter (\<lambda>ref. pr_Name ref \<noteq> name) refs) = (slice_map refs)(name := None)"
  by (induction refs) (auto simp: slice_map_def fun_eq_iff)

lemma names_upsert:
  "set (map pr_Name (upsertReference input refs)) = insert (pr_Name input) (set (map pr_Name refs))"
  by (induction refs) auto

lemma distinct_upsert:
  "distinct (map pr_Name refs) \<Longrightarrow> distinct (map pr_Name (upsertReference input refs))"
proof (induction refs)
  case (Cons r refs)
  then show ?case using names_upsert [of input refs] by auto
qed simp

lemma getPipelineSlice_set:
  "getPipelineSlice config ty = Some refs \<Longrightarrow>
    getPipelineSlice (setPipelineSlice config ty refs') ty' =
      (if ty' = ty then Some refs' else getPipelineSlice config ty')"
  by (auto simp: getPipelineSlice_def setPipelineSlice_def signal_type_defs split: if_splits)

lemma coord_abs_set:
  "getPipelineSlice config ty = Some refs \<Longrightarrow>
    coord_abs (setPipelineSlice config ty refs') = (coord_abs config)(ty := slice_map refs')"
  by (auto simp: coord_abs_def fun_eq_iff getPipelineSlice_set)

lemma coord_abs_get: "getPipelineSlice config ty = Some refs \<Longrightarrow> coord_abs config ty = slice_map refs"
  by (simp add: coord_abs_def)

text \<open>Each update function refines its map operation.\<close>

lemma updateFn_refines:
  "updateFn op config = Inr config' \<Longrightarrow> coord_abs config' = spec_op op (coord_abs config)"
  by (cases op)
    (auto simp: updateFn_def coord_abs_set coord_abs_get slice_map_upsert slice_map_remove
       split: option.splits)

lemma updateFn_distinct:
  assumes "updateFn op config = Inr config'" and "distinct_names config"
  shows "distinct_names config'"
  using assms
  by (cases op)
    (auto simp: updateFn_def distinct_names_def getPipelineSlice_def setPipelineSlice_def
       distinct_upsert distinct_map_filter split: option.splits if_splits)

section \<open>Interleaved updates\<close>

text \<open>What a reconciler writes, as a function of what its read returned.\<close>

definition coord_decide ::
    "yaml_codec \<Rightarrow> string \<Rightarrow> coord_op \<Rightarrow> (kube_error, ConfigMap) result \<Rightarrow> cm_write option" where
  "coord_decide ym namespace op r =
     (let cm = (case r of Inl e \<Rightarrow> None | Inr m \<Rightarrow> Some m)
      in if (case r of Inl e \<Rightarrow> \<not> IsNotFound e | Inr m \<Rightarrow> False) then None
         else case rbind (parseConfig ym cm) (updateFn op) of
             Inl e \<Rightarrow> None
           | Inr config' \<Rightarrow>
               (case ym_Marshal ym config' of
                  Inl e \<Rightarrow> None
                | Inr y \<Rightarrow>
                    (case cm of
                       None \<Rightarrow> Some (WCreate (newCoordinationConfigMap namespace y))
                     | Some m \<Rightarrow> Some (WUpdate (withYamlData m y)))))"

lemma applyConfigUpdate_write:
  "fst (applyConfigUpdate c ym namespace (updateFn op) s) =
     (case coord_decide ym namespace op (cc_Get c (coord_key namespace) s) of
        None \<Rightarrow> s
      | Some w \<Rightarrow> fst (exec_write c w s))"
  by (cases "cc_Get c (coord_key namespace) s")
    (auto simp: applyConfigUpdate_def getConfigMap_def coord_decide_def Let_def rbind_def
      createConfigMap_def updateConfigMap_def split: sum.split prod.split option.split)

text \<open>What is relied on of the encoder: decoding gives back what was encoded, and nothing is encoded as
  the empty text.\<close>

definition lawful_yaml :: "yaml_codec \<Rightarrow> bool" where
  "lawful_yaml ym \<longleftrightarrow>
     (\<forall>config y. ym_Marshal ym config = Inr y \<longrightarrow> y \<noteq> [] \<and> ym_Unmarshal ym y = Inr config)"

text \<open>Other writers leave this ConfigMap alone.\<close>

definition coord_env ::
    "('s \<Rightarrow> NamespacedName \<Rightarrow> ConfigMap option) \<Rightarrow> ('s \<Rightarrow> nat) \<Rightarrow> (nat \<Rightarrow> string) \<Rightarrow> string \<Rightarrow>
      's \<Rightarrow> 's \<Rightarrow> bool" where
  "coord_env store rvn fmt namespace s s' \<longleftrightarrow>
     rvn s \<le> rvn s' \<and>
     (\<forall>k cm. store s' k = Some cm \<longrightarrow>
        store s k = Some cm \<or> (\<exists>n. rvn s < n \<and> cm_RV cm = fmt n)) \<and>
     store s' (coord_key namespace) = store s (coord_key namespace)"

lemma coord_write_simps [simp]:
  "cm_key (newCoordinationConfigMap namespace y) = coord_key namespace"
  "cm_key (withYamlData m y) = cm_key m" "cm_RV (withYamlData m y) = cm_RV m"
  "y \<noteq> [] \<Longrightarrow> yamlDataOf (newCoordinationConfigMap namespace y) = Some y"
  "y \<noteq> [] \<Longrightarrow> yamlDataOf (withYamlData m y) = Some y"
  by (simp_all add: newCoordinationConfigMap_def withYamlData_def cm_key_def cm_RV_def coord_key_def
      yamlDataOf_def zeroObjectMeta_def)

lemma yamlDataOf_content: "same_content cm cm' \<Longrightarrow> yamlDataOf cm' = yamlDataOf cm"
  by (simp add: yamlDataOf_def same_content_def)

lemma coord_rmw:
  assumes "optimistic_api c store rvn fmt"
  shows "rmw c store rvn fmt (coord_key namespace) (\<lambda>p. coord_decide ym namespace (ops p))
    (coord_env store rvn fmt namespace)"
proof (intro rmw.intro assms rmw_axioms.intro)
  fix p r cm
  show "coord_decide ym namespace (ops p) r = Some (WUpdate cm) \<Longrightarrow>
      \<exists>cur. r = Inr cur \<and> cm_RV cm = cm_RV cur \<and> cm_key cm = cm_key cur"
    by (auto simp: coord_decide_def Let_def split: sum.splits option.splits if_splits)
  show "coord_decide ym namespace (ops p) r = Some (WCreate cm) \<Longrightarrow>
      \<exists>e. r = Inl e \<and> IsNotFound e \<and> cm_key cm = coord_key namespace"
    by (auto simp: coord_decide_def Let_def split: sum.splits option.splits if_splits)
qed (auto simp: coord_env_def)

text \<open>A write of a reconciler stores the update of what it read.\<close>

lemma coord_decide_effect:
  assumes "lawful_yaml ym" and "coord_decide ym namespace op r = Some w"
    and "w = WCreate cm \<or> w = WUpdate cm" and "same_content cm cm'"
  shows "\<exists>config config'.
    parseConfig ym (case r of Inl e \<Rightarrow> None | Inr m \<Rightarrow> Some m) = Inr config \<and>
    updateFn op config = Inr config' \<and> parseConfig ym (Some cm') = Inr config'"
proof -
  from assms(2) obtain config config' y where
    parsed: "parseConfig ym (case r of Inl e \<Rightarrow> None | Inr m \<Rightarrow> Some m) = Inr config"
      "updateFn op config = Inr config'" and y: "ym_Marshal ym config' = Inr y" and
    w: "w = (case r of Inl e \<Rightarrow> WCreate (newCoordinationConfigMap namespace y)
              | Inr m \<Rightarrow> WUpdate (withYamlData m y))"
    by (cases r) (auto simp: coord_decide_def Let_def rbind_def split: sum.splits if_splits)
  from assms(1) y have ly: "y \<noteq> []" "ym_Unmarshal ym y = Inr config'"
    by (auto simp: lawful_yaml_def)
  from w assms(3) ly(1) have "yamlDataOf cm = Some y" by (cases r) auto
  with ly yamlDataOf_content [OF assms(4)] have "parseConfig ym (Some cm') = Inr config'"
    by (simp add: parseConfig_def)
  with parsed show ?thesis by blast
qed

text \<open>The contents of the stored ConfigMap, and what one call does to them: it leaves them as they are, or
  performs its operation, which it does whenever it returns no error.\<close>

definition entries ::
    "yaml_codec \<Rightarrow> string \<Rightarrow> (NamespacedName \<Rightarrow> ConfigMap option) \<Rightarrow> coord_spec option" where
  "entries ym namespace objects =
     (case parseConfig ym (objects (coord_key namespace)) of Inl e \<Rightarrow> None | Inr config \<Rightarrow> Some (coord_abs config))"

lemma applyConfigUpdate_result:
  assumes "applyConfigUpdate c ym namespace (updateFn op) s = (s', err)"
  shows "(s' = s \<and> err \<noteq> None) \<or>
    (\<exists>w e. coord_decide ym namespace op (cc_Get c (coord_key namespace) s) = Some w \<and>
       exec_write c w s = (s', e) \<and> (err = None \<longleftrightarrow> e = None))"
  using assms
  by (cases "cc_Get c (coord_key namespace) s")
    (auto simp: applyConfigUpdate_def getConfigMap_def coord_decide_def Let_def rbind_def
      createConfigMap_def updateConfigMap_def split: sum.splits prod.splits option.splits if_splits)

lemma coord_op_effect:
  assumes api: "optimistic_api c store rvn fmt" and yaml: "lawful_yaml ym"
    and call: "applyConfigUpdate c ym namespace (updateFn op) s = (s', err)"
  shows "(err \<noteq> None \<and> store s' = store s) \<or>
    (\<exists>m. entries ym namespace (store s) = Some m \<and> entries ym namespace (store s') = Some (spec_op op m))"
  using applyConfigUpdate_result [OF call]
proof (elim disjE exE conjE)
  fix w e
  let ?r = "cc_Get c (coord_key namespace) s"
  assume decide: "coord_decide ym namespace op ?r = Some w" and run: "exec_write c w s = (s', e)"
    and err: "err = None \<longleftrightarrow> e = None"
  have read: "store s (coord_key namespace) = (case ?r of Inl e \<Rightarrow> None | Inr m \<Rightarrow> Some m)"
    if "w = WCreate cm \<or> w = WUpdate cm" for cm
    using decide optimistic_api.get_found [OF api] optimistic_api.get_missing [OF api]
    by (auto simp: coord_decide_def Let_def split: sum.splits if_splits)
  have applied: ?thesis
    if w: "w = WCreate cm \<or> w = WUpdate cm" and same: "same_content cm cm'"
      and st: "store s' (coord_key namespace) = Some cm'" for cm cm'
    using coord_decide_effect [OF yaml decide w same] read [OF w] st updateFn_refines
    by (auto simp: entries_def)
  show ?thesis
    by (rule rmw.write_cases [OF coord_rmw [OF api, where ops = "\<lambda>_::unit. op" and ym = ym and namespace = namespace]
          run decide])
      (use err applied in auto)
qed simp

text \<open>\<open>coord_state ym m0 ops l x\<close>: the stored object \<open>x\<close> holds the operations of the log \<open>l\<close>, applied in
  order to the contents \<open>m0\<close>.\<close>

definition coord_state ::
    "yaml_codec \<Rightarrow> coord_spec \<Rightarrow> ('p \<Rightarrow> coord_op) \<Rightarrow> 'p list \<Rightarrow> ConfigMap option \<Rightarrow> bool" where
  "coord_state ym m0 ops l x \<longleftrightarrow>
     (\<exists>config. parseConfig ym x = Inr config \<and> distinct_names config \<and>
        coord_abs config = foldl (\<lambda>m p. spec_op (ops p) m) m0 l)"

lemma coord_state_write:
  assumes "lawful_yaml ym" and "coord_decide ym namespace (ops p) r = Some w"
    and "w = WCreate cm \<or> w = WUpdate cm" and "same_content cm cm'"
    and "coord_state ym m0 ops l (case r of Inl e \<Rightarrow> None | Inr m \<Rightarrow> Some m)"
  shows "coord_state ym m0 ops (l @ [p]) (Some cm')"
  using coord_decide_effect [OF assms(1-4)] assms(5) updateFn_refines updateFn_distinct
  unfolding coord_state_def by fastforce

lemma ReadOTLPGatewayConfig_state:
  assumes "optimistic_api c store rvn fmt"
    and "coord_state ym m0 ops l (store s (coord_key namespace))"
    and "\<And>e. cc_Get c (coord_key namespace) s = Inl e \<Longrightarrow> IsNotFound e"
  shows "\<exists>config. ReadOTLPGatewayConfig c ym namespace s = Inr config \<and> distinct_names config \<and>
    coord_abs config = foldl (\<lambda>m p. spec_op (ops p) m) m0 l"
proof (cases "cc_Get c (coord_key namespace) s")
  case (Inl e)
  with assms(3) have nf: "IsNotFound e" by blast
  with optimistic_api.get_missing [OF assms(1) Inl] assms(2) Inl show ?thesis
    by (auto simp: coord_state_def parseConfig_def ReadOTLPGatewayConfig_def)
next
  case (Inr cm)
  with optimistic_api.get_found [OF assms(1) Inr] assms(2) show ?thesis
    by (auto simp: coord_state_def parseConfig_def ReadOTLPGatewayConfig_def
        split: option.splits sum.splits)
qed

section \<open>Properties\<close>

text \<open>C2: no update of the coordination ConfigMap is lost.  Any number of reconcilers add and remove
  references concurrently, reading possibly stale versions; in every reachable state the ConfigMap holds
  exactly the operations whose writes were applied, one after the other, as operations on maps from
  names to references, and no name occurs twice.\<close>

theorem coordination_no_lost_update:
  fixes ops :: "'p \<Rightarrow> coord_op"
  assumes "optimistic_api c store rvn fmt" and "lawful_yaml ym"
    and "parseConfig ym (store s0 (coord_key namespace)) = Inr config0" and "distinct_names config0"
    and "rmw_reach c rvn (coord_key namespace) (\<lambda>p. coord_decide ym namespace (ops p))
      (coord_env store rvn fmt namespace) s0 st"
    and "\<And>e. cc_Get c (coord_key namespace) (rw_Server st) = Inl e \<Longrightarrow> IsNotFound e"
  shows "\<exists>config. ReadOTLPGatewayConfig c ym namespace (rw_Server st) = Inr config \<and>
    distinct_names config \<and>
    coord_abs config = foldl (\<lambda>m p. spec_op (ops p) m) (coord_abs config0) (rw_Log st)"
proof (rule ReadOTLPGatewayConfig_state [OF assms(1) _ assms(6)])
  show "coord_state ym (coord_abs config0) ops (rw_Log st)
      (store (rw_Server st) (coord_key namespace))"
    using assms(5)
  proof (rule rmw.rmw_invariant [OF coord_rmw [OF assms(1)]])
    show "coord_state ym (coord_abs config0) ops [] (store s0 (coord_key namespace))"
      using assms(3,4) by (simp add: coord_state_def)
  next
    fix l p e cm cm'
    assume "coord_state ym (coord_abs config0) ops l None"
      "coord_decide ym namespace (ops p) (Inl e) = Some (WCreate cm)" "same_content cm cm'"
    then show "coord_state ym (coord_abs config0) ops (l @ [p]) (Some cm')"
      using coord_state_write [OF assms(2), of namespace ops p "Inl e"] by fastforce
  next
    fix l p cur cm cm'
    assume "coord_state ym (coord_abs config0) ops l (Some cur)"
      "coord_decide ym namespace (ops p) (Inr cur) = Some (WUpdate cm)" "same_content cm cm'"
    then show "coord_state ym (coord_abs config0) ops (l @ [p]) (Some cm')"
      using coord_state_write [OF assms(2), of namespace ops p "Inr cur"] by fastforce
  next
    fix l s s'
    assume "coord_state ym (coord_abs config0) ops l (store s (coord_key namespace))"
      "coord_env store rvn fmt namespace s s'"
    then show "coord_state ym (coord_abs config0) ops l (store s' (coord_key namespace))"
      by (simp add: coord_env_def)
  qed
qed

interpretation coord: rmw mem_client mem_store length rv_fmt "coord_key namespace"
  "\<lambda>p. coord_decide ym namespace (ops p)" "coord_env mem_store length rv_fmt namespace"
  for namespace ym ops
  by (rule coord_rmw [OF mem.optimistic_api_axioms])

text \<open>An instance: two reconcilers add the same reference; the second writes on a stale read and is
  refused.  The encoder knows the text of the one configuration they write.\<close>

definition sampleReference :: PipelineReference where
  "sampleReference = \<lparr>pr_Name = ''backend'', pr_Generation = 1, pr_SecretVersions = Map.empty\<rparr>"

definition sampleConfig :: OTLPGatewayConfigMap where
  "sampleConfig = emptyConfig\<lparr>ogc_Trace := [sampleReference]\<rparr>"

definition sampleYaml :: yaml_codec where
  "sampleYaml =
     \<lparr>ym_Marshal = (\<lambda>c. if c = sampleConfig then Inr ''tracePipelines: backend'' else Inl ''error''),
      ym_Unmarshal =
        (\<lambda>y. if y = ''tracePipelines: backend'' then Inr sampleConfig else Inl ''error'')\<rparr>"

definition sampleOps :: "bool \<Rightarrow> coord_op" where
  "sampleOps p = AddReference SignalTypeTrace sampleReference"

abbreviation sampleCM :: ConfigMap where
  "sampleCM \<equiv> newCoordinationConfigMap ''kyma-system'' ''tracePipelines: backend''"

abbreviation sample_coord_reach :: "(mem_event list, bool) rmw_state \<Rightarrow> bool" where
  "sample_coord_reach \<equiv> rmw_reach mem_client length (coord_key ''kyma-system'')
     (\<lambda>p. coord_decide sampleYaml ''kyma-system'' (sampleOps p))
     (coord_env mem_store length rv_fmt ''kyma-system'') []"

lemma sampleYaml_lawful: "lawful_yaml sampleYaml"
  by (auto simp: lawful_yaml_def sampleYaml_def split: if_splits)

lemma sample_coord_decide:
  "coord_decide sampleYaml ''kyma-system'' (sampleOps p) (mem_Get (coord_key ''kyma-system'') []) =
     Some (WCreate sampleCM)"
  by (simp add: coord_decide_def mem_Get_def IsNotFound_def parseConfig_def sampleOps_def updateFn_def
      getPipelineSlice_def setPipelineSlice_def emptyConfig_def sampleYaml_def sampleConfig_def)

lemma sample_coord_reached:
  "sample_coord_reach \<lparr>rw_Server = [Put sampleCM], rw_Past = [[Put sampleCM], []],
     rw_Pending = (\<lambda>_. None), rw_Log = [True]\<rparr>"
proof -
  let ?P = "Some (WCreate sampleCM)"
  let ?step = "rmw_step mem_client length (coord_key ''kyma-system'')
     (\<lambda>p. coord_decide sampleYaml ''kyma-system'' (sampleOps p))
     (coord_env mem_store length rv_fmt ''kyma-system'')"
  let ?st = "\<lambda>s past pend l. \<lparr>rw_Server = s, rw_Past = past, rw_Pending = pend, rw_Log = l\<rparr>"
  have read: "?step (?st s past pend l) (?st s past (pend(p := ?P)) l)" if "[] \<in> set (s # past)"
    for s past pend l p
    using rmw_read [of "[]" "?st s past pend l" mem_client length "coord_key ''kyma-system''"
        "\<lambda>p. coord_decide sampleYaml ''kyma-system'' (sampleOps p)" _ p] that
    by (simp add: sample_coord_decide)
  have "sample_coord_reach (?st [] [] (\<lambda>_. None) [])" by (rule rmw_init)
  then have "sample_coord_reach (?st [] [] ((\<lambda>_. None)(True := ?P)) [])"
    by (rule rmw_next) (rule read, simp)
  then have "sample_coord_reach (?st [] [] ((\<lambda>_. None)(True := ?P, False := ?P)) [])"
    by (rule rmw_next) (rule read, simp)
  moreover have "mem_Create sampleCM [] = ([Put sampleCM], None)"
    by (simp add: mem_Create_def)
  then have "?step (?st [] [] ((\<lambda>_. None)(True := ?P, False := ?P)) [])
      (?st [Put sampleCM] [[]] ((\<lambda>_. None)(False := ?P)) [True])"
    using rmw_write [of "?st [] [] ((\<lambda>_. None)(True := ?P, False := ?P)) []" True "WCreate sampleCM"
        mem_client "[Put sampleCM]" None length]
    by (simp add: fun_upd_twist)
  ultimately have "sample_coord_reach (?st [Put sampleCM] [[]] ((\<lambda>_. None)(False := ?P)) [True])"
    by (rule rmw_next)
  moreover have "?step (?st [Put sampleCM] [[]] ((\<lambda>_. None)(False := ?P)) [True])
      (?st [Put sampleCM] [[Put sampleCM], []] (\<lambda>_. None) [True])"
    using rmw_write [of "?st [Put sampleCM] [[]] ((\<lambda>_. None)(False := ?P)) [True]" False
        "WCreate sampleCM" mem_client "[Put sampleCM]"
        "Some \<lparr>ke_Reason = ReasonAlreadyExists, ke_Message = ''already exists''\<rparr>" length]
    by (simp add: mem_Create_def)
  ultimately show ?thesis by (rule rmw_next)
qed

theorem coordination_no_lost_update_witness:
  "\<exists>config. ReadOTLPGatewayConfig mem_client sampleYaml ''kyma-system'' [Put sampleCM] = Inr config \<and>
    distinct_names config \<and>
    coord_abs config = spec_op (AddReference SignalTypeTrace sampleReference) (coord_abs emptyConfig)"
proof -
  have "parseConfig sampleYaml (mem_store [] (coord_key ''kyma-system'')) = Inr emptyConfig"
    by (simp add: parseConfig_def)
  moreover have "distinct_names emptyConfig" by (simp add: distinct_names_def emptyConfig_def)
  ultimately show ?thesis
    using coordination_no_lost_update [OF mem.optimistic_api_axioms sampleYaml_lawful _ _
        sample_coord_reached]
    by (simp add: mem_Get_def sampleOps_def)
qed

subsection \<open>Secret versions\<close>

definition ref_key :: "SecretKeyRef \<Rightarrow> NamespacedName" where
  "ref_key ref = \<lparr>nn_Namespace = skr_Namespace ref, nn_Name = skr_Name ref\<rparr>"

definition map_key :: "NamespacedName \<Rightarrow> string" where
  "map_key k = nn_Namespace k @ ''/'' @ nn_Name k"

definition slash_free :: "NamespacedName \<Rightarrow> bool" where
  "slash_free k \<longleftrightarrow> CHR ''/'' \<notin> set (nn_Namespace k)"

lemma map_key_inj:
  assumes "slash_free j" "slash_free k" "map_key j = map_key k"
  shows "j = k"
proof -
  have "takeWhile (\<lambda>c. c \<noteq> CHR ''/'') (map_key i) = nn_Namespace i" if "slash_free i" for i
    using that by (subst map_key_def, subst takeWhile_append2) (auto simp: slash_free_def)
  with assms have "nn_Namespace j = nn_Namespace k" by metis
  with assms(3) show ?thesis by (simp add: map_key_def)
qed

lemma collectVersions_spec:
  assumes "collectVersions get seen versions refs = Inr m"
    and "\<forall>ref\<in>set refs. slash_free (ref_key ref)" and "slash_free k"
  shows "m (map_key k) =
    (if k \<in> ref_key ` set refs - seen
     then (case get k of Inl e \<Rightarrow> versions (map_key k)
           | Inr sec \<Rightarrow> Some (om_ResourceVersion (sec_ObjectMeta sec)))
     else versions (map_key k))"
  using assms(1,2)
proof (induction refs arbitrary: seen versions)
  case (Cons ref refs)
  have fold: "\<lparr>nn_Namespace = skr_Namespace ref, nn_Name = skr_Name ref\<rparr> = ref_key ref"
    "skr_Namespace ref @ CHR ''/'' # skr_Name ref = map_key (ref_key ref)"
    by (simp_all add: ref_key_def map_key_def)
  have neq: "map_key k \<noteq> map_key (ref_key ref)" if "k \<noteq> ref_key ref"
    using map_key_inj [OF assms(3)] that Cons.prems(2) by auto
  show ?case
    using Cons neq
    by (cases "k = ref_key ref")
      (auto simp: fold Let_def split: if_splits sum.splits)
qed simp

lemma collectVersions_error:
  "(\<exists>e. collectVersions get seen versions refs = Inl e) \<longleftrightarrow>
     (\<exists>ref\<in>set refs. ref_key ref \<notin> seen \<and> (\<exists>e. get (ref_key ref) = Inl e \<and> \<not> IsNotFound e))"
proof (induction refs arbitrary: seen versions)
  case (Cons ref refs)
  then show ?case
    by (auto simp: Let_def simp flip: ref_key_def split: sum.splits) fastforce+
qed simp

text \<open>\<open>CollectSecretVersions\<close> fails exactly when a read fails with something else than not found;
  otherwise the map has, for every referenced secret, its resource version if it exists and no entry if it
  does not, and no other entry.  (Namespaces have no slash.)\<close>

lemma CollectSecretVersions_exact:
  assumes "\<forall>ref\<in>set refs. slash_free (ref_key ref)"
  shows "((\<exists>e. CollectSecretVersions get refs = Inl e) \<longleftrightarrow>
      (\<exists>ref\<in>set refs. \<exists>e. get (ref_key ref) = Inl e \<and> \<not> IsNotFound e)) \<and>
    (\<forall>m k. CollectSecretVersions get refs = Inr m \<longrightarrow> slash_free k \<longrightarrow>
       m (map_key k) =
         (if k \<in> ref_key ` set refs
          then (case get k of Inl e \<Rightarrow> None
                | Inr sec \<Rightarrow> Some (om_ResourceVersion (sec_ObjectMeta sec)))
          else None))"
  using collectVersions_error [of get "{}" Map.empty refs]
    collectVersions_spec [OF _ assms, of get "{}" Map.empty]
  by (simp add: CollectSecretVersions_def split: sum.split)

definition sampleSecret :: Secret where
  "sampleSecret = \<lparr>sec_ObjectMeta = zeroObjectMeta\<lparr>om_ResourceVersion := ''7''\<rparr>, sec_Data = Map.empty\<rparr>"

lemma CollectSecretVersions_exact_witness:
  "\<exists>m. CollectSecretVersions (\<lambda>_. Inr sampleSecret)
      [\<lparr>skr_Name = ''a'', skr_Namespace = ''b'', skr_Key = ''k''\<rparr>] = Inr m \<and> m ''b/a'' = Some ''7''"
proof -
  let ?ref = "\<lparr>skr_Name = ''a'', skr_Namespace = ''b'', skr_Key = ''k''\<rparr>"
  let ?call = "CollectSecretVersions (\<lambda>_. Inr sampleSecret) [?ref]"
  have free: "\<forall>ref\<in>set [?ref]. slash_free (ref_key ref)"
    by (simp add: slash_free_def ref_key_def)
  note exact = CollectSecretVersions_exact [OF free, of "\<lambda>_. Inr sampleSecret"]
  from exact obtain m where m: "?call = Inr m" by (cases ?call) auto
  with exact free have "m (map_key (ref_key ?ref)) = Some ''7''"
    by (simp add: sampleSecret_def)
  with m show ?thesis by (simp add: map_key_def ref_key_def)
qed

end
