(* ===== verification/PipelineStatus.thy ===== *)
theory PipelineStatus
  imports WorkloadStatus SelfMonitor CoordinationConfig
begin

text \<open>
  The status of the pipelines: \<open>internal/reconciler/commonstatus\<close> and the \<open>status.go\<close> files of the metric,
  trace, OTel log and Fluent Bit reconcilers.  A reconciler's fields the status code uses are the record
  \<open>status_env\<close>; its nil interfaces are \<open>None\<close>.  \<open>meta.SetStatusCondition\<close> and \<open>meta.RemoveStatusCondition\<close>
  are fields of it as well, and \<open>lawful_conditions\<close> is what their documentation promises.
\<close>

record 'p status_env =
  se_validate :: "'p \<Rightarrow> go_error option go"
  se_gatewayProber :: "NamespacedName \<Rightarrow> go_error option go"
  se_agentProber :: "NamespacedName \<Rightarrow> go_error option go"
  se_targetNamespace :: string
  se_gatewayFlowHealthProber :: "(string \<Rightarrow> (go_error, OTelGatewayProbeResult) result) option"
  se_agentFlowHealthProber :: "(string \<Rightarrow> (go_error, OTelAgentProbeResult) result) option"
  se_SetStatusCondition :: "Condition list \<Rightarrow> Condition \<Rightarrow> Condition list"
  se_RemoveStatusCondition :: "Condition list \<Rightarrow> string \<Rightarrow> Condition list"

definition findCondition :: "string \<Rightarrow> Condition list \<Rightarrow> Condition option" where
  "findCondition t cs = find (\<lambda>c. c_Type c = t) cs"

definition lawful_conditions ::
    "(Condition list \<Rightarrow> Condition \<Rightarrow> Condition list) \<Rightarrow> (Condition list \<Rightarrow> string \<Rightarrow> Condition list) \<Rightarrow> bool" where
  "lawful_conditions setc remc \<longleftrightarrow>
     (\<forall>cs c t. findCondition t (setc cs c) = (if t = c_Type c then Some c else findCondition t cs)) \<and>
     (\<forall>cs t u. findCondition t (remc cs u) = (if t = u then None else findCondition t cs))"

text \<open>\<open>errors.Join(allErrors, err)\<close> with an error that is not nil.\<close>

definition errors_Join :: "go_error option \<Rightarrow> go_error \<Rightarrow> go_error option" where
  "errors_Join allErrors err = Some (Joined (opt_list allErrors @ [err]))"

section \<open>Health of the gateway and the agents\<close>

definition condition :: "string \<Rightarrow> ConditionStatus \<Rightarrow> string \<Rightarrow> string \<Rightarrow> Condition" where
  "condition t status reason msg =
     \<lparr>c_Type = t, c_Status = status, c_ObservedGeneration = 0, c_Reason = reason, c_Message = msg\<rparr>"

text \<open>The message by signal type; the default is the message for traces (gateway) or for Fluent Bit (agent).\<close>

definition gatewayMessage :: "SignalType \<Rightarrow> string \<Rightarrow> string" where
  "gatewayMessage signalType reason =
     (if signalType = SignalTypeMetric then MessageForMetricPipeline reason
      else if signalType = SignalTypeLog then MessageForOtelLogPipeline reason
      else MessageForTracePipeline reason)"

definition agentMessage :: "SignalType \<Rightarrow> string \<Rightarrow> string" where
  "agentMessage signalType reason =
     (if signalType = SignalTypeMetric then MessageForMetricPipeline reason
      else if signalType = SignalTypeLog then MessageForOtelLogPipeline reason
      else MessageForFluentBitLogPipeline reason)"

text \<open>The part the two functions share: the status, reason and message for the result of a readiness
  probe.\<close>

definition probedCondition ::
    "string \<Rightarrow> string \<Rightarrow> string \<Rightarrow> string \<Rightarrow> go_error option go \<Rightarrow> Condition go" where
  "probedCondition t readyReason readyMsg notReadyReason probe =
     gbind probe (\<lambda>err. case err of
         None \<Rightarrow> Ret (condition t ConditionTrue readyReason readyMsg)
       | Some e \<Rightarrow>
           (if \<not> IsRolloutInProgressError e
            then gbind (ErrorToMessage_Convert e) (\<lambda>msg.
                   Ret (condition t ConditionFalse notReadyReason msg))
            else gbind (ErrorToMessage_Convert e) (\<lambda>msg.
                   Ret (condition t ConditionTrue ReasonRolloutInProgress msg))))"

definition GetGatewayHealthyCondition ::
    "(NamespacedName \<Rightarrow> go_error option go) \<Rightarrow> NamespacedName \<Rightarrow> SignalType \<Rightarrow> ConditionStatus \<Rightarrow> Condition go" where
  "GetGatewayHealthyCondition prober namespacedName signalType configGeneratedStatus =
     (if configGeneratedStatus = ConditionFalse
      then Ret (condition TypeGatewayHealthy ConditionFalse ReasonGatewayConfigurationNotGenerated
             (gatewayMessage signalType ReasonGatewayConfigurationNotGenerated))
      else probedCondition TypeGatewayHealthy ReasonGatewayReady (gatewayMessage signalType ReasonGatewayReady)
             ReasonGatewayNotReady (prober namespacedName))"

definition GetAgentHealthyCondition ::
    "(NamespacedName \<Rightarrow> go_error option go) \<Rightarrow> NamespacedName \<Rightarrow> SignalType \<Rightarrow> Condition go" where
  "GetAgentHealthyCondition prober namespacedName signalType =
     probedCondition TypeAgentHealthy ReasonAgentReady (agentMessage signalType ReasonAgentReady)
       ReasonAgentNotReady (prober namespacedName)"

section \<open>The configuration condition\<close>

text \<open>\<open>evaluateConfigGeneratedCondition\<close> of the three OTLP reconcilers.  They differ in the messages, and
  only the one for metrics knows \<open>InvalidAdditionalMetricError\<close>.\<close>

definition evaluateConfigGenerated ::
    "(string \<Rightarrow> string) \<Rightarrow> bool \<Rightarrow> go_error option go \<Rightarrow> (ConditionStatus \<times> string \<times> string) go" where
  "evaluateConfigGenerated messageFor additional validate =
     gbind validate (\<lambda>result. case result of
         None \<Rightarrow> Ret (ConditionTrue, ReasonGatewayConfigured, messageFor ReasonGatewayConfigured)
       | Some err \<Rightarrow>
           (if errors_Is err ErrMaxPipelinesExceeded
            then gbind (ConvertErrToMsg err) (\<lambda>msg. Ret (ConditionFalse, ReasonMaxPipelinesExceeded, msg))
            else if errors_Is err ErrSecretRefNotFound \<or> errors_Is err ErrSecretKeyNotFound \<or>
                 errors_Is err ErrSecretRefMissingFields
            then gbind (ConvertErrToMsg err) (\<lambda>msg. Ret (ConditionFalse, ReasonReferencedSecretMissing, msg))
            else if IsEndpointInvalidError err
            then Ret (ConditionFalse, ReasonEndpointInvalid,
                   Sprintf (messageFor ReasonEndpointInvalid) [err_msg err])
            else if IsInvalidOTTLSpecError err
            then Ret (ConditionFalse, ReasonOTTLSpecInvalid,
                   Sprintf (messageFor ReasonOTTLSpecInvalid) [err_msg err])
            else if additional \<and> IsInvalidAdditionalMetricError err
            then gbind (ConvertErrToMsg err) (\<lambda>msg.
                   Ret (ConditionFalse, ReasonRuntimeAdditionalMetricInvalid, msg))
            else if asAPIRequestFailed err \<noteq> None
            then Ret (ConditionFalse, ReasonValidationFailed, messageFor ReasonValidationFailed)
            else Ret (EvaluateTLSCertCondition err)))"

definition metric_evaluateConfigGeneratedCondition ::
    "MetricPipeline status_env \<Rightarrow> MetricPipeline \<Rightarrow> (ConditionStatus \<times> string \<times> string) go" where
  "metric_evaluateConfigGeneratedCondition r pipeline =
     evaluateConfigGenerated MessageForMetricPipeline True (se_validate r pipeline)"

definition trace_evaluateConfigGeneratedCondition ::
    "TracePipeline status_env \<Rightarrow> TracePipeline \<Rightarrow> (ConditionStatus \<times> string \<times> string) go" where
  "trace_evaluateConfigGeneratedCondition r pipeline =
     evaluateConfigGenerated MessageForTracePipeline False (se_validate r pipeline)"

definition logotel_evaluateConfigGeneratedCondition ::
    "LogPipeline status_env \<Rightarrow> LogPipeline \<Rightarrow> (ConditionStatus \<times> string \<times> string) go" where
  "logotel_evaluateConfigGeneratedCondition r pipeline =
     evaluateConfigGenerated MessageForOtelLogPipeline False (se_validate r pipeline)"

section \<open>The flow condition\<close>

definition metric_flowHealthReasonFor :: "OTelGatewayProbeResult \<Rightarrow> OTelAgentProbeResult \<Rightarrow> string" where
  "metric_flowHealthReasonFor gatewayProbeResult agentProbeResult =
     (if pr_AllDataDropped gatewayProbeResult then ReasonSelfMonGatewayAllDataDropped
      else if pr_SomeDataDropped gatewayProbeResult then ReasonSelfMonGatewaySomeDataDropped
      else if pr_Throttling gatewayProbeResult then ReasonSelfMonGatewayThrottling
      else if pr_AllDataDropped agentProbeResult then ReasonSelfMonAgentAllDataDropped
      else if pr_SomeDataDropped agentProbeResult then ReasonSelfMonAgentSomeDataDropped
      else ReasonSelfMonFlowHealthy)"

definition gatewayFlowHealthReasonFor :: "OTelGatewayProbeResult \<Rightarrow> string" where
  "gatewayFlowHealthReasonFor probeResult =
     (if pr_AllDataDropped probeResult then ReasonSelfMonGatewayAllDataDropped
      else if pr_SomeDataDropped probeResult then ReasonSelfMonGatewaySomeDataDropped
      else if pr_Throttling probeResult then ReasonSelfMonGatewayThrottling
      else ReasonSelfMonFlowHealthy)"

definition agentFlowHealthReasonFor :: "OTelAgentProbeResult \<Rightarrow> string" where
  "agentFlowHealthReasonFor agentProbeResult =
     (if pr_AllDataDropped agentProbeResult then ReasonSelfMonAgentAllDataDropped
      else if pr_SomeDataDropped agentProbeResult then ReasonSelfMonAgentSomeDataDropped
      else ReasonSelfMonFlowHealthy)"

text \<open>The first reason of the list that is one of the given ones: one loop of
  \<open>combineFlowHealthReasons\<close>.\<close>

definition firstOf :: "string list \<Rightarrow> string list \<Rightarrow> string option" where
  "firstOf wanted reasons = find (\<lambda>reason. reason \<in> set wanted) reasons"

definition combineFlowHealthReasons :: "string \<Rightarrow> string \<Rightarrow> string" where
  "combineFlowHealthReasons agentReason gatewayReason =
     (let reasons = [agentReason, gatewayReason]
      in deref
          (orelse (firstOf [ReasonSelfMonAgentAllDataDropped, ReasonSelfMonGatewayAllDataDropped] reasons)
          (orelse (firstOf [ReasonSelfMonAgentSomeDataDropped, ReasonSelfMonGatewaySomeDataDropped] reasons)
          (orelse (firstOf [ReasonSelfMonAgentBufferFillingUp] reasons)
            (firstOf [ReasonSelfMonGatewayThrottling] reasons))))
          ReasonSelfMonFlowHealthy)"

text \<open>Status, reason and error of \<open>evaluateFlowHealthCondition\<close>, given the status of the configuration
  condition.\<close>

type_synonym flow_result = "ConditionStatus \<times> string \<times> go_error option"

definition flowStatus :: "string \<Rightarrow> flow_result" where
  "flowStatus reason =
     (if reason = ReasonSelfMonFlowHealthy then (ConditionTrue, reason, None)
      else (ConditionFalse, reason, None))"

definition metric_evaluateFlowHealthCondition ::
    "MetricPipeline status_env \<Rightarrow> MetricPipeline \<Rightarrow> flow_result go" where
  "metric_evaluateFlowHealthCondition r pipeline =
     gbind (metric_evaluateConfigGeneratedCondition r pipeline) (\<lambda>(configGeneratedStatus, _, _).
       if configGeneratedStatus = ConditionFalse
       then Ret (ConditionFalse, ReasonSelfMonConfigNotGenerated, None)
       else
         gderef (se_gatewayFlowHealthProber r) (\<lambda>gatewayProbe.
           case gatewayProbe (om_Name (mp_ObjectMeta pipeline)) of
             Inl err \<Rightarrow> Ret (ConditionUnknown, ReasonSelfMonGatewayProbingFailed,
               Some (Errorf ''failed to probe gateway flow health: '' err []))
           | Inr gatewayProbeResult \<Rightarrow>
               gderef (se_agentFlowHealthProber r) (\<lambda>agentProbe.
                 case agentProbe (om_Name (mp_ObjectMeta pipeline)) of
                   Inl err \<Rightarrow> Ret (ConditionUnknown, ReasonSelfMonAgentProbingFailed,
                     Some (Errorf ''failed to probe agent flow health: '' err []))
                 | Inr agentProbeResult \<Rightarrow>
                     Ret (flowStatus (metric_flowHealthReasonFor gatewayProbeResult agentProbeResult)))))"

definition trace_evaluateFlowHealthCondition ::
    "TracePipeline status_env \<Rightarrow> TracePipeline \<Rightarrow> flow_result go" where
  "trace_evaluateFlowHealthCondition r pipeline =
     gbind (trace_evaluateConfigGeneratedCondition r pipeline) (\<lambda>(configGeneratedStatus, _, _).
       if configGeneratedStatus = ConditionFalse
       then Ret (ConditionFalse, ReasonSelfMonConfigNotGenerated, None)
       else
         gderef (se_gatewayFlowHealthProber r) (\<lambda>probe.
           case probe (om_Name (tp_ObjectMeta pipeline)) of
             Inl err \<Rightarrow> Ret (ConditionUnknown, ReasonSelfMonGatewayProbingFailed,
               Some (Errorf ''failed to probe flow health: '' err []))
           | Inr probeResult \<Rightarrow>
               (let reason = gatewayFlowHealthReasonFor probeResult
                in if pr_Healthy probeResult then Ret (ConditionTrue, reason, None)
                   else Ret (ConditionFalse, reason, None))))"

definition requiresGatewayProbing :: "LogPipeline \<Rightarrow> bool" where
  "requiresGatewayProbing pipeline \<longleftrightarrow> li_OTLP (ls_Input (lp_Spec pipeline)) \<noteq> None"

definition requiresAgentProbing :: "LogPipeline \<Rightarrow> bool" where
  "requiresAgentProbing pipeline \<longleftrightarrow> li_Runtime (ls_Input (lp_Spec pipeline)) \<noteq> None"

definition logotel_evaluateFlowHealthCondition ::
    "LogPipeline status_env \<Rightarrow> LogPipeline \<Rightarrow> flow_result go" where
  "logotel_evaluateFlowHealthCondition r pipeline =
     gbind (logotel_evaluateConfigGeneratedCondition r pipeline) (\<lambda>(configGeneratedStatus, _, _).
       if configGeneratedStatus = ConditionFalse
       then Ret (ConditionFalse, ReasonSelfMonConfigNotGenerated, None)
       else
         let name = om_Name (lp_ObjectMeta pipeline);
             agentReason =
               (case se_agentFlowHealthProber r of
                  Some probe \<Rightarrow>
                    (if requiresAgentProbing pipeline
                     then map_sum id agentFlowHealthReasonFor (probe name) else Inr [])
                | None \<Rightarrow> Inr []);
             gatewayReason =
               (case se_gatewayFlowHealthProber r of
                  Some probe \<Rightarrow>
                    (if requiresGatewayProbing pipeline
                     then map_sum id gatewayFlowHealthReasonFor (probe name) else Inr [])
                | None \<Rightarrow> Inr [])
         in case agentReason of
              Inl err \<Rightarrow> Ret (ConditionUnknown, ReasonSelfMonAgentProbingFailed,
                Some (Errorf ''failed to probe agent flow health: '' err []))
            | Inr agent \<Rightarrow>
                (case gatewayReason of
                   Inl err \<Rightarrow> Ret (ConditionUnknown, ReasonSelfMonGatewayProbingFailed,
                     Some (Errorf ''failed to probe gateway flow health: '' err []))
                 | Inr gateway \<Rightarrow> Ret (flowStatus (combineFlowHealthReasons agent gateway))))"

section \<open>Updating the status\<close>

definition observed :: "int \<Rightarrow> Condition \<Rightarrow> Condition" where
  "observed generation c = c\<lparr>c_ObservedGeneration := generation\<rparr>"

definition gatewayName :: "'p status_env \<Rightarrow> NamespacedName" where
  "gatewayName r = \<lparr>nn_Namespace = se_targetNamespace r, nn_Name = OTLPGateway\<rparr>"

text \<open>The frame of \<open>updateStatus\<close>: the pipeline is read, its conditions are computed (with an error of the
  flow probe) and written.  The result has the objects passed to \<open>Status().Update\<close>, in order, and the
  error.\<close>

definition updateStatusWith ::
    "string \<Rightarrow> ('p \<Rightarrow> ObjectMeta) \<Rightarrow> (string \<Rightarrow> (kube_error, 'p) result) \<Rightarrow> ('p \<Rightarrow> (kube_error, 'p) result) \<Rightarrow>
     ('p \<Rightarrow> ('p \<times> go_error option) go) \<Rightarrow> string \<Rightarrow> ('p list \<times> go_error option) go" where
  "updateStatusWith kind metaOf get statusUpdate setConditions pipelineName =
     (case get pipelineName of
        Inl err \<Rightarrow>
          (if IsNotFound err then Ret ([], None)
           else Ret ([], Some (Errorf (''failed to get '' @ kind @ '': '') (KubeError err) [])))
      | Inr pipeline \<Rightarrow>
          (if om_DeletionTimestamp (metaOf pipeline) \<noteq> None then Ret ([], None)
           else gbind (setConditions pipeline) (\<lambda>(pipeline', flowErr).
             let allErrors = (case flowErr of None \<Rightarrow> None | Some e \<Rightarrow> errors_Join None e)
             in case statusUpdate pipeline' of
                  Inl err \<Rightarrow> Ret ([pipeline'],
                    errors_Join allErrors (Errorf (''failed to update '' @ kind @ '' status: '') (KubeError err) []))
                | Inr _ \<Rightarrow> Ret ([pipeline'], allErrors))))"

text \<open>The setters of a metric pipeline.  One status update calls the validator several times; the model
  takes its result to be the same each time, that is, the cluster does not change during the update.\<close>

definition metric_put :: "MetricPipeline status_env \<Rightarrow> Condition \<Rightarrow> MetricPipeline \<Rightarrow> MetricPipeline" where
  "metric_put r c pipeline =
     pipeline\<lparr>mp_Conditions := se_SetStatusCondition r (mp_Conditions pipeline)
       (observed (om_Generation (mp_ObjectMeta pipeline)) c)\<rparr>"

definition metric_setAgentHealthyCondition ::
    "MetricPipeline status_env \<Rightarrow> MetricPipeline \<Rightarrow> MetricPipeline go" where
  "metric_setAgentHealthyCondition r pipeline =
     gbind
       (if isMetricAgentRequired pipeline
        then GetAgentHealthyCondition (se_agentProber r)
               \<lparr>nn_Namespace = se_targetNamespace r, nn_Name = MetricAgent\<rparr> SignalTypeMetric
        else Ret (condition TypeAgentHealthy ConditionTrue ReasonMetricAgentNotRequired
               (MessageForMetricPipeline ReasonMetricAgentNotRequired)))
       (\<lambda>c. Ret (metric_put r c pipeline))"

definition metric_setGatewayHealthyCondition ::
    "MetricPipeline status_env \<Rightarrow> MetricPipeline \<Rightarrow> MetricPipeline go" where
  "metric_setGatewayHealthyCondition r pipeline =
     gbind (metric_evaluateConfigGeneratedCondition r pipeline) (\<lambda>(configStatus, _, _).
     gbind (GetGatewayHealthyCondition (se_gatewayProber r) (gatewayName r) SignalTypeMetric configStatus)
       (\<lambda>c. Ret (metric_put r c pipeline)))"

definition metric_setGatewayConfigGeneratedCondition ::
    "MetricPipeline status_env \<Rightarrow> MetricPipeline \<Rightarrow> MetricPipeline go" where
  "metric_setGatewayConfigGeneratedCondition r pipeline =
     gbind (metric_evaluateConfigGeneratedCondition r pipeline) (\<lambda>(status, reason, msg).
       Ret (metric_put r (condition TypeConfigurationGenerated status reason msg) pipeline))"

definition metric_setFlowHealthCondition ::
    "MetricPipeline status_env \<Rightarrow> MetricPipeline \<Rightarrow> (MetricPipeline \<times> go_error option) go" where
  "metric_setFlowHealthCondition r pipeline =
     gbind (metric_evaluateFlowHealthCondition r pipeline) (\<lambda>(status, reason, err).
       Ret (metric_put r (condition TypeFlowHealthy status reason (MessageForMetricPipeline reason)) pipeline,
            err))"

definition metric_setConditions ::
    "MetricPipeline status_env \<Rightarrow> MetricPipeline \<Rightarrow> (MetricPipeline \<times> go_error option) go" where
  "metric_setConditions r pipeline =
     gbind (metric_setAgentHealthyCondition r pipeline) (\<lambda>p1.
     gbind (metric_setGatewayHealthyCondition r p1) (\<lambda>p2.
     gbind (metric_setGatewayConfigGeneratedCondition r p2) (\<lambda>p3.
       metric_setFlowHealthCondition r p3)))"

definition metric_updateStatus ::
    "MetricPipeline status_env \<Rightarrow> (string \<Rightarrow> (kube_error, MetricPipeline) result) \<Rightarrow>
     (MetricPipeline \<Rightarrow> (kube_error, MetricPipeline) result) \<Rightarrow> string \<Rightarrow> (MetricPipeline list \<times> go_error option) go" where
  "metric_updateStatus r get statusUpdate pipelineName =
     updateStatusWith ''MetricPipeline'' mp_ObjectMeta get statusUpdate (metric_setConditions r) pipelineName"

text \<open>Trace pipelines.\<close>

definition trace_put :: "TracePipeline status_env \<Rightarrow> Condition \<Rightarrow> TracePipeline \<Rightarrow> TracePipeline" where
  "trace_put r c pipeline =
     pipeline\<lparr>tp_Conditions := se_SetStatusCondition r (tp_Conditions pipeline)
       (observed (om_Generation (tp_ObjectMeta pipeline)) c)\<rparr>"

definition trace_setGatewayHealthyCondition ::
    "TracePipeline status_env \<Rightarrow> TracePipeline \<Rightarrow> TracePipeline go" where
  "trace_setGatewayHealthyCondition r pipeline =
     gbind (trace_evaluateConfigGeneratedCondition r pipeline) (\<lambda>(configStatus, _, _).
     gbind (GetGatewayHealthyCondition (se_gatewayProber r) (gatewayName r) SignalTypeTrace configStatus)
       (\<lambda>c. Ret (trace_put r c pipeline)))"

definition trace_setGatewayConfigGeneratedCondition ::
    "TracePipeline status_env \<Rightarrow> TracePipeline \<Rightarrow> TracePipeline go" where
  "trace_setGatewayConfigGeneratedCondition r pipeline =
     gbind (trace_evaluateConfigGeneratedCondition r pipeline) (\<lambda>(status, reason, msg).
       Ret (trace_put r (condition TypeConfigurationGenerated status reason msg) pipeline))"

definition trace_setFlowHealthCondition ::
    "TracePipeline status_env \<Rightarrow> TracePipeline \<Rightarrow> (TracePipeline \<times> go_error option) go" where
  "trace_setFlowHealthCondition r pipeline =
     gbind (trace_evaluateFlowHealthCondition r pipeline) (\<lambda>(status, reason, err).
       Ret (trace_put r (condition TypeFlowHealthy status reason (MessageForTracePipeline reason)) pipeline,
            err))"

definition trace_setConditions ::
    "TracePipeline status_env \<Rightarrow> TracePipeline \<Rightarrow> (TracePipeline \<times> go_error option) go" where
  "trace_setConditions r pipeline =
     gbind (trace_setGatewayHealthyCondition r pipeline) (\<lambda>p1.
     gbind (trace_setGatewayConfigGeneratedCondition r p1) (\<lambda>p2.
       trace_setFlowHealthCondition r p2))"

definition trace_updateStatus ::
    "TracePipeline status_env \<Rightarrow> (string \<Rightarrow> (kube_error, TracePipeline) result) \<Rightarrow>
     (TracePipeline \<Rightarrow> (kube_error, TracePipeline) result) \<Rightarrow> string \<Rightarrow> (TracePipeline list \<times> go_error option) go" where
  "trace_updateStatus r get statusUpdate pipelineName =
     updateStatusWith ''TracePipeline'' tp_ObjectMeta get statusUpdate (trace_setConditions r) pipelineName"

text \<open>Log pipelines in OTel mode.\<close>

definition isLogAgentRequired :: "LogPipeline \<Rightarrow> bool" where
  "isLogAgentRequired pipeline =
     (case li_Runtime (ls_Input (lp_Spec pipeline)) of
        None \<Rightarrow> False
      | Some rt \<Rightarrow> (case lri_Enabled rt of None \<Rightarrow> False | Some enabled \<Rightarrow> enabled))"

definition log_put :: "LogPipeline status_env \<Rightarrow> Condition \<Rightarrow> LogPipeline \<Rightarrow> LogPipeline" where
  "log_put r c pipeline =
     pipeline\<lparr>lp_Status := (lp_Status pipeline)\<lparr>lst_Conditions :=
       se_SetStatusCondition r (lst_Conditions (lp_Status pipeline)) c\<rparr>\<rparr>"

abbreviation log_put_observed :: "LogPipeline status_env \<Rightarrow> Condition \<Rightarrow> LogPipeline \<Rightarrow> LogPipeline" where
  "log_put_observed r c pipeline \<equiv>
     log_put r (observed (om_Generation (lp_ObjectMeta pipeline)) c) pipeline"

definition logotel_setGatewayHealthyCondition ::
    "LogPipeline status_env \<Rightarrow> LogPipeline \<Rightarrow> LogPipeline go" where
  "logotel_setGatewayHealthyCondition r pipeline =
     (if li_OTLP (ls_Input (lp_Spec pipeline)) = None
      then Ret (pipeline\<lparr>lp_Status := (lp_Status pipeline)\<lparr>lst_Conditions :=
             se_RemoveStatusCondition r (lst_Conditions (lp_Status pipeline)) TypeGatewayHealthy\<rparr>\<rparr>)
      else
        gbind (logotel_evaluateConfigGeneratedCondition r pipeline) (\<lambda>(configStatus, _, _).
        gbind (GetGatewayHealthyCondition (se_gatewayProber r) (gatewayName r) SignalTypeLog configStatus)
          (\<lambda>c. Ret (log_put_observed r c pipeline))))"

definition logotel_setGatewayConfigGeneratedCondition ::
    "LogPipeline status_env \<Rightarrow> LogPipeline \<Rightarrow> LogPipeline go" where
  "logotel_setGatewayConfigGeneratedCondition r pipeline =
     gbind (logotel_evaluateConfigGeneratedCondition r pipeline) (\<lambda>(status, reason, msg).
       Ret (log_put_observed r (condition TypeConfigurationGenerated status reason msg) pipeline))"

definition logotel_setAgentHealthyCondition ::
    "LogPipeline status_env \<Rightarrow> LogPipeline \<Rightarrow> LogPipeline go" where
  "logotel_setAgentHealthyCondition r pipeline =
     gbind
       (if isLogAgentRequired pipeline
        then GetAgentHealthyCondition (se_agentProber r)
               \<lparr>nn_Namespace = se_targetNamespace r, nn_Name = LogAgent\<rparr> SignalTypeLog
        else Ret (condition TypeAgentHealthy ConditionTrue ReasonLogAgentNotRequired
               (MessageForOtelLogPipeline ReasonLogAgentNotRequired)))
       (\<lambda>c. Ret (log_put_observed r c pipeline))"

definition logotel_setFlowHealthCondition ::
    "LogPipeline status_env \<Rightarrow> LogPipeline \<Rightarrow> (LogPipeline \<times> go_error option) go" where
  "logotel_setFlowHealthCondition r pipeline =
     gbind (logotel_evaluateFlowHealthCondition r pipeline) (\<lambda>(status, reason, err).
       Ret (log_put_observed r
              (condition TypeFlowHealthy status reason (MessageForOtelLogPipeline reason)) pipeline,
            err))"

definition logotel_setConditions ::
    "LogPipeline status_env \<Rightarrow> LogPipeline \<Rightarrow> (LogPipeline \<times> go_error option) go" where
  "logotel_setConditions r pipeline =
     gbind (logotel_setGatewayHealthyCondition r pipeline) (\<lambda>p1.
     gbind (logotel_setGatewayConfigGeneratedCondition r p1) (\<lambda>p2.
     gbind (logotel_setAgentHealthyCondition r p2) (\<lambda>p3.
       logotel_setFlowHealthCondition r p3)))"

definition logotel_updateStatus ::
    "LogPipeline status_env \<Rightarrow> (string \<Rightarrow> (kube_error, LogPipeline) result) \<Rightarrow>
     (LogPipeline \<Rightarrow> (kube_error, LogPipeline) result) \<Rightarrow> string \<Rightarrow> (LogPipeline list \<times> go_error option) go" where
  "logotel_updateStatus r get statusUpdate pipelineName =
     updateStatusWith ''LogPipeline'' lp_ObjectMeta get statusUpdate (logotel_setConditions r) pipelineName"

text \<open>Log pipelines in Fluent Bit mode.  The flow prober is the Fluent Bit one; the probers of the record are
  not used.\<close>

definition fluentbit_evaluateConfigGeneratedCondition ::
    "bool \<Rightarrow> LogPipeline status_env \<Rightarrow> LogPipeline \<Rightarrow> (ConditionStatus \<times> string \<times> string) go" where
  "fluentbit_evaluateConfigGeneratedCondition fipsMode r pipeline =
     (if fipsMode
      then Ret (ConditionFalse, ReasonNoFluentbitInFipsMode,
             MessageForFluentBitLogPipeline ReasonNoFluentbitInFipsMode)
      else gbind (se_validate r pipeline) (\<lambda>result. case result of
         None \<Rightarrow> Ret (ConditionTrue, ReasonAgentConfigured, MessageForFluentBitLogPipeline ReasonAgentConfigured)
       | Some err \<Rightarrow>
           (if errors_Is err ErrMaxPipelinesExceeded
            then gbind (ConvertErrToMsg err) (\<lambda>msg. Ret (ConditionFalse, ReasonMaxPipelinesExceeded, msg))
            else if errors_Is err ErrSecretRefNotFound \<or> errors_Is err ErrSecretKeyNotFound \<or>
                 errors_Is err ErrSecretRefMissingFields
            then gbind (ConvertErrToMsg err) (\<lambda>msg. Ret (ConditionFalse, ReasonReferencedSecretMissing, msg))
            else if IsEndpointInvalidError err
            then Ret (ConditionFalse, ReasonEndpointInvalid,
                   Sprintf (MessageForFluentBitLogPipeline ReasonEndpointInvalid) [err_msg err])
            else if asAPIRequestFailed err \<noteq> None
            then Ret (ConditionFalse, ReasonValidationFailed,
                   MessageForFluentBitLogPipeline ReasonValidationFailed)
            else Ret (EvaluateTLSCertCondition err))))"

definition fluentbit_flowHealthReasonFor :: "FluentBitProbeResult \<Rightarrow> string" where
  "fluentbit_flowHealthReasonFor probeResult =
     (if pr_AllDataDropped probeResult then ReasonSelfMonAgentAllDataDropped
      else if pr_SomeDataDropped probeResult then ReasonSelfMonAgentSomeDataDropped
      else if pr_NoLogsDelivered probeResult then ReasonSelfMonAgentNoLogsDelivered
      else if pr_BufferFillingUp probeResult then ReasonSelfMonAgentBufferFillingUp
      else ReasonSelfMonFlowHealthy)"

type_synonym fluentbit_prober = "string \<Rightarrow> (go_error, FluentBitProbeResult) result"

definition fluentbit_evaluateFlowHealthCondition ::
    "bool \<Rightarrow> fluentbit_prober \<Rightarrow> LogPipeline status_env \<Rightarrow> LogPipeline \<Rightarrow> flow_result go" where
  "fluentbit_evaluateFlowHealthCondition fipsMode flowHealthProber r pipeline =
     gbind (fluentbit_evaluateConfigGeneratedCondition fipsMode r pipeline) (\<lambda>(configGeneratedStatus, _, _).
       if configGeneratedStatus = ConditionFalse
       then Ret (ConditionFalse, ReasonSelfMonConfigNotGenerated, None)
       else case flowHealthProber (om_Name (lp_ObjectMeta pipeline)) of
             Inl err \<Rightarrow> Ret (ConditionUnknown, ReasonSelfMonAgentProbingFailed,
               Some (Errorf ''failed to probe flow health: '' err []))
           | Inr probeResult \<Rightarrow>
               (let reason = fluentbit_flowHealthReasonFor probeResult
                in if pr_Healthy probeResult then Ret (ConditionTrue, reason, None)
                   else Ret (ConditionFalse, reason, None)))"

definition fluentbit_setAgentHealthyCondition ::
    "LogPipeline status_env \<Rightarrow> LogPipeline \<Rightarrow> LogPipeline go" where
  "fluentbit_setAgentHealthyCondition r pipeline =
     gbind (GetAgentHealthyCondition (se_agentProber r)
              \<lparr>nn_Namespace = se_targetNamespace r, nn_Name = Names.FluentBit\<rparr> SignalTypeLogFluentBit)
       (\<lambda>c. Ret (log_put r c pipeline))"

definition setFluentBitConfigGeneratedCondition ::
    "bool \<Rightarrow> LogPipeline status_env \<Rightarrow> LogPipeline \<Rightarrow> LogPipeline go" where
  "setFluentBitConfigGeneratedCondition fipsMode r pipeline =
     gbind (fluentbit_evaluateConfigGeneratedCondition fipsMode r pipeline) (\<lambda>(status, reason, msg).
       Ret (log_put_observed r (condition TypeConfigurationGenerated status reason msg) pipeline))"

definition fluentbit_setFlowHealthCondition ::
    "bool \<Rightarrow> fluentbit_prober \<Rightarrow> LogPipeline status_env \<Rightarrow> LogPipeline \<Rightarrow> (LogPipeline \<times> go_error option) go" where
  "fluentbit_setFlowHealthCondition fipsMode flowHealthProber r pipeline =
     gbind (fluentbit_evaluateFlowHealthCondition fipsMode flowHealthProber r pipeline) (\<lambda>(status, reason, err).
       Ret (log_put_observed r
              (condition TypeFlowHealthy status reason (MessageForFluentBitLogPipeline reason)) pipeline,
            err))"

text \<open>\<open>updateStatusUnsupportedMode\<close>: the pipeline afterwards, the objects written and the error.  A successful
  \<open>Status().Update\<close> replaces the object by the server's answer.\<close>

definition updateStatusUnsupportedMode ::
    "(LogPipeline \<Rightarrow> (kube_error, LogPipeline) result) \<Rightarrow> LogPipeline \<Rightarrow>
     LogPipeline \<times> LogPipeline list \<times> go_error option" where
  "updateStatusUnsupportedMode statusUpdate pipeline =
     (let desiredUnsupportedMode = ContainsCustomPlugin pipeline
      in if lst_UnsupportedMode (lp_Status pipeline) \<noteq> Some desiredUnsupportedMode
         then
           let pipeline' = pipeline\<lparr>lp_Status := (lp_Status pipeline)\<lparr>lst_UnsupportedMode :=
                 Some desiredUnsupportedMode\<rparr>\<rparr>
           in case statusUpdate pipeline' of
                Inl err \<Rightarrow> (pipeline', [pipeline'],
                  Some (Errorf ''failed to update LogPipeline unsupported mode status: '' (KubeError err) []))
              | Inr answer \<Rightarrow> (answer, [pipeline'], None)
         else (pipeline, [], None))"

definition fluentbit_updateStatus ::
    "bool \<Rightarrow> fluentbit_prober \<Rightarrow> LogPipeline status_env \<Rightarrow> (string \<Rightarrow> (kube_error, LogPipeline) result) \<Rightarrow>
     (LogPipeline \<Rightarrow> (kube_error, LogPipeline) result) \<Rightarrow> string \<Rightarrow> (LogPipeline list \<times> go_error option) go" where
  "fluentbit_updateStatus fipsMode flowHealthProber r get statusUpdate pipelineName =
     (case get pipelineName of
        Inl err \<Rightarrow>
          (if IsNotFound err then Ret ([], None)
           else Ret ([], Some (Errorf ''failed to get LogPipeline: '' (KubeError err) [])))
      | Inr pipeline \<Rightarrow>
          (if om_DeletionTimestamp (lp_ObjectMeta pipeline) \<noteq> None then Ret ([], None)
           else
             let (p1, written, modeErr) = updateStatusUnsupportedMode statusUpdate pipeline;
                 errs1 = (case modeErr of None \<Rightarrow> None | Some e \<Rightarrow> errors_Join None e)
             in gbind (fluentbit_setAgentHealthyCondition r p1) (\<lambda>p2.
                gbind (setFluentBitConfigGeneratedCondition fipsMode r p2) (\<lambda>p3.
                gbind (fluentbit_setFlowHealthCondition fipsMode flowHealthProber r p3) (\<lambda>(p4, flowErr).
                  let errs2 = (case flowErr of None \<Rightarrow> errs1 | Some e \<Rightarrow> errors_Join errs1 e)
                  in case statusUpdate p4 of
                       Inl err \<Rightarrow> Ret (written @ [p4],
                         errors_Join errs2 (Errorf ''failed to update LogPipeline status: '' (KubeError err) []))
                     | Inr _ \<Rightarrow> Ret (written @ [p4], errs2))))))"

section \<open>Classification of validation errors\<close>

text \<open>Every error an OTLP validator returns is of one of these kinds.\<close>

definition validator_error :: "go_error \<Rightarrow> bool" where
  "validator_error e \<longleftrightarrow>
     is_secret_error e \<or> is_api_error e \<or> is_endpoint_error e \<or> is_tls_error e \<or>
     e = Sentinel ErrMaxPipelinesExceeded \<or> (\<exists>d. e = InvalidOTTLSpecError d) \<or>
     (\<exists>d. e = InvalidAdditionalMetricError d)"

context otlp_validator
begin

lemma validate_chain_errors:
  assumes "gcheck (v_SecretRef v p) (gcheck (validateOTLPOutput v otlp) (gcheck (Ret (v_IsLockHolder v m))
      (gcheck (Ret (v_Transform v ts)) (gcheck (Ret (v_Filter v fs)) rest)))) = Ret (Some e)"
    and "rest = Ret None \<or> rest = Ret (v_AdditionalMetrics v q)"
  shows "validator_error e"
  using assms secretref_errors otlp_output_errors lock_errors transform_errors filter_errors
    additional_errors
  unfolding validator_error_def gcheck_Some by (metis go.inject option.discI)

end

lemma gcheck_Ret_None: "gcheck m (Ret None) = m"
  by (cases m) (auto simp: gcheck_def split: option.splits)

lemma metric_validate_errors:
  "metric_validate (newMetricValidator parse cr tp fp get now c ck s) p = Ret (Some e) \<Longrightarrow> validator_error e"
  unfolding metric_validate_def by (rule metric_v.validate_chain_errors) auto

lemma trace_validate_errors:
  assumes "trace_validate (newTraceValidator parse cr tp fp get now c ck s) p = Ret (Some e)"
  shows "validator_error e"
  using assms unfolding trace_validate_def
  by (subst (asm) gcheck_Ret_None [symmetric, of "Ret (v_Filter _ _)"])
    (rule trace_v.validate_chain_errors, auto)

lemma logotel_validate_errors:
  assumes "logotel_validate (newLogOtelValidator parse cr tp fp get now c ck s) p = Ret (Some e)"
  shows "validator_error e"
  using assms unfolding logotel_validate_def
  by (subst (asm) gcheck_Ret_None [symmetric, of "Ret (v_Filter _ _)"])
    (rule logotel_v.validate_chain_errors, auto)

lemma error_tests:
  "is_secret_error e \<Longrightarrow> \<not> errors_Is e ErrMaxPipelinesExceeded \<and>
     (errors_Is e ErrSecretRefNotFound \<or> errors_Is e ErrSecretKeyNotFound \<or> errors_Is e ErrSecretRefMissingFields)"
  "is_api_error e \<Longrightarrow> \<not> errors_Is e s \<and> \<not> IsEndpointInvalidError e \<and> \<not> IsInvalidOTTLSpecError e \<and>
     \<not> IsInvalidAdditionalMetricError e \<and> asAPIRequestFailed e \<noteq> None"
  "is_endpoint_error e \<Longrightarrow> IsEndpointInvalidError e"
  "is_endpoint_error e \<Longrightarrow> s \<notin> endpoint_sentinels \<Longrightarrow> \<not> errors_Is e s"
  "is_tls_error e \<Longrightarrow> s \<notin> tls_sentinels \<Longrightarrow> \<not> errors_Is e s"
  "is_tls_error e \<Longrightarrow> \<not> IsEndpointInvalidError e \<and> \<not> IsInvalidOTTLSpecError e \<and>
     \<not> IsInvalidAdditionalMetricError e \<and> asAPIRequestFailed e = None"
  by (auto simp: is_secret_error_def is_api_error_def is_endpoint_error_def is_tls_error_def
      error_type_defs errors_As_wrapped)

lemma error_tests_direct [simp]:
  "\<not> IsEndpointInvalidError (InvalidOTTLSpecError d)"
  "\<not> IsEndpointInvalidError (InvalidAdditionalMetricError d)"
  "\<not> IsInvalidOTTLSpecError (InvalidAdditionalMetricError d)"
  "asAPIRequestFailed (InvalidAdditionalMetricError d) = None"
  "asCertExpired (InvalidAdditionalMetricError d) = None"
  "asCertAboutToExpire (InvalidAdditionalMetricError d) = None"
  by (simp_all add: error_type_defs asCertExpired_def asCertAboutToExpire_def)

text \<open>The reason and status each kind of error gets.\<close>

lemma evaluate_secret:
  assumes "is_secret_error e"
  shows "\<exists>msg. msg \<noteq> [] \<and>
    evaluateConfigGenerated mf a (Ret (Some e)) = Ret (ConditionFalse, ReasonReferencedSecretMissing, msg)"
proof -
  from assms obtain s m where "e = Errorf [] (Sentinel s) m" "sentinel_msg s \<noteq> []"
    by (auto simp: is_secret_error_def)
  then obtain x xs where "err_msg e = x # xs" by (cases "err_msg e") auto
  then show ?thesis
    using error_tests(1) [OF assms]
    by (auto simp: evaluateConfigGenerated_def ConvertErrToMsg_def upperByte_def Let_def)
qed

lemma evaluate_lock:
  "\<exists>msg. msg \<noteq> [] \<and>
    evaluateConfigGenerated mf a (Ret (Some (Sentinel ErrMaxPipelinesExceeded))) =
      Ret (ConditionFalse, ReasonMaxPipelinesExceeded, msg)"
  by (auto simp: evaluateConfigGenerated_def ConvertErrToMsg_def upperByte_def Let_def)

lemma evaluate_endpoint:
  assumes "is_endpoint_error e"
  shows "evaluateConfigGenerated mf a (Ret (Some e)) =
    Ret (ConditionFalse, ReasonEndpointInvalid, Sprintf (mf ReasonEndpointInvalid) [err_msg e])"
  using error_tests(3) [OF assms] error_tests(4) [OF assms]
  by (simp add: evaluateConfigGenerated_def endpoint_sentinels_def)

lemma evaluate_ottl:
  "evaluateConfigGenerated mf a (Ret (Some (InvalidOTTLSpecError d))) =
    Ret (ConditionFalse, ReasonOTTLSpecInvalid, Sprintf (mf ReasonOTTLSpecInvalid) [err_msg d])"
  by (simp add: evaluateConfigGenerated_def)

lemma evaluate_api:
  assumes "is_api_error e"
  shows "evaluateConfigGenerated mf a (Ret (Some e)) =
    Ret (ConditionFalse, ReasonValidationFailed, mf ReasonValidationFailed)"
  using error_tests(2) [OF assms] by (simp add: evaluateConfigGenerated_def)

lemma evaluate_additional:
  "evaluateConfigGenerated mf True (Ret (Some (InvalidAdditionalMetricError d))) =
    gbind (ConvertErrToMsg (InvalidAdditionalMetricError d))
      (\<lambda>msg. Ret (ConditionFalse, ReasonRuntimeAdditionalMetricInvalid, msg))"
  by (simp add: evaluateConfigGenerated_def)

lemma evaluate_tls:
  assumes "is_tls_error e"
  shows "evaluateConfigGenerated mf a (Ret (Some e)) = Ret (EvaluateTLSCertCondition e)"
  using error_tests(5,6) [OF assms] by (simp add: evaluateConfigGenerated_def tls_sentinels_def)

lemma EvaluateTLS_simps:
  "EvaluateTLSCertCondition (CertAboutToExpireError t ca) =
     (ConditionTrue, ReasonTLSCertificateAboutToExpire, err_msg (CertAboutToExpireError t ca))"
  "EvaluateTLSCertCondition (CertExpiredError t ca) =
     (ConditionFalse, ReasonTLSCertificateExpired, err_msg (CertExpiredError t ca))"
  "EvaluateTLSCertCondition (Sentinel s) =
     (ConditionFalse, ReasonTLSConfigurationInvalid,
      Sprintf (deref (commonMessages ReasonTLSConfigurationInvalid) []) [sentinel_msg s])"
  by (simp_all add: EvaluateTLSCertCondition_def asCertExpired_def asCertAboutToExpire_def)

lemma EvaluateTLS_true:
  assumes "is_tls_error e"
  shows "fst (EvaluateTLSCertCondition e) = ConditionTrue \<longleftrightarrow> IsCertAboutToExpireError e"
  using assms by (auto simp: is_tls_error_def EvaluateTLS_simps IsCertAboutToExpireError_def)

text \<open>The condition is true exactly for the results that make a pipeline reconcilable.\<close>

lemma evaluate_true_iff:
  assumes "\<And>e. validate = Ret (Some e) \<Longrightarrow> validator_error e"
  shows "(\<exists>reason msg. evaluateConfigGenerated mf a validate = Ret (ConditionTrue, reason, msg)) \<longleftrightarrow>
    validate = Ret None \<or> (\<exists>e. validate = Ret (Some e) \<and> IsCertAboutToExpireError e)"
proof (cases validate)
  case Panic
  then show ?thesis by (simp add: evaluateConfigGenerated_def)
next
  case (Ret res)
  show ?thesis
  proof (cases res)
    case None
    with Ret show ?thesis by (simp add: evaluateConfigGenerated_def)
  next
    case (Some e)
    from assms Ret Some have "validator_error e" by simp
    then have "(\<exists>reason msg. evaluateConfigGenerated mf a (Ret (Some e)) = Ret (ConditionTrue, reason, msg))
        = IsCertAboutToExpireError e"
      unfolding validator_error_def
    proof (elim disjE exE)
      assume "is_secret_error e"
      then show ?thesis using evaluate_secret [of e mf a] not_about_to_expire(1) by auto
    next
      assume "is_tls_error e"
      then show ?thesis
        using evaluate_tls [of e mf a] EvaluateTLS_true [of e]
        by (cases "EvaluateTLSCertCondition e") auto
    next
      fix d assume "e = InvalidAdditionalMetricError d"
      then show ?thesis
        by (cases a; cases "err_msg d")
          (auto simp: evaluateConfigGenerated_def ConvertErrToMsg_def EvaluateTLSCertCondition_def
            not_about_to_expire)
    qed (use evaluate_lock [of mf a] in \<open>auto simp: evaluate_endpoint evaluate_api evaluate_ottl not_about_to_expire\<close>)
    with Ret Some show ?thesis by simp
  qed
qed

text \<open>C25: for the validators the controllers use, the condition \<open>ConfigurationGenerated\<close> of a pipeline that is
  not being deleted is true exactly when \<open>isReconcilable\<close> accepts the pipeline: the status and the selection of
  the pipelines never disagree on a validation result.  This holds for metric, trace and OTel log pipelines.\<close>

theorem config_generated_iff_reconcilable:
  assumes mv_def: "mv = newMetricValidator parse cr tfm ffm get now c ckm s"
    and tv_def: "tv = newTraceValidator parse cr tft fft get now c ckt s"
    and lv_def: "lv = newLogOtelValidator parse cr tfl ffl get now c ckl s"
    and "se_validate mr = metric_validate mv" and "om_DeletionTimestamp (mp_ObjectMeta m) = None"
    and "se_validate tr = trace_validate tv" and "om_DeletionTimestamp (tp_ObjectMeta t) = None"
    and "se_validate lr = logotel_validate lv" and "om_DeletionTimestamp (lp_ObjectMeta l) = None"
  shows "((\<exists>reason msg. metric_evaluateConfigGeneratedCondition mr m = Ret (ConditionTrue, reason, msg)) \<longleftrightarrow>
      metric_isReconcilable mv m = Ret (Inr True)) \<and>
    ((\<exists>reason msg. trace_evaluateConfigGeneratedCondition tr t = Ret (ConditionTrue, reason, msg)) \<longleftrightarrow>
      trace_isReconcilable tv t = Ret (Inr True)) \<and>
    ((\<exists>reason msg. logotel_evaluateConfigGeneratedCondition lr l = Ret (ConditionTrue, reason, msg)) \<longleftrightarrow>
      logotel_isReconcilable lv l = Ret (Inr True))"
proof (intro conjI)
  show "(\<exists>reason msg. metric_evaluateConfigGeneratedCondition mr m = Ret (ConditionTrue, reason, msg)) \<longleftrightarrow>
      metric_isReconcilable mv m = Ret (Inr True)"
    using evaluate_true_iff [of "metric_validate mv m" MessageForMetricPipeline True] assms(4,5)
    by (simp add: metric_evaluateConfigGeneratedCondition_def metric_isReconcilable_def reconcilable_by_True
        mv_def metric_validate_errors)
  show "(\<exists>reason msg. trace_evaluateConfigGeneratedCondition tr t = Ret (ConditionTrue, reason, msg)) \<longleftrightarrow>
      trace_isReconcilable tv t = Ret (Inr True)"
    using evaluate_true_iff [of "trace_validate tv t" MessageForTracePipeline False] assms(6,7)
    by (simp add: trace_evaluateConfigGeneratedCondition_def trace_isReconcilable_def reconcilable_by_True
        tv_def trace_validate_errors)
  show "(\<exists>reason msg. logotel_evaluateConfigGeneratedCondition lr l = Ret (ConditionTrue, reason, msg)) \<longleftrightarrow>
      logotel_isReconcilable lv l = Ret (Inr True)"
    using evaluate_true_iff [of "logotel_validate lv l" MessageForOtelLogPipeline False] assms(8,9)
    by (simp add: logotel_evaluateConfigGeneratedCondition_def logotel_isReconcilable_def reconcilable_by_True
        lv_def logotel_validate_errors)
qed

section \<open>Status updates of metric pipelines\<close>

text \<open>An instance of the functions on condition lists: replace the condition of the type, or append.\<close>

fun upsertCondition :: "Condition list \<Rightarrow> Condition \<Rightarrow> Condition list" where
  "upsertCondition [] c = [c]"
| "upsertCondition (x # xs) c = (if c_Type x = c_Type c then c # xs else x # upsertCondition xs c)"

definition removeCondition :: "Condition list \<Rightarrow> string \<Rightarrow> Condition list" where
  "removeCondition cs t = filter (\<lambda>c. c_Type c \<noteq> t) cs"

lemma upsert_lawful: "lawful_conditions upsertCondition removeCondition"
proof -
  have "findCondition t (upsertCondition cs c) = (if t = c_Type c then Some c else findCondition t cs)" for cs c t
    by (induction cs) (auto simp: findCondition_def)
  moreover have "findCondition t (removeCondition cs u) = (if t = u then None else findCondition t cs)" for cs t u
    by (induction cs) (auto simp: findCondition_def removeCondition_def)
  ultimately show ?thesis by (simp add: lawful_conditions_def)
qed

lemma condition_simps [simp]:
  "c_Type (condition t st reason msg) = t" "c_Status (condition t st reason msg) = st"
  "c_Reason (condition t st reason msg) = reason" "c_Message (condition t st reason msg) = msg"
  "c_ObservedGeneration (condition t st reason msg) = 0"
  "c_Type (observed g c) = c_Type c" "c_Status (observed g c) = c_Status c"
  "c_Reason (observed g c) = c_Reason c" "c_Message (observed g c) = c_Message c"
  "c_ObservedGeneration (observed g c) = g"
  by (simp_all add: condition_def observed_def)

lemma probedCondition_shape:
  assumes "probedCondition t a b d probe = Ret c"
  shows "c_Type c = t \<and> c_ObservedGeneration c = 0"
proof (cases probe)
  case (Ret res)
  with assms show ?thesis
  proof (cases res)
    case (Some e)
    with assms Ret show ?thesis
      by (cases "ErrorToMessage_Convert e"; cases "IsRolloutInProgressError e")
        (auto simp: probedCondition_def)
  qed (auto simp: probedCondition_def)
qed (use assms in \<open>simp add: probedCondition_def\<close>)

lemmas probedCondition_type = probedCondition_shape [THEN conjunct1]
lemmas probedCondition_generation = probedCondition_shape [THEN conjunct2]

lemma Gateway_type:
  assumes "GetGatewayHealthyCondition prober n sig st = Ret c"
  shows "c_Type c = TypeGatewayHealthy"
proof (cases "st = ConditionFalse")
  case True
  with assms show ?thesis by (auto simp: GetGatewayHealthyCondition_def)
next
  case False
  with assms show ?thesis
    unfolding GetGatewayHealthyCondition_def by (simp add: probedCondition_type)
qed

lemma Agent_type: "GetAgentHealthyCondition prober n sig = Ret c \<Longrightarrow> c_Type c = TypeAgentHealthy"
  unfolding GetAgentHealthyCondition_def by (rule probedCondition_type)

text \<open>A reconciler whose workloads are ready and whose probers see the given alerts.\<close>

definition sampleEnv :: "pipelineType \<Rightarrow> Alert list \<Rightarrow> ('p \<Rightarrow> go_error option go) \<Rightarrow> 'p status_env" where
  "sampleEnv t alerts validate =
     \<lparr>se_validate = validate, se_gatewayProber = (\<lambda>_. Ret None), se_agentProber = (\<lambda>_. Ret None),
      se_targetNamespace = ''kyma-system'',
      se_gatewayFlowHealthProber = Some (OTelGatewayProber_Probe t (Inr alerts)),
      se_agentFlowHealthProber = Some (OTelAgentProber_Probe t (Inr alerts)),
      se_SetStatusCondition = upsertCondition, se_RemoveStatusCondition = removeCondition\<rparr>"

definition zeroTracePipeline :: TracePipeline where
  "zeroTracePipeline = \<lparr>tp_ObjectMeta = zeroObjectMeta,
     tp_Spec = \<lparr>tps_Output = None, tps_Transforms = [], tps_Filters = None\<rparr>, tp_Conditions = []\<rparr>"

theorem config_generated_iff_reconcilable_witness:
  "\<exists>reason msg. metric_evaluateConfigGeneratedCondition
     (sampleEnv typeMetricPipeline [] (metric_validate expiringValidator)) (metricPipelineWith tlsOutput) =
       Ret (ConditionTrue, reason, msg)"
  using config_generated_iff_reconcilable [OF refl refl refl,
      of "sampleEnv typeMetricPipeline [] (metric_validate expiringValidator)"
        "\<lambda>_. Inr sampleURL" expiringCrypto permissiveOTTL permissiveOTTL noSecrets 0 mem_client sampleLocker
        "[Put sampleLock]" "metricPipelineWith tlsOutput"
        "sampleEnv typeTracePipeline [] (trace_validate (newTraceValidator (\<lambda>_. Inr sampleURL) expiringCrypto
          permissiveOTTL permissiveOTTL noSecrets 0 mem_client sampleLocker [Put sampleLock]))"
        permissiveOTTL permissiveOTTL sampleLocker zeroTracePipeline
        "sampleEnv typeLogPipeline [] (logotel_validate (newLogOtelValidator (\<lambda>_. Inr sampleURL) expiringCrypto
          permissiveOTTL permissiveOTTL noSecrets 0 mem_client sampleLocker [Put sampleLock]))"
        permissiveOTTL permissiveOTTL sampleLocker zeroLogPipeline]
    expiring_reconcilable
  by (simp add: sampleEnv_def metricPipelineWith_def zeroMetricPipeline_def zeroTracePipeline_def
      zeroLogPipeline_def zeroObjectMeta_def)

text \<open>What \<open>metric_setConditions\<close> does: four conditions, in this order.\<close>

lemma metric_put_simps [simp]:
  "mp_ObjectMeta (metric_put r c p) = mp_ObjectMeta p" "mp_Spec (metric_put r c p) = mp_Spec p"
  by (simp_all add: metric_put_def)

lemma metric_put_find:
  assumes "lawful_conditions (se_SetStatusCondition r) (se_RemoveStatusCondition r)"
  shows "findCondition t (mp_Conditions (metric_put r c p)) =
    (if t = c_Type c then Some (observed (om_Generation (mp_ObjectMeta p)) c)
     else findCondition t (mp_Conditions p))"
  using assms by (simp add: metric_put_def lawful_conditions_def)

text \<open>Validation reads the spec and metadata of a pipeline, not its status.\<close>

definition status_independent :: "(MetricPipeline \<Rightarrow> 'a) \<Rightarrow> bool" where
  "status_independent f \<longleftrightarrow> (\<forall>p cs. f (p\<lparr>mp_Conditions := cs\<rparr>) = f p)"

lemma metric_conditions_update:
  "mp_Spec (p\<lparr>mp_Conditions := cs\<rparr>) = mp_Spec p" "mp_ObjectMeta (p\<lparr>mp_Conditions := cs\<rparr>) = mp_ObjectMeta p"
  by simp_all

lemma metric_validate_status_independent:
  "status_independent (metric_validate (newMetricValidator parse cr tp fp get now c ck s))"
  unfolding status_independent_def metric_validate_def newMetricValidator_def
    secretref_ValidateMetricPipeline_def GetSecretRefsMetricPipeline_def runtimemetrics_Validate_def
    additionalMetricsOf_def Validator.select_convs metric_conditions_update
  by (intro allI refl)

lemma evaluate_put:
  assumes "status_independent (se_validate r)"
  shows "metric_evaluateConfigGeneratedCondition r (metric_put r c p) =
    metric_evaluateConfigGeneratedCondition r p"
  using assms by (simp add: metric_evaluateConfigGeneratedCondition_def metric_put_def status_independent_def)

lemma flow_put:
  assumes "status_independent (se_validate r)"
  shows "metric_evaluateFlowHealthCondition r (metric_put r c p) = metric_evaluateFlowHealthCondition r p"
  unfolding metric_evaluateFlowHealthCondition_def evaluate_put [OF assms] metric_put_simps ..

lemma metric_setConditions_Ret:
  assumes "metric_setConditions r p = Ret (p', ferr)" and ind: "status_independent (se_validate r)"
  obtains ag gw cst creason cmsg fstatus freason where
    "c_Type ag = TypeAgentHealthy"
    "metric_evaluateConfigGeneratedCondition r p = Ret (cst, creason, cmsg)"
    "GetGatewayHealthyCondition (se_gatewayProber r) (gatewayName r) SignalTypeMetric cst = Ret gw"
    "metric_evaluateFlowHealthCondition r p = Ret (fstatus, freason, ferr)"
    "p' = metric_put r (condition TypeFlowHealthy fstatus freason (MessageForMetricPipeline freason))
       (metric_put r (condition TypeConfigurationGenerated cst creason cmsg)
         (metric_put r gw (metric_put r ag p)))"
proof -
  from assms(1) obtain p1 p2 p3 where
    1: "metric_setAgentHealthyCondition r p = Ret p1" and
    2: "metric_setGatewayHealthyCondition r p1 = Ret p2" and
    3: "metric_setGatewayConfigGeneratedCondition r p2 = Ret p3" and
    4: "metric_setFlowHealthCondition r p3 = Ret (p', ferr)"
    by (auto simp: metric_setConditions_def gbind_eq_Ret)
  from 1 obtain ag where ag: "p1 = metric_put r ag p" "c_Type ag = TypeAgentHealthy"
    by (cases "isMetricAgentRequired p")
      (auto simp: metric_setAgentHealthyCondition_def gbind_eq_Ret dest: Agent_type)
  from 2 obtain cst creason cmsg gw where
    c: "metric_evaluateConfigGeneratedCondition r p = Ret (cst, creason, cmsg)" and
    gw: "GetGatewayHealthyCondition (se_gatewayProber r) (gatewayName r) SignalTypeMetric cst = Ret gw"
      "p2 = metric_put r gw p1"
    by (auto simp: metric_setGatewayHealthyCondition_def gbind_eq_Ret ag evaluate_put [OF ind])
  from 3 c have p3: "p3 = metric_put r (condition TypeConfigurationGenerated cst creason cmsg) p2"
    by (auto simp: metric_setGatewayConfigGeneratedCondition_def gbind_eq_Ret ag gw evaluate_put [OF ind])
  have "metric_evaluateFlowHealthCondition r p3 = metric_evaluateFlowHealthCondition r p"
    by (simp add: p3 gw(2) ag(1) flow_put [OF ind])
  with 4 obtain fstatus freason where "metric_evaluateFlowHealthCondition r p = Ret (fstatus, freason, ferr)"
    "p' = metric_put r (condition TypeFlowHealthy fstatus freason (MessageForMetricPipeline freason)) p3"
    by (auto simp: metric_setFlowHealthCondition_def gbind_eq_Ret)
  with ag c gw p3 that show thesis by blast
qed

lemma updateStatusWith_written:
  assumes "updateStatusWith kind metaOf get upd f name = Ret ([p'], err)" and "get name = Inr p"
  shows "\<exists>ferr. f p = Ret (p', ferr)"
proof (cases "f p")
  case Panic
  with assms show ?thesis by (auto simp: updateStatusWith_def split: if_splits)
next
  case (Ret x)
  obtain q ferr where "x = (q, ferr)" by (cases x)
  with assms Ret show ?thesis
    by (cases "upd q") (auto simp: updateStatusWith_def Let_def split: if_splits)
qed

lemma config_false_effects:
  assumes "metric_evaluateConfigGeneratedCondition r p = Ret (ConditionFalse, creason, cmsg)"
    and "GetGatewayHealthyCondition prober n SignalTypeMetric ConditionFalse = Ret gw"
    and "metric_evaluateFlowHealthCondition r p = Ret (fstatus, freason, ferr)"
  shows "c_Status gw = ConditionFalse \<and> c_Reason gw = ReasonGatewayConfigurationNotGenerated \<and>
    fstatus = ConditionFalse \<and> freason = ReasonSelfMonConfigNotGenerated \<and> ferr = None"
  using assms by (auto simp: GetGatewayHealthyCondition_def metric_evaluateFlowHealthCondition_def)

text \<open>C26: a status update of a metric pipeline writes the pipeline with its spec and metadata unchanged and with
  the four conditions set for its generation; conditions of other types stay as they are.  If the
  configuration was not generated, the gateway and the flow are reported as not healthy for that reason.\<close>

theorem metric_updateStatus_written:
  assumes lawful: "lawful_conditions (se_SetStatusCondition r) (se_RemoveStatusCondition r)"
    and val: "se_validate r = metric_validate (newMetricValidator parse cr tp fp getSecret now c ck s)"
    and "get name = Inr p" and "metric_updateStatus r get upd name = Ret ([p'], err)"
  shows "mp_Spec p' = mp_Spec p \<and> mp_ObjectMeta p' = mp_ObjectMeta p \<and>
    (\<exists>ag gw cg fl.
       findCondition TypeAgentHealthy (mp_Conditions p') = Some ag \<and>
       findCondition TypeGatewayHealthy (mp_Conditions p') = Some gw \<and>
       findCondition TypeConfigurationGenerated (mp_Conditions p') = Some cg \<and>
       findCondition TypeFlowHealthy (mp_Conditions p') = Some fl \<and>
       c_ObservedGeneration ` {ag, gw, cg, fl} = {om_Generation (mp_ObjectMeta p)} \<and>
       (c_Status cg = ConditionFalse \<longrightarrow>
          c_Status gw = ConditionFalse \<and> c_Reason gw = ReasonGatewayConfigurationNotGenerated \<and>
          c_Status fl = ConditionFalse \<and> c_Reason fl = ReasonSelfMonConfigNotGenerated)) \<and>
    (\<forall>t. t \<notin> {TypeAgentHealthy, TypeGatewayHealthy, TypeConfigurationGenerated, TypeFlowHealthy} \<longrightarrow>
       findCondition t (mp_Conditions p') = findCondition t (mp_Conditions p))"
proof -
  have ind: "status_independent (se_validate r)"
    unfolding val by (rule metric_validate_status_independent)
  from assms(4) have "updateStatusWith ''MetricPipeline'' mp_ObjectMeta get upd (metric_setConditions r) name =
      Ret ([p'], err)"
    by (simp only: metric_updateStatus_def)
  from updateStatusWith_written [OF this assms(3)] obtain ferr
    where "metric_setConditions r p = Ret (p', ferr)" ..
  then obtain ag gw cst creason cmsg fstatus freason where
    ag: "c_Type ag = TypeAgentHealthy" and
    c: "metric_evaluateConfigGeneratedCondition r p = Ret (cst, creason, cmsg)" and
    gw: "GetGatewayHealthyCondition (se_gatewayProber r) (gatewayName r) SignalTypeMetric cst = Ret gw" and
    fl: "metric_evaluateFlowHealthCondition r p = Ret (fstatus, freason, ferr)" and
    p': "p' = metric_put r (condition TypeFlowHealthy fstatus freason (MessageForMetricPipeline freason))
       (metric_put r (condition TypeConfigurationGenerated cst creason cmsg)
         (metric_put r gw (metric_put r ag p)))"
    using metric_setConditions_Ret [OF _ ind] by metis
  note find = metric_put_find [OF lawful] and gwt = Gateway_type [OF gw]
  have eff: "cst = ConditionFalse \<Longrightarrow> c_Status gw = ConditionFalse \<and>
      c_Reason gw = ReasonGatewayConfigurationNotGenerated \<and> fstatus = ConditionFalse \<and>
      freason = ReasonSelfMonConfigNotGenerated"
    using config_false_effects [OF _ _ fl] c gw by metis
  show ?thesis
    unfolding p' by (simp add: find ag gwt) (use eff in blast)
qed

lemma expiring_config:
  "\<exists>reason msg. metric_evaluateConfigGeneratedCondition
     (sampleEnv typeMetricPipeline alerts (metric_validate expiringValidator)) (metricPipelineWith tlsOutput) =
       Ret (ConditionTrue, reason, msg)"
proof -
  let ?p = "metricPipelineWith tlsOutput"
  have "om_DeletionTimestamp (mp_ObjectMeta ?p) = None"
    by (simp add: metricPipelineWith_def zeroMetricPipeline_def zeroObjectMeta_def)
  with expiring_reconcilable have "metric_validate expiringValidator ?p = Ret None \<or>
      (\<exists>e. metric_validate expiringValidator ?p = Ret (Some e) \<and> IsCertAboutToExpireError e)"
    by (simp add: metric_isReconcilable_def reconcilable_by_True)
  moreover have "se_validate (sampleEnv typeMetricPipeline alerts (metric_validate expiringValidator)) ?p =
      metric_validate expiringValidator ?p"
    by (simp add: sampleEnv_def)
  ultimately show ?thesis
    unfolding metric_evaluateConfigGeneratedCondition_def
    by (subst evaluate_true_iff) (simp_all add: metric_validate_errors)
qed

lemma sampleEnv_simps [simp]:
  "se_gatewayProber (sampleEnv t alerts validate) = (\<lambda>_. Ret None)"
  "se_agentProber (sampleEnv t alerts validate) = (\<lambda>_. Ret None)"
  "se_gatewayFlowHealthProber (sampleEnv t alerts validate) = Some (OTelGatewayProber_Probe t (Inr alerts))"
  "se_agentFlowHealthProber (sampleEnv t alerts validate) = Some (OTelAgentProber_Probe t (Inr alerts))"
  "se_validate (sampleEnv t alerts validate) = validate"
  "se_SetStatusCondition (sampleEnv t alerts validate) = upsertCondition"
  "se_RemoveStatusCondition (sampleEnv t alerts validate) = removeCondition"
  by (simp_all add: sampleEnv_def)

lemma probe_no_alerts:
  "\<exists>g. OTelGatewayProber_Probe t (Inr []) n = Inr g"
  "\<exists>a. OTelAgentProber_Probe t (Inr []) n = Inr a"
  by (simp_all add: OTelGatewayProber_Probe_def OTelAgentProber_Probe_def Let_def)

lemma expiring_status:
  "\<exists>p'. metric_updateStatus (sampleEnv typeMetricPipeline [] (metric_validate expiringValidator))
     (\<lambda>_. Inr (metricPipelineWith tlsOutput)) Inr ''cls'' = Ret ([p'], None)"
proof -
  let ?p = "metricPipelineWith tlsOutput" and ?v = "metric_validate expiringValidator"
  let ?r = "sampleEnv typeMetricPipeline [] ?v"
  have ind: "status_independent (se_validate ?r)"
    by (simp add: metric_validate_status_independent)
  obtain reason msg where cfg: "metric_evaluateConfigGeneratedCondition ?r ?p = Ret (ConditionTrue, reason, msg)"
    using expiring_config by blast
  obtain g a where "OTelGatewayProber_Probe typeMetricPipeline (Inr []) (om_Name (mp_ObjectMeta ?p)) = Inr g"
    "OTelAgentProber_Probe typeMetricPipeline (Inr []) (om_Name (mp_ObjectMeta ?p)) = Inr a"
    using probe_no_alerts by metis
  then obtain st re where flow: "metric_evaluateFlowHealthCondition ?r ?p = Ret (st, re, None)"
    using cfg by (cases "flowStatus (metric_flowHealthReasonFor g a)")
      (auto simp: metric_evaluateFlowHealthCondition_def flowStatus_def split: if_splits)
  have "\<not> isMetricAgentRequired ?p" "om_DeletionTimestamp (mp_ObjectMeta ?p) = None"
    by (simp_all add: isMetricAgentRequired_def metricPipelineWith_def zeroMetricPipeline_def zeroObjectMeta_def
        IsRuntimeInputEnabled_def IsPrometheusInputEnabled_def IsIstioInputEnabled_def)
  then have "\<exists>p'. metric_setConditions ?r ?p = Ret (p', None)"
    using cfg flow
    by (simp add: metric_setConditions_def metric_setAgentHealthyCondition_def
        metric_setGatewayHealthyCondition_def metric_setGatewayConfigGeneratedCondition_def
        metric_setFlowHealthCondition_def GetGatewayHealthyCondition_def probedCondition_def
        evaluate_put [OF ind] flow_put [OF ind])
  with \<open>om_DeletionTimestamp (mp_ObjectMeta ?p) = None\<close> show ?thesis
    by (auto simp: metric_updateStatus_def updateStatusWith_def)
qed

theorem metric_updateStatus_written_witness:
  "\<exists>p' cg. metric_updateStatus (sampleEnv typeMetricPipeline [] (metric_validate expiringValidator))
     (\<lambda>_. Inr (metricPipelineWith tlsOutput)) Inr ''cls'' = Ret ([p'], None) \<and>
     findCondition TypeConfigurationGenerated (mp_Conditions p') = Some cg"
proof -
  obtain p' where p': "metric_updateStatus (sampleEnv typeMetricPipeline [] (metric_validate expiringValidator))
     (\<lambda>_. Inr (metricPipelineWith tlsOutput)) Inr ''cls'' = Ret ([p'], None)"
    using expiring_status by blast
  show ?thesis
    using metric_updateStatus_written [OF _ sampleEnv_simps(5) refl p'] p' upsert_lawful by simp blast
qed

section \<open>Flow health\<close>

text \<open>The rules a metric pipeline is judged by.\<close>

definition metricRules :: "string set" where
  "metricRules = {RuleNameGatewayAllDataDropped, RuleNameGatewaySomeDataDropped, RuleNameGatewayThrottling,
     RuleNameAgentAllDataDropped, RuleNameAgentSomeDataDropped}"

text \<open>C27: the flow of a metric pipeline whose configuration was generated is reported healthy exactly when none
  of the five alerts of the gateway and the metric agent is firing for it, where both probers read the same alerts; and if the alerts cannot be
  queried, the condition is unknown and the update reports the error.\<close>

theorem metric_flow_healthy_iff:
  assumes "metric_evaluateConfigGeneratedCondition r p = Ret (ConditionTrue, creason, cmsg)"
    and "se_gatewayFlowHealthProber r = Some (OTelGatewayProber_Probe typeMetricPipeline getter)"
    and "se_agentFlowHealthProber r = Some (OTelAgentProber_Probe typeMetricPipeline getter)"
  shows "case getter of
      Inr alerts \<Rightarrow>
        metric_evaluateFlowHealthCondition r p = Ret (ConditionTrue, ReasonSelfMonFlowHealthy, None) \<longleftrightarrow>
        \<not> (\<exists>a\<in>set alerts. al_State a = AlertStateFiring \<and>
            (\<exists>rule\<in>metricRules. matchesRule (al_Labels a) rule (om_Name (mp_ObjectMeta p)) typeMetricPipeline))
    | Inl e \<Rightarrow> \<exists>err. metric_evaluateFlowHealthCondition r p =
        Ret (ConditionUnknown, ReasonSelfMonGatewayProbingFailed, Some err)"
proof (cases getter)
  case (Inl e)
  with assms show ?thesis
    by (simp add: metric_evaluateFlowHealthCondition_def OTelGatewayProber_Probe_def retrieveAlerts_def)
next
  case (Inr alerts)
  let ?firing = "\<lambda>rule. isFiringWithMatcher alerts rule (om_Name (mp_ObjectMeta p)) typeMetricPipeline"
  have "metric_evaluateFlowHealthCondition r p = Ret (ConditionTrue, ReasonSelfMonFlowHealthy, None) \<longleftrightarrow>
      \<not> (\<exists>rule\<in>metricRules. ?firing rule)"
    using assms Inr
    by (simp add: metric_evaluateFlowHealthCondition_def OTelGatewayProber_Probe_def
        OTelAgentProber_Probe_def Let_def flowStatus_def metric_flowHealthReasonFor_def metricRules_def)
  also have "(\<exists>rule\<in>metricRules. ?firing rule) \<longleftrightarrow> (\<exists>a\<in>set alerts. al_State a = AlertStateFiring \<and>
            (\<exists>rule\<in>metricRules. matchesRule (al_Labels a) rule (om_Name (mp_ObjectMeta p)) typeMetricPipeline))"
    unfolding isFiring_iff by blast
  finally show ?thesis using Inr by simp
qed

theorem metric_flow_healthy_iff_witness:
  "metric_evaluateFlowHealthCondition (sampleEnv typeMetricPipeline [] (metric_validate expiringValidator))
     (metricPipelineWith tlsOutput) = Ret (ConditionTrue, ReasonSelfMonFlowHealthy, None)"
proof -
  obtain creason cmsg where
    "metric_evaluateConfigGeneratedCondition
       (sampleEnv typeMetricPipeline [] (metric_validate expiringValidator)) (metricPipelineWith tlsOutput) =
     Ret (ConditionTrue, creason, cmsg)"
    using expiring_config by blast
  from metric_flow_healthy_iff [OF this sampleEnv_simps(3,4)] show ?thesis by simp
qed

text \<open>The reported reason of an OTel log pipeline is healthy exactly when neither component has a problem,
  and of two problems the worse one is reported: losing all data before losing some, losing some before
  throttling, and the agent's problem before the gateway's of the same severity.\<close>

lemma combineFlowHealthReasons_worst:
  "combineFlowHealthReasons (agentFlowHealthReasonFor a) (gatewayFlowHealthReasonFor g) =
     (if pr_AllDataDropped a then ReasonSelfMonAgentAllDataDropped
      else if pr_AllDataDropped g then ReasonSelfMonGatewayAllDataDropped
      else if pr_SomeDataDropped a then ReasonSelfMonAgentSomeDataDropped
      else if pr_SomeDataDropped g then ReasonSelfMonGatewaySomeDataDropped
      else if pr_Throttling g then ReasonSelfMonGatewayThrottling
      else ReasonSelfMonFlowHealthy)"
  by (simp add: combineFlowHealthReasons_def agentFlowHealthReasonFor_def gatewayFlowHealthReasonFor_def
      firstOf_def)

section \<open>Fluent Bit\<close>

lemma log_put_find:
  assumes "lawful_conditions (se_SetStatusCondition r) (se_RemoveStatusCondition r)"
  shows "findCondition t (lst_Conditions (lp_Status (log_put r c p))) =
    (if t = c_Type c then Some c else findCondition t (lst_Conditions (lp_Status p)))"
  using assms by (simp add: log_put_def lawful_conditions_def)

lemma log_put_meta [simp]: "lp_ObjectMeta (log_put r c p) = lp_ObjectMeta p"
  by (simp add: log_put_def)

lemma fluentbit_setters:
  assumes "fluentbit_setAgentHealthyCondition r p1 = Ret p2"
    and "setFluentBitConfigGeneratedCondition fips r p2 = Ret p3"
    and "fluentbit_setFlowHealthCondition fips prober r p3 = Ret (p4, ferr)"
  shows "\<exists>ag cg fl. c_Type ag = TypeAgentHealthy \<and> c_ObservedGeneration ag = 0 \<and>
    c_Type cg = TypeConfigurationGenerated \<and> c_Type fl = TypeFlowHealthy \<and>
    p4 = log_put_observed r fl (log_put_observed r cg (log_put r ag p1))"
proof -
  from assms(1) obtain ag where ag: "GetAgentHealthyCondition (se_agentProber r)
      \<lparr>nn_Namespace = se_targetNamespace r, nn_Name = Names.FluentBit\<rparr> SignalTypeLogFluentBit = Ret ag"
    "p2 = log_put r ag p1"
    by (auto simp: fluentbit_setAgentHealthyCondition_def gbind_eq_Ret)
  from assms(2) obtain st reason msg where
    "p3 = log_put_observed r (condition TypeConfigurationGenerated st reason msg) p2"
    by (auto simp: setFluentBitConfigGeneratedCondition_def gbind_eq_Ret)
  moreover from assms(3) obtain st' reason' msg' where
    "p4 = log_put_observed r (condition TypeFlowHealthy st' reason' msg') p3"
    by (auto simp: fluentbit_setFlowHealthCondition_def gbind_eq_Ret)
  moreover have "c_ObservedGeneration ag = 0"
    using ag(1) unfolding GetAgentHealthyCondition_def by (rule probedCondition_generation)
  ultimately show ?thesis
    using ag(2) Agent_type [OF ag(1)] condition_simps(1) by blast
qed

lemma fluentbit_updateStatus_last:
  assumes "fluentbit_updateStatus fips prober r get upd name = Ret (ws @ [p'], err)"
  shows "\<exists>p1 p2 p3 ferr. fluentbit_setAgentHealthyCondition r p1 = Ret p2 \<and>
    setFluentBitConfigGeneratedCondition fips r p2 = Ret p3 \<and>
    fluentbit_setFlowHealthCondition fips prober r p3 = Ret (p', ferr)"
proof -
  from assms obtain p where p: "get name = Inr p" "om_DeletionTimestamp (lp_ObjectMeta p) = None"
    by (cases "get name") (auto simp: fluentbit_updateStatus_def split: if_splits)
  obtain p1 wr me where m: "updateStatusUnsupportedMode upd p = (p1, wr, me)"
    using prod_cases3 by blast
  from assms p m obtain p2 p3 p4 ferr where
    s: "fluentbit_setAgentHealthyCondition r p1 = Ret p2" "setFluentBitConfigGeneratedCondition fips r p2 = Ret p3"
      "fluentbit_setFlowHealthCondition fips prober r p3 = Ret (p4, ferr)"
    by (auto simp: fluentbit_updateStatus_def Let_def gbind_eq_Ret)
  with assms p m have "p4 = p'"
    by (cases "upd p4") (auto simp: fluentbit_updateStatus_def Let_def)
  with s show ?thesis by blast
qed

text \<open>The status of a Fluent Bit log pipeline as it is written has the generation the configuration and
  flow conditions were computed for, but the condition on the agent's health always has generation zero, unlike
  that of the other pipelines: a client cannot tell whether it is up to date.\<close>

lemma fluentbit_agent_condition_generation:
  assumes lawful: "lawful_conditions (se_SetStatusCondition r) (se_RemoveStatusCondition r)"
    and "fluentbit_updateStatus fips prober r get upd name = Ret (ws @ [p'], err)"
  shows "\<exists>ag cg fl.
    findCondition TypeAgentHealthy (lst_Conditions (lp_Status p')) = Some ag \<and>
    findCondition TypeConfigurationGenerated (lst_Conditions (lp_Status p')) = Some cg \<and>
    findCondition TypeFlowHealthy (lst_Conditions (lp_Status p')) = Some fl \<and>
    c_ObservedGeneration ag = 0 \<and>
    c_ObservedGeneration cg = om_Generation (lp_ObjectMeta p') \<and>
    c_ObservedGeneration fl = om_Generation (lp_ObjectMeta p')"
proof -
  from fluentbit_updateStatus_last [OF assms(2)] fluentbit_setters obtain p1 ag cg fl where
    "c_Type ag = TypeAgentHealthy" "c_ObservedGeneration ag = 0" "c_Type cg = TypeConfigurationGenerated"
    "c_Type fl = TypeFlowHealthy" "p' = log_put_observed r fl (log_put_observed r cg (log_put r ag p1))"
    by metis
  then show ?thesis by (simp add: log_put_find [OF lawful])
qed

definition sampleLogPipeline :: LogPipeline where
  "sampleLogPipeline = zeroLogPipeline\<lparr>lp_ObjectMeta := zeroObjectMeta\<lparr>om_Generation := 3\<rparr>,
     lp_Status := \<lparr>lst_Conditions = [], lst_UnsupportedMode = Some False\<rparr>\<rparr>"

lemma fluentbit_agent_condition_generation_witness:
  "\<exists>p'. fluentbit_updateStatus False (FluentBitProber_Probe (Inr []))
       (sampleEnv typeLogPipeline [] (\<lambda>_. Ret None)) (\<lambda>_. Inr sampleLogPipeline) Inr ''cls'' = Ret ([p'], None) \<and>
     om_Generation (lp_ObjectMeta p') = 3 \<and>
     map_option c_ObservedGeneration (findCondition TypeAgentHealthy (lst_Conditions (lp_Status p'))) = Some 0"
proof -
  let ?r = "sampleEnv typeLogPipeline [] (\<lambda>_. Ret None) :: LogPipeline status_env"
  have "\<exists>p'. fluentbit_updateStatus False (FluentBitProber_Probe (Inr [])) ?r
      (\<lambda>_. Inr sampleLogPipeline) Inr ''cls'' = Ret ([p'], None) \<and> om_Generation (lp_ObjectMeta p') = 3"
    by (simp add: fluentbit_updateStatus_def sampleLogPipeline_def zeroLogPipeline_def zeroObjectMeta_def
        updateStatusUnsupportedMode_def ContainsCustomPlugin_def IsCustomOutputDefined_def
        fluentbit_setAgentHealthyCondition_def GetAgentHealthyCondition_def probedCondition_def
        setFluentBitConfigGeneratedCondition_def fluentbit_evaluateConfigGeneratedCondition_def
        fluentbit_setFlowHealthCondition_def fluentbit_evaluateFlowHealthCondition_def
        FluentBitProber_Probe_def Let_def)
  then obtain p' where p': "fluentbit_updateStatus False (FluentBitProber_Probe (Inr [])) ?r
      (\<lambda>_. Inr sampleLogPipeline) Inr ''cls'' = Ret ([p'], None)" "om_Generation (lp_ObjectMeta p') = 3"
    by blast
  then have "fluentbit_updateStatus False (FluentBitProber_Probe (Inr [])) ?r
      (\<lambda>_. Inr sampleLogPipeline) Inr ''cls'' = Ret ([] @ [p'], None)" by simp
  from fluentbit_agent_condition_generation [OF _ this] upsert_lawful p' show ?thesis by auto
qed

end
