(* ===== verification/SecretWatch.thy ===== *)
theory SecretWatch
  imports Api_Types Errors "HOL-Library.Multiset"
begin

text \<open>
  \<open>internal/secretwatch\<close>: which pipelines are linked with the watcher of which Secret.

  The client's map of watchers is a list of pairs with distinct keys, so that \<open>range\<close> over the map is a walk
  through the list; nothing depends on its order.  Besides the fields of the Go struct the state records the
  watchers' goroutines that were started and not cancelled, by the Secret they watch, and the two gauges.  The
  mutexes serialise the methods, so that a run of the client is a sequence of calls.
\<close>

section \<open>Watchers\<close>

record GroupVersionKind =
  gvk_Group :: string
  gvk_Version :: string
  gvk_Kind :: string

text \<open>What the package reads of a pipeline: its name and its group, version and kind.\<close>

record pipeline_id =
  pid_Name :: string
  pid_GVK :: GroupVersionKind

definition samePipeline :: "pipeline_id \<Rightarrow> pipeline_id \<Rightarrow> bool" where
  "samePipeline a b \<longleftrightarrow> pid_Name a = pid_Name b \<and> pid_GVK a = pid_GVK b"

record watcher =
  w_secret :: NamespacedName
  w_linked :: "pipeline_id list"

definition newWatcher :: "NamespacedName \<Rightarrow> pipeline_id \<Rightarrow> watcher" where
  "newWatcher secret pipeline = \<lparr>w_secret = secret, w_linked = [pipeline]\<rparr>"

definition link :: "pipeline_id \<Rightarrow> watcher \<Rightarrow> bool \<times> watcher" where
  "link pipeline w =
     (if list_ex (\<lambda>p. samePipeline p pipeline) (w_linked w) then (False, w)
      else (True, w\<lparr>w_linked := w_linked w @ [pipeline]\<rparr>))"

definition isLinked :: "string \<Rightarrow> GroupVersionKind \<Rightarrow> watcher \<Rightarrow> bool" where
  "isLinked name gvk w \<longleftrightarrow> list_ex (\<lambda>p. pid_Name p = name \<and> pid_GVK p = gvk) (w_linked w)"

definition unlink :: "string \<Rightarrow> GroupVersionKind \<Rightarrow> watcher \<Rightarrow> bool \<times> watcher" where
  "unlink name gvk w =
     (let w' = w\<lparr>w_linked := filter (\<lambda>p. \<not> (pid_Name p = name \<and> pid_GVK p = gvk)) (w_linked w)\<rparr>
      in (length (w_linked w') > 0, w'))"

definition getLinkedPipelines :: "watcher \<Rightarrow> pipeline_id list" where
  "getLinkedPipelines w = w_linked w"

definition secretNameFieldSelector :: "watcher \<Rightarrow> string" where
  "secretNameFieldSelector w = ''metadata.name='' @ nn_Name (w_secret w)"

text \<open>The loop over the events of one watch, up to an error or the closing of the channel, as the pipelines it
  passes to the event router in order.  Every event comes with the watcher as it is when the event is received,
  since pipelines are linked and unlinked meanwhile.\<close>

datatype watch_event = WatchError | SecretChanged | OtherObject

fun processEventLoop :: "(watch_event \<times> watcher) list \<Rightarrow> pipeline_id list" where
  "processEventLoop [] = []"
| "processEventLoop ((WatchError, _) # _) = []"
| "processEventLoop ((OtherObject, _) # es) = processEventLoop es"
| "processEventLoop ((SecretChanged, w) # es) = getLinkedPipelines w @ processEventLoop es"

section \<open>The client\<close>

record Client =
  sw_watchers :: "(NamespacedName \<times> watcher) list"
  sw_stopped :: bool
  sw_running :: "NamespacedName multiset"
  sw_active :: "NamespacedName \<Rightarrow> int"
  sw_linkedGauge :: "NamespacedName \<Rightarrow> string \<Rightarrow> int"

definition NewClient :: Client where
  "NewClient =
     \<lparr>sw_watchers = [], sw_stopped = False, sw_running = {#}, sw_active = (\<lambda>_. 0), sw_linkedGauge = (\<lambda>_ _. 0)\<rparr>"

definition gaugeAdd :: "NamespacedName \<Rightarrow> string \<Rightarrow> int \<Rightarrow> Client \<Rightarrow> Client" where
  "gaugeAdd secret kind d c =
     c\<lparr>sw_linkedGauge := (sw_linkedGauge c)(secret := (sw_linkedGauge c secret)
       (kind := sw_linkedGauge c secret kind + d))\<rparr>"

text \<open>Writing to a key of the map, and deleting it.\<close>

definition put :: "'k \<Rightarrow> 'v \<Rightarrow> ('k \<times> 'v) list \<Rightarrow> ('k \<times> 'v) list" where
  "put k v m =
     (if map_of m k = None then m @ [(k, v)] else map (\<lambda>(k', v'). (k', if k' = k then v else v')) m)"

definition delete :: "'k \<Rightarrow> ('k \<times> 'v) list \<Rightarrow> ('k \<times> 'v) list" where
  "delete k m = filter (\<lambda>(k', _). k' \<noteq> k) m"

text \<open>\<open>startWatcher\<close>: one more goroutine.\<close>

definition startWatcher :: "NamespacedName \<Rightarrow> Client \<Rightarrow> Client" where
  "startWatcher secret c = c\<lparr>sw_running := add_mset secret (sw_running c)\<rparr>"

text \<open>The body of the first loop of \<open>SyncWatchers\<close>.\<close>

definition watchSecret :: "pipeline_id \<Rightarrow> NamespacedName \<Rightarrow> Client \<Rightarrow> Client" where
  "watchSecret pipeline secret c =
     (let pipelineKind = gvk_Kind (pid_GVK pipeline)
      in case map_of (sw_watchers c) secret of
           Some w \<Rightarrow>
             (let (added, w') = link pipeline w;
                  c' = c\<lparr>sw_watchers := put secret w' (sw_watchers c)\<rparr>
              in if added then gaugeAdd secret pipelineKind 1 c' else c')
         | None \<Rightarrow>
             (let w = newWatcher secret pipeline;
                  c1 = startWatcher secret c;
                  c2 = c1\<lparr>sw_watchers := put secret w (sw_watchers c1)\<rparr>;
                  c3 = c2\<lparr>sw_active := (sw_active c2)(secret := sw_active c2 secret + 1)\<rparr>
              in gaugeAdd secret pipelineKind 1 c3))"

text \<open>The body of the loop of \<open>unlinkPipelineFromWatchers\<close>; an exclude set that is nil is \<open>None\<close>.\<close>

definition unlinkOne ::
    "string \<Rightarrow> GroupVersionKind \<Rightarrow> NamespacedName set option \<Rightarrow> NamespacedName \<times> watcher \<Rightarrow> Client \<Rightarrow> Client" where
  "unlinkOne name gvk excludeSet entry c =
     (let (watchedSecret, w) = entry
      in if (case excludeSet of None \<Rightarrow> False | Some S \<Rightarrow> watchedSecret \<in> S) then c
         else if \<not> isLinked name gvk w then c
         else
           let (hasPipelines, w') = unlink name gvk w;
               c1 = c\<lparr>sw_watchers := put watchedSecret w' (sw_watchers c)\<rparr>;
               c2 = gaugeAdd watchedSecret (gvk_Kind gvk) (-1) c1
           in if hasPipelines then c2
              else c2\<lparr>sw_running := sw_running c2 - {#watchedSecret#},
                     sw_watchers := delete watchedSecret (sw_watchers c2),
                     sw_active := (sw_active c2)(watchedSecret := 0)\<rparr>)"

definition unlinkPipelineFromWatchers ::
    "string \<Rightarrow> GroupVersionKind \<Rightarrow> NamespacedName set option \<Rightarrow> Client \<Rightarrow> Client" where
  "unlinkPipelineFromWatchers name gvk excludeSet c =
     fold (unlinkOne name gvk excludeSet) (sw_watchers c) c"

definition SyncWatchers ::
    "pipeline_id \<Rightarrow> NamespacedName list \<Rightarrow> Client \<Rightarrow> Client \<times> go_error option" where
  "SyncWatchers pipeline secrets c =
     (if sw_stopped c then (c, Some (Sentinel ErrClientStopped))
      else
        let c' = fold (watchSecret pipeline) (dedup_seen {} secrets) c
        in (unlinkPipelineFromWatchers (pid_Name pipeline) (pid_GVK pipeline) (Some (set secrets)) c', None))"

definition RemoveFromWatchers :: "string \<Rightarrow> GroupVersionKind \<Rightarrow> Client \<Rightarrow> Client \<times> go_error option" where
  "RemoveFromWatchers name gvk c =
     (if sw_stopped c then (c, Some (Sentinel ErrClientStopped))
      else (unlinkPipelineFromWatchers name gvk None c, None))"

text \<open>\<open>Stop\<close> cancels every watcher; waiting for the goroutines has no effect on the state.\<close>

definition Stop :: "Client \<Rightarrow> Client" where
  "Stop c = c\<lparr>sw_stopped := True, sw_running := fold (\<lambda>(k, _) r. r - {#k#}) (sw_watchers c) (sw_running c)\<rparr>"

section \<open>The invariant\<close>

definition keys :: "('k \<times> 'v) list \<Rightarrow> 'k list" where
  "keys m = map fst m"

definition linked :: "Client \<Rightarrow> NamespacedName \<Rightarrow> pipeline_id list" where
  "linked c s = (case map_of (sw_watchers c) s of None \<Rightarrow> [] | Some w \<Rightarrow> w_linked w)"

definition count_kind :: "string \<Rightarrow> pipeline_id list \<Rightarrow> int" where
  "count_kind kind ps = int (length (filter (\<lambda>p. gvk_Kind (pid_GVK p) = kind) ps))"

text \<open>Every watcher is there for some pipeline, links each one once, has exactly one goroutine, and the gauges
  show what is there.\<close>

definition watchers_inv :: "Client \<Rightarrow> bool" where
  "watchers_inv c \<longleftrightarrow>
     distinct (keys (sw_watchers c)) \<and>
     (\<forall>s w. map_of (sw_watchers c) s = Some w \<longrightarrow> w_secret w = s \<and> w_linked w \<noteq> [] \<and> distinct (w_linked w)) \<and>
     (\<forall>s. sw_active c s = (if s \<in> set (keys (sw_watchers c)) then 1 else 0)) \<and>
     (\<forall>s kind. sw_linkedGauge c s kind = count_kind kind (linked c s))"

definition client_inv :: "Client \<Rightarrow> bool" where
  "client_inv c \<longleftrightarrow> watchers_inv c \<and>
     sw_running c = (if sw_stopped c then {#} else mset (keys (sw_watchers c)))"

lemma samePipeline_iff [simp]: "samePipeline a b \<longleftrightarrow> a = b"
  by (auto simp: samePipeline_def)

lemma map_of_put [simp]: "map_of (put k v m) = (map_of m)(k \<mapsto> v)"
proof (cases "map_of m k")
  case None
  then show ?thesis by (auto simp: put_def map_add_def fun_eq_iff split: option.split)
next
  case (Some x)
  have "map_of (map (\<lambda>(k', v'). (k', if k' = k then v else v')) m) =
      (\<lambda>j. map_option (\<lambda>v'. if j = k then v else v') (map_of m j))"
    by (induction m) (auto simp: fun_eq_iff)
  then have "map_of (put k v m) j = ((map_of m)(k \<mapsto> v)) j" for j
    using Some by (cases "map_of m j"; cases "j = k") (auto simp: put_def)
  then show ?thesis by (rule ext)
qed

lemma keys_put: "keys (put k v m) = (if map_of m k = None then keys m @ [k] else keys m)"
  by (simp add: put_def keys_def comp_def case_prod_unfold)

lemma set_keys: "k \<in> set (keys m) \<longleftrightarrow> map_of m k \<noteq> None"
  by (simp add: keys_def map_of_eq_None_iff)

lemma distinct_put: "distinct (keys m) \<Longrightarrow> distinct (keys (put k v m))"
  by (auto simp: keys_put set_keys)

lemma map_of_delete [simp]: "map_of (delete k m) = (map_of m)(k := None)"
  by (induction m) (auto simp: delete_def fun_eq_iff)

lemma keys_delete: "keys (delete k m) = filter (\<lambda>j. j \<noteq> k) (keys m)"
  by (induction m) (auto simp: delete_def keys_def)

lemma mset_keys_delete:
  "distinct (keys m) \<Longrightarrow> map_of m k \<noteq> None \<Longrightarrow> mset (keys (delete k m)) = mset (keys m) - {#k#}"
  unfolding keys_delete by (metis (mono_tags, lifting) distinct_remove1_removeAll filter_cong mset_remove1
      removeAll_filter_not_eq)

lemma count_kind_append [simp]: "count_kind kind (xs @ ys) = count_kind kind xs + count_kind kind ys"
  by (simp add: count_kind_def)

lemma count_kind_single [simp]:
  "count_kind kind [p] = (if gvk_Kind (pid_GVK p) = kind then 1 else 0)" "count_kind kind [] = 0"
  by (simp_all add: count_kind_def)

lemma gaugeAdd_simps [simp]:
  "sw_watchers (gaugeAdd s k d c) = sw_watchers c" "sw_stopped (gaugeAdd s k d c) = sw_stopped c"
  "sw_running (gaugeAdd s k d c) = sw_running c" "sw_active (gaugeAdd s k d c) = sw_active c"
  "linked (gaugeAdd s k d c) = linked c"
  by (simp_all add: gaugeAdd_def linked_def fun_eq_iff)

lemma gaugeAdd_gauge:
  "sw_linkedGauge (gaugeAdd s k d c) s' k' = sw_linkedGauge c s' k' + (if s' = s \<and> k' = k then d else 0)"
  by (simp add: gaugeAdd_def)

lemma linked_put: "sw_watchers c' = put s w (sw_watchers c) \<Longrightarrow> linked c' = (linked c)(s := w_linked w)"
  by (simp add: linked_def fun_eq_iff)

lemma linked_delete: "sw_watchers c' = delete s (sw_watchers c) \<Longrightarrow> linked c' = (linked c)(s := [])"
  by (simp add: linked_def fun_eq_iff)

lemma client_invE:
  assumes "client_inv c" "\<not> sw_stopped c"
  shows "distinct (keys (sw_watchers c))" "sw_running c = mset (keys (sw_watchers c))"
    "sw_active c s = (if s \<in> set (keys (sw_watchers c)) then 1 else 0)"
    "sw_linkedGauge c s kind = count_kind kind (linked c s)"
    "map_of (sw_watchers c) s = Some w \<Longrightarrow> w_secret w = s \<and> w_linked w \<noteq> [] \<and> distinct (w_linked w)"
  using assms by (auto simp: client_inv_def watchers_inv_def)

lemma watchSecret_step:
  assumes inv: "client_inv c" and run: "\<not> sw_stopped c"
  shows "client_inv (watchSecret p s c) \<and> \<not> sw_stopped (watchSecret p s c) \<and>
    linked (watchSecret p s c) = (linked c)(s := if p \<in> set (linked c s) then linked c s else linked c s @ [p])"
proof (cases "map_of (sw_watchers c) s")
  case None
  let ?c' = "watchSecret p s c"
  have ws: "sw_watchers ?c' = put s (newWatcher s p) (sw_watchers c)"
    using None by (simp add: watchSecret_def startWatcher_def Let_def)
  have l: "linked ?c' = (linked c)(s := [p])"
    using linked_put [OF ws] by (simp add: newWatcher_def)
  have l0: "linked c s = []" using None by (simp add: linked_def)
  have "client_inv ?c'"
    unfolding client_inv_def watchers_inv_def ws l
    using None client_invE [OF inv run] l0 run
    by (auto simp: keys_put set_keys newWatcher_def watchSecret_def startWatcher_def gaugeAdd_gauge Let_def)
  moreover have "\<not> sw_stopped ?c'"
    using None run by (simp add: watchSecret_def startWatcher_def Let_def)
  ultimately show ?thesis using l l0 by simp
next
  case (Some w)
  let ?c' = "watchSecret p s c" and ?new = "if p \<in> set (w_linked w) then w_linked w else w_linked w @ [p]"
  have ws: "sw_watchers ?c' = put s (w\<lparr>w_linked := ?new\<rparr>) (sw_watchers c)"
    using Some by (auto simp: watchSecret_def link_def list_ex_iff Let_def)
  have l: "linked ?c' = (linked c)(s := ?new)"
    using linked_put [OF ws] by simp
  have l0: "linked c s = w_linked w" using Some by (simp add: linked_def)
  have rest: "sw_stopped ?c' = sw_stopped c" "sw_running ?c' = sw_running c" "sw_active ?c' = sw_active c"
    "sw_linkedGauge ?c' s' k' = sw_linkedGauge c s' k' +
       (if s' = s \<and> k' = gvk_Kind (pid_GVK p) \<and> p \<notin> set (w_linked w) then 1 else 0)" for s' k'
    using Some by (auto simp: watchSecret_def link_def list_ex_iff gaugeAdd_gauge Let_def)
  have "client_inv ?c'"
    unfolding client_inv_def watchers_inv_def ws l rest
    using Some client_invE [OF inv run] l0 run
    by (auto simp: keys_put set_keys)
  with l l0 rest run show ?thesis by simp
qed

lemma watchSecret_fold:
  assumes "client_inv c" "\<not> sw_stopped c"
  shows "client_inv (fold (watchSecret p) ss c) \<and> \<not> sw_stopped (fold (watchSecret p) ss c) \<and>
    (\<forall>s. set (linked (fold (watchSecret p) ss c) s) = set (linked c s) \<union> (if s \<in> set ss then {p} else {}))"
  using assms
proof (induction ss arbitrary: c)
  case (Cons s ss)
  from watchSecret_step [OF Cons.prems, of p s] Cons.IH [of "watchSecret p s c"]
  show ?case by auto
qed simp

abbreviation others :: "string \<Rightarrow> GroupVersionKind \<Rightarrow> pipeline_id list \<Rightarrow> pipeline_id list" where
  "others name gvk ps \<equiv> filter (\<lambda>p. \<not> (pid_Name p = name \<and> pid_GVK p = gvk)) ps"

lemma pid_eq: "pid_Name q = pid_Name p \<and> pid_GVK q = pid_GVK p \<longleftrightarrow> q = p"
  for p q :: pipeline_id
  by auto

lemma count_kind_others:
  assumes "distinct ps" "p \<in> set ps" "pid_Name p = name" "pid_GVK p = gvk"
  shows "count_kind kind (others name gvk ps) = count_kind kind ps - (if kind = gvk_Kind gvk then 1 else 0)"
proof -
  obtain xs ys where ps: "ps = xs @ p # ys" using assms(2) by (meson split_list)
  have "\<forall>q\<in>set (xs @ ys). \<not> (pid_Name q = name \<and> pid_GVK q = gvk)"
    using assms(1,3,4) ps by (auto simp: pid_eq simp flip: assms(3,4))
  then have "others name gvk ps = xs @ ys"
    using assms ps by (auto simp: filter_id_conv)
  then show ?thesis
    using assms(4) by (simp add: ps count_kind_def)
qed

definition excluded :: "NamespacedName set option \<Rightarrow> NamespacedName \<Rightarrow> bool" where
  "excluded ex s = (case ex of None \<Rightarrow> False | Some S \<Rightarrow> s \<in> S)"

lemma unlinkOne_step:
  assumes inv: "client_inv c" and run: "\<not> sw_stopped c" and w: "map_of (sw_watchers c) s = Some w"
    and c'_def: "c' = unlinkOne name gvk ex (s, w) c"
  shows "client_inv c' \<and> \<not> sw_stopped c' \<and>
    linked c' = (linked c)(s := if excluded ex s then linked c s else others name gvk (linked c s)) \<and>
    (\<forall>s'. s' \<noteq> s \<longrightarrow> map_of (sw_watchers c') s' = map_of (sw_watchers c) s')"
proof (cases "excluded ex s \<or> \<not> isLinked name gvk w")
  case True
  then have "c' = c" by (auto simp: c'_def unlinkOne_def excluded_def)
  moreover have "others name gvk (linked c s) = linked c s" if "\<not> isLinked name gvk w"
    using that w by (auto simp: isLinked_def list_ex_iff linked_def filter_id_conv)
  ultimately show ?thesis using True inv run by auto
next
  case False
  let ?l = "others name gvk (w_linked w)" and ?c2 = "gaugeAdd s (gvk_Kind gvk) (-1)
      (c\<lparr>sw_watchers := put s (w\<lparr>w_linked := others name gvk (w_linked w)\<rparr>) (sw_watchers c)\<rparr>)"
  from False obtain p where p: "p \<in> set (w_linked w)" "pid_Name p = name" "pid_GVK p = gvk"
    by (auto simp: isLinked_def list_ex_iff)
  note I = client_invE [OF inv run]
  have l0: "linked c s = w_linked w" using w by (simp add: linked_def)
  have g: "sw_linkedGauge ?c2 s' k = count_kind k (((linked c)(s := ?l)) s')" for s' k
    using I(4) I(5) [OF w] l0 count_kind_others [OF _ p] by (auto simp: gaugeAdd_gauge)
  have c': "c' = (if ?l \<noteq> [] then ?c2 else ?c2\<lparr>sw_running := sw_running ?c2 - {#s#},
      sw_watchers := delete s (sw_watchers ?c2), sw_active := (sw_active ?c2)(s := 0)\<rparr>)"
    using False by (simp add: c'_def unlinkOne_def unlink_def excluded_def Let_def)
  show ?thesis
  proof (cases "?l = []")
    case True
    have ws: "sw_watchers c' = delete s (sw_watchers ?c2)" using True c' by simp
    have l: "linked c' = (linked c)(s := [])"
      using ws by (auto simp: linked_def fun_eq_iff)
    have "client_inv c'"
      unfolding client_inv_def watchers_inv_def ws l
      using True w I(1-3) I(5) g run mset_keys_delete [OF I(1), of s]
      by (auto simp: c' keys_delete keys_put set_keys)
    with True c' l l0 run ws False show ?thesis by auto
  next
    case False
    have ws: "sw_watchers c' = put s (w\<lparr>w_linked := ?l\<rparr>) (sw_watchers c)" using False c' by simp
    have l: "linked c' = (linked c)(s := ?l)" using linked_put [OF ws] by simp
    have "client_inv c'"
      unfolding client_inv_def watchers_inv_def ws l
      using False w I(1-3) I(5) g run by (auto simp: c' keys_put set_keys)
    with False c' l l0 run ws \<open>\<not> (excluded ex s \<or> \<not> isLinked name gvk w)\<close> show ?thesis by auto
  qed
qed


lemma unlink_fold:
  assumes "client_inv c" "\<not> sw_stopped c" "distinct (keys es)"
    and "\<forall>(s, w)\<in>set es. map_of (sw_watchers c) s = Some w"
    and "c' = fold (unlinkOne name gvk ex) es c"
  shows "client_inv c' \<and> \<not> sw_stopped c' \<and>
    (\<forall>s. linked c' s = (if s \<in> set (keys es) \<and> \<not> excluded ex s then others name gvk (linked c s) else linked c s))"
  using assms
proof (induction es arbitrary: c)
  case Nil
  then show ?case by (simp add: keys_def)
next
  case (Cons e es)
  obtain s w where e: "e = (s, w)" by (cases e)
  let ?c1 = "unlinkOne name gvk ex (s, w) c"
  have step: "client_inv ?c1" "\<not> sw_stopped ?c1"
    "linked ?c1 = (linked c)(s := if excluded ex s then linked c s else others name gvk (linked c s))"
    "\<And>s'. s' \<noteq> s \<Longrightarrow> map_of (sw_watchers ?c1) s' = map_of (sw_watchers c) s'"
    using unlinkOne_step [OF Cons.prems(1,2) _ refl, of s w] Cons.prems(4) e by auto
  have new: "s \<notin> set (keys es)" using Cons.prems(3) e by (simp add: keys_def)
  then have "\<forall>(s', w')\<in>set es. map_of (sw_watchers ?c1) s' = Some w'"
    using Cons.prems(4) step(4) by (force simp: keys_def)
  with Cons.IH [OF step(1,2)] Cons.prems(3,5) e
  have "client_inv c' \<and> \<not> sw_stopped c' \<and> (\<forall>s'. linked c' s' =
      (if s' \<in> set (keys es) \<and> \<not> excluded ex s' then others name gvk (linked ?c1 s') else linked ?c1 s'))"
    by (simp add: keys_def)
  then show ?case using step(3) new e by (auto simp: keys_def)
qed

lemma unlinkPipelineFromWatchers_step:
  assumes "client_inv c" "\<not> sw_stopped c" and c'_def: "c' = unlinkPipelineFromWatchers name gvk ex c"
  shows "client_inv c' \<and> \<not> sw_stopped c' \<and>
    (\<forall>s. linked c' s = (if excluded ex s then linked c s else others name gvk (linked c s)))"
proof -
  have d: "distinct (keys (sw_watchers c))" using client_invE(1) [OF assms(1,2)] .
  then have "\<forall>(s, w)\<in>set (sw_watchers c). map_of (sw_watchers c) s = Some w"
    by (auto simp: keys_def)
  moreover have "linked c s = []" if "s \<notin> set (keys (sw_watchers c))" for s
    using that by (simp add: linked_def set_keys)
  ultimately show ?thesis
    using unlink_fold [OF assms(1,2) d _ c'_def [unfolded unlinkPipelineFromWatchers_def]] by auto
qed

section \<open>What the client promises\<close>

text \<open>The relation the client maintains: the pipelines that are reconciled when a Secret changes.\<close>

definition watching :: "Client \<Rightarrow> (pipeline_id \<times> NamespacedName) set" where
  "watching c = {(p, s). p \<in> set (linked c s)}"

text \<open>The abstract operations on that relation.\<close>

definition watch_only :: "pipeline_id \<Rightarrow> NamespacedName set \<Rightarrow> (pipeline_id \<times> NamespacedName) set \<Rightarrow>
    (pipeline_id \<times> NamespacedName) set" where
  "watch_only p S R = {(q, s) \<in> R. q \<noteq> p} \<union> {p} \<times> S"



lemma SyncWatchers_step:
  assumes inv: "client_inv c" and run: "\<not> sw_stopped c" and call: "SyncWatchers p ss c = (c', err)"
  shows "err = None \<and> client_inv c' \<and> \<not> sw_stopped c' \<and> watching c' = watch_only p (set ss) (watching c)"
proof -
  let ?c1 = "fold (watchSecret p) (dedup_seen {} ss) c"
  have c1: "client_inv ?c1" "\<not> sw_stopped ?c1"
    "\<And>s. set (linked ?c1 s) = set (linked c s) \<union> (if s \<in> set ss then {p} else {})"
    using watchSecret_fold [OF inv run, of p "dedup_seen {} ss"] by (auto simp: set_dedup_seen)
  have c': "c' = unlinkPipelineFromWatchers (pid_Name p) (pid_GVK p) (Some (set ss)) ?c1" and "err = None"
    using call run by (auto simp: SyncWatchers_def Let_def)
  note U = unlinkPipelineFromWatchers_step [OF c1(1,2) c']
  have "set (linked c' s) = (if s \<in> set ss then set (linked c s) \<union> {p} else set (linked c s) - {p})" for s
    using U c1(3) by (auto simp: excluded_def pid_eq)
  with U \<open>err = None\<close> show ?thesis
    by (auto simp: watching_def watch_only_def split: if_splits)
qed

lemma RemoveFromWatchers_step:
  assumes inv: "client_inv c" and run: "\<not> sw_stopped c"
    and call: "RemoveFromWatchers (pid_Name p) (pid_GVK p) c = (c', err)"
  shows "err = None \<and> client_inv c' \<and> \<not> sw_stopped c' \<and> watching c' = watch_only p {} (watching c)"
  using unlinkPipelineFromWatchers_step [OF inv run, of c' "pid_Name p" "pid_GVK p" None] call run
  by (auto simp: RemoveFromWatchers_def excluded_def watching_def watch_only_def pid_eq)

lemma cancel_all: "fold (\<lambda>(k, _) r. r - {#k#}) es (mset (keys es) + M) = M"
  by (induction es) (auto simp: keys_def)

lemma Stop_step:
  assumes "client_inv c" "\<not> sw_stopped c"
  shows "client_inv (Stop c) \<and> sw_stopped (Stop c) \<and> sw_running (Stop c) = {#} \<and> watching (Stop c) = watching c"
proof -
  have "sw_running (Stop c) = {#}"
    using cancel_all [of "sw_watchers c" "{#}"] client_invE(2) [OF assms] by (simp add: Stop_def)
  moreover have "linked (Stop c) = linked c" by (simp add: Stop_def linked_def fun_eq_iff)
  ultimately show ?thesis
    using assms(1) by (simp add: client_inv_def watchers_inv_def watching_def) (simp add: Stop_def)
qed

section \<open>Runs of the client\<close>

text \<open>The calls the reconcilers make, and what a call does to the client when it is running and to the relation.\<close>

datatype watch_call = Sync pipeline_id "NamespacedName list" | Remove pipeline_id

fun call_pipeline :: "watch_call \<Rightarrow> pipeline_id" where
  "call_pipeline (Sync p _) = p"
| "call_pipeline (Remove p) = p"

fun call_secrets :: "watch_call \<Rightarrow> NamespacedName set" where
  "call_secrets (Sync _ ss) = set ss"
| "call_secrets (Remove _) = {}"

fun perform :: "watch_call \<Rightarrow> Client \<Rightarrow> Client" where
  "perform (Sync p ss) c = fst (SyncWatchers p ss c)"
| "perform (Remove p) c = fst (RemoveFromWatchers (pid_Name p) (pid_GVK p) c)"

text \<open>The interface a reconciler relies on: each call replaces the Secrets of one pipeline.\<close>

locale secret_watcher =
  fixes call :: "watch_call \<Rightarrow> 'c \<Rightarrow> 'c"
    and rel :: "'c \<Rightarrow> (pipeline_id \<times> NamespacedName) set"
    and ok :: "'c \<Rightarrow> bool"
  assumes ok_call: "ok c \<Longrightarrow> ok (call x c)"
    and rel_call: "ok c \<Longrightarrow> rel (call x c) = watch_only (call_pipeline x) (call_secrets x) (rel c)"
begin

lemma ok_calls: "ok c \<Longrightarrow> ok (fold call xs c)"
  by (induction xs arbitrary: c) (auto simp: ok_call)

lemma other_pipeline: "ok c \<Longrightarrow> q \<noteq> call_pipeline x \<Longrightarrow> (q, s) \<in> rel (call x c) \<longleftrightarrow> (q, s) \<in> rel c"
  by (simp add: rel_call watch_only_def)

lemma own_pipeline: "ok c \<Longrightarrow> (call_pipeline x, s) \<in> rel (call x c) \<longleftrightarrow> s \<in> call_secrets x"
  by (simp add: rel_call watch_only_def)

lemma last_call_decides:
  "ok c \<Longrightarrow> (q, s) \<in> rel (fold call xs c) \<longleftrightarrow>
    (case find (\<lambda>x. call_pipeline x = q) (rev xs) of None \<Rightarrow> (q, s) \<in> rel c | Some x \<Rightarrow> s \<in> call_secrets x)"
proof (induction xs rule: rev_induct)
  case (snoc x xs)
  then show ?case
    using other_pipeline [OF ok_calls [OF snoc.prems], of q x s xs] own_pipeline [OF ok_calls [OF snoc.prems], of x s xs]
    by auto
qed simp

lemma repeated_call: "ok c \<Longrightarrow> rel (call x (call x c)) = rel (call x c)"
  by (auto simp: rel_call ok_call watch_only_def)

end

definition client_ok :: "Client \<Rightarrow> bool" where
  "client_ok c \<longleftrightarrow> client_inv c \<and> \<not> sw_stopped c"

lemma perform_step:
  assumes "client_ok c"
  shows "client_ok (perform x c) \<and> watching (perform x c) = watch_only (call_pipeline x) (call_secrets x) (watching c)"
proof (cases x)
  case (Sync p ss)
  then show ?thesis
    using assms SyncWatchers_step [of c p ss] by (cases "SyncWatchers p ss c") (auto simp: client_ok_def)
next
  case (Remove p)
  then show ?thesis
    using assms RemoveFromWatchers_step [of c p]
    by (cases "RemoveFromWatchers (pid_Name p) (pid_GVK p) c") (auto simp: client_ok_def)
qed

interpretation sw: secret_watcher perform watching client_ok
  by unfold_locales (auto simp: perform_step)

lemma client_ok_NewClient: "client_ok NewClient" "watching NewClient = {}"
  by (auto simp: client_ok_def client_inv_def watchers_inv_def NewClient_def keys_def linked_def watching_def)

text \<open>A run of the manager: calls, and a \<open>Stop\<close> at any time, possibly repeated.\<close>

inductive client_step :: "Client \<Rightarrow> Client \<Rightarrow> bool" where
  sync: "client_step c (fst (SyncWatchers p ss c))"
| remove: "client_step c (fst (RemoveFromWatchers name gvk c))"
| stop: "client_step c (Stop c)"

inductive_simps client_step_iff: "client_step c c'"

lemma stopped_step:
  assumes "sw_stopped c" "client_inv c" "client_step c c'"
  shows "client_inv c' \<and> sw_stopped c' \<and> watching c' = watching c"
  using assms(3)
proof cases
  case stop
  have "fold (\<lambda>(k, _) r. r - {#k#}) es {#} = {#}" for es :: "(NamespacedName \<times> watcher) list"
    by (induction es) auto
  then show ?thesis
    using assms(1,2) stop
    by (simp add: Stop_def client_inv_def watchers_inv_def watching_def linked_def)
qed (use assms in \<open>simp_all add: SyncWatchers_def RemoveFromWatchers_def\<close>)

lemma client_step_inv:
  assumes "client_step c c'" "client_inv c"
  shows "client_inv c'"
proof (cases "sw_stopped c")
  case True
  with stopped_step assms show ?thesis by blast
next
  case False
  from assms(1) show ?thesis
  proof cases
    case (sync p ss)
    with SyncWatchers_step [OF assms(2) False, of p ss] show ?thesis by (metis prod.collapse)
  next
    case (remove name gvk)
    with RemoveFromWatchers_step [OF assms(2) False, of "\<lparr>pid_Name = name, pid_GVK = gvk\<rparr>"]
    show ?thesis by (metis pipeline_id.select_convs(1,2) prod.collapse)
  next
    case stop
    with Stop_step [OF assms(2) False] show ?thesis by simp
  qed
qed

text \<open>C39: In every state the secret-watch client can reach from \<open>NewClient\<close> by any interleaving of \<open>SyncWatchers\<close>,
  \<open>RemoveFromWatchers\<close> and \<open>Stop\<close>, a Secret has one running watch goroutine exactly if the client is not stopped and
  some pipeline is linked with it, never more than one, and none is left when no pipeline needs it.  The gauges
  agree: the active-watchers gauge is 1 for a Secret exactly if it has a watcher, and the linked-pipelines gauge of a
  kind is the number of linked pipelines of that kind.\<close>

theorem one_goroutine_per_watched_secret:
  assumes "client_step\<^sup>*\<^sup>* NewClient c"
  shows "count (sw_running c) s = (if \<not> sw_stopped c \<and> (\<exists>p. (p, s) \<in> watching c) then 1 else 0) \<and>
    sw_active c s = (if \<exists>p. (p, s) \<in> watching c then 1 else 0) \<and>
    sw_linkedGauge c s kind = int (card {p. (p, s) \<in> watching c \<and> gvk_Kind (pid_GVK p) = kind})"
proof (intro conjI)
  have "client_inv c" using assms
    by (induction rule: rtranclp_induct)
       (use client_ok_NewClient client_step_inv in \<open>auto simp: client_ok_def\<close>)
  then have inv: "distinct (keys (sw_watchers c))"
      "\<And>w. map_of (sw_watchers c) s = Some w \<Longrightarrow> w_linked w \<noteq> [] \<and> distinct (w_linked w)"
      "sw_active c s = (if s \<in> set (keys (sw_watchers c)) then 1 else 0)"
      "sw_linkedGauge c s kind = count_kind kind (linked c s)"
      "sw_running c = (if sw_stopped c then {#} else mset (keys (sw_watchers c)))"
    by (auto simp: client_inv_def watchers_inv_def)
  have ex: "s \<in> set (keys (sw_watchers c)) \<longleftrightarrow> (\<exists>p. (p, s) \<in> watching c)"
    using inv(2) by (cases "map_of (sw_watchers c) s")
      (auto simp: set_keys watching_def linked_def intro: hd_in_set)
  show "count (sw_running c) s = (if \<not> sw_stopped c \<and> (\<exists>p. (p, s) \<in> watching c) then 1 else 0)"
    using inv(1,5) ex by (auto simp: distinct_count_atmost_1)
  show "sw_active c s = (if \<exists>p. (p, s) \<in> watching c then 1 else 0)"
    using inv(3) ex by simp
  have "distinct (linked c s)" using inv(2) by (auto simp: linked_def split: option.split)
  then have "int (card (set (filter (\<lambda>p. gvk_Kind (pid_GVK p) = kind) (linked c s)))) = count_kind kind (linked c s)"
    by (subst distinct_card) (simp_all add: count_kind_def)
  then show "sw_linkedGauge c s kind = int (card {p. (p, s) \<in> watching c \<and> gvk_Kind (pid_GVK p) = kind})"
    using inv(4) by (simp add: watching_def)
qed

theorem one_goroutine_per_watched_secret_witness:
  "let s = \<lparr>nn_Namespace = ''default'', nn_Name = ''creds''\<rparr>;
       k = \<lparr>gvk_Group = ''telemetry.kyma-project.io'', gvk_Version = ''v1beta1'', gvk_Kind = ''MetricPipeline''\<rparr>;
       p = \<lparr>pid_Name = ''a'', pid_GVK = k\<rparr>; q = \<lparr>pid_Name = ''b'', pid_GVK = k\<rparr>;
       c = fst (SyncWatchers q [s, s] (fst (SyncWatchers p [s] NewClient)))
   in client_step\<^sup>*\<^sup>* NewClient c \<and> count (sw_running c) s = 1 \<and> sw_linkedGauge c s ''MetricPipeline'' = 2"
proof -
  define s where "s = \<lparr>nn_Namespace = ''default'', nn_Name = ''creds''\<rparr>"
  define k where
    "k = \<lparr>gvk_Group = ''telemetry.kyma-project.io'', gvk_Version = ''v1beta1'', gvk_Kind = ''MetricPipeline''\<rparr>"
  define p where "p = \<lparr>pid_Name = ''a'', pid_GVK = k\<rparr>"
  define q where "q = \<lparr>pid_Name = ''b'', pid_GVK = k\<rparr>"
  define c where "c = fst (SyncWatchers q [s, s] (fst (SyncWatchers p [s] NewClient)))"
  have reach: "client_step\<^sup>*\<^sup>* NewClient c"
    unfolding c_def by (rule rtranclp_trans [OF r_into_rtranclp r_into_rtranclp]; rule client_step.sync)
  have calls: "c = fold perform [Sync p [s], Sync q [s, s]] NewClient" by (simp add: c_def)
  have kinds: "gvk_Kind (pid_GVK p) = ''MetricPipeline''" "gvk_Kind (pid_GVK q) = ''MetricPipeline''"
    by (simp_all add: p_def q_def k_def)
  have both: "(r, s) \<in> watching c \<longleftrightarrow> r = p \<or> r = q" for r
    unfolding calls sw.last_call_decides [OF client_ok_NewClient(1)] by (simp add: client_ok_NewClient(2))
  have ex: "\<exists>r. (r, s) \<in> watching c" using both by blast
  have "{r. (r, s) \<in> watching c \<and> gvk_Kind (pid_GVK r) = ''MetricPipeline''} = {p, q}"
    unfolding both using kinds by auto
  moreover have "p \<noteq> q" by (simp add: p_def q_def)
  moreover have "\<not> sw_stopped c"
    using sw.ok_calls [OF client_ok_NewClient(1), of "[Sync p [s], Sync q [s, s]]"] calls by (simp add: client_ok_def)
  ultimately have "count (sw_running c) s = 1 \<and> sw_linkedGauge c s ''MetricPipeline'' = 2"
    using one_goroutine_per_watched_secret [OF reach, of s "''MetricPipeline''"] ex by simp
  with reach have "client_step\<^sup>*\<^sup>* NewClient c \<and> count (sw_running c) s = 1 \<and>
      sw_linkedGauge c s ''MetricPipeline'' = 2" ..
  then show ?thesis unfolding Let_def c_def s_def p_def q_def k_def .
qed

text \<open>C40: After any sequence of calls, a pipeline is notified of changes of exactly the Secrets named in its own
  last \<open>SyncWatchers\<close> call, and of none after its \<open>RemoveFromWatchers\<close>; calls for other pipelines do not matter.\<close>

theorem watched_secrets_of_last_sync:
  "(p, s) \<in> watching (fold perform calls NewClient) \<longleftrightarrow>
    (case find (\<lambda>x. call_pipeline x = p) (rev calls) of None \<Rightarrow> False | Some x \<Rightarrow> s \<in> call_secrets x)"
  unfolding sw.last_call_decides [OF client_ok_NewClient(1)] client_ok_NewClient(2) by (simp only: empty_iff)

end
