(* ===== verification/CollectorConfig.thy ===== *)
theory CollectorConfig
  imports Complex_Main CoordinationConfig
begin

text \<open>
  The configuration of an OpenTelemetry collector and the building blocks that all collectors of the module
  share: \<open>internal/otelcollector/config/common\<close> (\<open>types.go\<close>, \<open>constants.go\<close>, \<open>component_ids.go\<close>,
  \<open>ottl_expressions.go\<close>, \<open>processor_builders.go\<close>, \<open>config_builder.go\<close>, \<open>component_builder.go\<close>).

  A Go map is a partial function.  The value of a component, an \<open>any\<close> in Go, is a value of the datatype
  \<open>component\<close> with one constructor per struct the builders store; a nil \<open>any\<close> is \<open>None\<close>.  The string
  constants of the sources are abbreviations of their values.
\<close>

section \<open>Types\<close>

record TransformProcessorStatements =
  tst_Statements :: "string list"
  tst_Conditions :: "string list"

record TransformProcessorConfig =
  tc_ErrorMode :: string
  tc_LogStatements :: "TransformProcessorStatements list"
  tc_MetricStatements :: "TransformProcessorStatements list"
  tc_TraceStatements :: "TransformProcessorStatements list"

record FilterProcessorConfig =
  fc_ErrorMode :: string
  fc_Metrics :: "FilterSpec list"
  fc_Logs :: "FilterSpec list"
  fc_Traces :: "FilterSpec list"

record ExtractLabel =
  el_From :: string
  el_Key :: string
  el_TagName :: string
  el_KeyRegex :: string

record ExtractK8sMetadata =
  ek_Metadata :: "string list"
  ek_Labels :: "ExtractLabel list"
  ek_Annotations :: "ExtractLabel list"
  ek_OTelAnnotations :: bool

text \<open>The pod associations are lists of sources, each with the fields \<open>From\<close> and \<open>Name\<close>.\<close>

record K8sAttributesProcessorConfig =
  ka_AuthType :: string
  ka_Passthrough :: bool
  ka_NodeFromEnvVar :: string
  ka_Extract :: ExtractK8sMetadata
  ka_PodAssociation :: "(string \<times> string) list list"

record TLS =
  tl_Insecure :: bool
  tl_InsecureSkipVerify :: bool
  tl_CertPem :: string
  tl_KeyPem :: string
  tl_CAPem :: string

text \<open>\<open>SendingQueue\<close> with its \<open>Batch\<close>: minimal and maximal size, flush timeout in nanoseconds and sizer.\<close>

record SendingQueue =
  sq_Enabled :: bool
  sq_QueueSize :: int
  sq_Sizer :: string
  sq_Batch :: "int \<times> int \<times> int \<times> string"

record RetryOnFailure =
  rf_Enabled :: bool
  rf_InitialInterval :: string
  rf_MaxInterval :: string
  rf_MaxElapsedTime :: string

record OTLPExporterConfig =
  oe_MetricsEndpoint :: string
  oe_TracesEndpoint :: string
  oe_LogsEndpoint :: string
  oe_Endpoint :: string
  oe_Headers :: "string \<rightharpoonup> string"
  oe_TLS :: TLS
  oe_Compression :: string
  oe_SendingQueue :: SendingQueue
  oe_RetryOnFailure :: RetryOnFailure
  oe_Authenticator :: string

record OAuth2ExtensionConfig =
  ox_TokenURL :: string
  ox_ClientID :: string
  ox_ClientSecret :: string
  ox_Scopes :: "string list"
  ox_Params :: "(string \<times> string) list"

text \<open>The structs that are stored as components; small ones with their fields in the order of the source.\<close>

datatype component =
    OTLPReceiverConfig (orc_HTTP: string) (orc_GRPC: string)
  | KymaStatsReceiverConfig string string "(string \<times> string \<times> string) list" string
  | BatchProcessorConfig (bp_SendBatchSize: int) (bp_Timeout: string) (bp_SendBatchMaxSize: int)
  | MemoryLimiterConfig string int int
  | K8sAttributes K8sAttributesProcessorConfig
  | CumulativeToDeltaProcessorConfig int string
  | Transform TransformProcessorConfig
  | ServiceEnrichmentProcessorConfig "string list"
  | IstioNoiseFilterProcessorConfig
  | IstioEnrichmentProcessorConfig string
  | Filter FilterProcessorConfig
  | ForwardConnectorConfig
  | OTLPExporter OTLPExporterConfig
  | EndpointExtension string
  | CGroupRuntimeExtension bool bool rat string
  | K8sLeaderElectorExtensionConfig string string string
  | OAuth2Extension OAuth2ExtensionConfig

record ServicePipeline =
  sp_Receivers :: "string list"
  sp_Processors :: "string list"
  sp_Exporters :: "string list"

text \<open>\<open>Service.Telemetry\<close>: host, port and the three \<open>Without\<close> flags of the metric reader, the level of the
  metrics, and level and encoding of the logs.\<close>

record ServiceConfig =
  sc_Pipelines :: "string \<rightharpoonup> ServicePipeline"
  sc_Telemetry :: "(string \<times> int \<times> bool \<times> bool \<times> bool) \<times> string \<times> string \<times> string"
  sc_Extensions :: "string list"

record Config =
  cfg_Extensions :: "string \<rightharpoonup> component"
  cfg_Service :: ServiceConfig
  cfg_Receivers :: "string \<rightharpoonup> component"
  cfg_Processors :: "string \<rightharpoonup> component"
  cfg_Exporters :: "string \<rightharpoonup> component"
  cfg_Connectors :: "string \<rightharpoonup> component"

type_synonym EnvVars = "string \<rightharpoonup> string"

section \<open>Constants and component IDs\<close>

abbreviation EnvVarCurrentPodIP :: string where "EnvVarCurrentPodIP \<equiv> ''MY_POD_IP''"
abbreviation EnvVarCurrentNodeName :: string where "EnvVarCurrentNodeName \<equiv> ''MY_NODE_NAME''"
abbreviation KymaInputNameAttribute :: string where "KymaInputNameAttribute \<equiv> ''kyma.input.name''"
abbreviation kymaK8sIOAppName :: string where "kymaK8sIOAppName \<equiv> ''kyma.kubernetes_io_app_name''"
abbreviation kymaAppName :: string where "kymaAppName \<equiv> ''kyma.app_name''"
abbreviation kymaOtelAnnotationServiceName :: string where
  "kymaOtelAnnotationServiceName \<equiv> ''kyma.otel.annotation.service.name''"
abbreviation kymaOtelAnnotationServiceVersion :: string where
  "kymaOtelAnnotationServiceVersion \<equiv> ''kyma.otel.annotation.service.version''"
abbreviation K8sNamespaceName :: string where "K8sNamespaceName \<equiv> ''k8s.namespace.name''"
abbreviation BatchingMaxQueueSize :: int where "BatchingMaxQueueSize \<equiv> 256"

text \<open>The ports of \<open>internal/otelcollector/ports\<close>.\<close>

abbreviation OTLPHTTP :: nat where "OTLPHTTP \<equiv> 4318"
abbreviation OTLPGRPC :: nat where "OTLPGRPC \<equiv> 4317"
abbreviation MetricsPort :: nat where "MetricsPort \<equiv> 8888"
abbreviation HealthCheck :: nat where "HealthCheck \<equiv> 13133"
abbreviation Pprof :: nat where "Pprof \<equiv> 1777"

datatype InputSourceType =
  InputSourceRuntime | InputSourcePrometheus | InputSourceIstio | InputSourceOTLP | InputSourceKyma |
  InputSourceK8sCluster

fun inputSourceString :: "InputSourceType \<Rightarrow> string" where
  "inputSourceString InputSourceRuntime = ''runtime''"
| "inputSourceString InputSourcePrometheus = ''prometheus''"
| "inputSourceString InputSourceIstio = ''istio''"
| "inputSourceString InputSourceOTLP = ''otlp''"
| "inputSourceString InputSourceKyma = ''kyma''"
| "inputSourceString InputSourceK8sCluster = ''k8s_cluster''"

text \<open>The three maps with an input source as key; a key that is missing yields the empty string.\<close>

fun InstrumentationScope :: "InputSourceType \<Rightarrow> string" where
  "InstrumentationScope InputSourceRuntime = ''io.kyma-project.telemetry/runtime''"
| "InstrumentationScope InputSourcePrometheus = ''io.kyma-project.telemetry/prometheus''"
| "InstrumentationScope InputSourceIstio = ''io.kyma-project.telemetry/istio''"
| "InstrumentationScope InputSourceOTLP = []"
| "InstrumentationScope InputSourceKyma = ''io.kyma-project.telemetry/kyma''"
| "InstrumentationScope InputSourceK8sCluster = ''io.kyma-project.telemetry/runtime''"

fun InputName :: "InputSourceType \<Rightarrow> string" where
  "InputName InputSourceRuntime = ''transform/set-kyma-input-name-runtime''"
| "InputName InputSourcePrometheus = ''transform/set-kyma-input-name-prometheus''"
| "InputName InputSourceIstio = ''transform/set-kyma-input-name-istio''"
| "InputName InputSourceOTLP = ''transform/set-kyma-input-name-otlp''"
| "InputName InputSourceKyma = ''transform/set-kyma-input-name-kyma''"
| "InputName InputSourceK8sCluster = []"

fun upstreamInstrumentationScopeName :: "InputSourceType \<Rightarrow> string" where
  "upstreamInstrumentationScopeName InputSourceRuntime =
     ''github.com/open-telemetry/opentelemetry-collector-contrib/receiver/kubeletstatsreceiver''"
| "upstreamInstrumentationScopeName InputSourcePrometheus =
     ''github.com/open-telemetry/opentelemetry-collector-contrib/receiver/prometheusreceiver''"
| "upstreamInstrumentationScopeName InputSourceIstio =
     ''github.com/open-telemetry/opentelemetry-collector-contrib/receiver/prometheusreceiver''"
| "upstreamInstrumentationScopeName InputSourceOTLP = []"
| "upstreamInstrumentationScopeName InputSourceKyma =
     ''github.com/kyma-project/opentelemetry-collector-components/receiver/kymastatsreceiver''"
| "upstreamInstrumentationScopeName InputSourceK8sCluster =
     ''github.com/open-telemetry/opentelemetry-collector-contrib/receiver/k8sclusterreceiver''"

abbreviation ComponentIDOTLPReceiver :: string where "ComponentIDOTLPReceiver \<equiv> ''otlp''"
abbreviation ComponentIDKymaStatsReceiver :: string where "ComponentIDKymaStatsReceiver \<equiv> ''kymastats''"
abbreviation ComponentIDBatchProcessor :: string where "ComponentIDBatchProcessor \<equiv> ''batch''"
abbreviation ComponentIDMemoryLimiterProcessor :: string where
  "ComponentIDMemoryLimiterProcessor \<equiv> ''memory_limiter''"
abbreviation ComponentIDK8sAttributesProcessor :: string where
  "ComponentIDK8sAttributesProcessor \<equiv> ''k8s_attributes''"
abbreviation ComponentIDCumulativeToDeltaProcessor :: string where
  "ComponentIDCumulativeToDeltaProcessor \<equiv> ''cumulativetodelta''"
abbreviation ComponentIDServiceEnrichmentProcessor :: string where
  "ComponentIDServiceEnrichmentProcessor \<equiv> ''service_enrichment''"
abbreviation ComponentIDIstioNoiseFilterProcessor :: string where
  "ComponentIDIstioNoiseFilterProcessor \<equiv> ''istio_noise_filter''"
abbreviation ComponentIDSetInstrumentationScopeKymaProcessor :: string where
  "ComponentIDSetInstrumentationScopeKymaProcessor \<equiv> ''transform/set-instrumentation-scope-kyma''"
abbreviation ComponentIDInsertClusterAttributesProcessor :: string where
  "ComponentIDInsertClusterAttributesProcessor \<equiv> ''transform/insert-cluster-attributes''"
abbreviation ComponentIDDropKymaAttributesProcessor :: string where
  "ComponentIDDropKymaAttributesProcessor \<equiv> ''transform/drop-kyma-attributes''"
abbreviation ComponentIDDropUnknownServiceNameProcessor :: string where
  "ComponentIDDropUnknownServiceNameProcessor \<equiv> ''transform/drop-unknown-service-name''"
abbreviation ComponentIDRestoreOtelServiceAttrsProcessor :: string where
  "ComponentIDRestoreOtelServiceAttrsProcessor \<equiv> ''transform/restore-otel-service-attrs''"
abbreviation ComponentIDSetObservedTimeIfZeroProcessor :: string where
  "ComponentIDSetObservedTimeIfZeroProcessor \<equiv> ''transform/set-observed-time-if-zero''"
abbreviation ComponentIDIstioEnrichmentProcessor :: string where
  "ComponentIDIstioEnrichmentProcessor \<equiv> ''istio_enrichment''"
abbreviation ComponentIDDropIfInputSourceOTLPProcessor :: string where
  "ComponentIDDropIfInputSourceOTLPProcessor \<equiv> ''filter/drop-if-input-source-otlp''"
abbreviation ComponentIDDropIstioServiceEnrichmentProcessor :: string where
  "ComponentIDDropIstioServiceEnrichmentProcessor \<equiv> ''transform/drop-istio-service-enrichment''"
abbreviation ComponentIDEnrichmentConnector :: string where "ComponentIDEnrichmentConnector \<equiv> ''forward/enrichment''"
abbreviation ComponentIDInputConnector :: string where "ComponentIDInputConnector \<equiv> ''forward/input''"
abbreviation ComponentIDK8sLeaderElectorExtension :: string where
  "ComponentIDK8sLeaderElectorExtension \<equiv> ''k8s_leader_elector''"
abbreviation ComponentIDHealthCheckExtension :: string where "ComponentIDHealthCheckExtension \<equiv> ''health_check''"
abbreviation ComponentIDPprofExtension :: string where "ComponentIDPprofExtension \<equiv> ''pprof''"
abbreviation ComponentIDCGroupRuntimeExtension :: string where "ComponentIDCGroupRuntimeExtension \<equiv> ''cgroup_runtime''"

definition ComponentIDUserDefinedFilterProcessor :: "PipelineRef \<Rightarrow> string" where
  "ComponentIDUserDefinedFilterProcessor ref = ''filter/'' @ TypePrefix ref @ ''-user-defined-'' @ pl_name ref"

definition ComponentIDUserDefinedTransformProcessor :: "PipelineRef \<Rightarrow> string" where
  "ComponentIDUserDefinedTransformProcessor ref = ''transform/'' @ TypePrefix ref @ ''-user-defined-'' @ pl_name ref"

definition ComponentIDNamespaceFilterProcessor :: "string \<Rightarrow> string" where
  "ComponentIDNamespaceFilterProcessor pipelineName = ''filter/'' @ pipelineName @ ''-filter-by-namespace''"

definition ComponentIDNamespacePerInputFilterProcessor :: "string \<Rightarrow> InputSourceType \<Rightarrow> string" where
  "ComponentIDNamespacePerInputFilterProcessor pipelineName inputSource =
     ''filter/'' @ pipelineName @ ''-filter-by-namespace-'' @ inputSourceString inputSource @ ''-input''"

definition ComponentIDOTLPExporter :: "OTLPProtocol \<Rightarrow> PipelineRef \<Rightarrow> string" where
  "ComponentIDOTLPExporter protocol ref =
     (if protocol = OTLPProtocolHTTP then ''otlp_http/'' @ QualifiedName ref else ''otlp_grpc/'' @ QualifiedName ref)"

definition ComponentIDOAuth2Extension :: "PipelineRef \<Rightarrow> string" where
  "ComponentIDOAuth2Extension ref = ''oauth2client/'' @ QualifiedName ref"

section \<open>OTTL expressions\<close>

definition ResourceAttribute :: "string \<Rightarrow> string" where
  "ResourceAttribute key = ''resource.attributes[\"'' @ key @ ''\"]''"

definition ResourceAttributeEquals :: "string \<Rightarrow> string \<Rightarrow> string" where
  "ResourceAttributeEquals key value = ResourceAttribute key @ '' == \"'' @ value @ ''\"''"

definition ResourceAttributeNotEquals :: "string \<Rightarrow> string \<Rightarrow> string" where
  "ResourceAttributeNotEquals key value = ResourceAttribute key @ '' != \"'' @ value @ ''\"''"

definition ResourceAttributeIsNotNil :: "string \<Rightarrow> string" where
  "ResourceAttributeIsNotNil key = ResourceAttribute key @ '' != nil''"

definition ResourceAttributeIsNilOrEmpty :: "string \<Rightarrow> string" where
  "ResourceAttributeIsNilOrEmpty key =
     ResourceAttribute key @ '' == nil or '' @ ResourceAttribute key @ '' == \"\"''"

definition ResourceAttributeHasPrefix :: "string \<Rightarrow> string \<Rightarrow> string" where
  "ResourceAttributeHasPrefix key prefix =
     ''HasPrefix(resource.attributes[\"'' @ key @ ''\"], \"'' @ prefix @ ''\")''"

definition NamespaceEquals :: "string \<Rightarrow> string" where
  "NamespaceEquals name = ResourceAttributeEquals K8sNamespaceName name"

definition KymaInputNameEquals :: "InputSourceType \<Rightarrow> string" where
  "KymaInputNameEquals s = ResourceAttributeEquals KymaInputNameAttribute (inputSourceString s)"

definition IsNotNil :: "string \<Rightarrow> string" where
  "IsNotNil key = key @ '' != nil''"

definition JoinWithOr :: "string list \<Rightarrow> string" where
  "JoinWithOr parts = ''('' @ Join parts '' or '' @ '')''"

definition JoinWithAnd :: "string list \<Rightarrow> string" where
  "JoinWithAnd parts = Join parts '' and ''"

definition JoinWithWhere :: "string \<Rightarrow> string \<Rightarrow> string" where
  "JoinWithWhere statement condition = statement @ '' where '' @ condition"

definition isWrappedInParentheses :: "string \<Rightarrow> bool" where
  "isWrappedInParentheses expression \<longleftrightarrow> HasPrefix expression ''('' \<and> HasSuffix expression '')''"

definition NotExpr :: "string \<Rightarrow> string" where
  "NotExpr expression = (if isWrappedInParentheses expression then ''not'' @ expression else ''not('' @ expression @ '')'')"

definition DeleteResourceAttribute :: "string \<Rightarrow> string" where
  "DeleteResourceAttribute key = ''delete_key(resource.attributes, \"'' @ key @ ''\")''"

section \<open>Processors\<close>

text \<open>\<open>operatorv1beta1.EnrichmentSpec\<close>: the pod labels to extract, each a key or a key prefix, and the custom
  name of the cluster.\<close>

record PodLabel =
  pd_Key :: string
  pd_KeyPrefix :: string

record Cluster =
  cl_Name :: string

record EnrichmentSpec =
  es_ExtractPodLabels :: "PodLabel list"
  es_Cluster :: "Cluster option"

definition extractLabels :: "bool \<Rightarrow> ExtractLabel list" where
  "extractLabels useOTelServiceEnrichment =
     (let nodeLabel = (\<lambda>key tag. \<lparr>el_From = ''node'', el_Key = key, el_TagName = tag, el_KeyRegex = []\<rparr>);
          podLabel = (\<lambda>key tag. \<lparr>el_From = ''pod'', el_Key = key, el_TagName = tag, el_KeyRegex = []\<rparr>);
          nodeLabels =
            [nodeLabel ''topology.kubernetes.io/region'' ''cloud.region'',
             nodeLabel ''topology.kubernetes.io/zone'' ''cloud.availability_zone'',
             nodeLabel ''node.kubernetes.io/instance-type'' ''host.type'',
             nodeLabel ''kubernetes.io/arch'' ''host.arch'']
      in if \<not> useOTelServiceEnrichment
         then [podLabel ''app.kubernetes.io/name'' kymaK8sIOAppName, podLabel ''app'' kymaAppName] @ nodeLabels
         else nodeLabels)"

definition extractOtelServiceAnnotations :: "bool \<Rightarrow> ExtractLabel list" where
  "extractOtelServiceAnnotations useOTelServiceEnrichment =
     (if \<not> useOTelServiceEnrichment then []
      else [\<lparr>el_From = ''pod'', el_Key = ''resource.opentelemetry.io/service.name'',
              el_TagName = kymaOtelAnnotationServiceName, el_KeyRegex = []\<rparr>,
            \<lparr>el_From = ''pod'', el_Key = ''resource.opentelemetry.io/service.version'',
              el_TagName = kymaOtelAnnotationServiceVersion, el_KeyRegex = []\<rparr>])"

definition extractPodLabels :: "EnrichmentSpec option \<Rightarrow> ExtractLabel list" where
  "extractPodLabels enrichments =
     (case enrichments of
        None \<Rightarrow> []
      | Some e \<Rightarrow>
          map (\<lambda>label. \<lparr>el_From = ''pod'', el_Key = [], el_TagName = ''k8s.pod.label.$0'',
                 el_KeyRegex = (if pd_KeyPrefix label \<noteq> [] then ''('' @ pd_KeyPrefix label @ ''.*)''
                                else ''(^'' @ pd_Key label @ ''$)'')\<rparr>)
              (es_ExtractPodLabels e))"

definition K8sAttributesProcessor :: "EnrichmentSpec option \<Rightarrow> bool \<Rightarrow> K8sAttributesProcessorConfig" where
  "K8sAttributesProcessor enrichments useOTelServiceEnrichment =
     (let k8sAttributes =
            [''k8s.pod.name'', ''k8s.node.name'', ''k8s.namespace.name'', ''k8s.deployment.name'',
             ''k8s.statefulset.name'', ''k8s.daemonset.name'', ''k8s.cronjob.name'', ''k8s.job.name''] @
            (if useOTelServiceEnrichment
             then [''service.namespace'', ''service.name'', ''service.version'', ''service.instance.id''] else [])
      in \<lparr>ka_AuthType = ''serviceAccount'', ka_Passthrough = False, ka_NodeFromEnvVar = EnvVarCurrentNodeName,
          ka_Extract =
            \<lparr>ek_Metadata = k8sAttributes,
             ek_Labels = extractLabels useOTelServiceEnrichment @ extractPodLabels enrichments,
             ek_Annotations = extractOtelServiceAnnotations useOTelServiceEnrichment,
             ek_OTelAnnotations = useOTelServiceEnrichment\<rparr>,
          ka_PodAssociation =
            [[(''resource_attribute'', ''k8s.pod.ip'')], [(''resource_attribute'', ''k8s.pod.uid'')],
             [(''connection'', [])]]\<rparr>)"

definition ResolveServiceName :: component where
  "ResolveServiceName = ServiceEnrichmentProcessorConfig [kymaK8sIOAppName, kymaAppName]"

definition LogFilterProcessor :: "FilterSpec list \<Rightarrow> FilterProcessorConfig" where
  "LogFilterProcessor filters = \<lparr>fc_ErrorMode = ''ignore'', fc_Metrics = [], fc_Logs = filters, fc_Traces = []\<rparr>"

definition MetricFilterProcessor :: "FilterSpec list \<Rightarrow> FilterProcessorConfig" where
  "MetricFilterProcessor filters = \<lparr>fc_ErrorMode = ''ignore'', fc_Metrics = filters, fc_Logs = [], fc_Traces = []\<rparr>"

definition TraceFilterProcessor :: "FilterSpec list \<Rightarrow> FilterProcessorConfig" where
  "TraceFilterProcessor filters = \<lparr>fc_ErrorMode = ''ignore'', fc_Metrics = [], fc_Logs = [], fc_Traces = filters\<rparr>"

definition LogTransformProcessor :: "TransformProcessorStatements list \<Rightarrow> TransformProcessorConfig" where
  "LogTransformProcessor s =
     \<lparr>tc_ErrorMode = ''ignore'', tc_LogStatements = s, tc_MetricStatements = [], tc_TraceStatements = []\<rparr>"

definition MetricTransformProcessor :: "TransformProcessorStatements list \<Rightarrow> TransformProcessorConfig" where
  "MetricTransformProcessor s =
     \<lparr>tc_ErrorMode = ''ignore'', tc_LogStatements = [], tc_MetricStatements = s, tc_TraceStatements = []\<rparr>"

definition TraceTransformProcessor :: "TransformProcessorStatements list \<Rightarrow> TransformProcessorConfig" where
  "TraceTransformProcessor s =
     \<lparr>tc_ErrorMode = ''ignore'', tc_LogStatements = [], tc_MetricStatements = [], tc_TraceStatements = s\<rparr>"

definition AllSignalsTransformProcessor :: "TransformProcessorStatements list \<Rightarrow> TransformProcessorConfig" where
  "AllSignalsTransformProcessor s =
     \<lparr>tc_ErrorMode = ''ignore'', tc_LogStatements = s, tc_MetricStatements = s, tc_TraceStatements = s\<rparr>"

definition TransformSpecsToProcessorStatements :: "TransformSpec list \<Rightarrow> TransformProcessorStatements list" where
  "TransformSpecsToProcessorStatements specs =
     map (\<lambda>spec. \<lparr>tst_Statements = ts_Statements spec, tst_Conditions = ts_Conditions spec\<rparr>) specs"

text \<open>Statements without conditions.\<close>

abbreviation statements :: "string list \<Rightarrow> TransformProcessorStatements list" where
  "statements ss \<equiv> [\<lparr>tst_Statements = ss, tst_Conditions = []\<rparr>]"

record ClusterOptions =
  co_ClusterName :: string
  co_ClusterUID :: string
  co_CloudProvider :: string

definition setIfNilOrEmptyStatement :: "string \<Rightarrow> string \<Rightarrow> string" where
  "setIfNilOrEmptyStatement attributeKey attributeValue =
     JoinWithWhere (''set(resource.attributes[\"'' @ attributeKey @ ''\"], \"'' @ attributeValue @ ''\")'')
       (ResourceAttributeIsNilOrEmpty attributeKey)"

definition InsertClusterAttributesProcessorStatements :: "ClusterOptions \<Rightarrow> TransformProcessorStatements list" where
  "InsertClusterAttributesProcessorStatements cluster =
     statements
       ([setIfNilOrEmptyStatement ''k8s.cluster.name'' (co_ClusterName cluster),
         setIfNilOrEmptyStatement ''k8s.cluster.uid'' (co_ClusterUID cluster)] @
        (if co_CloudProvider cluster \<noteq> []
         then [setIfNilOrEmptyStatement ''cloud.provider'' (co_CloudProvider cluster)] else []))"

definition DropKymaAttributesProcessorStatements :: "TransformProcessorStatements list" where
  "DropKymaAttributesProcessorStatements =
     statements [''delete_matching_keys(resource.attributes, \"kyma.*\")'']"

definition DropUnknownServiceNameProcessorStatements :: "TransformProcessorStatements list" where
  "DropUnknownServiceNameProcessorStatements =
     statements
       [JoinWithWhere (DeleteResourceAttribute ''service.name'')
          (JoinWithAnd [ResourceAttributeIsNotNil ''service.name'',
             ResourceAttributeHasPrefix ''service.name'' ''unknown_service''])]"

definition RestoreOtelServiceAnnotationsProcessorStatements :: "TransformProcessorStatements list" where
  "RestoreOtelServiceAnnotationsProcessorStatements =
     (let restoreAndClean = (\<lambda>serviceAttr annotationAttr.
            [JoinWithWhere
               (''set('' @ ResourceAttribute serviceAttr @ '', '' @ ResourceAttribute annotationAttr @ '')'')
               (JoinWithAnd [ResourceAttributeIsNotNil annotationAttr, ResourceAttributeNotEquals annotationAttr []]),
             DeleteResourceAttribute annotationAttr])
      in statements
           (restoreAndClean ''service.name'' kymaOtelAnnotationServiceName @
            restoreAndClean ''service.version'' kymaOtelAnnotationServiceVersion))"

definition instrumentationStatement :: "InputSourceType \<Rightarrow> string \<Rightarrow> string list" where
  "instrumentationStatement inputSource instrumentationScopeVersion =
     [''set(scope.version, \"'' @ instrumentationScopeVersion @ ''\") where scope.name == \"'' @
        upstreamInstrumentationScopeName inputSource @ ''\"'',
      ''set(scope.name, \"'' @ InstrumentationScope inputSource @ ''\") where scope.name == \"'' @
        upstreamInstrumentationScopeName inputSource @ ''\"'']"

definition InstrumentationScopeProcessor :: "string \<Rightarrow> InputSourceType list \<Rightarrow> TransformProcessorConfig" where
  "InstrumentationScopeProcessor version inputSource =
     MetricTransformProcessor (statements (concat (map (\<lambda>i. instrumentationStatement i version) inputSource)))"

definition KymaInputNameProcessorStatements :: "InputSourceType \<Rightarrow> TransformProcessorStatements list" where
  "KymaInputNameProcessorStatements inputSource =
     statements [''set(resource.attributes[\"'' @ KymaInputNameAttribute @ ''\"], \"'' @
       inputSourceString inputSource @ ''\")'']"

section \<open>The empty configuration\<close>

definition defaultService :: ServiceConfig where
  "defaultService =
     \<lparr>sc_Pipelines = Map.empty,
      sc_Telemetry = ((''${'' @ EnvVarCurrentPodIP @ ''}'', int MetricsPort, False, False, False), ''detailed'',
        ''info'', ''json''),
      sc_Extensions =
        [ComponentIDHealthCheckExtension, ComponentIDPprofExtension, ComponentIDCGroupRuntimeExtension]\<rparr>"

definition defaultExtensions :: "string \<rightharpoonup> component" where
  "defaultExtensions =
     [ComponentIDHealthCheckExtension \<mapsto>
        EndpointExtension (''${'' @ EnvVarCurrentPodIP @ ''}:'' @ Itoa HealthCheck),
      ComponentIDPprofExtension \<mapsto> EndpointExtension (''127.0.0.1:'' @ Itoa Pprof),
      ComponentIDCGroupRuntimeExtension \<mapsto> CGroupRuntimeExtension False True (4 / 5) ''30s'']"

definition NewConfig :: Config where
  "NewConfig =
     \<lparr>cfg_Extensions = defaultExtensions, cfg_Service = defaultService, cfg_Receivers = Map.empty,
      cfg_Processors = Map.empty, cfg_Exporters = Map.empty, cfg_Connectors = Map.empty\<rparr>"

end
