(* ===== verification/ComponentBuilder.thy ===== *)
theory ComponentBuilder
  imports CollectorConfig
begin

text \<open>
  \<open>internal/otelcollector/config/common/component_builder.go\<close>: how the collectors' configurations are put
  together, and what holds for every configuration that is put together this way.  The builder's two fields,
  which it shares with the caller through pointers, are the state of the functions.
\<close>

section \<open>The builder\<close>

record builder =
  bd_Config :: Config
  bd_EnvVars :: EnvVars

type_synonym 't BuildComponentFunc = "'t \<Rightarrow> string \<Rightarrow> builder \<Rightarrow> (go_error, builder) result go"

abbreviation pipelines_of :: "builder \<Rightarrow> string \<rightharpoonup> ServicePipeline" where
  "pipelines_of b \<equiv> sc_Pipelines (cfg_Service (bd_Config b))"

definition emptyServicePipeline :: ServicePipeline where
  "emptyServicePipeline = \<lparr>sp_Receivers = [], sp_Processors = [], sp_Exporters = []\<rparr>"

text \<open>Reading a key of the map of service pipelines, and writing it.\<close>

definition servicePipeline :: "builder \<Rightarrow> string \<Rightarrow> ServicePipeline" where
  "servicePipeline b pipelineID = deref (pipelines_of b pipelineID) emptyServicePipeline"

definition setServicePipeline :: "string \<Rightarrow> ServicePipeline \<Rightarrow> builder \<Rightarrow> builder" where
  "setServicePipeline pipelineID sp b =
     b\<lparr>bd_Config := (bd_Config b)\<lparr>cfg_Service := (cfg_Service (bd_Config b))
       \<lparr>sc_Pipelines := (pipelines_of b)(pipelineID \<mapsto> sp)\<rparr>\<rparr>\<rparr>"

definition isConnector :: "string \<Rightarrow> bool" where
  "isConnector componentID \<longleftrightarrow> HasPrefix componentID ''routing'' \<or> HasPrefix componentID ''forward''"

text \<open>The map write of a component that is only stored when the key is new.\<close>

definition insertNew :: "string \<Rightarrow> 'a \<Rightarrow> (string \<rightharpoonup> 'a) \<Rightarrow> string \<rightharpoonup> 'a" where
  "insertNew k v m = (if m k = None then m(k \<mapsto> v) else m)"

definition AddReceiver :: "('t \<Rightarrow> string go) \<Rightarrow> ('t \<Rightarrow> component option go) \<Rightarrow> 't BuildComponentFunc" where
  "AddReceiver componentIDFunc configFunc = (\<lambda>pipeline pipelineID b.
     gbind (configFunc pipeline) (\<lambda>c. case c of
       None \<Rightarrow> Ret (Inr b)
     | Some receiverConfig \<Rightarrow>
         gbind (componentIDFunc pipeline) (\<lambda>componentID.
           let b1 = (if isConnector componentID
                     then b\<lparr>bd_Config := (bd_Config b)\<lparr>cfg_Connectors :=
                            insertNew componentID receiverConfig (cfg_Connectors (bd_Config b))\<rparr>\<rparr>
                     else b\<lparr>bd_Config := (bd_Config b)\<lparr>cfg_Receivers :=
                            insertNew componentID receiverConfig (cfg_Receivers (bd_Config b))\<rparr>\<rparr>);
               sp = servicePipeline b1 pipelineID
           in Ret (Inr (setServicePipeline pipelineID
                (sp\<lparr>sp_Receivers := sp_Receivers sp @ [componentID]\<rparr>) b1)))))"

definition AddProcessor :: "('t \<Rightarrow> string go) \<Rightarrow> ('t \<Rightarrow> component option go) \<Rightarrow> 't BuildComponentFunc" where
  "AddProcessor componentIDFunc configFunc = (\<lambda>pipeline pipelineID b.
     gbind (configFunc pipeline) (\<lambda>c. case c of
       None \<Rightarrow> Ret (Inr b)
     | Some processorConfig \<Rightarrow>
         gbind (componentIDFunc pipeline) (\<lambda>componentID.
           let b1 = b\<lparr>bd_Config := (bd_Config b)\<lparr>cfg_Processors :=
                       insertNew componentID processorConfig (cfg_Processors (bd_Config b))\<rparr>\<rparr>;
               sp = servicePipeline b1 pipelineID
           in Ret (Inr (setServicePipeline pipelineID
                (sp\<lparr>sp_Processors := sp_Processors sp @ [componentID]\<rparr>) b1)))))"

definition AddExporter ::
    "('t \<Rightarrow> string go) \<Rightarrow> ('t \<Rightarrow> (go_error, component option \<times> EnvVars) result go) \<Rightarrow> 't BuildComponentFunc" where
  "AddExporter componentIDFunc configFunc = (\<lambda>pipeline pipelineID b.
     grbind (gwrap (\<lambda>e. Errorf ''failed to create exporter config: '' e []) (configFunc pipeline))
       (\<lambda>(c, exporterEnvVars). case c of
          None \<Rightarrow> Ret (Inr b)
        | Some exporterConfig \<Rightarrow>
            gbind (componentIDFunc pipeline) (\<lambda>componentID.
              let b1 = (if isConnector componentID
                        then b\<lparr>bd_Config := (bd_Config b)\<lparr>cfg_Connectors :=
                               (cfg_Connectors (bd_Config b))(componentID \<mapsto> exporterConfig)\<rparr>\<rparr>
                        else b\<lparr>bd_Config := (bd_Config b)\<lparr>cfg_Exporters :=
                               (cfg_Exporters (bd_Config b))(componentID \<mapsto> exporterConfig)\<rparr>\<rparr>);
                  b2 = b1\<lparr>bd_EnvVars := bd_EnvVars b1 ++ exporterEnvVars\<rparr>;
                  sp = servicePipeline b2 pipelineID
              in Ret (Inr (setServicePipeline pipelineID
                   (sp\<lparr>sp_Exporters := sp_Exporters sp @ [componentID]\<rparr>) b2)))))"

definition AddExtension :: "string \<Rightarrow> component \<Rightarrow> EnvVars \<Rightarrow> builder \<Rightarrow> builder" where
  "AddExtension componentID extensionConfig extensionEnvVars b =
     (let b1 = b\<lparr>bd_Config := (bd_Config b)\<lparr>cfg_Extensions :=
                   insertNew componentID extensionConfig (cfg_Extensions (bd_Config b))\<rparr>,
                 bd_EnvVars := bd_EnvVars b ++ extensionEnvVars\<rparr>;
          svc = cfg_Service (bd_Config b1)
      in if componentID \<in> set (sc_Extensions svc) then b1
         else b1\<lparr>bd_Config := (bd_Config b1)\<lparr>cfg_Service := svc
                \<lparr>sc_Extensions := sc_Extensions svc @ [componentID]\<rparr>\<rparr>\<rparr>)"

definition StaticComponentID :: "string \<Rightarrow> 't \<Rightarrow> string go" where
  "StaticComponentID componentID = (\<lambda>_. Ret componentID)"

text \<open>The loop of \<open>AddServicePipeline\<close> over the component functions.\<close>

definition addComponents :: "'t BuildComponentFunc list \<Rightarrow> 't \<Rightarrow> string \<Rightarrow> builder \<Rightarrow> (go_error, builder) result go" where
  "addComponents fs pipeline pipelineID =
     range_state (\<lambda>f b. gwrap (\<lambda>e. Errorf ''failed to add component: '' e []) (f pipeline pipelineID b)) fs"

definition AddServicePipeline ::
    "'t \<Rightarrow> string \<Rightarrow> 't BuildComponentFunc list \<Rightarrow> builder \<Rightarrow> (go_error, builder) result go" where
  "AddServicePipeline pipeline pipelineID fs b =
     addComponents fs pipeline pipelineID (setServicePipeline pipelineID emptyServicePipeline b)"

text \<open>A function of the pipeline that dereferences the pointer it gets.\<close>

definition onPipeline :: "('p \<Rightarrow> 'a) \<Rightarrow> 'p option \<Rightarrow> 'a go" where
  "onPipeline f p = gderef p (\<lambda>t. Ret (f t))"

lemma onPipeline_Some [simp]: "onPipeline f (Some t) = Ret (f t)"
  by (simp add: onPipeline_def)

section \<open>Plans\<close>

text \<open>What a component function does does not depend on the state of the builder: it fails, or contributes one
  component to a service pipeline, or nothing.  A run of the builder is a plan: the list of the contributions, each
  with the ID of its service pipeline.\<close>

datatype contribution =
    Skip
  | Start
  | Recv string component
  | Proc string component
  | Exp string component EnvVars
  | Ext string component EnvVars

definition declareReceiver :: "string \<Rightarrow> component \<Rightarrow> builder \<Rightarrow> builder" where
  "declareReceiver i c b =
     (if isConnector i
      then b\<lparr>bd_Config := (bd_Config b)\<lparr>cfg_Connectors := insertNew i c (cfg_Connectors (bd_Config b))\<rparr>\<rparr>
      else b\<lparr>bd_Config := (bd_Config b)\<lparr>cfg_Receivers := insertNew i c (cfg_Receivers (bd_Config b))\<rparr>\<rparr>)"

definition declareProcessor :: "string \<Rightarrow> component \<Rightarrow> builder \<Rightarrow> builder" where
  "declareProcessor i c b =
     b\<lparr>bd_Config := (bd_Config b)\<lparr>cfg_Processors := insertNew i c (cfg_Processors (bd_Config b))\<rparr>\<rparr>"

definition declareExporter :: "string \<Rightarrow> component \<Rightarrow> EnvVars \<Rightarrow> builder \<Rightarrow> builder" where
  "declareExporter i c ev b =
     (if isConnector i
      then b\<lparr>bd_Config := (bd_Config b)\<lparr>cfg_Connectors := (cfg_Connectors (bd_Config b))(i \<mapsto> c)\<rparr>,
             bd_EnvVars := bd_EnvVars b ++ ev\<rparr>
      else b\<lparr>bd_Config := (bd_Config b)\<lparr>cfg_Exporters := (cfg_Exporters (bd_Config b))(i \<mapsto> c)\<rparr>,
             bd_EnvVars := bd_EnvVars b ++ ev\<rparr>)"

fun contribute :: "string \<times> contribution \<Rightarrow> builder \<Rightarrow> builder" where
  "contribute (pid, Skip) b = b"
| "contribute (pid, Start) b = setServicePipeline pid emptyServicePipeline b"
| "contribute (pid, Recv i c) b =
     setServicePipeline pid
       (servicePipeline b pid\<lparr>sp_Receivers := sp_Receivers (servicePipeline b pid) @ [i]\<rparr>) (declareReceiver i c b)"
| "contribute (pid, Proc i c) b =
     setServicePipeline pid
       (servicePipeline b pid\<lparr>sp_Processors := sp_Processors (servicePipeline b pid) @ [i]\<rparr>) (declareProcessor i c b)"
| "contribute (pid, Exp i c ev) b =
     setServicePipeline pid
       (servicePipeline b pid\<lparr>sp_Exporters := sp_Exporters (servicePipeline b pid) @ [i]\<rparr>) (declareExporter i c ev b)"
| "contribute (pid, Ext i c ev) b = AddExtension i c ev b"

declare contribute.simps [simp del]

abbreviation execute :: "(string \<times> contribution) list \<Rightarrow> builder \<Rightarrow> builder" where
  "execute plan b \<equiv> fold contribute plan b"

text \<open>An optional receiver or processor.\<close>

definition recvOf :: "string \<Rightarrow> component option \<Rightarrow> contribution" where
  "recvOf i c = (case c of None \<Rightarrow> Skip | Some c \<Rightarrow> Recv i c)"

definition procOf :: "string \<Rightarrow> component option \<Rightarrow> contribution" where
  "procOf i c = (case c of None \<Rightarrow> Skip | Some c \<Rightarrow> Proc i c)"

named_theorems component_simps \<open>the contributions of component functions\<close>

lemma AddReceiver_contributes:
  "cf p = Ret c \<Longrightarrow> idf p = Ret i \<Longrightarrow> AddReceiver idf cf p pid b = Ret (Inr (contribute (pid, recvOf i c) b))"
  by (cases c) (simp_all add: AddReceiver_def recvOf_def contribute.simps declareReceiver_def servicePipeline_def Let_def)

lemma AddProcessor_contributes:
  "cf p = Ret c \<Longrightarrow> idf p = Ret i \<Longrightarrow> AddProcessor idf cf p pid b = Ret (Inr (contribute (pid, procOf i c) b))"
  by (cases c) (simp_all add: AddProcessor_def procOf_def contribute.simps declareProcessor_def servicePipeline_def Let_def)

lemma AddExporter_contributes:
  "cf p = Ret (Inr (Some c, ev)) \<Longrightarrow> idf p = Ret i \<Longrightarrow>
    AddExporter idf cf p pid b = Ret (Inr (contribute (pid, Exp i c ev) b))"
  by (simp add: AddExporter_def contribute.simps declareExporter_def servicePipeline_def Let_def)

lemma static_components [component_simps]:
  "AddReceiver (StaticComponentID i) (\<lambda>_. Ret c) p pid b = Ret (Inr (contribute (pid, recvOf i c) b))"
  "AddProcessor (StaticComponentID i) (\<lambda>_. Ret c) p pid b = Ret (Inr (contribute (pid, procOf i c) b))"
  "AddExporter (StaticComponentID i) (\<lambda>_. Ret (Inr (Some x, ev))) p pid b =
     Ret (Inr (contribute (pid, Exp i x ev) b))"
  by (intro AddReceiver_contributes AddProcessor_contributes AddExporter_contributes;
      simp add: StaticComponentID_def)+

lemma pipeline_components [component_simps]:
  "AddProcessor (StaticComponentID i) (onPipeline g) (Some t) pid b = Ret (Inr (contribute (pid, procOf i (g t)) b))"
  "AddProcessor (onPipeline h) (onPipeline g) (Some t) pid b = Ret (Inr (contribute (pid, procOf (h t) (g t)) b))"
  by (intro AddProcessor_contributes; simp add: StaticComponentID_def)+

lemma addComponents_simps [component_simps]:
  "addComponents [] p pid b = Ret (Inr b)"
  "addComponents (f # fs) p pid b =
     grbind (gwrap (\<lambda>e. Errorf ''failed to add component: '' e []) (f p pid b)) (addComponents fs p pid)"
  by (simp_all add: addComponents_def)

lemma addComponents_Inr:
  "addComponents (f # fs) p pid b = Ret (Inr b') \<longleftrightarrow>
     (\<exists>b1. f p pid b = Ret (Inr b1) \<and> addComponents fs p pid b1 = Ret (Inr b'))"
  by (simp add: addComponents_simps grbind_eq_Inr)

lemma AddExporter_eq:
  "AddExporter idf cf p pid b =
     grbind (gwrap (\<lambda>e. Errorf ''failed to create exporter config: '' e []) (cf p))
       (\<lambda>(c, ev). case c of None \<Rightarrow> Ret (Inr b)
          | Some x \<Rightarrow> gbind (idf p) (\<lambda>i. Ret (Inr (contribute (pid, Exp i x ev) b))))"
  unfolding AddExporter_def
  by (intro arg_cong2 [where f = grbind] refl ext)
    (auto simp: contribute.simps declareExporter_def servicePipeline_def Let_def split: prod.split option.split
      intro!: arg_cong2 [where f = gbind])

lemma AddExporter_Inr:
  "AddExporter idf cf p pid b = Ret (Inr b') \<longleftrightarrow>
     (\<exists>ev. cf p = Ret (Inr (None, ev)) \<and> b' = b) \<or>
     (\<exists>x ev i. cf p = Ret (Inr (Some x, ev)) \<and> idf p = Ret i \<and> b' = contribute (pid, Exp i x ev) b)"
  by (auto simp: AddExporter_eq grbind_eq_Inr gbind_eq_Ret split: option.splits)

lemma AddExtension_contributes: "AddExtension i c ev b = contribute (pid, Ext i c ev) b"
  by (simp add: contribute.simps)

lemma Start_contributes: "setServicePipeline pid emptyServicePipeline b = contribute (pid, Start) b"
  by (simp add: contribute.simps)

section \<open>What a plan leads to\<close>

lemma setServicePipeline_simps [simp]:
  "pipelines_of (setServicePipeline p sp b) = (pipelines_of b)(p \<mapsto> sp)"
  "bd_EnvVars (setServicePipeline p sp b) = bd_EnvVars b"
  "cfg_Receivers (bd_Config (setServicePipeline p sp b)) = cfg_Receivers (bd_Config b)"
  "cfg_Processors (bd_Config (setServicePipeline p sp b)) = cfg_Processors (bd_Config b)"
  "cfg_Exporters (bd_Config (setServicePipeline p sp b)) = cfg_Exporters (bd_Config b)"
  "cfg_Connectors (bd_Config (setServicePipeline p sp b)) = cfg_Connectors (bd_Config b)"
  "cfg_Extensions (bd_Config (setServicePipeline p sp b)) = cfg_Extensions (bd_Config b)"
  "sc_Extensions (cfg_Service (bd_Config (setServicePipeline p sp b))) = sc_Extensions (cfg_Service (bd_Config b))"
  by (simp_all add: setServicePipeline_def)

lemma declare_pipelines [simp]:
  "pipelines_of (declareReceiver i c b) = pipelines_of b" "pipelines_of (declareProcessor i c b) = pipelines_of b"
  "pipelines_of (declareExporter i c ev b) = pipelines_of b" "pipelines_of (AddExtension i c ev b) = pipelines_of b"
  by (simp_all add: declareReceiver_def declareProcessor_def declareExporter_def AddExtension_def Let_def)

text \<open>The components of each kind that a list of contributions has, in order.\<close>

fun receiverOf :: "contribution \<Rightarrow> (string \<times> component) list" where
  "receiverOf (Recv i c) = [(i, c)]"
| "receiverOf _ = []"

fun processorOf :: "contribution \<Rightarrow> (string \<times> component) list" where
  "processorOf (Proc i c) = [(i, c)]"
| "processorOf _ = []"

fun exporterOf :: "contribution \<Rightarrow> (string \<times> component) list" where
  "exporterOf (Exp i c ev) = [(i, c)]"
| "exporterOf _ = []"

fun extensionOf :: "contribution \<Rightarrow> (string \<times> component) list" where
  "extensionOf (Ext i c ev) = [(i, c)]"
| "extensionOf _ = []"

fun envVarsOf :: "contribution \<Rightarrow> EnvVars" where
  "envVarsOf (Exp i c ev) = ev"
| "envVarsOf (Ext i c ev) = ev"
| "envVarsOf _ = Map.empty"

definition listed :: "('k \<Rightarrow> 'a list) \<Rightarrow> 'k list \<Rightarrow> 'a list" where
  "listed f ks = concat (map f ks)"

lemma listed_simps [simp]:
  "listed f [] = []" "listed f (k # ks) = f k @ listed f ks" "listed f (ks @ ls) = listed f ks @ listed f ls"
  by (simp_all add: listed_def)

definition sp_of :: "contribution list \<Rightarrow> ServicePipeline" where
  "sp_of ks = \<lparr>sp_Receivers = map fst (listed receiverOf ks), sp_Processors = map fst (listed processorOf ks),
     sp_Exporters = map fst (listed exporterOf ks)\<rparr>"

lemma procOf_components [simp]:
  "receiverOf (procOf i c) = []" "exporterOf (procOf i c) = []" "extensionOf (procOf i c) = []"
  "processorOf (procOf i c) = (case c of None \<Rightarrow> [] | Some x \<Rightarrow> [(i, x)])" "envVarsOf (procOf i c) = Map.empty"
  "procOf i c \<noteq> Start" "Start \<noteq> procOf i c"
  by (simp_all add: procOf_def split: option.split)

lemma recvOf_components [simp]: "recvOf i (Some c) = Recv i c" "recvOf i None = Skip"
  by (simp_all add: recvOf_def)

lemma procOf_cases [simp]: "procOf i (Some c) = Proc i c" "procOf i None = Skip"
  by (simp_all add: procOf_def)

lemmas contribute_defs =
  contribute.simps declareReceiver_def declareProcessor_def declareExporter_def AddExtension_def Let_def fun_upd_def

lemma map_add_insertNew: "m ++ insertNew k v n = m(k \<mapsto> v) ++ n"
  by (auto simp: insertNew_def fun_eq_iff map_add_def split: option.split)

text \<open>The first contribution of a processor or an extension decides, and the last one of an exporter.\<close>

lemma processors_execute:
  "cfg_Processors (bd_Config (execute plan b)) =
     map_of (listed processorOf (map snd plan)) ++ cfg_Processors (bd_Config b)"
proof (induction plan arbitrary: b)
  case (Cons s plan)
  obtain pid k where s: "s = (pid, k)" by (cases s)
  show ?case unfolding s using Cons.IH
    by (cases k) (simp_all add: contribute_defs map_add_insertNew)
qed simp

lemma extensions_execute:
  "cfg_Extensions (bd_Config (execute plan b)) =
     map_of (listed extensionOf (map snd plan)) ++ cfg_Extensions (bd_Config b)"
proof (induction plan arbitrary: b)
  case (Cons s plan)
  obtain pid k where s: "s = (pid, k)" by (cases s)
  show ?case unfolding s using Cons.IH
    by (cases k) (simp_all add: contribute_defs map_add_insertNew)
qed simp

lemma receivers_execute:
  "cfg_Receivers (bd_Config (execute plan b)) =
     map_of (filter (\<lambda>(i, c). \<not> isConnector i) (listed receiverOf (map snd plan))) ++ cfg_Receivers (bd_Config b)"
proof (induction plan arbitrary: b)
  case (Cons s plan)
  obtain pid k where s: "s = (pid, k)" by (cases s)
  show ?case unfolding s using Cons.IH
    by (cases k) (simp_all add: contribute_defs map_add_insertNew)
qed simp

lemma exporters_execute:
  "cfg_Exporters (bd_Config (execute plan b)) =
     cfg_Exporters (bd_Config b) ++
       map_of (rev (filter (\<lambda>(i, c). \<not> isConnector i) (listed exporterOf (map snd plan))))"
proof (induction plan arbitrary: b)
  case (Cons s plan)
  obtain pid k where s: "s = (pid, k)" by (cases s)
  show ?case unfolding s using Cons.IH
    by (cases k) (simp_all add: contribute_defs map_add_def fun_eq_iff split: option.split)
qed simp

lemma envVars_execute:
  "bd_EnvVars (execute plan b) = foldl (++) (bd_EnvVars b) (map (\<lambda>s. envVarsOf (snd s)) plan)"
proof (induction plan arbitrary: b)
  case (Cons s plan)
  obtain pid k where s: "s = (pid, k)" by (cases s)
  show ?case unfolding s using Cons.IH
    by (cases k) (simp_all add: contribute_defs)
qed simp

lemma connectors_execute:
  "dom (cfg_Connectors (bd_Config (execute plan b))) = dom (cfg_Connectors (bd_Config b)) \<union>
     {i. isConnector i \<and> i \<in> fst ` set (listed receiverOf (map snd plan) @ listed exporterOf (map snd plan))}"
proof (induction plan arbitrary: b)
  case (Cons s plan)
  obtain pid k where s: "s = (pid, k)" by (cases s)
  show ?case unfolding s using Cons.IH
    by (cases k) (auto simp: contribute_defs insertNew_def split: if_splits)
qed simp

lemma serviceExtensions_execute:
  "set (sc_Extensions (cfg_Service (bd_Config (execute plan b)))) =
     set (sc_Extensions (cfg_Service (bd_Config b))) \<union> fst ` set (listed extensionOf (map snd plan))"
proof (induction plan arbitrary: b)
  case (Cons s plan)
  obtain pid k where s: "s = (pid, k)" by (cases s)
  show ?case unfolding s using Cons.IH
    by (cases k) (auto simp: contribute_defs)
qed simp

text \<open>The part of a plan that builds one service pipeline: the extensions it needs, then its components.\<close>

type_synonym block = "string \<times> contribution list \<times> contribution list"

definition block_plan :: "block \<Rightarrow> (string \<times> contribution) list" where
  "block_plan bl = (case bl of (pid, exts, ks) \<Rightarrow> map (Pair pid) exts @ (pid, Start) # map (Pair pid) ks)"

definition proper_block :: "block \<Rightarrow> bool" where
  "proper_block bl = (case bl of (pid, exts, ks) \<Rightarrow> (\<forall>k\<in>set exts. extensionOf k \<noteq> []) \<and> Start \<notin> set ks)"

definition blocks_plan :: "block list \<Rightarrow> (string \<times> contribution) list" where
  "blocks_plan bls = concat (map block_plan bls)"

definition block_contributions :: "block list \<Rightarrow> contribution list" where
  "block_contributions bls = concat (map (\<lambda>(pid, exts, ks). exts @ ks) bls)"

lemma pipelines_extensions:
  "\<forall>k\<in>set exts. extensionOf k \<noteq> [] \<Longrightarrow> pipelines_of (execute (map (Pair pid) exts) b) = pipelines_of b"
proof (induction exts arbitrary: b)
  case (Cons k exts)
  then show ?case by (cases k) (auto simp: contribute.simps)
qed simp

lemma pipelines_components:
  assumes "pipelines_of b pid = Some sp" and "Start \<notin> set ks"
  shows "pipelines_of (execute (map (Pair pid) ks) b) = (pipelines_of b)(pid \<mapsto>
    \<lparr>sp_Receivers = sp_Receivers sp @ map fst (listed receiverOf ks),
     sp_Processors = sp_Processors sp @ map fst (listed processorOf ks),
     sp_Exporters = sp_Exporters sp @ map fst (listed exporterOf ks)\<rparr>)"
  using assms
proof (induction ks arbitrary: b sp)
  case Nil
  then show ?case by (auto simp: fun_eq_iff)
next
  case (Cons k ks)
  from Cons.prems show ?case
    by (cases k) (simp_all add: Cons.IH contribute.simps servicePipeline_def fun_eq_iff)
qed

lemma pipelines_block:
  assumes "proper_block (pid, exts, ks)"
  shows "pipelines_of (execute (block_plan (pid, exts, ks)) b) = (pipelines_of b)(pid \<mapsto> sp_of ks)"
proof -
  have 1: "pipelines_of (execute (map (Pair pid) exts) b) = pipelines_of b"
    using assms by (intro pipelines_extensions) (auto simp: proper_block_def)
  let ?b = "contribute (pid, Start) (execute (map (Pair pid) exts) b)"
  have "pipelines_of ?b pid = Some emptyServicePipeline" by (simp add: contribute.simps)
  from pipelines_components [OF this, of ks] assms 1 show ?thesis
    by (simp add: block_plan_def proper_block_def sp_of_def emptyServicePipeline_def contribute.simps)
qed

lemma pipelines_blocks:
  assumes "\<forall>bl\<in>set bls. proper_block bl"
  shows "pipelines_of (execute (blocks_plan bls) b) =
    pipelines_of b ++ map_of (rev (map (\<lambda>(pid, exts, ks). (pid, sp_of ks)) bls))"
  using assms
proof (induction bls arbitrary: b)
  case (Cons bl bls)
  obtain pid exts ks where "bl = (pid, exts, ks)" by (cases bl)
  with Cons show ?case
    by (simp add: blocks_plan_def pipelines_block)
qed (simp add: blocks_plan_def)

lemma listed_blocks: "f Start = [] \<Longrightarrow> listed f (map snd (blocks_plan bls)) = listed f (block_contributions bls)"
  by (induction bls) (auto simp: blocks_plan_def block_contributions_def block_plan_def comp_def)

section \<open>Well-formed configurations\<close>

text \<open>The collector refuses a configuration whose service refers to a component that is not declared.\<close>

definition resolved :: "Config \<Rightarrow> ServicePipeline \<Rightarrow> bool" where
  "resolved c sp \<longleftrightarrow>
     (\<forall>r\<in>set (sp_Receivers sp). r \<in> (if isConnector r then dom (cfg_Connectors c) else dom (cfg_Receivers c))) \<and>
     (\<forall>p\<in>set (sp_Processors sp). p \<in> dom (cfg_Processors c)) \<and>
     (\<forall>e\<in>set (sp_Exporters sp). e \<in> (if isConnector e then dom (cfg_Connectors c) else dom (cfg_Exporters c)))"

definition wf_config :: "Config \<Rightarrow> bool" where
  "wf_config c \<longleftrightarrow>
     (\<forall>sp\<in>ran (sc_Pipelines (cfg_Service c)). resolved c sp) \<and>
     set (sc_Extensions (cfg_Service c)) \<subseteq> dom (cfg_Extensions c)"

text \<open>Every component of a configuration is there for some service pipeline.\<close>

definition all_used :: "Config \<Rightarrow> bool" where
  "all_used c \<longleftrightarrow> (let sps = ran (sc_Pipelines (cfg_Service c)) in
     (\<forall>i\<in>dom (cfg_Receivers c). \<exists>sp\<in>sps. i \<in> set (sp_Receivers sp)) \<and>
     (\<forall>i\<in>dom (cfg_Processors c). \<exists>sp\<in>sps. i \<in> set (sp_Processors sp)) \<and>
     (\<forall>i\<in>dom (cfg_Exporters c). \<exists>sp\<in>sps. i \<in> set (sp_Exporters sp)))"

abbreviation newBuilder :: builder where
  "newBuilder \<equiv> \<lparr>bd_Config = NewConfig, bd_EnvVars = Map.empty\<rparr>"

lemma listed_set: "x \<in> set (listed f ks) \<longleftrightarrow> (\<exists>k\<in>set ks. x \<in> set (f k))"
  by (auto simp: listed_def)

lemma newBuilder_simps [simp]:
  "cfg_Receivers NewConfig = Map.empty" "cfg_Processors NewConfig = Map.empty" "cfg_Exporters NewConfig = Map.empty"
  "cfg_Connectors NewConfig = Map.empty" "sc_Pipelines (cfg_Service NewConfig) = Map.empty"
  "cfg_Extensions NewConfig = defaultExtensions" "sc_Extensions (cfg_Service NewConfig) =
     [ComponentIDHealthCheckExtension, ComponentIDPprofExtension, ComponentIDCGroupRuntimeExtension]"
  by (simp_all add: NewConfig_def defaultService_def)

lemma block_sp_ids:
  assumes "(pid, exts, ks) \<in> set bls"
  shows "set (sp_Receivers (sp_of ks)) \<subseteq> fst ` set (listed receiverOf (block_contributions bls))"
    "set (sp_Processors (sp_of ks)) \<subseteq> fst ` set (listed processorOf (block_contributions bls))"
    "set (sp_Exporters (sp_of ks)) \<subseteq> fst ` set (listed exporterOf (block_contributions bls))"
  using assms by (force simp: sp_of_def listed_set block_contributions_def)+

lemma doms_blocks:
  assumes c_def: "c = bd_Config (execute (blocks_plan bls) newBuilder)"
  shows "dom (cfg_Processors c) = fst ` set (listed processorOf (block_contributions bls))"
    "dom (cfg_Receivers c) = {i. \<not> isConnector i} \<inter> fst ` set (listed receiverOf (block_contributions bls))"
    "dom (cfg_Exporters c) = {i. \<not> isConnector i} \<inter> fst ` set (listed exporterOf (block_contributions bls))"
    "dom (cfg_Connectors c) = {i. isConnector i} \<inter> fst ` (set (listed receiverOf (block_contributions bls)) \<union>
       set (listed exporterOf (block_contributions bls)))"
  unfolding c_def processors_execute receivers_execute exporters_execute connectors_execute
  by (auto simp: listed_blocks dom_map_of_conv_image_fst)

lemma wf_blocks:
  assumes "\<forall>bl\<in>set bls. proper_block bl"
  shows "wf_config (bd_Config (execute (blocks_plan bls) newBuilder))"
proof -
  let ?c = "bd_Config (execute (blocks_plan bls) newBuilder)"
  note doms = doms_blocks [OF refl, of bls]
  have "resolved ?c sp" if "sp \<in> ran (sc_Pipelines (cfg_Service ?c))" for sp
  proof -
    from that obtain pid exts ks where "(pid, exts, ks) \<in> set bls" "sp = sp_of ks"
      unfolding pipelines_blocks [OF assms] by (auto simp: ran_def dest!: map_of_SomeD)
    with block_sp_ids [OF this(1)] doms show ?thesis by (auto simp: resolved_def)
  qed
  moreover have "set (sc_Extensions (cfg_Service ?c)) \<subseteq> dom (cfg_Extensions ?c)"
    unfolding serviceExtensions_execute extensions_execute
    by (auto simp: defaultExtensions_def dom_map_of_conv_image_fst)
  ultimately show ?thesis by (simp add: wf_config_def)
qed

lemma block_component:
  assumes "\<forall>bl\<in>set bls. proper_block bl" and "i \<in> fst ` set (listed f (block_contributions bls))"
    and "\<And>k. extensionOf k \<noteq> [] \<Longrightarrow> f k = []"
  shows "\<exists>pid exts ks. (pid, exts, ks) \<in> set bls \<and> i \<in> fst ` set (listed f ks)"
proof -
  from assms(2) obtain c where "(i, c) \<in> set (listed f (block_contributions bls))" by auto
  then obtain k where k: "k \<in> set (block_contributions bls)" "(i, c) \<in> set (f k)"
    unfolding listed_set by blast
  then obtain pid exts ks where bl: "(pid, exts, ks) \<in> set bls" "k \<in> set exts \<or> k \<in> set ks"
    by (auto simp: block_contributions_def)
  moreover have "extensionOf k = []" using assms(3) k(2) by force
  moreover have "proper_block (pid, exts, ks)" using assms(1) bl(1) by blast
  ultimately have "k \<in> set ks" by (auto simp: proper_block_def)
  with k(2) have "(i, c) \<in> set (listed f ks)" unfolding listed_set by blast
  with bl(1) show ?thesis by force
qed

lemma pipelines_distinct_blocks:
  assumes "\<forall>bl\<in>set bls. proper_block bl" and "distinct (map fst bls)" and "(pid, exts, ks) \<in> set bls"
  shows "sc_Pipelines (cfg_Service (bd_Config (execute (blocks_plan bls) newBuilder))) pid = Some (sp_of ks)"
proof -
  have "map fst (rev (map (\<lambda>(pid, exts, ks). (pid, sp_of ks)) bls)) = rev (map fst bls)"
    by (simp add: rev_map comp_def case_prod_unfold)
  then have "distinct (map fst (rev (map (\<lambda>(pid, exts, ks). (pid, sp_of ks)) bls)))"
    using assms(2) by simp
  moreover have "(pid, sp_of ks) \<in> set (rev (map (\<lambda>(pid, exts, ks). (pid, sp_of ks)) bls))"
    using assms(3) by force
  ultimately show ?thesis
    unfolding pipelines_blocks [OF assms(1)] by (simp add: map_of_is_SomeI)
qed

lemma used_blocks:
  assumes "\<forall>bl\<in>set bls. proper_block bl" and "distinct (map fst bls)"
  shows "all_used (bd_Config (execute (blocks_plan bls) newBuilder))"
proof -
  let ?c = "bd_Config (execute (blocks_plan bls) newBuilder)"
  have ran: "sp_of ks \<in> ran (sc_Pipelines (cfg_Service ?c))" if "(pid, exts, ks) \<in> set bls" for pid exts ks
    using pipelines_distinct_blocks [OF assms that] by (rule ranI)
  have ext: "receiverOf k = []" "processorOf k = []" "exporterOf k = []" if "extensionOf k \<noteq> []" for k
    using that by (cases k; simp)+
  have "\<exists>sp\<in>ran (sc_Pipelines (cfg_Service ?c)). i \<in> set (sp_Receivers sp)" if "i \<in> dom (cfg_Receivers ?c)" for i
  proof -
    have "i \<in> fst ` set (listed receiverOf (block_contributions bls))"
      using that unfolding doms_blocks [OF refl] by blast
    from block_component [OF assms(1) this ext(1)] obtain pid exts ks
      where b: "(pid, exts, ks) \<in> set bls" "i \<in> fst ` set (listed receiverOf ks)" by blast
    then have "i \<in> set (sp_Receivers (sp_of ks))" by (simp add: sp_of_def)
    with ran [OF b(1)] show ?thesis ..
  qed
  moreover have "\<exists>sp\<in>ran (sc_Pipelines (cfg_Service ?c)). i \<in> set (sp_Processors sp)" if "i \<in> dom (cfg_Processors ?c)" for i
  proof -
    have "i \<in> fst ` set (listed processorOf (block_contributions bls))"
      using that unfolding doms_blocks [OF refl] by blast
    from block_component [OF assms(1) this ext(2)] obtain pid exts ks
      where b: "(pid, exts, ks) \<in> set bls" "i \<in> fst ` set (listed processorOf ks)" by blast
    then have "i \<in> set (sp_Processors (sp_of ks))" by (simp add: sp_of_def)
    with ran [OF b(1)] show ?thesis ..
  qed
  moreover have "\<exists>sp\<in>ran (sc_Pipelines (cfg_Service ?c)). i \<in> set (sp_Exporters sp)" if "i \<in> dom (cfg_Exporters ?c)" for i
  proof -
    have "i \<in> fst ` set (listed exporterOf (block_contributions bls))"
      using that unfolding doms_blocks [OF refl] by blast
    from block_component [OF assms(1) this ext(3)] obtain pid exts ks
      where b: "(pid, exts, ks) \<in> set bls" "i \<in> fst ` set (listed exporterOf ks)" by blast
    then have "i \<in> set (sp_Exporters (sp_of ks))" by (simp add: sp_of_def)
    with ran [OF b(1)] show ?thesis ..
  qed
  ultimately show ?thesis unfolding all_used_def Let_def by blast
qed

section \<open>Steps that build service pipelines\<close>

lemma ex_list_all2_Cons:
  "(\<exists>ys. list_all2 R (x # xs) ys \<and> P ys) \<longleftrightarrow> (\<exists>y ys. R x y \<and> list_all2 R xs ys \<and> P (y # ys))"
  by (auto simp: list_all2_Cons1)

text \<open>What a loop over the pipelines of a kind relies on: the step for one pipeline contributes a block, with an ID
  that the pipeline determines.\<close>

locale pipeline_step =
  fixes step :: "'p \<Rightarrow> builder \<Rightarrow> (go_error, builder) result go"
    and block :: "'p \<Rightarrow> block \<Rightarrow> bool"
    and pid :: "'p \<Rightarrow> string"
  assumes step_block: "step p b = Ret (Inr b') \<longleftrightarrow> (\<exists>bl. block p bl \<and> b' = execute (block_plan bl) b)"
    and block_proper: "block p bl \<Longrightarrow> proper_block bl"
    and block_pid: "block p bl \<Longrightarrow> fst bl = pid p"
begin

lemma loop_blocks:
  "range_state step ps b = Ret (Inr b') \<longleftrightarrow> (\<exists>bls. list_all2 block ps bls \<and> b' = execute (blocks_plan bls) b)"
proof (induction ps arbitrary: b)
  case (Cons p ps)
  have "range_state step (p # ps) b = Ret (Inr b') \<longleftrightarrow>
      (\<exists>bl bls. block p bl \<and> list_all2 block ps bls \<and> b' = execute (blocks_plan bls) (execute (block_plan bl) b))"
    using Cons.IH by (auto simp: grbind_eq_Inr step_block)
  also have "\<dots> \<longleftrightarrow> (\<exists>bls. list_all2 block (p # ps) bls \<and> b' = execute (blocks_plan bls) b)"
    unfolding ex_list_all2_Cons by (simp add: blocks_plan_def)
  finally show ?case .
qed (auto simp: blocks_plan_def)

lemma blocks_proper: "list_all2 block ps bls \<Longrightarrow> bl \<in> set bls \<Longrightarrow> proper_block bl"
  by (induction rule: list_all2_induct) (auto simp: block_proper)

lemma blocks_pids: "list_all2 block ps bls \<Longrightarrow> map fst bls = map pid ps"
  by (induction rule: list_all2_induct) (auto simp: block_pid)

lemma block_of: "list_all2 block ps bls \<Longrightarrow> p \<in> set ps \<Longrightarrow> \<exists>bl\<in>set bls. block p bl"
  by (induction rule: list_all2_induct) auto

end

lemma blocks_plan_append: "blocks_plan (as @ bs) = blocks_plan as @ blocks_plan bs"
  by (simp add: blocks_plan_def)

end
