(* ===== verification/OTLPExporter.thy ===== *)
theory OTLPExporter
  imports CollectorConfig SecretRef TLSCertValidator
begin

text \<open>
  The OTLP exporter and the OAuth2 extension of a pipeline: \<open>env_vars.go\<close>, \<open>otlpexporter_config_builder.go\<close> and
  \<open>oauth2extension_config_builder.go\<close> of \<open>internal/otelcollector/config/common\<close>.

  Secrets never appear in the configuration: it refers to environment variables, whose values are resolved from
  the API server here and stored in a Secret.  The theorem of the theory is that the two sides agree, so that the
  collector finds every variable its configuration refers to.

  \<open>url.Parse\<close>, \<open>URL.String\<close> and \<open>path.Join\<close> are the fields of a record argument; \<open>strings.ToUpper\<close> and
  \<open>strings.TrimSpace\<close> are modelled on ASCII, which names of Kubernetes objects and of HTTP headers are.
\<close>

section \<open>Go library functions\<close>

definition isSpace :: "char \<Rightarrow> bool" where
  "isSpace c \<longleftrightarrow> c \<in> {CHR '' '', CHR 0x09, CHR 0x0A, CHR 0x0B, CHR 0x0C, CHR 0x0D}"

definition TrimSpace :: "string \<Rightarrow> string" where
  "TrimSpace s = rev (dropWhile isSpace (rev (dropWhile isSpace s)))"

definition toUpperChar :: "char \<Rightarrow> char" where
  "toUpperChar c = (let n = (of_char c :: nat) in if 97 \<le> n \<and> n \<le> 122 then char_of (n - 32) else c)"

definition ToUpper :: "string \<Rightarrow> string" where
  "ToUpper s = map toUpperChar s"

definition base64Char :: "nat \<Rightarrow> char" where
  "base64Char n = ''ABCDEFGHIJKLMNOPQRSTUVWXYZabcdefghijklmnopqrstuvwxyz0123456789+/'' ! (n mod 64)"

text \<open>\<open>base64.StdEncoding.EncodeToString\<close>.\<close>

fun base64Encode :: "string \<Rightarrow> string" where
  "base64Encode [] = []"
| "base64Encode [a] =
     (let n = (of_char a :: nat) in [base64Char (n div 4), base64Char (n * 16), CHR ''='', CHR ''='']) "
| "base64Encode [a, b] =
     (let n = (of_char a :: nat) * 256 + of_char b
      in [base64Char (n div 1024), base64Char (n div 16), base64Char (n * 4), CHR ''=''])"
| "base64Encode (a # b # c # s) =
     (let n = ((of_char a :: nat) * 256 + of_char b) * 256 + of_char c
      in [base64Char (n div 262144), base64Char (n div 4096), base64Char (n div 64), base64Char n] @ base64Encode s)"

record parsed_url =
  pu_Path :: string
  pu_RawQuery :: string
  pu_Rest :: string

record net_url =
  url_Parse :: "string \<Rightarrow> (string, parsed_url) result"
  url_String :: "parsed_url \<Rightarrow> string"
  path_Join :: "string \<Rightarrow> string \<Rightarrow> string"

section \<open>Names of environment variables\<close>

definition sanitizeEnvVarName :: "string \<Rightarrow> string" where
  "sanitizeEnvVarName input = map (\<lambda>c. if c = CHR ''.'' \<or> c = CHR ''-'' then CHR ''_'' else c) (ToUpper input)"

definition formatEnvVarKey :: "string \<Rightarrow> PipelineRef \<Rightarrow> string" where
  "formatEnvVarKey prefix ref =
     (if TypePrefix ref \<noteq> []
      then prefix @ ''_'' @ sanitizeEnvVarName (TypePrefix ref) @ ''_'' @ sanitizeEnvVarName (pl_name ref)
      else prefix @ ''_'' @ sanitizeEnvVarName (pl_name ref))"

definition formatHeaderEnvVarKey :: "Header \<Rightarrow> PipelineRef \<Rightarrow> string" where
  "formatHeaderEnvVarKey header ref =
     (if TypePrefix ref \<noteq> []
      then ''HEADER_'' @ sanitizeEnvVarName (TypePrefix ref) @ ''_'' @ sanitizeEnvVarName (pl_name ref) @ ''_'' @
           sanitizeEnvVarName (h_Name header)
      else ''HEADER_'' @ sanitizeEnvVarName (pl_name ref) @ ''_'' @ sanitizeEnvVarName (h_Name header))"

abbreviation basicAuthHeaderVariablePrefix :: string where "basicAuthHeaderVariablePrefix \<equiv> ''BASIC_AUTH_HEADER''"
abbreviation otlpEndpointVariablePrefix :: string where "otlpEndpointVariablePrefix \<equiv> ''OTLP_ENDPOINT''"
abbreviation tlsConfigCertVariablePrefix :: string where "tlsConfigCertVariablePrefix \<equiv> ''OTLP_TLS_CERT_PEM''"
abbreviation tlsConfigKeyVariablePrefix :: string where "tlsConfigKeyVariablePrefix \<equiv> ''OTLP_TLS_KEY_PEM''"
abbreviation tlsConfigCaVariablePrefix :: string where "tlsConfigCaVariablePrefix \<equiv> ''OTLP_TLS_CA_PEM''"
abbreviation oauth2TokenURLVariablePrefix :: string where "oauth2TokenURLVariablePrefix \<equiv> ''OAUTH2_TOKEN_URL''"
abbreviation oauth2ClientIDVariablePrefix :: string where "oauth2ClientIDVariablePrefix \<equiv> ''OAUTH2_CLIENT_ID''"
abbreviation oauth2ClientSecretVariablePrefix :: string where
  "oauth2ClientSecretVariablePrefix \<equiv> ''OAUTH2_CLIENT_SECRET''"

section \<open>Their values\<close>

definition formatBasicAuthHeader :: "string \<Rightarrow> string \<Rightarrow> string" where
  "formatBasicAuthHeader username password = ''Basic '' @ base64Encode (username @ '':'' @ password)"

definition prefixHeaderValue :: "Header \<Rightarrow> string \<Rightarrow> string" where
  "prefixHeaderValue header value =
     (if length (TrimSpace (h_Prefix header)) > 0 then TrimSpace (h_Prefix header) @ '' '' @ value else value)"

definition resolveEndpointURL :: "net_url \<Rightarrow> secret_reader \<Rightarrow> OTLPOutput \<Rightarrow> (go_error, string) result go" where
  "resolveEndpointURL nu get output =
     grbind (ResolveValue get (oo_Endpoint output)) (\<lambda>endpoint.
       if length (oo_Path output) > 0 then
         (case url_Parse nu endpoint of
            Inl e \<Rightarrow> Ret (Inl (NewError e))
          | Inr u \<Rightarrow>
              (case url_Parse nu (oo_Path output) of
                 Inl e \<Rightarrow> Ret (Inl (NewError e))
               | Inr pathRef \<Rightarrow>
                   Ret (Inr (url_String nu (u\<lparr>pu_Path := path_Join nu (pu_Path u) (pu_Path pathRef),
                     pu_RawQuery := pu_RawQuery pathRef\<rparr>)))))
       else Ret (Inr endpoint))"

definition isBasicAuthEnabled :: "AuthenticationOptions option \<Rightarrow> bool" where
  "isBasicAuthEnabled authOptions =
     (case authOptions of
        None \<Rightarrow> False
      | Some a \<Rightarrow>
          (case ao_Basic a of
             None \<Rightarrow> False
           | Some b \<Rightarrow> IsValid (Some (ba_User b)) \<and> IsValid (Some (ba_Password b))))"

definition makeBasicAuthEnvVar ::
    "secret_reader \<Rightarrow> OTLPOutput \<Rightarrow> PipelineRef \<Rightarrow> EnvVars \<Rightarrow> (go_error, EnvVars) result go" where
  "makeBasicAuthEnvVar get output ref secretData =
     (if isBasicAuthEnabled (oo_Authentication output) then
        gderef (oo_Authentication output) (\<lambda>a. gderef (ao_Basic a) (\<lambda>b.
          grbind (ResolveValue get (ba_User b)) (\<lambda>username.
          grbind (ResolveValue get (ba_Password b)) (\<lambda>password.
            Ret (Inr (secretData(formatEnvVarKey basicAuthHeaderVariablePrefix ref \<mapsto>
              formatBasicAuthHeader username password)))))))
      else Ret (Inr secretData))"

definition makeOTLPEndpointEnvVar ::
    "net_url \<Rightarrow> secret_reader \<Rightarrow> OTLPOutput \<Rightarrow> PipelineRef \<Rightarrow> EnvVars \<Rightarrow> (go_error, EnvVars) result go" where
  "makeOTLPEndpointEnvVar nu get output ref secretData =
     grbind (resolveEndpointURL nu get output) (\<lambda>endpointURL.
       Ret (Inr (secretData(formatEnvVarKey otlpEndpointVariablePrefix ref \<mapsto> endpointURL))))"

definition makeHeaderEnvVar ::
    "secret_reader \<Rightarrow> OTLPOutput \<Rightarrow> PipelineRef \<Rightarrow> EnvVars \<Rightarrow> (go_error, EnvVars) result go" where
  "makeHeaderEnvVar get output ref =
     range_state (\<lambda>header secretData.
       grbind (ResolveValue get (h_ValueType header)) (\<lambda>value.
         Ret (Inr (secretData(formatHeaderEnvVarKey header ref \<mapsto> prefixHeaderValue header value)))))
       (oo_Headers output)"

definition makeTLSEnvVar ::
    "secret_reader \<Rightarrow> OTLPOutput \<Rightarrow> PipelineRef \<Rightarrow> EnvVars \<Rightarrow> (go_error, EnvVars) result go" where
  "makeTLSEnvVar get output ref secretData =
     (case oo_TLS output of
        None \<Rightarrow> Ret (Inr secretData)
      | Some t \<Rightarrow>
          grbind
            (if IsValid (tls_CA t) then
               gderef (tls_CA t) (\<lambda>v. grbind (ResolveValue get v) (\<lambda>ca.
                 Ret (Inr (secretData(formatEnvVarKey tlsConfigCaVariablePrefix ref \<mapsto> ca)))))
             else Ret (Inr secretData))
            (\<lambda>secretData'.
               if IsValid (tls_Cert t) \<and> IsValid (tls_Key t) then
                 gderef (tls_Cert t) (\<lambda>vc. gderef (tls_Key t) (\<lambda>vk.
                   grbind (ResolveValue get vc) (\<lambda>cert.
                   grbind (ResolveValue get vk) (\<lambda>key.
                     Ret (Inr (secretData'
                       (formatEnvVarKey tlsConfigCertVariablePrefix ref \<mapsto> sanitizeValue cert,
                        formatEnvVarKey tlsConfigKeyVariablePrefix ref \<mapsto> sanitizeValue key)))))))
               else Ret (Inr secretData')))"

definition makeOTLPExporterEnvVars ::
    "net_url \<Rightarrow> secret_reader \<Rightarrow> OTLPOutput \<Rightarrow> PipelineRef \<Rightarrow> (go_error, EnvVars) result go" where
  "makeOTLPExporterEnvVars nu get output ref =
     grbind (makeBasicAuthEnvVar get output ref Map.empty) (\<lambda>d1.
     grbind (makeOTLPEndpointEnvVar nu get output ref d1) (\<lambda>d2.
     grbind (makeHeaderEnvVar get output ref d2) (\<lambda>d3.
     makeTLSEnvVar get output ref d3)))"

text \<open>\<open>makeTokenURLEnvVar\<close>, \<open>makeClientIDEnvVar\<close> and \<open>makeClientSecretEnvVar\<close> differ in the value and the prefix.\<close>

definition makeOAuth2EnvVar ::
    "secret_reader \<Rightarrow> (OAuth2Options \<Rightarrow> ValueType) \<Rightarrow> string \<Rightarrow> OAuth2Options option \<Rightarrow> PipelineRef \<Rightarrow> EnvVars \<Rightarrow>
     (go_error, EnvVars) result go" where
  "makeOAuth2EnvVar get field prefix oauth2Options ref secretData =
     (case oauth2Options of
        None \<Rightarrow> Ret (Inr secretData)
      | Some o2 \<Rightarrow>
          (if IsValid (Some (field o2)) then
             grbind (ResolveValue get (field o2)) (\<lambda>v. Ret (Inr (secretData(formatEnvVarKey prefix ref \<mapsto> v))))
           else Ret (Inr secretData)))"

definition makeOAuth2ExtensionEnvVars ::
    "secret_reader \<Rightarrow> OAuth2Options option \<Rightarrow> PipelineRef \<Rightarrow> (go_error, EnvVars) result go" where
  "makeOAuth2ExtensionEnvVars get o2 ref =
     grbind (makeOAuth2EnvVar get oa_TokenURL oauth2TokenURLVariablePrefix o2 ref Map.empty) (\<lambda>d1.
     grbind (makeOAuth2EnvVar get oa_ClientID oauth2ClientIDVariablePrefix o2 ref d1) (\<lambda>d2.
     makeOAuth2EnvVar get oa_ClientSecret oauth2ClientSecretVariablePrefix o2 ref d2))"

section \<open>The exporter\<close>

text \<open>A reference to an environment variable in the configuration.\<close>

definition envRef :: "string \<Rightarrow> string" where
  "envRef v = ''${'' @ v @ ''}''"

definition NewSendingQueue :: "int \<Rightarrow> (SendingQueue \<Rightarrow> SendingQueue) list \<Rightarrow> SendingQueue" where
  "NewSendingQueue queueSize opts =
     (let zero = \<lparr>sq_Enabled = False, sq_QueueSize = 0, sq_Sizer = [], sq_Batch = (0, 0, 0, [])\<rparr>
      in if queueSize = 0 then zero
         else fold (\<lambda>opt. opt) opts (zero\<lparr>sq_Enabled := True, sq_QueueSize := queueSize\<rparr>))"

definition isInsecureOutput :: "string \<Rightarrow> bool" where
  "isInsecureOutput endpoint \<longleftrightarrow> length (TrimSpace endpoint) > 0 \<and> HasPrefix endpoint ''http://''"

definition exporter_tls :: "OTLPOutput \<Rightarrow> string \<Rightarrow> PipelineRef \<Rightarrow> TLS" where
  "exporter_tls output otlpEndpointValue ref =
     (let insecure = isInsecureOutput otlpEndpointValue
      in case oo_TLS output of
           None \<Rightarrow> \<lparr>tl_Insecure = insecure, tl_InsecureSkipVerify = False, tl_CertPem = [], tl_KeyPem = [], tl_CAPem = []\<rparr>
         | Some t \<Rightarrow>
             \<lparr>tl_Insecure = (if \<not> insecure then tls_Insecure t else insecure),
              tl_InsecureSkipVerify = tls_InsecureSkipVerify t,
              tl_CertPem = (if IsValid (tls_Cert t) then envRef (formatEnvVarKey tlsConfigCertVariablePrefix ref) else []),
              tl_KeyPem = (if IsValid (tls_Key t) then envRef (formatEnvVarKey tlsConfigKeyVariablePrefix ref) else []),
              tl_CAPem = (if IsValid (tls_CA t) then envRef (formatEnvVarKey tlsConfigCaVariablePrefix ref) else [])\<rparr>)"

definition exporter_headers :: "OTLPOutput \<Rightarrow> PipelineRef \<Rightarrow> string \<rightharpoonup> string" where
  "exporter_headers output ref =
     fold (\<lambda>header hs. hs(h_Name header \<mapsto> envRef (formatHeaderEnvVarKey header ref))) (oo_Headers output)
       (if isBasicAuthEnabled (oo_Authentication output)
        then [''Authorization'' \<mapsto> envRef (formatEnvVarKey basicAuthHeaderVariablePrefix ref)] else Map.empty)"

definition hasOAuth2 :: "OTLPOutput \<Rightarrow> bool" where
  "hasOAuth2 output \<longleftrightarrow> Option.bind (oo_Authentication output) ao_OAuth2 \<noteq> None"

definition otlpExporter :: "OTLPOutput \<Rightarrow> PipelineRef \<Rightarrow> EnvVars \<Rightarrow> SendingQueue \<Rightarrow> OTLPExporterConfig" where
  "otlpExporter output ref envVars sendingQueue =
     (let otlpEndpointVariable = formatEnvVarKey otlpEndpointVariablePrefix ref;
          otlpEndpointValue = deref (envVars otlpEndpointVariable) [];
          compression = (if oo_Compression output = [] then ''gzip'' else oo_Compression output);
          endpointRef = envRef otlpEndpointVariable;
          withPath = (\<lambda>signalType. length (oo_Path output) > 0 \<and> signalType = pl_signalType ref)
      in \<lparr>oe_MetricsEndpoint = (if withPath SignalTypeMetric then endpointRef else []),
          oe_TracesEndpoint = (if withPath SignalTypeTrace then endpointRef else []),
          oe_LogsEndpoint = (if withPath SignalTypeLog then endpointRef else []),
          oe_Endpoint = (if withPath SignalTypeMetric \<or> withPath SignalTypeTrace \<or> withPath SignalTypeLog then []
                         else endpointRef),
          oe_Headers = exporter_headers output ref,
          oe_TLS = exporter_tls output otlpEndpointValue ref,
          oe_Compression = compression,
          oe_SendingQueue = sendingQueue,
          oe_RetryOnFailure = \<lparr>rf_Enabled = True, rf_InitialInterval = ''5s'', rf_MaxInterval = ''30s'',
            rf_MaxElapsedTime = ''300s''\<rparr>,
          oe_Authenticator = (if hasOAuth2 output then ComponentIDOAuth2Extension ref else [])\<rparr>)"

definition OTLPExporter_build ::
    "net_url \<Rightarrow> secret_reader \<Rightarrow> OTLPOutput \<Rightarrow> PipelineRef \<Rightarrow> SendingQueue \<Rightarrow>
     (go_error, component option \<times> EnvVars) result go" where
  "OTLPExporter_build nu get output ref sendingQueue =
     grbind (gwrap (\<lambda>e. Errorf ''failed to make env vars: '' e []) (makeOTLPExporterEnvVars nu get output ref))
       (\<lambda>envVars. Ret (Inr (Some (OTLPExporter (otlpExporter output ref envVars sendingQueue)), envVars)))"

definition oauth2Extension :: "OAuth2Options \<Rightarrow> PipelineRef \<Rightarrow> OAuth2ExtensionConfig" where
  "oauth2Extension o2 ref =
     \<lparr>ox_TokenURL = envRef (formatEnvVarKey oauth2TokenURLVariablePrefix ref),
      ox_ClientID = envRef (formatEnvVarKey oauth2ClientIDVariablePrefix ref),
      ox_ClientSecret = envRef (formatEnvVarKey oauth2ClientSecretVariablePrefix ref),
      ox_Scopes = oa_Scopes o2, ox_Params = oa_Params o2\<rparr>"

definition OAuth2Extension_build ::
    "secret_reader \<Rightarrow> OAuth2Options \<Rightarrow> PipelineRef \<Rightarrow> (go_error, OAuth2ExtensionConfig \<times> EnvVars) result go" where
  "OAuth2Extension_build get o2 ref =
     grbind (gwrap (\<lambda>e. Errorf ''failed to make env vars: '' e []) (makeOAuth2ExtensionEnvVars get (Some o2) ref))
       (\<lambda>envVars. Ret (Inr (oauth2Extension o2 ref, envVars)))"

section \<open>Every variable that is referred to is defined\<close>

definition resolves :: "secret_reader \<Rightarrow> ValueType \<Rightarrow> bool" where
  "resolves get v \<longleftrightarrow> (\<exists>b. ResolveValue get v = Ret (Inr b))"

text \<open>The texts of an exporter that are references to variables.\<close>

definition exporter_refs :: "OTLPExporterConfig \<Rightarrow> string set" where
  "exporter_refs c =
     ({oe_MetricsEndpoint c, oe_TracesEndpoint c, oe_LogsEndpoint c, oe_Endpoint c,
       tl_CertPem (oe_TLS c), tl_KeyPem (oe_TLS c), tl_CAPem (oe_TLS c)} - {[]}) \<union> ran (oe_Headers c)"

definition extension_refs :: "OAuth2ExtensionConfig \<Rightarrow> string set" where
  "extension_refs x = {ox_TokenURL x, ox_ClientID x, ox_ClientSecret x}"

definition refs_defined :: "string set \<Rightarrow> EnvVars \<Rightarrow> bool" where
  "refs_defined rs ev \<longleftrightarrow> (\<forall>r\<in>rs. \<exists>x\<in>dom ev. r = envRef x)"

lemma makeBasicAuthEnvVar_ok:
  assumes "\<forall>b. Option.bind (oo_Authentication out) ao_Basic = Some b \<longrightarrow> resolves get (ba_User b) \<and> resolves get (ba_Password b)"
  shows "\<exists>d'. makeBasicAuthEnvVar get out ref d = Ret (Inr d') \<and> dom d' = dom d \<union>
    (if isBasicAuthEnabled (oo_Authentication out) then {formatEnvVarKey basicAuthHeaderVariablePrefix ref} else {})"
proof (cases "isBasicAuthEnabled (oo_Authentication out)")
  case True
  then obtain a b where ab: "oo_Authentication out = Some a" "ao_Basic a = Some b"
    by (auto simp: isBasicAuthEnabled_def split: option.splits)
  with assms obtain u p where "ResolveValue get (ba_User b) = Ret (Inr u)" "ResolveValue get (ba_Password b) = Ret (Inr p)"
    by (auto simp: resolves_def)
  with True ab show ?thesis by (auto simp: makeBasicAuthEnvVar_def)
qed (simp add: makeBasicAuthEnvVar_def)

definition url_ok :: "net_url \<Rightarrow> secret_reader \<Rightarrow> OTLPOutput \<Rightarrow> bool" where
  "url_ok nu get out \<longleftrightarrow> oo_Path out = [] \<or>
     (\<exists>e u p. ResolveValue get (oo_Endpoint out) = Ret (Inr e) \<and> url_Parse nu e = Inr u \<and>
        url_Parse nu (oo_Path out) = Inr p)"

lemma makeOTLPEndpointEnvVar_ok:
  assumes "resolves get (oo_Endpoint out)" and "url_ok nu get out"
  shows "\<exists>d'. makeOTLPEndpointEnvVar nu get out ref d = Ret (Inr d') \<and>
    dom d' = dom d \<union> {formatEnvVarKey otlpEndpointVariablePrefix ref}"
  using assms by (auto simp: makeOTLPEndpointEnvVar_def resolveEndpointURL_def resolves_def url_ok_def)

lemma makeHeaderEnvVar_ok:
  assumes "\<forall>h\<in>set (oo_Headers out). resolves get (h_ValueType h)"
  shows "\<exists>d'. makeHeaderEnvVar get out ref d = Ret (Inr d') \<and>
    dom d' = dom d \<union> (\<lambda>h. formatHeaderEnvVarKey h ref) ` set (oo_Headers out)"
proof -
  let ?step = "\<lambda>header secretData. grbind (ResolveValue get (h_ValueType header)) (\<lambda>value.
      Ret (Inr (secretData(formatHeaderEnvVarKey header ref \<mapsto> prefixHeaderValue header value))))"
  have "\<exists>d'. range_state ?step hs d = Ret (Inr d') \<and>
      dom d' = dom d \<union> (\<lambda>h. formatHeaderEnvVarKey h ref) ` set hs"
    if "\<forall>h\<in>set hs. resolves get (h_ValueType h)" for hs d
    using that
  proof (induction hs arbitrary: d)
    case (Cons h hs)
    then obtain v where v: "ResolveValue get (h_ValueType h) = Ret (Inr v)" by (auto simp: resolves_def)
    from Cons.IH [of "d(formatHeaderEnvVarKey h ref \<mapsto> prefixHeaderValue h v)"] Cons.prems
    show ?case by (auto simp: v)
  qed simp
  with assms show ?thesis by (simp add: makeHeaderEnvVar_def)
qed

lemma makeTLSEnvVar_ok:
  assumes "\<forall>t. oo_TLS out = Some t \<longrightarrow> (IsValid (tls_Cert t) \<longleftrightarrow> IsValid (tls_Key t)) \<and>
      (\<forall>v\<in>set (tlsValues t). IsValid (Some v) \<longrightarrow> resolves get v)"
  shows "\<exists>d'. makeTLSEnvVar get out ref d = Ret (Inr d') \<and> dom d \<subseteq> dom d' \<and>
    (\<forall>t. oo_TLS out = Some t \<longrightarrow>
       (IsValid (tls_CA t) \<longrightarrow> formatEnvVarKey tlsConfigCaVariablePrefix ref \<in> dom d') \<and>
       (IsValid (tls_Cert t) \<longrightarrow> formatEnvVarKey tlsConfigCertVariablePrefix ref \<in> dom d' \<and>
          formatEnvVarKey tlsConfigKeyVariablePrefix ref \<in> dom d'))"
proof (cases "oo_TLS out")
  case None
  then show ?thesis by (simp add: makeTLSEnvVar_def)
next
  case (Some t)
  have valid: "\<exists>v b. ov = Some v \<and> ResolveValue get v = Ret (Inr b)"
    if "IsValid ov" "ov \<in> {tls_CA t, tls_Cert t, tls_Key t}" for ov
  proof -
    from that(1) obtain v where v: "ov = Some v" by (cases ov) (auto simp: IsValid_def)
    with that(2) have "v \<in> set (tlsValues t)" by (auto simp: tlsValues_def opt_list_def)
    with assms Some that(1) v show ?thesis by (auto simp: resolves_def)
  qed
  have ca: "\<exists>d1. (if IsValid (tls_CA t) then gderef (tls_CA t) (\<lambda>v. grbind (ResolveValue get v) (\<lambda>ca.
      Ret (Inr (d(formatEnvVarKey tlsConfigCaVariablePrefix ref \<mapsto> ca))))) else Ret (Inr d)) = Ret (Inr d1) \<and>
    dom d \<subseteq> dom d1 \<and> (IsValid (tls_CA t) \<longrightarrow> formatEnvVarKey tlsConfigCaVariablePrefix ref \<in> dom d1)"
    using valid [of "tls_CA t"] by (cases "IsValid (tls_CA t)") auto
  then obtain d1 where d1: "(if IsValid (tls_CA t) then gderef (tls_CA t) (\<lambda>v. grbind (ResolveValue get v) (\<lambda>ca.
      Ret (Inr (d(formatEnvVarKey tlsConfigCaVariablePrefix ref \<mapsto> ca))))) else Ret (Inr d)) = Ret (Inr d1)"
    "dom d \<subseteq> dom d1" "IsValid (tls_CA t) \<longrightarrow> formatEnvVarKey tlsConfigCaVariablePrefix ref \<in> dom d1" by blast
  show ?thesis
  proof (cases "IsValid (tls_Cert t)")
    case False
    then show ?thesis using d1 Some by (simp add: makeTLSEnvVar_def)
  next
    case True
    with assms Some have key: "IsValid (tls_Key t)" by simp
    from valid [OF True] valid [OF key] obtain vc bc vk bk where
      "tls_Cert t = Some vc" "ResolveValue get vc = Ret (Inr bc)"
      "tls_Key t = Some vk" "ResolveValue get vk = Ret (Inr bk)" by auto
    with True key d1 Some show ?thesis by (auto simp: makeTLSEnvVar_def)
  qed
qed

lemma ran_headers:
  "ran (fold (\<lambda>h hs. hs(h_Name h \<mapsto> envRef (formatHeaderEnvVarKey h ref))) headers m) \<subseteq>
    ran m \<union> (\<lambda>h. envRef (formatHeaderEnvVarKey h ref)) ` set headers"
proof (induction headers arbitrary: m)
  case (Cons h headers)
  have "ran (m(h_Name h \<mapsto> envRef (formatHeaderEnvVarKey h ref))) \<subseteq> insert (envRef (formatHeaderEnvVarKey h ref)) (ran m)"
    by (auto simp: ran_def)
  with Cons.IH [of "m(h_Name h \<mapsto> envRef (formatHeaderEnvVarKey h ref))"] show ?case
    unfolding fold.simps comp_apply list.set by blast
qed simp

text \<open>What rendering an output needs of the cluster: every value resolves, and a client certificate is given
  together with its key.\<close>

definition output_resolvable :: "net_url \<Rightarrow> secret_reader \<Rightarrow> OTLPOutput \<Rightarrow> bool" where
  "output_resolvable nu get out \<longleftrightarrow>
     url_ok nu get out \<and> resolves get (oo_Endpoint out) \<and>
     (\<forall>b. Option.bind (oo_Authentication out) ao_Basic = Some b \<longrightarrow> resolves get (ba_User b) \<and> resolves get (ba_Password b)) \<and>
     (\<forall>h\<in>set (oo_Headers out). resolves get (h_ValueType h)) \<and>
     (\<forall>t. oo_TLS out = Some t \<longrightarrow> (IsValid (tls_Cert t) \<longleftrightarrow> IsValid (tls_Key t)) \<and>
        (\<forall>v\<in>set (tlsValues t). IsValid (Some v) \<longrightarrow> resolves get v))"

lemma exporter_complete:
  assumes "output_resolvable nu get out"
  shows "\<exists>c ev. OTLPExporter_build nu get out ref q = Ret (Inr (Some (OTLPExporter c), ev)) \<and>
    refs_defined (exporter_refs c) ev"
proof -
  note ok = assms [unfolded output_resolvable_def]
  obtain d1 where d1: "makeBasicAuthEnvVar get out ref Map.empty = Ret (Inr d1)"
    "dom d1 = (if isBasicAuthEnabled (oo_Authentication out) then {formatEnvVarKey basicAuthHeaderVariablePrefix ref} else {})"
    using makeBasicAuthEnvVar_ok [of out get ref Map.empty] ok by auto
  obtain d2 where d2: "makeOTLPEndpointEnvVar nu get out ref d1 = Ret (Inr d2)"
    "dom d2 = dom d1 \<union> {formatEnvVarKey otlpEndpointVariablePrefix ref}"
    using makeOTLPEndpointEnvVar_ok [of get out nu ref d1] ok by auto
  obtain d3 where d3: "makeHeaderEnvVar get out ref d2 = Ret (Inr d3)"
    "dom d3 = dom d2 \<union> (\<lambda>h. formatHeaderEnvVarKey h ref) ` set (oo_Headers out)"
    using makeHeaderEnvVar_ok [of out get ref d2] ok by auto
  obtain ev where ev: "makeTLSEnvVar get out ref d3 = Ret (Inr ev)" "dom d3 \<subseteq> dom ev"
    "\<forall>t. oo_TLS out = Some t \<longrightarrow>
       (IsValid (tls_CA t) \<longrightarrow> formatEnvVarKey tlsConfigCaVariablePrefix ref \<in> dom ev) \<and>
       (IsValid (tls_Cert t) \<longrightarrow> formatEnvVarKey tlsConfigCertVariablePrefix ref \<in> dom ev \<and>
          formatEnvVarKey tlsConfigKeyVariablePrefix ref \<in> dom ev)"
    using makeTLSEnvVar_ok [of out get ref d3] ok by auto
  let ?c = "otlpExporter out ref ev q"
  have build: "OTLPExporter_build nu get out ref q = Ret (Inr (Some (OTLPExporter ?c), ev))"
    using d1 d2 d3 ev by (simp add: OTLPExporter_build_def makeOTLPExporterEnvVars_def)
  let ?E = "formatEnvVarKey otlpEndpointVariablePrefix ref"
  have E: "?E \<in> dom ev" using d2 d3 ev(2) by auto
  have endpoints: "{oe_MetricsEndpoint ?c, oe_TracesEndpoint ?c, oe_LogsEndpoint ?c, oe_Endpoint ?c} - {[]} \<subseteq> {envRef ?E}"
    by (auto simp: otlpExporter_def Let_def)
  have tls: "{tl_CertPem (oe_TLS ?c), tl_KeyPem (oe_TLS ?c), tl_CAPem (oe_TLS ?c)} - {[]} \<subseteq> envRef ` dom ev"
    using ev(3) ok by (cases "oo_TLS out") (auto simp: otlpExporter_def exporter_tls_def Let_def)
  have "ran (oe_Headers ?c) \<subseteq> envRef ` dom ev"
  proof -
    have h: "oe_Headers ?c = exporter_headers out ref" by (simp add: otlpExporter_def Let_def)
    have "ran (if isBasicAuthEnabled (oo_Authentication out)
        then [''Authorization'' \<mapsto> envRef (formatEnvVarKey basicAuthHeaderVariablePrefix ref)] else Map.empty) \<subseteq>
        envRef ` dom d1"
      using d1(2) by (auto split: if_splits)
    moreover have "(\<lambda>h. envRef (formatHeaderEnvVarKey h ref)) ` set (oo_Headers out) \<subseteq> envRef ` dom d3"
      using d3(2) by blast
    moreover have "envRef ` dom d1 \<subseteq> envRef ` dom ev" "envRef ` dom d3 \<subseteq> envRef ` dom ev"
      using d2(2) d3(2) ev(2) by (auto intro!: imageI)
    ultimately show ?thesis
      unfolding h exporter_headers_def by (intro order.trans [OF ran_headers] Un_least) (erule order.trans, assumption)+
  qed
  with E endpoints tls have "refs_defined (exporter_refs ?c) ev"
    unfolding refs_defined_def exporter_refs_def by blast
  with build show ?thesis by blast
qed

lemma extension_complete:
  assumes "\<forall>v\<in>{oa_TokenURL o2, oa_ClientID o2, oa_ClientSecret o2}. IsValid (Some v) \<and> resolves get v"
  shows "\<exists>ev. OAuth2Extension_build get o2 ref = Ret (Inr (oauth2Extension o2 ref, ev)) \<and>
    refs_defined (extension_refs (oauth2Extension o2 ref)) ev"
  using assms
  by (auto simp: OAuth2Extension_build_def makeOAuth2ExtensionEnvVars_def makeOAuth2EnvVar_def resolves_def
      refs_defined_def extension_refs_def oauth2Extension_def)

end
