(* ===== verification/GatewayConfig.thy ===== *)
theory GatewayConfig
  imports ComponentBuilder OTLPExporter PipelineValidators "HOL-Library.List_Lexorder" "HOL-Library.Char_ord"
begin

text \<open>
  The configuration of the OTLP gateway, which receives the traces, logs and metrics of the whole cluster over
  OTLP, enriches them and sends them to the backends of the pipelines: \<open>internal/otelcollector/config/otlpgateway\<close>
  (\<open>config_builder.go\<close>, \<open>config_builder_traces.go\<close>, \<open>config_builder_logs.go\<close>, \<open>config_builder_metrics.go\<close>).

  The component functions \<open>addTrace...\<close>, \<open>addLog...\<close> and \<open>addMetric...\<close> of the sources are the elements of lists
  here, in the order in which \<open>buildTracePipelines\<close>, \<open>buildLogPipelines\<close> and \<open>buildMetricPipelines\<close> pass them to
  \<open>AddServicePipeline\<close>.  \<open>slices.SortFunc\<close> by name is \<open>sort_key\<close>: names are unique within a kind.
\<close>

section \<open>Options and shared components\<close>

record BuildOptions =
  bo_LogPipelines :: "LogPipeline list"
  bo_TracePipelines :: "TracePipeline list"
  bo_MetricPipelines :: "MetricPipeline list"
  bo_Cluster :: ClusterOptions
  bo_Enrichments :: "EnrichmentSpec option"
  bo_ServiceEnrichment :: string
  bo_ModuleVersion :: string
  bo_GatewayNamespace :: string
  bo_VpaActive :: bool

abbreviation AnnotationValueTelemetryServiceEnrichmentOtel :: string where
  "AnnotationValueTelemetryServiceEnrichmentOtel \<equiv> ''otel''"

definition useOTel :: "BuildOptions \<Rightarrow> bool" where
  "useOTel opts \<longleftrightarrow> bo_ServiceEnrichment opts = AnnotationValueTelemetryServiceEnrichmentOtel"

definition sortPipelinesByName :: "BuildOptions \<Rightarrow> BuildOptions" where
  "sortPipelinesByName opts = opts
     \<lparr>bo_LogPipelines := sort_key (\<lambda>p. om_Name (lp_ObjectMeta p)) (bo_LogPipelines opts),
      bo_TracePipelines := sort_key (\<lambda>p. om_Name (tp_ObjectMeta p)) (bo_TracePipelines opts),
      bo_MetricPipelines := sort_key (\<lambda>p. om_Name (mp_ObjectMeta p)) (bo_MetricPipelines opts)\<rparr>"

definition otlpReceiverConfig :: component where
  "otlpReceiverConfig =
     OTLPReceiverConfig (''${'' @ EnvVarCurrentPodIP @ ''}:'' @ Itoa OTLPHTTP)
       (''${'' @ EnvVarCurrentPodIP @ ''}:'' @ Itoa OTLPGRPC)"

definition memoryLimiterConfig :: component where
  "memoryLimiterConfig = MemoryLimiterConfig ''1s'' 75 15"

definition k8sAttributesProcessorConfig :: "BuildOptions \<Rightarrow> component" where
  "k8sAttributesProcessorConfig opts = K8sAttributes (K8sAttributesProcessor (bo_Enrichments opts) (useOTel opts))"

definition serviceEnrichmentProcessorConfig :: "BuildOptions \<Rightarrow> component option" where
  "serviceEnrichmentProcessorConfig opts = (if useOTel opts then None else Some ResolveServiceName)"

text \<open>\<open>pipelines.TracePipelineRef\<close>, \<open>LogPipelineRef\<close> and \<open>MetricPipelineRef\<close>.\<close>

definition TracePipelineRef :: "TracePipeline \<Rightarrow> PipelineRef" where
  "TracePipelineRef tp = \<lparr>pl_name = om_Name (tp_ObjectMeta tp), pl_signalType = SignalTypeTrace\<rparr>"

definition LogPipelineRef :: "LogPipeline \<Rightarrow> PipelineRef" where
  "LogPipelineRef lp = \<lparr>pl_name = om_Name (lp_ObjectMeta lp), pl_signalType = SignalTypeLog\<rparr>"

definition MetricPipelineRef :: "MetricPipeline \<Rightarrow> PipelineRef" where
  "MetricPipelineRef mp = \<lparr>pl_name = om_Name (mp_ObjectMeta mp), pl_signalType = SignalTypeMetric\<rparr>"

text \<open>The processors that a pipeline has for its own transforms and filters.\<close>

definition userTransform ::
    "(TransformProcessorStatements list \<Rightarrow> TransformProcessorConfig) \<Rightarrow> TransformSpec list \<Rightarrow> component option" where
  "userTransform f transforms =
     (if length transforms = 0 then None else Some (Transform (f (TransformSpecsToProcessorStatements transforms))))"

definition userFilter :: "(FilterSpec list \<Rightarrow> FilterProcessorConfig) \<Rightarrow> FilterSpec list option \<Rightarrow> component option" where
  "userFilter f filters = map_option (\<lambda>fs. Filter (f fs)) filters"

text \<open>\<open>addTraceOAuth2Extension\<close>, \<open>addLogOAuth2Extension\<close> and \<open>addMetricOAuth2Extension\<close> with the guard
  \<open>shouldEnable...OAuth2\<close>, for the pipeline's output.\<close>

definition addOAuth2Extension :: "secret_reader \<Rightarrow> OTLPOutput \<Rightarrow> PipelineRef \<Rightarrow> builder \<Rightarrow> (go_error, builder) result go" where
  "addOAuth2Extension get out ref b =
     (case Option.bind (oo_Authentication out) ao_OAuth2 of
        None \<Rightarrow> Ret (Inr b)
      | Some o2 \<Rightarrow>
          grbind (gwrap (\<lambda>e. Errorf (''failed to build OAuth2 extension for pipeline '' @ pl_name ref @ '': '') e [])
              (OAuth2Extension_build get o2 ref))
            (\<lambda>(c, ev). Ret (Inr (AddExtension (ComponentIDOAuth2Extension ref) (OAuth2Extension c) ev b))))"

section \<open>Traces\<close>

definition traceOutput :: "TracePipeline option \<Rightarrow> (OTLPOutput \<Rightarrow> 'a go) \<Rightarrow> 'a go" where
  "traceOutput p f = gderef p (\<lambda>tp. gderef (tps_Output (tp_Spec tp)) f)"

definition traceSharedComponents :: "BuildOptions \<Rightarrow> TracePipeline option BuildComponentFunc list" where
  "traceSharedComponents opts =
     [AddReceiver (StaticComponentID ComponentIDOTLPReceiver) (\<lambda>_. Ret (Some otlpReceiverConfig)),
      AddProcessor (StaticComponentID ComponentIDMemoryLimiterProcessor) (\<lambda>_. Ret (Some memoryLimiterConfig)),
      AddProcessor (StaticComponentID ComponentIDDropIstioServiceEnrichmentProcessor) (\<lambda>_. Ret (
        if \<not> useOTel opts then None
        else Some (Transform (TraceTransformProcessor (statements
          [''delete_matching_keys(resource.attributes, \"service.*\") where span.attributes[\"component\"] == \"proxy\"''])))) ),
      AddProcessor (StaticComponentID ComponentIDDropUnknownServiceNameProcessor) (\<lambda>_. Ret (
        if \<not> useOTel opts then None
        else Some (Transform (AllSignalsTransformProcessor DropUnknownServiceNameProcessorStatements)))),
      AddProcessor (StaticComponentID ComponentIDK8sAttributesProcessor) (\<lambda>_. Ret (Some (k8sAttributesProcessorConfig opts))),
      AddProcessor (StaticComponentID ComponentIDRestoreOtelServiceAttrsProcessor) (\<lambda>_. Ret (
        if \<not> useOTel opts then None
        else Some (Transform (AllSignalsTransformProcessor RestoreOtelServiceAnnotationsProcessorStatements)))),
      AddProcessor (StaticComponentID ComponentIDIstioNoiseFilterProcessor) (\<lambda>_. Ret (Some IstioNoiseFilterProcessorConfig)),
      AddProcessor (StaticComponentID ComponentIDInsertClusterAttributesProcessor) (\<lambda>_. Ret (
        Some (Transform (AllSignalsTransformProcessor (InsertClusterAttributesProcessorStatements (bo_Cluster opts)))))),
      AddProcessor (StaticComponentID ComponentIDServiceEnrichmentProcessor) (\<lambda>_. Ret (serviceEnrichmentProcessorConfig opts)),
      AddProcessor (StaticComponentID ComponentIDDropKymaAttributesProcessor) (\<lambda>_. Ret (
        Some (Transform (AllSignalsTransformProcessor DropKymaAttributesProcessorStatements))))]"

definition traceOwnComponents ::
    "net_url \<Rightarrow> secret_reader \<Rightarrow> int \<Rightarrow> TracePipeline option BuildComponentFunc list" where
  "traceOwnComponents nu get queueSize =
     [AddProcessor (onPipeline (\<lambda>tp. ComponentIDUserDefinedTransformProcessor (TracePipelineRef tp)))
        (onPipeline (\<lambda>tp. userTransform TraceTransformProcessor (tps_Transforms (tp_Spec tp)))),
      AddProcessor (onPipeline (\<lambda>tp. ComponentIDUserDefinedFilterProcessor (TracePipelineRef tp)))
        (onPipeline (\<lambda>tp. userFilter TraceFilterProcessor (tps_Filters (tp_Spec tp)))),
      AddProcessor (StaticComponentID ComponentIDBatchProcessor) (\<lambda>_. Ret (Some (BatchProcessorConfig 512 ''10s'' 512))),
      AddExporter
        (\<lambda>p. gderef p (\<lambda>tp. traceOutput p (\<lambda>out. Ret (ComponentIDOTLPExporter (oo_Protocol out) (TracePipelineRef tp)))))
        (\<lambda>p. gderef p (\<lambda>tp. traceOutput p (\<lambda>out.
           OTLPExporter_build nu get out (TracePipelineRef tp) (NewSendingQueue queueSize []))))]"

definition formatTraceServicePipelineID :: "TracePipeline \<Rightarrow> string" where
  "formatTraceServicePipelineID tp = ''traces/'' @ om_Name (tp_ObjectMeta tp)"

definition buildTracePipelines ::
    "net_url \<Rightarrow> secret_reader \<Rightarrow> BuildOptions \<Rightarrow> builder \<Rightarrow> (go_error, builder) result go" where
  "buildTracePipelines nu get opts b0 =
     (let pipelines = bo_TracePipelines opts
      in if length pipelines = 0 then Ret (Inr b0)
         else
           let queueSize = BatchingMaxQueueSize div int (length pipelines)
           in range_state (\<lambda>tp b.
                traceOutput (Some tp) (\<lambda>out.
                  grbind (addOAuth2Extension get out (TracePipelineRef tp) b) (\<lambda>b1.
                    gwrap (\<lambda>e. Errorf ''failed to add trace service pipeline: '' e [])
                      (AddServicePipeline (Some tp) (formatTraceServicePipelineID tp)
                        (traceSharedComponents opts @ traceOwnComponents nu get queueSize) b1))))
                pipelines b0)"

section \<open>Logs\<close>

definition logOutput :: "LogPipeline option \<Rightarrow> (OTLPOutput \<Rightarrow> 'a go) \<Rightarrow> 'a go" where
  "logOutput p f = gderef p (\<lambda>lp. gderef (lo_OTLP (ls_Output (lp_Spec lp))) f)"

definition shouldFilterByNamespace :: "NamespaceSelector option \<Rightarrow> bool" where
  "shouldFilterByNamespace selector =
     (case selector of None \<Rightarrow> False | Some s \<Rightarrow> length (ns_Include s) > 0 \<or> length (ns_Exclude s) > 0)"

definition namespacesConditions :: "string list \<Rightarrow> string list" where
  "namespacesConditions namespaces = map NamespaceEquals namespaces"

definition namespaceFilterProcessor :: "NamespaceSelector \<Rightarrow> FilterProcessorConfig" where
  "namespaceFilterProcessor s =
     (let excludeExpr = (if length (ns_Exclude s) > 0 then [JoinWithOr (namespacesConditions (ns_Exclude s))] else []);
          includeExpr =
            (if length (ns_Include s) > 0
             then [JoinWithAnd [ResourceAttributeIsNotNil K8sNamespaceName,
                     NotExpr (JoinWithOr (namespacesConditions (ns_Include s)))]]
             else [])
      in LogFilterProcessor [\<lparr>fs_Conditions = excludeExpr @ includeExpr\<rparr>])"

definition dropIfInputSourceOTLPProcessor :: FilterProcessorConfig where
  "dropIfInputSourceOTLPProcessor =
     LogFilterProcessor [\<lparr>fs_Conditions = [JoinWithOr [IsNotNil ''log.observed_time'', IsNotNil ''log.time'']]\<rparr>]"

text \<open>The namespace filter of an OTLP input, if the input is on and selects namespaces.\<close>

definition otlpNamespaceFilter ::
    "(NamespaceSelector \<Rightarrow> FilterProcessorConfig) \<Rightarrow> OTLPInput option \<Rightarrow> component option" where
  "otlpNamespaceFilter f input =
     (case input of
        None \<Rightarrow> None
      | Some i \<Rightarrow>
          (if \<not> IsOTLPInputEnabled input \<or> \<not> shouldFilterByNamespace (oi_Namespaces i) then None
           else map_option (\<lambda>s. Filter (f s)) (oi_Namespaces i)))"

definition logSharedComponents :: "BuildOptions \<Rightarrow> LogPipeline option BuildComponentFunc list" where
  "logSharedComponents opts =
     [AddReceiver (StaticComponentID ComponentIDOTLPReceiver) (\<lambda>_. Ret (Some otlpReceiverConfig)),
      AddProcessor (StaticComponentID ComponentIDMemoryLimiterProcessor) (\<lambda>_. Ret (Some memoryLimiterConfig)),
      AddProcessor (StaticComponentID ComponentIDSetObservedTimeIfZeroProcessor) (\<lambda>_. Ret (
        Some (Transform (LogTransformProcessor [\<lparr>tst_Statements = [''set(log.observed_time, Now())''],
          tst_Conditions = [''log.observed_time_unix_nano == 0'']\<rparr>])))),
      AddProcessor (StaticComponentID ComponentIDDropUnknownServiceNameProcessor) (\<lambda>_. Ret (
        if \<not> useOTel opts then None
        else Some (Transform (AllSignalsTransformProcessor DropUnknownServiceNameProcessorStatements)))),
      AddProcessor (StaticComponentID ComponentIDK8sAttributesProcessor) (\<lambda>_. Ret (Some (k8sAttributesProcessorConfig opts))),
      AddProcessor (StaticComponentID ComponentIDRestoreOtelServiceAttrsProcessor) (\<lambda>_. Ret (
        if \<not> useOTel opts then None
        else Some (Transform (AllSignalsTransformProcessor RestoreOtelServiceAnnotationsProcessorStatements)))),
      AddProcessor (StaticComponentID ComponentIDIstioNoiseFilterProcessor) (\<lambda>_. Ret (Some IstioNoiseFilterProcessorConfig)),
      AddProcessor (StaticComponentID ComponentIDDropIfInputSourceOTLPProcessor) (onPipeline (\<lambda>lp.
        if IsOTLPInputEnabled (li_OTLP (ls_Input (lp_Spec lp))) then None
        else Some (Filter dropIfInputSourceOTLPProcessor))),
      AddProcessor (onPipeline (\<lambda>lp. ComponentIDNamespaceFilterProcessor (om_Name (lp_ObjectMeta lp))))
        (onPipeline (\<lambda>lp. otlpNamespaceFilter namespaceFilterProcessor (li_OTLP (ls_Input (lp_Spec lp))))),
      AddProcessor (StaticComponentID ComponentIDInsertClusterAttributesProcessor) (\<lambda>_. Ret (
        Some (Transform (AllSignalsTransformProcessor (InsertClusterAttributesProcessorStatements (bo_Cluster opts)))))),
      AddProcessor (StaticComponentID ComponentIDServiceEnrichmentProcessor) (\<lambda>_. Ret (serviceEnrichmentProcessorConfig opts)),
      AddProcessor (StaticComponentID ComponentIDDropKymaAttributesProcessor) (\<lambda>_. Ret (
        Some (Transform (AllSignalsTransformProcessor DropKymaAttributesProcessorStatements)))),
      AddProcessor (StaticComponentID ComponentIDIstioEnrichmentProcessor) (\<lambda>_. Ret (
        Some (IstioEnrichmentProcessorConfig (bo_ModuleVersion opts))))]"

definition logOwnComponents ::
    "net_url \<Rightarrow> secret_reader \<Rightarrow> int \<Rightarrow> LogPipeline option BuildComponentFunc list" where
  "logOwnComponents nu get queueSize =
     [AddProcessor (onPipeline (\<lambda>lp. ComponentIDUserDefinedTransformProcessor (LogPipelineRef lp)))
        (onPipeline (\<lambda>lp. userTransform LogTransformProcessor (ls_Transforms (lp_Spec lp)))),
      AddProcessor (onPipeline (\<lambda>lp. ComponentIDUserDefinedFilterProcessor (LogPipelineRef lp)))
        (onPipeline (\<lambda>lp. userFilter LogFilterProcessor (ls_Filters (lp_Spec lp)))),
      AddProcessor (StaticComponentID ComponentIDBatchProcessor) (\<lambda>_. Ret (Some (BatchProcessorConfig 512 ''10s'' 512))),
      AddExporter
        (\<lambda>p. gderef p (\<lambda>lp. logOutput p (\<lambda>out. Ret (ComponentIDOTLPExporter (oo_Protocol out) (LogPipelineRef lp)))))
        (\<lambda>p. gderef p (\<lambda>lp. logOutput p (\<lambda>out.
           OTLPExporter_build nu get out (LogPipelineRef lp) (NewSendingQueue queueSize []))))]"

definition formatLogServicePipelineID :: "LogPipeline \<Rightarrow> string" where
  "formatLogServicePipelineID lp = ''logs/'' @ om_Name (lp_ObjectMeta lp)"

definition buildLogPipelines ::
    "net_url \<Rightarrow> secret_reader \<Rightarrow> BuildOptions \<Rightarrow> builder \<Rightarrow> (go_error, builder) result go" where
  "buildLogPipelines nu get opts b0 =
     (let pipelines = bo_LogPipelines opts
      in if length pipelines = 0 then Ret (Inr b0)
         else
           let queueSize = BatchingMaxQueueSize div int (length pipelines)
           in range_state (\<lambda>lp b.
                logOutput (Some lp) (\<lambda>out.
                  grbind (addOAuth2Extension get out (LogPipelineRef lp) b) (\<lambda>b1.
                    gwrap (\<lambda>e. Errorf ''failed to add log service pipeline: '' e [])
                      (AddServicePipeline (Some lp) (formatLogServicePipelineID lp)
                        (logSharedComponents opts @ logOwnComponents nu get queueSize) b1))))
                pipelines b0)"

section \<open>Metrics\<close>

definition metricOutput :: "MetricPipeline option \<Rightarrow> (MetricPipelineOTLPOutput \<Rightarrow> 'a go) \<Rightarrow> 'a go" where
  "metricOutput p f = gderef p (\<lambda>mp. gderef (ms_Output (mp_Spec mp)) f)"

text \<open>\<open>metricpipelineutils.IsDeltaTemporality\<close> dereferences two pointers.\<close>

definition IsDeltaTemporality :: "MetricPipelineOTLPOutput option \<Rightarrow> bool go" where
  "IsDeltaTemporality output =
     gderef output (\<lambda>out. gderef (mo_Temporality out) (\<lambda>t. Ret (t = TemporalityDelta)))"

definition metricFilterByNamespaceProcessorConfig :: "NamespaceSelector \<Rightarrow> FilterProcessorConfig" where
  "metricFilterByNamespaceProcessorConfig s =
     (let notFromKymaStatsReceiver = NotExpr (KymaInputNameEquals InputSourceKyma);
          excludeExpr =
            (if length (ns_Exclude s) > 0
             then [JoinWithAnd [notFromKymaStatsReceiver, JoinWithOr (namespacesConditions (ns_Exclude s))]] else []);
          includeExpr =
            (if length (ns_Include s) > 0
             then [JoinWithAnd [notFromKymaStatsReceiver, ResourceAttributeIsNotNil K8sNamespaceName,
                     NotExpr (JoinWithOr (namespacesConditions (ns_Include s)))]]
             else [])
      in MetricFilterProcessor [\<lparr>fs_Conditions = excludeExpr @ includeExpr\<rparr>])"

definition metricInputComponents :: "InputSourceType \<Rightarrow> MetricPipeline option BuildComponentFunc list" where
  "metricInputComponents source =
     [(if source = InputSourceKyma
       then AddReceiver (StaticComponentID ComponentIDKymaStatsReceiver) (\<lambda>_. Ret (Some
         (KymaStatsReceiverConfig ''serviceAccount'' ''30s''
           [(''operator.kyma-project.io'', ''v1beta1'', ''telemetries''),
            (''telemetry.kyma-project.io'', ''v1beta1'', ''logpipelines''),
            (''telemetry.kyma-project.io'', ''v1beta1'', ''tracepipelines''),
            (''telemetry.kyma-project.io'', ''v1beta1'', ''metricpipelines'')]
           ''k8s_leader_elector'')))
       else AddReceiver (StaticComponentID ComponentIDOTLPReceiver) (\<lambda>_. Ret (Some otlpReceiverConfig))),
      AddProcessor (StaticComponentID (InputName source)) (\<lambda>_. Ret (
        Some (Transform (MetricTransformProcessor (KymaInputNameProcessorStatements source))))),
      AddExporter (StaticComponentID ComponentIDInputConnector) (\<lambda>_. Ret (Inr (Some ForwardConnectorConfig, Map.empty)))]"

definition metricEnrichmentComponents :: "BuildOptions \<Rightarrow> MetricPipeline option BuildComponentFunc list" where
  "metricEnrichmentComponents opts =
     [AddReceiver (StaticComponentID ComponentIDInputConnector) (\<lambda>_. Ret (Some ForwardConnectorConfig)),
      AddProcessor (StaticComponentID ComponentIDMemoryLimiterProcessor) (\<lambda>_. Ret (Some memoryLimiterConfig)),
      AddProcessor (StaticComponentID ComponentIDSetInstrumentationScopeKymaProcessor) (\<lambda>_. Ret (
        Some (Transform (InstrumentationScopeProcessor (bo_ModuleVersion opts) [InputSourceKyma])))),
      AddProcessor (StaticComponentID ComponentIDDropUnknownServiceNameProcessor) (\<lambda>_. Ret (
        if \<not> useOTel opts then None
        else Some (Transform (AllSignalsTransformProcessor DropUnknownServiceNameProcessorStatements)))),
      AddProcessor (StaticComponentID ComponentIDK8sAttributesProcessor) (\<lambda>_. Ret (Some (k8sAttributesProcessorConfig opts))),
      AddProcessor (StaticComponentID ComponentIDRestoreOtelServiceAttrsProcessor) (\<lambda>_. Ret (
        if \<not> useOTel opts then None
        else Some (Transform (AllSignalsTransformProcessor RestoreOtelServiceAnnotationsProcessorStatements)))),
      AddProcessor (StaticComponentID ComponentIDServiceEnrichmentProcessor) (\<lambda>_. Ret (serviceEnrichmentProcessorConfig opts)),
      AddProcessor (StaticComponentID ComponentIDInsertClusterAttributesProcessor) (\<lambda>_. Ret (
        Some (Transform (AllSignalsTransformProcessor (InsertClusterAttributesProcessorStatements (bo_Cluster opts)))))),
      AddExporter (StaticComponentID ComponentIDEnrichmentConnector) (\<lambda>_. Ret (Inr (Some ForwardConnectorConfig, Map.empty)))]"

definition metricOutputComponents ::
    "net_url \<Rightarrow> secret_reader \<Rightarrow> int \<Rightarrow> MetricPipeline option BuildComponentFunc list" where
  "metricOutputComponents nu get queueSize =
     [AddReceiver (StaticComponentID ComponentIDEnrichmentConnector) (\<lambda>_. Ret (Some ForwardConnectorConfig)),
      AddProcessor (StaticComponentID ComponentIDDropIfInputSourceOTLPProcessor) (onPipeline (\<lambda>mp.
        if IsOTLPInputEnabled (mi_OTLP (ms_Input (mp_Spec mp))) then None
        else Some (Filter (MetricFilterProcessor [\<lparr>fs_Conditions = [KymaInputNameEquals InputSourceOTLP]\<rparr>])))),
      AddProcessor
        (onPipeline (\<lambda>mp. ComponentIDNamespacePerInputFilterProcessor (om_Name (mp_ObjectMeta mp)) InputSourceOTLP))
        (onPipeline (\<lambda>mp. otlpNamespaceFilter metricFilterByNamespaceProcessorConfig (mi_OTLP (ms_Input (mp_Spec mp))))),
      AddProcessor (StaticComponentID ComponentIDDropKymaAttributesProcessor) (\<lambda>_. Ret (
        Some (Transform (AllSignalsTransformProcessor DropKymaAttributesProcessorStatements)))),
      AddProcessor (onPipeline (\<lambda>mp. ComponentIDUserDefinedTransformProcessor (MetricPipelineRef mp)))
        (onPipeline (\<lambda>mp. userTransform MetricTransformProcessor (ms_Transforms (mp_Spec mp)))),
      AddProcessor (onPipeline (\<lambda>mp. ComponentIDUserDefinedFilterProcessor (MetricPipelineRef mp)))
        (onPipeline (\<lambda>mp. userFilter MetricFilterProcessor (ms_Filters (mp_Spec mp)))),
      AddProcessor (StaticComponentID ComponentIDCumulativeToDeltaProcessor) (\<lambda>p. gderef p (\<lambda>mp.
        gbind (IsDeltaTemporality (ms_Output (mp_Spec mp))) (\<lambda>delta.
          Ret (if delta then Some (CumulativeToDeltaProcessorConfig 0 ''auto'') else None)))),
      AddProcessor (StaticComponentID ComponentIDBatchProcessor) (\<lambda>_. Ret (Some (BatchProcessorConfig 1024 ''10s'' 1024))),
      AddExporter
        (\<lambda>p. gderef p (\<lambda>mp. metricOutput p (\<lambda>out.
           Ret (ComponentIDOTLPExporter (oo_Protocol (mo_OTLPOutput out)) (MetricPipelineRef mp)))))
        (\<lambda>p. gderef p (\<lambda>mp. metricOutput p (\<lambda>out.
           OTLPExporter_build nu get (mo_OTLPOutput out) (MetricPipelineRef mp) (NewSendingQueue queueSize []))))]"

definition formatMetricOutputServicePipelineID :: "MetricPipeline \<Rightarrow> string" where
  "formatMetricOutputServicePipelineID mp = ''metrics/'' @ om_Name (mp_ObjectMeta mp) @ ''-output''"

definition buildMetricPipelines ::
    "net_url \<Rightarrow> secret_reader \<Rightarrow> BuildOptions \<Rightarrow> builder \<Rightarrow> (go_error, builder) result go" where
  "buildMetricPipelines nu get opts b =
     (let pipelines = bo_MetricPipelines opts
      in if length pipelines = 0 then Ret (Inr b)
         else
           let b0 = AddExtension ComponentIDK8sLeaderElectorExtension
                 (K8sLeaderElectorExtensionConfig ''serviceAccount'' ''telemetry-metric-gateway-kymastats''
                   (bo_GatewayNamespace opts)) Map.empty b;
               queueSize = BatchingMaxQueueSize div int (length pipelines)
           in grbind (gwrap (\<lambda>e. Errorf ''failed to add metric input-otlp service pipeline: '' e [])
                   (AddServicePipeline None ''metrics/input-otlp'' (metricInputComponents InputSourceOTLP) b0)) (\<lambda>b1.
              grbind (gwrap (\<lambda>e. Errorf ''failed to add metric input-kyma-stats service pipeline: '' e [])
                   (AddServicePipeline None ''metrics/input-kyma-stats'' (metricInputComponents InputSourceKyma) b1)) (\<lambda>b2.
              grbind (gwrap (\<lambda>e. Errorf ''failed to add metric enrichment service pipeline: '' e [])
                   (AddServicePipeline None ''metrics/enrichment'' (metricEnrichmentComponents opts) b2)) (\<lambda>b3.
              range_state (\<lambda>mp b.
                metricOutput (Some mp) (\<lambda>out.
                  grbind (addOAuth2Extension get (mo_OTLPOutput out) (MetricPipelineRef mp) b) (\<lambda>b'.
                    gwrap (\<lambda>e. Errorf ''failed to add metric output service pipeline: '' e [])
                      (AddServicePipeline (Some mp) (formatMetricOutputServicePipelineID mp)
                        (metricOutputComponents nu get queueSize) b'))))
                pipelines b3))))"

definition Build :: "net_url \<Rightarrow> secret_reader \<Rightarrow> BuildOptions \<Rightarrow> (go_error, Config \<times> EnvVars) result go" where
  "Build nu get opts0 =
     (let opts = sortPipelinesByName opts0
      in grbind (buildTracePipelines nu get opts newBuilder) (\<lambda>b1.
         grbind (buildLogPipelines nu get opts b1) (\<lambda>b2.
         grbind (buildMetricPipelines nu get opts b2) (\<lambda>b3.
           Ret (Inr (bd_Config b3, bd_EnvVars b3))))))"

section \<open>The plan of a configuration\<close>

text \<open>The contributions of one pipeline, given its exporter.\<close>

definition traceKs :: "BuildOptions \<Rightarrow> TracePipeline \<Rightarrow> string \<Rightarrow> component \<Rightarrow> EnvVars \<Rightarrow> contribution list" where
  "traceKs opts tp exporterID exporter ev =
     [Recv ComponentIDOTLPReceiver otlpReceiverConfig,
      Proc ComponentIDMemoryLimiterProcessor memoryLimiterConfig,
      procOf ComponentIDDropIstioServiceEnrichmentProcessor (if \<not> useOTel opts then None
        else Some (Transform (TraceTransformProcessor (statements
          [''delete_matching_keys(resource.attributes, \"service.*\") where span.attributes[\"component\"] == \"proxy\"''])))),
      procOf ComponentIDDropUnknownServiceNameProcessor (if \<not> useOTel opts then None
        else Some (Transform (AllSignalsTransformProcessor DropUnknownServiceNameProcessorStatements))),
      Proc ComponentIDK8sAttributesProcessor (k8sAttributesProcessorConfig opts),
      procOf ComponentIDRestoreOtelServiceAttrsProcessor (if \<not> useOTel opts then None
        else Some (Transform (AllSignalsTransformProcessor RestoreOtelServiceAnnotationsProcessorStatements))),
      Proc ComponentIDIstioNoiseFilterProcessor IstioNoiseFilterProcessorConfig,
      Proc ComponentIDInsertClusterAttributesProcessor
        (Transform (AllSignalsTransformProcessor (InsertClusterAttributesProcessorStatements (bo_Cluster opts)))),
      procOf ComponentIDServiceEnrichmentProcessor (serviceEnrichmentProcessorConfig opts),
      Proc ComponentIDDropKymaAttributesProcessor
        (Transform (AllSignalsTransformProcessor DropKymaAttributesProcessorStatements)),
      procOf (ComponentIDUserDefinedTransformProcessor (TracePipelineRef tp))
        (userTransform TraceTransformProcessor (tps_Transforms (tp_Spec tp))),
      procOf (ComponentIDUserDefinedFilterProcessor (TracePipelineRef tp))
        (userFilter TraceFilterProcessor (tps_Filters (tp_Spec tp))),
      Proc ComponentIDBatchProcessor (BatchProcessorConfig 512 ''10s'' 512),
      Exp exporterID exporter ev]"

lemma trace_components_plan:
  assumes "tps_Output (tp_Spec tp) = Some out"
  shows "AddServicePipeline (Some tp) pid (traceSharedComponents opts @ traceOwnComponents nu get q) b = Ret (Inr b') \<longleftrightarrow>
    (\<exists>c ev. OTLPExporter_build nu get out (TracePipelineRef tp) (NewSendingQueue q []) = Ret (Inr (Some c, ev)) \<and>
       b' = execute (block_plan (pid, [],
         traceKs opts tp (ComponentIDOTLPExporter (oo_Protocol out) (TracePipelineRef tp)) c ev)) b)"
  using assms
  by (auto simp: AddServicePipeline_def traceSharedComponents_def traceOwnComponents_def addComponents_Inr
      component_simps AddExporter_Inr traceOutput_def Start_contributes block_plan_def traceKs_def
      OTLPExporter_build_def grbind_eq_Inr)

definition logKs :: "BuildOptions \<Rightarrow> LogPipeline \<Rightarrow> string \<Rightarrow> component \<Rightarrow> EnvVars \<Rightarrow> contribution list" where
  "logKs opts lp exporterID exporter ev =
     [Recv ComponentIDOTLPReceiver otlpReceiverConfig,
      Proc ComponentIDMemoryLimiterProcessor memoryLimiterConfig,
      Proc ComponentIDSetObservedTimeIfZeroProcessor
        (Transform (LogTransformProcessor [\<lparr>tst_Statements = [''set(log.observed_time, Now())''],
          tst_Conditions = [''log.observed_time_unix_nano == 0'']\<rparr>])),
      procOf ComponentIDDropUnknownServiceNameProcessor (if \<not> useOTel opts then None
        else Some (Transform (AllSignalsTransformProcessor DropUnknownServiceNameProcessorStatements))),
      Proc ComponentIDK8sAttributesProcessor (k8sAttributesProcessorConfig opts),
      procOf ComponentIDRestoreOtelServiceAttrsProcessor (if \<not> useOTel opts then None
        else Some (Transform (AllSignalsTransformProcessor RestoreOtelServiceAnnotationsProcessorStatements))),
      Proc ComponentIDIstioNoiseFilterProcessor IstioNoiseFilterProcessorConfig,
      procOf ComponentIDDropIfInputSourceOTLPProcessor
        (if IsOTLPInputEnabled (li_OTLP (ls_Input (lp_Spec lp))) then None
         else Some (Filter dropIfInputSourceOTLPProcessor)),
      procOf (ComponentIDNamespaceFilterProcessor (om_Name (lp_ObjectMeta lp)))
        (otlpNamespaceFilter namespaceFilterProcessor (li_OTLP (ls_Input (lp_Spec lp)))),
      Proc ComponentIDInsertClusterAttributesProcessor
        (Transform (AllSignalsTransformProcessor (InsertClusterAttributesProcessorStatements (bo_Cluster opts)))),
      procOf ComponentIDServiceEnrichmentProcessor (serviceEnrichmentProcessorConfig opts),
      Proc ComponentIDDropKymaAttributesProcessor
        (Transform (AllSignalsTransformProcessor DropKymaAttributesProcessorStatements)),
      Proc ComponentIDIstioEnrichmentProcessor (IstioEnrichmentProcessorConfig (bo_ModuleVersion opts)),
      procOf (ComponentIDUserDefinedTransformProcessor (LogPipelineRef lp))
        (userTransform LogTransformProcessor (ls_Transforms (lp_Spec lp))),
      procOf (ComponentIDUserDefinedFilterProcessor (LogPipelineRef lp))
        (userFilter LogFilterProcessor (ls_Filters (lp_Spec lp))),
      Proc ComponentIDBatchProcessor (BatchProcessorConfig 512 ''10s'' 512),
      Exp exporterID exporter ev]"

lemma log_components_plan:
  assumes "lo_OTLP (ls_Output (lp_Spec lp)) = Some out"
  shows "AddServicePipeline (Some lp) pid (logSharedComponents opts @ logOwnComponents nu get q) b = Ret (Inr b') \<longleftrightarrow>
    (\<exists>c ev. OTLPExporter_build nu get out (LogPipelineRef lp) (NewSendingQueue q []) = Ret (Inr (Some c, ev)) \<and>
       b' = execute (block_plan (pid, [],
         logKs opts lp (ComponentIDOTLPExporter (oo_Protocol out) (LogPipelineRef lp)) c ev)) b)"
  using assms
  by (auto simp: AddServicePipeline_def logSharedComponents_def logOwnComponents_def addComponents_Inr
      component_simps AddExporter_Inr logOutput_def Start_contributes block_plan_def logKs_def
      OTLPExporter_build_def grbind_eq_Inr)

definition metricInputKs :: "InputSourceType \<Rightarrow> contribution list" where
  "metricInputKs source =
     [(if source = InputSourceKyma
       then Recv ComponentIDKymaStatsReceiver
         (KymaStatsReceiverConfig ''serviceAccount'' ''30s''
           [(''operator.kyma-project.io'', ''v1beta1'', ''telemetries''),
            (''telemetry.kyma-project.io'', ''v1beta1'', ''logpipelines''),
            (''telemetry.kyma-project.io'', ''v1beta1'', ''tracepipelines''),
            (''telemetry.kyma-project.io'', ''v1beta1'', ''metricpipelines'')]
           ''k8s_leader_elector'')
       else Recv ComponentIDOTLPReceiver otlpReceiverConfig),
      Proc (InputName source) (Transform (MetricTransformProcessor (KymaInputNameProcessorStatements source))),
      Exp ComponentIDInputConnector ForwardConnectorConfig Map.empty]"

definition metricEnrichmentKs :: "BuildOptions \<Rightarrow> contribution list" where
  "metricEnrichmentKs opts =
     [Recv ComponentIDInputConnector ForwardConnectorConfig,
      Proc ComponentIDMemoryLimiterProcessor memoryLimiterConfig,
      Proc ComponentIDSetInstrumentationScopeKymaProcessor
        (Transform (InstrumentationScopeProcessor (bo_ModuleVersion opts) [InputSourceKyma])),
      procOf ComponentIDDropUnknownServiceNameProcessor (if \<not> useOTel opts then None
        else Some (Transform (AllSignalsTransformProcessor DropUnknownServiceNameProcessorStatements))),
      Proc ComponentIDK8sAttributesProcessor (k8sAttributesProcessorConfig opts),
      procOf ComponentIDRestoreOtelServiceAttrsProcessor (if \<not> useOTel opts then None
        else Some (Transform (AllSignalsTransformProcessor RestoreOtelServiceAnnotationsProcessorStatements))),
      procOf ComponentIDServiceEnrichmentProcessor (serviceEnrichmentProcessorConfig opts),
      Proc ComponentIDInsertClusterAttributesProcessor
        (Transform (AllSignalsTransformProcessor (InsertClusterAttributesProcessorStatements (bo_Cluster opts)))),
      Exp ComponentIDEnrichmentConnector ForwardConnectorConfig Map.empty]"

definition metricKs :: "MetricPipeline \<Rightarrow> bool \<Rightarrow> string \<Rightarrow> component \<Rightarrow> EnvVars \<Rightarrow> contribution list" where
  "metricKs mp delta exporterID exporter ev =
     [Recv ComponentIDEnrichmentConnector ForwardConnectorConfig,
      procOf ComponentIDDropIfInputSourceOTLPProcessor
        (if IsOTLPInputEnabled (mi_OTLP (ms_Input (mp_Spec mp))) then None
         else Some (Filter (MetricFilterProcessor [\<lparr>fs_Conditions = [KymaInputNameEquals InputSourceOTLP]\<rparr>]))),
      procOf (ComponentIDNamespacePerInputFilterProcessor (om_Name (mp_ObjectMeta mp)) InputSourceOTLP)
        (otlpNamespaceFilter metricFilterByNamespaceProcessorConfig (mi_OTLP (ms_Input (mp_Spec mp)))),
      Proc ComponentIDDropKymaAttributesProcessor
        (Transform (AllSignalsTransformProcessor DropKymaAttributesProcessorStatements)),
      procOf (ComponentIDUserDefinedTransformProcessor (MetricPipelineRef mp))
        (userTransform MetricTransformProcessor (ms_Transforms (mp_Spec mp))),
      procOf (ComponentIDUserDefinedFilterProcessor (MetricPipelineRef mp))
        (userFilter MetricFilterProcessor (ms_Filters (mp_Spec mp))),
      procOf ComponentIDCumulativeToDeltaProcessor
        (if delta then Some (CumulativeToDeltaProcessorConfig 0 ''auto'') else None),
      Proc ComponentIDBatchProcessor (BatchProcessorConfig 1024 ''10s'' 1024),
      Exp exporterID exporter ev]"

lemma metric_input_plan:
  "AddServicePipeline None pid (metricInputComponents source) b = Ret (Inr (execute (block_plan (pid, [], metricInputKs source)) b))"
  by (simp add: AddServicePipeline_def metricInputComponents_def component_simps Start_contributes block_plan_def
      metricInputKs_def if_distribR if_distrib [where f = "\<lambda>f. f None pid _"])

lemma metric_enrichment_plan:
  "AddServicePipeline None pid (metricEnrichmentComponents opts) b =
     Ret (Inr (execute (block_plan (pid, [], metricEnrichmentKs opts)) b))"
  by (simp add: AddServicePipeline_def metricEnrichmentComponents_def component_simps Start_contributes block_plan_def
      metricEnrichmentKs_def)

lemma delta_component:
  "AddProcessor (StaticComponentID i) (\<lambda>p. gderef p (\<lambda>mp. gbind (d mp) (\<lambda>delta. Ret (g delta)))) (Some mp) pid b = Ret (Inr b') \<longleftrightarrow>
     (\<exists>delta. d mp = Ret delta \<and> b' = contribute (pid, procOf i (g delta)) b)"
  by (cases "d mp") (auto simp: AddProcessor_def StaticComponentID_def contribute.simps declareProcessor_def
      servicePipeline_def Let_def procOf_def split: option.splits)

lemma metric_components_plan:
  assumes "ms_Output (mp_Spec mp) = Some out"
  shows "AddServicePipeline (Some mp) pid (metricOutputComponents nu get q) b = Ret (Inr b') \<longleftrightarrow>
    (\<exists>t c ev. mo_Temporality out = Some t \<and>
       OTLPExporter_build nu get (mo_OTLPOutput out) (MetricPipelineRef mp) (NewSendingQueue q []) = Ret (Inr (Some c, ev)) \<and>
       b' = execute (block_plan (pid, [], metricKs mp (t = TemporalityDelta)
         (ComponentIDOTLPExporter (oo_Protocol (mo_OTLPOutput out)) (MetricPipelineRef mp)) c ev)) b)"
  using assms
  by (cases "mo_Temporality out")
    (auto simp: AddServicePipeline_def metricOutputComponents_def addComponents_Inr delta_component IsDeltaTemporality_def
      component_simps AddExporter_Inr metricOutput_def Start_contributes block_plan_def metricKs_def
      OTLPExporter_build_def grbind_eq_Inr)

text \<open>The extensions of a pipeline: one if its output uses OAuth2.\<close>

definition oauth_exts :: "secret_reader \<Rightarrow> OTLPOutput \<Rightarrow> PipelineRef \<Rightarrow> contribution list \<Rightarrow> bool" where
  "oauth_exts get out ref exts =
     (case Option.bind (oo_Authentication out) ao_OAuth2 of
        None \<Rightarrow> exts = []
      | Some o2 \<Rightarrow>
          (\<exists>ev. OAuth2Extension_build get o2 ref = Ret (Inr (oauth2Extension o2 ref, ev)) \<and>
             exts = [Ext (ComponentIDOAuth2Extension ref) (OAuth2Extension (oauth2Extension o2 ref)) ev]))"

lemma OAuth2Extension_build_config:
  "OAuth2Extension_build get o2 ref = Ret (Inr (c, ev)) \<Longrightarrow> c = oauth2Extension o2 ref"
  by (auto simp: OAuth2Extension_build_def grbind_eq_Inr)

lemma addOAuth2Extension_plan:
  "addOAuth2Extension get out ref b = Ret (Inr b') \<longleftrightarrow>
     (\<exists>exts. oauth_exts get out ref exts \<and> b' = execute (map (Pair pid) exts) b)"
  by (cases "Option.bind (oo_Authentication out) ao_OAuth2")
    (auto simp: addOAuth2Extension_def oauth_exts_def grbind_eq_Inr contribute.simps dest: OAuth2Extension_build_config)

lemma oauth_exts_proper: "oauth_exts get out ref exts \<Longrightarrow> k \<in> set exts \<Longrightarrow> extensionOf k \<noteq> []"
  by (auto simp: oauth_exts_def split: option.splits)

definition trace_block :: "net_url \<Rightarrow> secret_reader \<Rightarrow> BuildOptions \<Rightarrow> int \<Rightarrow> TracePipeline \<Rightarrow> block \<Rightarrow> bool" where
  "trace_block nu get opts q tp bl \<longleftrightarrow>
     (\<exists>out c ev exts. tps_Output (tp_Spec tp) = Some out \<and> oauth_exts get out (TracePipelineRef tp) exts \<and>
        OTLPExporter_build nu get out (TracePipelineRef tp) (NewSendingQueue q []) = Ret (Inr (Some c, ev)) \<and>
        bl = (formatTraceServicePipelineID tp, exts,
          traceKs opts tp (ComponentIDOTLPExporter (oo_Protocol out) (TracePipelineRef tp)) c ev))"

definition log_block :: "net_url \<Rightarrow> secret_reader \<Rightarrow> BuildOptions \<Rightarrow> int \<Rightarrow> LogPipeline \<Rightarrow> block \<Rightarrow> bool" where
  "log_block nu get opts q lp bl \<longleftrightarrow>
     (\<exists>out c ev exts. lo_OTLP (ls_Output (lp_Spec lp)) = Some out \<and> oauth_exts get out (LogPipelineRef lp) exts \<and>
        OTLPExporter_build nu get out (LogPipelineRef lp) (NewSendingQueue q []) = Ret (Inr (Some c, ev)) \<and>
        bl = (formatLogServicePipelineID lp, exts,
          logKs opts lp (ComponentIDOTLPExporter (oo_Protocol out) (LogPipelineRef lp)) c ev))"

definition metric_block :: "net_url \<Rightarrow> secret_reader \<Rightarrow> int \<Rightarrow> MetricPipeline \<Rightarrow> block \<Rightarrow> bool" where
  "metric_block nu get q mp bl \<longleftrightarrow>
     (\<exists>out t c ev exts. ms_Output (mp_Spec mp) = Some out \<and> mo_Temporality out = Some t \<and>
        oauth_exts get (mo_OTLPOutput out) (MetricPipelineRef mp) exts \<and>
        OTLPExporter_build nu get (mo_OTLPOutput out) (MetricPipelineRef mp) (NewSendingQueue q []) = Ret (Inr (Some c, ev)) \<and>
        bl = (formatMetricOutputServicePipelineID mp, exts, metricKs mp (t = TemporalityDelta)
          (ComponentIDOTLPExporter (oo_Protocol (mo_OTLPOutput out)) (MetricPipelineRef mp)) c ev))"

lemma execute_exts:
  "execute (block_plan (pid, [], ks)) (execute (map (Pair pid) exts) b) = execute (block_plan (pid, exts, ks)) b"
  by (simp add: block_plan_def)

interpretation trace_step: pipeline_step
  "\<lambda>tp b. traceOutput (Some tp) (\<lambda>out. grbind (addOAuth2Extension get out (TracePipelineRef tp) b) (\<lambda>b1.
     gwrap (\<lambda>e. Errorf ''failed to add trace service pipeline: '' e [])
       (AddServicePipeline (Some tp) (formatTraceServicePipelineID tp) (traceSharedComponents opts @ traceOwnComponents nu get q) b1)))"
  "trace_block nu get opts q" formatTraceServicePipelineID for nu get opts q
proof (unfold_locales, goal_cases)
  case (1 tp b b')
  show ?case
  proof (cases "tps_Output (tp_Spec tp)")
    case None
    then show ?thesis by (auto simp: traceOutput_def trace_block_def)
  next
    case (Some out)
    let ?pid = "formatTraceServicePipelineID tp"
    have "traceOutput (Some tp) (\<lambda>out. grbind (addOAuth2Extension get out (TracePipelineRef tp) b) (\<lambda>b1.
         gwrap (\<lambda>e. Errorf ''failed to add trace service pipeline: '' e [])
           (AddServicePipeline (Some tp) ?pid (traceSharedComponents opts @ traceOwnComponents nu get q) b1))) = Ret (Inr b') \<longleftrightarrow>
       (\<exists>b1. addOAuth2Extension get out (TracePipelineRef tp) b = Ret (Inr b1) \<and>
          AddServicePipeline (Some tp) ?pid (traceSharedComponents opts @ traceOwnComponents nu get q) b1 = Ret (Inr b'))"
      by (simp add: traceOutput_def Some grbind_eq_Inr)
    then show ?thesis
      unfolding addOAuth2Extension_plan [where pid = ?pid] trace_components_plan [OF Some]
      by (auto simp: trace_block_def Some execute_exts)
  qed
next
  case (2 tp bl)
  then show ?case by (auto simp: trace_block_def proper_block_def traceKs_def dest: oauth_exts_proper)
qed (auto simp: trace_block_def)

interpretation log_step: pipeline_step
  "\<lambda>lp b. logOutput (Some lp) (\<lambda>out. grbind (addOAuth2Extension get out (LogPipelineRef lp) b) (\<lambda>b1.
     gwrap (\<lambda>e. Errorf ''failed to add log service pipeline: '' e [])
       (AddServicePipeline (Some lp) (formatLogServicePipelineID lp) (logSharedComponents opts @ logOwnComponents nu get q) b1)))"
  "log_block nu get opts q" formatLogServicePipelineID for nu get opts q
proof (unfold_locales, goal_cases)
  case (1 lp b b')
  show ?case
  proof (cases "lo_OTLP (ls_Output (lp_Spec lp))")
    case None
    then show ?thesis by (auto simp: logOutput_def log_block_def)
  next
    case (Some out)
    let ?pid = "formatLogServicePipelineID lp"
    have "logOutput (Some lp) (\<lambda>out. grbind (addOAuth2Extension get out (LogPipelineRef lp) b) (\<lambda>b1.
         gwrap (\<lambda>e. Errorf ''failed to add log service pipeline: '' e [])
           (AddServicePipeline (Some lp) ?pid (logSharedComponents opts @ logOwnComponents nu get q) b1))) = Ret (Inr b') \<longleftrightarrow>
       (\<exists>b1. addOAuth2Extension get out (LogPipelineRef lp) b = Ret (Inr b1) \<and>
          AddServicePipeline (Some lp) ?pid (logSharedComponents opts @ logOwnComponents nu get q) b1 = Ret (Inr b'))"
      by (simp add: logOutput_def Some grbind_eq_Inr)
    then show ?thesis
      unfolding addOAuth2Extension_plan [where pid = ?pid] log_components_plan [OF Some]
      by (auto simp: log_block_def Some execute_exts)
  qed
next
  case (2 lp bl)
  then show ?case by (auto simp: log_block_def proper_block_def logKs_def dest: oauth_exts_proper)
qed (auto simp: log_block_def)

interpretation metric_step: pipeline_step
  "\<lambda>mp b. metricOutput (Some mp) (\<lambda>out. grbind (addOAuth2Extension get (mo_OTLPOutput out) (MetricPipelineRef mp) b) (\<lambda>b1.
     gwrap (\<lambda>e. Errorf ''failed to add metric output service pipeline: '' e [])
       (AddServicePipeline (Some mp) (formatMetricOutputServicePipelineID mp) (metricOutputComponents nu get q) b1)))"
  "metric_block nu get q" formatMetricOutputServicePipelineID for nu get q
proof (unfold_locales, goal_cases)
  case (1 mp b b')
  show ?case
  proof (cases "ms_Output (mp_Spec mp)")
    case None
    then show ?thesis by (auto simp: metricOutput_def metric_block_def)
  next
    case (Some out)
    let ?pid = "formatMetricOutputServicePipelineID mp"
    have "metricOutput (Some mp) (\<lambda>out. grbind (addOAuth2Extension get (mo_OTLPOutput out) (MetricPipelineRef mp) b) (\<lambda>b1.
         gwrap (\<lambda>e. Errorf ''failed to add metric output service pipeline: '' e [])
           (AddServicePipeline (Some mp) ?pid (metricOutputComponents nu get q) b1))) = Ret (Inr b') \<longleftrightarrow>
       (\<exists>b1. addOAuth2Extension get (mo_OTLPOutput out) (MetricPipelineRef mp) b = Ret (Inr b1) \<and>
          AddServicePipeline (Some mp) ?pid (metricOutputComponents nu get q) b1 = Ret (Inr b'))"
      by (simp add: metricOutput_def Some grbind_eq_Inr)
    then show ?thesis
      unfolding addOAuth2Extension_plan [where pid = ?pid] metric_components_plan [OF Some]
      by (auto simp: metric_block_def Some execute_exts)
  qed
next
  case (2 mp bl)
  then show ?case by (auto simp: metric_block_def proper_block_def metricKs_def dest: oauth_exts_proper)
qed (auto simp: metric_block_def)

definition metricSharedBlocks :: "BuildOptions \<Rightarrow> block list" where
  "metricSharedBlocks opts =
     [(''metrics/input-otlp'',
       [Ext ComponentIDK8sLeaderElectorExtension (K8sLeaderElectorExtensionConfig ''serviceAccount''
          ''telemetry-metric-gateway-kymastats'' (bo_GatewayNamespace opts)) Map.empty],
       metricInputKs InputSourceOTLP),
      (''metrics/input-kyma-stats'', [], metricInputKs InputSourceKyma),
      (''metrics/enrichment'', [], metricEnrichmentKs opts)]"

abbreviation queueSizeFor :: "'p list \<Rightarrow> int" where
  "queueSizeFor ps \<equiv> BatchingMaxQueueSize div int (length ps)"

text \<open>The blocks of a configuration.\<close>

definition gateway_blocks :: "net_url \<Rightarrow> secret_reader \<Rightarrow> BuildOptions \<Rightarrow> block list \<Rightarrow> bool" where
  "gateway_blocks nu get opts bls \<longleftrightarrow>
     (\<exists>ts ls ms.
        list_all2 (trace_block nu get opts (queueSizeFor (bo_TracePipelines opts))) (bo_TracePipelines opts) ts \<and>
        list_all2 (log_block nu get opts (queueSizeFor (bo_LogPipelines opts))) (bo_LogPipelines opts) ls \<and>
        list_all2 (metric_block nu get (queueSizeFor (bo_MetricPipelines opts))) (bo_MetricPipelines opts) ms \<and>
        bls = ts @ ls @ (if bo_MetricPipelines opts = [] then [] else metricSharedBlocks opts) @ ms)"

lemma buildTracePipelines_blocks:
  "buildTracePipelines nu get opts b = Ret (Inr b') \<longleftrightarrow>
     (\<exists>ts. list_all2 (trace_block nu get opts (queueSizeFor (bo_TracePipelines opts))) (bo_TracePipelines opts) ts \<and>
        b' = execute (blocks_plan ts) b)"
  by (cases "bo_TracePipelines opts = []")
    (auto simp: buildTracePipelines_def Let_def trace_step.loop_blocks blocks_plan_def simp del: range_state.simps)

lemma buildLogPipelines_blocks:
  "buildLogPipelines nu get opts b = Ret (Inr b') \<longleftrightarrow>
     (\<exists>ls. list_all2 (log_block nu get opts (queueSizeFor (bo_LogPipelines opts))) (bo_LogPipelines opts) ls \<and>
        b' = execute (blocks_plan ls) b)"
  by (cases "bo_LogPipelines opts = []")
    (auto simp: buildLogPipelines_def Let_def log_step.loop_blocks blocks_plan_def simp del: range_state.simps)

lemma metricSharedBlocks_plan:
  "execute (blocks_plan (metricSharedBlocks opts)) b =
     execute (block_plan (''metrics/enrichment'', [], metricEnrichmentKs opts))
       (execute (block_plan (''metrics/input-kyma-stats'', [], metricInputKs InputSourceKyma))
         (execute (block_plan (''metrics/input-otlp'', [], metricInputKs InputSourceOTLP))
           (AddExtension ComponentIDK8sLeaderElectorExtension (K8sLeaderElectorExtensionConfig ''serviceAccount''
              ''telemetry-metric-gateway-kymastats'' (bo_GatewayNamespace opts)) Map.empty b)))"
  unfolding blocks_plan_def metricSharedBlocks_def block_plan_def by (simp add: contribute.simps)

lemma buildMetricPipelines_blocks:
  "buildMetricPipelines nu get opts b = Ret (Inr b') \<longleftrightarrow>
     (\<exists>ms. list_all2 (metric_block nu get (queueSizeFor (bo_MetricPipelines opts))) (bo_MetricPipelines opts) ms \<and>
        b' = execute (blocks_plan ((if bo_MetricPipelines opts = [] then [] else metricSharedBlocks opts) @ ms)) b)"
proof (cases "bo_MetricPipelines opts = []")
  case True
  then show ?thesis by (auto simp: buildMetricPipelines_def blocks_plan_def)
next
  case False
  then show ?thesis
    by (simp add: buildMetricPipelines_def Let_def metric_input_plan metric_enrichment_plan metric_step.loop_blocks
        blocks_plan_append metricSharedBlocks_plan del: range_state.simps)
qed

lemma Build_blocks_iff:
  "Build nu get opts0 = Ret (Inr (c, ev)) \<longleftrightarrow>
     (\<exists>bls. gateway_blocks nu get (sortPipelinesByName opts0) bls \<and>
        c = bd_Config (execute (blocks_plan bls) newBuilder) \<and> ev = bd_EnvVars (execute (blocks_plan bls) newBuilder))"
proof -
  let ?o = "sortPipelinesByName opts0"
  have "Build nu get opts0 = Ret (Inr (c, ev)) \<longleftrightarrow>
      (\<exists>b1 b2 b3. buildTracePipelines nu get ?o newBuilder = Ret (Inr b1) \<and>
         buildLogPipelines nu get ?o b1 = Ret (Inr b2) \<and> buildMetricPipelines nu get ?o b2 = Ret (Inr b3) \<and>
         c = bd_Config b3 \<and> ev = bd_EnvVars b3)"
    by (auto simp: Build_def Let_def grbind_eq_Inr)
  also have "\<dots> \<longleftrightarrow> (\<exists>ts ls ms.
      list_all2 (trace_block nu get ?o (queueSizeFor (bo_TracePipelines ?o))) (bo_TracePipelines ?o) ts \<and>
      list_all2 (log_block nu get ?o (queueSizeFor (bo_LogPipelines ?o))) (bo_LogPipelines ?o) ls \<and>
      list_all2 (metric_block nu get (queueSizeFor (bo_MetricPipelines ?o))) (bo_MetricPipelines ?o) ms \<and>
      c = bd_Config (execute (blocks_plan (ts @ ls @ (if bo_MetricPipelines ?o = [] then [] else metricSharedBlocks ?o) @ ms)) newBuilder) \<and>
      ev = bd_EnvVars (execute (blocks_plan (ts @ ls @ (if bo_MetricPipelines ?o = [] then [] else metricSharedBlocks ?o) @ ms)) newBuilder))"
    unfolding buildTracePipelines_blocks buildLogPipelines_blocks buildMetricPipelines_blocks blocks_plan_append fold_append comp_apply
    by blast
  finally show ?thesis unfolding gateway_blocks_def by blast
qed

lemmas Build_blocks = Build_blocks_iff [THEN iffD1]

section \<open>Well-formedness\<close>

lemma metricShared_proper: "bl \<in> set (metricSharedBlocks opts) \<Longrightarrow> proper_block bl"
  by (auto simp: metricSharedBlocks_def proper_block_def metricInputKs_def metricEnrichmentKs_def)

lemma gateway_proper:
  assumes "gateway_blocks nu get opts bls"
  shows "\<forall>bl\<in>set bls. proper_block bl"
  using assms trace_step.blocks_proper log_step.blocks_proper metric_step.blocks_proper metricShared_proper
  unfolding gateway_blocks_def by (auto split: if_splits)

definition sharedPids :: "string list" where
  "sharedPids = [''metrics/input-otlp'', ''metrics/input-kyma-stats'', ''metrics/enrichment'']"

lemma gateway_pids:
  assumes "gateway_blocks nu get opts bls"
  shows "map fst bls = map formatTraceServicePipelineID (bo_TracePipelines opts) @
    map formatLogServicePipelineID (bo_LogPipelines opts) @
    (if bo_MetricPipelines opts = [] then [] else sharedPids) @
    map formatMetricOutputServicePipelineID (bo_MetricPipelines opts)"
  using assms trace_step.blocks_pids log_step.blocks_pids metric_step.blocks_pids
  unfolding gateway_blocks_def by (auto simp: metricSharedBlocks_def sharedPids_def)

text \<open>Names are unique within a kind of pipeline.\<close>

definition distinct_names_of :: "BuildOptions \<Rightarrow> bool" where
  "distinct_names_of opts \<longleftrightarrow>
     distinct (map (\<lambda>p. om_Name (tp_ObjectMeta p)) (bo_TracePipelines opts)) \<and>
     distinct (map (\<lambda>p. om_Name (lp_ObjectMeta p)) (bo_LogPipelines opts)) \<and>
     distinct (map (\<lambda>p. om_Name (mp_ObjectMeta p)) (bo_MetricPipelines opts))"

lemma output_pid_new:
  "formatMetricOutputServicePipelineID mp \<noteq> ''metrics/input-otlp''"
  "formatMetricOutputServicePipelineID mp \<noteq> ''metrics/input-kyma-stats''"
  "formatMetricOutputServicePipelineID mp \<noteq> ''metrics/enrichment''"
proof -
  have "last (formatMetricOutputServicePipelineID mp) = CHR ''t''" by (simp add: formatMetricOutputServicePipelineID_def)
  then show "formatMetricOutputServicePipelineID mp \<noteq> ''metrics/input-otlp''"
    "formatMetricOutputServicePipelineID mp \<noteq> ''metrics/input-kyma-stats''" by auto
  show "formatMetricOutputServicePipelineID mp \<noteq> ''metrics/enrichment''"
  proof
    assume "formatMetricOutputServicePipelineID mp = ''metrics/enrichment''"
    then have "rev (formatMetricOutputServicePipelineID mp) = rev ''metrics/enrichment''" by (rule arg_cong)
    then show False by (simp add: formatMetricOutputServicePipelineID_def)
  qed
qed

lemma distinct_affix: "distinct (map n xs) \<Longrightarrow> distinct (map (\<lambda>p. a @ n p @ z) xs)"
  by (induction xs) auto

lemma distinct_by_hd:
  assumes "distinct A" "distinct B" "distinct C" "distinct D" "set C \<inter> set D = {}"
    and "\<forall>x\<in>set A. hd x = a" "\<forall>x\<in>set B. hd x = b" "\<forall>x\<in>set (C @ D). hd x = c" "a \<noteq> b" "a \<noteq> c" "b \<noteq> c"
  shows "distinct (A @ B @ C @ D)"
  using assms by (auto simp: disjoint_iff)

lemma gateway_pids_distinct:
  assumes "gateway_blocks nu get opts bls" and "distinct_names_of opts"
  shows "distinct (map fst bls)"
proof -
  have "distinct (map formatTraceServicePipelineID (bo_TracePipelines opts))"
    "distinct (map formatLogServicePipelineID (bo_LogPipelines opts))"
    "distinct (map formatMetricOutputServicePipelineID (bo_MetricPipelines opts))"
    using assms(2) distinct_affix [of "\<lambda>p. om_Name (tp_ObjectMeta p)" "bo_TracePipelines opts" "''traces/''" "[]"]
      distinct_affix [of "\<lambda>p. om_Name (lp_ObjectMeta p)" "bo_LogPipelines opts" "''logs/''" "[]"]
      distinct_affix [of "\<lambda>p. om_Name (mp_ObjectMeta p)" "bo_MetricPipelines opts" "''metrics/''" "''-output''"]
    by (simp_all add: distinct_names_of_def formatTraceServicePipelineID_def [abs_def]
        formatLogServicePipelineID_def [abs_def] formatMetricOutputServicePipelineID_def [abs_def])
  moreover have "\<forall>x\<in>set (map formatTraceServicePipelineID ts). hd x = CHR ''t''" for ts
    by (auto simp: formatTraceServicePipelineID_def)
  moreover have "\<forall>x\<in>set (map formatLogServicePipelineID ls). hd x = CHR ''l''" for ls
    by (auto simp: formatLogServicePipelineID_def)
  moreover have "\<forall>x\<in>set ((if ms = [] then [] else sharedPids) @ map formatMetricOutputServicePipelineID ms).
      hd x = CHR ''m''" for ms
    by (auto simp: formatMetricOutputServicePipelineID_def sharedPids_def)
  moreover have "set (if ms = [] then [] else sharedPids) \<inter> set (map formatMetricOutputServicePipelineID ms) = {}"
    "distinct (if ms = [] then [] else sharedPids)" for ms
    using output_pid_new [symmetric] by (auto simp: sharedPids_def)
  ultimately have "distinct (map formatTraceServicePipelineID (bo_TracePipelines opts) @
      map formatLogServicePipelineID (bo_LogPipelines opts) @
      (if bo_MetricPipelines opts = [] then [] else sharedPids) @
      map formatMetricOutputServicePipelineID (bo_MetricPipelines opts))"
    by (intro distinct_by_hd [where a = "CHR ''t''" and b = "CHR ''l''" and c = "CHR ''m''"]) simp_all
  then show ?thesis unfolding gateway_pids [OF assms(1)] .
qed

text \<open>The service pipelines of the three kinds: what is received and where it is sent.\<close>

lemma sp_ends [simp]:
  "sp_Receivers (sp_of (traceKs opts tp i c ev)) = [ComponentIDOTLPReceiver]"
  "sp_Exporters (sp_of (traceKs opts tp i c ev)) = [i]"
  "sp_Receivers (sp_of (logKs opts lp i c ev)) = [ComponentIDOTLPReceiver]"
  "sp_Exporters (sp_of (logKs opts lp i c ev)) = [i]"
  "sp_Receivers (sp_of (metricKs mp d i c ev)) = [ComponentIDEnrichmentConnector]"
  "sp_Exporters (sp_of (metricKs mp d i c ev)) = [i]"
  "sp_Receivers (sp_of (metricInputKs InputSourceOTLP)) = [ComponentIDOTLPReceiver]"
  "sp_Receivers (sp_of (metricInputKs InputSourceKyma)) = [ComponentIDKymaStatsReceiver]"
  "sp_Exporters (sp_of (metricInputKs s)) = [ComponentIDInputConnector]"
  "sp_Receivers (sp_of (metricEnrichmentKs opts)) = [ComponentIDInputConnector]"
  "sp_Exporters (sp_of (metricEnrichmentKs opts)) = [ComponentIDEnrichmentConnector]"
  by (simp_all add: sp_of_def traceKs_def logKs_def metricKs_def metricInputKs_def metricEnrichmentKs_def)

lemma isConnector_simps [simp]:
  "isConnector ComponentIDOTLPReceiver = False" "isConnector ComponentIDKymaStatsReceiver = False"
  "isConnector ComponentIDInputConnector = True" "isConnector ComponentIDEnrichmentConnector = True"
  "isConnector (ComponentIDOTLPExporter proto ref) = False"
  by (simp_all add: isConnector_def HasPrefix_def ComponentIDOTLPExporter_def)

text \<open>The kinds of block a configuration has.\<close>

lemma gateway_block_cases:
  assumes "gateway_blocks nu get opts bls" and "bl \<in> set bls"
  obtains (trace) tp where "tp \<in> set (bo_TracePipelines opts)"
      "trace_block nu get opts (queueSizeFor (bo_TracePipelines opts)) tp bl"
    | (log) lp where "lp \<in> set (bo_LogPipelines opts)"
      "log_block nu get opts (queueSizeFor (bo_LogPipelines opts)) lp bl"
    | (shared) "bo_MetricPipelines opts \<noteq> []" "bl \<in> set (metricSharedBlocks opts)"
    | (metric) mp where "mp \<in> set (bo_MetricPipelines opts)"
      "metric_block nu get (queueSizeFor (bo_MetricPipelines opts)) mp bl"
proof -
  have l2: "\<exists>x\<in>set xs. R x y" if "list_all2 R xs ys" "y \<in> set ys" for R :: "'x \<Rightarrow> block \<Rightarrow> bool" and xs ys y
    using that by (induction rule: list_all2_induct) auto
  from assms(1) obtain ts ls ms where
    blocks: "list_all2 (trace_block nu get opts (queueSizeFor (bo_TracePipelines opts))) (bo_TracePipelines opts) ts"
      "list_all2 (log_block nu get opts (queueSizeFor (bo_LogPipelines opts))) (bo_LogPipelines opts) ls"
      "list_all2 (metric_block nu get (queueSizeFor (bo_MetricPipelines opts))) (bo_MetricPipelines opts) ms"
    and bls: "bls = ts @ ls @ (if bo_MetricPipelines opts = [] then [] else metricSharedBlocks opts) @ ms"
    unfolding gateway_blocks_def by blast
  from assms(2) bls consider "bl \<in> set ts" | "bl \<in> set ls"
    | "bo_MetricPipelines opts \<noteq> []" "bl \<in> set (metricSharedBlocks opts)" | "bl \<in> set ms"
    by (auto split: if_splits)
  then show thesis
  proof cases
    case 1
    from l2 [OF blocks(1) 1] trace show thesis by blast
  next
    case 2
    from l2 [OF blocks(2) 2] log show thesis by blast
  next
    case 3
    then show thesis by (rule shared)
  next
    case 4
    from l2 [OF blocks(3) 4] metric show thesis by blast
  qed
qed

text \<open>The reverse: every pipeline has its block.\<close>

lemma gateway_block_of:
  assumes "gateway_blocks nu get opts bls"
  shows "tp \<in> set (bo_TracePipelines opts) \<Longrightarrow>
      \<exists>bl\<in>set bls. trace_block nu get opts (queueSizeFor (bo_TracePipelines opts)) tp bl"
    "lp \<in> set (bo_LogPipelines opts) \<Longrightarrow>
      \<exists>bl\<in>set bls. log_block nu get opts (queueSizeFor (bo_LogPipelines opts)) lp bl"
    "mp \<in> set (bo_MetricPipelines opts) \<Longrightarrow>
      \<exists>bl\<in>set bls. metric_block nu get (queueSizeFor (bo_MetricPipelines opts)) mp bl"
    "bo_MetricPipelines opts \<noteq> [] \<Longrightarrow> bl \<in> set (metricSharedBlocks opts) \<Longrightarrow> bl \<in> set bls"
proof -
  from assms obtain ts ls ms where
    blocks: "list_all2 (trace_block nu get opts (queueSizeFor (bo_TracePipelines opts))) (bo_TracePipelines opts) ts"
      "list_all2 (log_block nu get opts (queueSizeFor (bo_LogPipelines opts))) (bo_LogPipelines opts) ls"
      "list_all2 (metric_block nu get (queueSizeFor (bo_MetricPipelines opts))) (bo_MetricPipelines opts) ms"
    and bls: "bls = ts @ ls @ (if bo_MetricPipelines opts = [] then [] else metricSharedBlocks opts) @ ms"
    unfolding gateway_blocks_def by blast
  show "tp \<in> set (bo_TracePipelines opts) \<Longrightarrow>
      \<exists>bl\<in>set bls. trace_block nu get opts (queueSizeFor (bo_TracePipelines opts)) tp bl"
    using trace_step.block_of [OF blocks(1)] bls by auto
  show "lp \<in> set (bo_LogPipelines opts) \<Longrightarrow>
      \<exists>bl\<in>set bls. log_block nu get opts (queueSizeFor (bo_LogPipelines opts)) lp bl"
    using log_step.block_of [OF blocks(2)] bls by auto
  show "mp \<in> set (bo_MetricPipelines opts) \<Longrightarrow>
      \<exists>bl\<in>set bls. metric_block nu get (queueSizeFor (bo_MetricPipelines opts)) mp bl"
    using metric_step.block_of [OF blocks(3)] bls by auto
  show "bo_MetricPipelines opts \<noteq> [] \<Longrightarrow> bl \<in> set (metricSharedBlocks opts) \<Longrightarrow> bl \<in> set bls"
    using bls by simp
qed

end
