(* ===== verification/GatewayProperties.thy ===== *)
theory GatewayProperties
  imports GatewayConfig "HOL-Library.Multiset"
begin

text \<open>
  What holds for every configuration that the builder of the OTLP gateway returns: it is well formed, every service
  pipeline has its processors in the intended order, every pipeline exports to its own backend, the queues share
  the budget, and validated pipelines can be rendered.  Two theorems show where pipelines influence each other.
\<close>

section \<open>Well-formedness\<close>

definition nonempty_ends :: "Config \<Rightarrow> bool" where
  "nonempty_ends c \<longleftrightarrow>
     (\<forall>sp\<in>ran (sc_Pipelines (cfg_Service c)). sp_Receivers sp \<noteq> [] \<and> sp_Exporters sp \<noteq> [])"

text \<open>A connector joins pipelines: it is an exporter of one and a receiver of another.\<close>

definition connectors_joined :: "Config \<Rightarrow> bool" where
  "connectors_joined c \<longleftrightarrow> (\<forall>i\<in>dom (cfg_Connectors c). \<exists>p q sp sq.
     sc_Pipelines (cfg_Service c) p = Some sp \<and> i \<in> set (sp_Exporters sp) \<and>
     sc_Pipelines (cfg_Service c) q = Some sq \<and> i \<in> set (sp_Receivers sq) \<and> p \<noteq> q)"

lemma distinct_map_sort_key: "distinct (map h (sort_key g xs)) \<longleftrightarrow> distinct (map h xs)"
  by (metis mset_map mset_sort mset_eq_imp_distinct_iff)

lemma sort_distinct_names: "distinct_names_of (sortPipelinesByName opts) \<longleftrightarrow> distinct_names_of opts"
  by (simp add: distinct_names_of_def sortPipelinesByName_def distinct_map_sort_key)

lemma gateway_ends:
  assumes "gateway_blocks nu get opts bls" and "(pid, exts, ks) \<in> set bls"
  shows "sp_Receivers (sp_of ks) \<noteq> [] \<and> sp_Exporters (sp_of ks) \<noteq> [] \<and>
    (\<forall>i\<in>set (sp_Receivers (sp_of ks) @ sp_Exporters (sp_of ks)). isConnector i \<longrightarrow>
       bo_MetricPipelines opts \<noteq> [] \<and> i \<in> {ComponentIDInputConnector, ComponentIDEnrichmentConnector})"
proof (cases rule: gateway_block_cases [OF assms])
  case (1 tp)
  then show ?thesis by (auto simp: trace_block_def)
next
  case (2 lp)
  then show ?thesis by (auto simp: log_block_def)
next
  case 3
  then show ?thesis by (auto simp: metricSharedBlocks_def)
next
  case (4 mp)
  then show ?thesis by (auto simp: metric_block_def)
qed

lemma listed_ids:
  "i \<in> fst ` set (listed receiverOf (block_contributions bls)) \<Longrightarrow> \<forall>bl\<in>set bls. proper_block bl \<Longrightarrow>
     \<exists>pid exts ks. (pid, exts, ks) \<in> set bls \<and> i \<in> set (sp_Receivers (sp_of ks))"
  "i \<in> fst ` set (listed exporterOf (block_contributions bls)) \<Longrightarrow> \<forall>bl\<in>set bls. proper_block bl \<Longrightarrow>
     \<exists>pid exts ks. (pid, exts, ks) \<in> set bls \<and> i \<in> set (sp_Exporters (sp_of ks))"
proof -
  have ext: "receiverOf k = []" "exporterOf k = []" if "extensionOf k \<noteq> []" for k using that by (cases k; simp)+
  show "i \<in> fst ` set (listed receiverOf (block_contributions bls)) \<Longrightarrow> \<forall>bl\<in>set bls. proper_block bl \<Longrightarrow>
     \<exists>pid exts ks. (pid, exts, ks) \<in> set bls \<and> i \<in> set (sp_Receivers (sp_of ks))"
    using block_component [OF _ _ ext(1), of bls i] by (simp add: sp_of_def)
  show "i \<in> fst ` set (listed exporterOf (block_contributions bls)) \<Longrightarrow> \<forall>bl\<in>set bls. proper_block bl \<Longrightarrow>
     \<exists>pid exts ks. (pid, exts, ks) \<in> set bls \<and> i \<in> set (sp_Exporters (sp_of ks))"
    using block_component [OF _ _ ext(2), of bls i] by (simp add: sp_of_def)
qed

lemma connectors_joined_blocks:
  assumes "gateway_blocks nu get opts bls" and "distinct_names_of opts"
  shows "connectors_joined (bd_Config (execute (blocks_plan bls) newBuilder))"
  unfolding connectors_joined_def
proof
  let ?c = "bd_Config (execute (blocks_plan bls) newBuilder)"
  fix i assume "i \<in> dom (cfg_Connectors ?c)"
  then have i: "isConnector i" "i \<in> fst ` set (listed receiverOf (block_contributions bls)) \<or>
      i \<in> fst ` set (listed exporterOf (block_contributions bls))"
    unfolding doms_blocks(4) [OF refl] by auto
  note P = gateway_proper [OF assms(1)]
  from i(2) listed_ids [of i bls] P obtain pid exts ks
    where "(pid, exts, ks) \<in> set bls" "i \<in> set (sp_Receivers (sp_of ks) @ sp_Exporters (sp_of ks))" by auto
  with gateway_ends [OF assms(1)] i(1) have nonempty: "bo_MetricPipelines opts \<noteq> []"
    and cases: "i = ComponentIDInputConnector \<or> i = ComponentIDEnrichmentConnector" by auto
  note look = pipelines_distinct_blocks [OF P gateway_pids_distinct [OF assms]]
  note shared = gateway_block_of(4) [OF assms(1) nonempty]
  have input: "sc_Pipelines (cfg_Service ?c) ''metrics/input-otlp'' = Some (sp_of (metricInputKs InputSourceOTLP))"
    and enrich: "sc_Pipelines (cfg_Service ?c) ''metrics/enrichment'' = Some (sp_of (metricEnrichmentKs opts))"
    by (rule look, rule shared, simp add: metricSharedBlocks_def)+
  obtain mp where mp: "mp \<in> set (bo_MetricPipelines opts)" using nonempty by (cases "bo_MetricPipelines opts") auto
  from gateway_block_of(3) [OF assms(1) mp] look obtain sp
    where outp: "sc_Pipelines (cfg_Service ?c) (formatMetricOutputServicePipelineID mp) = Some sp"
      "sp_Receivers sp = [ComponentIDEnrichmentConnector]"
    by (fastforce simp: metric_block_def)
  show "\<exists>p q sp sq. sc_Pipelines (cfg_Service ?c) p = Some sp \<and> i \<in> set (sp_Exporters sp) \<and>
      sc_Pipelines (cfg_Service ?c) q = Some sq \<and> i \<in> set (sp_Receivers sq) \<and> p \<noteq> q"
    using cases
  proof
    assume "i = ComponentIDInputConnector"
    with input enrich show ?thesis
      by (intro exI [of _ "''metrics/input-otlp''"] exI [of _ "''metrics/enrichment''"]) auto
  next
    assume "i = ComponentIDEnrichmentConnector"
    with enrich outp output_pid_new(3) [of mp] show ?thesis
      by (intro exI [of _ "''metrics/enrichment''"] exI [of _ "formatMetricOutputServicePipelineID mp"]) auto
  qed
qed

text \<open>C12: The configuration of the OTLP gateway is one that the collector accepts: every receiver, processor,
  exporter and connector of a service pipeline is declared, every enabled extension is declared, every service
  pipeline has a receiver and an exporter, every connector is an exporter of one pipeline and a receiver of
  another, and no receiver, processor or exporter is declared without being used.  Names are unique within a kind
  of pipeline.\<close>

theorem gateway_config_wellformed:
  assumes "Build nu get opts = Ret (Inr (c, ev))" and "distinct_names_of opts"
  shows "wf_config c \<and> nonempty_ends c \<and> connectors_joined c \<and> all_used c"
proof -
  from Build_blocks [OF assms(1)] obtain bls where bls: "gateway_blocks nu get (sortPipelinesByName opts) bls"
    and c: "c = bd_Config (execute (blocks_plan bls) newBuilder)" by blast
  note P = gateway_proper [OF bls]
  have D: "distinct_names_of (sortPipelinesByName opts)" using assms(2) by (simp add: sort_distinct_names)
  have "nonempty_ends c"
    unfolding nonempty_ends_def c pipelines_blocks [OF P]
    using gateway_ends [OF bls] by (auto simp: ran_def dest!: map_of_SomeD)
  then show ?thesis
    using wf_blocks [OF P] used_blocks [OF P gateway_pids_distinct [OF bls D]] connectors_joined_blocks [OF bls D]
    unfolding c by blast
qed


section \<open>Validated pipelines can be rendered\<close>

definition oauth_resolvable :: "secret_reader \<Rightarrow> OTLPOutput \<Rightarrow> bool" where
  "oauth_resolvable get out \<longleftrightarrow> (\<forall>o2. Option.bind (oo_Authentication out) ao_OAuth2 = Some o2 \<longrightarrow>
     (\<forall>v\<in>{oa_TokenURL o2, oa_ClientID o2, oa_ClientSecret o2}. IsValid (Some v) \<and> resolves get v))"

definition renders :: "net_url \<Rightarrow> secret_reader \<Rightarrow> OTLPOutput \<Rightarrow> bool" where
  "renders nu get out \<longleftrightarrow> output_resolvable nu get out \<and> oauth_resolvable get out"

definition renderable :: "net_url \<Rightarrow> secret_reader \<Rightarrow> BuildOptions \<Rightarrow> bool" where
  "renderable nu get opts \<longleftrightarrow>
     (\<forall>tp\<in>set (bo_TracePipelines opts). \<exists>out. tps_Output (tp_Spec tp) = Some out \<and> renders nu get out) \<and>
     (\<forall>lp\<in>set (bo_LogPipelines opts). \<exists>out. lo_OTLP (ls_Output (lp_Spec lp)) = Some out \<and> renders nu get out) \<and>
     (\<forall>mp\<in>set (bo_MetricPipelines opts). \<exists>out t. ms_Output (mp_Spec mp) = Some out \<and> mo_Temporality out = Some t \<and>
        renders nu get (mo_OTLPOutput out))"

text \<open>A contribution defines the variables that it refers to.\<close>

definition self_contained :: "contribution \<Rightarrow> bool" where
  "self_contained k \<longleftrightarrow>
     (\<forall>i x ev. k = Exp i (OTLPExporter x) ev \<longrightarrow> refs_defined (exporter_refs x) ev) \<and>
     (\<forall>i x ev. k = Ext i (OAuth2Extension x) ev \<longrightarrow> refs_defined (extension_refs x) ev)"

lemma self_contained_simps [simp]:
  "self_contained (Recv i c)" "self_contained (Proc i c)" "self_contained Skip"
  "self_contained (Exp i (OTLPExporter x) ev) \<longleftrightarrow> refs_defined (exporter_refs x) ev"
  "self_contained (Exp i ForwardConnectorConfig ev)"
  "self_contained (Ext i (OAuth2Extension y) ev) \<longleftrightarrow> refs_defined (extension_refs y) ev"
  "self_contained (Ext i (K8sLeaderElectorExtensionConfig a b d) ev)"
  by (simp_all add: self_contained_def)

lemma self_contained_procOf [simp]: "self_contained (procOf i c)"
  by (cases c) simp_all

lemma oauth_complete:
  assumes "oauth_resolvable get out"
  shows "\<exists>exts. oauth_exts get out ref exts \<and> (\<forall>k\<in>set exts. self_contained k)"
proof (cases "Option.bind (oo_Authentication out) ao_OAuth2")
  case None
  then show ?thesis by (simp add: oauth_exts_def)
next
  case (Some o2)
  with assms have "\<forall>v\<in>{oa_TokenURL o2, oa_ClientID o2, oa_ClientSecret o2}. IsValid (Some v) \<and> resolves get v"
    by (simp add: oauth_resolvable_def)
  from extension_complete [OF this, of ref] Some show ?thesis by (auto simp: oauth_exts_def)
qed

lemma trace_block_complete:
  assumes "tps_Output (tp_Spec tp) = Some out" and "renders nu get out"
  shows "\<exists>pid exts ks. trace_block nu get opts q tp (pid, exts, ks) \<and> (\<forall>k\<in>set exts \<union> set ks. self_contained k)"
proof -
  from assms(2) obtain exts c ev where "oauth_exts get out (TracePipelineRef tp) exts" "\<forall>k\<in>set exts. self_contained k"
    "OTLPExporter_build nu get out (TracePipelineRef tp) (NewSendingQueue q []) = Ret (Inr (Some (OTLPExporter c), ev))"
    "refs_defined (exporter_refs c) ev"
    using oauth_complete exporter_complete unfolding renders_def by metis
  then show ?thesis
    unfolding trace_block_def assms(1)
    by (intro exI [of _ "formatTraceServicePipelineID tp"] exI [of _ exts]
        exI [of _ "traceKs opts tp (ComponentIDOTLPExporter (oo_Protocol out) (TracePipelineRef tp)) (OTLPExporter c) ev"])
      (auto simp: traceKs_def memoryLimiterConfig_def k8sAttributesProcessorConfig_def)
qed

lemma log_block_complete:
  assumes "lo_OTLP (ls_Output (lp_Spec lp)) = Some out" and "renders nu get out"
  shows "\<exists>pid exts ks. log_block nu get opts q lp (pid, exts, ks) \<and> (\<forall>k\<in>set exts \<union> set ks. self_contained k)"
proof -
  from assms(2) obtain exts c ev where "oauth_exts get out (LogPipelineRef lp) exts" "\<forall>k\<in>set exts. self_contained k"
    "OTLPExporter_build nu get out (LogPipelineRef lp) (NewSendingQueue q []) = Ret (Inr (Some (OTLPExporter c), ev))"
    "refs_defined (exporter_refs c) ev"
    using oauth_complete exporter_complete unfolding renders_def by metis
  then show ?thesis
    unfolding log_block_def assms(1)
    by (intro exI [of _ "formatLogServicePipelineID lp"] exI [of _ exts]
        exI [of _ "logKs opts lp (ComponentIDOTLPExporter (oo_Protocol out) (LogPipelineRef lp)) (OTLPExporter c) ev"])
      (auto simp: logKs_def memoryLimiterConfig_def k8sAttributesProcessorConfig_def)
qed

lemma metric_block_complete:
  assumes "ms_Output (mp_Spec mp) = Some out" and "mo_Temporality out = Some t" and "renders nu get (mo_OTLPOutput out)"
  shows "\<exists>pid exts ks. metric_block nu get q mp (pid, exts, ks) \<and> (\<forall>k\<in>set exts \<union> set ks. self_contained k)"
proof -
  from assms(3) obtain exts c ev where "oauth_exts get (mo_OTLPOutput out) (MetricPipelineRef mp) exts"
    "\<forall>k\<in>set exts. self_contained k"
    "OTLPExporter_build nu get (mo_OTLPOutput out) (MetricPipelineRef mp) (NewSendingQueue q []) =
      Ret (Inr (Some (OTLPExporter c), ev))" "refs_defined (exporter_refs c) ev"
    using oauth_complete exporter_complete unfolding renders_def by metis
  then show ?thesis
    unfolding metric_block_def assms(1)
    by (intro exI [of _ "formatMetricOutputServicePipelineID mp"] exI [of _ exts]
        exI [of _ "metricKs mp (t = TemporalityDelta)
          (ComponentIDOTLPExporter (oo_Protocol (mo_OTLPOutput out)) (MetricPipelineRef mp)) (OTLPExporter c) ev"])
      (auto simp: metricKs_def assms(2))
qed

lemma shared_complete:
  "(pid, exts, ks) \<in> set (metricSharedBlocks opts) \<Longrightarrow> k \<in> set exts \<union> set ks \<Longrightarrow> self_contained k"
  by (auto simp: metricSharedBlocks_def metricInputKs_def metricEnrichmentKs_def)

lemma list_all2_choice:
  assumes "\<forall>x\<in>set xs. \<exists>y. R x y \<and> Q y"
  shows "\<exists>ys. list_all2 R xs ys \<and> (\<forall>y\<in>set ys. Q y)"
  using assms
proof (induction xs)
  case (Cons x xs)
  then obtain y ys where "R x y" "Q y" "list_all2 R xs ys" "\<forall>y\<in>set ys. Q y" by auto
  then show ?case by (intro exI [of _ "y # ys"]) simp
qed simp

abbreviation complete_block :: "block \<Rightarrow> bool" where
  "complete_block bl \<equiv> (case bl of (pid, exts, ks) \<Rightarrow> \<forall>k\<in>set exts \<union> set ks. self_contained k)"

lemma renderable_blocks:
  assumes "renderable nu get opts"
  shows "\<exists>bls. gateway_blocks nu get opts bls \<and> (\<forall>bl\<in>set bls. complete_block bl)"
proof -
  have "\<exists>bl. trace_block nu get opts q tp bl \<and> complete_block bl" if "tp \<in> set (bo_TracePipelines opts)" for tp q
  proof -
    from assms that obtain out where "tps_Output (tp_Spec tp) = Some out" "renders nu get out"
      unfolding renderable_def by blast
    from trace_block_complete [OF this, of opts q] obtain pid exts ks where
      "trace_block nu get opts q tp (pid, exts, ks)" "\<forall>k\<in>set exts \<union> set ks. self_contained k" by blast
    then show ?thesis by (intro exI [of _ "(pid, exts, ks)"]) simp
  qed
  then have "\<exists>ts. list_all2 (trace_block nu get opts (queueSizeFor (bo_TracePipelines opts))) (bo_TracePipelines opts) ts \<and> (\<forall>bl\<in>set ts. complete_block bl)"
    by (intro list_all2_choice ballI)
  then obtain ts where ts: "list_all2 (trace_block nu get opts (queueSizeFor (bo_TracePipelines opts))) (bo_TracePipelines opts) ts"
    "\<forall>bl\<in>set ts. complete_block bl"
    by (elim exE conjE)
  have "\<exists>bl. log_block nu get opts q lp bl \<and> complete_block bl" if "lp \<in> set (bo_LogPipelines opts)" for lp q
  proof -
    from assms that obtain out where "lo_OTLP (ls_Output (lp_Spec lp)) = Some out" "renders nu get out"
      unfolding renderable_def by blast
    from log_block_complete [OF this, of opts q] obtain pid exts ks where
      "log_block nu get opts q lp (pid, exts, ks)" "\<forall>k\<in>set exts \<union> set ks. self_contained k" by blast
    then show ?thesis by (intro exI [of _ "(pid, exts, ks)"]) simp
  qed
  then have "\<exists>ls. list_all2 (log_block nu get opts (queueSizeFor (bo_LogPipelines opts))) (bo_LogPipelines opts) ls \<and> (\<forall>bl\<in>set ls. complete_block bl)"
    by (intro list_all2_choice ballI)
  then obtain ls where ls: "list_all2 (log_block nu get opts (queueSizeFor (bo_LogPipelines opts))) (bo_LogPipelines opts) ls"
    "\<forall>bl\<in>set ls. complete_block bl"
    by (elim exE conjE)
  have "\<exists>bl. metric_block nu get q mp bl \<and> complete_block bl" if "mp \<in> set (bo_MetricPipelines opts)" for mp q
  proof -
    from assms that obtain out t where "ms_Output (mp_Spec mp) = Some out" "mo_Temporality out = Some t"
      "renders nu get (mo_OTLPOutput out)" unfolding renderable_def by blast
    from metric_block_complete [OF this, of q] obtain pid exts ks where
      "metric_block nu get q mp (pid, exts, ks)" "\<forall>k\<in>set exts \<union> set ks. self_contained k" by blast
    then show ?thesis by (intro exI [of _ "(pid, exts, ks)"]) simp
  qed
  then have "\<exists>ms. list_all2 (metric_block nu get (queueSizeFor (bo_MetricPipelines opts))) (bo_MetricPipelines opts) ms \<and> (\<forall>bl\<in>set ms. complete_block bl)"
    by (intro list_all2_choice ballI)
  then obtain ms where ms: "list_all2 (metric_block nu get (queueSizeFor (bo_MetricPipelines opts))) (bo_MetricPipelines opts) ms"
    "\<forall>bl\<in>set ms. complete_block bl"
    by (elim exE conjE)
  let ?bls = "ts @ ls @ (if bo_MetricPipelines opts = [] then [] else metricSharedBlocks opts) @ ms"
  have "gateway_blocks nu get opts ?bls"
    unfolding gateway_blocks_def using ts(1) ls(1) ms(1) by blast
  moreover have "\<forall>bl\<in>set (metricSharedBlocks opts). complete_block bl" using shared_complete by fast
  then have "\<forall>bl\<in>set ?bls. complete_block bl" using ts(2) ls(2) ms(2) by (simp add: ball_Un)
  ultimately show ?thesis by blast
qed

text \<open>Every variable that an exporter or an OAuth2 extension of the configuration refers to is in the secret data.\<close>

definition complete_env :: "Config \<Rightarrow> EnvVars \<Rightarrow> bool" where
  "complete_env c ev \<longleftrightarrow>
     (\<forall>x. OTLPExporter x \<in> ran (cfg_Exporters c) \<longrightarrow> refs_defined (exporter_refs x) ev) \<and>
     (\<forall>x. OAuth2Extension x \<in> ran (cfg_Extensions c) \<longrightarrow> refs_defined (extension_refs x) ev)"

lemma dom_foldl_map_add: "dom (foldl (++) m ms) = dom m \<union> (\<Union>n\<in>set ms. dom n)"
  by (induction ms arbitrary: m) auto

lemma ran_map_of: "ran (map_of xs) \<subseteq> snd ` set xs"
  by (auto simp: ran_def image_iff dest!: map_of_SomeD) force

lemma ran_map_add: "ran (m ++ n) \<subseteq> ran m \<union> ran n"
  by (auto simp: ran_def)

lemma refs_defined_mono: "refs_defined rs ev \<Longrightarrow> dom ev \<subseteq> dom ev' \<Longrightarrow> refs_defined rs ev'"
  unfolding refs_defined_def by blast

lemma listed_in_blocks:
  "x \<in> set (listed f (block_contributions bls)) \<Longrightarrow>
     \<exists>pid exts ks k. (pid, exts, ks) \<in> set bls \<and> k \<in> set exts \<union> set ks \<and> x \<in> set (f k)"
  by (auto simp: listed_def block_contributions_def)

lemma contribution_env:
  assumes "(pid, exts, ks) \<in> set bls" and "k \<in> set exts \<union> set ks"
  shows "dom (envVarsOf k) \<subseteq> dom (bd_EnvVars (execute (blocks_plan bls) newBuilder))"
proof -
  have "(pid, k) \<in> set (block_plan (pid, exts, ks))" using assms(2) by (auto simp: block_plan_def)
  with assms(1) have "(pid, k) \<in> set (blocks_plan bls)" unfolding blocks_plan_def by auto
  then show ?thesis unfolding envVars_execute dom_foldl_map_add by (force simp: image_iff)
qed

lemma blocks_env:
  assumes "\<forall>bl\<in>set bls. complete_block bl"
  shows "complete_env (bd_Config (execute (blocks_plan bls) newBuilder)) (bd_EnvVars (execute (blocks_plan bls) newBuilder))"
  unfolding complete_env_def
proof (intro conjI allI impI)
  let ?b = "execute (blocks_plan bls) newBuilder"
  fix x assume "OTLPExporter x \<in> ran (cfg_Exporters (bd_Config ?b))"
  then have "OTLPExporter x \<in> snd ` set (listed exporterOf (block_contributions bls))"
    unfolding exporters_execute by (auto simp: listed_blocks dest!: subsetD [OF ran_map_of])
  then obtain i where "(i, OTLPExporter x) \<in> set (listed exporterOf (block_contributions bls))" by auto
  from listed_in_blocks [OF this] obtain pid exts ks k where
    k: "(pid, exts, ks) \<in> set bls" "k \<in> set exts \<union> set ks" "(i, OTLPExporter x) \<in> set (exporterOf k)" by blast
  then obtain ev where kev: "k = Exp i (OTLPExporter x) ev" by (cases k) auto
  from assms k(1) have "complete_block (pid, exts, ks)" by blast
  with k(2) have "self_contained k" by simp
  with kev have "refs_defined (exporter_refs x) ev" by simp
  then show "refs_defined (exporter_refs x) (bd_EnvVars ?b)"
    by (rule refs_defined_mono) (use contribution_env [OF k(1,2)] kev in simp)
next
  let ?b = "execute (blocks_plan bls) newBuilder"
  fix x assume "OAuth2Extension x \<in> ran (cfg_Extensions (bd_Config ?b))"
  moreover have "OAuth2Extension x \<notin> ran defaultExtensions" by (auto simp: defaultExtensions_def ran_def split: if_splits)
  ultimately have "OAuth2Extension x \<in> snd ` set (listed extensionOf (block_contributions bls))"
    unfolding extensions_execute by (auto simp: listed_blocks dest!: subsetD [OF ran_map_add] dest: subsetD [OF ran_map_of])
  then obtain i where "(i, OAuth2Extension x) \<in> set (listed extensionOf (block_contributions bls))" by auto
  from listed_in_blocks [OF this] obtain pid exts ks k where
    k: "(pid, exts, ks) \<in> set bls" "k \<in> set exts \<union> set ks" "(i, OAuth2Extension x) \<in> set (extensionOf k)" by blast
  then obtain ev where kev: "k = Ext i (OAuth2Extension x) ev" by (cases k) auto
  from assms k(1) have "complete_block (pid, exts, ks)" by blast
  with k(2) have "self_contained k" by simp
  with kev have "refs_defined (extension_refs x) ev" by simp
  then show "refs_defined (extension_refs x) (bd_EnvVars ?b)"
    by (rule refs_defined_mono) (use contribution_env [OF k(1,2)] kev in simp)
qed

lemma renderable_sorted: "renderable nu get (sortPipelinesByName opts) \<longleftrightarrow> renderable nu get opts"
  by (simp add: renderable_def sortPipelinesByName_def)

lemma Build_complete:
  assumes "renderable nu get opts"
  shows "\<exists>c ev. Build nu get opts = Ret (Inr (c, ev)) \<and> complete_env c ev"
proof -
  from assms have "renderable nu get (sortPipelinesByName opts)" by (simp add: renderable_sorted)
  from renderable_blocks [OF this] obtain bls where "gateway_blocks nu get (sortPipelinesByName opts) bls"
    "\<forall>bl\<in>set bls. complete_block bl" by blast
  with blocks_env show ?thesis unfolding Build_blocks_iff by blast
qed

text \<open>What the resource definitions demand of an output: every value is given or refers to a secret, and the
  endpoint and the path are URLs if there is a path.\<close>

definition output_given :: "net_url \<Rightarrow> secret_reader \<Rightarrow> OTLPOutput \<Rightarrow> bool" where
  "output_given nu get out \<longleftrightarrow>
     (\<forall>v\<in>set (otlpValues out). vt_Value v \<noteq> [] \<or> secretRefOf v \<noteq> None) \<and> url_ok nu get out"

lemma GetValue_fields:
  "GetValue get ref = Inr b \<Longrightarrow> skr_Name ref \<noteq> [] \<and> skr_Key ref \<noteq> [] \<and> skr_Namespace ref \<noteq> []"
  by (auto simp: GetValue_def checkForMissingFields_def Let_def split: option.splits if_splits)

lemma tls_resolveValue_valid: "tls_resolveValue get v = Inr b \<Longrightarrow> IsValid (Some v) \<and> resolves get v"
  by (auto simp: tls_resolveValue_def IsValid_def resolves_def ResolveValue_def bind_eq_Some_conv
      split: if_splits option.splits sum.splits dest: GetValue_fields)

lemma resolves_valid: "vt_Value v \<noteq> [] \<or> secretRefOf v \<noteq> None \<Longrightarrow> resolves get v \<Longrightarrow> IsValid (Some v)"
  by (cases "vt_ValueFrom v") (auto simp: IsValid_def secretRefOf_def resolves_def ResolveValue_def
      split: if_splits option.splits dest: GetValue_fields)

lemma accepted_renders:
  assumes "secretref_validate get (getSecretRefsInOTLPOutput out) = None" and "output_given nu get out"
    and "\<And>t. oo_TLS out = Some t \<Longrightarrow> tlsValidationRequired (Some out) \<Longrightarrow>
      tlscert_Validate cr get now (tlsParams t) = None \<or>
      (\<exists>e. tlscert_Validate cr get now (tlsParams t) = Some e \<and> IsCertAboutToExpireError e)"
  shows "renders nu get out"
proof -
  have vals: "IsValid (Some v) \<and> resolves get v" if "v \<in> set (otlpValues out)" for v
  proof -
    from that assms(2) have given: "vt_Value v \<noteq> [] \<or> secretRefOf v \<noteq> None" by (simp add: output_given_def)
    moreover from assms(1) that have "\<forall>ref. secretRefOf v = Some ref \<longrightarrow> (\<exists>b. GetValue get ref = Inr b)"
      by (auto simp: secretref_validate_None getSecretRefsInOTLPOutput_eq set_secretRefsOf)
    ultimately have "resolves get v" using ResolveValue_defined by (simp add: resolves_def)
    with resolves_valid [OF given] show ?thesis by blast
  qed
  have tls: "(IsValid (tls_Cert t) \<longleftrightarrow> IsValid (tls_Key t)) \<and> (\<forall>v\<in>set (tlsValues t). resolves get v)"
    if t: "oo_TLS out = Some t" for t
  proof (cases "tlsValidationRequired (Some out)")
    case False
    with t show ?thesis by (simp add: tlsValidationRequired_def tlsValues_def opt_list_def)
  next
    case True
    from tlscert_resolved [OF assms(3) [OF t True]]
    have pair: "tls_Cert t = None \<longleftrightarrow> tls_Key t = None"
      and res: "\<And>v. Some v \<in> {tls_Cert t, tls_Key t, tls_CA t} \<Longrightarrow> IsValid (Some v) \<and> resolves get v"
      by (auto simp: tlsParams_def dest: tls_resolveValue_valid)
    have "resolves get v" if "v \<in> set (tlsValues t)" for v
      using that res [of v] by (auto simp: tlsValues_def opt_list_def split: option.splits)
    moreover have "IsValid (tls_Cert t) \<longleftrightarrow> IsValid (tls_Key t)"
    proof (cases "tls_Cert t")
      case None
      with pair show ?thesis by simp
    next
      case (Some cert)
      with pair obtain key where "tls_Key t = Some key" by auto
      with Some res show ?thesis by simp
    qed
    ultimately show ?thesis by blast
  qed
  have "output_resolvable nu get out"
    unfolding output_resolvable_def
  proof (intro conjI allI ballI impI)
    show "url_ok nu get out" using assms(2) by (simp add: output_given_def)
    show "resolves get (oo_Endpoint out)" using vals by (simp add: otlpValues_def)
  next
    fix b assume "Option.bind (oo_Authentication out) ao_Basic = Some b"
    then show "resolves get (ba_User b)" "resolves get (ba_Password b)" using vals by (simp_all add: otlpValues_def)
  next
    fix h assume "h \<in> set (oo_Headers out)"
    then show "resolves get (h_ValueType h)" using vals by (simp add: otlpValues_def)
  qed (use tls in auto)
  moreover have "oauth_resolvable get out"
    unfolding oauth_resolvable_def using vals by (auto simp: otlpValues_def)
  ultimately show ?thesis by (simp add: renders_def)
qed

text \<open>C11: Pipelines that their validators accept (possibly with a certificate that is about to expire) can be
  rendered together: the gateway's configuration is built without an error or a panic, and every variable that an
  exporter or an OAuth2 extension refers to (endpoint, credentials, headers, certificates) is defined in the secret
  that goes with it.  The outputs are as the resource definitions demand, and the temporality has been defaulted.\<close>

theorem reconcilable_pipelines_render:
  assumes "\<forall>tp\<in>set (bo_TracePipelines opts).
      trace_isReconcilable (newTraceValidator parse cr ottl ottlF get now cl ckT s) tp = Ret (Inr True) \<and>
      (\<exists>out. tps_Output (tp_Spec tp) = Some out \<and> output_given nu get out)"
    and "\<forall>lp\<in>set (bo_LogPipelines opts).
      logotel_isReconcilable (newLogOtelValidator parse cr ottl ottlF get now cl ckL s) lp = Ret (Inr True) \<and>
      (\<exists>out. lo_OTLP (ls_Output (lp_Spec lp)) = Some out \<and> output_given nu get out)"
    and "\<forall>mp\<in>set (bo_MetricPipelines opts).
      metric_isReconcilable (newMetricValidator parse cr ottl ottlF get now cl ckM s) mp = Ret (Inr True) \<and>
      (\<exists>out t. ms_Output (mp_Spec mp) = Some out \<and> mo_Temporality out = Some t \<and> output_given nu get (mo_OTLPOutput out))"
  shows "\<exists>c ev. Build nu get opts = Ret (Inr (c, ev)) \<and> complete_env c ev"
proof (rule Build_complete, unfold renderable_def, intro conjI ballI)
  fix tp assume "tp \<in> set (bo_TracePipelines opts)"
  with assms(1) obtain out where rec: "trace_isReconcilable (newTraceValidator parse cr ottl ottlF get now cl ckT s) tp = Ret (Inr True)"
    and out: "tps_Output (tp_Spec tp) = Some out" "output_given nu get out" by blast
  let ?v = "newTraceValidator parse cr ottl ottlF get now cl ckT s"
  from rec out(1) obtain rest r where
    "gcheck (v_SecretRef ?v tp) (gcheck (validateOTLPOutput ?v (Some out)) rest) = Ret r"
    "r = None \<or> (\<exists>e. r = Some e \<and> IsCertAboutToExpireError e)"
    by (auto simp: trace_isReconcilable_def reconcilable_by_True trace_validate_def)
  from trace_v.reconcilable_prefix [OF this] trace_v.reconcilable_tls [OF this]
  have "renders nu get out"
    by (intro accepted_renders [where cr = cr and now = now] out(2))
      (auto simp: newTraceValidator_def secretref_ValidateTracePipeline_def GetSecretRefsTracePipeline_def out(1))
  with out(1) show "\<exists>out. tps_Output (tp_Spec tp) = Some out \<and> renders nu get out" by blast
next
  fix lp assume "lp \<in> set (bo_LogPipelines opts)"
  with assms(2) obtain out where rec: "logotel_isReconcilable (newLogOtelValidator parse cr ottl ottlF get now cl ckL s) lp = Ret (Inr True)"
    and out: "lo_OTLP (ls_Output (lp_Spec lp)) = Some out" "output_given nu get out" by blast
  let ?v = "newLogOtelValidator parse cr ottl ottlF get now cl ckL s"
  from rec out(1) obtain rest r where
    "gcheck (v_SecretRef ?v lp) (gcheck (validateOTLPOutput ?v (Some out)) rest) = Ret r"
    "r = None \<or> (\<exists>e. r = Some e \<and> IsCertAboutToExpireError e)"
    by (auto simp: logotel_isReconcilable_def reconcilable_by_True logotel_validate_def)
  from logotel_v.reconcilable_prefix [OF this] logotel_v.reconcilable_tls [OF this]
  have "renders nu get out"
    by (intro accepted_renders [where cr = cr and now = now] out(2))
      (auto simp: newLogOtelValidator_def secretref_ValidateLogPipeline_def GetSecretRefsLogPipeline_def out(1))
  with out(1) show "\<exists>out. lo_OTLP (ls_Output (lp_Spec lp)) = Some out \<and> renders nu get out" by blast
next
  fix mp assume "mp \<in> set (bo_MetricPipelines opts)"
  with assms(3) obtain out t where rec: "metric_isReconcilable (newMetricValidator parse cr ottl ottlF get now cl ckM s) mp = Ret (Inr True)"
    and out: "ms_Output (mp_Spec mp) = Some out" "mo_Temporality out = Some t" "output_given nu get (mo_OTLPOutput out)" by blast
  let ?v = "newMetricValidator parse cr ottl ottlF get now cl ckM s"
  from rec out(1) obtain rest r where
    "gcheck (v_SecretRef ?v mp) (gcheck (validateOTLPOutput ?v (Some (mo_OTLPOutput out))) rest) = Ret r"
    "r = None \<or> (\<exists>e. r = Some e \<and> IsCertAboutToExpireError e)"
    by (auto simp: metric_isReconcilable_def reconcilable_by_True metric_validate_def)
  from metric_v.reconcilable_prefix [OF this] metric_v.reconcilable_tls [OF this]
  have "renders nu get (mo_OTLPOutput out)"
    by (intro accepted_renders [where cr = cr and now = now] out(3))
      (auto simp: newMetricValidator_def secretref_ValidateMetricPipeline_def GetSecretRefsMetricPipeline_def out(1))
  with out(1,2) show "\<exists>out t. ms_Output (mp_Spec mp) = Some out \<and> mo_Temporality out = Some t \<and>
      renders nu get (mo_OTLPOutput out)" by blast
qed

text \<open>One pipeline of each kind, with a client certificate that expires in a week; the log and the metric pipeline
  do not want data over OTLP.\<close>

abbreviation otlpOff :: "OTLPInput option" where
  "otlpOff \<equiv> Some \<lparr>oi_Enabled = Some False, oi_Namespaces = None\<rparr>"

definition sampleTrace :: TracePipeline where
  "sampleTrace = \<lparr>tp_ObjectMeta = zeroObjectMeta\<lparr>om_Name := ''spans''\<rparr>,
     tp_Spec = \<lparr>tps_Output = Some tlsOutput, tps_Transforms = [], tps_Filters = None\<rparr>, tp_Conditions = []\<rparr>"

definition sampleLog :: LogPipeline where
  "sampleLog = zeroLogPipeline\<lparr>lp_ObjectMeta := zeroObjectMeta\<lparr>om_Name := ''audit''\<rparr>,
     lp_Spec := (lp_Spec zeroLogPipeline)\<lparr>ls_Input := \<lparr>li_Runtime = None, li_OTLP = otlpOff\<rparr>,
       ls_Output := \<lparr>lo_FluentBitCustom = [], lo_FluentBitHTTP = None, lo_OTLP = Some tlsOutput\<rparr>\<rparr>\<rparr>"

definition sampleMetric :: MetricPipeline where
  "sampleMetric = zeroMetricPipeline\<lparr>mp_ObjectMeta := zeroObjectMeta\<lparr>om_Name := ''numbers''\<rparr>,
     mp_Spec := (mp_Spec zeroMetricPipeline)
       \<lparr>ms_Input := (ms_Input (mp_Spec zeroMetricPipeline))\<lparr>mi_OTLP := otlpOff\<rparr>,
        ms_Output := Some \<lparr>mo_OTLPOutput = tlsOutput, mo_Temporality = Some TemporalityDelta\<rparr>\<rparr>\<rparr>"

definition sampleOptions :: BuildOptions where
  "sampleOptions = \<lparr>bo_LogPipelines = [sampleLog], bo_TracePipelines = [sampleTrace], bo_MetricPipelines = [sampleMetric],
     bo_Cluster = \<lparr>co_ClusterName = ''c'', co_ClusterUID = ''u'', co_CloudProvider = ''p''\<rparr>, bo_Enrichments = None,
     bo_ServiceEnrichment = [], bo_ModuleVersion = ''1.0'', bo_GatewayNamespace = ''kyma-system'', bo_VpaActive = False\<rparr>"

definition sampleNet :: net_url where
  "sampleNet = \<lparr>url_Parse = (\<lambda>s. Inr \<lparr>pu_Path = [], pu_RawQuery = [], pu_Rest = s\<rparr>), url_String = pu_Rest,
     path_Join = (@)\<rparr>"

lemmas sample_defs = sampleOptions_def sampleTrace_def sampleLog_def sampleMetric_def zeroLogPipeline_def
  zeroMetricPipeline_def zeroObjectMeta_def

lemma sample_given: "output_given sampleNet noSecrets tlsOutput"
  unfolding output_given_def tlsOutput_values by (simp add: plainValue_def url_ok_def tlsOutput_def plainOTLPOutput_def)

lemma sample_renders: "renders sampleNet noSecrets tlsOutput"
proof (rule accepted_renders [where cr = expiringCrypto and now = 0, OF _ sample_given])
  show "secretref_validate noSecrets (getSecretRefsInOTLPOutput tlsOutput) = None"
    by (simp add: getSecretRefsInOTLPOutput_eq tlsOutput_values secretRefOf_def plainValue_def opt_list_def secretref_validate_def)
  show "tlscert_Validate expiringCrypto noSecrets 0 (tlsParams t) = None \<or>
      (\<exists>e. tlscert_Validate expiringCrypto noSecrets 0 (tlsParams t) = Some e \<and> IsCertAboutToExpireError e)"
    if "oo_TLS tlsOutput = Some t" for t
    using that tlsOutput_expiring by (auto simp: tlsParams_def tlsOutput_def)
qed

lemma sample_renderable: "renderable sampleNet noSecrets sampleOptions"
  using sample_renders by (simp add: renderable_def sample_defs)

theorem gateway_config_wellformed_witness:
  "\<exists>c ev. Build sampleNet noSecrets sampleOptions = Ret (Inr (c, ev)) \<and>
     wf_config c \<and> nonempty_ends c \<and> connectors_joined c \<and> all_used c"
proof -
  from Build_complete [OF sample_renderable] obtain c ev
    where "Build sampleNet noSecrets sampleOptions = Ret (Inr (c, ev))" by blast
  moreover have "distinct_names_of sampleOptions" by (simp add: distinct_names_of_def sample_defs)
  ultimately show ?thesis using gateway_config_wellformed by blast
qed

lemma sample_reconcilable:
  "trace_isReconcilable (newTraceValidator (\<lambda>_. Inr sampleURL) expiringCrypto permissiveOTTL permissiveOTTL
     noSecrets 0 mem_client sampleLocker []) sampleTrace = Ret (Inr True)"
  "logotel_isReconcilable (newLogOtelValidator (\<lambda>_. Inr sampleURL) expiringCrypto permissiveOTTL permissiveOTTL
     noSecrets 0 mem_client sampleLocker []) sampleLog = Ret (Inr True)"
  "metric_isReconcilable (newMetricValidator (\<lambda>_. Inr sampleURL) expiringCrypto permissiveOTTL permissiveOTTL
     noSecrets 0 mem_client sampleLocker []) sampleMetric = Ret (Inr True)"
proof -
  have refs: "secretref_validate noSecrets (getSecretRefsInOTLPOutput tlsOutput) = None"
    by (simp add: getSecretRefsInOTLPOutput_eq tlsOutput_values secretRefOf_def plainValue_def opt_list_def secretref_validate_def)
  have tls: "oo_TLS tlsOutput = Some \<lparr>tls_Insecure = False, tls_InsecureSkipVerify = False, tls_CA = None,
      tls_Cert = Some (plainValue ''cert''), tls_Key = Some (plainValue ''key'')\<rparr>" by (simp add: tlsOutput_def)
  show "trace_isReconcilable (newTraceValidator (\<lambda>_. Inr sampleURL) expiringCrypto permissiveOTTL permissiveOTTL
     noSecrets 0 mem_client sampleLocker []) sampleTrace = Ret (Inr True)"
    using refs tlsOutput_endpoint tlsOutput_expiring
    by (simp add: trace_isReconcilable_def reconcilable_by_True trace_validate_def validateOTLPOutput_def
        tlsValidationRequired_def newTraceValidator_def secretref_ValidateTracePipeline_def
        GetSecretRefsTracePipeline_def tlsParams_def sampleTrace_def zeroObjectMeta_def tls)
  show "logotel_isReconcilable (newLogOtelValidator (\<lambda>_. Inr sampleURL) expiringCrypto permissiveOTTL permissiveOTTL
     noSecrets 0 mem_client sampleLocker []) sampleLog = Ret (Inr True)"
    using refs tlsOutput_endpoint tlsOutput_expiring
    by (simp add: logotel_isReconcilable_def reconcilable_by_True logotel_validate_def validateOTLPOutput_def
        tlsValidationRequired_def newLogOtelValidator_def secretref_ValidateLogPipeline_def
        GetSecretRefsLogPipeline_def tlsParams_def sampleLog_def zeroObjectMeta_def zeroLogPipeline_def tls)
  show "metric_isReconcilable (newMetricValidator (\<lambda>_. Inr sampleURL) expiringCrypto permissiveOTTL permissiveOTTL
     noSecrets 0 mem_client sampleLocker []) sampleMetric = Ret (Inr True)"
    using refs tlsOutput_endpoint tlsOutput_expiring
    by (simp add: metric_isReconcilable_def reconcilable_by_True metric_validate_def validateOTLPOutput_def
        tlsValidationRequired_def newMetricValidator_def secretref_ValidateMetricPipeline_def
        GetSecretRefsMetricPipeline_def tlsParams_def sampleMetric_def zeroObjectMeta_def zeroMetricPipeline_def tls)
qed

theorem reconcilable_pipelines_render_witness:
  "\<exists>c ev. Build sampleNet noSecrets sampleOptions = Ret (Inr (c, ev)) \<and> complete_env c ev"
proof (rule reconcilable_pipelines_render [where parse = "\<lambda>_. Inr sampleURL" and cr = expiringCrypto
      and ottl = permissiveOTTL and ottlF = permissiveOTTL and now = 0 and cl = mem_client and s = "[]"
      and ckT = sampleLocker and ckL = sampleLocker and ckM = sampleLocker], goal_cases)
  case 1
  have "tps_Output (tp_Spec sampleTrace) = Some tlsOutput" by (simp add: sampleTrace_def)
  with sample_given sample_reconcilable(1) show ?case by (simp add: sampleOptions_def)
next
  case 2
  have "lo_OTLP (ls_Output (lp_Spec sampleLog)) = Some tlsOutput" by (simp add: sampleLog_def)
  with sample_given sample_reconcilable(2) show ?case by (simp add: sampleOptions_def)
next
  case 3
  have "ms_Output (mp_Spec sampleMetric) = Some \<lparr>mo_OTLPOutput = tlsOutput, mo_Temporality = Some TemporalityDelta\<rparr>"
    by (simp add: sampleMetric_def)
  with sample_given sample_reconcilable(3) show ?case by (simp add: sampleOptions_def)
qed

end
