(* ===== verification/GatewayIsolation.thy ===== *)
theory GatewayIsolation
  imports GatewayProperties
begin

text \<open>
  How the pipelines of the OTLP gateway share one collector: what each of them has for itself (its service pipeline,
  its exporter, the address of its backend, its part of the queue) and where one pipeline influences another.
\<close>

section \<open>The address of a backend\<close>

abbreviation endpointKey :: "PipelineRef \<Rightarrow> string" where
  "endpointKey ref \<equiv> formatEnvVarKey otlpEndpointVariablePrefix ref"

text \<open>The kinds of variables differ in their first characters.\<close>

lemma key_kinds [simp]:
  "take 6 (formatEnvVarKey otlpEndpointVariablePrefix ref) = ''OTLP_E''"
  "take 6 (formatEnvVarKey basicAuthHeaderVariablePrefix ref) = ''BASIC_''"
  "take 6 (formatEnvVarKey tlsConfigCertVariablePrefix ref) = ''OTLP_T''"
  "take 6 (formatEnvVarKey tlsConfigKeyVariablePrefix ref) = ''OTLP_T''"
  "take 6 (formatEnvVarKey tlsConfigCaVariablePrefix ref) = ''OTLP_T''"
  "take 6 (formatEnvVarKey oauth2TokenURLVariablePrefix ref) = ''OAUTH2''"
  "take 6 (formatEnvVarKey oauth2ClientIDVariablePrefix ref) = ''OAUTH2''"
  "take 6 (formatEnvVarKey oauth2ClientSecretVariablePrefix ref) = ''OAUTH2''"
  "take 6 (formatHeaderEnvVarKey h ref) = ''HEADER''"
  by (simp_all add: formatEnvVarKey_def formatHeaderEnvVarKey_def)

definition same_endpoints :: "EnvVars \<Rightarrow> EnvVars \<Rightarrow> bool" where
  "same_endpoints d d' \<longleftrightarrow> (\<forall>x. take 6 x = ''OTLP_E'' \<longrightarrow> d' x = d x)"

lemma same_endpoints_refl: "same_endpoints d d"
  by (simp add: same_endpoints_def)

lemma same_endpoints_trans: "same_endpoints d d' \<Longrightarrow> same_endpoints d' d'' \<Longrightarrow> same_endpoints d d''"
  by (simp add: same_endpoints_def)

lemma same_endpoints_upd: "take 6 k \<noteq> ''OTLP_E'' \<Longrightarrow> same_endpoints d (d(k \<mapsto> v))"
  by (auto simp: same_endpoints_def)

lemma makeBasicAuth_endpoints: "makeBasicAuthEnvVar get out ref d = Ret (Inr d') \<Longrightarrow> same_endpoints d d'"
  by (auto simp: makeBasicAuthEnvVar_def gderef_def grbind_eq_Inr same_endpoints_refl intro!: same_endpoints_upd
      split: if_splits option.splits)

lemma makeHeader_endpoints:
  assumes "makeHeaderEnvVar get out ref d = Ret (Inr d')"
  shows "same_endpoints d d'"
  using assms unfolding makeHeaderEnvVar_def
  by (rule range_state_inv) (auto simp: grbind_eq_Inr same_endpoints_refl elim!: same_endpoints_trans intro!: same_endpoints_upd)

lemma makeTLS_endpoints:
  assumes "makeTLSEnvVar get out ref d = Ret (Inr d')"
  shows "same_endpoints d d'"
proof (cases "oo_TLS out")
  case None
  with assms show ?thesis by (simp add: makeTLSEnvVar_def same_endpoints_refl)
next
  case (Some t)
  from assms obtain d1 where
    d1: "(if IsValid (tls_CA t) then gderef (tls_CA t) (\<lambda>v. grbind (ResolveValue get v) (\<lambda>ca.
      Ret (Inr (d(formatEnvVarKey tlsConfigCaVariablePrefix ref \<mapsto> ca))))) else Ret (Inr d)) = Ret (Inr d1)"
    and d': "d' = d1 \<or> (\<exists>u v. d' = d1(formatEnvVarKey tlsConfigCertVariablePrefix ref \<mapsto> u,
      formatEnvVarKey tlsConfigKeyVariablePrefix ref \<mapsto> v))"
    unfolding makeTLSEnvVar_def Some option.case grbind_eq_Inr
    by (auto simp: gderef_def grbind_eq_Inr split: if_splits option.splits)
  from d1 have "same_endpoints d d1"
    by (auto simp: gderef_def grbind_eq_Inr same_endpoints_refl intro!: same_endpoints_upd split: if_splits option.splits)
  moreover from d' have "same_endpoints d1 d'"
    by (auto simp: same_endpoints_refl intro!: same_endpoints_trans [OF same_endpoints_upd same_endpoints_upd])
  ultimately show ?thesis by (rule same_endpoints_trans)
qed

lemma exporter_env:
  assumes "OTLPExporter_build nu get out ref q = Ret (Inr (Some c, ev))"
  shows "\<exists>e. resolveEndpointURL nu get out = Ret (Inr e) \<and> c = OTLPExporter (otlpExporter out ref ev q) \<and>
    (\<forall>x. take 6 x = ''OTLP_E'' \<longrightarrow> ev x = (if x = endpointKey ref then Some e else None))"
proof -
  from assms obtain d1 d2 d3 where d: "makeBasicAuthEnvVar get out ref Map.empty = Ret (Inr d1)"
    "makeOTLPEndpointEnvVar nu get out ref d1 = Ret (Inr d2)" "makeHeaderEnvVar get out ref d2 = Ret (Inr d3)"
    "makeTLSEnvVar get out ref d3 = Ret (Inr ev)" and c: "c = OTLPExporter (otlpExporter out ref ev q)"
    by (auto simp: OTLPExporter_build_def makeOTLPExporterEnvVars_def grbind_eq_Inr)
  from d(2) obtain e where e: "resolveEndpointURL nu get out = Ret (Inr e)" "d2 = d1(endpointKey ref \<mapsto> e)"
    by (auto simp: makeOTLPEndpointEnvVar_def grbind_eq_Inr)
  have "same_endpoints d2 ev"
    using makeHeader_endpoints [OF d(3)] makeTLS_endpoints [OF d(4)] by (rule same_endpoints_trans)
  with makeBasicAuth_endpoints [OF d(1)] e c show ?thesis by (auto simp: same_endpoints_def)
qed

lemma extension_env:
  assumes "OAuth2Extension_build get o2 ref = Ret (Inr (c, ev))"
  shows "same_endpoints Map.empty ev"
proof -
  have step: "makeOAuth2EnvVar get field pfx o2' ref d = Ret (Inr d') \<Longrightarrow> take 6 (formatEnvVarKey pfx ref) \<noteq> ''OTLP_E'' \<Longrightarrow>
      same_endpoints d d'" for field pfx o2' d d'
    by (auto simp: makeOAuth2EnvVar_def grbind_eq_Inr same_endpoints_refl intro!: same_endpoints_upd
        split: if_splits option.splits)
  from assms obtain d1 d2 where
    "makeOAuth2EnvVar get oa_TokenURL oauth2TokenURLVariablePrefix (Some o2) ref Map.empty = Ret (Inr d1)"
    "makeOAuth2EnvVar get oa_ClientID oauth2ClientIDVariablePrefix (Some o2) ref d1 = Ret (Inr d2)"
    "makeOAuth2EnvVar get oa_ClientSecret oauth2ClientSecretVariablePrefix (Some o2) ref d2 = Ret (Inr ev)"
    by (auto simp: OAuth2Extension_build_def makeOAuth2ExtensionEnvVars_def grbind_eq_Inr)
  from this [THEN step] show ?thesis by (auto intro: same_endpoints_trans)
qed

section \<open>The outputs of a configuration\<close>

text \<open>The pipelines of the three kinds: reference, output, size of the queue, ID of the service pipeline.\<close>

definition gateway_outputs :: "BuildOptions \<Rightarrow> (PipelineRef \<times> OTLPOutput \<times> int \<times> string) set" where
  "gateway_outputs opts =
     {(TracePipelineRef tp, out, queueSizeFor (bo_TracePipelines opts), formatTraceServicePipelineID tp) | tp out.
        tp \<in> set (bo_TracePipelines opts) \<and> tps_Output (tp_Spec tp) = Some out} \<union>
     {(LogPipelineRef lp, out, queueSizeFor (bo_LogPipelines opts), formatLogServicePipelineID lp) | lp out.
        lp \<in> set (bo_LogPipelines opts) \<and> lo_OTLP (ls_Output (lp_Spec lp)) = Some out} \<union>
     {(MetricPipelineRef mp, mo_OTLPOutput out, queueSizeFor (bo_MetricPipelines opts),
         formatMetricOutputServicePipelineID mp) | mp out.
        mp \<in> set (bo_MetricPipelines opts) \<and> ms_Output (mp_Spec mp) = Some out}"

lemma gateway_outputsI:
  "tp \<in> set (bo_TracePipelines opts) \<Longrightarrow> tps_Output (tp_Spec tp) = Some out \<Longrightarrow>
     (TracePipelineRef tp, out, queueSizeFor (bo_TracePipelines opts), formatTraceServicePipelineID tp) \<in> gateway_outputs opts"
  "lp \<in> set (bo_LogPipelines opts) \<Longrightarrow> lo_OTLP (ls_Output (lp_Spec lp)) = Some out \<Longrightarrow>
     (LogPipelineRef lp, out, queueSizeFor (bo_LogPipelines opts), formatLogServicePipelineID lp) \<in> gateway_outputs opts"
  "mp \<in> set (bo_MetricPipelines opts) \<Longrightarrow> ms_Output (mp_Spec mp) = Some mout \<Longrightarrow>
     (MetricPipelineRef mp, mo_OTLPOutput mout, queueSizeFor (bo_MetricPipelines opts),
      formatMetricOutputServicePipelineID mp) \<in> gateway_outputs opts"
  unfolding gateway_outputs_def by blast+

text \<open>The block of a pipeline: the only exporter is the one that is built from its output.\<close>

definition pipeline_block ::
    "net_url \<Rightarrow> secret_reader \<Rightarrow> OTLPOutput \<Rightarrow> PipelineRef \<Rightarrow> int \<Rightarrow> string \<Rightarrow> block \<Rightarrow> bool" where
  "pipeline_block nu get out ref q pid bl \<longleftrightarrow> (\<exists>exts ks c ev.
     bl = (pid, exts, ks) \<and> oauth_exts get out ref exts \<and>
     OTLPExporter_build nu get out ref (NewSendingQueue q []) = Ret (Inr (Some c, ev)) \<and>
     listed exporterOf ks = [(ComponentIDOTLPExporter (oo_Protocol out) ref, c)] \<and>
     Exp (ComponentIDOTLPExporter (oo_Protocol out) ref) c ev \<in> set ks \<and>
     (\<forall>k\<in>set ks. envVarsOf k = Map.empty \<or> k = Exp (ComponentIDOTLPExporter (oo_Protocol out) ref) c ev))"

lemma plan_exporter:
  "listed exporterOf (traceKs opts tp i c ev) = [(i, c)]" "Exp i c ev \<in> set (traceKs opts tp i c ev)"
  "k \<in> set (traceKs opts tp i c ev) \<Longrightarrow> envVarsOf k = Map.empty \<or> k = Exp i c ev"
  "listed exporterOf (logKs opts lp i c ev) = [(i, c)]" "Exp i c ev \<in> set (logKs opts lp i c ev)"
  "k \<in> set (logKs opts lp i c ev) \<Longrightarrow> envVarsOf k = Map.empty \<or> k = Exp i c ev"
  "listed exporterOf (metricKs mp d i c ev) = [(i, c)]" "Exp i c ev \<in> set (metricKs mp d i c ev)"
  "k \<in> set (metricKs mp d i c ev) \<Longrightarrow> envVarsOf k = Map.empty \<or> k = Exp i c ev"
  by (auto simp: traceKs_def logKs_def metricKs_def)

lemma pipeline_blockI:
  assumes "oauth_exts get out ref exts"
    and "OTLPExporter_build nu get out ref (NewSendingQueue q []) = Ret (Inr (Some c, ev))"
    and "listed exporterOf ks = [(ComponentIDOTLPExporter (oo_Protocol out) ref, c)]"
    and "Exp (ComponentIDOTLPExporter (oo_Protocol out) ref) c ev \<in> set ks"
    and "\<And>k. k \<in> set ks \<Longrightarrow> envVarsOf k = Map.empty \<or> k = Exp (ComponentIDOTLPExporter (oo_Protocol out) ref) c ev"
  shows "pipeline_block nu get out ref q pid (pid, exts, ks)"
  unfolding pipeline_block_def using assms by (intro exI conjI ballI) (rule refl | assumption)+

lemma pipeline_block_of:
  "trace_block nu get opts q tp bl \<Longrightarrow>
     \<exists>out. tps_Output (tp_Spec tp) = Some out \<and>
       pipeline_block nu get out (TracePipelineRef tp) q (formatTraceServicePipelineID tp) bl"
  "log_block nu get opts q lp bl \<Longrightarrow>
     \<exists>out. lo_OTLP (ls_Output (lp_Spec lp)) = Some out \<and>
       pipeline_block nu get out (LogPipelineRef lp) q (formatLogServicePipelineID lp) bl"
  "metric_block nu get q mp bl \<Longrightarrow>
     \<exists>out. ms_Output (mp_Spec mp) = Some out \<and>
       pipeline_block nu get (mo_OTLPOutput out) (MetricPipelineRef mp) q (formatMetricOutputServicePipelineID mp) bl"
proof -
  assume "trace_block nu get opts q tp bl"
  then obtain out c ev exts where out: "tps_Output (tp_Spec tp) = Some out" and exts: "oauth_exts get out (TracePipelineRef tp) exts"
    and c: "OTLPExporter_build nu get out (TracePipelineRef tp) (NewSendingQueue q []) = Ret (Inr (Some c, ev))"
    and bl: "bl = (formatTraceServicePipelineID tp, exts, traceKs opts tp (ComponentIDOTLPExporter (oo_Protocol out) (TracePipelineRef tp)) c ev)"
    unfolding trace_block_def by (elim exE conjE)
  from pipeline_blockI [OF exts c] plan_exporter(1-3)
  have "pipeline_block nu get out (TracePipelineRef tp) q (formatTraceServicePipelineID tp) bl" unfolding bl by blast
  with out show "\<exists>out. tps_Output (tp_Spec tp) = Some out \<and>
       pipeline_block nu get out (TracePipelineRef tp) q (formatTraceServicePipelineID tp) bl" by blast
next
  assume "log_block nu get opts q lp bl"
  then obtain out c ev exts where out: "lo_OTLP (ls_Output (lp_Spec lp)) = Some out" and exts: "oauth_exts get out (LogPipelineRef lp) exts"
    and c: "OTLPExporter_build nu get out (LogPipelineRef lp) (NewSendingQueue q []) = Ret (Inr (Some c, ev))"
    and bl: "bl = (formatLogServicePipelineID lp, exts, logKs opts lp (ComponentIDOTLPExporter (oo_Protocol out) (LogPipelineRef lp)) c ev)"
    unfolding log_block_def by (elim exE conjE)
  from pipeline_blockI [OF exts c] plan_exporter(4-6)
  have "pipeline_block nu get out (LogPipelineRef lp) q (formatLogServicePipelineID lp) bl" unfolding bl by blast
  with out show "\<exists>out. lo_OTLP (ls_Output (lp_Spec lp)) = Some out \<and>
       pipeline_block nu get out (LogPipelineRef lp) q (formatLogServicePipelineID lp) bl" by blast
next
  assume "metric_block nu get q mp bl"
  then obtain out t c ev exts where out: "ms_Output (mp_Spec mp) = Some out" and exts: "oauth_exts get (mo_OTLPOutput out) (MetricPipelineRef mp) exts"
    and c: "OTLPExporter_build nu get (mo_OTLPOutput out) (MetricPipelineRef mp) (NewSendingQueue q []) = Ret (Inr (Some c, ev))"
    and bl: "bl = (formatMetricOutputServicePipelineID mp, exts, metricKs mp (t = TemporalityDelta) (ComponentIDOTLPExporter (oo_Protocol (mo_OTLPOutput out)) (MetricPipelineRef mp)) c ev)"
    unfolding metric_block_def by (elim exE conjE)
  from pipeline_blockI [OF exts c] plan_exporter(7-9)
  have "pipeline_block nu get (mo_OTLPOutput out) (MetricPipelineRef mp) q (formatMetricOutputServicePipelineID mp) bl" unfolding bl by blast
  with out show "\<exists>out. ms_Output (mp_Spec mp) = Some out \<and>
       pipeline_block nu get (mo_OTLPOutput out) (MetricPipelineRef mp) q (formatMetricOutputServicePipelineID mp) bl" by blast
qed

lemma gateway_output_block:
  assumes "gateway_blocks nu get opts bls" and "(ref, out, q, pid) \<in> gateway_outputs opts"
  shows "\<exists>bl\<in>set bls. pipeline_block nu get out ref q pid bl"
proof -
  from assms(2) consider tp where "tp \<in> set (bo_TracePipelines opts)" "tps_Output (tp_Spec tp) = Some out"
      "ref = TracePipelineRef tp" "q = queueSizeFor (bo_TracePipelines opts)" "pid = formatTraceServicePipelineID tp"
    | lp where "lp \<in> set (bo_LogPipelines opts)" "lo_OTLP (ls_Output (lp_Spec lp)) = Some out"
      "ref = LogPipelineRef lp" "q = queueSizeFor (bo_LogPipelines opts)" "pid = formatLogServicePipelineID lp"
    | mp o' where "mp \<in> set (bo_MetricPipelines opts)" "ms_Output (mp_Spec mp) = Some o'" "out = mo_OTLPOutput o'"
      "ref = MetricPipelineRef mp" "q = queueSizeFor (bo_MetricPipelines opts)" "pid = formatMetricOutputServicePipelineID mp"
    unfolding gateway_outputs_def by blast
  then show ?thesis
  proof cases
    case 1
    from gateway_block_of(1) [OF assms(1) 1(1)] obtain bl where bl: "bl \<in> set bls"
      "trace_block nu get opts (queueSizeFor (bo_TracePipelines opts)) tp bl" by (elim bexE)
    from pipeline_block_of(1) [OF bl(2)] 1(2-) have "pipeline_block nu get out ref q pid bl" by auto
    with bl(1) show ?thesis by (rule bexI [rotated])
  next
    case 2
    from gateway_block_of(2) [OF assms(1) 2(1)] obtain bl where bl: "bl \<in> set bls"
      "log_block nu get opts (queueSizeFor (bo_LogPipelines opts)) lp bl" by (elim bexE)
    from pipeline_block_of(2) [OF bl(2)] 2(2-) have "pipeline_block nu get out ref q pid bl" by auto
    with bl(1) show ?thesis by (rule bexI [rotated])
  next
    case 3
    from gateway_block_of(3) [OF assms(1) 3(1)] obtain bl where bl: "bl \<in> set bls"
      "metric_block nu get (queueSizeFor (bo_MetricPipelines opts)) mp bl" by (elim bexE)
    from pipeline_block_of(3) [OF bl(2)] 3(2-) have "pipeline_block nu get out ref q pid bl" by auto
    with bl(1) show ?thesis by (rule bexI [rotated])
  qed
qed

lemma gateway_block_kinds:
  assumes "gateway_blocks nu get opts bls" and "bl \<in> set bls"
  obtains (shared) "bl \<in> set (metricSharedBlocks opts)"
    | (own) ref out q pid where "(ref, out, q, pid) \<in> gateway_outputs opts" "pipeline_block nu get out ref q pid bl"
proof (cases rule: gateway_block_cases [OF assms])
  case (1 tp)
  from pipeline_block_of(1) [OF 1(2)] obtain out where "tps_Output (tp_Spec tp) = Some out"
    and blk: "pipeline_block nu get out (TracePipelineRef tp) (queueSizeFor (bo_TracePipelines opts)) (formatTraceServicePipelineID tp) bl"
    by (elim exE conjE)
  then have "(TracePipelineRef tp, out, queueSizeFor (bo_TracePipelines opts), formatTraceServicePipelineID tp) \<in> gateway_outputs opts"
    using 1(1) by (intro gateway_outputsI)
  from own [OF this blk] show thesis .
next
  case (2 lp)
  from pipeline_block_of(2) [OF 2(2)] obtain out where "lo_OTLP (ls_Output (lp_Spec lp)) = Some out"
    and blk: "pipeline_block nu get out (LogPipelineRef lp) (queueSizeFor (bo_LogPipelines opts)) (formatLogServicePipelineID lp) bl"
    by (elim exE conjE)
  then have "(LogPipelineRef lp, out, queueSizeFor (bo_LogPipelines opts), formatLogServicePipelineID lp) \<in> gateway_outputs opts"
    using 2(1) by (intro gateway_outputsI)
  from own [OF this blk] show thesis .
next
  case 3
  with shared show thesis by blast
next
  case (4 mp)
  from pipeline_block_of(3) [OF 4(2)] obtain out where "ms_Output (mp_Spec mp) = Some out"
    and blk: "pipeline_block nu get (mo_OTLPOutput out) (MetricPipelineRef mp) (queueSizeFor (bo_MetricPipelines opts)) (formatMetricOutputServicePipelineID mp) bl"
    by (elim exE conjE)
  then have "(MetricPipelineRef mp, mo_OTLPOutput out, queueSizeFor (bo_MetricPipelines opts), formatMetricOutputServicePipelineID mp) \<in> gateway_outputs opts"
    using 4(1) by (intro gateway_outputsI)
  from own [OF this blk] show thesis .
qed

section \<open>Exporters and addresses are separate\<close>

text \<open>Names that differ after they have been turned into names of variables.\<close>

definition distinct_env_names :: "BuildOptions \<Rightarrow> bool" where
  "distinct_env_names opts \<longleftrightarrow>
     distinct (map (\<lambda>p. sanitizeEnvVarName (om_Name (tp_ObjectMeta p))) (bo_TracePipelines opts)) \<and>
     distinct (map (\<lambda>p. sanitizeEnvVarName (om_Name (lp_ObjectMeta p))) (bo_LogPipelines opts)) \<and>
     distinct (map (\<lambda>p. sanitizeEnvVarName (om_Name (mp_ObjectMeta p))) (bo_MetricPipelines opts))"

lemma distinct_map_by: "distinct (map (\<lambda>x. f (g x)) xs) \<Longrightarrow> distinct (map g xs)"
  by (induction xs) auto

lemma distinct_env_names_names: "distinct_env_names opts \<Longrightarrow> distinct_names_of opts"
  unfolding distinct_env_names_def distinct_names_of_def by (blast intro: distinct_map_by)

lemma distinct_map_inj: "distinct (map f xs) \<Longrightarrow> x \<in> set xs \<Longrightarrow> y \<in> set xs \<Longrightarrow> f x = f y \<Longrightarrow> x = y"
  by (metis distinct_map inj_onD)

lemma output_cases:
  assumes "(ref, out, q, pid) \<in> gateway_outputs opts"
  obtains (trace) tp where "tp \<in> set (bo_TracePipelines opts)" "tps_Output (tp_Spec tp) = Some out"
      "ref = TracePipelineRef tp" "q = queueSizeFor (bo_TracePipelines opts)" "pid = formatTraceServicePipelineID tp"
    | (log) lp where "lp \<in> set (bo_LogPipelines opts)" "lo_OTLP (ls_Output (lp_Spec lp)) = Some out"
      "ref = LogPipelineRef lp" "q = queueSizeFor (bo_LogPipelines opts)" "pid = formatLogServicePipelineID lp"
    | (metric) mp o' where "mp \<in> set (bo_MetricPipelines opts)" "ms_Output (mp_Spec mp) = Some o'" "out = mo_OTLPOutput o'"
      "ref = MetricPipelineRef mp" "q = queueSizeFor (bo_MetricPipelines opts)" "pid = formatMetricOutputServicePipelineID mp"
  using assms unfolding gateway_outputs_def by blast

lemma ref_simps [simp]:
  "TracePipelineRef tp = TracePipelineRef tp' \<longleftrightarrow> om_Name (tp_ObjectMeta tp) = om_Name (tp_ObjectMeta tp')"
  "LogPipelineRef lp = LogPipelineRef lp' \<longleftrightarrow> om_Name (lp_ObjectMeta lp) = om_Name (lp_ObjectMeta lp')"
  "MetricPipelineRef mp = MetricPipelineRef mp' \<longleftrightarrow> om_Name (mp_ObjectMeta mp) = om_Name (mp_ObjectMeta mp')"
  by (simp_all add: TracePipelineRef_def LogPipelineRef_def MetricPipelineRef_def)

lemma endpointKey_simps:
  "endpointKey (TracePipelineRef tp) = ''OTLP_ENDPOINT_TRACEPIPELINE_'' @ sanitizeEnvVarName (om_Name (tp_ObjectMeta tp))"
  "endpointKey (LogPipelineRef lp) = ''OTLP_ENDPOINT_LOGPIPELINE_'' @ sanitizeEnvVarName (om_Name (lp_ObjectMeta lp))"
  "endpointKey (MetricPipelineRef mp) = ''OTLP_ENDPOINT_METRICPIPELINE_'' @ sanitizeEnvVarName (om_Name (mp_ObjectMeta mp))"
proof -
  have "sanitizeEnvVarName ''tracepipeline'' = ''TRACEPIPELINE''" "sanitizeEnvVarName ''logpipeline'' = ''LOGPIPELINE''"
    "sanitizeEnvVarName ''metricpipeline'' = ''METRICPIPELINE''" by code_simp+
  then show
    "endpointKey (TracePipelineRef tp) = ''OTLP_ENDPOINT_TRACEPIPELINE_'' @ sanitizeEnvVarName (om_Name (tp_ObjectMeta tp))"
    "endpointKey (LogPipelineRef lp) = ''OTLP_ENDPOINT_LOGPIPELINE_'' @ sanitizeEnvVarName (om_Name (lp_ObjectMeta lp))"
    "endpointKey (MetricPipelineRef mp) = ''OTLP_ENDPOINT_METRICPIPELINE_'' @ sanitizeEnvVarName (om_Name (mp_ObjectMeta mp))"
    by (simp_all add: formatEnvVarKey_def TypePrefix_def TracePipelineRef_def LogPipelineRef_def MetricPipelineRef_def SignalTypeTrace_def SignalTypeLog_def SignalTypeMetric_def)
qed

lemma exporterID_simps:
  "ComponentIDOTLPExporter p (TracePipelineRef tp) =
     (if p = OTLPProtocolHTTP then ''otlp_http/'' else ''otlp_grpc/'') @ ''tracepipeline-'' @ om_Name (tp_ObjectMeta tp)"
  "ComponentIDOTLPExporter p (LogPipelineRef lp) =
     (if p = OTLPProtocolHTTP then ''otlp_http/'' else ''otlp_grpc/'') @ ''logpipeline-'' @ om_Name (lp_ObjectMeta lp)"
  "ComponentIDOTLPExporter p (MetricPipelineRef mp) =
     (if p = OTLPProtocolHTTP then ''otlp_http/'' else ''otlp_grpc/'') @ ''metricpipeline-'' @ om_Name (mp_ObjectMeta mp)"
  by (simp_all add: ComponentIDOTLPExporter_def QualifiedName_def TypePrefix_def TracePipelineRef_def
      LogPipelineRef_def MetricPipelineRef_def SignalTypeTrace_def SignalTypeLog_def SignalTypeMetric_def)

lemma endpointKey_inj:
  assumes "distinct_env_names opts" and "(ref, out, q, pid) \<in> gateway_outputs opts" "(ref', out', q', pid') \<in> gateway_outputs opts"
    and "endpointKey ref = endpointKey ref'"
  shows "(ref, out, q, pid) = (ref', out', q', pid')"
  using assms(2)
proof (cases rule: output_cases)
  case (trace tp)
  from assms(3) show ?thesis
  proof (cases rule: output_cases)
    case t: (trace tp')
    from assms(1,4) trace(1,3) t(1,3) have "tp = tp'"
      unfolding distinct_env_names_def by (auto simp: endpointKey_simps intro: distinct_map_inj)
    with trace t show ?thesis by simp
  qed (use assms(4) trace in \<open>simp_all add: endpointKey_simps\<close>)
next
  case (log lp)
  from assms(3) show ?thesis
  proof (cases rule: output_cases)
    case l: (log lp')
    from assms(1,4) log(1,3) l(1,3) have "lp = lp'"
      unfolding distinct_env_names_def by (auto simp: endpointKey_simps intro: distinct_map_inj)
    with log l show ?thesis by simp
  qed (use assms(4) log in \<open>simp_all add: endpointKey_simps\<close>)
next
  case (metric mp om)
  from assms(3) show ?thesis
  proof (cases rule: output_cases)
    case m: (metric mp' om')
    from assms(1,4) metric(1,4) m(1,4) have "mp = mp'"
      unfolding distinct_env_names_def by (auto simp: endpointKey_simps intro: distinct_map_inj)
    with metric m show ?thesis by simp
  qed (use assms(4) metric in \<open>simp_all add: endpointKey_simps\<close>)
qed

lemma exporterID_inj:
  assumes "distinct_names_of opts" and "(ref, out, q, pid) \<in> gateway_outputs opts" "(ref', out', q', pid') \<in> gateway_outputs opts"
    and "ComponentIDOTLPExporter p ref = ComponentIDOTLPExporter p' ref'"
  shows "(ref, out, q, pid) = (ref', out', q', pid')"
  using assms(2)
proof (cases rule: output_cases)
  case (trace tp)
  from assms(3) show ?thesis
  proof (cases rule: output_cases)
    case t: (trace tp')
    from assms(1,4) trace(1,3) t(1,3) have "tp = tp'"
      unfolding distinct_names_of_def by (auto simp: exporterID_simps intro: distinct_map_inj split: if_splits)
    with trace t show ?thesis by simp
  qed (use assms(4) trace in \<open>simp_all add: exporterID_simps split: if_splits\<close>)
next
  case (log lp)
  from assms(3) show ?thesis
  proof (cases rule: output_cases)
    case l: (log lp')
    from assms(1,4) log(1,3) l(1,3) have "lp = lp'"
      unfolding distinct_names_of_def by (auto simp: exporterID_simps intro: distinct_map_inj split: if_splits)
    with log l show ?thesis by simp
  qed (use assms(4) log in \<open>simp_all add: exporterID_simps split: if_splits\<close>)
next
  case (metric mp om)
  from assms(3) show ?thesis
  proof (cases rule: output_cases)
    case m: (metric mp' om')
    from assms(1,4) metric(1,4) m(1,4) have "mp = mp'"
      unfolding distinct_names_of_def by (auto simp: exporterID_simps intro: distinct_map_inj split: if_splits)
    with metric m show ?thesis by simp
  qed (use assms(4) metric in \<open>simp_all add: exporterID_simps split: if_splits\<close>)
qed

lemma map_of_unique: "(k, v) \<in> set xs \<Longrightarrow> (\<And>v'. (k, v') \<in> set xs \<Longrightarrow> v' = v) \<Longrightarrow> map_of xs k = Some v"
  by (metis domIff dom_map_of_conv_image_fst fst_conv imageI map_of_SomeD not_None_eq)

lemma listed_in_contributions:
  "(pid, exts, ks) \<in> set bls \<Longrightarrow> x \<in> set (listed f ks) \<Longrightarrow> x \<in> set (listed f (block_contributions bls))"
  by (force simp: listed_def block_contributions_def)

lemma shared_contribution:
  assumes "(pid, exts, ks) \<in> set (metricSharedBlocks opts)" and "k \<in> set exts \<union> set ks"
  shows "envVarsOf k = Map.empty" "p \<in> set (exporterOf k) \<Longrightarrow> isConnector (fst p)"
  using assms by (auto simp: metricSharedBlocks_def metricInputKs_def metricEnrichmentKs_def)

lemma blocks_planD:
  "s \<in> set (blocks_plan bls) \<Longrightarrow>
     \<exists>pid exts ks. (pid, exts, ks) \<in> set bls \<and> (snd s = Start \<or> snd s \<in> set exts \<union> set ks)"
  by (force simp: blocks_plan_def block_plan_def)

lemma blocks_planI: "(pid, exts, ks) \<in> set bls \<Longrightarrow> k \<in> set ks \<Longrightarrow> (pid, k) \<in> set (blocks_plan bls)"
  by (force simp: blocks_plan_def block_plan_def)

lemma output_exporter:
  assumes bls: "gateway_blocks nu get opts bls" and names: "distinct_names_of opts"
    and out: "(ref, out, q, pid) \<in> gateway_outputs opts"
    and c: "c = bd_Config (execute (blocks_plan bls) newBuilder)"
  shows "\<exists>sp ev. sc_Pipelines (cfg_Service c) pid = Some sp \<and>
    sp_Exporters sp = [ComponentIDOTLPExporter (oo_Protocol out) ref] \<and>
    cfg_Exporters c (ComponentIDOTLPExporter (oo_Protocol out) ref) =
      Some (OTLPExporter (otlpExporter out ref ev (NewSendingQueue q [])))"
proof -
  let ?i = "ComponentIDOTLPExporter (oo_Protocol out) ref"
  from gateway_output_block [OF bls out] obtain exts ks x ev where bl: "(pid, exts, ks) \<in> set bls"
    and build: "OTLPExporter_build nu get out ref (NewSendingQueue q []) = Ret (Inr (Some x, ev))"
    and ks: "listed exporterOf ks = [(?i, x)]"
    unfolding pipeline_block_def by blast
  have pipe: "sc_Pipelines (cfg_Service c) pid = Some (sp_of ks)"
    unfolding c by (rule pipelines_distinct_blocks [OF gateway_proper [OF bls] gateway_pids_distinct [OF bls names] bl])
  have conn: "\<not> isConnector ?i" by simp
  have uniq: "x' = x" if listed: "(?i, x') \<in> set (listed exporterOf (block_contributions bls))" for x'
  proof -
    from listed_in_blocks [OF listed] obtain pid' exts' ks' k where
      k: "(pid', exts', ks') \<in> set bls" "k \<in> set exts' \<union> set ks'" "(?i, x') \<in> set (exporterOf k)" by blast
    show ?thesis
    proof (cases rule: gateway_block_kinds [OF bls k(1)])
      case 1
      from shared_contribution(2) [OF 1 k(2,3)] conn show ?thesis by simp
    next
      case (2 ref' out' q' p')
      from 2(2) obtain c' where exts': "oauth_exts get out' ref' exts'"
        and build': "\<exists>ev'. OTLPExporter_build nu get out' ref' (NewSendingQueue q' []) = Ret (Inr (Some c', ev'))"
        and ks': "listed exporterOf ks' = [(ComponentIDOTLPExporter (oo_Protocol out') ref', c')]"
        unfolding pipeline_block_def by blast
      have "k \<notin> set exts'" using k(3) oauth_exts_proper [OF exts', of k] by (cases k) auto
      with k(2,3) have "(?i, x') \<in> set (listed exporterOf ks')" by (auto simp: listed_def)
      with ks' have x': "?i = ComponentIDOTLPExporter (oo_Protocol out') ref'" "x' = c'" by auto
      from exporterID_inj [OF names out 2(1) x'(1)] build build' x'(2) show ?thesis by auto
    qed
  qed
  have "(?i, x) \<in> set (listed exporterOf (block_contributions bls))"
    by (rule listed_in_contributions [OF bl]) (simp add: ks)
  with conn have mem: "(?i, x) \<in> set (rev (filter (\<lambda>(i, c). \<not> isConnector i) (listed exporterOf (block_contributions bls))))"
    by simp
  have "map_of (rev (filter (\<lambda>(i, c). \<not> isConnector i) (listed exporterOf (block_contributions bls)))) ?i = Some x"
    by (rule map_of_unique [OF mem], rule uniq) simp
  then have "cfg_Exporters c ?i = Some x"
    unfolding c exporters_execute by (simp add: listed_blocks)
  moreover have "sp_Exporters (sp_of ks) = [?i]" by (simp add: sp_of_def ks)
  moreover from exporter_env [OF build] have "x = OTLPExporter (otlpExporter out ref ev (NewSendingQueue q []))" by blast
  ultimately show ?thesis using pipe by blast
qed

lemma foldl_map_add_unique:
  assumes "\<exists>m\<in>set ms. m v = Some e" and "\<forall>m\<in>set ms. m v = None \<or> m v = Some e"
  shows "foldl (++) m0 ms v = Some e"
proof -
  have keep: "foldl (++) m0 ms v = Some e" if "m0 v = Some e" "\<forall>m\<in>set ms. m v = None \<or> m v = Some e" for m0 ms
    using that by (induction ms arbitrary: m0) (auto simp: map_add_def)
  from assms(1) obtain as m bs where ms: "ms = as @ m # bs" "m v = Some e" by (metis split_list)
  then show ?thesis using keep [of "foldl (++) m0 as ++ m" bs] assms(2) by (simp add: map_add_def)
qed

lemma output_env:
  assumes bls: "gateway_blocks nu get opts bls" and names: "distinct_env_names opts"
    and out: "(ref, out, q, pid) \<in> gateway_outputs opts"
  shows "\<exists>e. resolveEndpointURL nu get out = Ret (Inr e) \<and>
    bd_EnvVars (execute (blocks_plan bls) newBuilder) (endpointKey ref) = Some e"
proof -
  from gateway_output_block [OF bls out] obtain exts ks x ev where bl: "(pid, exts, ks) \<in> set bls"
    and build: "OTLPExporter_build nu get out ref (NewSendingQueue q []) = Ret (Inr (Some x, ev))"
    and ks: "Exp (ComponentIDOTLPExporter (oo_Protocol out) ref) x ev \<in> set ks"
    unfolding pipeline_block_def by blast
  from exporter_env [OF build] obtain e where e: "resolveEndpointURL nu get out = Ret (Inr e)"
    and ev: "ev (endpointKey ref) = Some e" by auto
  have uniq: "envVarsOf k (endpointKey ref) = None \<or> envVarsOf k (endpointKey ref) = Some e"
    if k: "(pid', exts', ks') \<in> set bls" "k \<in> set exts' \<union> set ks'" for pid' exts' ks' k
  proof (cases rule: gateway_block_kinds [OF bls k(1)])
    case 1
    from shared_contribution(1) [OF 1 k(2)] show ?thesis by simp
  next
    case (2 ref' out' q' p')
    from 2(2) obtain c' ev' where exts': "oauth_exts get out' ref' exts'"
      and build': "OTLPExporter_build nu get out' ref' (NewSendingQueue q' []) = Ret (Inr (Some c', ev'))"
      and ks': "\<forall>k\<in>set ks'. envVarsOf k = Map.empty \<or> k = Exp (ComponentIDOTLPExporter (oo_Protocol out') ref') c' ev'"
      unfolding pipeline_block_def by blast
    show ?thesis
    proof (cases "k \<in> set exts'")
      case True
      with exts' obtain o2 evx where "OAuth2Extension_build get o2 ref' = Ret (Inr (oauth2Extension o2 ref', evx))"
        "envVarsOf k = evx" by (auto simp: oauth_exts_def split: option.splits)
      with extension_env [OF this(1)] show ?thesis by (simp add: same_endpoints_def)
    next
      case False
      with k(2) ks' consider "envVarsOf k = Map.empty" | "envVarsOf k = ev'" by auto
      then show ?thesis
      proof cases
        case 2
        note kev = this
        from exporter_env [OF build'] obtain e' where e': "resolveEndpointURL nu get out' = Ret (Inr e')"
          and ev': "\<forall>x. take 6 x = ''OTLP_E'' \<longrightarrow> ev' x = (if x = endpointKey ref' then Some e' else None)" by blast
        show ?thesis
        proof (cases "endpointKey ref = endpointKey ref'")
          case True
          from endpointKey_inj [OF names out \<open>(ref', out', q', p') \<in> gateway_outputs opts\<close> True] e e' ev' kev
          show ?thesis by auto
        next
          case False
          with ev' kev show ?thesis by auto
        qed
      qed simp
    qed
  qed
  have "bd_EnvVars (execute (blocks_plan bls) newBuilder) (endpointKey ref) = Some e"
    unfolding envVars_execute
  proof (rule foldl_map_add_unique)
    show "\<exists>m\<in>set (map (\<lambda>s. envVarsOf (snd s)) (blocks_plan bls)). m (endpointKey ref) = Some e"
      using blocks_planI [OF bl ks] ev by (intro bexI [of _ ev]) (auto simp: image_iff intro: bexI [rotated])
    show "\<forall>m\<in>set (map (\<lambda>s. envVarsOf (snd s)) (blocks_plan bls)).
        m (endpointKey ref) = None \<or> m (endpointKey ref) = Some e"
    proof
      fix m assume "m \<in> set (map (\<lambda>s. envVarsOf (snd s)) (blocks_plan bls))"
      then obtain s where s: "s \<in> set (blocks_plan bls)" "m = envVarsOf (snd s)" by auto
      from blocks_planD [OF s(1)] consider "snd s = Start"
        | pid' exts' ks' where "(pid', exts', ks') \<in> set bls" "snd s \<in> set exts' \<union> set ks'" by blast
      then show "m (endpointKey ref) = None \<or> m (endpointKey ref) = Some e"
        unfolding s(2) by cases (simp, rule uniq)
    qed
  qed
  with e show ?thesis by blast
qed

section \<open>Properties\<close>

text \<open>A service pipeline has one exporter, and the variable that the exporter takes its endpoint from holds \<open>e\<close>.\<close>

definition sends_to :: "Config \<Rightarrow> EnvVars \<Rightarrow> string \<Rightarrow> string \<Rightarrow> bool" where
  "sends_to c ev pid e \<longleftrightarrow> (\<exists>sp i x v.
     sc_Pipelines (cfg_Service c) pid = Some sp \<and> sp_Exporters sp = [i] \<and> cfg_Exporters c i = Some (OTLPExporter x) \<and>
     {oe_MetricsEndpoint x, oe_TracesEndpoint x, oe_LogsEndpoint x, oe_Endpoint x} - {[]} = {envRef v} \<and> ev v = Some e)"

lemma otlpExporter_endpoints:
  "{oe_MetricsEndpoint (otlpExporter out ref ev q), oe_TracesEndpoint (otlpExporter out ref ev q),
    oe_LogsEndpoint (otlpExporter out ref ev q), oe_Endpoint (otlpExporter out ref ev q)} - {[]} = {envRef (endpointKey ref)}"
  by (auto simp: otlpExporter_def Let_def envRef_def)

lemma sends_toI:
  assumes "gateway_blocks nu get opts bls" and "distinct_names_of opts" and "(ref, out, q, pid) \<in> gateway_outputs opts"
    and "ev (endpointKey ref) = Some e"
  shows "sends_to (bd_Config (execute (blocks_plan bls) newBuilder)) ev pid e"
proof -
  from output_exporter [OF assms(1-3) refl] obtain sp ev' where
    "sc_Pipelines (cfg_Service (bd_Config (execute (blocks_plan bls) newBuilder))) pid = Some sp"
    "sp_Exporters sp = [ComponentIDOTLPExporter (oo_Protocol out) ref]"
    "cfg_Exporters (bd_Config (execute (blocks_plan bls) newBuilder)) (ComponentIDOTLPExporter (oo_Protocol out) ref) =
      Some (OTLPExporter (otlpExporter out ref ev' (NewSendingQueue q [])))" by (elim exE conjE)
  with assms(4) show ?thesis unfolding sends_to_def using otlpExporter_endpoints by blast
qed

lemma gateway_outputs_sorted [simp]: "gateway_outputs (sortPipelinesByName opts) = gateway_outputs opts"
  by (simp add: gateway_outputs_def sortPipelinesByName_def)

lemma distinct_env_names_sorted: "distinct_env_names (sortPipelinesByName opts) \<longleftrightarrow> distinct_env_names opts"
  by (simp add: distinct_env_names_def sortPipelinesByName_def distinct_map_sort_key)

text \<open>C16: Every pipeline sends its data to the backend of its own output: its service pipeline in the gateway has
  exactly one exporter, and the variable that the exporter takes its endpoint from holds the endpoint (with the
  path) that the output of this pipeline resolves to.  This holds as long as the names of the pipelines of a kind
  stay different when dots and hyphens are replaced by underscores.\<close>

theorem gateway_sends_to_own_backend:
  assumes "Build nu get opts = Ret (Inr (c, ev))" and "distinct_env_names opts"
    and "(ref, out, q, pid) \<in> gateway_outputs opts"
  shows "\<exists>e. resolveEndpointURL nu get out = Ret (Inr e) \<and> sends_to c ev pid e"
proof -
  from Build_blocks [OF assms(1)] obtain bls where bls: "gateway_blocks nu get (sortPipelinesByName opts) bls"
    and c: "c = bd_Config (execute (blocks_plan bls) newBuilder)" "ev = bd_EnvVars (execute (blocks_plan bls) newBuilder)"
    by blast
  have env: "distinct_env_names (sortPipelinesByName opts)" using assms(2) by (simp add: distinct_env_names_sorted)
  have out: "(ref, out, q, pid) \<in> gateway_outputs (sortPipelinesByName opts)" using assms(3) by simp
  from output_env [OF bls env out] obtain e where e: "resolveEndpointURL nu get out = Ret (Inr e)"
    "ev (endpointKey ref) = Some e" unfolding c by blast
  with sends_toI [where ev = ev, OF bls distinct_env_names_names [OF env] out e(2)] show ?thesis unfolding c by blast
qed

lemma sample_env_names: "distinct_env_names sampleOptions"
  by (simp add: distinct_env_names_def sample_defs)

lemma sample_trace_output:
  "(TracePipelineRef sampleTrace, tlsOutput, 256, ''traces/spans'') \<in> gateway_outputs sampleOptions"
  by (simp add: gateway_outputs_def sampleOptions_def sampleTrace_def formatTraceServicePipelineID_def TracePipelineRef_def)

theorem gateway_sends_to_own_backend_witness:
  "\<exists>c ev. Build sampleNet noSecrets sampleOptions = Ret (Inr (c, ev)) \<and>
     sends_to c ev ''traces/spans'' ''https://backend:4317''"
proof -
  from Build_complete [OF sample_renderable] obtain c ev
    where build: "Build sampleNet noSecrets sampleOptions = Ret (Inr (c, ev))" by blast
  have "resolveEndpointURL sampleNet noSecrets tlsOutput = Ret (Inr ''https://backend:4317'')"
    by (simp add: resolveEndpointURL_def tlsOutput_def plainOTLPOutput_def plainValue_def ResolveValue_def)
  with gateway_sends_to_own_backend [OF build sample_env_names sample_trace_output] build show ?thesis by auto
qed

text \<open>C35: The names of the variables do not keep the pipelines apart: two pipelines of a kind whose names only
  differ in dots and hyphens (such as \<open>a.b\<close> and \<open>a-b\<close>) have different exporters, but both take the endpoint from the
  same variable, so that the data of both goes to one backend, whatever their outputs say.\<close>

theorem env_name_collision_shares_backend:
  assumes "Build nu get opts = Ret (Inr (c, ev))" and "distinct_names_of opts"
    and "(ref, out, q, pid) \<in> gateway_outputs opts" and "(ref', out', q', pid') \<in> gateway_outputs opts"
    and "pl_signalType ref = pl_signalType ref'" and "sanitizeEnvVarName (pl_name ref) = sanitizeEnvVarName (pl_name ref')"
  shows "\<exists>e. sends_to c ev pid e \<and> sends_to c ev pid' e"
proof -
  from Build_blocks [OF assms(1)] obtain bls where bls: "gateway_blocks nu get (sortPipelinesByName opts) bls"
    and c: "c = bd_Config (execute (blocks_plan bls) newBuilder)" "ev = bd_EnvVars (execute (blocks_plan bls) newBuilder)"
    by blast
  have names: "distinct_names_of (sortPipelinesByName opts)" using assms(2) by (simp add: sort_distinct_names)
  have out: "(ref, out, q, pid) \<in> gateway_outputs (sortPipelinesByName opts)"
    "(ref', out', q', pid') \<in> gateway_outputs (sortPipelinesByName opts)" using assms(3,4) by simp_all
  have key: "endpointKey ref = endpointKey ref'" using assms(5,6) by (simp add: formatEnvVarKey_def TypePrefix_def)
  from gateway_output_block [OF bls out(1)] obtain exts ks x evx where bl: "(pid, exts, ks) \<in> set bls"
    and build: "OTLPExporter_build nu get out ref (NewSendingQueue q []) = Ret (Inr (Some x, evx))"
    and ks: "Exp (ComponentIDOTLPExporter (oo_Protocol out) ref) x evx \<in> set ks"
    unfolding pipeline_block_def by blast
  from exporter_env [OF build] have "endpointKey ref \<in> dom evx" by auto
  with contribution_env [OF bl, of "Exp (ComponentIDOTLPExporter (oo_Protocol out) ref) x evx"] ks
  obtain e where "ev (endpointKey ref) = Some e" unfolding c by auto
  with key sends_toI [where ev = ev, OF bls names out(1)] sends_toI [where ev = ev, OF bls names out(2)]
  show ?thesis unfolding c by metis
qed

definition collidingTrace :: "string \<Rightarrow> string \<Rightarrow> TracePipeline" where
  "collidingTrace name endpoint = sampleTrace\<lparr>tp_ObjectMeta := zeroObjectMeta\<lparr>om_Name := name\<rparr>,
     tp_Spec := \<lparr>tps_Output = Some (plainOTLPOutput (plainValue endpoint)), tps_Transforms = [], tps_Filters = None\<rparr>\<rparr>"

abbreviation collidingOptions :: BuildOptions where
  "collidingOptions \<equiv> sampleOptions\<lparr>bo_TracePipelines :=
     [collidingTrace ''a.b'' ''https://one:4317'', collidingTrace ''a-b'' ''https://two:4317'']\<rparr>"

lemma plain_renders: "endpoint \<noteq> [] \<Longrightarrow> renders sampleNet noSecrets (plainOTLPOutput (plainValue endpoint))"
  by (simp add: renders_def output_resolvable_def oauth_resolvable_def url_ok_def resolves_def plainOTLPOutput_def
      plainValue_def ResolveValue_def)

theorem env_name_collision_shares_backend_witness:
  "\<exists>c ev e. Build sampleNet noSecrets collidingOptions = Ret (Inr (c, ev)) \<and>
     sends_to c ev ''traces/a.b'' e \<and> sends_to c ev ''traces/a-b'' e"
proof -
  let ?a = "collidingTrace ''a.b'' ''https://one:4317''" and ?b = "collidingTrace ''a-b'' ''https://two:4317''"
  have "renderable sampleNet noSecrets collidingOptions"
    using sample_renderable plain_renders by (simp add: renderable_def collidingTrace_def)
  from Build_complete [OF this] obtain c ev
    where build: "Build sampleNet noSecrets collidingOptions = Ret (Inr (c, ev))" by blast
  have names: "distinct_names_of collidingOptions" by (simp add: distinct_names_of_def sample_defs collidingTrace_def)
  have out: "(TracePipelineRef ?a, plainOTLPOutput (plainValue ''https://one:4317''), 128, ''traces/a.b'') \<in> gateway_outputs collidingOptions"
    "(TracePipelineRef ?b, plainOTLPOutput (plainValue ''https://two:4317''), 128, ''traces/a-b'') \<in> gateway_outputs collidingOptions"
    using gateway_outputsI(1) [of ?a collidingOptions] gateway_outputsI(1) [of ?b collidingOptions]
    by (simp_all add: collidingTrace_def formatTraceServicePipelineID_def)
  have "sanitizeEnvVarName ''a.b'' = sanitizeEnvVarName ''a-b''" by code_simp
  with env_name_collision_shares_backend [OF build names out] build show ?thesis
    by (auto simp: TracePipelineRef_def collidingTrace_def)
qed

text \<open>The size of the queue of the exporter of a service pipeline.\<close>

definition queueSizeOf :: "Config \<Rightarrow> string \<Rightarrow> int" where
  "queueSizeOf c pid =
     (case sc_Pipelines (cfg_Service c) pid of
        Some sp \<Rightarrow> (case sp_Exporters sp of
            [i] \<Rightarrow> (case cfg_Exporters c i of
                Some (OTLPExporter x) \<Rightarrow> (if sq_Enabled (oe_SendingQueue x) then sq_QueueSize (oe_SendingQueue x) else 0)
              | _ \<Rightarrow> 0)
          | _ \<Rightarrow> 0)
      | None \<Rightarrow> 0)"

lemma queueSizeOf_output:
  assumes "gateway_blocks nu get opts bls" and "distinct_names_of opts" and "(ref, out, q, pid) \<in> gateway_outputs opts"
  shows "queueSizeOf (bd_Config (execute (blocks_plan bls) newBuilder)) pid = q"
proof -
  have q: "(if sq_Enabled (oe_SendingQueue x) then sq_QueueSize (oe_SendingQueue x) else 0) = q"
    if "x = otlpExporter out ref ev (NewSendingQueue q [])" for x ev
    using that by (simp add: otlpExporter_def Let_def NewSendingQueue_def)
  from output_exporter [OF assms refl] show ?thesis by (elim exE conjE) (simp add: queueSizeOf_def q)
qed

lemma equal_shares:
  assumes "\<forall>x\<in>set xs. f x = queueSizeFor xs"
  shows "(\<Sum>x\<leftarrow>xs. f x) \<le> BatchingMaxQueueSize \<and> (int (length xs) \<le> BatchingMaxQueueSize \<longrightarrow> (\<forall>x\<in>set xs. 1 \<le> f x))"
proof -
  have "(\<Sum>x\<leftarrow>xs. f x) = (\<Sum>x\<leftarrow>xs. queueSizeFor xs)"
    using assms by (intro arg_cong [where f = sum_list] map_cong) simp_all
  also have "\<dots> = int (length xs) * queueSizeFor xs" by (simp add: sum_list_triv)
  also have "\<dots> \<le> BatchingMaxQueueSize"
    by (cases xs) (simp_all add: minus_mod_eq_mult_div [symmetric])
  finally have "(\<Sum>x\<leftarrow>xs. f x) \<le> BatchingMaxQueueSize" .
  moreover have "1 \<le> f x" if "int (length xs) \<le> BatchingMaxQueueSize" "x \<in> set xs" for x
  proof -
    have "0 < int (length xs)" using that(2) by (cases xs) auto
    with that(1) have "1 \<le> queueSizeFor xs" by (simp add: int_one_le_iff_zero_less pos_imp_zdiv_pos_iff)
    with assms that(2) show ?thesis by simp
  qed
  ultimately show ?thesis by blast
qed

text \<open>C21: The pipelines of a kind share the budget of 256 batches: the queues of their exporters together are never
  longer than the budget, however many pipelines there are, and up to 256 pipelines every exporter has a queue.\<close>

theorem gateway_queues_share_budget:
  assumes "Build nu get opts = Ret (Inr (c, ev))" and "distinct_names_of opts"
  shows "(\<Sum>tp\<leftarrow>bo_TracePipelines opts. queueSizeOf c (formatTraceServicePipelineID tp)) \<le> BatchingMaxQueueSize \<and>
    (\<Sum>lp\<leftarrow>bo_LogPipelines opts. queueSizeOf c (formatLogServicePipelineID lp)) \<le> BatchingMaxQueueSize \<and>
    (\<Sum>mp\<leftarrow>bo_MetricPipelines opts. queueSizeOf c (formatMetricOutputServicePipelineID mp)) \<le> BatchingMaxQueueSize \<and>
    (int (length (bo_TracePipelines opts)) \<le> BatchingMaxQueueSize \<longrightarrow>
       (\<forall>tp\<in>set (bo_TracePipelines opts). 1 \<le> queueSizeOf c (formatTraceServicePipelineID tp))) \<and>
    (int (length (bo_LogPipelines opts)) \<le> BatchingMaxQueueSize \<longrightarrow>
       (\<forall>lp\<in>set (bo_LogPipelines opts). 1 \<le> queueSizeOf c (formatLogServicePipelineID lp))) \<and>
    (int (length (bo_MetricPipelines opts)) \<le> BatchingMaxQueueSize \<longrightarrow>
       (\<forall>mp\<in>set (bo_MetricPipelines opts). 1 \<le> queueSizeOf c (formatMetricOutputServicePipelineID mp)))"
proof -
  let ?o = "sortPipelinesByName opts"
  from Build_blocks [OF assms(1)] obtain bls where bls: "gateway_blocks nu get ?o bls"
    and c: "c = bd_Config (execute (blocks_plan bls) newBuilder)" by blast
  have names: "distinct_names_of ?o" using assms(2) by (simp add: sort_distinct_names)
  note size = queueSizeOf_output [OF bls names, folded c]
  have t: "queueSizeOf c (formatTraceServicePipelineID tp) = queueSizeFor (bo_TracePipelines opts)"
    if "tp \<in> set (bo_TracePipelines opts)" for tp
  proof -
    from that have "tp \<in> set (bo_TracePipelines ?o)" by (simp add: sortPipelinesByName_def)
    from gateway_block_of(1) [OF bls this] obtain out where "tps_Output (tp_Spec tp) = Some out"
      by (auto simp: trace_block_def)
    from size [of "TracePipelineRef tp"] gateway_outputsI(1) [OF that this] show ?thesis by simp
  qed
  have l: "queueSizeOf c (formatLogServicePipelineID lp) = queueSizeFor (bo_LogPipelines opts)"
    if "lp \<in> set (bo_LogPipelines opts)" for lp
  proof -
    from that have "lp \<in> set (bo_LogPipelines ?o)" by (simp add: sortPipelinesByName_def)
    from gateway_block_of(2) [OF bls this] obtain out where "lo_OTLP (ls_Output (lp_Spec lp)) = Some out"
      by (auto simp: log_block_def)
    from size [of "LogPipelineRef lp"] gateway_outputsI(2) [OF that this] show ?thesis by simp
  qed
  have m: "queueSizeOf c (formatMetricOutputServicePipelineID mp) = queueSizeFor (bo_MetricPipelines opts)"
    if "mp \<in> set (bo_MetricPipelines opts)" for mp
  proof -
    from that have "mp \<in> set (bo_MetricPipelines ?o)" by (simp add: sortPipelinesByName_def)
    from gateway_block_of(3) [OF bls this] obtain out where "ms_Output (mp_Spec mp) = Some out"
      by (auto simp: metric_block_def)
    from size [of "MetricPipelineRef mp"] gateway_outputsI(3) [OF that this] show ?thesis by simp
  qed
  show ?thesis
    using equal_shares [of "bo_TracePipelines opts" "\<lambda>tp. queueSizeOf c (formatTraceServicePipelineID tp)"]
      equal_shares [of "bo_LogPipelines opts" "\<lambda>lp. queueSizeOf c (formatLogServicePipelineID lp)"]
      equal_shares [of "bo_MetricPipelines opts" "\<lambda>mp. queueSizeOf c (formatMetricOutputServicePipelineID mp)"] t l m
    by blast
qed

theorem gateway_queues_share_budget_witness:
  "\<exists>c ev. Build sampleNet noSecrets sampleOptions = Ret (Inr (c, ev)) \<and> 1 \<le> queueSizeOf c ''traces/spans''"
proof -
  from Build_complete [OF sample_renderable] obtain c ev
    where build: "Build sampleNet noSecrets sampleOptions = Ret (Inr (c, ev))" by blast
  have traces: "bo_TracePipelines sampleOptions = [sampleTrace]" by (simp add: sampleOptions_def)
  have "formatTraceServicePipelineID sampleTrace = ''traces/spans''"
    by (simp add: formatTraceServicePipelineID_def sampleTrace_def)
  with gateway_queues_share_budget [OF build distinct_env_names_names [OF sample_env_names]] traces build
  show ?thesis by auto
qed

section \<open>One filter for two kinds of data\<close>

lemma map_of_first:
  assumes "\<And>v. (k, v) \<notin> set xs" and "(k, v) \<in> set ys" and "\<And>v'. (k, v') \<in> set ys \<Longrightarrow> v' = v"
  shows "map_of (xs @ ys @ zs) k = Some v"
proof -
  have "map_of xs k = None" using assms(1) by (auto simp: map_of_eq_None_iff)
  moreover have "map_of ys k = Some v" using assms(2,3) by (rule map_of_unique)
  ultimately show ?thesis by (simp add: map_add_def)
qed

lemma drop_trace:
  "(ComponentIDDropIfInputSourceOTLPProcessor, x) \<notin> set (listed processorOf (traceKs opts tp i c ev))"
  by (auto simp: traceKs_def userTransform_def userFilter_def serviceEnrichmentProcessorConfig_def
      ComponentIDUserDefinedFilterProcessor_def ComponentIDUserDefinedTransformProcessor_def TypePrefix_def
      TracePipelineRef_def SignalTypeTrace_def split: if_splits option.splits)

lemma drop_log:
  "(ComponentIDDropIfInputSourceOTLPProcessor, x) \<in> set (listed processorOf (logKs opts lp i c ev)) \<longleftrightarrow>
     \<not> IsOTLPInputEnabled (li_OTLP (ls_Input (lp_Spec lp))) \<and> x = Filter dropIfInputSourceOTLPProcessor"
proof -
  have ns: "ComponentIDNamespaceFilterProcessor n \<noteq> ComponentIDDropIfInputSourceOTLPProcessor" for n
  proof
    assume "ComponentIDNamespaceFilterProcessor n = ComponentIDDropIfInputSourceOTLPProcessor"
    then have "last (ComponentIDNamespaceFilterProcessor n) = last ComponentIDDropIfInputSourceOTLPProcessor" by (rule arg_cong)
    then show False by (simp add: ComponentIDNamespaceFilterProcessor_def)
  qed
  show ?thesis
    by (auto simp: ns ns [symmetric] logKs_def userTransform_def userFilter_def serviceEnrichmentProcessorConfig_def
        ComponentIDUserDefinedFilterProcessor_def ComponentIDUserDefinedTransformProcessor_def TypePrefix_def
        LogPipelineRef_def SignalTypeLog_def split: if_splits option.splits)
qed

text \<open>C34: The filters that drop data received over OTLP have one ID for logs and metrics, and the first configuration
  that is added under an ID stays.  Log pipelines are built before metric pipelines.  So if a log pipeline and a
  metric pipeline both turn their OTLP input off, the processor in the service pipeline of the metric pipeline has
  no condition on metrics: metrics that were pushed over OTLP are not dropped.\<close>

theorem metric_otlp_filter_shadowed:
  assumes "Build nu get opts = Ret (Inr (c, ev))" and "distinct_names_of opts"
    and "lp \<in> set (bo_LogPipelines opts)" and "\<not> IsOTLPInputEnabled (li_OTLP (ls_Input (lp_Spec lp)))"
    and "mp \<in> set (bo_MetricPipelines opts)" and "\<not> IsOTLPInputEnabled (mi_OTLP (ms_Input (mp_Spec mp)))"
  shows "\<exists>sp f. sc_Pipelines (cfg_Service c) (formatMetricOutputServicePipelineID mp) = Some sp \<and>
    ComponentIDDropIfInputSourceOTLPProcessor \<in> set (sp_Processors sp) \<and>
    cfg_Processors c ComponentIDDropIfInputSourceOTLPProcessor = Some (Filter f) \<and> fc_Metrics f = []"
proof -
  let ?o = "sortPipelinesByName opts" and ?i = "ComponentIDDropIfInputSourceOTLPProcessor"
    and ?f = "Filter dropIfInputSourceOTLPProcessor"
  from Build_blocks [OF assms(1)] obtain bls where bls: "gateway_blocks nu get ?o bls"
    and c: "c = bd_Config (execute (blocks_plan bls) newBuilder)" by blast
  have in_o: "lp \<in> set (bo_LogPipelines ?o)" "mp \<in> set (bo_MetricPipelines ?o)"
    using assms(3,5) by (simp_all add: sortPipelinesByName_def)
  have names: "distinct_names_of ?o" using assms(2) by (simp add: sort_distinct_names)
  from bls obtain ts ls rest where
    ts: "list_all2 (trace_block nu get ?o (queueSizeFor (bo_TracePipelines ?o))) (bo_TracePipelines ?o) ts" and
    ls: "list_all2 (log_block nu get ?o (queueSizeFor (bo_LogPipelines ?o))) (bo_LogPipelines ?o) ls" and
    all: "bls = ts @ ls @ rest"
    unfolding gateway_blocks_def by blast
  have exts: "listed processorOf exts = []" if "oauth_exts get out ref exts" for out ref exts
    using that by (auto simp: oauth_exts_def split: option.splits)
  let ?P = "\<lambda>bls. listed processorOf (block_contributions bls)"
  have P_append: "?P (as @ bs) = ?P as @ ?P bs" for as bs by (simp add: block_contributions_def)
  have "(?i, x) \<notin> set (?P ts)" for x
    using ts by (induction rule: list_all2_induct) (auto simp: block_contributions_def trace_block_def drop_trace exts)
  moreover have "(?i, x) \<in> set (?P ls) \<longleftrightarrow>
      (\<exists>lp\<in>set (bo_LogPipelines ?o). \<not> IsOTLPInputEnabled (li_OTLP (ls_Input (lp_Spec lp)))) \<and> x = ?f" for x
    using ls by (induction rule: list_all2_induct) (auto simp: block_contributions_def log_block_def drop_log exts)
  ultimately have "map_of (?P ts @ ?P ls @ ?P rest) ?i = Some ?f"
    using in_o(1) assms(4) by (intro map_of_first) auto
  then have "cfg_Processors c ?i = Some ?f"
    unfolding c processors_execute by (simp add: listed_blocks all P_append)
  moreover from gateway_block_of(3) [OF bls in_o(2)] obtain exts t i x ev' where
    "(formatMetricOutputServicePipelineID mp, exts, metricKs mp t i x ev') \<in> set bls" by (auto simp: metric_block_def)
  then have "sc_Pipelines (cfg_Service c) (formatMetricOutputServicePipelineID mp) = Some (sp_of (metricKs mp t i x ev'))"
    unfolding c by (rule pipelines_distinct_blocks [OF gateway_proper [OF bls] gateway_pids_distinct [OF bls names]])
  moreover have "?i \<in> set (sp_Processors (sp_of (metricKs mp t i x ev')))"
    using assms(6) by (simp add: sp_of_def metricKs_def)
  moreover have "fc_Metrics dropIfInputSourceOTLPProcessor = []"
    by (simp add: dropIfInputSourceOTLPProcessor_def LogFilterProcessor_def)
  ultimately show ?thesis by blast
qed

theorem metric_otlp_filter_shadowed_witness:
  "\<exists>c ev sp f. Build sampleNet noSecrets sampleOptions = Ret (Inr (c, ev)) \<and>
     sc_Pipelines (cfg_Service c) ''metrics/numbers-output'' = Some sp \<and>
     ComponentIDDropIfInputSourceOTLPProcessor \<in> set (sp_Processors sp) \<and>
     cfg_Processors c ComponentIDDropIfInputSourceOTLPProcessor = Some (Filter f) \<and> fc_Metrics f = []"
proof -
  from Build_complete [OF sample_renderable] obtain c ev
    where build: "Build sampleNet noSecrets sampleOptions = Ret (Inr (c, ev))" by blast
  have "sampleLog \<in> set (bo_LogPipelines sampleOptions)" "\<not> IsOTLPInputEnabled (li_OTLP (ls_Input (lp_Spec sampleLog)))"
    "sampleMetric \<in> set (bo_MetricPipelines sampleOptions)" "\<not> IsOTLPInputEnabled (mi_OTLP (ms_Input (mp_Spec sampleMetric)))"
    by (simp_all add: sample_defs IsOTLPInputEnabled_def)
  note facts = this
  have pid: "formatMetricOutputServicePipelineID sampleMetric = ''metrics/numbers-output''"
    by (simp add: formatMetricOutputServicePipelineID_def sampleMetric_def)
  from metric_otlp_filter_shadowed [OF build distinct_env_names_names [OF sample_env_names] facts] build
  show ?thesis unfolding pid by blast
qed

section \<open>The service pipelines\<close>

lemma gateway_pipeline:
  assumes "Build nu get opts = Ret (Inr (c, ev))" and "distinct_names_of opts"
  shows "tp \<in> set (bo_TracePipelines opts) \<Longrightarrow> \<exists>i x ev'.
      sc_Pipelines (cfg_Service c) (formatTraceServicePipelineID tp) = Some (sp_of (traceKs (sortPipelinesByName opts) tp i x ev'))"
    "lp \<in> set (bo_LogPipelines opts) \<Longrightarrow> \<exists>i x ev'.
      sc_Pipelines (cfg_Service c) (formatLogServicePipelineID lp) = Some (sp_of (logKs (sortPipelinesByName opts) lp i x ev'))"
    "mp \<in> set (bo_MetricPipelines opts) \<Longrightarrow> \<exists>out t i x ev'.
      ms_Output (mp_Spec mp) = Some out \<and> mo_Temporality out = Some t \<and>
      sc_Pipelines (cfg_Service c) (formatMetricOutputServicePipelineID mp) = Some (sp_of (metricKs mp (t = TemporalityDelta) i x ev'))"
    "bo_MetricPipelines opts \<noteq> [] \<Longrightarrow> (pid, exts, ks) \<in> set (metricSharedBlocks (sortPipelinesByName opts)) \<Longrightarrow>
      sc_Pipelines (cfg_Service c) pid = Some (sp_of ks)"
proof -
  let ?o = "sortPipelinesByName opts"
  from Build_blocks [OF assms(1)] obtain bls where bls: "gateway_blocks nu get ?o bls"
    and c: "c = bd_Config (execute (blocks_plan bls) newBuilder)" by blast
  have names: "distinct_names_of ?o" using assms(2) by (simp add: sort_distinct_names)
  note look = pipelines_distinct_blocks [OF gateway_proper [OF bls] gateway_pids_distinct [OF bls names], folded c]
  have sets: "set (bo_TracePipelines ?o) = set (bo_TracePipelines opts)" "set (bo_LogPipelines ?o) = set (bo_LogPipelines opts)"
    "set (bo_MetricPipelines ?o) = set (bo_MetricPipelines opts)" "bo_MetricPipelines ?o = [] \<longleftrightarrow> bo_MetricPipelines opts = []"
    by (simp_all add: sortPipelinesByName_def) (metis set_empty set_sort)
  show "\<exists>i x ev'. sc_Pipelines (cfg_Service c) (formatTraceServicePipelineID tp) = Some (sp_of (traceKs ?o tp i x ev'))"
    if "tp \<in> set (bo_TracePipelines opts)"
    using gateway_block_of(1) [OF bls, of tp] that look by (fastforce simp: sets trace_block_def)
  show "\<exists>i x ev'. sc_Pipelines (cfg_Service c) (formatLogServicePipelineID lp) = Some (sp_of (logKs ?o lp i x ev'))"
    if "lp \<in> set (bo_LogPipelines opts)"
    using gateway_block_of(2) [OF bls, of lp] that look by (fastforce simp: sets log_block_def)
  show "\<exists>out t i x ev'. ms_Output (mp_Spec mp) = Some out \<and> mo_Temporality out = Some t \<and>
      sc_Pipelines (cfg_Service c) (formatMetricOutputServicePipelineID mp) = Some (sp_of (metricKs mp (t = TemporalityDelta) i x ev'))"
    if "mp \<in> set (bo_MetricPipelines opts)"
    using gateway_block_of(3) [OF bls, of mp] that look by (fastforce simp: sets metric_block_def)
  show "sc_Pipelines (cfg_Service c) pid = Some (sp_of ks)"
    if "bo_MetricPipelines opts \<noteq> []" "(pid, exts, ks) \<in> set (metricSharedBlocks ?o)"
    by (rule look, rule gateway_block_of(4) [OF bls]) (use that in \<open>simp_all add: sets\<close>)
qed

text \<open>The processors that the data of a pipeline passes, in this order; metrics pass an input pipeline, the enrichment
  pipeline and the pipeline's own one.  What a user defines comes after the removal of the internal attributes and
  before batching; namespace filters come after the processor that finds out the namespace.\<close>

definition tracePath :: "BuildOptions \<Rightarrow> TracePipeline \<Rightarrow> string list" where
  "tracePath opts tp =
     [ComponentIDMemoryLimiterProcessor] @
     (if useOTel opts then [ComponentIDDropIstioServiceEnrichmentProcessor, ComponentIDDropUnknownServiceNameProcessor] else []) @
     [ComponentIDK8sAttributesProcessor] @
     (if useOTel opts then [ComponentIDRestoreOtelServiceAttrsProcessor] else []) @
     [ComponentIDIstioNoiseFilterProcessor, ComponentIDInsertClusterAttributesProcessor] @
     (if useOTel opts then [] else [ComponentIDServiceEnrichmentProcessor]) @
     [ComponentIDDropKymaAttributesProcessor] @
     (if tps_Transforms (tp_Spec tp) = [] then [] else [''transform/tracepipeline-user-defined-'' @ om_Name (tp_ObjectMeta tp)]) @
     (if tps_Filters (tp_Spec tp) = None then [] else [''filter/tracepipeline-user-defined-'' @ om_Name (tp_ObjectMeta tp)]) @
     [ComponentIDBatchProcessor]"

definition logPath :: "BuildOptions \<Rightarrow> LogPipeline \<Rightarrow> string list" where
  "logPath opts lp =
     [ComponentIDMemoryLimiterProcessor, ComponentIDSetObservedTimeIfZeroProcessor] @
     (if useOTel opts then [ComponentIDDropUnknownServiceNameProcessor] else []) @
     [ComponentIDK8sAttributesProcessor] @
     (if useOTel opts then [ComponentIDRestoreOtelServiceAttrsProcessor] else []) @
     [ComponentIDIstioNoiseFilterProcessor] @
     (if IsOTLPInputEnabled (li_OTLP (ls_Input (lp_Spec lp))) then [] else [ComponentIDDropIfInputSourceOTLPProcessor]) @
     (if otlpNamespaceFilter namespaceFilterProcessor (li_OTLP (ls_Input (lp_Spec lp))) = None then []
      else [''filter/'' @ om_Name (lp_ObjectMeta lp) @ ''-filter-by-namespace'']) @
     [ComponentIDInsertClusterAttributesProcessor] @
     (if useOTel opts then [] else [ComponentIDServiceEnrichmentProcessor]) @
     [ComponentIDDropKymaAttributesProcessor, ComponentIDIstioEnrichmentProcessor] @
     (if ls_Transforms (lp_Spec lp) = [] then [] else [''transform/logpipeline-user-defined-'' @ om_Name (lp_ObjectMeta lp)]) @
     (if ls_Filters (lp_Spec lp) = None then [] else [''filter/logpipeline-user-defined-'' @ om_Name (lp_ObjectMeta lp)]) @
     [ComponentIDBatchProcessor]"

definition metricEnrichmentPath :: "BuildOptions \<Rightarrow> string list" where
  "metricEnrichmentPath opts =
     [ComponentIDMemoryLimiterProcessor, ComponentIDSetInstrumentationScopeKymaProcessor] @
     (if useOTel opts then [ComponentIDDropUnknownServiceNameProcessor] else []) @
     [ComponentIDK8sAttributesProcessor] @
     (if useOTel opts then [ComponentIDRestoreOtelServiceAttrsProcessor] else [ComponentIDServiceEnrichmentProcessor]) @
     [ComponentIDInsertClusterAttributesProcessor]"

definition metricPath :: "MetricPipeline \<Rightarrow> TemporalityType \<Rightarrow> string list" where
  "metricPath mp t =
     (if IsOTLPInputEnabled (mi_OTLP (ms_Input (mp_Spec mp))) then [] else [ComponentIDDropIfInputSourceOTLPProcessor]) @
     (if otlpNamespaceFilter metricFilterByNamespaceProcessorConfig (mi_OTLP (ms_Input (mp_Spec mp))) = None then []
      else [''filter/'' @ om_Name (mp_ObjectMeta mp) @ ''-filter-by-namespace-otlp-input'']) @
     [ComponentIDDropKymaAttributesProcessor] @
     (if ms_Transforms (mp_Spec mp) = [] then [] else [''transform/metricpipeline-user-defined-'' @ om_Name (mp_ObjectMeta mp)]) @
     (if ms_Filters (mp_Spec mp) = None then [] else [''filter/metricpipeline-user-defined-'' @ om_Name (mp_ObjectMeta mp)]) @
     (if t = TemporalityDelta then [ComponentIDCumulativeToDeltaProcessor] else []) @
     [ComponentIDBatchProcessor]"

lemmas path_simps = sp_of_def userTransform_def userFilter_def serviceEnrichmentProcessorConfig_def
  ComponentIDUserDefinedFilterProcessor_def ComponentIDUserDefinedTransformProcessor_def
  ComponentIDNamespaceFilterProcessor_def ComponentIDNamespacePerInputFilterProcessor_def
  TypePrefix_def TracePipelineRef_def LogPipelineRef_def MetricPipelineRef_def
  SignalTypeTrace_def SignalTypeLog_def SignalTypeMetric_def

lemma path_of_plan:
  "sp_Processors (sp_of (traceKs (sortPipelinesByName opts) tp i x ev)) = tracePath opts tp"
  "sp_Processors (sp_of (logKs (sortPipelinesByName opts) lp i x ev)) = logPath opts lp"
  "sp_Processors (sp_of (metricKs mp (t = TemporalityDelta) i x ev)) = metricPath mp t"
  "sp_Processors (sp_of (metricInputKs source)) = [InputName source]"
  "sp_Processors (sp_of (metricEnrichmentKs (sortPipelinesByName opts))) = metricEnrichmentPath opts"
  by (simp_all add: traceKs_def tracePath_def logKs_def logPath_def metricKs_def metricPath_def path_simps
      metricInputKs_def metricEnrichmentKs_def metricEnrichmentPath_def useOTel_def sortPipelinesByName_def split: option.split)

text \<open>C20: The data of every pipeline takes the intended way through the gateway, with the processors in a fixed order.
  Traces and logs go from the OTLP receiver through one service pipeline: first the memory limit, then the lookup of
  the Kubernetes attributes, then for logs the filters on the input and the namespace, then the cluster attributes and
  the removal of internal attributes, then what the user defined, then batching.  Metrics from OTLP and the statistics
  of the module's own resources are tagged with their input in two input pipelines, meet in the enrichment pipeline,
  with the memory limit first, and fan out through a connector to the pipelines' own service pipelines, which filter by
  input and namespace, remove the internal attributes, apply what the user defined, convert the temporality and batch.\<close>

theorem gateway_data_paths:
  assumes "Build nu get opts = Ret (Inr (c, ev))" and "distinct_names_of opts"
  shows "(\<forall>tp\<in>set (bo_TracePipelines opts). \<exists>sp.
      sc_Pipelines (cfg_Service c) (''traces/'' @ om_Name (tp_ObjectMeta tp)) = Some sp \<and>
      sp_Receivers sp = [ComponentIDOTLPReceiver] \<and> sp_Processors sp = tracePath opts tp) \<and>
    (\<forall>lp\<in>set (bo_LogPipelines opts). \<exists>sp.
      sc_Pipelines (cfg_Service c) (''logs/'' @ om_Name (lp_ObjectMeta lp)) = Some sp \<and>
      sp_Receivers sp = [ComponentIDOTLPReceiver] \<and> sp_Processors sp = logPath opts lp) \<and>
    (\<forall>mp\<in>set (bo_MetricPipelines opts). \<exists>otlp kyma enrich sp out t.
      sc_Pipelines (cfg_Service c) ''metrics/input-otlp'' = Some otlp \<and>
      sp_Receivers otlp = [ComponentIDOTLPReceiver] \<and> sp_Processors otlp = [InputName InputSourceOTLP] \<and>
      sp_Exporters otlp = [ComponentIDInputConnector] \<and>
      sc_Pipelines (cfg_Service c) ''metrics/input-kyma-stats'' = Some kyma \<and>
      sp_Receivers kyma = [ComponentIDKymaStatsReceiver] \<and> sp_Processors kyma = [InputName InputSourceKyma] \<and>
      sp_Exporters kyma = [ComponentIDInputConnector] \<and>
      sc_Pipelines (cfg_Service c) ''metrics/enrichment'' = Some enrich \<and>
      sp_Receivers enrich = [ComponentIDInputConnector] \<and> sp_Processors enrich = metricEnrichmentPath opts \<and>
      sp_Exporters enrich = [ComponentIDEnrichmentConnector] \<and>
      sc_Pipelines (cfg_Service c) (''metrics/'' @ om_Name (mp_ObjectMeta mp) @ ''-output'') = Some sp \<and>
      sp_Receivers sp = [ComponentIDEnrichmentConnector] \<and>
      ms_Output (mp_Spec mp) = Some out \<and> mo_Temporality out = Some t \<and> sp_Processors sp = metricPath mp t)"
proof (intro conjI ballI)
  fix tp assume "tp \<in> set (bo_TracePipelines opts)"
  from gateway_pipeline(1) [OF assms this] show "\<exists>sp.
      sc_Pipelines (cfg_Service c) (''traces/'' @ om_Name (tp_ObjectMeta tp)) = Some sp \<and>
      sp_Receivers sp = [ComponentIDOTLPReceiver] \<and> sp_Processors sp = tracePath opts tp"
    unfolding formatTraceServicePipelineID_def using path_of_plan(1) by (elim exE) (intro exI conjI; assumption?; simp)
next
  fix lp assume "lp \<in> set (bo_LogPipelines opts)"
  from gateway_pipeline(2) [OF assms this] show "\<exists>sp.
      sc_Pipelines (cfg_Service c) (''logs/'' @ om_Name (lp_ObjectMeta lp)) = Some sp \<and>
      sp_Receivers sp = [ComponentIDOTLPReceiver] \<and> sp_Processors sp = logPath opts lp"
    unfolding formatLogServicePipelineID_def using path_of_plan(2) by (elim exE) (intro exI conjI; assumption?; simp)
next
  fix mp assume mp: "mp \<in> set (bo_MetricPipelines opts)"
  then have "bo_MetricPipelines opts \<noteq> []" by auto
  note shared = gateway_pipeline(4) [OF assms this]
  have otlp: "sc_Pipelines (cfg_Service c) ''metrics/input-otlp'' = Some (sp_of (metricInputKs InputSourceOTLP))"
    and kyma: "sc_Pipelines (cfg_Service c) ''metrics/input-kyma-stats'' = Some (sp_of (metricInputKs InputSourceKyma))"
    and enrich: "sc_Pipelines (cfg_Service c) ''metrics/enrichment'' = Some (sp_of (metricEnrichmentKs (sortPipelinesByName opts)))"
    by (rule shared, simp add: metricSharedBlocks_def)+
  from gateway_pipeline(3) [OF assms mp] obtain out t i x ev' where
    out: "ms_Output (mp_Spec mp) = Some out" "mo_Temporality out = Some t"
    and sp: "sc_Pipelines (cfg_Service c) (''metrics/'' @ om_Name (mp_ObjectMeta mp) @ ''-output'') =
      Some (sp_of (metricKs mp (t = TemporalityDelta) i x ev'))"
    unfolding formatMetricOutputServicePipelineID_def by (elim exE conjE)
  show "\<exists>otlp kyma enrich sp out t.
      sc_Pipelines (cfg_Service c) ''metrics/input-otlp'' = Some otlp \<and>
      sp_Receivers otlp = [ComponentIDOTLPReceiver] \<and> sp_Processors otlp = [InputName InputSourceOTLP] \<and>
      sp_Exporters otlp = [ComponentIDInputConnector] \<and>
      sc_Pipelines (cfg_Service c) ''metrics/input-kyma-stats'' = Some kyma \<and>
      sp_Receivers kyma = [ComponentIDKymaStatsReceiver] \<and> sp_Processors kyma = [InputName InputSourceKyma] \<and>
      sp_Exporters kyma = [ComponentIDInputConnector] \<and>
      sc_Pipelines (cfg_Service c) ''metrics/enrichment'' = Some enrich \<and>
      sp_Receivers enrich = [ComponentIDInputConnector] \<and> sp_Processors enrich = metricEnrichmentPath opts \<and>
      sp_Exporters enrich = [ComponentIDEnrichmentConnector] \<and>
      sc_Pipelines (cfg_Service c) (''metrics/'' @ om_Name (mp_ObjectMeta mp) @ ''-output'') = Some sp \<and>
      sp_Receivers sp = [ComponentIDEnrichmentConnector] \<and>
      ms_Output (mp_Spec mp) = Some out \<and> mo_Temporality out = Some t \<and> sp_Processors sp = metricPath mp t"
    by (intro exI conjI, (rule otlp kyma enrich sp out sp_ends path_of_plan)+)
qed

theorem gateway_data_paths_witness:
  "\<exists>c ev sp. Build sampleNet noSecrets sampleOptions = Ret (Inr (c, ev)) \<and>
     sc_Pipelines (cfg_Service c) ''traces/spans'' = Some sp \<and> hd (sp_Processors sp) = ComponentIDMemoryLimiterProcessor \<and>
     last (sp_Processors sp) = ComponentIDBatchProcessor"
proof -
  from Build_complete [OF sample_renderable] obtain c ev
    where build: "Build sampleNet noSecrets sampleOptions = Ret (Inr (c, ev))" by blast
  have "sampleTrace \<in> set (bo_TracePipelines sampleOptions)" by (simp add: sampleOptions_def)
  with gateway_data_paths [OF build distinct_env_names_names [OF sample_env_names]] obtain sp where
    "sc_Pipelines (cfg_Service c) (''traces/'' @ om_Name (tp_ObjectMeta sampleTrace)) = Some sp"
    "sp_Processors sp = tracePath sampleOptions sampleTrace" by blast
  with build show ?thesis by (intro exI conjI) (assumption | simp add: sampleTrace_def tracePath_def)+
qed

section \<open>The order of the pipelines\<close>

lemma filter_key:
  assumes "distinct (map f xs)" and "k \<in> set xs"
  shows "filter (\<lambda>x. f k = f x) xs = [k]"
  using assms
proof (induction xs)
  case (Cons x xs)
  show ?case
  proof (cases "k = x")
    case True
    with Cons.prems(1) have "filter (\<lambda>y. f x = f y) xs = []" by (auto simp: filter_empty_conv)
    with True show ?thesis by simp
  next
    case False
    with Cons.prems have "k \<in> set xs" "f k \<noteq> f x" by (auto simp: image_iff)
    with Cons show ?thesis by simp
  qed
qed simp

lemma sort_key_permuted:
  assumes "mset xs = mset ys" and "distinct (map f xs)"
  shows "sort_key f xs = sort_key f ys"
proof (rule properties_for_sort_key)
  have ys: "distinct (map f ys)" using assms by (metis mset_map mset_eq_imp_distinct_iff)
  show "mset (sort_key f ys) = mset xs" using assms(1) by simp
  show "filter (\<lambda>x. f k = f x) (sort_key f ys) = filter (\<lambda>x. f k = f x) xs" if "k \<in> set (sort_key f ys)" for k
  proof -
    have "k \<in> set xs" using that assms(1) by (metis mset_sort set_mset_mset)
    then show ?thesis using filter_key [OF assms(2)] filter_key [of f "sort_key f ys" k] that ys
      by (simp add: distinct_map_sort_key)
  qed
  show "sorted (map f (sort_key f ys))" by simp
qed

text \<open>C33: The configuration and its secret data do not depend on the order in which the pipelines are listed, so that
  a list of the API server in another order does not restart the gateway.\<close>

theorem gateway_config_order_independent:
  assumes "distinct_names_of opts" and "mset ts = mset (bo_TracePipelines opts)" and "mset ls = mset (bo_LogPipelines opts)"
    and "mset ms = mset (bo_MetricPipelines opts)"
  shows "Build nu get (opts\<lparr>bo_TracePipelines := ts, bo_LogPipelines := ls, bo_MetricPipelines := ms\<rparr>) = Build nu get opts"
proof -
  have "sortPipelinesByName (opts\<lparr>bo_TracePipelines := ts, bo_LogPipelines := ls, bo_MetricPipelines := ms\<rparr>) =
      sortPipelinesByName opts"
    using assms(1) unfolding distinct_names_of_def
    by (simp add: sortPipelinesByName_def sort_key_permuted [OF assms(2) [symmetric]]
        sort_key_permuted [OF assms(3) [symmetric]] sort_key_permuted [OF assms(4) [symmetric]])
  then show ?thesis by (simp add: Build_def)
qed

theorem gateway_config_order_independent_witness:
  "Build sampleNet noSecrets (collidingOptions\<lparr>bo_TracePipelines := rev (bo_TracePipelines collidingOptions)\<rparr>) =
     Build sampleNet noSecrets collidingOptions"
proof -
  have "distinct_names_of collidingOptions" by (simp add: distinct_names_of_def sample_defs collidingTrace_def)
  from gateway_config_order_independent [OF this, of "rev (bo_TracePipelines collidingOptions)"
      "bo_LogPipelines collidingOptions" "bo_MetricPipelines collidingOptions"]
  show ?thesis by simp
qed

end
