(* ===== verification/ModuleConfig.thy ===== *)
theory ModuleConfig
  imports Names CollectorConfig Kube
begin

text \<open>
  The settings the reconcilers read besides the pipelines: the Telemetry resource and its accessors
  (\<open>apis/operator/v1beta1\<close>, \<open>internal/utils/telemetry\<close>), the facts about the cluster (\<open>internal/utils/k8s\<close>,
  \<open>internal/istiostatus\<close>, \<open>internal/vpastatus\<close>), and the overrides (\<open>internal/overrides\<close>) with which
  reconciliation is paused and the log level is changed.  Reads of the Telemetry resource, of namespaces and of
  the discovery API are parameters, as is the YAML decoder; ConfigMaps are read with the client of \<open>Kube\<close>.
\<close>

section \<open>The Telemetry resource\<close>

text \<open>The parts of the spec that are in use; a \<open>metav1.Duration\<close> is a number of nanoseconds.\<close>

type_synonym Duration = int

record MetricInputSpec =
  mis_CollectionInterval :: "Duration option"

record MetricSpec =
  msp_CollectionInterval :: "Duration option"
  msp_Runtime :: "MetricInputSpec option"
  msp_Prometheus :: "MetricInputSpec option"
  msp_Istio :: "MetricInputSpec option"

record TelemetrySpec =
  tsp_Metric :: "MetricSpec option"
  tsp_Enrichments :: "EnrichmentSpec option"

record Telemetry =
  tl_ObjectMeta :: ObjectMeta
  tl_Spec :: TelemetrySpec

type_synonym telemetry_reader = "NamespacedName \<Rightarrow> (kube_error, Telemetry) result"

section \<open>Collection intervals\<close>

abbreviation defaultCollectionInterval :: Duration where
  "defaultCollectionInterval \<equiv> 30 * 1000000000"

record MetricCollectionIntervals =
  mci_Runtime :: Duration
  mci_Prometheus :: Duration
  mci_Istio :: Duration

definition mci_Max :: "MetricCollectionIntervals \<Rightarrow> Duration" where
  "mci_Max mci = max (max (mci_Runtime mci) (mci_Prometheus mci)) (mci_Istio mci)"

definition inputInterval :: "Duration \<Rightarrow> MetricInputSpec option \<Rightarrow> Duration" where
  "inputInterval globalInterval spec =
     (case spec of
        None \<Rightarrow> globalInterval
      | Some i \<Rightarrow> (case mis_CollectionInterval i of None \<Rightarrow> globalInterval | Some d \<Rightarrow> d))"

definition ResolveMetricCollectionIntervals :: "MetricSpec option \<Rightarrow> MetricCollectionIntervals" where
  "ResolveMetricCollectionIntervals metricSpec =
     (let globalInterval =
            (case metricSpec of
               None \<Rightarrow> defaultCollectionInterval
             | Some ms \<Rightarrow>
                 (case msp_CollectionInterval ms of None \<Rightarrow> defaultCollectionInterval | Some d \<Rightarrow> d))
      in case metricSpec of
           None \<Rightarrow>
             \<lparr>mci_Runtime = globalInterval, mci_Prometheus = globalInterval, mci_Istio = globalInterval\<rparr>
         | Some ms \<Rightarrow>
             \<lparr>mci_Runtime = inputInterval globalInterval (msp_Runtime ms),
              mci_Prometheus = inputInterval globalInterval (msp_Prometheus ms),
              mci_Istio = inputInterval globalInterval (msp_Istio ms)\<rparr>)"

section \<open>The cluster\<close>

record ClusterInfo =
  ci_ClusterName :: string
  ci_CloudProvider :: string

abbreviation defaultClusterName :: string where
  "defaultClusterName \<equiv> ''${KUBERNETES_SERVICE_HOST}''"

abbreviation defaultGardenerShootInfoCM :: NamespacedName where
  "defaultGardenerShootInfoCM \<equiv> \<lparr>nn_Namespace = ''kube-system'', nn_Name = ''shoot-info''\<rparr>"

definition GetGardenerShootInfo :: "'s cm_client \<Rightarrow> 's \<Rightarrow> ClusterInfo" where
  "GetGardenerShootInfo c s =
     (case cc_Get c defaultGardenerShootInfoCM s of
        Inl e \<Rightarrow> \<lparr>ci_ClusterName = defaultClusterName, ci_CloudProvider = []\<rparr>
      | Inr shootInfo \<Rightarrow>
          (let cloudProvider = deref (deref (cm_Data shootInfo) Map.empty ''provider'') []
           in \<lparr>ci_ClusterName = defaultClusterName,
               ci_CloudProvider = (if cloudProvider = ''openstack'' then ''sap'' else cloudProvider)\<rparr>))"

definition GetClusterUID :: "(NamespacedName \<Rightarrow> (kube_error, ObjectMeta) result) \<Rightarrow> (go_error, string) result" where
  "GetClusterUID getNamespace =
     (case getNamespace \<lparr>nn_Namespace = [], nn_Name = ''kube-system''\<rparr> of
        Inl e \<Rightarrow> Inl (KubeError e)
      | Inr kubeSystem \<Rightarrow> Inr (om_UID kubeSystem))"

text \<open>Istio is active if some API group of the cluster is one of Istio; the CRD of the vertical pod autoscaler
  exists if the group version lists its kind.\<close>

definition IsIstioActive :: "(go_error, string list) result \<Rightarrow> (go_error, bool) result" where
  "IsIstioActive serverGroups =
     rbind serverGroups (\<lambda>groups. Inr (list_ex (\<lambda>name. Contains name ''.istio.io'') groups))"

abbreviation VpaGroupVersion :: string where "VpaGroupVersion \<equiv> ''autoscaling.k8s.io/v1''"
abbreviation VpaKind :: string where "VpaKind \<equiv> ''VerticalPodAutoscaler''"

definition VpaCRDExists ::
    "(go_error, string \<Rightarrow> (kube_error, string list) result) result \<Rightarrow> (go_error, bool) result" where
  "VpaCRDExists discoveryClient =
     (case discoveryClient of
        Inl e \<Rightarrow> Inl (Errorf ''failed to create discovery client: '' e [])
      | Inr serverResources \<Rightarrow>
          (case serverResources VpaGroupVersion of
             Inl e \<Rightarrow>
               (if IsNotFound e then Inr False
                else Inl (Errorf (''failed to get server resources for group version '' @ VpaGroupVersion @ '': '')
                       (KubeError e) []))
           | Inr kinds \<Rightarrow> Inr (list_ex (\<lambda>kind. kind = VpaKind) kinds)))"

section \<open>Settings from the Telemetry resource\<close>

abbreviation AnnotationKeyTelemetryServiceEnrichment :: string where
  "AnnotationKeyTelemetryServiceEnrichment \<equiv> ''telemetry.kyma-project.io/service-enrichment''"
abbreviation ServiceEnrichmentOtel :: string where
  "ServiceEnrichmentOtel \<equiv> ''otel''"
abbreviation ServiceEnrichmentKymaLegacy :: string where
  "ServiceEnrichmentKymaLegacy \<equiv> ''kyma-legacy''"
abbreviation ServiceEnrichmentDefault :: string where
  "ServiceEnrichmentDefault \<equiv> ServiceEnrichmentKymaLegacy"
abbreviation AnnotationKeyEnableVPA :: string where
  "AnnotationKeyEnableVPA \<equiv> ''telemetry.kyma-project.io/enable-vpa''"

definition GetDefaultTelemetryInstance :: "telemetry_reader \<Rightarrow> string \<Rightarrow> (kube_error, Telemetry) result" where
  "GetDefaultTelemetryInstance get namespace = get \<lparr>nn_Namespace = namespace, nn_Name = DefaultTelemetry\<rparr>"

definition GetClusterNameFromTelemetry ::
    "'s cm_client \<Rightarrow> telemetry_reader \<Rightarrow> string \<Rightarrow> 's \<Rightarrow> string" where
  "GetClusterNameFromTelemetry c get namespace s =
     (let defaultName = ci_ClusterName (GetGardenerShootInfo c s)
      in case GetDefaultTelemetryInstance get namespace of
           Inl e \<Rightarrow> defaultName
         | Inr t \<Rightarrow>
             (case Option.bind (tsp_Enrichments (tl_Spec t)) es_Cluster of
                None \<Rightarrow> defaultName
              | Some cl \<Rightarrow> if cl_Name cl \<noteq> [] then cl_Name cl else defaultName))"

definition annotation :: "Telemetry \<Rightarrow> string \<Rightarrow> string option" where
  "annotation t key = deref (om_Annotations (tl_ObjectMeta t)) Map.empty key"

definition GetServiceEnrichmentFromTelemetryOrDefault :: "telemetry_reader \<Rightarrow> string \<Rightarrow> string" where
  "GetServiceEnrichmentFromTelemetryOrDefault get namespace =
     (case GetDefaultTelemetryInstance get namespace of
        Inl e \<Rightarrow> ServiceEnrichmentDefault
      | Inr t \<Rightarrow>
          (case annotation t AnnotationKeyTelemetryServiceEnrichment of
             None \<Rightarrow> ServiceEnrichmentDefault
           | Some v \<Rightarrow>
               if v = ServiceEnrichmentKymaLegacy \<or> v = ServiceEnrichmentOtel then v
               else ServiceEnrichmentDefault))"

definition IsVpaEnabledInTelemetry :: "telemetry_reader \<Rightarrow> string \<Rightarrow> bool" where
  "IsVpaEnabledInTelemetry get namespace =
     (case GetDefaultTelemetryInstance get namespace of
        Inl e \<Rightarrow> True
      | Inr t \<Rightarrow> (case annotation t AnnotationKeyEnableVPA of None \<Rightarrow> True | Some v \<Rightarrow> v \<noteq> ''false''))"

section \<open>Overrides\<close>

text \<open>The configuration without \<open>logging.collectAgentLogs\<close>, which no code reads.\<close>

record OverridesConfig =
  ov_LogLevel :: string
  ov_TracingPaused :: bool
  ov_LoggingPaused :: bool
  ov_MetricsPaused :: bool
  ov_TelemetryPaused :: bool
  ov_OTLPGatewayPaused :: bool

definition zeroOverrides :: OverridesConfig where
  "zeroOverrides =
     \<lparr>ov_LogLevel = [], ov_TracingPaused = False, ov_LoggingPaused = False, ov_MetricsPaused = False,
      ov_TelemetryPaused = False, ov_OTLPGatewayPaused = False\<rparr>"

text \<open>The handler: the level at start-up, \<open>yaml.Unmarshal\<close> and \<open>zapcore.ParseLevel\<close>.\<close>

record 'l overrides_handler =
  oh_targetNamespace :: string
  oh_defaultLevel :: 'l
  oh_Unmarshal :: "string \<Rightarrow> (string, OverridesConfig) result"
  oh_ParseLevel :: "string \<Rightarrow> (string, 'l) result"

definition readConfigMapOrEmpty :: "'l overrides_handler \<Rightarrow> 's cm_client \<Rightarrow> 's \<Rightarrow> (go_error, string) result" where
  "readConfigMapOrEmpty h c s =
     (case cc_Get c \<lparr>nn_Namespace = oh_targetNamespace h, nn_Name = OverrideConfigMap\<rparr> s of
        Inl e \<Rightarrow>
          (if IsNotFound e then Inr []
           else Inl (Errorf ''failed to get overrides configmap: '' (KubeError e) []))
      | Inr cm \<Rightarrow> Inr (deref (deref (cm_Data cm) Map.empty ''overrides'') []))"

definition loadOverridesConfig ::
    "'l overrides_handler \<Rightarrow> 's cm_client \<Rightarrow> 's \<Rightarrow> (go_error, OverridesConfig) result" where
  "loadOverridesConfig h c s =
     rbind (readConfigMapOrEmpty h c s) (\<lambda>config.
       if config = [] then Inr zeroOverrides
       else case oh_Unmarshal h config of Inl e \<Rightarrow> Inl (NewError e) | Inr ov \<Rightarrow> Inr ov)"

definition syncLogLevel :: "'l overrides_handler \<Rightarrow> string \<Rightarrow> 'l \<Rightarrow> 'l \<times> go_error option" where
  "syncLogLevel h level atomicLevel =
     (if level = [] then (oh_defaultLevel h, None)
      else case oh_ParseLevel h level of
          Inl e \<Rightarrow> (atomicLevel, Some (Errorf ''failed to parse zap level: '' (NewError e) []))
        | Inr l \<Rightarrow> (l, None))"

definition LoadOverrides ::
    "'l overrides_handler \<Rightarrow> 's cm_client \<Rightarrow> 's \<Rightarrow> 'l \<Rightarrow> 'l \<times> (go_error, OverridesConfig) result" where
  "LoadOverrides h c s atomicLevel =
     (case loadOverridesConfig h c s of
        Inl e \<Rightarrow> (atomicLevel, Inl (Errorf ''failed to load overrides config: '' e []))
      | Inr ov \<Rightarrow>
          (case syncLogLevel h (ov_LogLevel ov) atomicLevel of
             (level, Some e) \<Rightarrow> (level, Inl (Errorf ''failed to sync log level: '' e []))
           | (level, None) \<Rightarrow> (level, Inr ov)))"

end
