(* ===== verification/PipelineReconcilers.thy ===== *)
theory PipelineReconcilers
  imports ModuleConfig PipelineValidators PipelineStatus SecretWatch GatewayConfig
begin

text \<open>
  The reconcilers of trace, metric and log pipelines: \<open>reconciler.go\<close> of \<open>internal/reconciler/tracepipeline\<close>,
  \<open>metricpipeline\<close>, \<open>logpipeline\<close> and \<open>logpipeline/otel\<close>.  A reconciler acts on a \<open>world\<close>: the API server's
  ConfigMaps, the secret watchers, the log level, the info metrics, and the statuses and agent resources it has
  written.  The fields of the \<open>Reconciler\<close> structs are records of functions; the reads of pipelines and Secrets,
  the builders of the agent configurations and the appliers of the agent resources are parameters.  During one
  call the cluster changes only through that call.
\<close>

section \<open>Actions\<close>

text \<open>What a reconciler has asked for the agent: to apply its resources, on behalf of an owner, or to delete
  them.\<close>

record AgentApplyOptions =
  aao_IstioEnabled :: bool
  aao_VpaCRDExists :: bool
  aao_VpaEnabled :: bool
  aao_VPAMaxAllowedMemory :: int
  aao_CollectorConfigYAML :: string
  aao_CollectorEnvVars :: EnvVars
  aao_BackendPorts :: "string list"

datatype agent_call = ApplyAgent ObjectMeta AgentApplyOptions | DeleteAgent bool

record ('s, 'p, 'l) world =
  w_Server :: 's
  w_Watchers :: Client
  w_LogLevel :: 'l
  w_Info :: "string list set"
  w_Statuses :: "'p list"
  w_Agent :: "agent_call list"

text \<open>An action changes the world and may return an error.\<close>

type_synonym 'w action = "'w \<Rightarrow> ('w \<times> go_error option) go"

text \<open>\<open>x, err := m; if err != nil { return err }\<close> for a call that reads, with the error wrapped by \<open>f\<close>.\<close>

definition ask :: "(go_error \<Rightarrow> go_error) \<Rightarrow> (go_error, 'a) result go \<Rightarrow> ('a \<Rightarrow> 'w action) \<Rightarrow> 'w action" where
  "ask f m k w = gbind m (\<lambda>r. case r of Inl e \<Rightarrow> Ret (w, Some (f e)) | Inr a \<Rightarrow> k a w)"

text \<open>\<open>if err := a(); err != nil { return f(err) }\<close> for a call that acts, followed by \<open>b\<close>.\<close>

definition andThen :: "(go_error \<Rightarrow> go_error) \<Rightarrow> 'w action \<Rightarrow> 'w action \<Rightarrow> 'w action" where
  "andThen f a b w = gbind (a w) (\<lambda>(w', err). case err of Some e \<Rightarrow> Ret (w', Some (f e)) | None \<Rightarrow> b w')"

definition finish :: "'w action" where
  "finish w = Ret (w, None)"

abbreviation wrap :: "string \<Rightarrow> go_error \<Rightarrow> go_error" where
  "wrap msg e \<equiv> Errorf msg e []"

lemma ask_Panic [panic_simps]: "ask f m k w = Panic \<longleftrightarrow> m = Panic \<or> (\<exists>a. m = Ret (Inr a) \<and> k a w = Panic)"
  by (cases m) (auto simp: ask_def split: sum.splits)

lemma andThen_Panic [panic_simps]:
  "andThen f a b w = Panic \<longleftrightarrow> a w = Panic \<or> (\<exists>w'. a w = Ret (w', None) \<and> b w' = Panic)"
  by (cases "a w") (auto simp: andThen_def split: option.splits)

lemma finish_no_panic [panic_simps]: "finish w \<noteq> Panic"
  by (simp add: finish_def)

section \<open>The reconciler\<close>

record ('s, 'p, 'l) Reconciler =
  r_Client :: "'s cm_client"
  r_Get :: "string \<Rightarrow> (kube_error, 'p) result"
  r_List :: "(kube_error, 'p list) result"
  r_StatusUpdate :: "'p \<Rightarrow> (kube_error, 'p) result"
  r_GVK :: "'p \<Rightarrow> GroupVersionKind"
  r_Secrets :: secret_reader
  r_SetOwner :: set_owner
  r_YAML :: yaml_codec
  r_overridesHandler :: "'l overrides_handler"
  r_targetNamespace :: string
  r_pipelineSync :: Checker
  r_pipelineLock :: Checker
  r_pipelineValidator :: "'s \<Rightarrow> 'p Validator"
  r_statusEnv :: "'s \<Rightarrow> 'p status_env"
  r_hasSecretWatcher :: bool
  r_now :: time

text \<open>The names of the locks, as the controllers choose them.\<close>

definition controllerLock :: "bool \<Rightarrow> string \<Rightarrow> string \<Rightarrow> Checker" where
  "controllerLock unlimitedPipelines name namespace =
     NewLocker \<lparr>nn_Namespace = namespace, nn_Name = name\<rparr>
       (if unlimitedPipelines then UnlimitedPipelineCount else MaxPipelineCount)"

definition controllerSyncer :: "string \<Rightarrow> string \<Rightarrow> Checker" where
  "controllerSyncer name namespace = NewSyncer \<lparr>nn_Namespace = namespace, nn_Name = name\<rparr>"

subsection \<open>Steps that the reconcilers share\<close>

datatype lock_result = Acquired | Exceeded | LockFailed go_error

definition tryLock ::
    "('s, 'p, 'l) Reconciler \<Rightarrow> Checker \<Rightarrow> ObjectMeta \<Rightarrow> ('s, 'p, 'l) world \<Rightarrow> ('s, 'p, 'l) world \<times> lock_result" where
  "tryLock r ck owner w =
     (let (s', err) = TryAcquireLock (r_Client r) (r_SetOwner r) ck owner (w_Server w)
      in (w\<lparr>w_Server := s'\<rparr>,
          case err of
            None \<Rightarrow> Acquired
          | Some e \<Rightarrow> if errors_Is e ErrMaxPipelinesExceeded then Exceeded else LockFailed e))"

definition addReference ::
    "('s, 'p, 'l) Reconciler \<Rightarrow> SignalType \<Rightarrow> PipelineReference \<Rightarrow> ('s, 'p, 'l) world action" where
  "addReference r ty input w =
     (let (s', err) = AddPipelineReference (r_Client r) (r_YAML r) (r_targetNamespace r) ty input (w_Server w)
      in Ret (w\<lparr>w_Server := s'\<rparr>, err))"

definition removeReference ::
    "('s, 'p, 'l) Reconciler \<Rightarrow> SignalType \<Rightarrow> string \<Rightarrow> ('s, 'p, 'l) world action" where
  "removeReference r ty name w =
     (let (s', err) = RemovePipelineReference (r_Client r) (r_YAML r) (r_targetNamespace r) ty name (w_Server w)
      in Ret (w\<lparr>w_Server := s'\<rparr>, err))"

text \<open>\<open>Update ConfigMap based on validation result\<close>.\<close>

definition updateReference ::
    "('s, 'p, 'l) Reconciler \<Rightarrow> SignalType \<Rightarrow> ObjectMeta \<Rightarrow> SecretKeyRef list go \<Rightarrow> bool \<Rightarrow> ('s, 'p, 'l) world action" where
  "updateReference r ty m refs isPipelineReconcilable =
     (if isPipelineReconcilable
      then ask (wrap ''failed to collect secret versions: '')
             (gbind refs (\<lambda>secretRefs. Ret (CollectSecretVersions (r_Secrets r) secretRefs)))
             (\<lambda>secretVersions.
               andThen (wrap ''failed to write pipeline reference to ConfigMap: '')
                 (addReference r ty
                   \<lparr>pr_Name = om_Name m, pr_Generation = om_Generation m, pr_SecretVersions = secretVersions\<rparr>)
                 finish)
      else andThen (wrap ''failed to remove pipeline reference from OTLP Gateway Coordination ConfigMap: '')
             (removeReference r ty (om_Name m)) finish)"

text \<open>\<open>metrics.recordPipelineInfo\<close>: the series with these label values is set to 1.\<close>

definition recordPipelineInfo ::
    "string list \<Rightarrow> string \<Rightarrow> string \<Rightarrow> string list \<Rightarrow> string list set \<Rightarrow> string list set" where
  "recordPipelineInfo allFeatures pipelineName endpoint features =
     insert ([pipelineName, endpoint] @
       map (\<lambda>feature. if feature \<in> set features then ''true'' else ''false'') allFeatures)"

definition endpointOf :: "secret_reader \<Rightarrow> ValueType option \<Rightarrow> string go" where
  "endpointOf get endpoint =
     (case endpoint of
        None \<Rightarrow> Ret []
      | Some v \<Rightarrow> gbind (ResolveValue get v) (\<lambda>r. Ret (case r of Inl e \<Rightarrow> [] | Inr value \<Rightarrow> value)))"

definition feature :: "bool \<Rightarrow> string \<Rightarrow> string list" where
  "feature enabled name = (if enabled then [name] else [])"

text \<open>The loop of \<open>trackPipelineInfoMetric\<close>, for what one pipeline contributes to the metric.\<close>

fun trackInfo :: "('p \<Rightarrow> string list set \<Rightarrow> string list set go) \<Rightarrow> 'p list \<Rightarrow> string list set \<Rightarrow> string list set go" where
  "trackInfo f [] info = Ret info"
| "trackInfo f (p # ps) info = gbind (f p info) (trackInfo f ps)"

definition track ::
    "('p \<Rightarrow> string list set \<Rightarrow> string list set go) \<Rightarrow> 'p list \<Rightarrow> ('s, 'p, 'l) world action \<Rightarrow> ('s, 'p, 'l) world action" where
  "track f pipelines k w = gbind (trackInfo f pipelines (w_Info w)) (\<lambda>info. k (w\<lparr>w_Info := info\<rparr>))"

fun getReconcilablePipelines ::
    "('p \<Rightarrow> (go_error, bool) result go) \<Rightarrow> 'p list \<Rightarrow> (go_error, 'p list) result go" where
  "getReconcilablePipelines isReconcilable [] = Ret (Inr [])"
| "getReconcilablePipelines isReconcilable (p # ps) =
     grbind (isReconcilable p) (\<lambda>ok.
     grbind (getReconcilablePipelines isReconcilable ps) (\<lambda>qs. Ret (Inr (if ok then p # qs else qs))))"

text \<open>\<open>calculateRequeueAfterDuration\<close>: the time until the certificate expires, if the validator warns of it.\<close>

definition asCertAboutToExpire :: "go_error \<Rightarrow> time option" where
  "asCertAboutToExpire e = (case e of CertAboutToExpireError expiry _ \<Rightarrow> Some expiry | _ \<Rightarrow> None)"

definition requeueAfter :: "time \<Rightarrow> go_error option go \<Rightarrow> Duration option go" where
  "requeueAfter now validate =
     gbind validate (\<lambda>err. Ret (case err of
        None \<Rightarrow> None
      | Some e \<Rightarrow> map_option (\<lambda>expiry. expiry - now) (errors_As asCertAboutToExpire e)))"

text \<open>The end of \<open>Reconcile\<close>: reconcile, update the status whatever came of it, and ask for a requeue.\<close>

definition writeStatus ::
    "('p list \<times> go_error option) go \<Rightarrow> ('s, 'p, 'l) world action" where
  "writeStatus update w =
     gbind update (\<lambda>(written, err). Ret (w\<lparr>w_Statuses := w_Statuses w @ written\<rparr>, err))"

definition reconcileAndReport ::
    "('s, 'p, 'l) world action \<Rightarrow> ('s \<Rightarrow> ('p list \<times> go_error option) go) \<Rightarrow> ('s \<Rightarrow> Duration option go) \<Rightarrow>
     ('s, 'p, 'l) world \<Rightarrow> (('s, 'p, 'l) world \<times> (go_error, Duration option) result) go" where
  "reconcileAndReport doReconcile update requeue w =
     gbind (doReconcile w) (\<lambda>(w1, err1).
     gbind (writeStatus (update (w_Server w1)) w1) (\<lambda>(w2, err2).
       let errs1 = (case err1 of None \<Rightarrow> None | Some e \<Rightarrow> errors_Join None (wrap ''failed to reconcile: '' e));
           errs2 = (case err2 of None \<Rightarrow> errs1 | Some e \<Rightarrow> errors_Join errs1 (wrap ''failed to update status: '' e))
       in case errs2 of
            Some e \<Rightarrow> Ret (w2, Inl e)
          | None \<Rightarrow> gbind (requeue (w_Server w2)) (\<lambda>d. Ret (w2, Inr d))))"

text \<open>The start of \<open>Reconcile\<close>, up to and including the registration of the pipeline with the syncer.  The
  finalizer-free clean-up of a deleted pipeline is the branch for an object that is not found.  \<open>sync\<close> is
  \<open>syncSecretWatchers\<close>.\<close>

definition telemetryGVK :: "string \<Rightarrow> GroupVersionKind" where
  "telemetryGVK kind = \<lparr>gvk_Group = ''telemetry.kyma-project.io'', gvk_Version = ''v1beta1'', gvk_Kind = kind\<rparr>"

definition removeFromWatchers ::
    "('s, 'p, 'l) Reconciler \<Rightarrow> string \<Rightarrow> string \<Rightarrow> ('s, 'p, 'l) world action" where
  "removeFromWatchers r kind name w =
     (if r_hasSecretWatcher r
      then let (c, err) = RemoveFromWatchers name (telemetryGVK kind) (w_Watchers w)
           in Ret (w\<lparr>w_Watchers := c\<rparr>, err)
      else Panic)"

definition syncWatchers ::
    "('s, 'p, 'l) Reconciler \<Rightarrow> 'p \<Rightarrow> ObjectMeta \<Rightarrow> SecretKeyRef list go \<Rightarrow> ('s, 'p, 'l) world action" where
  "syncWatchers r p m refs w =
     gbind refs (\<lambda>secretRefs.
       if r_hasSecretWatcher r
       then let (c, err) = SyncWatchers \<lparr>pid_Name = om_Name m, pid_GVK = r_GVK r p\<rparr>
                             (RefsToSecretNames secretRefs) (w_Watchers w)
            in Ret (w\<lparr>w_Watchers := c\<rparr>, err)
       else Panic)"

definition reconcileRequest ::
    "string \<Rightarrow> SignalType \<Rightarrow> (OverridesConfig \<Rightarrow> bool) \<Rightarrow> ('p \<Rightarrow> ObjectMeta) \<Rightarrow> ('s, 'p, 'l) Reconciler \<Rightarrow>
     ('p \<Rightarrow> ('s, 'p, 'l) world action) \<Rightarrow>
     ('p \<Rightarrow> ('s, 'p, 'l) world \<Rightarrow> (('s, 'p, 'l) world \<times> (go_error, Duration option) result) go) \<Rightarrow>
     string \<Rightarrow> ('s, 'p, 'l) world \<Rightarrow> (('s, 'p, 'l) world \<times> (go_error, Duration option) result) go" where
  "reconcileRequest kind ty paused metaOf r sync run name w =
     (let (level, loaded) = LoadOverrides (r_overridesHandler r) (r_Client r) (w_Server w) (w_LogLevel w);
          w0 = w\<lparr>w_LogLevel := level\<rparr>
      in case loaded of
           Inl e \<Rightarrow> Ret (w0, Inl e)
         | Inr overrideConfig \<Rightarrow>
             if paused overrideConfig then Ret (w0, Inr None)
             else case r_Get r name of
                 Inl e \<Rightarrow>
                   (if \<not> IsNotFound e then Ret (w0, Inl (KubeError e))
                    else gbind (removeFromWatchers r kind name w0) (\<lambda>(w1, err). case err of
                        Some e' \<Rightarrow> Ret (w1, Inl e')
                      | None \<Rightarrow> gbind (removeReference r ty name w1) (\<lambda>(w2, err'). Ret (w2, case err' of
                          Some e' \<Rightarrow>
                            Inl (wrap ''failed to remove pipeline reference from OTLP Gateway Coordination ConfigMap: '' e')
                        | None \<Rightarrow> Inr None))))
               | Inr p \<Rightarrow>
                   gbind (sync p w0) (\<lambda>(w1, err). case err of
                      Some e \<Rightarrow> Ret (w1, Inl e)
                    | None \<Rightarrow>
                        (case tryLock r (r_pipelineSync r) (metaOf p) w1 of
                           (w2, LockFailed e) \<Rightarrow> Ret (w2, Inl e)
                         | (w2, Exceeded) \<Rightarrow> Ret (w2, Inr None)
                         | (w2, Acquired) \<Rightarrow> run p w2)))"

section \<open>Trace pipelines\<close>

definition trace_getEndpoint :: "secret_reader \<Rightarrow> TracePipeline \<Rightarrow> string go" where
  "trace_getEndpoint get p = endpointOf get (map_option oo_Endpoint (tps_Output (tp_Spec p)))"

abbreviation TracePipelineFeatures :: "string list" where
  "TracePipelineFeatures \<equiv> [''transform'', ''filter'']"

definition trace_trackPipelineInfo ::
    "secret_reader \<Rightarrow> TracePipeline \<Rightarrow> string list set \<Rightarrow> string list set go" where
  "trace_trackPipelineInfo get p info =
     (let features =
            feature (IsTransformDefined (tps_Transforms (tp_Spec p))) ''transform'' @
            feature (IsFilterDefined (tps_Filters (tp_Spec p))) ''filter''
      in gbind (trace_getEndpoint get p) (\<lambda>endpoint.
           Ret (recordPipelineInfo TracePipelineFeatures (om_Name (tp_ObjectMeta p)) endpoint features info)))"

definition trace_doReconcile ::
    "('s, TracePipeline, 'l) Reconciler \<Rightarrow> TracePipeline \<Rightarrow> ('s, TracePipeline, 'l) world action" where
  "trace_doReconcile r pipeline w =
     (case tryLock r (r_pipelineLock r) (tp_ObjectMeta pipeline) w of
        (w1, Exceeded) \<Rightarrow> Ret (w1, None)
      | (w1, LockFailed e) \<Rightarrow> Ret (w1, Some e)
      | (w1, Acquired) \<Rightarrow>
          ask (wrap ''failed to list trace pipelines: '') (Ret (map_sum KubeError id (r_List r))) (\<lambda>allPipelines.
          track (trace_trackPipelineInfo (r_Secrets r)) allPipelines
          (\<lambda>w2. ask (wrap ''failed to validate pipeline: '')
             (trace_isReconcilable (r_pipelineValidator r (w_Server w2)) pipeline)
             (updateReference r SignalTypeTrace (tp_ObjectMeta pipeline) (GetSecretRefsTracePipeline pipeline)) w2)) w1)"

definition trace_syncSecretWatchers ::
    "('s, TracePipeline, 'l) Reconciler \<Rightarrow> TracePipeline \<Rightarrow> ('s, TracePipeline, 'l) world action" where
  "trace_syncSecretWatchers r p = syncWatchers r p (tp_ObjectMeta p) (GetSecretRefsTracePipeline p)"

definition trace_calculateRequeueAfterDuration ::
    "('s, TracePipeline, 'l) Reconciler \<Rightarrow> TracePipeline \<Rightarrow> 's \<Rightarrow> Duration option go" where
  "trace_calculateRequeueAfterDuration r p s = requeueAfter (r_now r) (trace_validate (r_pipelineValidator r s) p)"

definition trace_Reconcile ::
    "('s, TracePipeline, 'l) Reconciler \<Rightarrow> string \<Rightarrow> ('s, TracePipeline, 'l) world \<Rightarrow>
      (('s, TracePipeline, 'l) world \<times> (go_error, Duration option) result) go" where
  "trace_Reconcile r =
     reconcileRequest ''TracePipeline'' SignalTypeTrace ov_TracingPaused tp_ObjectMeta r (trace_syncSecretWatchers r)
       (\<lambda>p. reconcileAndReport (trace_doReconcile r p)
          (\<lambda>s. trace_updateStatus (r_statusEnv r s) (r_Get r) (r_StatusUpdate r) (om_Name (tp_ObjectMeta p)))
          (trace_calculateRequeueAfterDuration r p))"

section \<open>Agents\<close>

text \<open>What the metric and log reconcilers read and call for their agent: the checkers, the Telemetry resource,
  the builder of the configuration, \<open>yaml.Marshal\<close>, \<open>url.Parse\<close>, and the applier.\<close>

record ('p, 'o, 'cfg) agent_env =
  ag_IsIstioActive :: "(go_error, bool) result"
  ag_VpaCRDExists :: "(go_error, bool) result"
  ag_Telemetry :: telemetry_reader
  ag_Namespace :: "NamespacedName \<Rightarrow> (kube_error, ObjectMeta) result"
  ag_defaultTelemetryNamespace :: string
  ag_version :: string
  ag_VPAMaxAllowedMemory :: int
  ag_Build :: "'p list \<Rightarrow> 'o \<Rightarrow> (go_error, 'cfg \<times> EnvVars) result go"
  ag_Marshal :: "'cfg \<Rightarrow> (string, string) result"
  ag_Parse :: url_parser
  ag_ApplyResources :: "ObjectMeta \<Rightarrow> AgentApplyOptions \<Rightarrow> go_error option"
  ag_DeleteResources :: "bool \<Rightarrow> go_error option"

definition applyAgent ::
    "('p, 'o, 'cfg) agent_env \<Rightarrow> ObjectMeta \<Rightarrow> AgentApplyOptions \<Rightarrow> ('s, 'p, 'l) world action" where
  "applyAgent ag owner opts w =
     Ret (w\<lparr>w_Agent := w_Agent w @ [ApplyAgent owner opts]\<rparr>, ag_ApplyResources ag owner opts)"

definition deleteAgent :: "('p, 'o, 'cfg) agent_env \<Rightarrow> bool \<Rightarrow> ('s, 'p, 'l) world action" where
  "deleteAgent ag vpaCRDExists w =
     Ret (w\<lparr>w_Agent := w_Agent w @ [DeleteAgent vpaCRDExists]\<rparr>, ag_DeleteResources ag vpaCRDExists)"

text \<open>The branch that cleans up the agent.\<close>

definition cleanUpAgent :: "('p, 'o, 'cfg) agent_env \<Rightarrow> ('s, 'p, 'l) world action" where
  "cleanUpAgent ag =
     ask (wrap ''failed to check VPA status: '') (Ret (ag_VpaCRDExists ag)) (\<lambda>vpaCRDExists.
     andThen (wrap ''failed to delete agent resources: '') (deleteAgent ag vpaCRDExists) finish)"

text \<open>The cluster options that both agents get.\<close>

definition clusterOptions ::
    "('s, 'p, 'l) Reconciler \<Rightarrow> ('p, 'o, 'cfg) agent_env \<Rightarrow> string \<Rightarrow> 's \<Rightarrow> ClusterOptions" where
  "clusterOptions r ag clusterUID s =
     \<lparr>co_ClusterName = GetClusterNameFromTelemetry (r_Client r) (ag_Telemetry ag) (ag_defaultTelemetryNamespace ag) s,
      co_ClusterUID = clusterUID,
      co_CloudProvider = ci_CloudProvider (GetGardenerShootInfo (r_Client r) s)\<rparr>"

definition telemetrySpec :: "('p, 'o, 'cfg) agent_env \<Rightarrow> TelemetrySpec" where
  "telemetrySpec ag =
     (case GetDefaultTelemetryInstance (ag_Telemetry ag) (ag_defaultTelemetryNamespace ag) of
        Inl e \<Rightarrow> \<lparr>tsp_Metric = None, tsp_Enrichments = None\<rparr>
      | Inr t \<Rightarrow> tl_Spec t)"

section \<open>Metric pipelines\<close>

text \<open>\<open>URL.Port\<close>: the digits after the last colon of the host, if there are only digits.\<close>

definition url_Port :: "URL \<Rightarrow> string" where
  "url_Port u =
     (let port = List.rev (takeWhile (\<lambda>ch. ch \<noteq> CHR '':'') (List.rev (u_Host u)))
      in if CHR '':'' \<in> set (u_Host u) \<and> list_all (\<lambda>ch. CHR ''0'' \<le> ch \<and> ch \<le> CHR ''9'') port then port else [])"

definition extractPort :: "url_parser \<Rightarrow> string \<Rightarrow> OTLPProtocol \<Rightarrow> string" where
  "extractPort parse endpoint protocol =
     (let normalizedURL = (if Contains endpoint ''://'' then endpoint else ''plhd://'' @ endpoint)
      in case parse normalizedURL of
           Inl e \<Rightarrow> []
         | Inr u \<Rightarrow> if url_Port u = [] \<and> protocol = OTLPProtocolHTTP then Itoa OTLPHTTP else url_Port u)"

definition addBackendPort ::
    "secret_reader \<Rightarrow> url_parser \<Rightarrow> MetricPipeline \<Rightarrow> string list \<Rightarrow> (go_error, string list) result go" where
  "addBackendPort get parse pipeline backendPorts =
     gderef (ms_Output (mp_Spec pipeline)) (\<lambda>out.
     gbind (ResolveValue get (oo_Endpoint (mo_OTLPOutput out))) (\<lambda>r. case r of
        Inl e \<Rightarrow> Ret (Inl (wrap ''failed to resolve the value of the OTLP output endpoint: '' e))
      | Inr endpoint \<Rightarrow>
          (let port = extractPort parse endpoint (oo_Protocol (mo_OTLPOutput out))
           in Ret (Inr (Compact (sort (if port \<noteq> [] then backendPorts @ [port] else backendPorts)))))))"

definition OTLPOutputPorts ::
    "secret_reader \<Rightarrow> url_parser \<Rightarrow> MetricPipeline list \<Rightarrow> (go_error, string list) result go" where
  "OTLPOutputPorts get parse allPipelines = range_state (addBackendPort get parse) allPipelines []"

record MetricAgentBuildOptions =
  mab_IstioActive :: bool
  mab_IstioCertPath :: string
  mab_InstrumentationScopeVersion :: string
  mab_AgentNamespace :: string
  mab_Cluster :: ClusterOptions
  mab_Enrichments :: "EnrichmentSpec option"
  mab_ServiceEnrichment :: string
  mab_VpaActive :: bool
  mab_CollectionIntervals :: MetricCollectionIntervals

abbreviation IstioCertPath :: string where
  "IstioCertPath \<equiv> ''/etc/istio-output-certs''"

definition reconcileMetricAgents ::
    "('s, MetricPipeline, 'l) Reconciler \<Rightarrow> (MetricPipeline, MetricAgentBuildOptions, 'cfg) agent_env \<Rightarrow>
     MetricPipeline \<Rightarrow> MetricPipeline list \<Rightarrow> ('s, MetricPipeline, 'l) world action" where
  "reconcileMetricAgents r ag pipeline allPipelines w =
     ask (wrap ''failed to check Istio status: '') (Ret (ag_IsIstioActive ag)) (\<lambda>isIstioActive.
     ask (wrap ''failed to get kube-system namespace for cluster UID: '') (Ret (GetClusterUID (ag_Namespace ag)))
       (\<lambda>clusterUID.
     ask (wrap ''failed to check VPA status: '') (Ret (ag_VpaCRDExists ag)) (\<lambda>vpaCRDExists.
     let isVpaEnabled = IsVpaEnabledInTelemetry (ag_Telemetry ag) (ag_defaultTelemetryNamespace ag) in
     ask (wrap ''failed to create collector config: '')
       (ag_Build ag allPipelines
         \<lparr>mab_IstioActive = isIstioActive, mab_IstioCertPath = IstioCertPath,
          mab_InstrumentationScopeVersion = ag_version ag, mab_AgentNamespace = r_targetNamespace r,
          mab_Cluster = clusterOptions r ag clusterUID (w_Server w),
          mab_Enrichments = tsp_Enrichments (telemetrySpec ag),
          mab_ServiceEnrichment =
            GetServiceEnrichmentFromTelemetryOrDefault (ag_Telemetry ag) (ag_defaultTelemetryNamespace ag),
          mab_VpaActive = (vpaCRDExists \<and> isVpaEnabled),
          mab_CollectionIntervals = ResolveMetricCollectionIntervals (tsp_Metric (telemetrySpec ag))\<rparr>)
       (\<lambda>(agentConfig, collectorEnvVars).
     ask (wrap ''failed to marshal collector config: '') (Ret (map_sum NewError id (ag_Marshal ag agentConfig)))
       (\<lambda>agentConfigYAML.
     ask (wrap ''failed to get ports of the backends: '') (OTLPOutputPorts (r_Secrets r) (ag_Parse ag) allPipelines)
       (\<lambda>backendPorts.
     andThen (wrap ''failed to apply agent resources: '')
       (applyAgent ag (mp_ObjectMeta pipeline)
         \<lparr>aao_IstioEnabled = isIstioActive, aao_VpaCRDExists = vpaCRDExists, aao_VpaEnabled = isVpaEnabled,
          aao_VPAMaxAllowedMemory = ag_VPAMaxAllowedMemory ag, aao_CollectorConfigYAML = agentConfigYAML,
          aao_CollectorEnvVars = collectorEnvVars, aao_BackendPorts = backendPorts\<rparr>) finish)))))) w"

definition metric_getEndpoint :: "secret_reader \<Rightarrow> MetricPipeline \<Rightarrow> string go" where
  "metric_getEndpoint get p =
     endpointOf get (map_option (\<lambda>out. oo_Endpoint (mo_OTLPOutput out)) (ms_Output (mp_Spec p)))"

abbreviation MetricPipelineFeatures :: "string list" where
  "MetricPipelineFeatures \<equiv>
     [''transform'', ''filter'', ''input-otlp'', ''input-runtime'', ''input-prometheus'', ''input-istio'',
      ''output-delta-temporality'']"

definition metric_trackPipelineInfo ::
    "secret_reader \<Rightarrow> MetricPipeline \<Rightarrow> string list set \<Rightarrow> string list set go" where
  "metric_trackPipelineInfo get p info =
     gbind (IsDeltaTemporality (ms_Output (mp_Spec p))) (\<lambda>delta.
       let input = ms_Input (mp_Spec p);
           features =
             feature (IsOTLPInputEnabled (mi_OTLP input)) ''input-otlp'' @
             feature (IsTransformDefined (ms_Transforms (mp_Spec p))) ''transform'' @
             feature (IsFilterDefined (ms_Filters (mp_Spec p))) ''filter'' @
             feature (IsRuntimeInputEnabled input) ''input-runtime'' @
             feature (IsPrometheusInputEnabled input) ''input-prometheus'' @
             feature (IsIstioInputEnabled input) ''input-istio'' @
             feature delta ''output-delta-temporality''
       in gbind (metric_getEndpoint get p) (\<lambda>endpoint.
            Ret (recordPipelineInfo MetricPipelineFeatures (om_Name (mp_ObjectMeta p)) endpoint features info)))"

definition metric_doReconcile ::
    "('s, MetricPipeline, 'l) Reconciler \<Rightarrow> (MetricPipeline, MetricAgentBuildOptions, 'cfg) agent_env \<Rightarrow>
     MetricPipeline \<Rightarrow> ('s, MetricPipeline, 'l) world action" where
  "metric_doReconcile r ag pipeline w =
     (case tryLock r (r_pipelineLock r) (mp_ObjectMeta pipeline) w of
        (w1, Exceeded) \<Rightarrow> Ret (w1, None)
      | (w1, LockFailed e) \<Rightarrow> Ret (w1, Some e)
      | (w1, Acquired) \<Rightarrow>
          ask (wrap ''failed to list metric pipelines: '') (Ret (map_sum KubeError id (r_List r))) (\<lambda>allPipelines.
          track (metric_trackPipelineInfo (r_Secrets r)) allPipelines
          (\<lambda>w2. ask (wrap ''failed to validate pipeline: '')
             (metric_isReconcilable (r_pipelineValidator r (w_Server w2)) pipeline)
             (\<lambda>isPipelineReconcilable.
               andThen id
                 (updateReference r SignalTypeMetric (mp_ObjectMeta pipeline) (GetSecretRefsMetricPipeline pipeline)
                   isPipelineReconcilable)
               (\<lambda>w3. ask (wrap ''failed to fetch deployable metric pipelines: '')
                  (getReconcilablePipelines (metric_isReconcilable (r_pipelineValidator r (w_Server w3))) allPipelines)
                  (\<lambda>reconcilablePipelines.
                    let requiringAgents = filter isMetricAgentRequired reconcilablePipelines
                    in if requiringAgents = [] then cleanUpAgent ag
                       else andThen (wrap ''failed to reconcile metric agents: '')
                              (reconcileMetricAgents r ag pipeline requiringAgents) finish) w3)) w2)) w1)"

definition metric_syncSecretWatchers ::
    "('s, MetricPipeline, 'l) Reconciler \<Rightarrow> MetricPipeline \<Rightarrow> ('s, MetricPipeline, 'l) world action" where
  "metric_syncSecretWatchers r p = syncWatchers r p (mp_ObjectMeta p) (GetSecretRefsMetricPipeline p)"

definition metric_calculateRequeueAfterDuration ::
    "('s, MetricPipeline, 'l) Reconciler \<Rightarrow> MetricPipeline \<Rightarrow> 's \<Rightarrow> Duration option go" where
  "metric_calculateRequeueAfterDuration r p s = requeueAfter (r_now r) (metric_validate (r_pipelineValidator r s) p)"

definition metric_Reconcile ::
    "('s, MetricPipeline, 'l) Reconciler \<Rightarrow> (MetricPipeline, MetricAgentBuildOptions, 'cfg) agent_env \<Rightarrow> string \<Rightarrow>
      ('s, MetricPipeline, 'l) world \<Rightarrow> (('s, MetricPipeline, 'l) world \<times> (go_error, Duration option) result) go" where
  "metric_Reconcile r ag =
     reconcileRequest ''MetricPipeline'' SignalTypeMetric ov_MetricsPaused mp_ObjectMeta r (metric_syncSecretWatchers r)
       (\<lambda>p. reconcileAndReport (metric_doReconcile r ag p)
          (\<lambda>s. metric_updateStatus (r_statusEnv r s) (r_Get r) (r_StatusUpdate r) (om_Name (mp_ObjectMeta p)))
          (metric_calculateRequeueAfterDuration r p))"

section \<open>Log pipelines in OTel mode\<close>

record LogAgentBuildOptions =
  lab_InstrumentationScopeVersion :: string
  lab_AgentNamespace :: string
  lab_Cluster :: ClusterOptions
  lab_Enrichments :: "EnrichmentSpec option"
  lab_ServiceEnrichment :: string
  lab_VpaActive :: bool

definition reconcileLogAgent ::
    "('s, LogPipeline, 'l) Reconciler \<Rightarrow> (LogPipeline, LogAgentBuildOptions, 'cfg) agent_env \<Rightarrow>
     LogPipeline \<Rightarrow> LogPipeline list \<Rightarrow> ('s, LogPipeline, 'l) world action" where
  "reconcileLogAgent r ag pipeline allPipelines w =
     ask (wrap ''failed to get kube-system namespace for cluster UID: '') (Ret (GetClusterUID (ag_Namespace ag)))
       (\<lambda>clusterUID.
     ask (wrap ''failed to check VPA status: '') (Ret (ag_VpaCRDExists ag)) (\<lambda>vpaCRDExists.
     let isVpaEnabled = IsVpaEnabledInTelemetry (ag_Telemetry ag) (ag_defaultTelemetryNamespace ag) in
     ask (wrap ''failed to build agent config: '')
       (ag_Build ag allPipelines
         \<lparr>lab_InstrumentationScopeVersion = ag_version ag, lab_AgentNamespace = r_targetNamespace r,
          lab_Cluster = clusterOptions r ag clusterUID (w_Server w),
          lab_Enrichments = tsp_Enrichments (telemetrySpec ag),
          lab_ServiceEnrichment =
            GetServiceEnrichmentFromTelemetryOrDefault (ag_Telemetry ag) (ag_defaultTelemetryNamespace ag),
          lab_VpaActive = (vpaCRDExists \<and> isVpaEnabled)\<rparr>)
       (\<lambda>(agentConfig, envVars).
     ask (wrap ''failed to marshal agent config: '') (Ret (map_sum NewError id (ag_Marshal ag agentConfig)))
       (\<lambda>agentConfigYAML.
     ask (wrap ''failed to check Istio status: '') (Ret (ag_IsIstioActive ag)) (\<lambda>isIstioActive.
     andThen (wrap ''failed to apply agent resources: '')
       (applyAgent ag (lp_ObjectMeta pipeline)
         \<lparr>aao_IstioEnabled = isIstioActive, aao_VpaCRDExists = vpaCRDExists, aao_VpaEnabled = isVpaEnabled,
          aao_VPAMaxAllowedMemory = ag_VPAMaxAllowedMemory ag, aao_CollectorConfigYAML = agentConfigYAML,
          aao_CollectorEnvVars = envVars, aao_BackendPorts = []\<rparr>) finish))))) w"

definition GetPipelinesForType ::
    "(kube_error, LogPipeline list) result \<Rightarrow> Mode \<Rightarrow> (go_error, LogPipeline list) result" where
  "GetPipelinesForType list mode =
     (case list of
        Inl e \<Rightarrow> Inl (wrap ''failed to get all log pipelines while syncing Fluent Bit ConfigMaps: '' (KubeError e))
      | Inr items \<Rightarrow> Inr (filter (\<lambda>lp. GetOutputType lp = mode) items))"

definition logotel_getEndpoint :: "secret_reader \<Rightarrow> LogPipeline \<Rightarrow> string go" where
  "logotel_getEndpoint get p = endpointOf get (map_option oo_Endpoint (lo_OTLP (ls_Output (lp_Spec p))))"

abbreviation LogPipelineFeatures :: "string list" where
  "LogPipelineFeatures \<equiv>
     [''transform'', ''filter'', ''input-otlp'', ''input-runtime'', ''filters-custom'', ''output-custom'',
      ''output-http'', ''variables'', ''files'']"

definition logotel_trackPipelineInfo ::
    "secret_reader \<Rightarrow> LogPipeline \<Rightarrow> string list set \<Rightarrow> string list set go" where
  "logotel_trackPipelineInfo get p info =
     (let features =
            feature (IsOTLPInputEnabled (li_OTLP (ls_Input (lp_Spec p)))) ''input-otlp'' @
            feature (IsTransformDefined (ls_Transforms (lp_Spec p))) ''transform'' @
            feature (IsFilterDefined (ls_Filters (lp_Spec p))) ''filter'' @
            feature (IsLogRuntimeInputEnabled (ls_Input (lp_Spec p))) ''input-runtime''
      in gbind (logotel_getEndpoint get p) (\<lambda>endpoint.
           Ret (recordPipelineInfo LogPipelineFeatures (om_Name (lp_ObjectMeta p)) endpoint features info)))"

definition logotel_doReconcile ::
    "('s, LogPipeline, 'l) Reconciler \<Rightarrow> (LogPipeline, LogAgentBuildOptions, 'cfg) agent_env \<Rightarrow>
     LogPipeline \<Rightarrow> ('s, LogPipeline, 'l) world action" where
  "logotel_doReconcile r ag pipeline w =
     (case tryLock r (r_pipelineLock r) (lp_ObjectMeta pipeline) w of
        (w1, Exceeded) \<Rightarrow> Ret (w1, None)
      | (w1, LockFailed e) \<Rightarrow> Ret (w1, Some (wrap ''failed to acquire lock: '' e))
      | (w1, Acquired) \<Rightarrow>
          ask id (Ret (GetPipelinesForType (r_List r) OTel)) (\<lambda>allPipelines.
          track (logotel_trackPipelineInfo (r_Secrets r)) allPipelines
          (\<lambda>w2. ask (wrap ''failed to validate pipeline: '')
             (logotel_isReconcilable (r_pipelineValidator r (w_Server w2)) pipeline)
             (\<lambda>isPipelineReconcilable.
               andThen id
                 (updateReference r SignalTypeLog (lp_ObjectMeta pipeline) (Ret (GetSecretRefsLogPipeline pipeline))
                   isPipelineReconcilable)
               (\<lambda>w3. ask (wrap ''failed to fetch deployable log pipelines: '')
                  (getReconcilablePipelines (logotel_isReconcilable (r_pipelineValidator r (w_Server w3))) allPipelines)
                  (\<lambda>reconcilablePipelines.
                    let requiringAgents = filter isLogAgentRequired reconcilablePipelines
                    in if requiringAgents = [] then cleanUpAgent ag
                       else andThen (wrap ''failed to reconcile Log Agent: '')
                              (reconcileLogAgent r ag pipeline requiringAgents) finish) w3)) w2)) w1)"

definition logotel_calculateRequeueAfterDuration ::
    "('s, LogPipeline, 'l) Reconciler \<Rightarrow> LogPipeline \<Rightarrow> 's \<Rightarrow> Duration option go" where
  "logotel_calculateRequeueAfterDuration r p s = requeueAfter (r_now r) (logotel_validate (r_pipelineValidator r s) p)"

definition logotel_Reconcile ::
    "('s, LogPipeline, 'l) Reconciler \<Rightarrow> (LogPipeline, LogAgentBuildOptions, 'cfg) agent_env \<Rightarrow> LogPipeline \<Rightarrow>
      ('s, LogPipeline, 'l) world \<Rightarrow> (('s, LogPipeline, 'l) world \<times> (go_error, Duration option) result) go" where
  "logotel_Reconcile r ag p =
     reconcileAndReport (logotel_doReconcile r ag p)
       (\<lambda>s. logotel_updateStatus (r_statusEnv r s) (r_Get r) (r_StatusUpdate r) (om_Name (lp_ObjectMeta p)))
       (logotel_calculateRequeueAfterDuration r p)"

section \<open>The log pipeline reconciler\<close>

text \<open>It registers the pipeline and passes it to the reconciler of its mode.  Without a secret watcher there is
  nothing to synchronise.\<close>

definition log_syncSecretWatchers ::
    "('s, LogPipeline, 'l) Reconciler \<Rightarrow> LogPipeline \<Rightarrow> ('s, LogPipeline, 'l) world action" where
  "log_syncSecretWatchers r p w =
     (if r_hasSecretWatcher r
      then syncWatchers r p (lp_ObjectMeta p) (Ret (GetSecretRefsLogPipeline p)) w
      else Ret (w, None))"

fun modeNumber :: "Mode \<Rightarrow> nat" where
  "modeNumber OTel = 0"
| "modeNumber FluentBit = 1"

definition log_Reconcile ::
    "('s, LogPipeline, 'l) Reconciler \<Rightarrow>
      (Mode \<rightharpoonup> (LogPipeline \<Rightarrow> ('s, LogPipeline, 'l) world \<Rightarrow>
         (('s, LogPipeline, 'l) world \<times> (go_error, Duration option) result) go)) \<Rightarrow> string \<Rightarrow>
      ('s, LogPipeline, 'l) world \<Rightarrow> (('s, LogPipeline, 'l) world \<times> (go_error, Duration option) result) go" where
  "log_Reconcile r reconcilers =
     reconcileRequest ''LogPipeline'' SignalTypeLog ov_LoggingPaused lp_ObjectMeta r (log_syncSecretWatchers r)
       (\<lambda>pipeline w.
          let outputType = GetOutputType pipeline
          in case reconcilers outputType of
               None \<Rightarrow>
                 Ret (w, Inl (Errorf [] (Sentinel ErrUnsupportedOutputType) ('': '' @ Itoa (modeNumber outputType))))
             | Some reconcile \<Rightarrow> reconcile pipeline w)"

end
