(* ===== verification/GatewayReconciler.thy ===== *)
theory GatewayReconciler
  imports PipelineReconcilers GatewayIsolation
begin

text \<open>
  The OTLP gateway reconciler (\<open>internal/reconciler/otlpgateway\<close>): it reads the coordination ConfigMap that the
  pipeline reconcilers write, fetches the pipelines it refers to, builds the collector configuration and applies or
  deletes the resources of the gateway.  The calls it makes for those resources are recorded in order; whether they
  fail is a parameter.
\<close>

section \<open>The reconciler\<close>

record GatewayApplyOptions =
  gao_CollectorConfigYAML :: string
  gao_CollectorEnvVars :: EnvVars
  gao_IstioEnabled :: bool
  gao_Replicas :: int
  gao_ResourceRequirementsMultiplier :: nat
  gao_VpaCRDExists :: bool
  gao_VpaEnabled :: bool
  gao_VPAMaxAllowedMemory :: int

datatype gateway_call =
    ApplyGateway GatewayApplyOptions
  | DeleteGateway bool bool
  | DeleteLegacyGateway string string bool

record ('s, 'l) GatewayReconciler =
  gr_Client :: "'s cm_client"
  gr_GetTrace :: "string \<Rightarrow> (kube_error, TracePipeline) result"
  gr_GetLog :: "string \<Rightarrow> (kube_error, LogPipeline) result"
  gr_GetMetric :: "string \<Rightarrow> (kube_error, MetricPipeline) result"
  gr_Secrets :: secret_reader
  gr_URL :: net_url
  gr_YAML :: yaml_codec
  gr_Marshal :: "Config \<Rightarrow> (string, string) result"
  gr_overridesHandler :: "'l overrides_handler option"
  gr_targetNamespace :: string
  gr_defaultTelemetryNamespace :: string
  gr_version :: string
  gr_IsIstioActive :: "(go_error, bool) result"
  gr_VpaCRDExists :: "(go_error, bool) result"
  gr_Telemetry :: telemetry_reader
  gr_Namespace :: "NamespacedName \<Rightarrow> (kube_error, ObjectMeta) result"
  gr_VPAMaxAllowedMemory :: int
  gr_ApplyResources :: "GatewayApplyOptions \<Rightarrow> go_error option"
  gr_DeleteResources :: "bool \<Rightarrow> bool \<Rightarrow> go_error option"
  gr_DeleteLegacyGatewayResources :: "string \<Rightarrow> string \<Rightarrow> bool \<Rightarrow> go_error option"

record 'l gateway_world =
  gw_LogLevel :: 'l
  gw_Calls :: "gateway_call list"

definition gatewayCall :: "gateway_call \<Rightarrow> go_error option \<Rightarrow> 'l gateway_world action" where
  "gatewayCall call err w = Ret (w\<lparr>gw_Calls := gw_Calls w @ [call]\<rparr>, err)"

subsection \<open>Fetching the pipelines\<close>

text \<open>The loop of the three \<open>fetch\<close> functions; \<open>what\<close> is how the error names the pipeline.\<close>

fun fetchPipelines ::
    "string \<Rightarrow> (string \<Rightarrow> (kube_error, 'p) result) \<Rightarrow> ('p \<Rightarrow> ObjectMeta) \<Rightarrow> PipelineReference list \<Rightarrow>
      (go_error, 'p list) result" where
  "fetchPipelines what get metaOf [] = Inr []"
| "fetchPipelines what get metaOf (ref # refs) =
     (case get (pr_Name ref) of
        Inl e \<Rightarrow>
          (if IsNotFound e then fetchPipelines what get metaOf refs
           else Inl (wrap (''failed to get '' @ what @ '' '' @ pr_Name ref @ '': '') (KubeError e)))
      | Inr pipeline \<Rightarrow>
          (if om_DeletionTimestamp (metaOf pipeline) \<noteq> None then fetchPipelines what get metaOf refs
           else if om_Generation (metaOf pipeline) \<noteq> pr_Generation ref then fetchPipelines what get metaOf refs
           else rbind (fetchPipelines what get metaOf refs) (\<lambda>ps. Inr (pipeline # ps))))"

definition fetchTracePipelines ::
    "('s, 'l) GatewayReconciler \<Rightarrow> PipelineReference list \<Rightarrow> (go_error, TracePipeline list) result" where
  "fetchTracePipelines r = fetchPipelines ''pipeline'' (gr_GetTrace r) tp_ObjectMeta"

definition fetchLogPipelines ::
    "('s, 'l) GatewayReconciler \<Rightarrow> PipelineReference list \<Rightarrow> (go_error, LogPipeline list) result" where
  "fetchLogPipelines r = fetchPipelines ''log pipeline'' (gr_GetLog r) lp_ObjectMeta"

definition fetchMetricPipelines ::
    "('s, 'l) GatewayReconciler \<Rightarrow> PipelineReference list \<Rightarrow> (go_error, MetricPipeline list) result" where
  "fetchMetricPipelines r = fetchPipelines ''metric pipeline'' (gr_GetMetric r) mp_ObjectMeta"

subsection \<open>Building and applying\<close>

definition gatewayBuildOptions ::
    "('s, 'l) GatewayReconciler \<Rightarrow> 's \<Rightarrow> TracePipeline list \<Rightarrow> LogPipeline list \<Rightarrow> MetricPipeline list \<Rightarrow> string \<Rightarrow> bool \<Rightarrow>
      BuildOptions" where
  "gatewayBuildOptions r s tracePipelines logPipelines metricPipelines clusterUID vpaCRDExists =
     (let ns = gr_defaultTelemetryNamespace r
      in \<lparr>bo_LogPipelines = logPipelines, bo_TracePipelines = tracePipelines, bo_MetricPipelines = metricPipelines,
          bo_Cluster = \<lparr>co_ClusterName = GetClusterNameFromTelemetry (gr_Client r) (gr_Telemetry r) ns s,
            co_ClusterUID = clusterUID, co_CloudProvider = ci_CloudProvider (GetGardenerShootInfo (gr_Client r) s)\<rparr>,
          bo_Enrichments = (case GetDefaultTelemetryInstance (gr_Telemetry r) ns of
              Inl e \<Rightarrow> None | Inr t \<Rightarrow> tsp_Enrichments (tl_Spec t)),
          bo_ServiceEnrichment = GetServiceEnrichmentFromTelemetryOrDefault (gr_Telemetry r) ns,
          bo_ModuleVersion = gr_version r, bo_GatewayNamespace = gr_targetNamespace r,
          bo_VpaActive = (vpaCRDExists \<and> IsVpaEnabledInTelemetry (gr_Telemetry r) ns)\<rparr>)"

definition buildCollectorConfig ::
    "('s, 'l) GatewayReconciler \<Rightarrow> 's \<Rightarrow> TracePipeline list \<Rightarrow> LogPipeline list \<Rightarrow> MetricPipeline list \<Rightarrow>
      (go_error, Config \<times> EnvVars) result go" where
  "buildCollectorConfig r s tracePipelines logPipelines metricPipelines =
     grbind (gwrap (wrap ''failed to get cluster uid: '') (Ret (GetClusterUID (gr_Namespace r)))) (\<lambda>clusterUID.
     grbind (gwrap (wrap ''failed to get VPA CRD: '') (Ret (gr_VpaCRDExists r))) (\<lambda>vpaCRDExists.
       Build (gr_URL r) (gr_Secrets r)
         (gatewayBuildOptions r s tracePipelines logPipelines metricPipelines clusterUID vpaCRDExists)))"

definition processConfigAndBuildResources ::
    "('s, 'l) GatewayReconciler \<Rightarrow> 's \<Rightarrow> TracePipeline list \<Rightarrow> LogPipeline list \<Rightarrow> MetricPipeline list \<Rightarrow>
      'l gateway_world action" where
  "processConfigAndBuildResources r s tracePipelines logPipelines metricPipelines =
     ask (wrap ''failed to build config: '') (buildCollectorConfig r s tracePipelines logPipelines metricPipelines)
       (\<lambda>(collectorConfig, collectorEnvVars).
     ask (wrap ''failed to marshal config: '') (Ret (map_sum NewError id (gr_Marshal r collectorConfig)))
       (\<lambda>collectorConfigYAML.
     ask (wrap ''failed to check Istio status: '') (Ret (gr_IsIstioActive r)) (\<lambda>isIstioActive.
     ask (wrap ''failed to check VPA CRD: '') (Ret (gr_VpaCRDExists r)) (\<lambda>vpaCRDExists.
       let opts = \<lparr>gao_CollectorConfigYAML = collectorConfigYAML, gao_CollectorEnvVars = collectorEnvVars,
             gao_IstioEnabled = isIstioActive, gao_Replicas = 0,
             gao_ResourceRequirementsMultiplier = length tracePipelines + length logPipelines + length metricPipelines,
             gao_VpaCRDExists = vpaCRDExists,
             gao_VpaEnabled = IsVpaEnabledInTelemetry (gr_Telemetry r) (gr_defaultTelemetryNamespace r),
             gao_VPAMaxAllowedMemory = gr_VPAMaxAllowedMemory r\<rparr>
       in gatewayCall (ApplyGateway opts) (gr_ApplyResources r opts)))))"

text \<open>The resources of the gateways that each signal type used to have.\<close>

fun deleteLegacyGateways :: "('s, 'l) GatewayReconciler \<Rightarrow> bool \<Rightarrow> string list \<Rightarrow> 'l gateway_world action" where
  "deleteLegacyGateways r isIstioActive [] = finish"
| "deleteLegacyGateways r isIstioActive (gateway # gateways) =
     andThen (wrap (''failed to delete legacy gateway '' @ gateway @ '': ''))
       (gatewayCall (DeleteLegacyGateway (gr_targetNamespace r) gateway isIstioActive)
         (gr_DeleteLegacyGatewayResources r (gr_targetNamespace r) gateway isIstioActive))
       (deleteLegacyGateways r isIstioActive gateways)"

definition cleanupLegacyGateways :: "('s, 'l) GatewayReconciler \<Rightarrow> 'l gateway_world action" where
  "cleanupLegacyGateways r =
     ask (wrap ''failed to check Istio status: '') (Ret (gr_IsIstioActive r)) (\<lambda>isIstioActive.
       deleteLegacyGateways r isIstioActive [TraceGateway, MetricGateway, LogGateway])"

definition gateway_doReconcile :: "('s, 'l) GatewayReconciler \<Rightarrow> 's \<Rightarrow> 'l gateway_world action" where
  "gateway_doReconcile r s =
     andThen (wrap ''failed to clean up legacy gateways: '') (cleanupLegacyGateways r)
     (ask (wrap ''failed to read configmap: '')
        (Ret (ReadOTLPGatewayConfig (gr_Client r) (gr_YAML r) (gr_targetNamespace r) s)) (\<lambda>config.
      ask (wrap ''failed to fetch trace pipelines: '') (Ret (fetchTracePipelines r (ogc_Trace config)))
        (\<lambda>tracePipelines.
      ask (wrap ''failed to fetch log pipelines: '') (Ret (fetchLogPipelines r (ogc_Log config))) (\<lambda>logPipelines.
      ask (wrap ''failed to fetch metric pipelines: '') (Ret (fetchMetricPipelines r (ogc_Metric config)))
        (\<lambda>metricPipelines.
        if tracePipelines = [] \<and> logPipelines = [] \<and> metricPipelines = []
        then ask (wrap ''failed to check Istio status: '') (Ret (gr_IsIstioActive r)) (\<lambda>isIstioActive.
             ask (wrap ''failed to check VPA CRD: '') (Ret (gr_VpaCRDExists r)) (\<lambda>vpaCRDExists.
             andThen (wrap ''failed to delete gateway: '')
               (gatewayCall (DeleteGateway isIstioActive vpaCRDExists)
                 (gr_DeleteResources r isIstioActive vpaCRDExists)) finish))
        else processConfigAndBuildResources r s tracePipelines logPipelines metricPipelines)))))"

definition gateway_Reconcile :: "('s, 'l) GatewayReconciler \<Rightarrow> 's \<Rightarrow> 'l gateway_world action" where
  "gateway_Reconcile r s w =
     (case gr_overridesHandler r of
        None \<Rightarrow> gateway_doReconcile r s w
      | Some h \<Rightarrow>
          (let (level, loaded) = LoadOverrides h (gr_Client r) s (gw_LogLevel w);
               w' = w\<lparr>gw_LogLevel := level\<rparr>
           in case loaded of
                Inl e \<Rightarrow> Ret (w', Some e)
              | Inr overrideConfig \<Rightarrow>
                  if ov_OTLPGatewayPaused overrideConfig then Ret (w', None) else gateway_doReconcile r s w'))"

end
