(* ===== verification/ReconcilerProperties.thy ===== *)
theory ReconcilerProperties
  imports GatewayReconciler
begin

text \<open>
  What the reconcilers do to the coordination ConfigMap and to the secret watchers, and what the gateway reconciler
  makes of the ConfigMap.  The locale \<open>reconciliation\<close> states the contract of a \<open>doReconcile\<close> function towards the
  ConfigMap; it is interpreted on those of trace, metric and log pipelines, and the end of \<open>Reconcile\<close> and the
  handling of a request are derived from it once.
\<close>

section \<open>The contract\<close>

text \<open>What is relied on of the API server, of the encoder and of \<open>SetOwnerReference\<close>; the locks are not the
  coordination ConfigMap.\<close>

definition lawful_reconciler ::
    "('s, 'p, 'l) Reconciler \<Rightarrow> ('s \<Rightarrow> NamespacedName \<Rightarrow> ConfigMap option) \<Rightarrow> ('s \<Rightarrow> nat) \<Rightarrow> (nat \<Rightarrow> string) \<Rightarrow> bool" where
  "lawful_reconciler r store rvn fmt \<longleftrightarrow>
     optimistic_api (r_Client r) store rvn fmt \<and> lawful_yaml (r_YAML r) \<and> lawful_SetOwnerReference (r_SetOwner r) \<and>
     ck_lockName (r_pipelineLock r) \<noteq> coord_key (r_targetNamespace r) \<and>
     ck_lockName (r_pipelineSync r) \<noteq> coord_key (r_targetNamespace r)"

text \<open>The references in the ConfigMap.\<close>

definition references ::
    "('s, 'p, 'l) Reconciler \<Rightarrow> ('s \<Rightarrow> NamespacedName \<Rightarrow> ConfigMap option) \<Rightarrow> 's \<Rightarrow> coord_spec option" where
  "references r store s = entries (r_YAML r) (r_targetNamespace r) (store s)"

text \<open>The update that a reconciliation is to make, given the pipeline and the state in which it is validated: add a
  reference to a reconcilable pipeline with the current versions of its Secrets, remove it for any other; none if
  the validation or the reading of the Secrets fails.\<close>

definition intended ::
    "SignalType \<Rightarrow> ('p \<Rightarrow> ObjectMeta) \<Rightarrow> ('p \<Rightarrow> SecretKeyRef list go) \<Rightarrow> ('p Validator \<Rightarrow> 'p \<Rightarrow> (go_error, bool) result go) \<Rightarrow>
     ('s, 'p, 'l) Reconciler \<Rightarrow> 'p \<Rightarrow> 's \<Rightarrow> coord_op option" where
  "intended ty metaOf refs isReconcilable r p s =
     (case isReconcilable (r_pipelineValidator r s) p of
        Ret (Inr True) \<Rightarrow>
          (case refs p of
             Ret secretRefs \<Rightarrow>
               (case CollectSecretVersions (r_Secrets r) secretRefs of
                  Inr secretVersions \<Rightarrow>
                    Some (AddReference ty \<lparr>pr_Name = om_Name (metaOf p), pr_Generation = om_Generation (metaOf p),
                      pr_SecretVersions = secretVersions\<rparr>)
                | Inl e \<Rightarrow> None)
           | Panic \<Rightarrow> None)
      | Ret (Inr False) \<Rightarrow> Some (RemoveReference ty (om_Name (metaOf p)))
      | _ \<Rightarrow> None)"

text \<open>The ConfigMap after the update, if there is one; a call that fails may also have left it as it was.\<close>

definition updated ::
    "coord_op option \<Rightarrow> coord_spec option \<Rightarrow> coord_spec option \<Rightarrow> bool \<Rightarrow> bool" where
  "updated op before after failed \<longleftrightarrow>
     (failed \<and> after = before) \<or> (\<exists>x m. op = Some x \<and> before = Some m \<and> after = Some (spec_op x m))"

text \<open>The contract of a step of the reconciliation of \<open>p\<close>, with the lock that it takes first.\<close>

definition reference_contract ::
    "('s, 'p, 'l) Reconciler \<Rightarrow> ('s \<Rightarrow> NamespacedName \<Rightarrow> ConfigMap option) \<Rightarrow> ('p \<Rightarrow> ObjectMeta) \<Rightarrow> ('s \<Rightarrow> coord_op option) \<Rightarrow>
     'p \<Rightarrow> ('s, 'p, 'l) world \<Rightarrow> ('s, 'p, 'l) world \<Rightarrow> bool \<Rightarrow> bool" where
  "reference_contract r store metaOf op p w w' failed \<longleftrightarrow>
     w_Watchers w' = w_Watchers w \<and>
     (case tryLock r (r_pipelineLock r) (metaOf p) w of (w1, res) \<Rightarrow>
        if res = Acquired
        then updated (op (w_Server w1)) (references r store (w_Server w)) (references r store (w_Server w')) failed
        else references r store (w_Server w') = references r store (w_Server w))"

section \<open>The shared steps\<close>

lemma tryLock_world:
  "w_Watchers (fst (tryLock r ck owner w)) = w_Watchers w" "w_Agent (fst (tryLock r ck owner w)) = w_Agent w"
  "w_LogLevel (fst (tryLock r ck owner w)) = w_LogLevel w" "w_Info (fst (tryLock r ck owner w)) = w_Info w"
  "w_Server (fst (tryLock r ck owner w)) = fst (TryAcquireLock (r_Client r) (r_SetOwner r) ck owner (w_Server w))"
  by (simp_all add: tryLock_def Let_def split: prod.split)

lemma tryLock_references:
  assumes "lawful_reconciler r store rvn fmt" and "ck = r_pipelineLock r \<or> ck = r_pipelineSync r"
    and "tryLock r ck owner w = (w', res)"
  shows "references r store (w_Server w') = references r store (w_Server w)" "w_Watchers w' = w_Watchers w"
proof -
  have "ck_lockName ck \<noteq> coord_key (r_targetNamespace r)" using assms(1,2) by (auto simp: lawful_reconciler_def)
  with TryAcquireLock_elsewhere [of "r_Client r" store rvn fmt "r_SetOwner r" "coord_key (r_targetNamespace r)" ck]
    assms(1) tryLock_world(5) [of r ck owner w] assms(3)
  show "references r store (w_Server w') = references r store (w_Server w)"
    by (simp add: references_def entries_def lawful_reconciler_def)
  show "w_Watchers w' = w_Watchers w" using tryLock_world(1) [of r ck owner w] assms(3) by simp
qed

lemma coord_op_updated:
  assumes "lawful_reconciler r store rvn fmt"
    and "applyConfigUpdate (r_Client r) (r_YAML r) (r_targetNamespace r) (updateFn op) s = (s', err)"
  shows "updated (Some op) (references r store s) (references r store s') (err \<noteq> None)"
proof -
  from assms(1) have "optimistic_api (r_Client r) store rvn fmt" "lawful_yaml (r_YAML r)"
    by (simp_all add: lawful_reconciler_def)
  from coord_op_effect [OF this assms(2)] show ?thesis
  proof (elim disjE exE conjE)
    assume "err \<noteq> None" "store s' = store s"
    then show ?thesis by (simp add: updated_def references_def)
  next
    fix m
    assume "entries (r_YAML r) (r_targetNamespace r) (store s) = Some m"
      "entries (r_YAML r) (r_targetNamespace r) (store s') = Some (spec_op op m)"
    then show ?thesis unfolding updated_def references_def by (intro disjI2 exI conjI) (rule refl, assumption+)
  qed
qed

lemma removeReference_effect:
  assumes "lawful_reconciler r store rvn fmt" and "removeReference r ty name w = Ret (w', err)"
  shows "w_Watchers w' = w_Watchers w"
    "updated (Some (RemoveReference ty name)) (references r store (w_Server w)) (references r store (w_Server w')) (err \<noteq> None)"
proof -
  from assms(2) obtain s' where
    "applyConfigUpdate (r_Client r) (r_YAML r) (r_targetNamespace r) (updateFn (RemoveReference ty name)) (w_Server w) = (s', err)"
    and "w' = w\<lparr>w_Server := s'\<rparr>"
    by (auto simp: removeReference_def RemovePipelineReference_def Let_def split: prod.splits)
  with coord_op_updated [OF assms(1)] show "w_Watchers w' = w_Watchers w"
    "updated (Some (RemoveReference ty name)) (references r store (w_Server w)) (references r store (w_Server w')) (err \<noteq> None)"
    by simp_all
qed

lemma addReference_effect:
  assumes "lawful_reconciler r store rvn fmt" and "addReference r ty input w = Ret (w', err)"
  shows "w_Watchers w' = w_Watchers w"
    "updated (Some (AddReference ty input)) (references r store (w_Server w)) (references r store (w_Server w')) (err \<noteq> None)"
proof -
  from assms(2) obtain s' where
    "applyConfigUpdate (r_Client r) (r_YAML r) (r_targetNamespace r) (updateFn (AddReference ty input)) (w_Server w) = (s', err)"
    and "w' = w\<lparr>w_Server := s'\<rparr>"
    by (auto simp: addReference_def AddPipelineReference_def Let_def split: prod.splits)
  with coord_op_updated [OF assms(1)] show "w_Watchers w' = w_Watchers w"
    "updated (Some (AddReference ty input)) (references r store (w_Server w)) (references r store (w_Server w')) (err \<noteq> None)"
    by simp_all
qed

text \<open>Steps that only read: an error leaves the world as it is.\<close>

lemma ask_Ret:
  "ask f m k w = Ret (w', err) \<longleftrightarrow>
     (\<exists>e. m = Ret (Inl e) \<and> w' = w \<and> err = Some (f e)) \<or> (\<exists>a. m = Ret (Inr a) \<and> k a w = Ret (w', err))"
  by (cases m) (auto simp: ask_def split: sum.splits)

lemma andThen_Ret:
  "andThen f a b w = Ret (w', err) \<longleftrightarrow>
     (\<exists>e. a w = Ret (w', Some e) \<and> err = Some (f e)) \<or> (\<exists>w1. a w = Ret (w1, None) \<and> b w1 = Ret (w', err))"
  by (cases "a w") (auto simp: andThen_def split: option.splits prod.splits)

lemma finish_Ret: "finish w = Ret (w', err) \<longleftrightarrow> w' = w \<and> err = None"
  by (auto simp: finish_def)

lemmas action_Ret = ask_Ret andThen_Ret finish_Ret

lemma updateReference_effect:
  assumes law: "lawful_reconciler r store rvn fmt"
    and call: "updateReference r ty (metaOf p) (refs p) ok w = Ret (w', err)"
    and ok: "isReconcilable (r_pipelineValidator r s) p = Ret (Inr ok)"
  shows "w_Watchers w' = w_Watchers w \<and>
    updated (intended ty metaOf refs isReconcilable r p s) (references r store (w_Server w))
      (references r store (w_Server w')) (err \<noteq> None)"
proof (cases ok)
  case True
  with call obtain secretRefs where refs: "refs p = Ret secretRefs"
    by (cases "refs p") (auto simp: updateReference_def ask_def)
  show ?thesis
  proof (cases "CollectSecretVersions (r_Secrets r) secretRefs")
    case (Inl e)
    with True call refs show ?thesis by (auto simp: updateReference_def action_Ret updated_def)
  next
    case (Inr versions)
    let ?x = "\<lparr>pr_Name = om_Name (metaOf p), pr_Generation = om_Generation (metaOf p), pr_SecretVersions = versions\<rparr>"
    from Inr True call refs obtain e where add: "addReference r ty ?x w = Ret (w', e)" and "err = None \<longleftrightarrow> e = None"
      by (auto simp: updateReference_def action_Ret)
    moreover have "intended ty metaOf refs isReconcilable r p s = Some (AddReference ty ?x)"
      using Inr True refs ok by (simp add: intended_def)
    ultimately show ?thesis using addReference_effect [OF law add] by simp
  qed
next
  case False
  with call obtain e where remove: "removeReference r ty (om_Name (metaOf p)) w = Ret (w', e)" and "err = None \<longleftrightarrow> e = None"
    by (auto simp: updateReference_def action_Ret)
  moreover have "intended ty metaOf refs isReconcilable r p s = Some (RemoveReference ty (om_Name (metaOf p)))"
    using False ok by (simp add: intended_def)
  ultimately show ?thesis using removeReference_effect [OF law remove] by simp
qed

text \<open>The world without what the rest of a reconciliation changes: the info metrics, the statuses and the agent.\<close>

definition same_core :: "('s, 'p, 'l) world \<Rightarrow> ('s, 'p, 'l) world \<Rightarrow> bool" where
  "same_core w w' \<longleftrightarrow> w_Server w' = w_Server w \<and> w_Watchers w' = w_Watchers w"

lemma same_core_trans: "same_core w w1 \<Longrightarrow> same_core w1 w2 \<Longrightarrow> same_core w w2"
  by (simp add: same_core_def)

lemma cleanUpAgent_core: "cleanUpAgent ag w = Ret (w', err) \<Longrightarrow> same_core w w'"
  by (auto simp: cleanUpAgent_def action_Ret deleteAgent_def same_core_def)

lemma applyAgent_core: "applyAgent ag owner opts w = Ret (w', err) \<Longrightarrow> same_core w w'"
  by (auto simp: applyAgent_def same_core_def)

lemma same_core_refl: "same_core w w"
  by (simp add: same_core_def)

lemma ask_core:
  assumes "ask f m k w = Ret (w', err)" and "\<And>a. k a w = Ret (w', err) \<Longrightarrow> same_core w w'"
  shows "same_core w w'"
  using assms same_core_refl by (auto simp: ask_Ret)

lemma applied_core: "andThen f (applyAgent ag owner opts) finish w = Ret (w', err) \<Longrightarrow> same_core w w'"
  by (auto simp: andThen_Ret finish_Ret dest: applyAgent_core)

lemma reconcileMetricAgents_core:
  assumes "reconcileMetricAgents r ag p ps w = Ret (w', err)"
  shows "same_core w w'"
  using assms unfolding reconcileMetricAgents_def Let_def
  by (elim ask_core) (auto split: prod.splits elim!: ask_core applied_core)

lemma reconcileLogAgent_core:
  assumes "reconcileLogAgent r ag p ps w = Ret (w', err)"
  shows "same_core w w'"
  using assms unfolding reconcileLogAgent_def Let_def
  by (elim ask_core) (auto split: prod.splits elim!: ask_core applied_core)

text \<open>The part of the metric and log reconciliations that follows the update of the ConfigMap.\<close>

lemma agent_part_core:
  assumes "ask f m (\<lambda>ps. let qs = filter req ps in if qs = [] then cleanUpAgent ag
      else andThen g (run qs) finish) w = Ret (w', err)"
    and "\<And>qs w1 e. run qs w = Ret (w1, e) \<Longrightarrow> same_core w w1"
  shows "same_core w w'"
  using assms(1)
  by (rule ask_core) (auto simp: Let_def andThen_Ret finish_Ret dest: assms(2) cleanUpAgent_core split: if_splits)

section \<open>Reconciliation\<close>

text \<open>A reconciliation that has its lock and either fails before the update or carries it out.\<close>

definition runs_update ::
    "SignalType \<Rightarrow> ('p \<Rightarrow> ObjectMeta) \<Rightarrow> ('p \<Rightarrow> SecretKeyRef list go) \<Rightarrow> ('p Validator \<Rightarrow> 'p \<Rightarrow> (go_error, bool) result go) \<Rightarrow>
     ('s, 'p, 'l) Reconciler \<Rightarrow> 'p \<Rightarrow> ('s, 'p, 'l) world \<Rightarrow> ('s, 'p, 'l) world \<Rightarrow> bool \<Rightarrow> bool" where
  "runs_update ty metaOf refs isReconcilable r p w w' failed \<longleftrightarrow>
     (same_core w w' \<and> failed) \<or>
     (\<exists>ok w2 w3 e. same_core w w2 \<and> isReconcilable (r_pipelineValidator r (w_Server w)) p = Ret (Inr ok) \<and>
        updateReference r ty (metaOf p) (refs p) ok w2 = Ret (w3, e) \<and> same_core w3 w' \<and> (e \<noteq> None \<longrightarrow> failed))"

lemma updated_failed: "updated op a b f \<Longrightarrow> (f \<Longrightarrow> g) \<Longrightarrow> updated op a b g"
  by (auto simp: updated_def)

lemma runs_update_contract:
  assumes law: "lawful_reconciler r store rvn fmt"
    and lock: "tryLock r (r_pipelineLock r) (metaOf p) w = (w1, Acquired)"
    and run: "runs_update ty metaOf refs isReconcilable r p w1 w' failed"
  shows "reference_contract r store metaOf (intended ty metaOf refs isReconcilable r p) p w w' failed"
proof -
  note pre = tryLock_references [OF law _ lock]
  from run show ?thesis unfolding runs_update_def
  proof (elim disjE exE conjE)
    assume "same_core w1 w'" failed
    with pre show ?thesis by (simp add: reference_contract_def lock same_core_def updated_def)
  next
    fix ok w2 w3 e
    assume core: "same_core w1 w2" "same_core w3 w'" and e: "e \<noteq> None \<longrightarrow> failed"
      and ok: "isReconcilable (r_pipelineValidator r (w_Server w1)) p = Ret (Inr ok)"
      and upd: "updateReference r ty (metaOf p) (refs p) ok w2 = Ret (w3, e)"
    from updateReference_effect [where metaOf = metaOf and refs = refs and isReconcilable = isReconcilable, OF law upd ok]
    have "w_Watchers w3 = w_Watchers w2" and
      "updated (intended ty metaOf refs isReconcilable r p (w_Server w1)) (references r store (w_Server w2))
         (references r store (w_Server w3)) (e \<noteq> None)" by simp_all
    with pre core updated_failed [OF this(2), of failed] e show ?thesis
      by (simp add: reference_contract_def lock same_core_def)
  qed
qed

lemma track_Ret:
  "track f ps k w = Ret (w', err) \<longleftrightarrow>
     (\<exists>info. trackInfo f ps (w_Info w) = Ret info \<and> k (w\<lparr>w_Info := info\<rparr>) = Ret (w', err))"
  by (cases "trackInfo f ps (w_Info w)") (auto simp: track_def)

lemma same_core_info: "same_core w (w\<lparr>w_Info := info\<rparr>)"
  by (simp add: same_core_def)

text \<open>The interface: what \<open>doReconcile\<close> of a pipeline kind does to the ConfigMap.\<close>

locale reconciliation =
  fixes ty :: SignalType
    and metaOf :: "'p \<Rightarrow> ObjectMeta"
    and refs :: "'p \<Rightarrow> SecretKeyRef list go"
    and isReconcilable :: "'p Validator \<Rightarrow> 'p \<Rightarrow> (go_error, bool) result go"
    and doReconcile :: "('s, 'p, 'l) Reconciler \<Rightarrow> 'p \<Rightarrow> ('s, 'p, 'l) world action"
  assumes contract: "lawful_reconciler r store rvn fmt \<Longrightarrow> doReconcile r p w = Ret (w', err) \<Longrightarrow>
    reference_contract r store metaOf (intended ty metaOf refs isReconcilable r p) p w w' (err \<noteq> None)"
begin

lemma report_contract:
  assumes law: "lawful_reconciler r store rvn fmt"
    and run: "reconcileAndReport (doReconcile r p) update requeue w = Ret (w', res)"
  shows "reference_contract r store metaOf (intended ty metaOf refs isReconcilable r p) p w w' (\<exists>e. res = Inl e)"
proof -
  from run obtain w1 err where d: "doReconcile r p w = Ret (w1, err)"
    by (cases "doReconcile r p w") (auto simp: reconcileAndReport_def)
  with run have "same_core w1 w'" "err \<noteq> None \<longrightarrow> (\<exists>e. res = Inl e)"
    by (auto simp: reconcileAndReport_def writeStatus_def gbind_eq_Ret Let_def errors_Join_def same_core_def
        split: option.splits prod.splits)
  with contract [OF law d] show ?thesis
    by (auto simp: reference_contract_def same_core_def elim: updated_failed split: prod.splits)
qed

end

text \<open>The body of the three functions, up to what follows the update.\<close>

lemma locked_body:
  assumes run: "ask f (Ret l) (\<lambda>ps. track tr ps (\<lambda>w2. ask g (isReconcilable (r_pipelineValidator r (w_Server w2)) p)
      (body ps) w2)) w1 = Ret (w', err)"
    and body: "\<And>ps ok w2. body ps ok w2 = Ret (w', err) \<Longrightarrow>
      \<exists>w3 e. updateReference r ty (metaOf p) (refs p) ok w2 = Ret (w3, e) \<and> same_core w3 w' \<and> (e \<noteq> None \<longrightarrow> err \<noteq> None)"
  shows "runs_update ty metaOf refs isReconcilable r p w1 w' (err \<noteq> None)"
  using run unfolding ask_Ret track_Ret
proof (elim disjE exE conjE)
  fix ps info ok
  let ?w2 = "w1\<lparr>w_Info := info\<rparr>"
  assume ok: "isReconcilable (r_pipelineValidator r (w_Server ?w2)) p = Ret (Inr ok)"
    and "body ps ok ?w2 = Ret (w', err)"
  from body [OF this(2)] obtain w3 e where "updateReference r ty (metaOf p) (refs p) ok ?w2 = Ret (w3, e)"
    "same_core w3 w'" "e \<noteq> None \<longrightarrow> err \<noteq> None" by blast
  with ok show ?thesis unfolding runs_update_def
    by (intro disjI2 exI conjI) (rule same_core_info, simp, assumption+)
next
  fix ps info e
  assume "w' = w1\<lparr>w_Info := info\<rparr>" "err = Some (g e)"
  then show ?thesis by (simp add: runs_update_def same_core_info)
next
  fix e
  assume "w' = w1" "err = Some (f e)"
  then show ?thesis by (simp add: runs_update_def same_core_refl)
qed

lemma update_then:
  assumes "andThen id a rest w = Ret (w', err)" and "\<And>w3. rest w3 = Ret (w', err) \<Longrightarrow> same_core w3 w'"
  shows "\<exists>w3 e. a w = Ret (w3, e) \<and> same_core w3 w' \<and> (e \<noteq> None \<longrightarrow> err \<noteq> None)"
  using assms(1) unfolding andThen_Ret
proof (elim disjE exE conjE)
  fix e
  assume "a w = Ret (w', Some e)" "err = Some (id e)"
  then show ?thesis by (intro exI conjI) (assumption, rule same_core_refl, simp)
next
  fix w1
  assume "a w = Ret (w1, None)" "rest w1 = Ret (w', err)"
  then show ?thesis using assms(2) by (intro exI conjI) (assumption, simp_all)
qed

lemma trace_contract:
  assumes law: "lawful_reconciler r store rvn fmt" and run: "trace_doReconcile r p w = Ret (w', err)"
  shows "reference_contract r store tp_ObjectMeta
    (intended SignalTypeTrace tp_ObjectMeta GetSecretRefsTracePipeline trace_isReconcilable r p) p w w' (err \<noteq> None)"
proof (cases "tryLock r (r_pipelineLock r) (tp_ObjectMeta p) w")
  case (Pair w1 res)
  show ?thesis
  proof (cases "res = Acquired")
    case True
    with Pair have lock: "tryLock r (r_pipelineLock r) (tp_ObjectMeta p) w = (w1, Acquired)" by simp
    from run have "runs_update SignalTypeTrace tp_ObjectMeta GetSecretRefsTracePipeline trace_isReconcilable r p
        w1 w' (err \<noteq> None)"
      unfolding trace_doReconcile_def lock prod.case lock_result.case
      by (rule locked_body) (intro exI conjI, assumption, rule same_core_refl, simp)
    then show ?thesis by (rule runs_update_contract [where metaOf = tp_ObjectMeta, OF law lock])
  next
    case False
    with run Pair tryLock_references [OF law _ Pair] show ?thesis
      by (cases res) (auto simp: trace_doReconcile_def reference_contract_def)
  qed
qed

lemma metric_contract:
  assumes law: "lawful_reconciler r store rvn fmt" and run: "metric_doReconcile r ag p w = Ret (w', err)"
  shows "reference_contract r store mp_ObjectMeta
    (intended SignalTypeMetric mp_ObjectMeta GetSecretRefsMetricPipeline metric_isReconcilable r p) p w w' (err \<noteq> None)"
proof (cases "tryLock r (r_pipelineLock r) (mp_ObjectMeta p) w")
  case (Pair w1 res)
  show ?thesis
  proof (cases "res = Acquired")
    case True
    with Pair have lock: "tryLock r (r_pipelineLock r) (mp_ObjectMeta p) w = (w1, Acquired)" by simp
    from run have "runs_update SignalTypeMetric mp_ObjectMeta GetSecretRefsMetricPipeline metric_isReconcilable r p
        w1 w' (err \<noteq> None)"
      unfolding metric_doReconcile_def lock prod.case lock_result.case
      by (rule locked_body) (erule update_then, erule agent_part_core, erule reconcileMetricAgents_core)
    then show ?thesis by (rule runs_update_contract [where metaOf = mp_ObjectMeta, OF law lock])
  next
    case False
    with run Pair tryLock_references [OF law _ Pair] show ?thesis
      by (cases res) (auto simp: metric_doReconcile_def reference_contract_def)
  qed
qed

lemma log_contract:
  assumes law: "lawful_reconciler r store rvn fmt" and run: "logotel_doReconcile r ag p w = Ret (w', err)"
  shows "reference_contract r store lp_ObjectMeta
    (intended SignalTypeLog lp_ObjectMeta (\<lambda>p. Ret (GetSecretRefsLogPipeline p)) logotel_isReconcilable r p) p w w' (err \<noteq> None)"
proof (cases "tryLock r (r_pipelineLock r) (lp_ObjectMeta p) w")
  case (Pair w1 res)
  show ?thesis
  proof (cases "res = Acquired")
    case True
    with Pair have lock: "tryLock r (r_pipelineLock r) (lp_ObjectMeta p) w = (w1, Acquired)" by simp
    from run have "runs_update SignalTypeLog lp_ObjectMeta (\<lambda>p. Ret (GetSecretRefsLogPipeline p)) logotel_isReconcilable r p
        w1 w' (err \<noteq> None)"
      unfolding logotel_doReconcile_def lock prod.case lock_result.case
      by (rule locked_body) (erule update_then, erule agent_part_core, erule reconcileLogAgent_core)
    then show ?thesis by (rule runs_update_contract [where metaOf = lp_ObjectMeta, OF law lock])
  next
    case False
    with run Pair tryLock_references [OF law _ Pair] show ?thesis
      by (cases res) (auto simp: logotel_doReconcile_def reference_contract_def)
  qed
qed

interpretation trace_rec: reconciliation SignalTypeTrace tp_ObjectMeta GetSecretRefsTracePipeline trace_isReconcilable
  trace_doReconcile
  by unfold_locales (rule trace_contract)

interpretation metric_rec: reconciliation SignalTypeMetric mp_ObjectMeta GetSecretRefsMetricPipeline
  metric_isReconcilable "\<lambda>r. metric_doReconcile r ag" for ag
  by unfold_locales (rule metric_contract)

interpretation log_rec: reconciliation SignalTypeLog lp_ObjectMeta "\<lambda>p. Ret (GetSecretRefsLogPipeline p)"
  logotel_isReconcilable "\<lambda>r. logotel_doReconcile r ag" for ag
  by unfold_locales (rule log_contract)

section \<open>Requests\<close>

text \<open>The two locks that a request takes in turn: the syncer and the lock with the limit.\<close>

definition lock_run :: "('s, 'p, 'l) Reconciler \<Rightarrow> ObjectMeta \<Rightarrow> 's \<Rightarrow> 's \<times> go_error option" where
  "lock_run r owner s =
     (case TryAcquireLock (r_Client r) (r_SetOwner r) (r_pipelineSync r) owner s of
        (s1, Some e) \<Rightarrow> (s1, Some e)
      | (s1, None) \<Rightarrow> TryAcquireLock (r_Client r) (r_SetOwner r) (r_pipelineLock r) owner s1)"

definition request_outcome ::
    "('s, 'p, 'l) Reconciler \<Rightarrow> ('s \<Rightarrow> NamespacedName \<Rightarrow> ConfigMap option) \<Rightarrow> SignalType \<Rightarrow> ('p \<Rightarrow> ObjectMeta) \<Rightarrow>
     ('p \<Rightarrow> 's \<Rightarrow> coord_op option) \<Rightarrow> string \<Rightarrow> 's \<Rightarrow> 's \<Rightarrow> bool \<Rightarrow> bool" where
  "request_outcome r store ty metaOf op name s s' failed \<longleftrightarrow>
     (case r_Get r name of
        Inl e \<Rightarrow>
          if IsNotFound e
          then updated (Some (RemoveReference ty name)) (references r store s) (references r store s') failed
          else references r store s' = references r store s
      | Inr p \<Rightarrow>
          (case lock_run r (metaOf p) s of
             (s1, None) \<Rightarrow> updated (op p s1) (references r store s) (references r store s') failed
           | (s1, Some e) \<Rightarrow> references r store s' = references r store s))"

definition not_paused :: "('s, 'p, 'l) Reconciler \<Rightarrow> (OverridesConfig \<Rightarrow> bool) \<Rightarrow> ('s, 'p, 'l) world \<Rightarrow> bool" where
  "not_paused r paused w \<longleftrightarrow>
     (\<exists>ov. snd (LoadOverrides (r_overridesHandler r) (r_Client r) (w_Server w) (w_LogLevel w)) = Inr ov \<and> \<not> paused ov)"

lemma tryLock_cases:
  assumes "tryLock r ck owner w = (w1, res)"
  obtains s1 err where "TryAcquireLock (r_Client r) (r_SetOwner r) ck owner (w_Server w) = (s1, err)"
    and "w1 = w\<lparr>w_Server := s1\<rparr>" and "res = Acquired \<longleftrightarrow> err = None"
  using assms by (cases "TryAcquireLock (r_Client r) (r_SetOwner r) ck owner (w_Server w)")
    (auto simp: tryLock_def split: option.splits if_splits)

lemma syncWatchers_core: "syncWatchers r p m rf w = Ret (w1, err) \<Longrightarrow> w_Server w1 = w_Server w"
  by (auto simp: syncWatchers_def gbind_eq_Ret Let_def split: prod.splits if_splits)

lemma run_outcome:
  assumes law: "lawful_reconciler r store rvn fmt" and get: "r_Get r name = Inr p"
    and sync: "w_Server w1 = w_Server w"
    and lock: "tryLock r (r_pipelineSync r) (metaOf p) w1 = (w2, res)"
    and run: "res = Acquired \<Longrightarrow> reference_contract r store metaOf (op p) p w2 w' failed"
    and refused: "res \<noteq> Acquired \<Longrightarrow> w' = w2"
  shows "request_outcome r store ty metaOf op name (w_Server w) (w_Server w') failed"
proof -
  obtain s1 err where s1: "TryAcquireLock (r_Client r) (r_SetOwner r) (r_pipelineSync r) (metaOf p) (w_Server w1) = (s1, err)"
    and w2: "w2 = w1\<lparr>w_Server := s1\<rparr>" and acq: "res = Acquired \<longleftrightarrow> err = None"
    by (rule tryLock_cases [OF lock])
  have same: "references r store s1 = references r store (w_Server w)"
    using tryLock_references(1) [OF law _ lock] w2 sync by simp
  show ?thesis
  proof (cases "res = Acquired")
    case True
    obtain w3 res3 where lock3: "tryLock r (r_pipelineLock r) (metaOf p) w2 = (w3, res3)" by fastforce
    obtain s3 err3 where "TryAcquireLock (r_Client r) (r_SetOwner r) (r_pipelineLock r) (metaOf p) s1 = (s3, err3)"
      "w_Server w3 = s3" "res3 = Acquired \<longleftrightarrow> err3 = None"
      by (rule tryLock_cases [OF lock3]) (use w2 in simp)
    with run [OF True] lock3 s1 same get w2 acq True sync show ?thesis
      by (auto simp: request_outcome_def lock_run_def reference_contract_def split: option.splits if_splits)
  next
    case False
    with acq refused [OF False] get s1 w2 same sync show ?thesis
      by (auto simp: request_outcome_def lock_run_def)
  qed
qed

lemma request_references:
  assumes law: "lawful_reconciler r store rvn fmt"
    and req: "reconcileRequest kind ty paused metaOf r sync run name w = Ret (w', res)"
    and active: "not_paused r paused w"
    and sync: "\<And>p w w1 err. sync p w = Ret (w1, err) \<Longrightarrow> w_Server w1 = w_Server w"
    and run: "\<And>p w1 w' res. r_Get r name = Inr p \<Longrightarrow> run p w1 = Ret (w', res) \<Longrightarrow>
      reference_contract r store metaOf (op p) p w1 w' (\<exists>e. res = Inl e)"
  shows "request_outcome r store ty metaOf op name (w_Server w) (w_Server w') (\<exists>e. res = Inl e)"
proof -
  from active obtain level ov where load: "LoadOverrides (r_overridesHandler r) (r_Client r) (w_Server w) (w_LogLevel w) =
      (level, Inr ov)" "\<not> paused ov" by (auto simp: not_paused_def) (metis prod.collapse)
  let ?w0 = "w\<lparr>w_LogLevel := level\<rparr>"
  show ?thesis
  proof (cases "r_Get r name")
    case (Inl e)
    show ?thesis
    proof (cases "IsNotFound e")
      case True
      with req load Inl obtain w1 err where rem: "removeFromWatchers r kind name ?w0 = Ret (w1, err)"
        by (cases "removeFromWatchers r kind name ?w0") (auto simp: reconcileRequest_def)
      then have core: "w_Server w1 = w_Server w"
        by (auto simp: removeFromWatchers_def Let_def split: if_splits prod.splits)
      show ?thesis
      proof (cases err)
        case None
        with req load Inl True rem obtain err' where ref: "removeReference r ty name w1 = Ret (w', err')"
          and "err' \<noteq> None \<longrightarrow> (\<exists>e. res = Inl e)"
          by (auto simp: reconcileRequest_def gbind_eq_Ret split: option.splits)
        with removeReference_effect(2) [OF law ref] core Inl True show ?thesis
          by (auto simp: request_outcome_def elim: updated_failed)
      next
        case (Some e')
        with req load Inl True rem core show ?thesis by (auto simp: reconcileRequest_def request_outcome_def updated_def)
      qed
    next
      case False
      with req load Inl show ?thesis by (auto simp: reconcileRequest_def request_outcome_def)
    qed
  next
    case (Inr p)
    from req load Inr obtain w1 err where s: "sync p ?w0 = Ret (w1, err)"
      by (cases "sync p ?w0") (auto simp: reconcileRequest_def)
    then have core: "w_Server w1 = w_Server w" using sync by fastforce
    show ?thesis
    proof (cases err)
      case None
      obtain w2 lres where lock: "tryLock r (r_pipelineSync r) (metaOf p) w1 = (w2, lres)" by fastforce
      with req load Inr s None have "if lres = Acquired then run p w2 = Ret (w', res) else w' = w2"
        by (auto simp: reconcileRequest_def split: lock_result.splits)
      then show ?thesis
        by (intro run_outcome [where metaOf = metaOf and op = op, OF law Inr core lock]) (auto intro: run [OF Inr] split: if_splits)
    next
      case (Some e)
      with req load Inr s have "w' = w1" "res = Inl e" by (auto simp: reconcileRequest_def)
      with core Inr show ?thesis
        by (auto simp: request_outcome_def updated_def lock_run_def split: prod.splits option.splits)
    qed
  qed
qed

lemma trace_request:
  assumes "lawful_reconciler r store rvn fmt" and "trace_Reconcile r name w = Ret (w', res)"
    and "not_paused r ov_TracingPaused w"
  shows "request_outcome r store SignalTypeTrace tp_ObjectMeta
    (intended SignalTypeTrace tp_ObjectMeta GetSecretRefsTracePipeline trace_isReconcilable r) name
    (w_Server w) (w_Server w') (\<exists>e. res = Inl e)"
  using assms unfolding trace_Reconcile_def
  by (elim request_references)
    (auto simp: trace_syncSecretWatchers_def dest: syncWatchers_core intro: trace_rec.report_contract [OF assms(1)])

lemma metric_request:
  assumes "lawful_reconciler r store rvn fmt" and "metric_Reconcile r ag name w = Ret (w', res)"
    and "not_paused r ov_MetricsPaused w"
  shows "request_outcome r store SignalTypeMetric mp_ObjectMeta
    (intended SignalTypeMetric mp_ObjectMeta GetSecretRefsMetricPipeline metric_isReconcilable r) name
    (w_Server w) (w_Server w') (\<exists>e. res = Inl e)"
  using assms unfolding metric_Reconcile_def
  by (elim request_references)
    (auto simp: metric_syncSecretWatchers_def dest: syncWatchers_core intro: metric_rec.report_contract [OF assms(1)])

lemma log_request:
  assumes "lawful_reconciler r store rvn fmt" and "log_Reconcile r reconcilers name w = Ret (w', res)"
    and "not_paused r ov_LoggingPaused w" and "reconcilers OTel = Some (logotel_Reconcile r ag)"
    and "\<And>p. r_Get r name = Inr p \<Longrightarrow> GetOutputType p = OTel"
  shows "request_outcome r store SignalTypeLog lp_ObjectMeta
    (intended SignalTypeLog lp_ObjectMeta (\<lambda>p. Ret (GetSecretRefsLogPipeline p)) logotel_isReconcilable r) name
    (w_Server w) (w_Server w') (\<exists>e. res = Inl e)"
  using assms(1-3) unfolding log_Reconcile_def
  by (elim request_references)
    (auto simp: log_syncSecretWatchers_def assms(4,5) logotel_Reconcile_def dest: syncWatchers_core
      intro: log_rec.report_contract [OF assms(1)] split: if_splits)

section \<open>The gateway\<close>

lemma fetchPipelines_iff:
  assumes "fetchPipelines what get metaOf rs = Inr ps"
  shows "p \<in> set ps \<longleftrightarrow>
    (\<exists>ref\<in>set rs. get (pr_Name ref) = Inr p \<and> om_DeletionTimestamp (metaOf p) = None \<and>
       om_Generation (metaOf p) = pr_Generation ref)"
  using assms
proof (induction rs arbitrary: ps)
  case (Cons ref rs)
  then show ?case
    by (cases "get (pr_Name ref)") (auto simp: rbind_eq_Inr split: if_splits)
qed simp

lemma read_entries:
  assumes "optimistic_api c store rvn fmt" and "ReadOTLPGatewayConfig c ym namespace s = Inr config"
  shows "entries ym namespace (store s) = Some (coord_abs config)"
proof (cases "cc_Get c (coord_key namespace) s")
  case (Inl e)
  with assms(2) have "IsNotFound e" "config = emptyConfig" by (auto simp: ReadOTLPGatewayConfig_def split: if_splits)
  with optimistic_api.get_missing [OF assms(1) Inl] show ?thesis by (simp add: entries_def parseConfig_def)
next
  case (Inr cm)
  with optimistic_api.get_found [OF assms(1) Inr] assms(2) show ?thesis
    by (auto simp: entries_def parseConfig_def ReadOTLPGatewayConfig_def split: option.splits sum.splits)
qed

text \<open>A pipeline whose reconciliation has returned no error is fetched by the gateway if and only if it is
  reconcilable.\<close>

lemma served_iff:
  assumes law: "lawful_reconciler r store rvn fmt"
    and out: "request_outcome r store ty metaOf (intended ty metaOf refs isReconcilable r) name s s' False"
    and get: "r_Get r name = Inr p" and name: "\<And>n q. r_Get r n = Inr q \<Longrightarrow> om_Name (metaOf q) = n"
    and lock: "lock_run r (metaOf p) s = (s1, None)"
    and read: "ReadOTLPGatewayConfig (r_Client r) (r_YAML r) (r_targetNamespace r) s' = Inr config"
    and slice: "getPipelineSlice config ty = Some rs" and fetch: "fetchPipelines what (r_Get r) metaOf rs = Inr ps"
    and alive: "isReconcilable (r_pipelineValidator r s1) p = Ret (Inr True) \<Longrightarrow> om_DeletionTimestamp (metaOf p) = None"
  shows "p \<in> set ps \<longleftrightarrow> isReconcilable (r_pipelineValidator r s1) p = Ret (Inr True)"
proof -
  have "references r store s' = Some (coord_abs config)"
    using read_entries [OF _ read] law by (auto simp: references_def lawful_reconciler_def)
  with out get lock obtain x m where x: "intended ty metaOf refs isReconcilable r p s1 = Some x"
    and m: "coord_abs config = spec_op x m"
    by (auto simp: request_outcome_def updated_def)
  have entry: "slice_map rs name = spec_op x m ty name" using coord_abs_get [OF slice] m by simp
  have same: "r_Get r n = Inr p \<longleftrightarrow> n = name" for n using get name by metis
  have mem: "p \<in> set ps \<longleftrightarrow> (\<exists>ref\<in>set rs. pr_Name ref = name \<and> om_DeletionTimestamp (metaOf p) = None \<and>
      om_Generation (metaOf p) = pr_Generation ref)"
    using fetchPipelines_iff [OF fetch, of p] same by simp
  show ?thesis
  proof (cases "isReconcilable (r_pipelineValidator r s1) p = Ret (Inr True)")
    case True
    with x name [OF get] obtain v where "x = AddReference ty \<lparr>pr_Name = name, pr_Generation = om_Generation (metaOf p),
        pr_SecretVersions = v\<rparr>"
      by (auto simp: intended_def split: go.splits sum.splits)
    with entry have "slice_map rs name = Some (om_Generation (metaOf p), v)" by simp
    then obtain ref where "ref \<in> set rs" "pr_Name ref = name" "pr_Generation ref = om_Generation (metaOf p)"
      by (auto simp: slice_map_def dest!: map_of_SomeD)
    with mem alive [OF True] True show ?thesis by auto
  next
    case False
    with x name [OF get] have "x = RemoveReference ty name"
      by (auto simp: intended_def split: go.splits sum.splits bool.splits)
    with entry have "slice_map rs name = None" by simp
    then have "name \<notin> pr_Name ` set rs" by (auto simp: slice_map_def map_of_eq_None_iff image_iff)
    with mem False show ?thesis by auto
  qed
qed

lemma reconcilable_alive: "reconcilable_by v m = Ret (Inr True) \<Longrightarrow> om_DeletionTimestamp m = None"
  by (auto simp: reconcilable_by_def split: if_splits)

text \<open>What the last call of a successful run of the gateway reconciler is: the deletion of the gateway if there is
  no pipeline left, and otherwise the application of the configuration that is built for the fetched pipelines.\<close>

definition gateway_applies ::
    "('s, 'l) GatewayReconciler \<Rightarrow> 's \<Rightarrow> TracePipeline list \<Rightarrow> LogPipeline list \<Rightarrow> MetricPipeline list \<Rightarrow> gateway_call \<Rightarrow> bool" where
  "gateway_applies gr s ts ls ms call \<longleftrightarrow>
     (if ts = [] \<and> ls = [] \<and> ms = [] then \<exists>istio vpa. call = DeleteGateway istio vpa
      else \<exists>uid vpa cfg opts.
        Build (gr_URL gr) (gr_Secrets gr) (gatewayBuildOptions gr s ts ls ms uid vpa) =
          Ret (Inr (cfg, gao_CollectorEnvVars opts)) \<and>
        gr_Marshal gr cfg = Inr (gao_CollectorConfigYAML opts) \<and> call = ApplyGateway opts)"

lemma process_applies:
  assumes "processConfigAndBuildResources gr s ts ls ms g = Ret (g', None)" and "\<not> (ts = [] \<and> ls = [] \<and> ms = [])"
  shows "\<exists>call. gw_Calls g' = gw_Calls g @ [call] \<and> gateway_applies gr s ts ls ms call"
proof -
  let ?opts = "\<lambda>y ev istio vpa. \<lparr>gao_CollectorConfigYAML = y, gao_CollectorEnvVars = ev, gao_IstioEnabled = istio,
      gao_Replicas = 0,
      gao_ResourceRequirementsMultiplier = length ts + length ls + length ms, gao_VpaCRDExists = vpa,
      gao_VpaEnabled = IsVpaEnabledInTelemetry (gr_Telemetry gr) (gr_defaultTelemetryNamespace gr),
      gao_VPAMaxAllowedMemory = gr_VPAMaxAllowedMemory gr\<rparr>"
  from assms(1) obtain cfg ev y istio vpa where
    build: "buildCollectorConfig gr s ts ls ms = Ret (Inr (cfg, ev))" and y: "gr_Marshal gr cfg = Inr y" and
    call: "gw_Calls g' = gw_Calls g @ [ApplyGateway (?opts y ev istio vpa)]"
    by (cases "gr_Marshal gr (fst (projr (case buildCollectorConfig gr s ts ls ms of Ret x \<Rightarrow> x)))")
      (auto simp: processConfigAndBuildResources_def ask_Ret Let_def gatewayCall_def)
  from build obtain uid v where "Build (gr_URL gr) (gr_Secrets gr) (gatewayBuildOptions gr s ts ls ms uid v) = Ret (Inr (cfg, ev))"
    by (auto simp: buildCollectorConfig_def grbind_eq_Inr)
  with y have "gateway_applies gr s ts ls ms (ApplyGateway (?opts y ev istio vpa))"
    unfolding gateway_applies_def if_not_P [OF assms(2)] by (intro exI conjI) simp_all
  with call show ?thesis by blast
qed

lemma legacy_calls:
  "deleteLegacyGateways gr istio names g = Ret (g', None) \<Longrightarrow> \<exists>calls. gw_Calls g' = gw_Calls g @ calls"
proof (induction names arbitrary: g)
  case (Cons name names)
  let ?g1 = "g\<lparr>gw_Calls := gw_Calls g @ [DeleteLegacyGateway (gr_targetNamespace gr) name istio]\<rparr>"
  from Cons.prems have "deleteLegacyGateways gr istio names ?g1 = Ret (g', None)"
    by (auto simp: andThen_Ret gatewayCall_def)
  from Cons.IH [OF this] show ?case by auto
qed (simp add: finish_Ret)

lemma gateway_run:
  assumes "gateway_doReconcile gr s g = Ret (g', None)"
  shows "\<exists>config ts ls ms calls call.
    ReadOTLPGatewayConfig (gr_Client gr) (gr_YAML gr) (gr_targetNamespace gr) s = Inr config \<and>
    fetchTracePipelines gr (ogc_Trace config) = Inr ts \<and> fetchLogPipelines gr (ogc_Log config) = Inr ls \<and>
    fetchMetricPipelines gr (ogc_Metric config) = Inr ms \<and>
    gw_Calls g' = gw_Calls g @ calls @ [call] \<and> gateway_applies gr s ts ls ms call"
proof -
  from assms obtain g1 config ts ls ms where legacy: "cleanupLegacyGateways gr g = Ret (g1, None)"
    and read: "ReadOTLPGatewayConfig (gr_Client gr) (gr_YAML gr) (gr_targetNamespace gr) s = Inr config"
    and fetch: "fetchTracePipelines gr (ogc_Trace config) = Inr ts" "fetchLogPipelines gr (ogc_Log config) = Inr ls"
      "fetchMetricPipelines gr (ogc_Metric config) = Inr ms"
    and rest: "(if ts = [] \<and> ls = [] \<and> ms = []
        then ask (wrap ''failed to check Istio status: '') (Ret (gr_IsIstioActive gr)) (\<lambda>isIstioActive.
             ask (wrap ''failed to check VPA CRD: '') (Ret (gr_VpaCRDExists gr)) (\<lambda>vpaCRDExists.
             andThen (wrap ''failed to delete gateway: '')
               (gatewayCall (DeleteGateway isIstioActive vpaCRDExists)
                 (gr_DeleteResources gr isIstioActive vpaCRDExists)) finish))
        else processConfigAndBuildResources gr s ts ls ms) g1 = Ret (g', None)"
    unfolding gateway_doReconcile_def andThen_Ret ask_Ret by blast
  from legacy obtain calls where "gw_Calls g1 = gw_Calls g @ calls"
    by (auto simp: cleanupLegacyGateways_def ask_Ret simp del: deleteLegacyGateways.simps dest: legacy_calls)
  moreover have "\<exists>call. gw_Calls g' = gw_Calls g1 @ [call] \<and> gateway_applies gr s ts ls ms call"
  proof (cases "ts = [] \<and> ls = [] \<and> ms = []")
    case True
    with rest show ?thesis by (auto simp: action_Ret gatewayCall_def gateway_applies_def)
  next
    case False
    from rest False have "processConfigAndBuildResources gr s ts ls ms g1 = Ret (g', None)" by (simp only: if_False)
    from process_applies [OF this False] show ?thesis .
  qed
  ultimately show ?thesis using read fetch by (metis append.assoc)
qed

section \<open>Secret watchers\<close>

lemma reference_watchers:
  "addReference r ty input w = Ret (w', err) \<Longrightarrow> w_Watchers w' = w_Watchers w"
  "removeReference r ty name w = Ret (w', err) \<Longrightarrow> w_Watchers w' = w_Watchers w"
  by (auto simp: addReference_def removeReference_def Let_def split: prod.splits)

lemma updateReference_watchers:
  "updateReference r ty m rf ok w = Ret (w', err) \<Longrightarrow> w_Watchers w' = w_Watchers w"
  by (auto simp: updateReference_def action_Ret dest: reference_watchers split: if_splits)

lemma runs_update_watchers:
  "runs_update ty metaOf rf isReconcilable r p w w' failed \<Longrightarrow> w_Watchers w' = w_Watchers w"
  unfolding runs_update_def same_core_def by (elim disjE exE conjE) (auto dest: updateReference_watchers)

lemma metric_doReconcile_watchers:
  assumes "metric_doReconcile r ag p w = Ret (w', err)"
  shows "w_Watchers w' = w_Watchers w"
proof (cases "tryLock r (r_pipelineLock r) (mp_ObjectMeta p) w")
  case (Pair w1 res)
  have w1: "w_Watchers w1 = w_Watchers w"
    using tryLock_world(1) [of r "r_pipelineLock r" "mp_ObjectMeta p" w] Pair by simp
  show ?thesis
  proof (cases res)
    case Acquired
    from assms have "runs_update SignalTypeMetric mp_ObjectMeta GetSecretRefsMetricPipeline metric_isReconcilable r p
        w1 w' (err \<noteq> None)"
      unfolding metric_doReconcile_def Pair Acquired prod.case lock_result.case
      by (rule locked_body) (erule update_then, erule agent_part_core, erule reconcileMetricAgents_core)
    from runs_update_watchers [OF this] w1 show ?thesis by simp
  qed (use assms Pair w1 in \<open>auto simp: metric_doReconcile_def\<close>)
qed

lemma report_watchers:
  assumes "reconcileAndReport d update requeue w = Ret (w', res)"
    and "\<And>w1 err. d w = Ret (w1, err) \<Longrightarrow> w_Watchers w1 = w_Watchers w"
  shows "w_Watchers w' = w_Watchers w"
  using assms
  by (cases "d w") (auto simp: reconcileAndReport_def writeStatus_def gbind_eq_Ret Let_def split: option.splits prod.splits)



lemma request_watchers:
  assumes req: "reconcileRequest kind ty paused metaOf r (\<lambda>p. syncWatchers r p (metaOf p) (rf p)) run name w = Ret (w', res)"
    and active: "not_paused r paused w" and ok: "client_ok (w_Watchers w)" and has: "r_hasSecretWatcher r"
    and gvk: "\<And>p. r_Get r name = Inr p \<Longrightarrow> r_GVK r p = telemetryGVK kind \<and> om_Name (metaOf p) = name"
    and run: "\<And>p w1 w' res. run p w1 = Ret (w', res) \<Longrightarrow> w_Watchers w' = w_Watchers w1"
    and q: "q = \<lparr>pid_Name = name, pid_GVK = telemetryGVK kind\<rparr>"
  shows "client_ok (w_Watchers w') \<and>
    (case r_Get r name of
       Inl e \<Rightarrow> watching (w_Watchers w') = (if IsNotFound e then watch_only q {} (watching (w_Watchers w)) else watching (w_Watchers w))
     | Inr p \<Rightarrow> \<exists>rs. rf p = Ret rs \<and>
         watching (w_Watchers w') = watch_only q (secretKeyRefName ` set rs) (watching (w_Watchers w)))"
proof -
  from active obtain level ov where load: "LoadOverrides (r_overridesHandler r) (r_Client r) (w_Server w) (w_LogLevel w) =
      (level, Inr ov)" "\<not> paused ov" by (auto simp: not_paused_def) (metis prod.collapse)
  let ?w0 = "w\<lparr>w_LogLevel := level\<rparr>"
  have run': "\<not> sw_stopped (w_Watchers w)" using ok by (simp add: client_ok_def)
  show ?thesis
  proof (cases "r_Get r name")
    case (Inl e)
    show ?thesis
    proof (cases "IsNotFound e")
      case True
      let ?w1 = "?w0\<lparr>w_Watchers := perform (Remove q) (w_Watchers w)\<rparr>"
      have rem: "removeFromWatchers r kind name ?w0 = Ret (?w1, None)"
        using has run' by (simp add: removeFromWatchers_def q RemoveFromWatchers_def)
      with req load Inl True obtain err where "removeReference r ty name ?w1 = Ret (w', err)"
        by (auto simp: reconcileRequest_def gbind_eq_Ret)
      from reference_watchers(2) [OF this] perform_step [OF ok, of "Remove q"] Inl True show ?thesis by simp
    next
      case False
      with req load Inl ok show ?thesis by (auto simp: reconcileRequest_def)
    qed
  next
    case (Inr p)
    from req load Inr obtain rs where rs: "rf p = Ret rs"
      by (cases "rf p") (auto simp: reconcileRequest_def syncWatchers_def)
    let ?w1 = "?w0\<lparr>w_Watchers := perform (Sync q (RefsToSecretNames rs)) (w_Watchers w)\<rparr>"
    have sync: "syncWatchers r p (metaOf p) (rf p) ?w0 = Ret (?w1, None)"
      using has run' gvk [OF Inr] by (simp add: syncWatchers_def rs q SyncWatchers_def Let_def)
    obtain w2 lres where lock: "tryLock r (r_pipelineSync r) (metaOf p) ?w1 = (w2, lres)" by fastforce
    with tryLock_world(1) [of r "r_pipelineSync r" "metaOf p" ?w1] have w2: "w_Watchers w2 = w_Watchers ?w1" by simp
    from req load Inr sync lock have "if lres = Acquired then run p w2 = Ret (w', res) else w' = w2"
      by (auto simp: reconcileRequest_def split: lock_result.splits)
    then have "w_Watchers w' = w_Watchers ?w1" using run w2 by (auto split: if_splits)
    with perform_step [OF ok, of "Sync q (RefsToSecretNames rs)"] Inr rs show ?thesis
      by (simp add: RefsToSecretNames_def set_dedup_seen)
  qed
qed

lemma trackInfo_Panic:
  "q \<in> set ps \<Longrightarrow> (\<And>info. f q info = Panic) \<Longrightarrow> trackInfo f ps info = Panic"
proof (induction ps arbitrary: info)
  case (Cons p ps)
  then show ?case by (cases "f p info") auto
qed simp

section \<open>An instance\<close>

text \<open>Validators that accept every pipeline, and a manager that is not paused.\<close>

definition acceptAll :: "'p Validator" where
  "acceptAll = \<lparr>v_SecretRef = (\<lambda>_. Ret None), v_Endpoint = (\<lambda>_. Ret None), v_TLSCert = (\<lambda>_. None), v_IsLockHolder = (\<lambda>_. None),
     v_Transform = (\<lambda>_. None), v_Filter = (\<lambda>_. None), v_AdditionalMetrics = (\<lambda>_. None)\<rparr>"

definition sampleHandler :: "unit overrides_handler" where
  "sampleHandler = \<lparr>oh_targetNamespace = ''kyma-system'', oh_defaultLevel = (), oh_Unmarshal = (\<lambda>_. Inr zeroOverrides),
     oh_ParseLevel = (\<lambda>_. Inr ())\<rparr>"

text \<open>A reconciler of a cluster with the given pipelines, no Secrets, and an API server that starts empty.\<close>

definition sampleReconciler ::
    "string \<Rightarrow> yaml_codec \<Rightarrow> pipelineType \<Rightarrow> ('p \<Rightarrow> ObjectMeta) \<Rightarrow> 'p list \<Rightarrow> (mem_event list, 'p, unit) Reconciler" where
  "sampleReconciler kind ym t metaOf ps =
     \<lparr>r_Client = mem_client,
      r_Get = (\<lambda>n. case find (\<lambda>p. om_Name (metaOf p) = n) ps of
         None \<Rightarrow> Inl \<lparr>ke_Reason = ReasonNotFound, ke_Message = ''not found''\<rparr> | Some p \<Rightarrow> Inr p),
      r_List = Inr ps, r_StatusUpdate = Inr, r_GVK = (\<lambda>_. telemetryGVK kind), r_Secrets = noSecrets,
      r_SetOwner = upsertOwnerRef, r_YAML = ym, r_overridesHandler = sampleHandler, r_targetNamespace = ''kyma-system'',
      r_pipelineSync = controllerSyncer ''telemetry-sync'' ''kyma-system'',
      r_pipelineLock = controllerLock False ''telemetry-lock'' ''kyma-system'',
      r_pipelineValidator = (\<lambda>_. acceptAll), r_statusEnv = (\<lambda>_. sampleEnv t [] (\<lambda>_. Ret None)),
      r_hasSecretWatcher = True, r_now = 0\<rparr>"

definition sampleWorld :: "(mem_event list, 'p, unit) world" where
  "sampleWorld = \<lparr>w_Server = [], w_Watchers = NewClient, w_LogLevel = (), w_Info = {}, w_Statuses = [], w_Agent = []\<rparr>"

definition backendTrace :: TracePipeline where
  "backendTrace = sampleTrace\<lparr>tp_ObjectMeta := zeroObjectMeta\<lparr>om_Name := ''backend'', om_Generation := 1\<rparr>\<rparr>"

lemma sample_names:
  "ck_lockName (controllerSyncer ''telemetry-sync'' ''kyma-system'') =
     \<lparr>nn_Namespace = ''kyma-system'', nn_Name = ''telemetry-sync-syncer''\<rparr>"
  "ck_lockName (controllerLock False ''telemetry-lock'' ''kyma-system'') =
     \<lparr>nn_Namespace = ''kyma-system'', nn_Name = ''telemetry-lock''\<rparr>"
  "ck_maxOwners (controllerSyncer n ns) = 0"
  by (simp_all add: controllerSyncer_def controllerLock_def NewSyncer_def NewLocker_def newChecker_def HasSuffix_def)

lemma sample_lawful:
  assumes "lawful_yaml ym"
  shows "lawful_reconciler (sampleReconciler kind ym t metaOf ps) mem_store length rv_fmt"
  using assms mem.optimistic_api_axioms upsertOwnerRef_lawful
  by (simp add: lawful_reconciler_def sampleReconciler_def sample_names coord_key_def OTLPGatewayCoordinationConfigMap_def)

lemma sample_not_paused:
  assumes "paused zeroOverrides = False"
  shows "not_paused (sampleReconciler kind ym t metaOf ps) paused sampleWorld"
  using assms
  by (simp add: not_paused_def sampleReconciler_def sampleHandler_def sampleWorld_def LoadOverrides_def
      loadOverridesConfig_def readConfigMapOrEmpty_def mem_client_def mem_Get_def IsNotFound_def syncLogLevel_def
      zeroOverrides_def)

text \<open>The objects that the server holds after the two locks are taken.\<close>

definition ownedLock :: "Checker \<Rightarrow> ObjectMeta \<Rightarrow> ConfigMap" where
  "ownedLock ck owner = (newLock ck)\<lparr>cm_ObjectMeta := (cm_ObjectMeta (newLock ck))\<lparr>om_OwnerReferences := [ownerRefOf owner]\<rparr>\<rparr>"

lemma ownedLock_key [simp]: "cm_key (ownedLock ck owner) = ck_lockName ck"
  by (simp add: ownedLock_def newLock_def cm_key_def zeroObjectMeta_def)

lemma sample_acquire:
  assumes "mem_store s (ck_lockName ck) = None"
  shows "TryAcquireLock mem_client upsertOwnerRef ck owner s = (Put (ownedLock ck owner) # s, None)"
proof -
  have "upsertOwnerRef owner (newLock ck) = Inr (ownedLock ck owner)"
    by (simp add: upsertOwnerRef_def ownedLock_def)
  with assms show ?thesis
    by (simp add: TryAcquireLock_def mem_client_def mem_Get_def IsNotFound_def createLock_def mem_Create_def)
qed

definition lockedServer :: "ObjectMeta \<Rightarrow> mem_event list" where
  "lockedServer owner =
     [Put (ownedLock (controllerLock False ''telemetry-lock'' ''kyma-system'') owner),
      Put (ownedLock (controllerSyncer ''telemetry-sync'' ''kyma-system'') owner)]"

lemma sample_lock_run:
  "lock_run (sampleReconciler kind ym t metaOf ps) owner [] = (lockedServer owner, None)"
  by (simp add: lock_run_def sampleReconciler_def sample_acquire sample_names lockedServer_def)


lemma sample_add:
  assumes "mem_store s (coord_key ''kyma-system'') = None"
  shows "AddPipelineReference mem_client sampleYaml ''kyma-system'' SignalTypeTrace sampleReference s = (Put sampleCM # s, None)"
  using assms
  by (simp add: AddPipelineReference_def applyConfigUpdate_def getConfigMap_def mem_client_def mem_Get_def IsNotFound_def
      parseConfig_def updateFn_def getPipelineSlice_def setPipelineSlice_def emptyConfig_def sampleYaml_def sampleConfig_def
      createConfigMap_def mem_Create_def)

lemma backend_meta: "tp_ObjectMeta backendTrace = zeroObjectMeta\<lparr>om_Name := ''backend'', om_Generation := 1\<rparr>"
  "tp_Spec backendTrace = tp_Spec sampleTrace"
  by (simp_all add: backendTrace_def)

abbreviation "traceRec \<equiv> sampleReconciler ''TracePipeline'' sampleYaml typeTracePipeline tp_ObjectMeta [backendTrace]"

lemma backend_refs: "GetSecretRefsTracePipeline backendTrace = Ret []"
  by (simp add: GetSecretRefsTracePipeline_def backend_meta sampleTrace_def getSecretRefsInOTLPOutput_eq tlsOutput_values
      secretRefOf_def plainValue_def opt_list_def)

lemma backend_reconcilable: "trace_isReconcilable acceptAll backendTrace = Ret (Inr True)"
  by (simp add: trace_isReconcilable_def reconcilable_by_True backend_meta zeroObjectMeta_def trace_validate_def
      validateOTLPOutput_def acceptAll_def sampleTrace_def tlsOutput_def)

lemma backend_endpoint: "\<exists>e. trace_getEndpoint noSecrets backendTrace = Ret e"
  by (simp add: trace_getEndpoint_def endpointOf_def backend_meta sampleTrace_def tlsOutput_def ResolveValue_def plainValue_def plainOTLPOutput_def)

lemma lockedServer_coord: "mem_store (lockedServer owner) (coord_key ''kyma-system'') = None"
  by (simp add: lockedServer_def sample_names coord_key_def OTLPGatewayCoordinationConfigMap_def)

lemma sampleRec_simps [simp]:
  "r_Client (sampleReconciler kind ym t metaOf ps) = mem_client"
  "r_SetOwner (sampleReconciler kind ym t metaOf ps) = upsertOwnerRef"
  "r_YAML (sampleReconciler kind ym t metaOf ps) = ym"
  "r_targetNamespace (sampleReconciler kind ym t metaOf ps) = ''kyma-system''"
  "r_List (sampleReconciler kind ym t metaOf ps) = Inr ps"
  "r_Secrets (sampleReconciler kind ym t metaOf ps) = noSecrets"
  "r_pipelineLock (sampleReconciler kind ym t metaOf ps) = controllerLock False ''telemetry-lock'' ''kyma-system''"
  "r_pipelineSync (sampleReconciler kind ym t metaOf ps) = controllerSyncer ''telemetry-sync'' ''kyma-system''"
  "r_pipelineValidator (sampleReconciler kind ym t metaOf ps) = (\<lambda>_. acceptAll)"
  "r_statusEnv (sampleReconciler kind ym t metaOf ps) = (\<lambda>_. sampleEnv t [] (\<lambda>_. Ret None))"
  "r_hasSecretWatcher (sampleReconciler kind ym t metaOf ps)"
  "r_StatusUpdate (sampleReconciler kind ym t metaOf ps) = Inr"
  "r_overridesHandler (sampleReconciler kind ym t metaOf ps) = sampleHandler"
  "r_now (sampleReconciler kind ym t metaOf ps) = 0"
  by (simp_all add: sampleReconciler_def)

lemma sample_trace_doReconcile:
  assumes "w_Server w = [Put (ownedLock (controllerSyncer ''telemetry-sync'' ''kyma-system'') (tp_ObjectMeta backendTrace))]"
  shows "\<exists>info. trace_doReconcile traceRec backendTrace w =
    Ret (w\<lparr>w_Server := Put sampleCM # lockedServer (tp_ObjectMeta backendTrace), w_Info := info\<rparr>, None)"
proof -
  let ?w1 = "w\<lparr>w_Server := lockedServer (tp_ObjectMeta backendTrace)\<rparr>"
  have lock: "tryLock traceRec (r_pipelineLock traceRec) (tp_ObjectMeta backendTrace) w = (?w1, Acquired)"
    by (simp add: tryLock_def assms sample_acquire sample_names lockedServer_def)
  obtain e where e: "trace_getEndpoint noSecrets backendTrace = Ret e" using backend_endpoint by blast
  have ref: "\<lparr>pr_Name = om_Name (tp_ObjectMeta backendTrace), pr_Generation = om_Generation (tp_ObjectMeta backendTrace),
      pr_SecretVersions = Map.empty\<rparr> = sampleReference"
    by (simp add: backend_meta sampleReference_def)
  have upd: "updateReference traceRec SignalTypeTrace (tp_ObjectMeta backendTrace) (GetSecretRefsTracePipeline backendTrace) True
      (?w1\<lparr>w_Info := info\<rparr>) = Ret (w\<lparr>w_Server := Put sampleCM # lockedServer (tp_ObjectMeta backendTrace), w_Info := info\<rparr>, None)" for info
    by (simp add: updateReference_def ask_def andThen_def backend_refs CollectSecretVersions_def addReference_def ref
        sample_add lockedServer_coord finish_def)
  show ?thesis
    by (simp add: trace_doReconcile_def lock [simplified] ask_def track_def trace_trackPipelineInfo_def e Let_def backend_reconcilable upd [simplified])
      (rule exI, rule refl)
qed


lemma backend_status:
  "\<exists>ps. trace_updateStatus (sampleEnv typeTracePipeline [] (\<lambda>_. Ret None)) (r_Get traceRec) Inr ''backend'' = Ret (ps, None)"
proof -
  have "r_Get traceRec ''backend'' = Inr backendTrace" by (simp add: sampleReconciler_def backend_meta)
  moreover have "om_DeletionTimestamp (tp_ObjectMeta backendTrace) = None" by (simp add: backend_meta zeroObjectMeta_def)
  moreover have "\<exists>p. trace_setConditions (sampleEnv typeTracePipeline [] (\<lambda>_. Ret None)) backendTrace = Ret (p, None)"
    by (simp add: trace_setConditions_def trace_setGatewayHealthyCondition_def trace_setGatewayConfigGeneratedCondition_def
        trace_setFlowHealthCondition_def trace_evaluateFlowHealthCondition_def trace_evaluateConfigGeneratedCondition_def
        evaluateConfigGenerated_def GetGatewayHealthyCondition_def probedCondition_def OTelGatewayProber_Probe_def Let_def)
  ultimately show ?thesis by (auto simp: trace_updateStatus_def updateStatusWith_def)
qed

lemma backend_registered:
  "\<exists>c. SyncWatchers \<lparr>pid_Name = ''backend'', pid_GVK = gvk\<rparr> (RefsToSecretNames []) NewClient = (c, None)"
  by (simp add: SyncWatchers_def NewClient_def)

lemma sample_trace_Reconcile:
  "\<exists>w'. trace_Reconcile traceRec ''backend'' sampleWorld = Ret (w', Inr None) \<and>
     w_Server w' = Put sampleCM # lockedServer (tp_ObjectMeta backendTrace)"
proof -
  have get: "r_Get traceRec ''backend'' = Inr backendTrace" by (simp add: sampleReconciler_def backend_meta)
  have load: "LoadOverrides sampleHandler mem_client [] () = ((), Inr zeroOverrides)"
    by (simp add: sampleHandler_def LoadOverrides_def loadOverridesConfig_def readConfigMapOrEmpty_def mem_client_def
        mem_Get_def IsNotFound_def syncLogLevel_def zeroOverrides_def)
  obtain c where sync: "trace_syncSecretWatchers traceRec backendTrace sampleWorld = Ret (sampleWorld\<lparr>w_Watchers := c\<rparr>, None)"
    using backend_registered [of "r_GVK traceRec backendTrace"]
    by (auto simp: trace_syncSecretWatchers_def syncWatchers_def backend_refs backend_meta sampleWorld_def)
  let ?w2 = "sampleWorld\<lparr>w_Watchers := c, w_Server := [Put (ownedLock (controllerSyncer ''telemetry-sync'' ''kyma-system'')
      (tp_ObjectMeta backendTrace))]\<rparr>"
  have lock: "tryLock traceRec (r_pipelineSync traceRec) (tp_ObjectMeta backendTrace) (sampleWorld\<lparr>w_Watchers := c\<rparr>) = (?w2, Acquired)"
    by (simp add: tryLock_def sampleWorld_def sample_acquire)
  from sample_trace_doReconcile [of ?w2] obtain info where run: "trace_doReconcile traceRec backendTrace ?w2 =
      Ret (?w2\<lparr>w_Server := Put sampleCM # lockedServer (tp_ObjectMeta backendTrace), w_Info := info\<rparr>, None)"
    by auto
  obtain ps where status: "trace_updateStatus (sampleEnv typeTracePipeline [] (\<lambda>_. Ret None)) (r_Get traceRec) Inr ''backend'' = Ret (ps, None)"
    using backend_status by blast
  have valid: "trace_validate acceptAll backendTrace = Ret None"
    by (simp add: trace_validate_def validateOTLPOutput_def acceptAll_def backend_meta sampleTrace_def tlsOutput_def)
  have name: "om_Name (tp_ObjectMeta backendTrace) = ''backend''" by (simp add: backend_meta)
  have world: "sampleWorld\<lparr>w_LogLevel := ()\<rparr> = sampleWorld" "w_Server sampleWorld = []" "w_LogLevel sampleWorld = ()"
    by (simp_all add: sampleWorld_def)
  show ?thesis
    by (simp add: trace_Reconcile_def reconcileRequest_def load get sync world zeroOverrides_def lock [simplified]
        reconcileAndReport_def run [simplified] writeStatus_def status name Let_def valid requeueAfter_def
        trace_calculateRequeueAfterDuration_def)
qed


definition sampleGateway :: "(mem_event list, unit) GatewayReconciler" where
  "sampleGateway =
     \<lparr>gr_Client = mem_client, gr_GetTrace = r_Get traceRec,
      gr_GetLog = (\<lambda>_. Inl \<lparr>ke_Reason = ReasonNotFound, ke_Message = ''not found''\<rparr>),
      gr_GetMetric = (\<lambda>_. Inl \<lparr>ke_Reason = ReasonNotFound, ke_Message = ''not found''\<rparr>),
      gr_Secrets = noSecrets, gr_URL = sampleNet, gr_YAML = sampleYaml, gr_Marshal = (\<lambda>_. Inr ''config''),
      gr_overridesHandler = None, gr_targetNamespace = ''kyma-system'', gr_defaultTelemetryNamespace = ''kyma-system'',
      gr_version = ''1.0'', gr_IsIstioActive = Inr False, gr_VpaCRDExists = Inr False,
      gr_Telemetry = (\<lambda>_. Inl \<lparr>ke_Reason = ReasonNotFound, ke_Message = ''not found''\<rparr>),
      gr_Namespace = (\<lambda>_. Inr zeroObjectMeta), gr_VPAMaxAllowedMemory = 0, gr_ApplyResources = (\<lambda>_. None),
      gr_DeleteResources = (\<lambda>_ _. None), gr_DeleteLegacyGatewayResources = (\<lambda>_ _ _. None)\<rparr>"

lemma sampleGateway_simps [simp]:
  "gr_Client sampleGateway = mem_client" "gr_YAML sampleGateway = sampleYaml" "gr_URL sampleGateway = sampleNet"
  "gr_Secrets sampleGateway = noSecrets" "gr_targetNamespace sampleGateway = ''kyma-system''"
  "gr_GetTrace sampleGateway = r_Get traceRec" "gr_Marshal sampleGateway = (\<lambda>_. Inr ''config'')"
  "gr_IsIstioActive sampleGateway = Inr False" "gr_VpaCRDExists sampleGateway = Inr False"
  "gr_ApplyResources sampleGateway = (\<lambda>_. None)" "gr_DeleteLegacyGatewayResources sampleGateway = (\<lambda>_ _ _. None)"
  by (simp_all add: sampleGateway_def)

lemma sample_read:
  "ReadOTLPGatewayConfig mem_client sampleYaml ''kyma-system'' (Put sampleCM # s) = Inr sampleConfig"
  by (simp add: ReadOTLPGatewayConfig_def mem_client_def mem_Get_def yamlDataOf_def newCoordinationConfigMap_def sampleYaml_def
      set_RV_def cm_key_def coord_key_def zeroObjectMeta_def)

lemma sample_gateway_run:
  "\<exists>g'. gateway_doReconcile sampleGateway (Put sampleCM # s) \<lparr>gw_LogLevel = (), gw_Calls = []\<rparr> = Ret (g', None)"
proof -
  have get: "r_Get traceRec ''backend'' = Inr backendTrace" by (simp add: sampleReconciler_def backend_meta)
  have fetch: "fetchTracePipelines sampleGateway [sampleReference] = Inr [backendTrace]"
    using get by (simp add: fetchTracePipelines_def sampleGateway_def sampleReference_def backend_meta zeroObjectMeta_def)
  let ?o = "gatewayBuildOptions sampleGateway (Put sampleCM # s) [backendTrace] [] [] [] False"
  have "renderable sampleNet noSecrets ?o"
    using sample_renders by (simp add: renderable_def gatewayBuildOptions_def Let_def backend_meta sampleTrace_def)
  from Build_complete [OF this] obtain c ev where build: "Build sampleNet noSecrets ?o = Ret (Inr (c, ev))" by blast
  have "buildCollectorConfig sampleGateway (Put sampleCM # s) [backendTrace] [] [] = Ret (Inr (c, ev))"
    using build by (simp add: buildCollectorConfig_def GetClusterUID_def sampleGateway_def zeroObjectMeta_def)
  then show ?thesis
    using fetch sample_read
    by (simp add: gateway_doReconcile_def andThen_def ask_def cleanupLegacyGateways_def gatewayCall_def finish_def
        fetchLogPipelines_def fetchMetricPipelines_def sampleConfig_def emptyConfig_def processConfigAndBuildResources_def
        Let_def)
qed


text \<open>The agents of the instance are never built.\<close>

definition noAgent :: "('p, 'o, unit) agent_env" where
  "noAgent =
     \<lparr>ag_IsIstioActive = Inr False, ag_VpaCRDExists = Inr False,
      ag_Telemetry = (\<lambda>_. Inl \<lparr>ke_Reason = ReasonNotFound, ke_Message = ''not found''\<rparr>),
      ag_Namespace = (\<lambda>_. Inr zeroObjectMeta), ag_defaultTelemetryNamespace = ''kyma-system'', ag_version = ''1.0'',
      ag_VPAMaxAllowedMemory = 0, ag_Build = (\<lambda>_ _. Panic), ag_Marshal = (\<lambda>_. Inr []), ag_Parse = (\<lambda>_. Inr sampleURL),
      ag_ApplyResources = (\<lambda>_ _. None), ag_DeleteResources = (\<lambda>_. None)\<rparr>"

lemma missing_returns:
  assumes "not_paused r paused w" and "r_Get r name = Inl e" and "IsNotFound e" and "r_hasSecretWatcher r"
  shows "\<exists>w' res. reconcileRequest kind ty paused metaOf r sync run name w = Ret (w', res)"
proof -
  from assms(1) obtain level ov where load: "LoadOverrides (r_overridesHandler r) (r_Client r) (w_Server w) (w_LogLevel w) =
      (level, Inr ov)" "\<not> paused ov" by (auto simp: not_paused_def) (metis prod.collapse)
  obtain w1 err where "removeFromWatchers r kind name (w\<lparr>w_LogLevel := level\<rparr>) = Ret (w1, err)"
    using assms(4) by (cases "RemoveFromWatchers name (telemetryGVK kind) (w_Watchers w)") (simp add: removeFromWatchers_def)
  moreover obtain w2 err2 where "removeReference r ty name w1 = Ret (w2, err2)"
    by (cases "RemovePipelineReference (r_Client r) (r_YAML r) (r_targetNamespace r) ty name (w_Server w1)")
      (simp add: removeReference_def)
  ultimately show ?thesis using load assms(2,3) by (cases err) (auto simp: reconcileRequest_def)
qed

section \<open>Properties\<close>

text \<open>C3: the gateway serves a trace pipeline exactly if it is reconcilable.  After a reconciliation of the pipeline
  that has its locks and returns no error, a run of the gateway reconciler that returns no error ends by applying the
  configuration that is built for the fetched pipelines (or by deleting the gateway if there is none), and the pipeline
  is among them if and only if \<open>isReconcilable\<close> accepted it.  The two reconcilers share the API server.\<close>

theorem gateway_serves_reconcilable_trace_pipeline:
  assumes "lawful_reconciler r store rvn fmt"
    and "\<And>n q. r_Get r n = Inr q \<Longrightarrow> om_Name (tp_ObjectMeta q) = n"
    and "trace_Reconcile r name w = Ret (w', Inr d)" and "not_paused r ov_TracingPaused w"
    and "r_Get r name = Inr p" and "lock_run r (tp_ObjectMeta p) (w_Server w) = (s1, None)"
    and "gr_Client gr = r_Client r" "gr_YAML gr = r_YAML r" "gr_targetNamespace gr = r_targetNamespace r"
      "gr_GetTrace gr = r_Get r"
    and "gateway_doReconcile gr (w_Server w') g = Ret (g', None)"
  shows "\<exists>calls call ts ls ms. gw_Calls g' = calls @ [call] \<and> gateway_applies gr (w_Server w') ts ls ms call \<and>
    (p \<in> set ts \<longleftrightarrow> trace_isReconcilable (r_pipelineValidator r s1) p = Ret (Inr True))"
proof -
  from gateway_run [OF assms(11)] obtain config ts ls ms calls call where
    read: "ReadOTLPGatewayConfig (gr_Client gr) (gr_YAML gr) (gr_targetNamespace gr) (w_Server w') = Inr config"
    and fetch: "fetchTracePipelines gr (ogc_Trace config) = Inr ts"
    and calls: "gw_Calls g' = (gw_Calls g @ calls) @ [call]" "gateway_applies gr (w_Server w') ts ls ms call"
    by auto
  have "request_outcome r store SignalTypeTrace tp_ObjectMeta
      (intended SignalTypeTrace tp_ObjectMeta GetSecretRefsTracePipeline trace_isReconcilable r) name
      (w_Server w) (w_Server w') False"
    using trace_request [OF assms(1,3,4)] by simp
  note served = served_iff [OF assms(1) this assms(5,2,6)]
  have "p \<in> set ts \<longleftrightarrow> trace_isReconcilable (r_pipelineValidator r s1) p = Ret (Inr True)"
    using read fetch assms(7-10)
    by (intro served) (auto simp: getPipelineSlice_def fetchTracePipelines_def trace_isReconcilable_def
        dest: reconcilable_alive)
  with calls show ?thesis by blast
qed

theorem gateway_serves_reconcilable_trace_pipeline_witness:
  "\<exists>w' g' calls call ts ls ms. trace_Reconcile traceRec ''backend'' sampleWorld = Ret (w', Inr None) \<and>
     gateway_doReconcile sampleGateway (w_Server w') \<lparr>gw_LogLevel = (), gw_Calls = []\<rparr> = Ret (g', None) \<and>
     gw_Calls g' = calls @ [call] \<and> gateway_applies sampleGateway (w_Server w') ts ls ms call \<and> backendTrace \<in> set ts"
proof -
  from sample_trace_Reconcile obtain w' where w': "trace_Reconcile traceRec ''backend'' sampleWorld = Ret (w', Inr None)"
    "w_Server w' = Put sampleCM # lockedServer (tp_ObjectMeta backendTrace)" by blast
  from sample_gateway_run obtain g' where
    g': "gateway_doReconcile sampleGateway (w_Server w') \<lparr>gw_LogLevel = (), gw_Calls = []\<rparr> = Ret (g', None)"
    using w'(2) by metis
  have "\<exists>calls call ts ls ms. gw_Calls g' = calls @ [call] \<and> gateway_applies sampleGateway (w_Server w') ts ls ms call \<and>
      (backendTrace \<in> set ts \<longleftrightarrow> trace_isReconcilable (r_pipelineValidator traceRec (lockedServer (tp_ObjectMeta backendTrace)))
         backendTrace = Ret (Inr True))"
  proof (rule gateway_serves_reconcilable_trace_pipeline [OF sample_lawful [OF sampleYaml_lawful] _ w'(1) sample_not_paused _ _ _ _ _ _ g'])
    show "lock_run traceRec (tp_ObjectMeta backendTrace) (w_Server sampleWorld) = (lockedServer (tp_ObjectMeta backendTrace), None)"
      using sample_lock_run by (simp add: sampleWorld_def)
  qed (auto simp: sampleReconciler_def backend_meta zeroOverrides_def find_Some_iff split: option.splits if_splits)
  with backend_reconcilable w'(1) g' show ?thesis by auto
qed

text \<open>C18: the Secrets that are watched for a metric pipeline follow its references.  Whatever comes of the rest of a
  reconciliation that is not paused, afterwards the pipeline is linked to the watchers of exactly the Secrets it refers
  to, to none if it no longer exists, and the links of other pipelines are as before.  The scheme of the client gives a
  pipeline the kind under which the reconciler removes it.\<close>

theorem metric_watchers_follow_references:
  assumes "metric_Reconcile r ag name w = Ret (w', res)" and "not_paused r ov_MetricsPaused w"
    and "client_ok (w_Watchers w)" and "r_hasSecretWatcher r"
    and "\<And>p. r_Get r name = Inr p \<Longrightarrow> r_GVK r p = telemetryGVK ''MetricPipeline'' \<and> om_Name (mp_ObjectMeta p) = name"
  shows "client_ok (w_Watchers w') \<and>
    (let q = \<lparr>pid_Name = name, pid_GVK = telemetryGVK ''MetricPipeline''\<rparr>
     in case r_Get r name of
       Inl e \<Rightarrow> watching (w_Watchers w') = (if IsNotFound e then watch_only q {} (watching (w_Watchers w)) else watching (w_Watchers w))
     | Inr p \<Rightarrow> \<exists>rs. GetSecretRefsMetricPipeline p = Ret rs \<and>
         watching (w_Watchers w') = watch_only q (secretKeyRefName ` set rs) (watching (w_Watchers w)))"
  unfolding Let_def
  by (rule request_watchers [OF assms(1) [unfolded metric_Reconcile_def metric_syncSecretWatchers_def] assms(2-5) _ refl])
    (auto elim!: report_watchers dest: metric_doReconcile_watchers)

theorem metric_watchers_follow_references_witness:
  "let r = sampleReconciler ''MetricPipeline'' sampleYaml typeMetricPipeline mp_ObjectMeta [];
       q = \<lparr>pid_Name = ''numbers'', pid_GVK = telemetryGVK ''MetricPipeline''\<rparr>;
       w = sampleWorld\<lparr>w_Watchers := perform (Sync q [\<lparr>nn_Namespace = ''default'', nn_Name = ''creds''\<rparr>]) NewClient\<rparr>
   in watching (w_Watchers w) = {(q, \<lparr>nn_Namespace = ''default'', nn_Name = ''creds''\<rparr>)} \<and>
      (\<exists>w' res. metric_Reconcile r noAgent ''numbers'' w = Ret (w', res) \<and> watching (w_Watchers w') = {})"
proof -
  let ?r = "sampleReconciler ''MetricPipeline'' sampleYaml typeMetricPipeline mp_ObjectMeta []"
  let ?q = "\<lparr>pid_Name = ''numbers'', pid_GVK = telemetryGVK ''MetricPipeline''\<rparr>"
  let ?x = "Sync ?q [\<lparr>nn_Namespace = ''default'', nn_Name = ''creds''\<rparr>]"
  let ?w = "sampleWorld\<lparr>w_Watchers := perform ?x NewClient\<rparr> :: (mem_event list, MetricPipeline, unit) world"
  have linked: "client_ok (perform ?x NewClient)"
    "watching (perform ?x NewClient) = {(?q, \<lparr>nn_Namespace = ''default'', nn_Name = ''creds''\<rparr>)}"
    using perform_step [OF client_ok_NewClient(1), of ?x] client_ok_NewClient(2) by (auto simp: watch_only_def)
  have active: "not_paused ?r ov_MetricsPaused ?w"
    using sample_not_paused [of ov_MetricsPaused, of "''MetricPipeline''" sampleYaml typeMetricPipeline mp_ObjectMeta "[]"]
    by (simp add: not_paused_def sampleWorld_def zeroOverrides_def)
  have get: "r_Get ?r ''numbers'' = Inl \<lparr>ke_Reason = ReasonNotFound, ke_Message = ''not found''\<rparr>"
    by (simp add: sampleReconciler_def)
  have "\<exists>w' res. metric_Reconcile ?r noAgent ''numbers'' ?w = Ret (w', res)"
    unfolding metric_Reconcile_def by (rule missing_returns [OF active get]) (simp_all add: IsNotFound_def)
  then obtain w' res where run: "metric_Reconcile ?r noAgent ''numbers'' ?w = Ret (w', res)" by blast
  have "client_ok (w_Watchers ?w)" "r_hasSecretWatcher ?r" using linked(1) by simp_all
  from metric_watchers_follow_references [OF run active this] have "watching (w_Watchers w') = {}"
    by (simp add: get linked(2) IsNotFound_def Let_def watch_only_def del: perform.simps)
  with linked run show ?thesis by (auto simp: Let_def)
qed

text \<open>C36: one metric pipeline stops the reconciliation of all.  If any metric pipeline of the cluster has an endpoint
  with an empty value and no reference, or no temporality, then the reconciliation of every metric pipeline that has
  its lock panics, before the pipeline is validated or written to the ConfigMap.\<close>

theorem unset_endpoint_blocks_metric_pipelines:
  assumes "TryAcquireLock (r_Client r) (r_SetOwner r) (r_pipelineLock r) (mp_ObjectMeta p) (w_Server w) = (s1, None)"
    and "r_List r = Inr ps" and "q \<in> set ps" and "ms_Output (mp_Spec q) = Some out"
    and "mo_Temporality out = None \<or> oo_Endpoint (mo_OTLPOutput out) = \<lparr>vt_Value = [], vt_ValueFrom = None\<rparr>"
  shows "metric_doReconcile r ag p w = Panic"
proof -
  have "metric_trackPipelineInfo (r_Secrets r) q info = Panic" for info
    using assms(4,5)
    by (cases "mo_Temporality out") (auto simp: metric_trackPipelineInfo_def IsDeltaTemporality_def metric_getEndpoint_def
        endpointOf_def ResolveValue_def Let_def)
  from trackInfo_Panic [where f = "metric_trackPipelineInfo (r_Secrets r)", OF assms(3) this] assms(1,2) show ?thesis
    by (simp add: metric_doReconcile_def tryLock_def ask_def track_def)
qed

theorem unset_endpoint_blocks_metric_pipelines_witness:
  "\<exists>bad. mp_ObjectMeta bad \<noteq> mp_ObjectMeta sampleMetric \<and>
     metric_doReconcile (sampleReconciler ''MetricPipeline'' sampleYaml typeMetricPipeline mp_ObjectMeta [sampleMetric, bad])
       noAgent sampleMetric sampleWorld = Panic"
proof -
  let ?bad = "sampleMetric\<lparr>mp_ObjectMeta := zeroObjectMeta\<lparr>om_Name := ''bad''\<rparr>,
      mp_Spec := (mp_Spec sampleMetric)\<lparr>ms_Output := Some \<lparr>mo_OTLPOutput = tlsOutput, mo_Temporality = None\<rparr>\<rparr>\<rparr>"
  let ?r = "sampleReconciler ''MetricPipeline'' sampleYaml typeMetricPipeline mp_ObjectMeta [sampleMetric, ?bad]"
  let ?w = "sampleWorld :: (mem_event list, MetricPipeline, unit) world"
  have "TryAcquireLock (r_Client ?r) (r_SetOwner ?r) (r_pipelineLock ?r) (mp_ObjectMeta sampleMetric) (w_Server ?w) =
      ([Put (ownedLock (r_pipelineLock ?r) (mp_ObjectMeta sampleMetric))], None)"
    by (simp add: sampleWorld_def sample_acquire)
  from unset_endpoint_blocks_metric_pipelines [OF this, of "[sampleMetric, ?bad]" ?bad, where ag = noAgent]
  have "metric_doReconcile ?r noAgent sampleMetric ?w = Panic" by simp
  moreover have "mp_ObjectMeta ?bad \<noteq> mp_ObjectMeta sampleMetric" by (simp add: sampleMetric_def zeroObjectMeta_def)
  ultimately show ?thesis by blast
qed

text \<open>C4: what a reconciliation does to the coordination ConfigMap, for log pipelines in OTel mode.  A pipeline that no
  longer exists is removed from it.  One that gets both locks is added with its generation and the current versions of
  its Secrets if it is reconcilable, and removed otherwise; if the reconciliation returns an error, the ConfigMap may
  also be as before.  One that does not get the locks leaves it as it is.  In every case the references to all other
  pipelines are the same.\<close>

theorem log_reconcile_references:
  assumes "lawful_reconciler r store rvn fmt" and "log_Reconcile r reconcilers name w = Ret (w', res)"
    and "not_paused r ov_LoggingPaused w" and "reconcilers OTel = Some (logotel_Reconcile r ag)"
    and "\<forall>p. r_Get r name = Inr p \<longrightarrow> GetOutputType p = OTel \<and> om_Name (lp_ObjectMeta p) = name"
    and "references r store (w_Server w) = Some m"
  shows "request_outcome r store SignalTypeLog lp_ObjectMeta
      (intended SignalTypeLog lp_ObjectMeta (\<lambda>p. Ret (GetSecretRefsLogPipeline p)) logotel_isReconcilable r) name
      (w_Server w) (w_Server w') (\<exists>e. res = Inl e) \<and>
    (\<exists>m'. references r store (w_Server w') = Some m' \<and>
       (\<forall>ty n. (ty, n) \<noteq> (SignalTypeLog, name) \<longrightarrow> m' ty n = m ty n))"
proof -
  let ?i = "intended SignalTypeLog lp_ObjectMeta (\<lambda>p. Ret (GetSecretRefsLogPipeline p)) logotel_isReconcilable r"
  have out: "request_outcome r store SignalTypeLog lp_ObjectMeta ?i name (w_Server w) (w_Server w') (\<exists>e. res = Inl e)"
    using log_request [OF assms(1-4)] assms(5) by blast
  have own: "\<exists>m'. references r store (w_Server w') = Some m' \<and> (\<forall>ty n. (ty, n) \<noteq> (SignalTypeLog, name) \<longrightarrow> m' ty n = m ty n)"
    if "updated op (references r store (w_Server w)) (references r store (w_Server w')) failed"
      and "\<And>x. op = Some x \<Longrightarrow> (\<exists>i. x = AddReference SignalTypeLog i \<and> pr_Name i = name) \<or> x = RemoveReference SignalTypeLog name"
    for op failed
    using that assms(6) by (fastforce simp: updated_def)
  have "?i p s = Some x \<Longrightarrow> r_Get r name = Inr p \<Longrightarrow>
      (\<exists>i. x = AddReference SignalTypeLog i \<and> pr_Name i = name) \<or> x = RemoveReference SignalTypeLog name" for p s x
    using assms(5) by (auto simp: intended_def split: go.splits sum.splits bool.splits)
  with out own assms(6) show ?thesis
    by (auto simp: request_outcome_def split: sum.splits if_splits prod.splits option.splits)
qed

theorem log_reconcile_references_witness:
  "\<exists>w' res m'. let r = sampleReconciler ''LogPipeline'' sampleYaml typeLogPipeline lp_ObjectMeta [] in
     log_Reconcile r [OTel \<mapsto> logotel_Reconcile r noAgent] ''audit'' (sampleWorld\<lparr>w_Server := [Put sampleCM]\<rparr>) = Ret (w', res) \<and>
     references r mem_store (w_Server w') = Some m' \<and> m' SignalTypeTrace ''backend'' = Some (1, Map.empty)"
proof -
  let ?r = "sampleReconciler ''LogPipeline'' sampleYaml typeLogPipeline lp_ObjectMeta [] ::
      (mem_event list, LogPipeline, unit) Reconciler"
  let ?w = "sampleWorld\<lparr>w_Server := [Put sampleCM]\<rparr> :: (mem_event list, LogPipeline, unit) world"
  let ?m = "[OTel \<mapsto> logotel_Reconcile ?r noAgent]"
  have get: "r_Get ?r ''audit'' = Inl \<lparr>ke_Reason = ReasonNotFound, ke_Message = ''not found''\<rparr>"
    by (simp add: sampleReconciler_def)
  have "mem_store [Put sampleCM] \<lparr>nn_Namespace = ''kyma-system'', nn_Name = OverrideConfigMap\<rparr> = None"
    by (simp add: coord_key_def OTLPGatewayCoordinationConfigMap_def)
  then have active: "not_paused ?r ov_LoggingPaused ?w"
    by (simp add: not_paused_def sampleHandler_def sampleWorld_def LoadOverrides_def loadOverridesConfig_def
        readConfigMapOrEmpty_def mem_client_def mem_Get_def IsNotFound_def syncLogLevel_def zeroOverrides_def)
  have before: "references ?r mem_store (w_Server ?w) = Some (coord_abs sampleConfig)"
    using read_entries [OF mem.optimistic_api_axioms sample_read, of "[]"] by (simp add: references_def)
  have "\<exists>w' res. log_Reconcile ?r ?m ''audit'' ?w = Ret (w', res)"
    unfolding log_Reconcile_def by (rule missing_returns [OF active get]) (simp_all add: IsNotFound_def)
  then obtain w' res where run: "log_Reconcile ?r ?m ''audit'' ?w = Ret (w', res)" by blast
  have "?m OTel = Some (logotel_Reconcile ?r noAgent)" by simp
  have mode: "\<forall>p. r_Get ?r ''audit'' = Inr p \<longrightarrow> GetOutputType p = OTel \<and> om_Name (lp_ObjectMeta p) = ''audit''"
    by (simp add: get)
  from log_reconcile_references [OF sample_lawful [OF sampleYaml_lawful] run active \<open>?m OTel = _\<close> mode before]
  have "\<exists>m'. references ?r mem_store (w_Server w') = Some m' \<and>
      (\<forall>ty n. (ty, n) \<noteq> (SignalTypeLog, ''audit'') \<longrightarrow> m' ty n = coord_abs sampleConfig ty n)"
    by (elim conjE)
  then obtain m' where "references ?r mem_store (w_Server w') = Some m'"
    and "m' SignalTypeTrace ''backend'' = coord_abs sampleConfig SignalTypeTrace ''backend''"
    by (auto simp: signal_type_defs)
  moreover have "coord_abs sampleConfig SignalTypeTrace ''backend'' = Some (1, Map.empty)"
    by (simp add: coord_abs_def getPipelineSlice_def sampleConfig_def slice_map_def sampleReference_def)
  ultimately show ?thesis using run by (auto simp: Let_def)
qed

end
