(* ===== verification/Webhooks.thy ===== *)
theory Webhooks
  imports Api_Conversion ReconcilerProperties
begin

text \<open>
  The admission webhooks (\<open>webhook\<close>): the defaulters and validators of metric, trace and log pipelines in both
  API versions, with the settings that \<open>SetupWithManager\<close> gives them.  A definition whose name ends in \<open>A\<close> is the
  one of \<open>v1alpha1\<close>.  A validator returns the warnings or an error.

  Shown here: defaulting completes a pipeline and does not change a complete one; what the \<open>v1alpha1\<close> webhook
  defaulted needs no further default after its conversion, and is what the \<open>v1beta1\<close> webhook sets but for inactive
  parts; the validators admit exactly the specs that the OTTL and runtime metric checks of the reconcilers accept; and the reconciliation of metric pipelines that went through the webhook does not panic.
\<close>

section \<open>Defaulters\<close>

text \<open>\<open>if x == nil { x = &d }\<close>.\<close>

definition orDefault :: "'a option \<Rightarrow> 'a \<Rightarrow> 'a option" where
  "orDefault p d = (case p of None \<Rightarrow> Some d | Some v \<Rightarrow> Some v)"

lemma orDefault_simps [simp]:
  "orDefault None d = Some d"
  "orDefault (Some v) d = Some v"
  "orDefault (orDefault p d) d' = orDefault p d"
  "orDefault p d \<noteq> None"
  "\<exists>y. orDefault p d = Some y"
  by (cases p; simp add: orDefault_def)+

subsection \<open>OTLP outputs and inputs\<close>

text \<open>The same three branches occur in the defaulters of all pipeline types.\<close>

definition defaultProtocol :: "OTLPProtocol \<Rightarrow> OTLPOutput \<Rightarrow> OTLPOutput" where
  "defaultProtocol protocol out = (if oo_Protocol out = [] then out\<lparr>oo_Protocol := protocol\<rparr> else out)"

definition defaultProtocolA :: "string \<Rightarrow> OTLPOutputA \<Rightarrow> OTLPOutputA" where
  "defaultProtocolA protocol out = (if ooA_Protocol out = [] then out\<lparr>ooA_Protocol := protocol\<rparr> else out)"

abbreviation emptySelector :: NamespaceSelector where
  "emptySelector \<equiv> \<lparr>ns_Include = [], ns_Exclude = []\<rparr>"

definition defaultOTLPInput :: "bool \<Rightarrow> OTLPInput option \<Rightarrow> OTLPInput" where
  "defaultOTLPInput enabled input =
     (let i1 = (case input of None \<Rightarrow> \<lparr>oi_Enabled = None, oi_Namespaces = None\<rparr> | Some i \<Rightarrow> i);
          i2 = i1\<lparr>oi_Enabled := orDefault (oi_Enabled i1) enabled\<rparr>
      in if deref (oi_Enabled i2) False \<and> oi_Namespaces i2 = None
         then i2\<lparr>oi_Namespaces := Some emptySelector\<rparr> else i2)"

definition defaultOTLPInputA :: "OTLPInputA option \<Rightarrow> OTLPInputA" where
  "defaultOTLPInputA input =
     (let i1 = (case input of None \<Rightarrow> \<lparr>oiA_Disabled = False, oiA_Namespaces = None\<rparr> | Some i \<Rightarrow> i)
      in i1\<lparr>oiA_Namespaces := orDefault (oiA_Namespaces i1) emptySelector\<rparr>)"

subsection \<open>Metric pipelines\<close>

record runtimeInputResourceDefaults =
  rd_Pod :: bool
  rd_Container :: bool
  rd_Node :: bool
  rd_Volume :: bool
  rd_DaemonSet :: bool
  rd_Deployment :: bool
  rd_StatefulSet :: bool
  rd_Job :: bool

record metric_defaulter =
  md_ExcludeNamespaces :: "string list"
  md_OTLPInputEnabled :: bool
  md_RuntimeInputResources :: runtimeInputResourceDefaults
  md_DefaultOTLPOutputProtocol :: OTLPProtocol
  md_DefaultOTLPOutputTemporality :: TemporalityType
  md_DiagnosticMetricsEnabled :: bool
  md_EnvoyMetricsEnabled :: bool

definition excluding :: "metric_defaulter \<Rightarrow> NamespaceSelector" where
  "excluding md = \<lparr>ns_Include = [], ns_Exclude = md_ExcludeNamespaces md\<rparr>"

definition defaultPrometheusInput ::
    "metric_defaulter \<Rightarrow> MetricPipelinePrometheusInput \<Rightarrow> MetricPipelinePrometheusInput" where
  "defaultPrometheusInput md i =
     i\<lparr>mpp_Namespaces := orDefault (mpp_Namespaces i) (excluding md),
       mpp_DiagnosticMetrics :=
         orDefault (mpp_DiagnosticMetrics i) \<lparr>dm_Enabled = Some (md_DiagnosticMetricsEnabled md)\<rparr>\<rparr>"

definition defaultIstioInput :: "metric_defaulter \<Rightarrow> MetricPipelineIstioInput \<Rightarrow> MetricPipelineIstioInput" where
  "defaultIstioInput md i =
     i\<lparr>mpi_Namespaces := orDefault (mpi_Namespaces i) (excluding md),
       mpi_DiagnosticMetrics :=
         orDefault (mpi_DiagnosticMetrics i) \<lparr>dm_Enabled = Some (md_DiagnosticMetricsEnabled md)\<rparr>,
       mpi_EnvoyMetrics := orDefault (mpi_EnvoyMetrics i) \<lparr>em_Enabled = Some (md_EnvoyMetricsEnabled md)\<rparr>\<rparr>"

definition applyRuntimeInputResourceDefaults ::
    "metric_defaulter \<Rightarrow> MetricPipelineRuntimeInput \<Rightarrow> MetricPipelineRuntimeInput" where
  "applyRuntimeInputResourceDefaults md i =
     (let rd = md_RuntimeInputResources md;
          res = (case mpr_Resources i of
              None \<Rightarrow> \<lparr>res_Pod = None, res_Container = None, res_Node = None, res_Volume = None, res_DaemonSet = None,
                 res_Deployment = None, res_StatefulSet = None, res_Job = None\<rparr>
            | Some rs \<Rightarrow> rs)
      in i\<lparr>mpr_Resources := Some
           \<lparr>res_Pod = orDefault (res_Pod res) \<lparr>rir_Enabled = Some (rd_Pod rd)\<rparr>,
            res_Container = orDefault (res_Container res) \<lparr>rir_Enabled = Some (rd_Container rd)\<rparr>,
            res_Node = orDefault (res_Node res) \<lparr>rir_Enabled = Some (rd_Node rd)\<rparr>,
            res_Volume = orDefault (res_Volume res) \<lparr>rir_Enabled = Some (rd_Volume rd)\<rparr>,
            res_DaemonSet = orDefault (res_DaemonSet res) \<lparr>rir_Enabled = Some (rd_DaemonSet rd)\<rparr>,
            res_Deployment = orDefault (res_Deployment res) \<lparr>rir_Enabled = Some (rd_Deployment rd)\<rparr>,
            res_StatefulSet = orDefault (res_StatefulSet res) \<lparr>rir_Enabled = Some (rd_StatefulSet rd)\<rparr>,
            res_Job = orDefault (res_Job res) \<lparr>rir_Enabled = Some (rd_Job rd)\<rparr>\<rparr>\<rparr>)"

definition defaultRuntimeInput ::
    "metric_defaulter \<Rightarrow> MetricPipelineRuntimeInput \<Rightarrow> MetricPipelineRuntimeInput" where
  "defaultRuntimeInput md i =
     (let i1 = applyRuntimeInputResourceDefaults md i
      in i1\<lparr>mpr_Namespaces := orDefault (mpr_Namespaces i1) (excluding md)\<rparr>)"

definition applyOTLPOutputDefaults :: "metric_defaulter \<Rightarrow> MetricPipelineOTLPOutput \<Rightarrow> MetricPipelineOTLPOutput" where
  "applyOTLPOutputDefaults md out =
     \<lparr>mo_OTLPOutput = defaultProtocol (md_DefaultOTLPOutputProtocol md) (mo_OTLPOutput out),
      mo_Temporality = orDefault (mo_Temporality out) (md_DefaultOTLPOutputTemporality md)\<rparr>"

text \<open>The fields of the enabled inputs are set through the pointers of the input: an input that is enabled is
  not nil.\<close>

definition metric_Default :: "metric_defaulter \<Rightarrow> MetricPipeline \<Rightarrow> MetricPipeline" where
  "metric_Default md p =
     (let i = ms_Input (mp_Spec p);
          i1 = (if IsPrometheusInputEnabled i
                then i\<lparr>mi_Prometheus := map_option (defaultPrometheusInput md) (mi_Prometheus i)\<rparr> else i);
          i2 = (if IsIstioInputEnabled i1
                then i1\<lparr>mi_Istio := map_option (defaultIstioInput md) (mi_Istio i1)\<rparr> else i1);
          i3 = (if IsRuntimeInputEnabled i2
                then i2\<lparr>mi_Runtime := map_option (defaultRuntimeInput md) (mi_Runtime i2)\<rparr> else i2);
          i4 = i3\<lparr>mi_OTLP := Some (defaultOTLPInput (md_OTLPInputEnabled md) (mi_OTLP i3))\<rparr>
      in p\<lparr>mp_Spec := (mp_Spec p)\<lparr>ms_Input := i4,
           ms_Output := map_option (applyOTLPOutputDefaults md) (ms_Output (mp_Spec p))\<rparr>\<rparr>)"

text \<open>The \<open>v1alpha1\<close> defaulter; the three inputs that both versions share have one record.\<close>

record metric_defaulterA =
  mdA_ExcludeNamespaces :: "string list"
  mdA_RuntimeInputResources :: runtimeInputResourceDefaults
  mdA_DefaultOTLPOutputProtocol :: string
  mdA_DefaultOTLPOutputTemporality :: TemporalityType
  mdA_DiagnosticMetricsEnabled :: bool
  mdA_EnvoyMetricsEnabled :: bool

definition defaultPrometheusInputA ::
    "metric_defaulterA \<Rightarrow> MetricPipelinePrometheusInput \<Rightarrow> MetricPipelinePrometheusInput" where
  "defaultPrometheusInputA md i =
     i\<lparr>mpp_Namespaces := orDefault (mpp_Namespaces i) \<lparr>ns_Include = [], ns_Exclude = mdA_ExcludeNamespaces md\<rparr>,
       mpp_DiagnosticMetrics :=
         orDefault (mpp_DiagnosticMetrics i) \<lparr>dm_Enabled = Some (mdA_DiagnosticMetricsEnabled md)\<rparr>\<rparr>"

definition defaultIstioInputA :: "metric_defaulterA \<Rightarrow> MetricPipelineIstioInput \<Rightarrow> MetricPipelineIstioInput" where
  "defaultIstioInputA md i =
     i\<lparr>mpi_Namespaces := orDefault (mpi_Namespaces i) \<lparr>ns_Include = [], ns_Exclude = mdA_ExcludeNamespaces md\<rparr>,
       mpi_DiagnosticMetrics :=
         orDefault (mpi_DiagnosticMetrics i) \<lparr>dm_Enabled = Some (mdA_DiagnosticMetricsEnabled md)\<rparr>,
       mpi_EnvoyMetrics := orDefault (mpi_EnvoyMetrics i) \<lparr>em_Enabled = Some (mdA_EnvoyMetricsEnabled md)\<rparr>\<rparr>"

definition applyRuntimeInputResourceDefaultsA ::
    "metric_defaulterA \<Rightarrow> MetricPipelineRuntimeInput \<Rightarrow> MetricPipelineRuntimeInput" where
  "applyRuntimeInputResourceDefaultsA md i =
     (let rd = mdA_RuntimeInputResources md;
          res = (case mpr_Resources i of
              None \<Rightarrow> \<lparr>res_Pod = None, res_Container = None, res_Node = None, res_Volume = None, res_DaemonSet = None,
                 res_Deployment = None, res_StatefulSet = None, res_Job = None\<rparr>
            | Some rs \<Rightarrow> rs)
      in i\<lparr>mpr_Resources := Some
           \<lparr>res_Pod = orDefault (res_Pod res) \<lparr>rir_Enabled = Some (rd_Pod rd)\<rparr>,
            res_Container = orDefault (res_Container res) \<lparr>rir_Enabled = Some (rd_Container rd)\<rparr>,
            res_Node = orDefault (res_Node res) \<lparr>rir_Enabled = Some (rd_Node rd)\<rparr>,
            res_Volume = orDefault (res_Volume res) \<lparr>rir_Enabled = Some (rd_Volume rd)\<rparr>,
            res_DaemonSet = orDefault (res_DaemonSet res) \<lparr>rir_Enabled = Some (rd_DaemonSet rd)\<rparr>,
            res_Deployment = orDefault (res_Deployment res) \<lparr>rir_Enabled = Some (rd_Deployment rd)\<rparr>,
            res_StatefulSet = orDefault (res_StatefulSet res) \<lparr>rir_Enabled = Some (rd_StatefulSet rd)\<rparr>,
            res_Job = orDefault (res_Job res) \<lparr>rir_Enabled = Some (rd_Job rd)\<rparr>\<rparr>\<rparr>)"

definition defaultRuntimeInputA ::
    "metric_defaulterA \<Rightarrow> MetricPipelineRuntimeInput \<Rightarrow> MetricPipelineRuntimeInput" where
  "defaultRuntimeInputA md i =
     (let i1 = applyRuntimeInputResourceDefaultsA md i
      in i1\<lparr>mpr_Namespaces :=
           orDefault (mpr_Namespaces i1) \<lparr>ns_Include = [], ns_Exclude = mdA_ExcludeNamespaces md\<rparr>\<rparr>)"

definition applyOTLPOutputDefaultsA ::
    "metric_defaulterA \<Rightarrow> MetricPipelineOTLPOutputA \<Rightarrow> MetricPipelineOTLPOutputA" where
  "applyOTLPOutputDefaultsA md out =
     \<lparr>moA_OTLPOutput = defaultProtocolA (mdA_DefaultOTLPOutputProtocol md) (moA_OTLPOutput out),
      moA_Temporality = orDefault (moA_Temporality out) (mdA_DefaultOTLPOutputTemporality md)\<rparr>"

definition prometheusInputEnabledA :: "MetricPipelineInputA \<Rightarrow> bool" where
  "prometheusInputEnabledA i =
     (case miA_Prometheus i of None \<Rightarrow> False | Some x \<Rightarrow> mpp_Enabled x = Some True)"

definition istioInputEnabledA :: "MetricPipelineInputA \<Rightarrow> bool" where
  "istioInputEnabledA i = (case miA_Istio i of None \<Rightarrow> False | Some x \<Rightarrow> mpi_Enabled x = Some True)"

definition runtimeInputEnabledA :: "MetricPipelineInputA \<Rightarrow> bool" where
  "runtimeInputEnabledA i = (case miA_Runtime i of None \<Rightarrow> False | Some x \<Rightarrow> mpr_Enabled x = Some True)"

definition metric_DefaultA :: "metric_defaulterA \<Rightarrow> MetricPipelineA \<Rightarrow> MetricPipelineA" where
  "metric_DefaultA md p =
     (let i = msA_Input (mpA_Spec p);
          i1 = (if prometheusInputEnabledA i
                then i\<lparr>miA_Prometheus := map_option (defaultPrometheusInputA md) (miA_Prometheus i)\<rparr> else i);
          i2 = (if istioInputEnabledA i1
                then i1\<lparr>miA_Istio := map_option (defaultIstioInputA md) (miA_Istio i1)\<rparr> else i1);
          i3 = (if runtimeInputEnabledA i2
                then i2\<lparr>miA_Runtime := map_option (defaultRuntimeInputA md) (miA_Runtime i2)\<rparr> else i2);
          i4 = i3\<lparr>miA_OTLP := Some (defaultOTLPInputA (miA_OTLP i3))\<rparr>
      in p\<lparr>mpA_Spec := (mpA_Spec p)\<lparr>msA_Input := i4,
           msA_Output := map_option (applyOTLPOutputDefaultsA md) (msA_Output (mpA_Spec p))\<rparr>\<rparr>)"

text \<open>The settings of \<open>SetupWithManager\<close> in the two versions.\<close>

definition metricWebhookDefaulter :: metric_defaulter where
  "metricWebhookDefaulter =
     \<lparr>md_ExcludeNamespaces = SystemNamespaces, md_OTLPInputEnabled = True,
      md_RuntimeInputResources =
        \<lparr>rd_Pod = True, rd_Container = True, rd_Node = True, rd_Volume = True, rd_DaemonSet = True,
         rd_Deployment = True, rd_StatefulSet = True, rd_Job = True\<rparr>,
      md_DefaultOTLPOutputProtocol = OTLPProtocolGRPC, md_DefaultOTLPOutputTemporality = TemporalityPreserve,
      md_DiagnosticMetricsEnabled = False, md_EnvoyMetricsEnabled = False\<rparr>"

definition metricWebhookDefaulterA :: metric_defaulterA where
  "metricWebhookDefaulterA =
     \<lparr>mdA_ExcludeNamespaces = SystemNamespaces,
      mdA_RuntimeInputResources =
        \<lparr>rd_Pod = True, rd_Container = True, rd_Node = True, rd_Volume = True, rd_DaemonSet = True,
         rd_Deployment = True, rd_StatefulSet = True, rd_Job = True\<rparr>,
      mdA_DefaultOTLPOutputProtocol = OTLPProtocolGRPC, mdA_DefaultOTLPOutputTemporality = TemporalityPreserve,
      mdA_DiagnosticMetricsEnabled = False, mdA_EnvoyMetricsEnabled = False\<rparr>"

subsection \<open>Log pipelines\<close>

record log_defaulter =
  ld_ExcludeNamespaces :: "string list"
  ld_RuntimeInputEnabled :: bool
  ld_RuntimeInputKeepOriginalBody :: bool
  ld_DefaultOTLPOutputProtocol :: OTLPProtocol
  ld_OTLPInputEnabled :: bool

definition defaultLogRuntimeInput :: "log_defaulter \<Rightarrow> LogPipelineRuntimeInput option \<Rightarrow> LogPipelineRuntimeInput" where
  "defaultLogRuntimeInput ld input =
     (let i1 = (case input of
              None \<Rightarrow> \<lparr>lri_Enabled = Some (ld_RuntimeInputEnabled ld), lri_Namespaces = None, lri_Containers = None,
                 lri_FluentBitKeepAnnotations = None, lri_FluentBitDropLabels = None,
                 lri_KeepOriginalBody = Some (ld_RuntimeInputKeepOriginalBody ld)\<rparr>
            | Some i \<Rightarrow> i);
          i2 = i1\<lparr>lri_Enabled := orDefault (lri_Enabled i1) (ld_RuntimeInputEnabled ld)\<rparr>;
          i3 = (if deref (lri_Enabled i2) False
                then i2\<lparr>lri_KeepOriginalBody :=
                       orDefault (lri_KeepOriginalBody i2) (ld_RuntimeInputKeepOriginalBody ld)\<rparr>
                else i2)
      in if deref (lri_Enabled i3) False
         then i3\<lparr>lri_Namespaces :=
                orDefault (lri_Namespaces i3) \<lparr>ns_Include = [], ns_Exclude = ld_ExcludeNamespaces ld\<rparr>\<rparr>
         else i3)"

definition log_Default :: "log_defaulter \<Rightarrow> LogPipeline \<Rightarrow> LogPipeline" where
  "log_Default ld p =
     (let i = ls_Input (lp_Spec p);
          i1 = i\<lparr>li_Runtime := Some (defaultLogRuntimeInput ld (li_Runtime i))\<rparr>;
          out = ls_Output (lp_Spec p);
          out1 = out\<lparr>lo_OTLP := map_option (defaultProtocol (ld_DefaultOTLPOutputProtocol ld)) (lo_OTLP out)\<rparr>;
          i2 = (if lo_OTLP out1 \<noteq> None
                then i1\<lparr>li_OTLP := Some (defaultOTLPInput (ld_OTLPInputEnabled ld) (li_OTLP i1))\<rparr> else i1)
      in p\<lparr>lp_Spec := (lp_Spec p)\<lparr>ls_Input := i2, ls_Output := out1\<rparr>\<rparr>)"

record log_defaulterA =
  ldA_ApplicationInputEnabled :: bool
  ldA_ApplicationInputKeepOriginalBody :: bool
  ldA_DefaultOTLPProtocol :: string

definition defaultApplicationInputA ::
    "log_defaulterA \<Rightarrow> LogPipelineApplicationInputA option \<Rightarrow> LogPipelineApplicationInputA" where
  "defaultApplicationInputA ld input =
     (let i1 = (case input of
              None \<Rightarrow> \<lparr>laiA_Enabled = Some (ldA_ApplicationInputEnabled ld),
                 laiA_Namespaces = \<lparr>lnsA_Include = [], lnsA_Exclude = [], lnsA_System = False\<rparr>,
                 laiA_Containers = \<lparr>lcs_Include = None, lcs_Exclude = None\<rparr>,
                 laiA_FluentBitKeepAnnotations = None, laiA_FluentBitDropLabels = None,
                 laiA_KeepOriginalBody = Some (ldA_ApplicationInputKeepOriginalBody ld)\<rparr>
            | Some i \<Rightarrow> i)
      in i1\<lparr>laiA_Enabled := orDefault (laiA_Enabled i1) (ldA_ApplicationInputEnabled ld),
            laiA_KeepOriginalBody :=
              orDefault (laiA_KeepOriginalBody i1) (ldA_ApplicationInputKeepOriginalBody ld)\<rparr>)"

definition log_DefaultA :: "log_defaulterA \<Rightarrow> LogPipelineA \<Rightarrow> LogPipelineA" where
  "log_DefaultA ld p =
     (let i = lsA_Input (lpA_Spec p);
          i1 = i\<lparr>liA_Application := Some (defaultApplicationInputA ld (liA_Application i))\<rparr>;
          out = lsA_Output (lpA_Spec p);
          i2 = (if loA_OTLP out \<noteq> None
                then i1\<lparr>liA_OTLP := Some (defaultOTLPInputA (liA_OTLP i1))\<rparr> else i1);
          out1 = out\<lparr>loA_OTLP := map_option (defaultProtocolA (ldA_DefaultOTLPProtocol ld)) (loA_OTLP out)\<rparr>
      in p\<lparr>lpA_Spec := (lpA_Spec p)\<lparr>lsA_Input := i2, lsA_Output := out1\<rparr>\<rparr>)"

definition logWebhookDefaulter :: log_defaulter where
  "logWebhookDefaulter =
     \<lparr>ld_ExcludeNamespaces = SystemNamespaces, ld_RuntimeInputEnabled = True,
      ld_RuntimeInputKeepOriginalBody = True, ld_DefaultOTLPOutputProtocol = OTLPProtocolGRPC,
      ld_OTLPInputEnabled = True\<rparr>"

definition logWebhookDefaulterA :: log_defaulterA where
  "logWebhookDefaulterA =
     \<lparr>ldA_ApplicationInputEnabled = True, ldA_ApplicationInputKeepOriginalBody = True,
      ldA_DefaultOTLPProtocol = OTLPProtocolGRPC\<rparr>"

subsection \<open>Trace pipelines\<close>

definition trace_Default :: "OTLPProtocol \<Rightarrow> TracePipeline \<Rightarrow> TracePipeline" where
  "trace_Default protocol p =
     p\<lparr>tp_Spec := (tp_Spec p)\<lparr>tps_Output := map_option (defaultProtocol protocol) (tps_Output (tp_Spec p))\<rparr>\<rparr>"

section \<open>Validators\<close>

text \<open>The constructors of the OTTL parsers for a signal type, which come from the collector's library.\<close>

record ottl_library =
  ol_Filter :: "SignalType \<Rightarrow> (string, ottl_parser) result"
  ol_Transform :: "SignalType \<Rightarrow> (string, ottl_parser) result"

definition newSpecValidator ::
    "(SignalType \<Rightarrow> (string, ottl_parser) result) \<Rightarrow> SignalType \<Rightarrow> (go_error, ottl_parser) result" where
  "newSpecValidator library signalType =
     (case SignalType_Validate signalType of
        Some e \<Rightarrow> Inl e
      | None \<Rightarrow> map_sum NewError id (library signalType))"

definition errFailedToCreatePipeline :: go_error where
  "errFailedToCreatePipeline = NewError ''failed to create pipeline''"

definition ValidateFilterTransform ::
    "ottl_library \<Rightarrow> SignalType \<Rightarrow> FilterSpec list \<Rightarrow> TransformSpec list \<Rightarrow> go_error option" where
  "ValidateFilterTransform ol signalType filterSpec transformSpec =
     (case newSpecValidator (ol_Filter ol) signalType of
        Inl e \<Rightarrow> Some errFailedToCreatePipeline
      | Inr filterValidator \<Rightarrow>
          orelse (range_check (\<lambda>f. ValidateConditions filterValidator (fs_Conditions f)) filterSpec)
            (case newSpecValidator (ol_Transform ol) signalType of
               Inl e \<Rightarrow> Some errFailedToCreatePipeline
             | Inr transformValidator \<Rightarrow>
                 range_check
                   (\<lambda>t. ValidateStatementsAndConditions transformValidator (ts_Statements t) (ts_Conditions t))
                   transformSpec))"

text \<open>\<open>ConvertFilterTransformToBeta\<close> is the identity: the two versions of both specs are one record.  The
  functions \<open>validateFilterTransform\<close> of the validators differ in the signal type and the message.\<close>

definition validateFilterTransform ::
    "ottl_library \<Rightarrow> SignalType \<Rightarrow> (string \<Rightarrow> string) \<Rightarrow> FilterSpec list option \<Rightarrow> TransformSpec list \<Rightarrow> go_error option" where
  "validateFilterTransform ol signalType messageFor filterSpec transformSpec =
     map_option (\<lambda>e. NewError (Sprintf (messageFor ReasonOTTLSpecInvalid) [err_msg e]))
       (ValidateFilterTransform ol signalType (elems filterSpec) transformSpec)"

definition admit :: "go_error option \<Rightarrow> 'a \<Rightarrow> (go_error, 'a) result" where
  "admit err warnings = (case err of Some e \<Rightarrow> Inl e | None \<Rightarrow> Inr warnings)"

definition webhook_validate_trace :: "ottl_library \<Rightarrow> TracePipeline \<Rightarrow> (go_error, string list) result" where
  "webhook_validate_trace ol p =
     admit (validateFilterTransform ol SignalTypeTrace MessageForTracePipeline (tps_Filters (tp_Spec p))
       (tps_Transforms (tp_Spec p))) []"

definition webhook_validate_metric :: "ottl_library \<Rightarrow> MetricPipeline \<Rightarrow> (go_error, string list) result" where
  "webhook_validate_metric ol p =
     admit (orelse
       (validateFilterTransform ol SignalTypeMetric MessageForMetricPipeline (ms_Filters (mp_Spec p))
         (ms_Transforms (mp_Spec p)))
       (runtimemetrics_Validate p)) []"

text \<open>The \<open>v1alpha1\<close> validator converts the pipeline, which may write to it (the first component).\<close>

definition webhook_validate_metricA ::
    "ottl_library \<Rightarrow> MetricPipelineA \<Rightarrow> (go_error, MetricPipelineA \<times> string list) result" where
  "webhook_validate_metricA ol p =
     (case validateFilterTransform ol SignalTypeMetric MessageForMetricPipeline (msA_Filters (mpA_Spec p))
             (msA_Transforms (mpA_Spec p)) of
        Some e \<Rightarrow> Inl e
      | None \<Rightarrow>
          (let (p', v1beta1MetricPipeline) = Convert_v1alpha1_MetricPipeline_To_v1beta1_MetricPipeline p
           in admit (runtimemetrics_Validate v1beta1MetricPipeline) (p', [])))"

subsection \<open>Log pipelines\<close>

abbreviation migrationGuideLink :: string where
  "migrationGuideLink \<equiv>
     ''https://kyma-project.io/#/telemetry-manager/user/integrate-otlp-backend/migration-to-otlp-logs''"

definition renderDeprecationWarning :: "string \<Rightarrow> string \<Rightarrow> string" where
  "renderDeprecationWarning pipelineName attribute =
     ''LogPipeline '' @ quoted pipelineName @ '' uses the attribute '' @ quoted attribute @
     '' which is based on the deprecated FluentBit technology stack. Please migrate to an Open Telemetry '' @
     ''based logPipeline instead. See the documentation: '' @ migrationGuideLink"

definition webhook_validate_log :: "ottl_library \<Rightarrow> LogPipeline \<Rightarrow> (go_error, string list) result" where
  "webhook_validate_log ol p =
     (let spec = lp_Spec p;
          warn = (\<lambda>cond attribute.
            if cond then [renderDeprecationWarning (om_Name (lp_ObjectMeta p)) attribute] else [])
      in admit
           (validateFilterTransform ol SignalTypeLog MessageForOtelLogPipeline (ls_Filters spec) (ls_Transforms spec))
           (warn (IsCustomFilterDefined (ls_FluentBitFilters spec)) ''filters'' @
            warn (IsCustomOutputDefined (ls_Output spec)) ''output.custom'' @
            warn (IsHTTPOutputDefined (ls_Output spec)) ''output.http'' @
            warn (IsVariablesDefined (ls_FluentBitVariables spec)) ''variables'' @
            warn (IsFilesDefined (ls_FluentBitFiles spec)) ''files'' @
            warn (IsLogRuntimeInputEnabled (ls_Input spec) \<and>
                  Option.bind (li_Runtime (ls_Input spec)) lri_FluentBitDropLabels \<noteq> None)
              ''input.runtime.dropLabels'' @
            warn (IsLogRuntimeInputEnabled (ls_Input spec) \<and>
                  Option.bind (li_Runtime (ls_Input spec)) lri_FluentBitKeepAnnotations \<noteq> None)
              ''input.runtime.keepAnnotations''))"

text \<open>In \<open>v1alpha1\<close> the HTTP output counts as defined even without a valid host, and an application input without
  \<open>enabled\<close> counts as disabled; the warnings name the attributes of that version.\<close>

definition renderDeprecationWarningA :: "string \<Rightarrow> string \<Rightarrow> string" where
  "renderDeprecationWarningA pipelineName attribute =
     ''LogPipeline '' @ quoted pipelineName @ '' uses the attribute '' @ quoted attribute @
     '' which is based on the deprecated FluentBit technology stack. Please migrate to an Open Telemetry '' @
     ''based pipeline instead. See the documentation: '' @ migrationGuideLink"

definition isApplicationInputEnabledA :: "LogPipelineInputA \<Rightarrow> bool" where
  "isApplicationInputEnabledA i =
     (case liA_Application i of None \<Rightarrow> False | Some app \<Rightarrow> deref (laiA_Enabled app) False)"

definition webhook_validate_logA :: "ottl_library \<Rightarrow> LogPipelineA \<Rightarrow> (go_error, string list) result" where
  "webhook_validate_logA ol p =
     (let spec = lpA_Spec p;
          warn = (\<lambda>cond attribute.
            if cond then [renderDeprecationWarningA (om_Name (lpA_ObjectMeta p)) attribute] else [])
      in admit
           (validateFilterTransform ol SignalTypeLog MessageForOtelLogPipeline (lsA_Filters spec) (lsA_Transforms spec))
           (warn (IsCustomFilterDefined (lsA_FluentBitFilters spec)) ''filters'' @
            warn (loA_FluentBitCustom (lsA_Output spec) \<noteq> []) ''output.custom'' @
            warn (loA_FluentBitHTTP (lsA_Output spec) \<noteq> None) ''output.http'' @
            warn (length (lsA_FluentBitVariables spec) > 0) ''variables'' @
            warn (length (lsA_FluentBitFiles spec) > 0) ''files'' @
            warn (isApplicationInputEnabledA (lsA_Input spec) \<and>
                  Option.bind (liA_Application (lsA_Input spec)) laiA_FluentBitDropLabels \<noteq> None)
              ''input.application.dropLabels'' @
            warn (isApplicationInputEnabledA (lsA_Input spec) \<and>
                  Option.bind (liA_Application (lsA_Input spec)) laiA_FluentBitKeepAnnotations \<noteq> None)
              ''input.application.keepAnnotations''))"

section \<open>What the defaulters promise\<close>

text \<open>A defaulter completes an object, and does not change one that is complete.\<close>

locale defaulting =
  fixes Default :: "'p \<Rightarrow> 'p"
    and complete :: "'p \<Rightarrow> bool"
  assumes Default_complete: "complete (Default p)"
    and complete_Default: "complete p \<Longrightarrow> Default p = p"
begin

lemma Default_idem: "Default (Default p) = Default p"
  by (rule complete_Default) (rule Default_complete)

lemma Default_fixpoint: "Default p = p \<longleftrightarrow> complete p"
  using Default_complete [of p] complete_Default [of p] by metis

end

text \<open>The complete pipelines: what the webhook leaves set.\<close>

definition output_complete :: "OTLPOutput option \<Rightarrow> bool" where
  "output_complete out = (case out of None \<Rightarrow> True | Some x \<Rightarrow> oo_Protocol x \<noteq> [])"

definition otlp_input_complete :: "OTLPInput option \<Rightarrow> bool" where
  "otlp_input_complete input =
     (case input of
        None \<Rightarrow> False
      | Some i \<Rightarrow> oi_Enabled i \<noteq> None \<and> (deref (oi_Enabled i) False \<longrightarrow> oi_Namespaces i \<noteq> None))"

definition prometheus_complete :: "MetricPipelinePrometheusInput \<Rightarrow> bool" where
  "prometheus_complete i \<longleftrightarrow> mpp_Namespaces i \<noteq> None \<and> mpp_DiagnosticMetrics i \<noteq> None"

definition istio_complete :: "MetricPipelineIstioInput \<Rightarrow> bool" where
  "istio_complete i \<longleftrightarrow> mpi_Namespaces i \<noteq> None \<and> mpi_DiagnosticMetrics i \<noteq> None \<and> mpi_EnvoyMetrics i \<noteq> None"

definition runtime_complete :: "MetricPipelineRuntimeInput \<Rightarrow> bool" where
  "runtime_complete i \<longleftrightarrow> mpr_Namespaces i \<noteq> None \<and>
     (case mpr_Resources i of
        None \<Rightarrow> False
      | Some r \<Rightarrow> res_Pod r \<noteq> None \<and> res_Container r \<noteq> None \<and> res_Node r \<noteq> None \<and> res_Volume r \<noteq> None \<and>
          res_DaemonSet r \<noteq> None \<and> res_Deployment r \<noteq> None \<and> res_StatefulSet r \<noteq> None \<and> res_Job r \<noteq> None)"

definition metric_complete :: "MetricPipeline \<Rightarrow> bool" where
  "metric_complete p =
     (let i = ms_Input (mp_Spec p); out = ms_Output (mp_Spec p)
      in (IsPrometheusInputEnabled i \<longrightarrow> pred_option prometheus_complete (mi_Prometheus i)) \<and>
         (IsIstioInputEnabled i \<longrightarrow> pred_option istio_complete (mi_Istio i)) \<and>
         (IsRuntimeInputEnabled i \<longrightarrow> pred_option runtime_complete (mi_Runtime i)) \<and>
         otlp_input_complete (mi_OTLP i) \<and>
         output_complete (map_option mo_OTLPOutput out) \<and>
         pred_option (\<lambda>out. mo_Temporality out \<noteq> None) out)"

definition log_complete :: "LogPipeline \<Rightarrow> bool" where
  "log_complete p =
     (let i = ls_Input (lp_Spec p); out = lo_OTLP (ls_Output (lp_Spec p))
      in (case li_Runtime i of
            None \<Rightarrow> False
          | Some r \<Rightarrow> lri_Enabled r \<noteq> None \<and>
              (deref (lri_Enabled r) False \<longrightarrow> lri_KeepOriginalBody r \<noteq> None \<and> lri_Namespaces r \<noteq> None)) \<and>
         output_complete out \<and>
         (out \<noteq> None \<longrightarrow> otlp_input_complete (li_OTLP i)))"

lemma orDefault_id: "x \<noteq> None \<Longrightarrow> orDefault x d = x"
  by (cases x) simp_all

lemma defaultProtocol_complete [simp]:
  "protocol \<noteq> [] \<Longrightarrow> oo_Protocol (defaultProtocol protocol out) \<noteq> []"
  "oo_Protocol out \<noteq> [] \<Longrightarrow> defaultProtocol protocol out = out"
  by (simp_all add: defaultProtocol_def)

lemma defaultOTLPInput_complete [simp]:
  "otlp_input_complete (Some (defaultOTLPInput enabled i))"
  "otlp_input_complete i \<Longrightarrow> Some (defaultOTLPInput enabled i) = i"
  by (auto simp: otlp_input_complete_def defaultOTLPInput_def Let_def orDefault_id split: option.splits)

lemma default_inputs_complete [simp]:
  "prometheus_complete (defaultPrometheusInput md x)"
  "istio_complete (defaultIstioInput md y)"
  "runtime_complete (defaultRuntimeInput md z)"
  by (simp_all add: prometheus_complete_def defaultPrometheusInput_def istio_complete_def defaultIstioInput_def
      runtime_complete_def defaultRuntimeInput_def applyRuntimeInputResourceDefaults_def Let_def)

lemma default_inputs_id [simp]:
  "prometheus_complete x \<Longrightarrow> defaultPrometheusInput md x = x"
  "istio_complete y \<Longrightarrow> defaultIstioInput md y = y"
  "runtime_complete z \<Longrightarrow> defaultRuntimeInput md z = z"
  by (auto simp: prometheus_complete_def defaultPrometheusInput_def istio_complete_def defaultIstioInput_def
      runtime_complete_def defaultRuntimeInput_def applyRuntimeInputResourceDefaults_def Let_def orDefault_id
      split: option.splits)

lemma default_inputs_enabled [simp]:
  "mpp_Enabled (defaultPrometheusInput md x) = mpp_Enabled x"
  "mpi_Enabled (defaultIstioInput md y) = mpi_Enabled y"
  "mpr_Enabled (defaultRuntimeInput md z) = mpr_Enabled z"
  by (simp_all add: defaultPrometheusInput_def defaultIstioInput_def defaultRuntimeInput_def
      applyRuntimeInputResourceDefaults_def Let_def)

lemmas input_enabled_defs = IsPrometheusInputEnabled_def IsIstioInputEnabled_def IsRuntimeInputEnabled_def

lemma metric_Default_complete:
  "md_DefaultOTLPOutputProtocol md \<noteq> [] \<Longrightarrow> metric_complete (metric_Default md p)"
  by (auto simp: metric_complete_def metric_Default_def Let_def input_enabled_defs output_complete_def
      applyOTLPOutputDefaults_def pred_option_def split: option.splits)

lemma metric_complete_Default: "metric_complete p \<Longrightarrow> metric_Default md p = p"
  by (cases "ms_Output (mp_Spec p)"; cases "mi_Prometheus (ms_Input (mp_Spec p))";
      cases "mi_Istio (ms_Input (mp_Spec p))"; cases "mi_Runtime (ms_Input (mp_Spec p))")
    (simp_all add: metric_complete_def metric_Default_def Let_def input_enabled_defs output_complete_def
      applyOTLPOutputDefaults_def orDefault_id)

lemma webhook_protocols [simp]:
  "md_DefaultOTLPOutputProtocol metricWebhookDefaulter = OTLPProtocolGRPC"
  "ld_DefaultOTLPOutputProtocol logWebhookDefaulter = OTLPProtocolGRPC"
  "ldA_DefaultOTLPProtocol logWebhookDefaulterA = OTLPProtocolGRPC"
  "OTLPProtocolGRPC \<noteq> []"
  by (simp_all add: metricWebhookDefaulter_def logWebhookDefaulter_def logWebhookDefaulterA_def OTLPProtocolGRPC_def)

interpretation metric_webhook: defaulting "metric_Default metricWebhookDefaulter" metric_complete
  by unfold_locales
    (simp_all add: metric_Default_complete metric_complete_Default)

lemma log_Default_complete:
  "ld_DefaultOTLPOutputProtocol ld \<noteq> [] \<Longrightarrow> log_complete (log_Default ld p)"
  by (auto simp: log_complete_def log_Default_def Let_def defaultLogRuntimeInput_def output_complete_def
      split: option.splits)

lemma log_complete_Default: "log_complete p \<Longrightarrow> log_Default ld p = p"
  by (cases "lo_OTLP (ls_Output (lp_Spec p))"; cases "li_Runtime (ls_Input (lp_Spec p))")
    (auto simp: log_complete_def log_Default_def Let_def defaultLogRuntimeInput_def output_complete_def orDefault_id)

interpretation log_webhook: defaulting "log_Default logWebhookDefaulter" log_complete
  by unfold_locales
    (simp_all add: log_Default_complete log_complete_Default)

interpretation trace_webhook: defaulting "trace_Default OTLPProtocolGRPC" "\<lambda>p. output_complete (tps_Output (tp_Spec p))"
proof unfold_locales
  fix p
  show "output_complete (tps_Output (tp_Spec (trace_Default OTLPProtocolGRPC p)))"
    by (auto simp: trace_Default_def output_complete_def OTLPProtocolGRPC_def split: option.splits)
  show "output_complete (tps_Output (tp_Spec p)) \<Longrightarrow> trace_Default OTLPProtocolGRPC p = p"
    by (cases "tps_Output (tp_Spec p)") (simp_all add: trace_Default_def output_complete_def)
qed

section \<open>Defaults and conversion\<close>

text \<open>What is inactive in a pipeline: the namespaces of an OTLP input that is switched off, and what a runtime input
  that is switched off would do with the original body.\<close>

definition activeOTLP :: "OTLPInput option \<Rightarrow> OTLPInput option" where
  "activeOTLP = map_option (\<lambda>i. if oi_Enabled i = Some False then i\<lparr>oi_Namespaces := None\<rparr> else i)"

definition activeRuntime :: "LogPipelineRuntimeInput option \<Rightarrow> LogPipelineRuntimeInput option" where
  "activeRuntime = map_option (\<lambda>i. if lri_Enabled i = Some False then i\<lparr>lri_KeepOriginalBody := None\<rparr> else i)"

definition metric_active :: "MetricPipeline \<Rightarrow> MetricPipeline" where
  "metric_active p = p\<lparr>mp_Spec := (mp_Spec p)\<lparr>ms_Input := (ms_Input (mp_Spec p))
     \<lparr>mi_OTLP := activeOTLP (mi_OTLP (ms_Input (mp_Spec p)))\<rparr>\<rparr>\<rparr>"

definition log_active :: "LogPipeline \<Rightarrow> LogPipeline" where
  "log_active p = p\<lparr>lp_Spec := (lp_Spec p)\<lparr>ls_Input :=
     \<lparr>li_Runtime = activeRuntime (li_Runtime (ls_Input (lp_Spec p))),
      li_OTLP = activeOTLP (li_OTLP (ls_Input (lp_Spec p)))\<rparr>\<rparr>\<rparr>"

abbreviation "convertOTLPInput \<equiv> Convert_v1alpha1_OTLPInput_To_v1beta1_OTLPInput"
abbreviation "convertOTLPOutput \<equiv> Convert_v1alpha1_OTLPOutput_To_v1beta1_OTLPOutput"
abbreviation "convertRuntime i \<equiv> snd (Convert_v1alpha1_MetricPipelineRuntimeInput_To_v1beta1_MetricPipelineRuntimeInput i)"

lemma system_namespaces_valid: "sanitizeNamespaceNames SystemNamespaces = SystemNamespaces"
  by code_simp

lemma default_OTLP_converted:
  "activeOTLP (Some (convertOTLPInput (defaultOTLPInputA i))) =
     activeOTLP (Some (defaultOTLPInput True (map_option convertOTLPInput i)))"
  by (cases i; cases "oiA_Namespaces (the i)")
    (simp_all add: activeOTLP_def defaultOTLPInputA_def defaultOTLPInput_def Let_def sanitizeSelector_def
      Convert_v1alpha1_OTLPInput_To_v1beta1_OTLPInput_def sanitizeNamespaceNames_def)

lemma default_output_converted:
  "convertOTLPOutput (defaultProtocolA protocol out) = defaultProtocol protocol (convertOTLPOutput out)"
  by (simp add: defaultProtocolA_def defaultProtocol_def Convert_v1alpha1_OTLPOutput_To_v1beta1_OTLPOutput_def)

lemma default_shared_inputs:
  "defaultPrometheusInputA metricWebhookDefaulterA x = defaultPrometheusInput metricWebhookDefaulter x"
  "defaultIstioInputA metricWebhookDefaulterA y = defaultIstioInput metricWebhookDefaulter y"
  "convertRuntime (defaultRuntimeInputA metricWebhookDefaulterA z) = defaultRuntimeInput metricWebhookDefaulter (convertRuntime z)"
  by (cases "mpr_Namespaces z"; simp add: defaultPrometheusInputA_def defaultPrometheusInput_def defaultIstioInputA_def
      defaultIstioInput_def defaultRuntimeInputA_def defaultRuntimeInput_def applyRuntimeInputResourceDefaultsA_def
      applyRuntimeInputResourceDefaults_def metricWebhookDefaulterA_def metricWebhookDefaulter_def excluding_def Let_def
      Convert_v1alpha1_MetricPipelineRuntimeInput_To_v1beta1_MetricPipelineRuntimeInput_def sanitizeSelector_def
      system_namespaces_valid sanitizeNamespaceNames_def [of "[]"])+

lemma deref_False: "deref x False \<longleftrightarrow> x = Some True"
  by (cases x) simp_all

lemmas inputA_enabled_defs = prometheusInputEnabledA_def istioInputEnabledA_def runtimeInputEnabledA_def

lemmas metric_converted_defs = Convert_v1alpha1_MetricPipeline_To_v1beta1_MetricPipeline_def
  Convert_v1alpha1_MetricPipelineSpec_To_v1beta1_MetricPipelineSpec_def
  Convert_v1alpha1_MetricPipelineInput_To_v1beta1_MetricPipelineInput_def
  Convert_v1alpha1_MetricPipelineOTLPOutput_To_v1beta1_MetricPipelineOTLPOutput_def

lemmas log_converted_defs = Convert_v1alpha1_LogPipeline_To_v1beta1_LogPipeline_def
  Convert_v1alpha1_LogPipelineSpec_To_v1beta1_LogPipelineSpec_def
  Convert_v1alpha1_LogPipelineInput_To_v1beta1_LogPipelineInput_def
  Convert_v1alpha1_LogPipelineOutput_To_v1beta1_LogPipelineOutput_def

text \<open>After the conversion the \<open>v1beta1\<close> webhook has nothing left to set.\<close>

lemma defaultOTLPInputA_converted:
  "otlp_input_complete (Some (Convert_v1alpha1_OTLPInput_To_v1beta1_OTLPInput (defaultOTLPInputA i)))"
  by (simp add: otlp_input_complete_def Convert_v1alpha1_OTLPInput_To_v1beta1_OTLPInput_def defaultOTLPInputA_def Let_def)

lemma defaultProtocolA_converted:
  "protocol \<noteq> [] \<Longrightarrow>
     oo_Protocol (Convert_v1alpha1_OTLPOutput_To_v1beta1_OTLPOutput (defaultProtocolA protocol out)) \<noteq> []"
  by (simp add: Convert_v1alpha1_OTLPOutput_To_v1beta1_OTLPOutput_def defaultProtocolA_def)

lemma converted_runtime_complete [simp]:
  "runtime_complete i \<Longrightarrow>
     runtime_complete (snd (Convert_v1alpha1_MetricPipelineRuntimeInput_To_v1beta1_MetricPipelineRuntimeInput i))"
  "mpr_Enabled (snd (Convert_v1alpha1_MetricPipelineRuntimeInput_To_v1beta1_MetricPipelineRuntimeInput i)) = mpr_Enabled i"
  by (auto simp: runtime_complete_def Let_def
      Convert_v1alpha1_MetricPipelineRuntimeInput_To_v1beta1_MetricPipelineRuntimeInput_def)

lemma default_inputsA_complete [simp]:
  "prometheus_complete (defaultPrometheusInputA md x)"
  "istio_complete (defaultIstioInputA md y)"
  "runtime_complete (defaultRuntimeInputA md z)"
  by (simp_all add: prometheus_complete_def defaultPrometheusInputA_def istio_complete_def defaultIstioInputA_def
      runtime_complete_def defaultRuntimeInputA_def applyRuntimeInputResourceDefaultsA_def Let_def)

lemma default_inputsA_enabled [simp]:
  "mpp_Enabled (defaultPrometheusInputA md x) = mpp_Enabled x"
  "mpi_Enabled (defaultIstioInputA md y) = mpi_Enabled y"
  "mpr_Enabled (defaultRuntimeInputA md z) = mpr_Enabled z"
  by (simp_all add: defaultPrometheusInputA_def defaultIstioInputA_def defaultRuntimeInputA_def
      applyRuntimeInputResourceDefaultsA_def Let_def)

lemma metric_DefaultA_converted:
  assumes "mdA_DefaultOTLPOutputProtocol md \<noteq> []"
  shows "metric_complete (snd (Convert_v1alpha1_MetricPipeline_To_v1beta1_MetricPipeline (metric_DefaultA md p)))"
  using assms
  by (auto simp: metric_complete_def metric_DefaultA_def Let_def input_enabled_defs inputA_enabled_defs output_complete_def
      metric_converted_defs
      applyOTLPOutputDefaultsA_def defaultOTLPInputA_converted defaultProtocolA_converted deref_False
      pred_option_def split: option.splits)

lemma log_DefaultA_converted:
  assumes "ldA_DefaultOTLPProtocol ld \<noteq> []"
  shows "log_complete (Convert_v1alpha1_LogPipeline_To_v1beta1_LogPipeline (log_DefaultA ld p) dst)"
  using assms
  by (auto simp: log_complete_def log_DefaultA_def Let_def output_complete_def
      log_converted_defs
      defaultApplicationInputA_def defaultOTLPInputA_converted defaultProtocolA_converted split: option.splits)

lemma converted_needs_no_default:
  "metric_Default metricWebhookDefaulter
       (snd (Convert_v1alpha1_MetricPipeline_To_v1beta1_MetricPipeline (metric_DefaultA metricWebhookDefaulterA p))) =
     snd (Convert_v1alpha1_MetricPipeline_To_v1beta1_MetricPipeline (metric_DefaultA metricWebhookDefaulterA p))"
  "log_Default logWebhookDefaulter
       (Convert_v1alpha1_LogPipeline_To_v1beta1_LogPipeline (log_DefaultA logWebhookDefaulterA q) dst) =
     Convert_v1alpha1_LogPipeline_To_v1beta1_LogPipeline (log_DefaultA logWebhookDefaulterA q) dst"
  by (simp_all add: metric_webhook.Default_fixpoint log_webhook.Default_fixpoint metric_DefaultA_converted
      log_DefaultA_converted metricWebhookDefaulterA_def)

text \<open>Both orders of defaulting and conversion.\<close>

lemma metric_outputs_converted:
  "Convert_v1alpha1_MetricPipelineOTLPOutput_To_v1beta1_MetricPipelineOTLPOutput
     (applyOTLPOutputDefaultsA metricWebhookDefaulterA out) =
   applyOTLPOutputDefaults metricWebhookDefaulter
     (Convert_v1alpha1_MetricPipelineOTLPOutput_To_v1beta1_MetricPipelineOTLPOutput out)"
  by (simp add: applyOTLPOutputDefaultsA_def applyOTLPOutputDefaults_def default_output_converted
      Convert_v1alpha1_MetricPipelineOTLPOutput_To_v1beta1_MetricPipelineOTLPOutput_def metricWebhookDefaulterA_def
      metricWebhookDefaulter_def)

lemma metric_inputs_converted:
  defines "i \<equiv> \<lambda>p. ms_Input (mp_Spec (snd (Convert_v1alpha1_MetricPipeline_To_v1beta1_MetricPipeline p)))"
  shows "mi_Prometheus (i (metric_DefaultA metricWebhookDefaulterA p)) =
      (if IsPrometheusInputEnabled (i p) then map_option (defaultPrometheusInput metricWebhookDefaulter) (mi_Prometheus (i p))
       else mi_Prometheus (i p))"
    and "mi_Istio (i (metric_DefaultA metricWebhookDefaulterA p)) =
      (if IsIstioInputEnabled (i p) then map_option (defaultIstioInput metricWebhookDefaulter) (mi_Istio (i p))
       else mi_Istio (i p))"
    and "mi_Runtime (i (metric_DefaultA metricWebhookDefaulterA p)) =
      (if IsRuntimeInputEnabled (i p) then map_option (defaultRuntimeInput metricWebhookDefaulter) (mi_Runtime (i p))
       else mi_Runtime (i p))"
  by (auto simp: i_def metric_DefaultA_def Let_def inputA_enabled_defs input_enabled_defs metric_converted_defs
      default_shared_inputs deref_False split: option.splits)

lemma enabled_updates [simp]:
  "IsIstioInputEnabled (i\<lparr>mi_Prometheus := x\<rparr>) = IsIstioInputEnabled i"
  "IsRuntimeInputEnabled (i\<lparr>mi_Prometheus := x\<rparr>) = IsRuntimeInputEnabled i"
  "IsRuntimeInputEnabled (i\<lparr>mi_Istio := y\<rparr>) = IsRuntimeInputEnabled i"
  by (simp_all add: input_enabled_defs)

lemma metric_Default_inputs:
  "ms_Input (mp_Spec (metric_Default md p)) = (let i = ms_Input (mp_Spec p) in
     \<lparr>mi_Prometheus = (if IsPrometheusInputEnabled i then map_option (defaultPrometheusInput md) (mi_Prometheus i) else mi_Prometheus i),
      mi_Runtime = (if IsRuntimeInputEnabled i then map_option (defaultRuntimeInput md) (mi_Runtime i) else mi_Runtime i),
      mi_Istio = (if IsIstioInputEnabled i then map_option (defaultIstioInput md) (mi_Istio i) else mi_Istio i),
      mi_OTLP = Some (defaultOTLPInput (md_OTLPInputEnabled md) (mi_OTLP i))\<rparr>)"
  by (simp add: metric_Default_def Let_def)

lemma metric_defaults_commute:
  "metric_active (snd (Convert_v1alpha1_MetricPipeline_To_v1beta1_MetricPipeline (metric_DefaultA metricWebhookDefaulterA p))) =
   metric_active (metric_Default metricWebhookDefaulter (snd (Convert_v1alpha1_MetricPipeline_To_v1beta1_MetricPipeline p)))"
proof -
  let ?c = "\<lambda>p. snd (Convert_v1alpha1_MetricPipeline_To_v1beta1_MetricPipeline p)"
  let ?a = "?c (metric_DefaultA metricWebhookDefaulterA p)" and ?b = "metric_Default metricWebhookDefaulter (?c p)"
  have otlp: "activeOTLP (mi_OTLP (ms_Input (mp_Spec ?a))) = activeOTLP (mi_OTLP (ms_Input (mp_Spec ?b)))"
    using default_OTLP_converted [of "miA_OTLP (msA_Input (mpA_Spec p))"]
    by (simp add: metric_Default_inputs metric_DefaultA_def metric_converted_defs Let_def metricWebhookDefaulter_def)
  have inputs: "ms_Input (mp_Spec (metric_active ?a)) = ms_Input (mp_Spec (metric_active ?b))"
    using metric_inputs_converted [of p] otlp by (simp add: metric_active_def metric_Default_inputs Let_def)
  have outs: "ms_Output (mp_Spec ?a) = ms_Output (mp_Spec ?b)"
    by (cases "msA_Output (mpA_Spec p)")
      (simp_all add: metric_DefaultA_def metric_Default_def Let_def metric_outputs_converted
        Convert_v1alpha1_MetricPipeline_To_v1beta1_MetricPipeline_def
        Convert_v1alpha1_MetricPipelineSpec_To_v1beta1_MetricPipelineSpec_def)
  have rest: "mp_ObjectMeta ?a = mp_ObjectMeta ?b" "mp_Conditions ?a = mp_Conditions ?b"
    "ms_Transforms (mp_Spec ?a) = ms_Transforms (mp_Spec ?b)" "ms_Filters (mp_Spec ?a) = ms_Filters (mp_Spec ?b)"
    by (simp_all add: metric_DefaultA_def metric_Default_def Let_def
        Convert_v1alpha1_MetricPipeline_To_v1beta1_MetricPipeline_def
        Convert_v1alpha1_MetricPipelineSpec_To_v1beta1_MetricPipelineSpec_def)
  show ?thesis
  proof (rule MetricPipeline.equality)
    show "mp_Spec (metric_active ?a) = mp_Spec (metric_active ?b)"
      using inputs outs rest(3,4) by (intro MetricPipelineSpec.equality) (simp_all add: metric_active_def)
  qed (use rest in \<open>simp_all add: metric_active_def\<close>)
qed

lemma log_runtime_commute:
  assumes "li_Runtime out = None"
    and "liA_Application j = Some (defaultApplicationInputA logWebhookDefaulterA (liA_Application i))"
  shows "activeRuntime (li_Runtime (Convert_v1alpha1_LogPipelineInput_To_v1beta1_LogPipelineInput j out)) =
    activeRuntime (Some (defaultLogRuntimeInput logWebhookDefaulter
      (li_Runtime (Convert_v1alpha1_LogPipelineInput_To_v1beta1_LogPipelineInput i out))))"
proof (cases "liA_Application i")
  case (Some app)
  with assms show ?thesis
    by (cases "laiA_Enabled app"; cases "laiA_KeepOriginalBody app")
      (auto simp: activeRuntime_def defaultApplicationInputA_def defaultLogRuntimeInput_def logWebhookDefaulterA_def
        logWebhookDefaulter_def Convert_v1alpha1_LogPipelineInput_To_v1beta1_LogPipelineInput_def Let_def)
next
  case None
  with assms show ?thesis
    by (simp add: activeRuntime_def defaultApplicationInputA_def defaultLogRuntimeInput_def logWebhookDefaulterA_def
      logWebhookDefaulter_def Convert_v1alpha1_LogPipelineInput_To_v1beta1_LogPipelineInput_def Let_def
      sanitizeNamespaceNames_def [of "[]"])
qed

lemma log_otlp_converted:
  "li_OTLP (Convert_v1alpha1_LogPipelineInput_To_v1beta1_LogPipelineInput i out) = map_option convertOTLPInput (liA_OTLP i)"
  by (simp add: Convert_v1alpha1_LogPipelineInput_To_v1beta1_LogPipelineInput_def Let_def split: option.split)

lemma log_defaults_commute:
  assumes "li_Runtime (ls_Input (lp_Spec dst)) = None"
  shows "log_active (Convert_v1alpha1_LogPipeline_To_v1beta1_LogPipeline (log_DefaultA logWebhookDefaulterA q) dst) =
    log_active (log_Default logWebhookDefaulter (Convert_v1alpha1_LogPipeline_To_v1beta1_LogPipeline q dst))"
proof -
  let ?a = "Convert_v1alpha1_LogPipeline_To_v1beta1_LogPipeline (log_DefaultA logWebhookDefaulterA q) dst"
  let ?b = "log_Default logWebhookDefaulter (Convert_v1alpha1_LogPipeline_To_v1beta1_LogPipeline q dst)"
  have runtime: "activeRuntime (li_Runtime (ls_Input (lp_Spec ?a))) = activeRuntime (li_Runtime (ls_Input (lp_Spec ?b)))"
    using log_runtime_commute [OF assms, of "lsA_Input (lpA_Spec (log_DefaultA logWebhookDefaulterA q))" "lsA_Input (lpA_Spec q)"]
    by (simp add: log_DefaultA_def log_Default_def Let_def Convert_v1alpha1_LogPipeline_To_v1beta1_LogPipeline_def
        Convert_v1alpha1_LogPipelineSpec_To_v1beta1_LogPipelineSpec_def)
  have otlp: "activeOTLP (li_OTLP (ls_Input (lp_Spec ?a))) = activeOTLP (li_OTLP (ls_Input (lp_Spec ?b)))"
    using default_OTLP_converted [of "liA_OTLP (lsA_Input (lpA_Spec q))"]
    by (simp add: log_DefaultA_def log_Default_def Let_def Convert_v1alpha1_LogPipeline_To_v1beta1_LogPipeline_def
        Convert_v1alpha1_LogPipelineSpec_To_v1beta1_LogPipelineSpec_def log_otlp_converted logWebhookDefaulter_def
        Convert_v1alpha1_LogPipelineOutput_To_v1beta1_LogPipelineOutput_def)
  have outs: "ls_Output (lp_Spec ?a) = ls_Output (lp_Spec ?b)"
    by (cases "loA_OTLP (lsA_Output (lpA_Spec q))")
      (simp_all add: log_DefaultA_def log_Default_def Let_def default_output_converted
        Convert_v1alpha1_LogPipeline_To_v1beta1_LogPipeline_def Convert_v1alpha1_LogPipelineSpec_To_v1beta1_LogPipelineSpec_def
        Convert_v1alpha1_LogPipelineOutput_To_v1beta1_LogPipelineOutput_def)
  have rest: "lp_ObjectMeta ?a = lp_ObjectMeta ?b" "lp_Status ?a = lp_Status ?b"
    "ls_FluentBitFilters (lp_Spec ?a) = ls_FluentBitFilters (lp_Spec ?b)"
    "ls_FluentBitFiles (lp_Spec ?a) = ls_FluentBitFiles (lp_Spec ?b)"
    "ls_FluentBitVariables (lp_Spec ?a) = ls_FluentBitVariables (lp_Spec ?b)"
    "ls_Transforms (lp_Spec ?a) = ls_Transforms (lp_Spec ?b)" "ls_Filters (lp_Spec ?a) = ls_Filters (lp_Spec ?b)"
    by (simp_all add: log_DefaultA_def log_Default_def Let_def Convert_v1alpha1_LogPipeline_To_v1beta1_LogPipeline_def
        Convert_v1alpha1_LogPipelineSpec_To_v1beta1_LogPipelineSpec_def)
  have "lp_Spec (log_active ?a) = lp_Spec (log_active ?b)"
    using runtime otlp outs rest by (intro LogPipelineSpec.equality) (simp_all add: log_active_def)
  then show ?thesis using rest(1,2) by (intro LogPipeline.equality) (simp_all add: log_active_def)
qed



section \<open>Admission and validation\<close>

lemma admit_Inr [simp]: "admit err ws = Inr ws' \<longleftrightarrow> err = None \<and> ws = ws'"
  by (cases err) (auto simp: admit_def)

lemma validateFilterTransform_None:
  assumes "newSpecValidator (ol_Filter ol) ty = Inr fp" and "newSpecValidator (ol_Transform ol) ty = Inr tp"
  shows "validateFilterTransform ol ty msg fs ts = None \<longleftrightarrow>
     FilterSpecValidator_Validate fp fs = None \<and> TransformSpecValidator_Validate tp ts = None"
  using assms
  by (simp add: validateFilterTransform_def ValidateFilterTransform_def FilterSpecValidator_Validate_def
      TransformSpecValidator_Validate_def)

lemma webhook_validate_metric_iff:
  assumes "newSpecValidator (ol_Filter ol) SignalTypeMetric = Inr fp"
    and "newSpecValidator (ol_Transform ol) SignalTypeMetric = Inr tp"
  shows "webhook_validate_metric ol p = Inr ws \<longleftrightarrow> ws = [] \<and>
     FilterSpecValidator_Validate fp (ms_Filters (mp_Spec p)) = None \<and>
     TransformSpecValidator_Validate tp (ms_Transforms (mp_Spec p)) = None \<and> runtimemetrics_Validate p = None"
  using validateFilterTransform_None [OF assms] by (auto simp: webhook_validate_metric_def)

lemma not_spec_error:
  "is_secret_error e \<or> is_api_error e \<or> is_endpoint_error e \<or> is_tls_error e \<or> (\<exists>s. e = Sentinel s) \<Longrightarrow>
     \<not> IsInvalidOTTLSpecError e \<and> \<not> IsInvalidAdditionalMetricError e"
  by (auto simp: is_secret_error_def is_api_error_def is_endpoint_error_def is_tls_error_def
      IsInvalidOTTLSpecError_def IsInvalidAdditionalMetricError_def errors_As_wrapped)

context otlp_validator
begin

lemma validateOTLPOutput_not_spec_error:
  "validateOTLPOutput v otlp = Ret (Some e) \<Longrightarrow> \<not> IsInvalidOTTLSpecError e \<and> \<not> IsInvalidAdditionalMetricError e"
  using otlp_output_errors not_spec_error by blast

lemma secretref_not_spec_error:
  "v_SecretRef v p = Ret (Some e) \<Longrightarrow> \<not> IsInvalidOTTLSpecError e \<and> \<not> IsInvalidAdditionalMetricError e"
  using secretref_errors not_spec_error by blast

lemma lock_not_spec_error:
  "v_IsLockHolder v m = Some e \<Longrightarrow> \<not> IsInvalidOTTLSpecError e \<and> \<not> IsInvalidAdditionalMetricError e"
  using lock_errors not_spec_error by blast

end

text \<open>The \<open>v1alpha1\<close> webhook admits what the \<open>v1beta1\<close> webhook admits after the conversion.\<close>

lemma webhook_validate_metricA_iff:
  "(\<exists>q'. webhook_validate_metricA ol q = Inr (q', ws)) \<longleftrightarrow>
     webhook_validate_metric ol (snd (Convert_v1alpha1_MetricPipeline_To_v1beta1_MetricPipeline q)) = Inr ws"
proof -
  have "ms_Filters (mp_Spec (snd (Convert_v1alpha1_MetricPipeline_To_v1beta1_MetricPipeline q))) = msA_Filters (mpA_Spec q)"
    "ms_Transforms (mp_Spec (snd (Convert_v1alpha1_MetricPipeline_To_v1beta1_MetricPipeline q))) = msA_Transforms (mpA_Spec q)"
    by (simp_all add: Convert_v1alpha1_MetricPipeline_To_v1beta1_MetricPipeline_def
        Convert_v1alpha1_MetricPipelineSpec_To_v1beta1_MetricPipelineSpec_def Let_def)
  then show ?thesis
    by (auto simp: webhook_validate_metricA_def webhook_validate_metric_def split_beta split: option.splits)
qed

lemma metric_validate_admitted:
  assumes "newSpecValidator (ol_Filter ol) SignalTypeMetric = Inr fp"
    and "newSpecValidator (ol_Transform ol) SignalTypeMetric = Inr tp"
    and "webhook_validate_metric ol p = Inr ws"
    and "metric_validate (newMetricValidator parse cr tp fp get now c ck s) p = Ret (Some e)"
  shows "\<not> IsInvalidOTTLSpecError e \<and> \<not> IsInvalidAdditionalMetricError e"
proof -
  let ?v = "newMetricValidator parse cr tp fp get now c ck s"
  have "v_Filter ?v (ms_Filters (mp_Spec p)) = None" "v_Transform ?v (ms_Transforms (mp_Spec p)) = None"
    "v_AdditionalMetrics ?v p = None"
    using webhook_validate_metric_iff [OF assms(1,2), of p ws] assms(3) by (simp_all add: newMetricValidator_def)
  then show ?thesis
    using assms(4)
    by (auto simp: metric_validate_def gcheck_Some dest: metric_v.validateOTLPOutput_not_spec_error
        metric_v.secretref_not_spec_error metric_v.lock_not_spec_error)
qed

text \<open>C14: the webhook and the reconciler agree on the spec of a metric pipeline.  The webhook admits a pipeline, without
  warnings, exactly when the filter, transform and additional metrics checks of the reconciler's validator accept it;
  the \<open>v1alpha1\<close> webhook admits one exactly when the \<open>v1beta1\<close> webhook admits its conversion.  So a pipeline that passes the
  reconciler's validation is admitted, and for one that is admitted the validation never fails because of an OTTL spec or an
  additional metric.\<close>

theorem admitted_metric_pipeline_spec:
  assumes "newSpecValidator (ol_Filter ol) SignalTypeMetric = Inr fp"
    and "newSpecValidator (ol_Transform ol) SignalTypeMetric = Inr tp"
    and "v = newMetricValidator parse cr tp fp get now c ck s"
  shows "(webhook_validate_metric ol p = Inr ws \<longleftrightarrow> ws = [] \<and> v_Filter v (ms_Filters (mp_Spec p)) = None \<and>
       v_Transform v (ms_Transforms (mp_Spec p)) = None \<and> v_AdditionalMetrics v p = None) \<and>
     ((\<exists>q'. webhook_validate_metricA ol q = Inr (q', ws)) \<longleftrightarrow>
       webhook_validate_metric ol (snd (Convert_v1alpha1_MetricPipeline_To_v1beta1_MetricPipeline q)) = Inr ws) \<and>
     (metric_validate v p = Ret None \<longrightarrow> webhook_validate_metric ol p = Inr []) \<and>
     (webhook_validate_metric ol p = Inr ws \<longrightarrow>
       (\<forall>e. metric_validate v p = Ret (Some e) \<longrightarrow> \<not> IsInvalidOTTLSpecError e \<and> \<not> IsInvalidAdditionalMetricError e))"
proof (intro conjI)
  show iff: "webhook_validate_metric ol p = Inr ws \<longleftrightarrow> ws = [] \<and> v_Filter v (ms_Filters (mp_Spec p)) = None \<and>
       v_Transform v (ms_Transforms (mp_Spec p)) = None \<and> v_AdditionalMetrics v p = None" for ws
    using webhook_validate_metric_iff [OF assms(1,2)] by (simp add: assms(3) newMetricValidator_def)
  show "metric_validate v p = Ret None \<longrightarrow> webhook_validate_metric ol p = Inr []"
    unfolding iff by (simp add: metric_validate_def)
  show "webhook_validate_metric ol p = Inr ws \<longrightarrow>
      (\<forall>e. metric_validate v p = Ret (Some e) \<longrightarrow> \<not> IsInvalidOTTLSpecError e \<and> \<not> IsInvalidAdditionalMetricError e)"
    unfolding assms(3) by (intro impI allI metric_validate_admitted [OF assms(1,2)])
qed (rule webhook_validate_metricA_iff)

abbreviation permissiveLibrary :: ottl_library where
  "permissiveLibrary \<equiv> \<lparr>ol_Filter = (\<lambda>_. Inr permissiveOTTL), ol_Transform = (\<lambda>_. Inr permissiveOTTL)\<rparr>"

lemma expiring_validate:
  "metric_validate expiringValidator (metricPipelineWith tlsOutput) =
     Ret (Some (CertAboutToExpireError (7 * 24 * 60 * 60 * 1000000000) False))"
  using tlsOutput_secrets tlsOutput_endpoint tlsOutput_expiring
  by (simp add: metric_validate_def validateOTLPOutput_def tlsValidationRequired_def newMetricValidator_def
      metricPipelineWith_def zeroMetricPipeline_def tlsParams_def) (simp add: tlsOutput_def)

theorem admitted_metric_pipeline_spec_witness:
  "\<exists>e. webhook_validate_metric permissiveLibrary (metricPipelineWith tlsOutput) = Inr [] \<and>
     metric_validate expiringValidator (metricPipelineWith tlsOutput) = Ret (Some e) \<and>
     \<not> IsInvalidOTTLSpecError e \<and> \<not> IsInvalidAdditionalMetricError e"
proof -
  have parsers: "newSpecValidator (ol_Filter permissiveLibrary) SignalTypeMetric = Inr permissiveOTTL"
    "newSpecValidator (ol_Transform permissiveLibrary) SignalTypeMetric = Inr permissiveOTTL"
    by (simp_all add: newSpecValidator_def SignalType_Validate_def)
  have admitted: "webhook_validate_metric permissiveLibrary (metricPipelineWith tlsOutput) = Inr []"
    by (simp add: webhook_validate_metric_def validateFilterTransform_def ValidateFilterTransform_def parsers [simplified]
        metricPipelineWith_def zeroMetricPipeline_def runtimemetrics_Validate_None additionalMetricsOf_def elems_def)
  from admitted_metric_pipeline_spec [OF parsers refl, where parse = "\<lambda>_. Inr sampleURL" and cr = expiringCrypto and
      get = noSecrets and now = 0 and c = mem_client and ck = sampleLocker and s = "[Put sampleLock]" and
      p = "metricPipelineWith tlsOutput" and ws = "[]"]
  have "\<forall>e. metric_validate expiringValidator (metricPipelineWith tlsOutput) = Ret (Some e) \<longrightarrow>
      \<not> IsInvalidOTTLSpecError e \<and> \<not> IsInvalidAdditionalMetricError e"
    using admitted by blast
  with expiring_validate admitted show ?thesis by blast
qed

section \<open>No panic after the webhook\<close>

text \<open>What the schema of the custom resource ensures of the output, and that the endpoint's value is not empty:
  the schema only requires that \<open>value\<close> or \<open>valueFrom\<close> is present.\<close>

definition schema_accepts :: "MetricPipeline \<Rightarrow> bool" where
  "schema_accepts p =
     (case ms_Output (mp_Spec p) of
        None \<Rightarrow> False
      | Some out \<Rightarrow>
          (let o1 = mo_OTLPOutput out
           in oo_Protocol o1 \<in> {[], OTLPProtocolGRPC, OTLPProtocolHTTP} \<and>
              (vt_Value (oo_Endpoint o1) \<noteq> [] \<or> vt_ValueFrom (oo_Endpoint o1) \<noteq> None)))"

definition panic_free_output :: "MetricPipeline \<Rightarrow> bool" where
  "panic_free_output p =
     (case ms_Output (mp_Spec p) of
        None \<Rightarrow> False
      | Some out \<Rightarrow>
          (let o1 = mo_OTLPOutput out
           in oo_Protocol o1 \<in> {OTLPProtocolGRPC, OTLPProtocolHTTP} \<and> mo_Temporality out \<noteq> None \<and>
              (vt_Value (oo_Endpoint o1) \<noteq> [] \<or> vt_ValueFrom (oo_Endpoint o1) \<noteq> None)))"

lemma metric_Default_output:
  "ms_Output (mp_Spec (metric_Default md p)) = map_option (applyOTLPOutputDefaults md) (ms_Output (mp_Spec p))"
  by (simp add: metric_Default_def Let_def)

lemma defaulted_panic_free:
  assumes "schema_accepts p"
  shows "panic_free_output (metric_Default metricWebhookDefaulter p)"
  using assms
  by (auto simp: schema_accepts_def panic_free_output_def metric_Default_output applyOTLPOutputDefaults_def
      defaultProtocol_def Let_def split: option.splits)

subsection \<open>Computations that do not panic\<close>

lemma trackInfo_no_panic:
  "(\<And>p i. p \<in> set ps \<Longrightarrow> f p i \<noteq> Panic) \<Longrightarrow> trackInfo f ps info \<noteq> Panic"
  by (induction ps arbitrary: info) (auto simp: panic_simps)

lemma ResolveValue_no_panic:
  "vt_Value v \<noteq> [] \<or> vt_ValueFrom v \<noteq> None \<Longrightarrow> ResolveValue get v \<noteq> Panic"
  by (auto simp: ResolveValue_def gderef_def split: option.splits)

lemma metric_trackPipelineInfo_no_panic:
  "panic_free_output p \<Longrightarrow> metric_trackPipelineInfo get p info \<noteq> Panic"
  by (auto simp: panic_simps metric_trackPipelineInfo_def IsDeltaTemporality_def panic_free_output_def Let_def
      metric_getEndpoint_def endpointOf_def ResolveValue_no_panic split: option.splits)

lemma endpoint_Validate_no_panic:
  "evp_Protocol q \<in> {OTLPProtocolGRPC, OTLPProtocolHTTP} \<Longrightarrow> endpoint_Validate parse get q \<noteq> Panic"
  by (auto simp: panic_simps endpoint_Validate_def endpoint_checks_def endpoint_oauth2_def split: option.splits sum.splits)

lemma metric_validate_no_panic:
  assumes "panic_free_output p"
  shows "metric_validate (newMetricValidator parse cr tp fp get now c ck s) p \<noteq> Panic"
proof -
  from assms obtain out where out: "ms_Output (mp_Spec p) = Some out"
    and protocol: "oo_Protocol (mo_OTLPOutput out) \<in> {OTLPProtocolGRPC, OTLPProtocolHTTP}"
    by (auto simp: panic_free_output_def Let_def split: option.splits)
  from protocol have "endpoint_Validate parse get (endpointParams (mo_OTLPOutput out)) \<noteq> Panic"
    by (intro endpoint_Validate_no_panic) (simp add: endpointParams_def)
  with out show ?thesis
    by (auto simp: panic_simps metric_validate_def newMetricValidator_def validateOTLPOutput_def tlsValidationRequired_def
        secretref_ValidateMetricPipeline_def GetSecretRefsMetricPipeline_def split: option.splits)
qed

lemma metric_isReconcilable_no_panic:
  "panic_free_output p \<Longrightarrow> metric_isReconcilable (newMetricValidator parse cr tp fp get now c ck s) p \<noteq> Panic"
  using metric_validate_no_panic [of p parse cr tp fp get now c ck s]
  by (auto simp: panic_simps metric_isReconcilable_def reconcilable_by_def split: option.splits if_splits)

lemma getReconcilablePipelines_no_panic:
  "(\<And>p. p \<in> set ps \<Longrightarrow> f p \<noteq> Panic) \<Longrightarrow> getReconcilablePipelines f ps \<noteq> Panic"
  by (induction ps) (auto simp: panic_simps)

lemma getReconcilablePipelines_subset:
  "getReconcilablePipelines f ps = Ret (Inr qs) \<Longrightarrow> set qs \<subseteq> set ps"
  by (induction ps arbitrary: qs) (auto simp: grbind_eq_Inr split: if_splits)

lemma updateReference_no_panic: "refs \<noteq> Panic \<Longrightarrow> updateReference r ty m refs b w \<noteq> Panic"
  by (auto simp: panic_simps updateReference_def addReference_def removeReference_def split_beta)

lemma OTLPOutputPorts_no_panic:
  assumes "\<And>p. p \<in> set ps \<Longrightarrow> panic_free_output p"
  shows "OTLPOutputPorts get parse ps \<noteq> Panic"
  unfolding OTLPOutputPorts_def
proof (rule range_state_no_panic)
  fix p and st :: "string list"
  assume "p \<in> set ps"
  with assms have "panic_free_output p" by blast
  then show "addBackendPort get parse p st \<noteq> Panic"
    using ResolveValue_no_panic
    by (auto simp: panic_simps addBackendPort_def panic_free_output_def Let_def split: option.splits sum.splits)
qed

lemma agents_no_panic:
  assumes "\<And>p. p \<in> set ps \<Longrightarrow> panic_free_output p" and "\<And>ps opts. ag_Build ag ps opts \<noteq> Panic"
  shows "reconcileMetricAgents r ag p ps w \<noteq> Panic"
  using OTLPOutputPorts_no_panic [of ps] assms
  by (auto simp: panic_simps reconcileMetricAgents_def Let_def applyAgent_def)

lemma cleanUpAgent_no_panic: "cleanUpAgent ag w \<noteq> Panic"
  by (auto simp: panic_simps cleanUpAgent_def deleteAgent_def)

lemma metric_doReconcile_no_panic:
  assumes validator: "\<And>s. r_pipelineValidator r s = newMetricValidator parse cr tp fp get now c ck s"
    and listed: "\<And>ps q. r_List r = Inr ps \<Longrightarrow> q \<in> set ps \<Longrightarrow> panic_free_output q"
    and p: "panic_free_output p" and build: "\<And>ps opts. ag_Build ag ps opts \<noteq> Panic"
  shows "metric_doReconcile r ag p w \<noteq> Panic"
proof -
  have refs: "GetSecretRefsMetricPipeline p \<noteq> Panic"
    using p by (auto simp: GetSecretRefsMetricPipeline_def panic_free_output_def split: option.splits)
  have agents: "ask f (getReconcilablePipelines (metric_isReconcilable (r_pipelineValidator r s)) ps)
      (\<lambda>qs. let requiringAgents = filter isMetricAgentRequired qs
        in if requiringAgents = [] then cleanUpAgent ag
           else andThen g (reconcileMetricAgents r ag p requiringAgents) finish) w' \<noteq> Panic"
    if ps: "\<And>q. q \<in> set ps \<Longrightarrow> panic_free_output q" for f g s ps w'
  proof -
    have "getReconcilablePipelines (metric_isReconcilable (r_pipelineValidator r s)) ps \<noteq> Panic"
      by (rule getReconcilablePipelines_no_panic) (simp add: validator metric_isReconcilable_no_panic ps)
    moreover have "reconcileMetricAgents r ag p (filter isMetricAgentRequired qs) w' \<noteq> Panic"
      if "getReconcilablePipelines (metric_isReconcilable (r_pipelineValidator r s)) ps = Ret (Inr qs)" for qs
      using getReconcilablePipelines_subset [OF that] ps build by (intro agents_no_panic) auto
    ultimately show ?thesis by (auto simp: panic_simps Let_def cleanUpAgent_no_panic)
  qed
  show ?thesis
  proof (cases "r_List r")
    case (Inl e)
    then show ?thesis by (auto simp: panic_simps metric_doReconcile_def split: prod.splits lock_result.splits)
  next
    case (Inr ps)
    with listed have ps: "\<And>q. q \<in> set ps \<Longrightarrow> panic_free_output q" by blast
    show ?thesis
      using Inr agents [OF ps] trackInfo_no_panic [of ps] metric_trackPipelineInfo_no_panic [OF ps]
      by (auto simp: panic_simps metric_doReconcile_def track_def validator metric_isReconcilable_no_panic [OF p]
          updateReference_no_panic [OF refs] split: prod.splits lock_result.splits)
  qed
qed

text \<open>C8: the reconciliation of a metric pipeline does not panic when every listed pipeline and the reconciled one
  went through the defaulting webhook and has an output that the schema accepts with a non-empty endpoint, and the
  builder of the agent configuration does not panic.\<close>

theorem defaulted_metric_reconcile_no_panic:
  assumes "\<forall>s. r_pipelineValidator r s = newMetricValidator parse cr tp fp get now c ck s"
    and "r_List r = Inr (map (metric_Default metricWebhookDefaulter) qs)"
    and "\<forall>q\<in>set (p # qs). schema_accepts q"
    and "\<forall>ps opts. ag_Build ag ps opts \<noteq> Panic"
  shows "metric_doReconcile r ag (metric_Default metricWebhookDefaulter p) w \<noteq> Panic"
  using assms by (intro metric_doReconcile_no_panic) (auto intro: defaulted_panic_free)

theorem defaulted_metric_reconcile_no_panic_witness:
  "let p = metricPipelineWith tlsOutput;
       r = sampleReconciler ''MetricPipeline'' sampleYaml typeMetricPipeline mp_ObjectMeta
             [metric_Default metricWebhookDefaulter p]
             \<lparr>r_pipelineValidator := newMetricValidator (\<lambda>_. Inr sampleURL) expiringCrypto permissiveOTTL permissiveOTTL
                noSecrets 0 mem_client sampleLocker\<rparr>
   in ms_Output (mp_Spec p) = Some \<lparr>mo_OTLPOutput = tlsOutput, mo_Temporality = None\<rparr> \<and>
      metric_doReconcile r (noAgent\<lparr>ag_Build := (\<lambda>_ _. Ret (Inr ((), Map.empty)))\<rparr>)
        (metric_Default metricWebhookDefaulter p) sampleWorld \<noteq> Panic"
proof -
  let ?p = "metricPipelineWith tlsOutput"
  let ?r = "sampleReconciler ''MetricPipeline'' sampleYaml typeMetricPipeline mp_ObjectMeta
      [metric_Default metricWebhookDefaulter ?p]
      \<lparr>r_pipelineValidator := newMetricValidator (\<lambda>_. Inr sampleURL) expiringCrypto permissiveOTTL permissiveOTTL
         noSecrets 0 mem_client sampleLocker\<rparr>"
  have "schema_accepts ?p"
    by (simp add: schema_accepts_def metricPipelineWith_def tlsOutput_def plainOTLPOutput_def plainValue_def)
  then have "metric_doReconcile ?r (noAgent\<lparr>ag_Build := (\<lambda>_ _. Ret (Inr ((), Map.empty)))\<rparr>)
      (metric_Default metricWebhookDefaulter ?p) sampleWorld \<noteq> Panic"
    by (intro defaulted_metric_reconcile_no_panic [where qs = "[?p]"]) (auto simp: sampleReconciler_def)
  then show ?thesis by (simp add: metricPipelineWith_def)
qed

end
