(* ===== verification/SelfMonitorConfig.thy ===== *)
theory SelfMonitorConfig
  imports SelfMonitor GatewayConfig Regexp
begin

text \<open>
  The Prometheus configuration of the self monitor (\<open>internal/selfmonitor/config/config.go\<close> and
  \<open>config_builder.go\<close>).  Durations are in nanoseconds.  The relabelling of the collector's metrics derives the
  labels \<open>pipeline_name\<close> and \<open>pipeline_type\<close>, by which the probers tell the pipelines apart, from the ID of the
  exporter; the regular expressions that do so are compiled from the text in the configuration.
\<close>

section \<open>The configuration\<close>

record GlobalConfig =
  gc_ScraperInterval :: int
  gc_EvaluationInterval :: int

record AlertManagerStaticConfig =
  amsc_Targets :: "string list"

record promTLSConfig =
  ptc_InsecureSkipVerify :: bool

record AlertManagerConfig =
  amc_Scheme :: string
  amc_PathPrefix :: string
  amc_StaticConfigs :: "AlertManagerStaticConfig list"
  amc_TLSConfig :: promTLSConfig

record AlertingConfig =
  alc_AlertManagers :: "AlertManagerConfig list"

datatype RelabelAction = Keep | Drop | Replace | LabelDrop

record RelabelConfig =
  rc_SourceLabels :: "string list"
  rc_Separator :: string
  rc_Regex :: string
  rc_Modulus :: nat
  rc_TargetLabel :: string
  rc_Replacement :: string
  rc_Action :: RelabelAction

record KubernetesDiscoveryConfig =
  kdc_Role :: string
  kdc_Namespaces :: "string list"

record ScrapeConfig =
  sc_JobName :: string
  sc_SampleLimit :: int
  sc_ScrapeInterval :: int
  sc_MetricsPath :: string
  sc_RelabelConfigs :: "RelabelConfig list"
  sc_MetricRelabelConfigs :: "RelabelConfig list"
  sc_KubernetesDiscoveryConfigs :: "KubernetesDiscoveryConfig list"

record promConfig =
  pc_GlobalConfig :: GlobalConfig
  pc_AlertingConfig :: AlertingConfig
  pc_RuleFiles :: "string list"
  pc_ScrapeConfigs :: "ScrapeConfig list"

record BuilderConfig =
  bc_ScrapeNamespace :: string
  bc_AlertmanagerWebhookURL :: string
  bc_ConfigPath :: string
  bc_AlertRuleFileName :: string

section \<open>The builder\<close>

definition makeGlobalConfig :: GlobalConfig where
  "makeGlobalConfig = \<lparr>gc_ScraperInterval = 30 * 1000000000, gc_EvaluationInterval = 30 * 1000000000\<rparr>"

definition makeAlertConfig :: "string \<Rightarrow> AlertingConfig" where
  "makeAlertConfig webhookURL =
     \<lparr>alc_AlertManagers =
        [\<lparr>amc_Scheme = ''https'', amc_PathPrefix = [], amc_StaticConfigs = [\<lparr>amsc_Targets = [webhookURL]\<rparr>],
          amc_TLSConfig = \<lparr>ptc_InsecureSkipVerify = True\<rparr>\<rparr>]\<rparr>"

text \<open>A relabelling rule with the fields that the builder sets; the others are zero.\<close>

definition relabelRule :: "string list \<Rightarrow> RelabelAction \<Rightarrow> string \<Rightarrow> string \<Rightarrow> string \<Rightarrow> RelabelConfig" where
  "relabelRule sourceLabels action regex targetLabel replacement =
     \<lparr>rc_SourceLabels = sourceLabels, rc_Separator = [], rc_Regex = regex, rc_Modulus = 0,
      rc_TargetLabel = targetLabel, rc_Replacement = replacement, rc_Action = action\<rparr>"

definition scrapableMetricsRegex :: string where
  "scrapableMetricsRegex =
     (let fluentBitMetrics =
            [''fluentbit_output_proc_bytes_total'', ''fluentbit_output_dropped_records_total'',
             ''fluentbit_input_bytes_total'', ''fluentbit_input_storage_chunks_down''];
          otelCollectorMetrics =
            [''otelcol_exporter_sent'', ''otelcol_exporter_send_failed'', ''otelcol_exporter_enqueue_failed'',
             ''otelcol_receiver_refused'']
      in Join (fluentBitMetrics @ map (\<lambda>m. m @ ''_.*'') otelCollectorMetrics) ''|'')"

definition makeScrapeConfig :: "string \<Rightarrow> ScrapeConfig list" where
  "makeScrapeConfig scrapeNamespace =
     [\<lparr>sc_JobName = ''kubernetes-service-endpoints'', sc_SampleLimit = 0, sc_ScrapeInterval = 0, sc_MetricsPath = [],
       sc_RelabelConfigs =
         [relabelRule [''__meta_kubernetes_namespace''] Keep scrapeNamespace [] [],
          relabelRule [''__meta_kubernetes_service_annotation_prometheus_io_scrape''] Keep ''true'' [] [],
          relabelRule [''__meta_kubernetes_endpoints_label_telemetry_kyma_project_io_self_monitor''] Keep
            ''enabled'' [] [],
          relabelRule [''__meta_kubernetes_service_annotation_prometheus_io_path''] Replace ''(.+)''
            ''__metrics_path__'' [],
          relabelRule [''__address__'', ''__meta_kubernetes_service_annotation_prometheus_io_port''] Replace
            (''(.+?)(?::'' @ [CHR 0x5C] @ ''d+)?;('' @ [CHR 0x5C] @ ''d+)'') ''__address__'' ''$1:$2'',
          relabelRule [''__meta_kubernetes_namespace''] Replace [] ''namespace'' [],
          relabelRule [''__meta_kubernetes_service_name''] Replace [] ''service'' [],
          relabelRule [''__meta_kubernetes_pod_node_name''] Replace [] ''node'' []],
       sc_MetricRelabelConfigs =
         [relabelRule [''__name__''] Keep scrapableMetricsRegex [] [],
          relabelRule [''__name__'', ''name''] Replace ''fluentbit_.+;([a-zA-Z0-9-]+)'' ''pipeline_name'' [],
          relabelRule [''__name__'', ''name''] Replace ''fluentbit_.+;([a-zA-Z0-9-]+)'' ''pipeline_type'' ''logpipeline'',
          relabelRule [''__name__'', ''exporter''] Replace
            ''otelcol_.+;.+/(?:(?:metric|trace|log)pipeline-)?([a-zA-Z0-9-]+)'' ''pipeline_name'' [],
          relabelRule [''__name__'', ''exporter''] Replace ''otelcol_.+;.+/((metric|trace|log)pipeline)-.+''
            ''pipeline_type'' ''$1''],
       sc_KubernetesDiscoveryConfigs = [\<lparr>kdc_Role = ''endpoints'', kdc_Namespaces = [scrapeNamespace]\<rparr>]\<rparr>]"

definition selfmonitor_MakeConfig :: "BuilderConfig \<Rightarrow> promConfig" where
  "selfmonitor_MakeConfig builderCfg =
     \<lparr>pc_GlobalConfig = makeGlobalConfig,
      pc_AlertingConfig = makeAlertConfig (bc_AlertmanagerWebhookURL builderCfg),
      pc_RuleFiles = [bc_ConfigPath builderCfg @ bc_AlertRuleFileName builderCfg],
      pc_ScrapeConfigs = makeScrapeConfig (bc_ScrapeNamespace builderCfg)\<rparr>"

section \<open>The label that names the pipeline\<close>

text \<open>How Prometheus documents relabelling: a rule compares the values of its source labels, joined by the separator, which
  is a semicolon by default, with its expression, which is anchored at both ends.  A rule that keeps or drops changes no
  label, and a rule that replaces changes its target label only, and only if the expression matches.  The
  implementation is a parameter.\<close>

definition relabelInput :: "RelabelConfig \<Rightarrow> labelSet \<Rightarrow> string" where
  "relabelInput rule labels =
     Join (map (\<lambda>l. deref (labels l) []) (rc_SourceLabels rule)) (if rc_Separator rule = [] then '';'' else rc_Separator rule)"

definition relabelMatches :: "RelabelConfig \<Rightarrow> labelSet \<Rightarrow> bool" where
  "relabelMatches rule labels =
     (case rx_compile (if rc_Regex rule = [] then ''(.*)'' else rc_Regex rule) of
        None \<Rightarrow> False
      | Some r \<Rightarrow> MatchString r (relabelInput rule labels))"

type_synonym relabelling = "RelabelConfig \<Rightarrow> labelSet \<Rightarrow> labelSet option"

definition lawful_relabelling :: "relabelling \<Rightarrow> bool" where
  "lawful_relabelling apply_rule \<longleftrightarrow>
     (\<forall>rule labels labels' l. apply_rule rule labels = Some labels' \<and> rc_Action rule \<in> {Keep, Drop, Replace} \<and>
        (rc_Action rule = Replace \<longrightarrow> l \<noteq> rc_TargetLabel rule \<or> \<not> relabelMatches rule labels) \<longrightarrow> labels' l = labels l)"

fun relabelAll :: "relabelling \<Rightarrow> RelabelConfig list \<Rightarrow> labelSet \<Rightarrow> labelSet option" where
  "relabelAll apply_rule [] labels = Some labels"
| "relabelAll apply_rule (rule # rules) labels = Option.bind (apply_rule rule labels) (relabelAll apply_rule rules)"

definition metricRelabelRules :: "promConfig \<Rightarrow> RelabelConfig list" where
  "metricRelabelRules config = concat (map sc_MetricRelabelConfigs (pc_ScrapeConfigs config))"

text \<open>Labels that no rule may change keep their values.\<close>

lemma relabelInput_cong: "\<forall>l\<in>set (rc_SourceLabels rule). labels l = labels' l \<Longrightarrow> relabelInput rule labels = relabelInput rule labels'"
  by (simp add: relabelInput_def cong: map_cong)

lemma relabelMatches_cong: "\<forall>l\<in>set (rc_SourceLabels rule). labels l = labels' l \<Longrightarrow> relabelMatches rule labels = relabelMatches rule labels'"
  unfolding relabelMatches_def by (simp only: relabelInput_cong)

lemma relabelAll_keeps:
  assumes "lawful_relabelling apply_rule"
  shows "relabelAll apply_rule rules labels = Some labels' \<Longrightarrow> \<forall>l\<in>L. labels l = series l \<Longrightarrow>
    \<forall>rule\<in>set rules. rc_Action rule \<in> {Keep, Drop, Replace} \<and> set (rc_SourceLabels rule) \<subseteq> L \<and>
      (rc_TargetLabel rule \<in> L \<longrightarrow> rc_Action rule = Replace \<longrightarrow> \<not> relabelMatches rule series) \<Longrightarrow> \<forall>l\<in>L. labels' l = series l"
proof (induction rules arbitrary: labels)
  case (Cons rule rules)
  then obtain labels1 where first: "apply_rule rule labels = Some labels1" and more: "relabelAll apply_rule rules labels1 = Some labels'"
    by (auto simp: bind_eq_Some_conv)
  have "relabelMatches rule labels = relabelMatches rule series"
    by (rule relabelMatches_cong) (use Cons.prems(2,3) in auto)
  with Cons.prems(3) assms first have "\<forall>l\<in>L. labels1 l = labels l" unfolding lawful_relabelling_def by (metis list.set_intros(1))
  with Cons.prems(2) have "\<forall>l\<in>L. labels1 l = series l" by simp
  from Cons.IH [OF more this] Cons.prems(3) show ?case by simp
qed simp

text \<open>The expressions of the rules, compiled.\<close>

definition rx_lit :: "string \<Rightarrow> rx \<Rightarrow> rx" where
  "rx_lit s q = foldr (\<lambda>c r. Seq (Class (\<lambda>d. d = c)) r) s q"

abbreviation rx_plus :: "(char \<Rightarrow> bool) \<Rightarrow> rx" where
  "rx_plus P \<equiv> Seq (Class P) (Star (Class P))"

abbreviation nameChar :: "char \<Rightarrow> bool" where
  "nameChar \<equiv> inClass ''a-zA-Z0-9-''"

definition rx_pipelineKind :: rx where
  "rx_pipelineKind =
     Seq (Alt (rx_lit ''metric'' Eps) (Alt (rx_lit ''trace'' Eps) (rx_lit ''log'' Eps))) (rx_lit ''pipeline-'' Eps)"

definition rx_pipelineName :: rx where
  "rx_pipelineName = Seq (Opt rx_pipelineKind) (Seq (Seq (rx_plus nameChar) Eps) Eps)"

lemmas rx_compile_simps = rx_compile_def dropLazy_def dropNonCapturing_def altOf_def seqOf_def

lemma compile_exporterRegex:
  "rx_compile ''otelcol_.+;.+/(?:(?:metric|trace|log)pipeline-)?([a-zA-Z0-9-]+)'' =
     Some (rx_lit ''otelcol_'' (Seq (rx_plus anyChar) (rx_lit '';'' (Seq (rx_plus anyChar) (rx_lit ''/'' rx_pipelineName)))))"
  by (simp add: rx_compile_simps rx_lit_def rx_pipelineName_def rx_pipelineKind_def)

lemma compile_fluentbitRegex:
  "\<exists>r. rx_compile ''fluentbit_.+;([a-zA-Z0-9-]+)'' = Some (rx_lit ''fluentbit_'' r)"
  by (simp add: rx_compile_simps rx_lit_def)

lemma in_lit: "s \<in> lang (rx_lit l q) \<longleftrightarrow> (\<exists>v. s = l @ v \<and> v \<in> lang q)"
  unfolding rx_lit_def by (induction l arbitrary: s) (auto simp: in_char_Seq simp del: lang.simps)

lemma lang_lit_Eps: "lang (rx_lit l Eps) = {l}"
  using in_lit [of _ l Eps] by auto

lemma lang_pipelineKind:
  "lang rx_pipelineKind = {''metric'' @ ''pipeline-'', ''trace'' @ ''pipeline-'', ''log'' @ ''pipeline-''}"
  unfolding rx_pipelineKind_def lang.simps(4,5) lang_lit_Eps by auto

text \<open>What the expression matches: the part after the last slash consists of letters, digits and hyphens.\<close>

lemma flatten_parts:
  "(\<exists>v. s = A @ v \<and> (\<exists>x v'. v = x @ v' \<and> P x \<and> (\<exists>w. v' = B @ w \<and> (\<exists>y w'. w = y @ w' \<and> Q y \<and>
      (\<exists>n. w' = C @ n \<and> R n))))) \<longleftrightarrow>
   (\<exists>x y n. s = A @ x @ B @ y @ C @ n \<and> P x \<and> Q y \<and> R n)"
  by blast

lemma in_exporterRegex:
  "s \<in> lang (rx_lit ''otelcol_'' (Seq (rx_plus anyChar) (rx_lit '';'' (Seq (rx_plus anyChar) (rx_lit ''/'' rx_pipelineName))))) \<longleftrightarrow>
     (\<exists>x y n. s = ''otelcol_'' @ x @ '';'' @ y @ ''/'' @ n \<and> (x \<noteq> [] \<and> list_all anyChar x) \<and>
        (y \<noteq> [] \<and> list_all anyChar y) \<and> n \<in> lang rx_pipelineName)"
  unfolding in_lit in_plus_Seq flatten_parts ..

lemma pipeline_suffix:
  "n \<in> lang rx_pipelineName \<longleftrightarrow>
     (\<exists>k g. n = k @ g \<and> k \<in> insert [] (lang rx_pipelineKind) \<and> g \<noteq> [] \<and> list_all nameChar g)"
proof -
  have "g \<in> lang (Seq (Seq (rx_plus nameChar) Eps) Eps) \<longleftrightarrow> g \<in> lang (rx_plus nameChar)" for g by simp
  then show ?thesis unfolding rx_pipelineName_def in_Seq [of n] lang.simps(7) by (simp only: in_plus)
qed

lemma pipelineKind_name: "k \<in> insert [] (lang rx_pipelineKind) \<Longrightarrow> list_all nameChar k"
  unfolding lang_pipelineKind by (elim insertE emptyE) (simp_all add: between_def)

lemma after_last_slash:
  assumes "a @ ''/'' @ n = b @ ''/'' @ m" and "CHR ''/'' \<notin> set n" and "CHR ''/'' \<notin> set m"
  shows "n = m"
proof -
  have "rev n = takeWhile (\<lambda>c. c \<noteq> CHR ''/'') (rev (a @ ''/'' @ n))" if "CHR ''/'' \<notin> set n" for a n
    using that by (simp add: takeWhile_append)
  from this [OF assms(2), of a] this [OF assms(3), of b] have "rev n = rev m" unfolding assms(1) by (rule trans [OF _ sym])
  then show ?thesis by simp
qed

lemma name_no_slash: "list_all nameChar n \<Longrightarrow> CHR ''/'' \<notin> set n"
  by (auto simp: list_all_iff between_def)

lemma exporterID_shape:
  "\<exists>p. ComponentIDOTLPExporter protocol ref = p @ ''/'' @ QualifiedName ref \<and> p \<noteq> [] \<and> list_all anyChar p"
proof (cases "protocol = OTLPProtocolHTTP")
  case True
  then have "ComponentIDOTLPExporter protocol ref = ''otlp_http'' @ ''/'' @ QualifiedName ref"
    by (simp add: ComponentIDOTLPExporter_def)
  moreover have "list_all anyChar ''otlp_http''" by code_simp
  ultimately show ?thesis by blast
next
  case False
  then have "ComponentIDOTLPExporter protocol ref = ''otlp_grpc'' @ ''/'' @ QualifiedName ref"
    by (simp add: ComponentIDOTLPExporter_def)
  moreover have "list_all anyChar ''otlp_grpc''" by code_simp
  ultimately show ?thesis by blast
qed

lemma qualifiedName_kind:
  assumes "pl_signalType ref \<in> {SignalTypeTrace, SignalTypeMetric, SignalTypeLog}"
  shows "\<exists>k \<in> lang rx_pipelineKind. QualifiedName ref = k @ pl_name ref"
  using assms by (auto simp: QualifiedName_def TypePrefix_def lang_pipelineKind SignalTypeTrace_def SignalTypeMetric_def
      SignalTypeLog_def)

text \<open>The series of an exporter of the gateway, and what the rules of the self monitor do with it.\<close>

definition exporterSeries :: "string \<Rightarrow> OTLPProtocol \<Rightarrow> PipelineRef \<Rightarrow> labelSet \<Rightarrow> bool" where
  "exporterSeries metric protocol ref series \<longleftrightarrow> metric \<noteq> [] \<and> list_all anyChar metric \<and>
     series ''__name__'' = Some (''otelcol_'' @ metric) \<and> series ''exporter'' = Some (ComponentIDOTLPExporter protocol ref) \<and>
     series labelPipelineName = None"

lemma exporter_matches_iff:
  assumes x: "x \<noteq> []" "list_all anyChar x"
    and ty: "pl_signalType ref \<in> {SignalTypeTrace, SignalTypeMetric, SignalTypeLog}"
    and name: "CHR ''/'' \<notin> set (pl_name ref)"
  shows "''otelcol_'' @ x @ '';'' @ ComponentIDOTLPExporter protocol ref \<in>
      lang (rx_lit ''otelcol_'' (Seq (rx_plus anyChar) (rx_lit '';'' (Seq (rx_plus anyChar) (rx_lit ''/'' rx_pipelineName))))) \<longleftrightarrow>
    list_all nameChar (pl_name ref)" (is "?s \<in> ?L \<longleftrightarrow> _")
proof
  obtain p where p: "ComponentIDOTLPExporter protocol ref = p @ ''/'' @ QualifiedName ref" "p \<noteq> []" "list_all anyChar p"
    using exporterID_shape by blast
  obtain k where k: "k \<in> lang rx_pipelineKind" "QualifiedName ref = k @ pl_name ref"
    using qualifiedName_kind [OF ty] by blast
  have kname: "list_all nameChar k" using pipelineKind_name k(1) by blast
  have slash: "CHR ''/'' \<notin> set (QualifiedName ref)" using name name_no_slash [OF kname] k(2) by simp
  show "list_all nameChar (pl_name ref)" if match: "?s \<in> ?L"
  proof -
    from match obtain x' y n where s: "?s = ''otelcol_'' @ x' @ '';'' @ y @ ''/'' @ n"
      and n: "n \<in> lang rx_pipelineName"
      unfolding in_exporterRegex by blast
    from n have "list_all nameChar n" unfolding pipeline_suffix using pipelineKind_name by fastforce
    moreover from this s have "n = QualifiedName ref"
      using after_last_slash [of "''otelcol_'' @ x' @ '';'' @ y" n "''otelcol_'' @ x @ '';'' @ p" "QualifiedName ref"]
        name_no_slash slash p(1) by simp
    ultimately show ?thesis using k(2) by simp
  qed
  show "?s \<in> ?L" if named: "list_all nameChar (pl_name ref)"
  proof -
    have "QualifiedName ref \<in> lang rx_pipelineName"
    proof (cases "pl_name ref = []")
      case True
      have "k \<noteq> []" using k(1) by (auto simp: lang_pipelineKind)
      then show ?thesis unfolding pipeline_suffix using True k(2) kname by fastforce
    next
      case False
      then show ?thesis unfolding pipeline_suffix using k named by blast
    qed
    then show ?thesis unfolding in_exporterRegex p(1) using x p(2,3) by blast
  qed
qed

lemma fluentbit_rule_no_match:
  assumes "exporterSeries metric protocol ref series"
  shows "\<not> relabelMatches (relabelRule [''__name__'', ''name''] Replace ''fluentbit_.+;([a-zA-Z0-9-]+)'' target replacement) series"
proof -
  obtain r where "rx_compile ''fluentbit_.+;([a-zA-Z0-9-]+)'' = Some (rx_lit ''fluentbit_'' r)"
    using compile_fluentbitRegex by blast
  with assms show ?thesis
    by (simp add: relabelMatches_def relabelRule_def relabelInput_def exporterSeries_def MatchString_lang in_lit)
qed

lemma exporter_rule_match_iff:
  assumes "exporterSeries metric protocol ref series"
    and "pl_signalType ref \<in> {SignalTypeTrace, SignalTypeMetric, SignalTypeLog}" and "CHR ''/'' \<notin> set (pl_name ref)"
  shows "relabelMatches (relabelRule [''__name__'', ''exporter''] Replace
      ''otelcol_.+;.+/(?:(?:metric|trace|log)pipeline-)?([a-zA-Z0-9-]+)'' target replacement) series \<longleftrightarrow>
    list_all nameChar (pl_name ref)"
  using assms exporter_matches_iff [of metric ref protocol]
  by (simp add: relabelMatches_def relabelRule_def relabelInput_def exporterSeries_def MatchString_lang compile_exporterRegex)

lemma metricRelabelRules_simps:
  "metricRelabelRules (selfmonitor_MakeConfig cfg) =
     [relabelRule [''__name__''] Keep scrapableMetricsRegex [] [],
      relabelRule [''__name__'', ''name''] Replace ''fluentbit_.+;([a-zA-Z0-9-]+)'' ''pipeline_name'' [],
      relabelRule [''__name__'', ''name''] Replace ''fluentbit_.+;([a-zA-Z0-9-]+)'' ''pipeline_type'' ''logpipeline'',
      relabelRule [''__name__'', ''exporter''] Replace
        ''otelcol_.+;.+/(?:(?:metric|trace|log)pipeline-)?([a-zA-Z0-9-]+)'' ''pipeline_name'' [],
      relabelRule [''__name__'', ''exporter''] Replace ''otelcol_.+;.+/((metric|trace|log)pipeline)-.+''
        ''pipeline_type'' ''$1'']"
  by (simp add: metricRelabelRules_def selfmonitor_MakeConfig_def makeScrapeConfig_def)

lemma relabelRule_simps [simp]:
  "rc_Action (relabelRule src act re tgt rep) = act" "rc_TargetLabel (relabelRule src act re tgt rep) = tgt"
  "rc_SourceLabels (relabelRule src act re tgt rep) = src"
  by (simp_all add: relabelRule_def)

lemma unlabelled_series:
  assumes "exporterSeries metric protocol ref series"
    and "pl_signalType ref \<in> {SignalTypeTrace, SignalTypeMetric, SignalTypeLog}" and "CHR ''/'' \<notin> set (pl_name ref)"
    and "\<not> list_all nameChar (pl_name ref)" and "lawful_relabelling apply_rule"
    and "relabelAll apply_rule (metricRelabelRules (selfmonitor_MakeConfig cfg)) series = Some labels"
  shows "labels labelPipelineName = None"
proof -
  let ?L = "{''__name__'', ''name'', ''exporter'', labelPipelineName}"
  have "\<forall>l\<in>?L. labels l = series l"
    by (rule relabelAll_keeps [OF assms(5,6)])
      (use fluentbit_rule_no_match [OF assms(1)] exporter_rule_match_iff [OF assms(1-3)] assms(4) in
        \<open>simp_all add: metricRelabelRules_simps\<close>)
  with assms(1) show ?thesis by (simp add: exporterSeries_def)
qed

lemma unlabelled_alert_unhealthy:
  assumes "a \<in> set alerts" and "al_State a = AlertStateFiring" and "al_Labels a AlertNameLabel = Some (ruleNamePrefix t @ rule)"
    and "rule \<in> {RuleNameGatewayAllDataDropped, RuleNameGatewaySomeDataDropped}" and "al_Labels a labelPipelineName = None"
  shows "\<exists>r. OTelGatewayProber_Probe t (Inr alerts) other = Inr r \<and> \<not> pr_Healthy r"
proof -
  have "isFiringWithMatcher alerts rule other t"
    using assms by (auto simp: isFiring_iff matchesRule_iff matchesRuleName_iff HasPrefix_def intro!: bexI [of _ a])
  with assms(4) show ?thesis by (auto simp: OTelGatewayProber_Probe_def Let_def)
qed

text \<open>C28: the self monitor cannot tell a pipeline with a dot in its name from the others.  A rule of the configuration gives
  the series of the pipeline's exporter the label \<open>pipeline_name\<close> if and only if the name consists of letters, digits and
  hyphens, although names of cluster-scoped resources may contain dots.  If it does not, then the series is left without the
  label, and an alert for dropped data that has the label of the series makes the prober of the gateway call every pipeline
  of its kind unhealthy.\<close>

theorem unlabelled_pipeline_alerts_all:
  assumes "exporterSeries metric protocol ref series"
    and "pl_signalType ref \<in> {SignalTypeTrace, SignalTypeMetric, SignalTypeLog}" and "CHR ''/'' \<notin> set (pl_name ref)"
    and "lawful_relabelling apply_rule"
  shows "((\<exists>rule\<in>set (metricRelabelRules (selfmonitor_MakeConfig cfg)). rc_TargetLabel rule = labelPipelineName \<and>
       relabelMatches rule series) \<longleftrightarrow> list_all nameChar (pl_name ref)) \<and>
    (\<not> list_all nameChar (pl_name ref) \<longrightarrow>
       (\<forall>labels a alerts rule. relabelAll apply_rule (metricRelabelRules (selfmonitor_MakeConfig cfg)) series = Some labels \<and>
          a \<in> set alerts \<and> al_State a = AlertStateFiring \<and> al_Labels a AlertNameLabel = Some (ruleNamePrefix t @ rule) \<and>
          rule \<in> {RuleNameGatewayAllDataDropped, RuleNameGatewaySomeDataDropped} \<and>
          al_Labels a labelPipelineName = labels labelPipelineName \<longrightarrow>
          (\<exists>r. OTelGatewayProber_Probe t (Inr alerts) other = Inr r \<and> \<not> pr_Healthy r)))"
proof (intro conjI impI allI)
  show "(\<exists>rule\<in>set (metricRelabelRules (selfmonitor_MakeConfig cfg)). rc_TargetLabel rule = labelPipelineName \<and>
       relabelMatches rule series) \<longleftrightarrow> list_all nameChar (pl_name ref)"
    using fluentbit_rule_no_match [OF assms(1)] exporter_rule_match_iff [OF assms(1-3)]
    by (simp add: metricRelabelRules_simps)
next
  fix labels and a :: Alert and alerts rule
  assume dotted: "\<not> list_all nameChar (pl_name ref)"
  assume alert: "relabelAll apply_rule (metricRelabelRules (selfmonitor_MakeConfig cfg)) series = Some labels \<and>
      a \<in> set alerts \<and> al_State a = AlertStateFiring \<and> al_Labels a AlertNameLabel = Some (ruleNamePrefix t @ rule) \<and>
      rule \<in> {RuleNameGatewayAllDataDropped, RuleNameGatewaySomeDataDropped} \<and>
      al_Labels a labelPipelineName = labels labelPipelineName"
  with unlabelled_series [OF assms(1-3) dotted assms(4)] have "al_Labels a labelPipelineName = None" by metis
  with alert show "\<exists>r. OTelGatewayProber_Probe t (Inr alerts) other = Inr r \<and> \<not> pr_Healthy r"
    by (intro unlabelled_alert_unhealthy [of a alerts t rule]) auto
qed

definition sampleRelabelling :: relabelling where
  "sampleRelabelling rule labels =
     Some (if rc_Action rule = Replace \<and> relabelMatches rule labels then labels(rc_TargetLabel rule \<mapsto> rc_Replacement rule) else labels)"

lemma sampleRelabelling_lawful: "lawful_relabelling sampleRelabelling"
  by (auto simp: lawful_relabelling_def sampleRelabelling_def split: if_splits)

lemma sampleRelabelling_total: "\<exists>labels'. relabelAll sampleRelabelling rules labels = Some labels'"
  by (induction rules arbitrary: labels) (simp_all add: sampleRelabelling_def)

abbreviation dottedRef :: PipelineRef where
  "dottedRef \<equiv> \<lparr>pl_name = ''my.backend'', pl_signalType = SignalTypeTrace\<rparr>"

abbreviation dottedSeries :: labelSet where
  "dottedSeries \<equiv> [''__name__'' \<mapsto> ''otelcol_'' @ ''exporter_send_failed_spans_total'',
     ''exporter'' \<mapsto> ComponentIDOTLPExporter OTLPProtocolGRPC dottedRef]"

abbreviation sampleBuilderConfig :: BuilderConfig where
  "sampleBuilderConfig \<equiv> \<lparr>bc_ScrapeNamespace = ''kyma-system'', bc_AlertmanagerWebhookURL = ''https://manager'',
     bc_ConfigPath = ''/etc/'', bc_AlertRuleFileName = ''rules.yml''\<rparr>"

theorem unlabelled_pipeline_alerts_all_witness:
  "\<exists>labels. relabelAll sampleRelabelling (metricRelabelRules (selfmonitor_MakeConfig sampleBuilderConfig)) dottedSeries = Some labels \<and>
     (\<exists>r. OTelGatewayProber_Probe typeTracePipeline
         (Inr [\<lparr>al_State = AlertStateFiring, al_Labels = [AlertNameLabel \<mapsto> ''TraceGatewaySomeDataDropped'']
            (labelPipelineName := labels labelPipelineName)\<rparr>]) ''other'' = Inr r \<and> \<not> pr_Healthy r)"
proof -
  let ?rules = "metricRelabelRules (selfmonitor_MakeConfig sampleBuilderConfig)"
  obtain labels where labels: "relabelAll sampleRelabelling ?rules dottedSeries = Some labels"
    using sampleRelabelling_total by blast
  let ?a = "\<lparr>al_State = AlertStateFiring, al_Labels = [AlertNameLabel \<mapsto> ''TraceGatewaySomeDataDropped'']
      (labelPipelineName := labels labelPipelineName)\<rparr>"
  have "list_all anyChar ''exporter_send_failed_spans_total''" by code_simp
  then have series: "exporterSeries ''exporter_send_failed_spans_total'' OTLPProtocolGRPC dottedRef dottedSeries"
    by (simp add: exporterSeries_def)
  have ref: "pl_signalType dottedRef \<in> {SignalTypeTrace, SignalTypeMetric, SignalTypeLog}" "CHR ''/'' \<notin> set (pl_name dottedRef)"
    "\<not> list_all nameChar (pl_name dottedRef)"
    by (simp_all add: between_def)
  from labels have "relabelAll sampleRelabelling ?rules dottedSeries = Some labels \<and> ?a \<in> set [?a] \<and>
      al_State ?a = AlertStateFiring \<and>
      al_Labels ?a AlertNameLabel = Some (ruleNamePrefix typeTracePipeline @ RuleNameGatewaySomeDataDropped) \<and>
      RuleNameGatewaySomeDataDropped \<in> {RuleNameGatewayAllDataDropped, RuleNameGatewaySomeDataDropped} \<and>
      al_Labels ?a labelPipelineName = labels labelPipelineName" by simp
  from unlabelled_pipeline_alerts_all [OF series ref(1,2) sampleRelabelling_lawful, THEN conjunct2, THEN mp, OF ref(3),
      THEN spec, THEN spec, THEN spec, THEN spec, THEN mp, OF this] labels
  show ?thesis by blast
qed

end
