(* ===== verification/TelemetryReconciler.thy ===== *)
theory TelemetryReconciler
  imports SelfMonitorConfig PipelineReconcilers
begin

text \<open>
  The reconciler of the Telemetry resource (\<open>internal/reconciler/telemetry\<close>): it guards the deletion of the module
  with a finalizer, renews the webhook certificate, runs the self monitor while there are pipelines, and
  summarises the health of all pipelines in the status.  The reads, the appliers, the encoders, the finalizer
  helpers of \<open>controllerutil\<close> and \<open>meta.SetStatusCondition\<close> are parameters; the calls that write are recorded in order.
\<close>

section \<open>The resource\<close>

record OTLPEndpoints =
  oe_GRPC :: string
  oe_HTTP :: string

record GatewayEndpoints =
  ge_Logs :: "OTLPEndpoints option"
  ge_Traces :: "OTLPEndpoints option"
  ge_Metrics :: "OTLPEndpoints option"
  ge_OTLP :: "OTLPEndpoints option"

record TelemetryStatus =
  tst_State :: string
  tst_Conditions :: "Condition list"
  tst_Endpoints :: GatewayEndpoints

abbreviation StateReady :: string where "StateReady \<equiv> ''Ready''"
abbreviation StateDeleting :: string where "StateDeleting \<equiv> ''Deleting''"
abbreviation StateWarning :: string where "StateWarning \<equiv> ''Warning''"

text \<open>The Telemetry resource with the fields that only this reconciler uses.\<close>

record TelemetryCR = Telemetry +
  tl_Finalizers :: "string list"
  tl_Status :: TelemetryStatus

section \<open>Health of the components\<close>

abbreviation ReasonResourceBlocksDeletion :: string where
  "ReasonResourceBlocksDeletion \<equiv> ''ResourceBlocksDeletion''"

record blockingResources =
  br_resourceType :: string
  br_resourceNames :: "string list"

definition generateDeletionBlockedMessage :: "blockingResources list \<Rightarrow> string" where
  "generateDeletionBlockedMessage resources =
     ''The deletion of the module is blocked. To unblock the deletion, delete the following resources: '' @
     Join (map (\<lambda>res. br_resourceType res @ '' ('' @ Join (sort (br_resourceNames res)) '','' @ '')'')
       (filter (\<lambda>res. br_resourceNames res \<noteq> []) resources)) '', ''"

text \<open>The three checkers differ in the type of the condition, the messages and the pipelines.  \<open>ck_Find\<close> is
  \<open>meta.FindStatusCondition\<close>.\<close>

record 'p components_checker =
  ck_Type :: string
  ck_Message :: "string \<Rightarrow> string"
  ck_Kind :: string
  ck_Meta :: "'p \<Rightarrow> ObjectMeta"
  ck_Conditions :: "'p \<Rightarrow> Condition list"
  ck_Find :: "Condition list \<Rightarrow> string \<Rightarrow> Condition option"

definition logComponentsChecker ::
    "(Condition list \<Rightarrow> string \<Rightarrow> Condition option) \<Rightarrow> LogPipeline components_checker" where
  "logComponentsChecker findStatusCondition =
     \<lparr>ck_Type = TypeLogComponentsHealthy, ck_Message = MessageForFluentBitLogPipeline, ck_Kind = ''LogPipelines'',
      ck_Meta = lp_ObjectMeta, ck_Conditions = (\<lambda>p. lst_Conditions (lp_Status p)), ck_Find = findStatusCondition\<rparr>"

definition metricComponentsChecker ::
    "(Condition list \<Rightarrow> string \<Rightarrow> Condition option) \<Rightarrow> MetricPipeline components_checker" where
  "metricComponentsChecker findStatusCondition =
     \<lparr>ck_Type = TypeMetricComponentsHealthy, ck_Message = MessageForMetricPipeline, ck_Kind = ''MetricPipelines'',
      ck_Meta = mp_ObjectMeta, ck_Conditions = mp_Conditions, ck_Find = findStatusCondition\<rparr>"

definition traceComponentsChecker ::
    "(Condition list \<Rightarrow> string \<Rightarrow> Condition option) \<Rightarrow> TracePipeline components_checker" where
  "traceComponentsChecker findStatusCondition =
     \<lparr>ck_Type = TypeTraceComponentsHealthy, ck_Message = MessageForTracePipeline, ck_Kind = ''TracePipelines'',
      ck_Meta = tp_ObjectMeta, ck_Conditions = tp_Conditions, ck_Find = findStatusCondition\<rparr>"

text \<open>A loop that returns at the first element for which \<open>f\<close> gives a result.\<close>

fun firstSome :: "('a \<Rightarrow> 'b option) \<Rightarrow> 'a list \<Rightarrow> 'b option" where
  "firstSome f [] = None"
| "firstSome f (x # xs) = (case f x of None \<Rightarrow> firstSome f xs | Some y \<Rightarrow> Some y)"

definition copiedCondition :: "string \<Rightarrow> Condition \<Rightarrow> Condition" where
  "copiedCondition t cond = condition t (c_Status cond) (c_Reason cond) (c_Message cond)"

definition checkForResourceBlocksDeletionCondition ::
    "'p components_checker \<Rightarrow> 'p list \<Rightarrow> bool \<Rightarrow> Condition option" where
  "checkForResourceBlocksDeletionCondition ck pipelines telemetryInDeletion =
     (if telemetryInDeletion \<and> pipelines \<noteq> []
      then Some (condition (ck_Type ck) ConditionFalse ReasonResourceBlocksDeletion
             (generateDeletionBlockedMessage
               [\<lparr>br_resourceType = ck_Kind ck, br_resourceNames = map (\<lambda>p. om_Name (ck_Meta ck p)) pipelines\<rparr>]))
      else None)"

definition checkForNoPipelineDeployedCondition :: "'p components_checker \<Rightarrow> 'p list \<Rightarrow> Condition option" where
  "checkForNoPipelineDeployedCondition ck pipelines =
     (if pipelines = []
      then Some (condition (ck_Type ck) ConditionTrue ReasonNoPipelineDeployed (ck_Message ck ReasonNoPipelineDeployed))
      else None)"

abbreviation healthConditionTypes :: "string list" where
  "healthConditionTypes \<equiv> [TypeConfigurationGenerated, TypeGatewayHealthy, TypeAgentHealthy, TypeFlowHealthy]"

definition checkForFirstUnhealthyPipelineCondition :: "'p components_checker \<Rightarrow> 'p list \<Rightarrow> Condition option" where
  "checkForFirstUnhealthyPipelineCondition ck pipelines =
     firstSome (\<lambda>condType. firstSome (\<lambda>p.
         case ck_Find ck (ck_Conditions ck p) condType of
           None \<Rightarrow> None
         | Some cond \<Rightarrow> if c_Status cond = ConditionFalse then Some (copiedCondition (ck_Type ck) cond) else None)
       pipelines) healthConditionTypes"

definition checkForFirstAboutToExpirePipelineCondition :: "'p components_checker \<Rightarrow> 'p list \<Rightarrow> Condition option" where
  "checkForFirstAboutToExpirePipelineCondition ck pipelines =
     firstSome (\<lambda>p.
         case ck_Find ck (ck_Conditions ck p) TypeConfigurationGenerated of
           None \<Rightarrow> None
         | Some cond \<Rightarrow>
             if c_Reason cond = ReasonTLSCertificateAboutToExpire then Some (copiedCondition (ck_Type ck) cond) else None)
       pipelines"

definition components_Check ::
    "'p components_checker \<Rightarrow> (kube_error, 'p list) result \<Rightarrow> bool \<Rightarrow> (go_error, Condition) result" where
  "components_Check ck listResult telemetryInDeletion =
     (case listResult of
        Inl e \<Rightarrow> Inl (Errorf (''failed to get list of '' @ ck_Kind ck @ '': '') (KubeError e) [])
      | Inr pipelines \<Rightarrow>
          Inr (case firstSome (\<lambda>check. check)
                 [checkForResourceBlocksDeletionCondition ck pipelines telemetryInDeletion,
                  checkForNoPipelineDeployedCondition ck pipelines,
                  checkForFirstUnhealthyPipelineCondition ck pipelines,
                  checkForFirstAboutToExpirePipelineCondition ck pipelines] of
                 Some result \<Rightarrow> result
               | None \<Rightarrow> condition (ck_Type ck) ConditionTrue ReasonComponentsRunning (ck_Message ck ReasonComponentsRunning)))"

section \<open>The reconciler\<close>

record selfmonitor_ApplyOptions =
  sao_AlertRulesFileName :: string
  sao_AlertRulesYAML :: string
  sao_PrometheusConfigFileName :: string
  sao_PrometheusConfigPath :: string
  sao_PrometheusConfigYAML :: string
  sao_LogLevel :: string

text \<open>The fields of the reconciler, the reads it makes and the outcome of its writes.  \<open>'c\<close> is the type of the CA
  Secret, \<open>'h\<close> that of the webhook configuration.  \<open>t_NoKindMatch\<close> is \<open>errors.Is(err, &meta.NoKindMatchError{})\<close>.\<close>

record ('s, 'l, 'c, 'h) TelemetryReconciler =
  t_Client :: "'s cm_client"
  t_overridesHandler :: "'l overrides_handler"
  t_targetNamespace :: string
  t_defaultTelemetryNamespace :: string
  t_AlertmanagerWebhookURL :: string
  t_Get :: "NamespacedName \<Rightarrow> (kube_error, TelemetryCR) result"
  t_Telemetry :: telemetry_reader
  t_ListLog :: "(kube_error, LogPipeline list) result"
  t_ListMetric :: "(kube_error, MetricPipeline list) result"
  t_ListTrace :: "(kube_error, TracePipeline list) result"
  t_ListVPA :: "kube_error option"
  t_NoKindMatch :: "kube_error \<Rightarrow> bool"
  t_GetService :: "NamespacedName \<Rightarrow> kube_error option"
  t_ContainsFinalizer :: "string list \<Rightarrow> string \<Rightarrow> bool"
  t_AddFinalizer :: "string list \<Rightarrow> string \<Rightarrow> string list"
  t_RemoveFinalizer :: "string list \<Rightarrow> string \<Rightarrow> string list"
  t_FindStatusCondition :: "Condition list \<Rightarrow> string \<Rightarrow> Condition option"
  t_SetStatusCondition :: "Condition list \<Rightarrow> Condition \<Rightarrow> Condition list"
  t_Update :: "TelemetryCR \<Rightarrow> (kube_error, TelemetryCR) result"
  t_StatusUpdate :: "TelemetryCR \<Rightarrow> (kube_error, TelemetryCR) result"
  t_DeleteVPA :: "NamespacedName \<Rightarrow> kube_error option"
  t_EnsureCertificate :: "go_error option"
  t_GetCASecret :: "(kube_error, 'c) result"
  t_SetSecretOwner :: "TelemetryCR \<Rightarrow> 'c \<Rightarrow> (string, 'c) result"
  t_UpdateSecret :: "'c \<Rightarrow> go_error option"
  t_GetWebhook :: "(kube_error, 'h) result"
  t_UpdateWebhook :: "'h \<Rightarrow> go_error option"
  t_MarshalConfig :: "promConfig \<Rightarrow> (string, string) result"
  t_MarshalRules :: "Rule list \<Rightarrow> (string, string) result"
  t_ApplySelfMonitor :: "TelemetryCR \<Rightarrow> selfmonitor_ApplyOptions \<Rightarrow> go_error option"
  t_DeleteSelfMonitor :: "go_error option"

datatype ('c, 'h) telemetry_call =
    UpdateTelemetry TelemetryCR
  | UpdateTelemetryStatus TelemetryCR
  | DeleteVPA NamespacedName
  | EnsureCertificate
  | UpdateCASecret 'c
  | UpdateWebhookConfiguration 'h
  | ApplySelfMonitor selfmonitor_ApplyOptions
  | DeleteSelfMonitor

text \<open>The state of one run: the Telemetry object in memory, the gauge that shows the enrichment strategy, and the
  calls made so far.\<close>

record ('c, 'h) telemetry_run =
  run_Telemetry :: TelemetryCR
  run_Strategy :: "string \<rightharpoonup> nat"
  run_Calls :: "('c, 'h) telemetry_call list"

definition call :: "('c, 'h) telemetry_call \<Rightarrow> go_error option \<Rightarrow> ('c, 'h) telemetry_run action" where
  "call c err w = Ret (w\<lparr>run_Calls := run_Calls w @ [c]\<rparr>, err)"

text \<open>\<open>r.Update(ctx, telemetry)\<close> and \<open>r.Status().Update(ctx, telemetry)\<close> write the object in memory, and read the
  server's answer into it.\<close>

definition store ::
    "(TelemetryCR \<Rightarrow> ('c, 'h) telemetry_call) \<Rightarrow> (TelemetryCR \<Rightarrow> (kube_error, TelemetryCR) result) \<Rightarrow>
     ('c, 'h) telemetry_run action" where
  "store c update w =
     (let w' = w\<lparr>run_Calls := run_Calls w @ [c (run_Telemetry w)]\<rparr>
      in case update (run_Telemetry w) of
           Inl e \<Rightarrow> Ret (w', Some (KubeError e))
         | Inr t \<Rightarrow> Ret (w'\<lparr>run_Telemetry := t\<rparr>, None))"

subsection \<open>Pipelines that depend on the module\<close>

definition resourcesExist :: "('s, 'l, 'c, 'h) TelemetryReconciler \<Rightarrow> (kube_error, 'p list) result \<Rightarrow> bool" where
  "resourcesExist r listResult =
     (case listResult of Inl e \<Rightarrow> t_NoKindMatch r e | Inr items \<Rightarrow> length items > 0)"

definition dependentCRsFound :: "('s, 'l, 'c, 'h) TelemetryReconciler \<Rightarrow> bool" where
  "dependentCRsFound r \<longleftrightarrow>
     resourcesExist r (t_ListLog r) \<or> resourcesExist r (t_ListMetric r) \<or> resourcesExist r (t_ListTrace r)"

definition checkPipelineExist :: "('s, 'l, 'c, 'h) TelemetryReconciler \<Rightarrow> (go_error, bool) result" where
  "checkPipelineExist r =
     (case t_ListLog r of
        Inl e \<Rightarrow> Inl (wrap ''failed to get all log pipelines: '' (KubeError e))
      | Inr logs \<Rightarrow>
          if length logs > 0 then Inr True
          else case t_ListTrace r of
              Inl e \<Rightarrow> Inl (wrap ''failed to get all trace pipelines: '' (KubeError e))
            | Inr traces \<Rightarrow>
                if length traces > 0 then Inr True
                else case t_ListMetric r of
                    Inl e \<Rightarrow> Inl (wrap ''failed to get all metric pipelines: '' (KubeError e))
                  | Inr metrics \<Rightarrow> Inr (length metrics > 0))"

subsection \<open>Finalizer, webhook and self monitor\<close>

abbreviation telemetryFinalizer :: string where
  "telemetryFinalizer \<equiv> ''telemetry.kyma-project.io/finalizer''"

definition setFinalizers :: "string list \<Rightarrow> ('c, 'h) telemetry_run \<Rightarrow> ('c, 'h) telemetry_run" where
  "setFinalizers fs w = w\<lparr>run_Telemetry := (run_Telemetry w)\<lparr>tl_Finalizers := fs\<rparr>\<rparr>"

definition handleFinalizer :: "('s, 'l, 'c, 'h) TelemetryReconciler \<Rightarrow> ('c, 'h) telemetry_run action" where
  "handleFinalizer r w =
     (let t = run_Telemetry w; fs = tl_Finalizers t;
          update = andThen (wrap ''failed to update telemetry: '') (store UpdateTelemetry (t_Update r)) finish
      in if om_DeletionTimestamp (tl_ObjectMeta t) = None
         then if \<not> t_ContainsFinalizer r fs telemetryFinalizer
              then update (setFinalizers (t_AddFinalizer r fs telemetryFinalizer) w)
              else finish w
         else if t_ContainsFinalizer r fs telemetryFinalizer
              then if dependentCRsFound r then finish w
                   else update (setFinalizers (t_RemoveFinalizer r fs telemetryFinalizer) w)
              else finish w)"

text \<open>A failure to clean up is logged; it does not fail the reconciliation.\<close>

definition telemetry_vpaCRDExists :: "('s, 'l, 'c, 'h) TelemetryReconciler \<Rightarrow> (go_error, bool) result" where
  "telemetry_vpaCRDExists r =
     (case t_ListVPA r of
        None \<Rightarrow> Inr True
      | Some e \<Rightarrow> if IsNotFound e then Inr False else Inl (KubeError e))"

definition cleanupSelfMonitorVPA :: "('s, 'l, 'c, 'h) TelemetryReconciler \<Rightarrow> ('c, 'h) telemetry_run action" where
  "cleanupSelfMonitorVPA r =
     ask (wrap ''failed to check VPA CRD existence: '') (Ret (telemetry_vpaCRDExists r)) (\<lambda>vpaCRDExists.
       if \<not> vpaCRDExists then finish
       else let vpa = \<lparr>nn_Namespace = t_targetNamespace r, nn_Name = Names.SelfMonitor\<rparr>
            in andThen (wrap ''failed to delete self-monitor VPA: '')
                 (call (DeleteVPA vpa)
                   (case t_DeleteVPA r vpa of
                      None \<Rightarrow> None
                    | Some e \<Rightarrow> if IsNotFound e then None else Some (KubeError e))) finish)"

definition ignoreError :: "'w action \<Rightarrow> 'w action" where
  "ignoreError a w = gbind (a w) (\<lambda>(w', err). Ret (w', None))"

definition reconcileWebhook :: "('s, 'l, 'c, 'h) TelemetryReconciler \<Rightarrow> ('c, 'h) telemetry_run action" where
  "reconcileWebhook r w =
     (if om_DeletionTimestamp (tl_ObjectMeta (run_Telemetry w)) \<noteq> None \<and> \<not> dependentCRsFound r then finish w
      else
        andThen (wrap ''failed to reconcile webhook: '') (call EnsureCertificate (t_EnsureCertificate r))
        (ask (wrap ''failed to get secret: '') (Ret (map_sum KubeError id (t_GetCASecret r))) (\<lambda>secret.
         ask (wrap ''failed to set owner reference for secret: '')
           (Ret (map_sum NewError id (t_SetSecretOwner r (run_Telemetry w) secret))) (\<lambda>owned.
         andThen (wrap ''failed to update secret: '') (call (UpdateCASecret owned) (t_UpdateSecret r owned))
         (ask (wrap ''failed to get webhook: '') (Ret (map_sum KubeError id (t_GetWebhook r))) (\<lambda>webhook.
         andThen (wrap ''failed to update webhook: '')
           (call (UpdateWebhookConfiguration webhook) (t_UpdateWebhook r webhook)) finish))))) w)"

abbreviation selfMonitorConfigPath :: string where
  "selfMonitorConfigPath \<equiv> ''/etc/prometheus/''"
abbreviation selfMonitorConfigFileName :: string where
  "selfMonitorConfigFileName \<equiv> ''prometheus.yml''"
abbreviation selfMonitorAlertRuleFileName :: string where
  "selfMonitorAlertRuleFileName \<equiv> ''alerting_rules.yml''"

definition reconcileSelfMonitor ::
    "('s, 'l, 'c, 'h) TelemetryReconciler \<Rightarrow> string \<Rightarrow> ('c, 'h) telemetry_run action" where
  "reconcileSelfMonitor r logLevel w =
     ask id (Ret (checkPipelineExist r)) (\<lambda>pipelinesPresent.
       if \<not> pipelinesPresent
       then andThen (wrap ''failed to delete self-monitor resources: '')
              (call DeleteSelfMonitor (t_DeleteSelfMonitor r)) finish
       else
         ask (wrap ''failed to marshal selfmonitor config: '')
           (Ret (map_sum NewError id (t_MarshalConfig r (selfmonitor_MakeConfig
              \<lparr>bc_ScrapeNamespace = t_targetNamespace r, bc_AlertmanagerWebhookURL = t_AlertmanagerWebhookURL r,
               bc_ConfigPath = selfMonitorConfigPath, bc_AlertRuleFileName = selfMonitorAlertRuleFileName\<rparr>))))
           (\<lambda>prometheusConfigYAML.
         ask (wrap ''failed to marshal rules: '') (Ret (map_sum NewError id (t_MarshalRules r MakeRules)))
           (\<lambda>alertRulesYAML.
         let opts = \<lparr>sao_AlertRulesFileName = selfMonitorAlertRuleFileName, sao_AlertRulesYAML = alertRulesYAML,
               sao_PrometheusConfigFileName = selfMonitorConfigFileName,
               sao_PrometheusConfigPath = selfMonitorConfigPath,
               sao_PrometheusConfigYAML = prometheusConfigYAML, sao_LogLevel = logLevel\<rparr>
         in andThen (wrap ''failed to apply self-monitor resources: '')
              (call (ApplySelfMonitor opts) (t_ApplySelfMonitor r (run_Telemetry w) opts)) finish))) w"

definition trackServiceAttributesEnrichmentStrategy ::
    "('s, 'l, 'c, 'h) TelemetryReconciler \<Rightarrow> ('c, 'h) telemetry_run \<Rightarrow> ('c, 'h) telemetry_run" where
  "trackServiceAttributesEnrichmentStrategy r w =
     w\<lparr>run_Strategy := (run_Strategy w)
        (ServiceEnrichmentOtel \<mapsto> 0, ServiceEnrichmentKymaLegacy \<mapsto> 0,
         GetServiceEnrichmentFromTelemetryOrDefault (t_Telemetry r) (t_defaultTelemetryNamespace r) \<mapsto> 1)\<rparr>"

definition telemetry_doReconcile ::
    "('s, 'l, 'c, 'h) TelemetryReconciler \<Rightarrow> string \<Rightarrow> ('c, 'h) telemetry_run action" where
  "telemetry_doReconcile r logLevel w =
     andThen (wrap ''failed to manage finalizer: '') (handleFinalizer r)
     (andThen id (ignoreError (cleanupSelfMonitorVPA r))
     (andThen (wrap ''failed to reconcile webhook: '') (reconcileWebhook r)
     (andThen (wrap ''failed to reconcile self-monitor deployment: '') (reconcileSelfMonitor r logLevel) finish)))
     (trackServiceAttributesEnrichmentStrategy r w)"

section \<open>The status\<close>

definition setStatus :: "(TelemetryStatus \<Rightarrow> TelemetryStatus) \<Rightarrow> ('c, 'h) telemetry_run \<Rightarrow> ('c, 'h) telemetry_run" where
  "setStatus f w = w\<lparr>run_Telemetry := (run_Telemetry w)\<lparr>tl_Status := f (tl_Status (run_Telemetry w))\<rparr>\<rparr>"

definition updateComponentCondition ::
    "('s, 'l, 'c, 'h) TelemetryReconciler \<Rightarrow> (bool \<Rightarrow> (go_error, Condition) result) \<Rightarrow> bool \<Rightarrow> ('c, 'h) telemetry_run action" where
  "updateComponentCondition r check telemetryInDeletion w =
     ask (wrap ''unable to check component: '') (Ret (check telemetryInDeletion)) (\<lambda>newCondition.
       finish \<circ> setStatus (\<lambda>st. st\<lparr>tst_Conditions := t_SetStatusCondition r (tst_Conditions st)
         (newCondition\<lparr>c_ObservedGeneration := om_Generation (tl_ObjectMeta (run_Telemetry w))\<rparr>)\<rparr>)) w"

definition updateOverallState ::
    "('s, 'l, 'c, 'h) TelemetryReconciler \<Rightarrow> bool \<Rightarrow> TelemetryStatus \<Rightarrow> TelemetryStatus" where
  "updateOverallState r telemetryInDeletion st =
     (if telemetryInDeletion
      then st\<lparr>tst_State := (if dependentCRsFound r then StateWarning else StateDeleting)\<rparr>
      else st\<lparr>tst_State :=
             (if list_ex (\<lambda>cond. c_Status cond = ConditionFalse \<or> c_Reason cond = ReasonTLSCertificateAboutToExpire)
                   (tst_Conditions st)
              then StateWarning else StateReady)\<rparr>)"

definition checkServiceExists :: "('s, 'l, 'c, 'h) TelemetryReconciler \<Rightarrow> NamespacedName \<Rightarrow> (go_error, bool) result" where
  "checkServiceExists r svcName =
     (case t_GetService r svcName of
        None \<Rightarrow> Inr True
      | Some e \<Rightarrow> if IsNotFound e then Inr False else Inl (wrap ''failed to get log-otlp service: '' (KubeError e)))"

definition makeOTLPEndpoints :: "string \<Rightarrow> string \<Rightarrow> OTLPEndpoints" where
  "makeOTLPEndpoints serviceName namespace =
     (let host = ''http://'' @ serviceName @ ''.'' @ namespace @ '':''
      in \<lparr>oe_GRPC = host @ Itoa OTLPGRPC, oe_HTTP = host @ Itoa OTLPHTTP\<rparr>)"

text \<open>\<open>logEndpoints\<close>, \<open>traceEndpoints\<close>, \<open>metricEndpoints\<close> and \<open>otlpEndpoints\<close> differ in the service and the word in the
  error.\<close>

definition serviceEndpoints ::
    "('s, 'l, 'c, 'h) TelemetryReconciler \<Rightarrow> string \<Rightarrow> string \<Rightarrow> (go_error, OTLPEndpoints option) result" where
  "serviceEndpoints r word service =
     (case checkServiceExists r \<lparr>nn_Namespace = t_targetNamespace r, nn_Name = service\<rparr> of
        Inl e \<Rightarrow> Inl (wrap (''failed to check if '' @ word @ '' service endpoints exist: '') e)
      | Inr svcExists \<Rightarrow> Inr (if svcExists then Some (makeOTLPEndpoints service (t_targetNamespace r)) else None))"

definition updateGatewayEndpoints :: "('s, 'l, 'c, 'h) TelemetryReconciler \<Rightarrow> ('c, 'h) telemetry_run action" where
  "updateGatewayEndpoints r =
     ask (wrap ''failed to get log endpoints: '') (Ret (serviceEndpoints r ''log'' OTLPLogsService)) (\<lambda>logEndpoints.
     ask (wrap ''failed to get trace endpoints: '') (Ret (serviceEndpoints r ''trace'' OTLPTracesService)) (\<lambda>traceEndpoints.
     ask (wrap ''failed to get metric endpoints: '') (Ret (serviceEndpoints r ''metric'' OTLPMetricsService))
       (\<lambda>metricEndpoints.
     ask (wrap ''failed to get OTLP endpoints: '') (Ret (serviceEndpoints r ''OTLP'' OTLPService)) (\<lambda>otlpEndpoints.
       finish \<circ> setStatus (\<lambda>st. st\<lparr>tst_Endpoints :=
         \<lparr>ge_Logs = logEndpoints, ge_Traces = traceEndpoints, ge_Metrics = metricEndpoints, ge_OTLP = otlpEndpoints\<rparr>\<rparr>)))))"

text \<open>\<open>enabledHealthCheckers\<close>, each as the result of its \<open>Check\<close>.\<close>

definition enabledHealthCheckers ::
    "('s, 'l, 'c, 'h) TelemetryReconciler \<Rightarrow> (bool \<Rightarrow> (go_error, Condition) result) list" where
  "enabledHealthCheckers r =
     [components_Check (logComponentsChecker (t_FindStatusCondition r)) (t_ListLog r),
      components_Check (metricComponentsChecker (t_FindStatusCondition r)) (t_ListMetric r),
      components_Check (traceComponentsChecker (t_FindStatusCondition r)) (t_ListTrace r)]"

fun updateComponentConditions ::
    "('s, 'l, 'c, 'h) TelemetryReconciler \<Rightarrow> (bool \<Rightarrow> (go_error, Condition) result) list \<Rightarrow> bool \<Rightarrow>
     ('c, 'h) telemetry_run action" where
  "updateComponentConditions r [] telemetryInDeletion = finish"
| "updateComponentConditions r (checker # checkers) telemetryInDeletion =
     andThen (wrap ''failed to update component condition: '') (updateComponentCondition r checker telemetryInDeletion)
       (updateComponentConditions r checkers telemetryInDeletion)"

definition telemetry_updateStatus :: "('s, 'l, 'c, 'h) TelemetryReconciler \<Rightarrow> ('c, 'h) telemetry_run action" where
  "telemetry_updateStatus r w =
     (let telemetryInDeletion = (om_DeletionTimestamp (tl_ObjectMeta (run_Telemetry w)) \<noteq> None)
      in andThen id (updateComponentConditions r (enabledHealthCheckers r) telemetryInDeletion)
         (andThen id (finish \<circ> setStatus (updateOverallState r telemetryInDeletion))
         (andThen (wrap ''failed to update gateway endpoints: '') (updateGatewayEndpoints r)
         (andThen (wrap ''failed to update status: '') (store UpdateTelemetryStatus (t_StatusUpdate r)) finish))) w)"

text \<open>The error that \<open>Reconcile\<close> returns, by what it wraps; the requeue delay is zero in every case.\<close>

datatype telemetry_error =
    Failed go_error
  | StatusFailed go_error
  | BothFailed go_error go_error

definition telemetry_Reconcile ::
    "('s, 'l, 'c, 'h) TelemetryReconciler \<Rightarrow> NamespacedName \<Rightarrow> 's \<Rightarrow> 'l \<Rightarrow> (string \<rightharpoonup> nat) \<Rightarrow>
     (('l \<times> (string \<rightharpoonup> nat) \<times> ('c, 'h) telemetry_call list) \<times> telemetry_error option) go" where
  "telemetry_Reconcile r name s level strategy =
     (let (level', loaded) = LoadOverrides (t_overridesHandler r) (t_Client r) s level
      in case loaded of
           Inl e \<Rightarrow> Ret ((level', strategy, []), Some (Failed e))
         | Inr overrideConfig \<Rightarrow>
             if ov_TelemetryPaused overrideConfig then Ret ((level', strategy, []), None)
             else case t_Get r name of
                 Inl e \<Rightarrow>
                   Ret ((level', strategy, []), if IsNotFound e then None else Some (Failed (KubeError e)))
               | Inr telemetry \<Rightarrow>
                   gbind (telemetry_doReconcile r (ov_LogLevel overrideConfig)
                     \<lparr>run_Telemetry = telemetry, run_Strategy = strategy, run_Calls = []\<rparr>) (\<lambda>(w1, err).
                   gbind (telemetry_updateStatus r w1) (\<lambda>(w2, statusErr).
                     Ret ((level', run_Strategy w2, run_Calls w2),
                       case (err, statusErr) of
                         (None, None) \<Rightarrow> None
                       | (Some e, None) \<Rightarrow> Some (Failed e)
                       | (None, Some e') \<Rightarrow> Some (StatusFailed e')
                       | (Some e, Some e') \<Rightarrow> Some (BothFailed e' e)))))"

section \<open>The state summarises the pipelines\<close>

lemma firstSome_None: "firstSome f xs = None \<longleftrightarrow> (\<forall>x\<in>set xs. f x = None)"
  by (induction xs) (auto split: option.splits)

lemma firstSome_Some: "firstSome f xs = Some y \<Longrightarrow> \<exists>x\<in>set xs. f x = Some y"
  by (induction xs) (auto split: option.splits)

definition unhealthy :: "Condition \<Rightarrow> bool" where
  "unhealthy c \<longleftrightarrow> c_Status c = ConditionFalse \<or> c_Reason c = ReasonTLSCertificateAboutToExpire"

text \<open>A pipeline is healthy if no health condition is false and its certificate is not about to expire.\<close>

definition pipeline_healthy :: "Condition list \<Rightarrow> bool" where
  "pipeline_healthy cs \<longleftrightarrow>
     (\<forall>t\<in>set healthConditionTypes. \<forall>c. findCondition t cs = Some c \<longrightarrow> c_Status c \<noteq> ConditionFalse) \<and>
     (\<forall>c. findCondition TypeConfigurationGenerated cs = Some c \<longrightarrow> c_Reason c \<noteq> ReasonTLSCertificateAboutToExpire)"

definition lawful_find :: "(Condition list \<Rightarrow> string \<Rightarrow> Condition option) \<Rightarrow> bool" where
  "lawful_find f \<longleftrightarrow> (\<forall>cs t. f cs t = findCondition t cs)"

text \<open>\<open>SetStatusCondition\<close> on a list with one condition per type, which is what the schema admits.\<close>

definition lawful_set :: "(Condition list \<Rightarrow> Condition \<Rightarrow> Condition list) \<Rightarrow> bool" where
  "lawful_set f \<longleftrightarrow> (\<forall>cs c. distinct (map c_Type cs) \<longrightarrow>
     distinct (map c_Type (f cs c)) \<and> set (f cs c) = insert c {d \<in> set cs. c_Type d \<noteq> c_Type c})"

lemma firstUnhealthy_Some:
  assumes "checkForFirstUnhealthyPipelineCondition ck ps = Some c"
  shows "c_Type c = ck_Type ck \<and> c_Status c = ConditionFalse"
proof -
  from assms obtain t where "firstSome (\<lambda>p. case ck_Find ck (ck_Conditions ck p) t of None \<Rightarrow> None
      | Some cond \<Rightarrow> if c_Status cond = ConditionFalse then Some (copiedCondition (ck_Type ck) cond) else None) ps = Some c"
    using firstSome_Some [OF assms [unfolded checkForFirstUnhealthyPipelineCondition_def]] by blast
  then show ?thesis by (auto dest!: firstSome_Some simp: copiedCondition_def split: option.splits if_splits)
qed

lemma aboutToExpire_Some:
  assumes "checkForFirstAboutToExpirePipelineCondition ck ps = Some c"
  shows "c_Type c = ck_Type ck \<and> c_Reason c = ReasonTLSCertificateAboutToExpire"
  using assms unfolding checkForFirstAboutToExpirePipelineCondition_def
  by (auto dest!: firstSome_Some simp: copiedCondition_def split: option.splits if_splits)

lemma checks_None:
  assumes "lawful_find (ck_Find ck)"
  shows "checkForFirstUnhealthyPipelineCondition ck ps = None \<and> checkForFirstAboutToExpirePipelineCondition ck ps = None \<longleftrightarrow>
    (\<forall>p\<in>set ps. pipeline_healthy (ck_Conditions ck p))"
proof -
  have find: "ck_Find ck cs t = findCondition t cs" for cs t using assms by (simp add: lawful_find_def)
  have "checkForFirstUnhealthyPipelineCondition ck ps = None \<longleftrightarrow> (\<forall>p\<in>set ps. \<forall>t\<in>set healthConditionTypes.
      \<forall>c. findCondition t (ck_Conditions ck p) = Some c \<longrightarrow> c_Status c \<noteq> ConditionFalse)"
    unfolding checkForFirstUnhealthyPipelineCondition_def firstSome_None find
    by (simp split: option.split) blast
  moreover have "checkForFirstAboutToExpirePipelineCondition ck ps = None \<longleftrightarrow> (\<forall>p\<in>set ps.
      \<forall>c. findCondition TypeConfigurationGenerated (ck_Conditions ck p) = Some c \<longrightarrow>
        c_Reason c \<noteq> ReasonTLSCertificateAboutToExpire)"
    unfolding checkForFirstAboutToExpirePipelineCondition_def firstSome_None find
    by (simp split: option.split) blast
  ultimately show ?thesis unfolding pipeline_healthy_def by blast
qed

lemma components_Check_unhealthy:
  assumes "lawful_find (ck_Find ck)"
  shows "\<exists>c. components_Check ck (Inr ps) False = Inr c \<and> c_Type c = ck_Type ck \<and>
    (unhealthy c \<longleftrightarrow> \<not> (\<forall>p\<in>set ps. pipeline_healthy (ck_Conditions ck p)))"
proof (cases "ps = []")
  case True
  then show ?thesis
    by (simp add: components_Check_def checkForResourceBlocksDeletionCondition_def checkForNoPipelineDeployedCondition_def
        unhealthy_def)
next
  case False
  note none = checks_None [OF assms, of ps]
  show ?thesis
  proof (cases "checkForFirstUnhealthyPipelineCondition ck ps")
    case (Some c)
    with False none show ?thesis
      using firstUnhealthy_Some [OF Some]
      by (auto simp: components_Check_def checkForResourceBlocksDeletionCondition_def
          checkForNoPipelineDeployedCondition_def unhealthy_def)
  next
    case healthy: None
    show ?thesis
    proof (cases "checkForFirstAboutToExpirePipelineCondition ck ps")
      case (Some c)
      with False none healthy show ?thesis
        using aboutToExpire_Some [OF Some]
        by (auto simp: components_Check_def checkForResourceBlocksDeletionCondition_def
            checkForNoPipelineDeployedCondition_def unhealthy_def)
    next
      case None
      with False none healthy show ?thesis
        by (auto simp: components_Check_def checkForResourceBlocksDeletionCondition_def
            checkForNoPipelineDeployedCondition_def unhealthy_def)
    qed
  qed
qed

lemma setStatus_simps [simp]:
  "tl_Status (run_Telemetry (setStatus f w)) = f (tl_Status (run_Telemetry w))"
  "tl_ObjectMeta (run_Telemetry (setStatus f w)) = tl_ObjectMeta (run_Telemetry w)"
  "run_Calls (setStatus f w) = run_Calls w"
  by (simp_all add: setStatus_def)

lemma updateComponentCondition_Ret:
  assumes "check b = Inr c"
  shows "updateComponentCondition r check b w = Ret (setStatus (\<lambda>st. st\<lparr>tst_Conditions := t_SetStatusCondition r
    (tst_Conditions st) (c\<lparr>c_ObservedGeneration := om_Generation (tl_ObjectMeta (run_Telemetry w))\<rparr>)\<rparr>) w, None)"
  using assms by (simp add: updateComponentCondition_def ask_def finish_def)

lemma unhealthy_observed [simp]: "unhealthy (c\<lparr>c_ObservedGeneration := g\<rparr>) = unhealthy c"
  by (simp add: unhealthy_def)

lemma list_ex_unhealthy:
  "list_ex (\<lambda>cond. c_Status cond = ConditionFalse \<or> c_Reason cond = ReasonTLSCertificateAboutToExpire) cs \<longleftrightarrow>
     (\<exists>c\<in>set cs. unhealthy c)"
  by (simp add: list_ex_iff unhealthy_def)

abbreviation componentTypes :: "string set" where
  "componentTypes \<equiv> {TypeLogComponentsHealthy, TypeMetricComponentsHealthy, TypeTraceComponentsHealthy}"

lemma three_conditions:
  assumes "lawful_set setc" and "distinct (map c_Type cs)" and "c_Type ` set cs \<subseteq> {c_Type a, c_Type b, c_Type d}"
    and "distinct [c_Type a, c_Type b, c_Type d]"
  shows "set (setc (setc (setc cs a) b) d) = {a, b, d}"
proof -
  have 1: "distinct (map c_Type (setc cs a)) \<and> set (setc cs a) = insert a {x \<in> set cs. c_Type x \<noteq> c_Type a}"
    using assms(1,2) unfolding lawful_set_def by blast
  then have 2: "distinct (map c_Type (setc (setc cs a) b)) \<and>
      set (setc (setc cs a) b) = insert b {x \<in> set (setc cs a). c_Type x \<noteq> c_Type b}"
    using assms(1) unfolding lawful_set_def by blast
  then have 3: "set (setc (setc (setc cs a) b) d) = insert d {x \<in> set (setc (setc cs a) b). c_Type x \<noteq> c_Type d}"
    using assms(1) unfolding lawful_set_def by blast
  have none: "{x \<in> set cs. c_Type x \<noteq> c_Type a \<and> c_Type x \<noteq> c_Type b \<and> c_Type x \<noteq> c_Type d} = {}"
    using assms(3) by blast
  have "x \<in> set (setc (setc (setc cs a) b) d) \<longleftrightarrow> x \<in> {a, b, d}" for x
    unfolding 3 conjunct2 [OF 2] conjunct2 [OF 1] using none assms(4) by auto
  then show ?thesis by blast
qed

lemma serviceEndpoints_Inr:
  assumes "\<forall>n e. t_GetService r n = Some e \<longrightarrow> IsNotFound e"
  shows "\<exists>x. serviceEndpoints r word service = Inr x"
  using assms by (auto simp: serviceEndpoints_def checkServiceExists_def split: option.splits)

lemma updateGatewayEndpoints_Ret:
  assumes "\<forall>n e. t_GetService r n = Some e \<longrightarrow> IsNotFound e"
  shows "\<exists>ge. \<forall>w. updateGatewayEndpoints r w = Ret (setStatus (\<lambda>st. st\<lparr>tst_Endpoints := ge\<rparr>) w, None)"
proof -
  obtain a b c d where "serviceEndpoints r ''log'' OTLPLogsService = Inr a"
    "serviceEndpoints r ''trace'' OTLPTracesService = Inr b" "serviceEndpoints r ''metric'' OTLPMetricsService = Inr c"
    "serviceEndpoints r ''OTLP'' OTLPService = Inr d"
    using serviceEndpoints_Inr [OF assms] by metis
  then show ?thesis by (simp add: updateGatewayEndpoints_def ask_def finish_def comp_def) blast
qed

lemma store_calls:
  "\<exists>w' err. store c update w = Ret (w', err) \<and> run_Calls w' = run_Calls w @ [c (run_Telemetry w)]"
  by (auto simp: store_def Let_def split: sum.split)

lemma updateComponentConditions_state:
  assumes find: "lawful_find (t_FindStatusCondition r)" and setc: "lawful_set (t_SetStatusCondition r)"
    and listed: "t_ListLog r = Inr logs" "t_ListMetric r = Inr metrics" "t_ListTrace r = Inr traces"
    and distinct: "distinct (map c_Type (tst_Conditions (tl_Status (run_Telemetry w))))"
    and types: "c_Type ` set (tst_Conditions (tl_Status (run_Telemetry w))) \<subseteq> componentTypes"
  shows "\<exists>w'. updateComponentConditions r (enabledHealthCheckers r) False w = Ret (w', None) \<and> run_Calls w' = run_Calls w \<and>
    ((\<exists>c\<in>set (tst_Conditions (tl_Status (run_Telemetry w'))). unhealthy c) \<longleftrightarrow>
     \<not> ((\<forall>p\<in>set logs. pipeline_healthy (lst_Conditions (lp_Status p))) \<and>
        (\<forall>p\<in>set metrics. pipeline_healthy (mp_Conditions p)) \<and> (\<forall>p\<in>set traces. pipeline_healthy (tp_Conditions p))))"
proof -
  let ?f = "t_FindStatusCondition r"
  let ?obs = "\<lambda>c. c\<lparr>c_ObservedGeneration := om_Generation (tl_ObjectMeta (run_Telemetry w))\<rparr>"
  obtain a where a: "components_Check (logComponentsChecker ?f) (Inr logs) False = Inr a" "c_Type a = TypeLogComponentsHealthy"
    "unhealthy a \<longleftrightarrow> \<not> (\<forall>p\<in>set logs. pipeline_healthy (lst_Conditions (lp_Status p)))"
    using components_Check_unhealthy [of "logComponentsChecker ?f" logs] find by (auto simp: logComponentsChecker_def)
  obtain b where b: "components_Check (metricComponentsChecker ?f) (Inr metrics) False = Inr b"
    "c_Type b = TypeMetricComponentsHealthy" "unhealthy b \<longleftrightarrow> \<not> (\<forall>p\<in>set metrics. pipeline_healthy (mp_Conditions p))"
    using components_Check_unhealthy [of "metricComponentsChecker ?f" metrics] find by (auto simp: metricComponentsChecker_def)
  obtain d where d: "components_Check (traceComponentsChecker ?f) (Inr traces) False = Inr d"
    "c_Type d = TypeTraceComponentsHealthy" "unhealthy d \<longleftrightarrow> \<not> (\<forall>p\<in>set traces. pipeline_healthy (tp_Conditions p))"
    using components_Check_unhealthy [of "traceComponentsChecker ?f" traces] find by (auto simp: traceComponentsChecker_def)
  let ?cs = "tst_Conditions (tl_Status (run_Telemetry w))"
  let ?set = "t_SetStatusCondition r"
  have conds: "set (?set (?set (?set ?cs (?obs a)) (?obs b)) (?obs d)) = {?obs a, ?obs b, ?obs d}"
    by (rule three_conditions [OF setc distinct]) (use types a(2) b(2) d(2) in auto)
  show ?thesis
    using a(3) b(3) d(3)
    by (simp add: enabledHealthCheckers_def listed andThen_def finish_def conds
        updateComponentCondition_Ret [where check = "components_Check (logComponentsChecker ?f) (Inr logs)", OF a(1)]
        updateComponentCondition_Ret [where check = "components_Check (metricComponentsChecker ?f) (Inr metrics)", OF b(1)]
        updateComponentCondition_Ret [where check = "components_Check (traceComponentsChecker ?f) (Inr traces)", OF d(1)])
qed

text \<open>C9: the state of the Telemetry resource summarises the pipelines.  When the resource is not being deleted and the
  lists of pipelines can be read, the status update writes \<open>Ready\<close> if no condition of any pipeline of the three kinds
  is false and no certificate is about to expire, and \<open>Warning\<close> otherwise.  This supposes that looking up a service
  fails only because there is none, and that the resource has at most one condition of each component and no other.\<close>

theorem telemetry_state_summarises_pipelines:
  assumes "lawful_find (t_FindStatusCondition r)" and "lawful_set (t_SetStatusCondition r)"
    and "t_ListLog r = Inr logs" and "t_ListMetric r = Inr metrics" and "t_ListTrace r = Inr traces"
    and "\<forall>n e. t_GetService r n = Some e \<longrightarrow> IsNotFound e"
    and "om_DeletionTimestamp (tl_ObjectMeta (run_Telemetry w)) = None"
    and "distinct (map c_Type (tst_Conditions (tl_Status (run_Telemetry w))))"
    and "c_Type ` set (tst_Conditions (tl_Status (run_Telemetry w))) \<subseteq> componentTypes"
  shows "\<exists>w' err t. telemetry_updateStatus r w = Ret (w', err) \<and> run_Calls w' = run_Calls w @ [UpdateTelemetryStatus t] \<and>
    tst_State (tl_Status t) =
      (if (\<forall>p\<in>set logs. pipeline_healthy (lst_Conditions (lp_Status p))) \<and>
          (\<forall>p\<in>set metrics. pipeline_healthy (mp_Conditions p)) \<and> (\<forall>p\<in>set traces. pipeline_healthy (tp_Conditions p))
       then StateReady else StateWarning)"
proof -
  from updateComponentConditions_state [OF assms(1-5,8,9)] obtain w1 where
    w1: "updateComponentConditions r (enabledHealthCheckers r) False w = Ret (w1, None)" "run_Calls w1 = run_Calls w"
    and state: "(\<exists>c\<in>set (tst_Conditions (tl_Status (run_Telemetry w1))). unhealthy c) \<longleftrightarrow>
     \<not> ((\<forall>p\<in>set logs. pipeline_healthy (lst_Conditions (lp_Status p))) \<and>
        (\<forall>p\<in>set metrics. pipeline_healthy (mp_Conditions p)) \<and> (\<forall>p\<in>set traces. pipeline_healthy (tp_Conditions p)))"
    by blast
  from updateGatewayEndpoints_Ret [OF assms(6)] obtain ge where
    ge: "\<And>w. updateGatewayEndpoints r w = Ret (setStatus (\<lambda>st. st\<lparr>tst_Endpoints := ge\<rparr>) w, None)" by blast
  let ?w3 = "setStatus (\<lambda>st. st\<lparr>tst_Endpoints := ge\<rparr>) (setStatus (updateOverallState r False) w1)"
  obtain w' err where w': "store UpdateTelemetryStatus (t_StatusUpdate r) ?w3 = Ret (w', err)"
    "run_Calls w' = run_Calls ?w3 @ [UpdateTelemetryStatus (run_Telemetry ?w3)]"
    using store_calls by blast
  have "\<exists>err'. telemetry_updateStatus r w = Ret (w', err')"
    using assms(7) w1(1) ge w'(1) by (cases err) (simp_all add: telemetry_updateStatus_def andThen_def finish_def Let_def)
  moreover have "tst_State (tl_Status (run_Telemetry ?w3)) =
      (if \<exists>c\<in>set (tst_Conditions (tl_Status (run_Telemetry w1))). unhealthy c then StateWarning else StateReady)"
    by (simp add: updateOverallState_def list_ex_unhealthy)
  ultimately show ?thesis using w'(2) w1(2) unfolding state by auto
qed

text \<open>An instance: one trace pipeline whose certificate is about to expire.\<close>

lemma upsert_lawful_set: "lawful_set upsertCondition"
proof -
  have "c_Type ` set (upsertCondition cs c) = insert (c_Type c) (c_Type ` set cs)" for cs c
    by (induction cs) auto
  moreover have "distinct (map c_Type cs) \<Longrightarrow> distinct (map c_Type (upsertCondition cs c)) \<and>
      set (upsertCondition cs c) = insert c {d \<in> set cs. c_Type d \<noteq> c_Type c}" for cs c
    using calculation by (induction cs) (auto simp: image_iff)
  ultimately show ?thesis by (simp add: lawful_set_def)
qed

definition sampleTelemetry :: TelemetryCR where
  "sampleTelemetry =
     \<lparr>tl_ObjectMeta = zeroObjectMeta, tl_Spec = \<lparr>tsp_Metric = None, tsp_Enrichments = None\<rparr>,
      tl_Finalizers = [telemetryFinalizer],
      tl_Status = \<lparr>tst_State = [], tst_Conditions = [],
        tst_Endpoints = \<lparr>ge_Logs = None, ge_Traces = None, ge_Metrics = None, ge_OTLP = None\<rparr>\<rparr>\<rparr>"

definition expiringTrace :: TracePipeline where
  "expiringTrace =
     \<lparr>tp_ObjectMeta = zeroObjectMeta, tp_Spec = \<lparr>tps_Output = None, tps_Transforms = [], tps_Filters = None\<rparr>,
      tp_Conditions = [condition TypeConfigurationGenerated ConditionTrue ReasonTLSCertificateAboutToExpire []]\<rparr>"

definition sampleTelemetryReconciler ::
    "(kube_error, TracePipeline list) result \<Rightarrow> (unit, unit, unit, unit) TelemetryReconciler" where
  "sampleTelemetryReconciler traces =
     \<lparr>t_Client = \<lparr>cc_Get = (\<lambda>_ _. Inl \<lparr>ke_Reason = ReasonNotFound, ke_Message = []\<rparr>), cc_Create = (\<lambda>cm s. (s, None)),
        cc_Update = (\<lambda>cm s. (s, None))\<rparr>,
      t_overridesHandler = \<lparr>oh_targetNamespace = ''kyma-system'', oh_defaultLevel = (),
        oh_Unmarshal = (\<lambda>_. Inr zeroOverrides), oh_ParseLevel = (\<lambda>_. Inr ())\<rparr>,
      t_targetNamespace = ''kyma-system'', t_defaultTelemetryNamespace = ''kyma-system'',
      t_AlertmanagerWebhookURL = [], t_Get = (\<lambda>_. Inr sampleTelemetry),
      t_Telemetry = (\<lambda>_. Inl \<lparr>ke_Reason = ReasonNotFound, ke_Message = []\<rparr>),
      t_ListLog = Inr [], t_ListMetric = Inr [], t_ListTrace = traces, t_ListVPA = None, t_NoKindMatch = (\<lambda>_. False),
      t_GetService = (\<lambda>_. None), t_ContainsFinalizer = (\<lambda>fs f. f \<in> set fs), t_AddFinalizer = (\<lambda>fs f. fs @ [f]),
      t_RemoveFinalizer = (\<lambda>fs f. filter (\<lambda>g. g \<noteq> f) fs), t_FindStatusCondition = (\<lambda>cs t. findCondition t cs),
      t_SetStatusCondition = upsertCondition, t_Update = Inr, t_StatusUpdate = Inr, t_DeleteVPA = (\<lambda>_. None),
      t_EnsureCertificate = None, t_GetCASecret = Inr (), t_SetSecretOwner = (\<lambda>_ _. Inr ()), t_UpdateSecret = (\<lambda>_. None),
      t_GetWebhook = Inr (), t_UpdateWebhook = (\<lambda>_. None), t_MarshalConfig = (\<lambda>_. Inr []), t_MarshalRules = (\<lambda>_. Inr []),
      t_ApplySelfMonitor = (\<lambda>_ _. None), t_DeleteSelfMonitor = None\<rparr>"

abbreviation sampleRun :: "TelemetryCR \<Rightarrow> (unit, unit) telemetry_run" where
  "sampleRun t \<equiv> \<lparr>run_Telemetry = t, run_Strategy = Map.empty, run_Calls = []\<rparr>"

theorem telemetry_state_summarises_pipelines_witness:
  "\<exists>w' err t. telemetry_updateStatus (sampleTelemetryReconciler (Inr [expiringTrace])) (sampleRun sampleTelemetry) = Ret (w', err) \<and>
     run_Calls w' = [UpdateTelemetryStatus t] \<and> tst_State (tl_Status t) = StateWarning"
proof -
  have "\<not> pipeline_healthy (tp_Conditions expiringTrace)"
    by (simp add: expiringTrace_def pipeline_healthy_def findCondition_def)
  with telemetry_state_summarises_pipelines [of "sampleTelemetryReconciler (Inr [expiringTrace])" "[]" "[]" "[expiringTrace]"
      "sampleRun sampleTelemetry"] show ?thesis
    by (simp add: sampleTelemetryReconciler_def lawful_find_def upsert_lawful_set sampleTelemetry_def zeroObjectMeta_def)
qed

section \<open>The finalizer\<close>

text \<open>The updates of the resource among the calls, and actions that add none.\<close>

definition updatesOf :: "('c, 'h) telemetry_call list \<Rightarrow> TelemetryCR set" where
  "updatesOf calls = {t. UpdateTelemetry t \<in> set calls}"

definition quiet :: "('c, 'h) telemetry_run action \<Rightarrow> bool" where
  "quiet a \<longleftrightarrow> (\<forall>w w' err. a w = Ret (w', err) \<longrightarrow> updatesOf (run_Calls w') = updatesOf (run_Calls w))"

named_theorems quiet_intros \<open>actions that do not update the resource\<close>

lemma quiet_finish [quiet_intros]: "quiet finish"
  by (simp add: quiet_def finish_def)

lemma quiet_call [quiet_intros]: "(\<And>t. c \<noteq> UpdateTelemetry t) \<Longrightarrow> quiet (call c err)"
  by (auto simp: quiet_def call_def updatesOf_def)

lemma quiet_ask [quiet_intros]: "(\<And>a. quiet (k a)) \<Longrightarrow> quiet (ask f m k)"
  by (cases m) (auto simp: quiet_def ask_def split: sum.splits)

lemma quiet_apply: "quiet a \<Longrightarrow> a w = Ret (w', err) \<Longrightarrow> updatesOf (run_Calls w') = updatesOf (run_Calls w)"
  by (simp add: quiet_def)

lemma andThen_RetE:
  assumes "andThen f a b w = Ret (w', err)"
  obtains w1 err1 where "a w = Ret (w1, err1)" and "err1 = None \<and> b w1 = Ret (w', err) \<or> w1 = w'"
  using assms by (cases "a w") (auto simp: andThen_def split: option.splits)

lemma quiet_andThen [quiet_intros]:
  assumes a: "quiet a" and b: "quiet b"
  shows "quiet (andThen f a b)"
proof (unfold quiet_def, intro allI impI)
  fix w w' err
  assume "andThen f a b w = Ret (w', err)"
  then obtain w1 err1 where w1: "a w = Ret (w1, err1)" "err1 = None \<and> b w1 = Ret (w', err) \<or> w1 = w'"
    by (rule andThen_RetE)
  then show "updatesOf (run_Calls w') = updatesOf (run_Calls w)"
    using quiet_apply [OF a w1(1)] quiet_apply [OF b] by auto
qed

lemma quiet_ignoreError [quiet_intros]:
  assumes "quiet a"
  shows "quiet (ignoreError a)"
proof (unfold quiet_def, intro allI impI)
  fix w w' err
  assume "ignoreError a w = Ret (w', err)"
  then obtain err1 where "a w = Ret (w', err1)" by (cases "a w") (auto simp: ignoreError_def)
  then show "updatesOf (run_Calls w') = updatesOf (run_Calls w)" by (rule quiet_apply [OF assms])
qed

lemma quiet_cleanup [quiet_intros]: "quiet (cleanupSelfMonitorVPA r)"
  unfolding cleanupSelfMonitorVPA_def Let_def
  by (intro quiet_ask) (auto intro!: quiet_intros)

lemma quiet_if [quiet_intros]: "quiet a \<Longrightarrow> quiet b \<Longrightarrow> quiet (if c then a else b)"
  by simp

lemma quiet_webhook [quiet_intros]: "quiet (reconcileWebhook r)"
proof (unfold quiet_def, intro allI impI)
  fix w w' err
  assume run: "reconcileWebhook r w = Ret (w', err)"
  show "updatesOf (run_Calls w') = updatesOf (run_Calls w)"
  proof (cases "om_DeletionTimestamp (tl_ObjectMeta (run_Telemetry w)) \<noteq> None \<and> \<not> dependentCRsFound r")
    case True
    with run show ?thesis by (auto simp: reconcileWebhook_def finish_def)
  next
    case False
    from run [unfolded reconcileWebhook_def if_not_P [OF False]] show ?thesis
      by (rule quiet_apply [rotated]) (intro quiet_intros; simp)
  qed
qed

lemma quiet_selfMonitor [quiet_intros]: "quiet (reconcileSelfMonitor r lvl)"
proof (unfold quiet_def, intro allI impI)
  fix w w' err
  assume run: "reconcileSelfMonitor r lvl w = Ret (w', err)"
  from run [unfolded reconcileSelfMonitor_def Let_def] show "updatesOf (run_Calls w') = updatesOf (run_Calls w)"
    by (rule quiet_apply [rotated]) (intro quiet_intros; simp)
qed

definition lawful_finalizers :: "('s, 'l, 'c, 'h) TelemetryReconciler \<Rightarrow> bool" where
  "lawful_finalizers r \<longleftrightarrow>
     (\<forall>fs f. t_ContainsFinalizer r fs f \<longleftrightarrow> f \<in> set fs) \<and> (\<forall>fs f. set (t_AddFinalizer r fs f) = insert f (set fs)) \<and>
     (\<forall>fs f. set (t_RemoveFinalizer r fs f) = set fs - {f})"

text \<open>No pipeline is seen: the list is empty, or reading it failed for a reason other than a missing kind.\<close>

definition none_seen :: "('s, 'l, 'c, 'h) TelemetryReconciler \<Rightarrow> (kube_error, 'p list) result \<Rightarrow> bool" where
  "none_seen r listResult = (case listResult of Inl e \<Rightarrow> \<not> t_NoKindMatch r e | Inr ps \<Rightarrow> ps = [])"

lemma none_seen: "none_seen r res \<longleftrightarrow> \<not> resourcesExist r res"
  by (auto simp: none_seen_def resourcesExist_def split: sum.splits)

lemma handleFinalizer_deleting:
  assumes "lawful_finalizers r" and "om_DeletionTimestamp (tl_ObjectMeta (run_Telemetry w)) \<noteq> None"
    and "telemetryFinalizer \<in> set (tl_Finalizers (run_Telemetry w))"
    and "handleFinalizer r w = Ret (w', err)"
  shows "updatesOf (run_Calls w') = updatesOf (run_Calls w) \<union> (if dependentCRsFound r then {}
    else {(run_Telemetry w)\<lparr>tl_Finalizers := t_RemoveFinalizer r (tl_Finalizers (run_Telemetry w)) telemetryFinalizer\<rparr>})"
  using assms(1,2,3) assms(4) [symmetric]
  by (auto simp: handleFinalizer_def lawful_finalizers_def Let_def finish_def setFinalizers_def andThen_def store_def
      updatesOf_def split: if_splits sum.splits)

lemma doReconcile_updates:
  assumes "telemetry_doReconcile r lvl w = Ret (w', err)"
  obtains w1 err1 where "handleFinalizer r (trackServiceAttributesEnrichmentStrategy r w) = Ret (w1, err1)"
    and "updatesOf (run_Calls w') = updatesOf (run_Calls w1)"
proof -
  let ?rest = "andThen id (ignoreError (cleanupSelfMonitorVPA r))
     (andThen (wrap ''failed to reconcile webhook: '') (reconcileWebhook r)
     (andThen (wrap ''failed to reconcile self-monitor deployment: '') (reconcileSelfMonitor r lvl) finish))"
  from assms [unfolded telemetry_doReconcile_def comp_def] obtain w1 err1 where
    w1: "handleFinalizer r (trackServiceAttributesEnrichmentStrategy r w) = Ret (w1, err1)"
    "err1 = None \<and> ?rest w1 = Ret (w', err) \<or> w1 = w'"
    by (rule andThen_RetE)
  have "quiet ?rest"
    by (intro quiet_andThen quiet_ignoreError quiet_cleanup quiet_webhook quiet_selfMonitor quiet_finish)
  then have "updatesOf (run_Calls w') = updatesOf (run_Calls w1)" using w1(2) quiet_apply by blast
  with w1(1) show thesis by (rule that)
qed

lemma calls_no_panic [panic_simps]:
  "call c err w \<noteq> Panic" "store d update w \<noteq> Panic" "ignoreError a w = Panic \<longleftrightarrow> a w = Panic"
  by (auto simp: call_def store_def ignoreError_def Let_def panic_simps split: sum.splits)

lemma doReconcile_returns: "\<exists>w' err. telemetry_doReconcile r lvl w = Ret (w', err)"
proof -
  have "handleFinalizer r v \<noteq> Panic" for v by (simp add: handleFinalizer_def panic_simps Let_def)
  moreover have "cleanupSelfMonitorVPA r v \<noteq> Panic" for v by (simp add: cleanupSelfMonitorVPA_def panic_simps Let_def)
  moreover have "reconcileWebhook r v \<noteq> Panic" for v by (simp add: reconcileWebhook_def panic_simps)
  moreover have "reconcileSelfMonitor r lvl v \<noteq> Panic" for v by (simp add: reconcileSelfMonitor_def panic_simps Let_def)
  ultimately have "telemetry_doReconcile r lvl w \<noteq> Panic" by (simp add: telemetry_doReconcile_def panic_simps)
  then show ?thesis by (cases "telemetry_doReconcile r lvl w") auto
qed

text \<open>C5: when the finalizer is removed.  While the Telemetry resource is being deleted, a reconciliation removes the
  finalizer if and only if it sees no pipeline of any kind: every list is empty or could not be read.  If the three
  lists are read, the finalizer stays as long as a pipeline exists; a failure to read a list counts as no pipeline,
  except for the error that the kind is not known to the server, which counts as a pipeline.\<close>

theorem finalizer_removed_iff:
  assumes "lawful_finalizers r" and "om_DeletionTimestamp (tl_ObjectMeta (run_Telemetry w)) \<noteq> None"
    and "telemetryFinalizer \<in> set (tl_Finalizers (run_Telemetry w))" and "run_Calls w = []"
  shows "\<exists>w' err. telemetry_doReconcile r lvl w = Ret (w', err) \<and>
    ((\<exists>t. UpdateTelemetry t \<in> set (run_Calls w')) \<longleftrightarrow>
      none_seen r (t_ListLog r) \<and> none_seen r (t_ListMetric r) \<and> none_seen r (t_ListTrace r)) \<and>
    (\<forall>t. UpdateTelemetry t \<in> set (run_Calls w') \<longrightarrow> telemetryFinalizer \<notin> set (tl_Finalizers t))"
proof -
  let ?w = "trackServiceAttributesEnrichmentStrategy r w"
  have w: "run_Telemetry ?w = run_Telemetry w" "run_Calls ?w = []"
    using assms(4) by (simp_all add: trackServiceAttributesEnrichmentStrategy_def)
  from doReconcile_returns obtain w' err where run: "telemetry_doReconcile r lvl w = Ret (w', err)" by blast
  from doReconcile_updates [OF run] obtain w1 err1 where
    w1: "handleFinalizer r ?w = Ret (w1, err1)" "updatesOf (run_Calls w') = updatesOf (run_Calls w1)" by blast
  have "updatesOf (run_Calls w') = (if dependentCRsFound r then {}
      else {(run_Telemetry w)\<lparr>tl_Finalizers := t_RemoveFinalizer r (tl_Finalizers (run_Telemetry w)) telemetryFinalizer\<rparr>})"
    using handleFinalizer_deleting [OF assms(1) _ _ w1(1)] assms(2,3) w w1(2) by (simp add: updatesOf_def)
  then show ?thesis
    using assms(1) run unfolding none_seen
    by (auto simp: updatesOf_def dependentCRsFound_def lawful_finalizers_def set_eq_iff split: if_splits)
qed

abbreviation deletingTelemetry :: TelemetryCR where
  "deletingTelemetry \<equiv> sampleTelemetry\<lparr>tl_ObjectMeta := zeroObjectMeta\<lparr>om_DeletionTimestamp := Some 0\<rparr>\<rparr>"

theorem finalizer_removed_iff_witness:
  "let e = \<lparr>ke_Reason = ReasonConflict, ke_Message = ''timeout''\<rparr>; run = (\<lambda>traces.
       telemetry_doReconcile (sampleTelemetryReconciler traces) ''info'' (sampleRun deletingTelemetry)) in
   (\<exists>w' err t. run (Inl e) = Ret (w', err) \<and> UpdateTelemetry t \<in> set (run_Calls w') \<and> telemetryFinalizer \<notin> set (tl_Finalizers t)) \<and>
   (\<exists>w' err. run (Inr [expiringTrace]) = Ret (w', err) \<and> (\<forall>t. UpdateTelemetry t \<notin> set (run_Calls w')))"
proof -
  let ?r = sampleTelemetryReconciler
  have lawful: "lawful_finalizers (?r traces)" for traces
    by (auto simp: lawful_finalizers_def sampleTelemetryReconciler_def)
  have seen: "none_seen (?r traces) (t_ListLog (?r traces))" "none_seen (?r traces) (t_ListMetric (?r traces))"
    "none_seen (?r traces) (t_ListTrace (?r traces)) \<longleftrightarrow> (case traces of Inl e \<Rightarrow> True | Inr ps \<Rightarrow> ps = [])" for traces
    by (simp_all add: none_seen_def sampleTelemetryReconciler_def split: sum.split)
  have "\<exists>w' err. telemetry_doReconcile (?r traces) ''info'' (sampleRun deletingTelemetry) = Ret (w', err) \<and>
      ((\<exists>t. UpdateTelemetry t \<in> set (run_Calls w')) \<longleftrightarrow> (case traces of Inl e \<Rightarrow> True | Inr ps \<Rightarrow> ps = [])) \<and>
      (\<forall>t. UpdateTelemetry t \<in> set (run_Calls w') \<longrightarrow> telemetryFinalizer \<notin> set (tl_Finalizers t))" for traces
    using finalizer_removed_iff [OF lawful, of "sampleRun deletingTelemetry" traces "''info''"]
    by (simp add: seen sampleTelemetry_def)
  from this [of "Inl _"] this [of "Inr [expiringTrace]"] show ?thesis unfolding Let_def by fastforce
qed

end
