(* ===== verification/KubeUtils.thy ===== *)
theory KubeUtils
  imports Kube
begin

text \<open>
  \<open>internal/utils/k8s/utils.go\<close>, \<open>internal/k8sclients\<close> and the labels of \<open>internal/resources/common\<close>: how the
  manager creates, updates and deletes the objects it owns.  The functions for the single kinds differ in the type of
  the object only, so an object is its metadata and the rest.  The client is a parameter; the locale \<open>object_api\<close>
  states what is relied on, and that wrapping a client (with labels, with an owner) gives a client again.

  Shown: an object that was applied has the desired content, every label of the component, the owner and whatever
  labels, annotations and owners it had; and the deletion by label stops at the first object that is already gone.
\<close>

section \<open>Objects and clients\<close>

record 'r object =
  ob_ObjectMeta :: ObjectMeta
  ob_Rest :: 'r

definition ob_key :: "'r object \<Rightarrow> NamespacedName" where
  "ob_key obj = \<lparr>nn_Namespace = om_Namespace (ob_ObjectMeta obj), nn_Name = om_Name (ob_ObjectMeta obj)\<rparr>"

text \<open>\<open>client.Client\<close> for one kind.  \<open>Patch\<close> gets the object and the one that the patch is computed from.\<close>

record ('s, 'r) object_client =
  oc_Get :: "NamespacedName \<Rightarrow> 's \<Rightarrow> (kube_error, 'r object) result"
  oc_List :: "(string \<rightharpoonup> string) \<Rightarrow> 's \<Rightarrow> (kube_error, 'r object list) result"
  oc_Create :: "'r object \<Rightarrow> 's \<Rightarrow> 's \<times> go_error option"
  oc_Update :: "'r object \<Rightarrow> 's \<Rightarrow> 's \<times> go_error option"
  oc_Patch :: "'r object \<Rightarrow> 'r object \<Rightarrow> 's \<Rightarrow> 's \<times> go_error option"
  oc_Delete :: "NamespacedName \<Rightarrow> 's \<Rightarrow> 's \<times> kube_error option"

definition IgnoreNotFound :: "kube_error option \<Rightarrow> kube_error option" where
  "IgnoreNotFound err = (case err of Some e \<Rightarrow> if IsNotFound e then None else Some e | None \<Rightarrow> None)"

section \<open>Labels\<close>

abbreviation LabelKeyKymaModule :: string where "LabelKeyKymaModule \<equiv> ''kyma-project.io/module''"
abbreviation LabelValueKymaModule :: string where "LabelValueKymaModule \<equiv> ''telemetry''"
abbreviation LabelKeyK8sName :: string where "LabelKeyK8sName \<equiv> ''app.kubernetes.io/name''"
abbreviation LabelKeyK8sComponent :: string where "LabelKeyK8sComponent \<equiv> ''app.kubernetes.io/component''"

definition ModuleLabels :: "string \<rightharpoonup> string" where
  "ModuleLabels =
     [LabelKeyKymaModule \<mapsto> LabelValueKymaModule,
      ''app.kubernetes.io/part-of'' \<mapsto> ''telemetry'',
      ''app.kubernetes.io/managed-by'' \<mapsto> ''telemetry-manager'']"

definition DefaultLabels :: "string \<Rightarrow> string \<Rightarrow> (string \<rightharpoonup> string)" where
  "DefaultLabels componentBaseName componentType =
     ModuleLabels(LabelKeyK8sName \<mapsto> componentBaseName, LabelKeyK8sComponent \<mapsto> componentType)"

definition DefaultSelector :: "string \<Rightarrow> (string \<rightharpoonup> string)" where
  "DefaultSelector componentBaseName = [LabelKeyK8sName \<mapsto> componentBaseName]"

text \<open>The labels and annotations of an object; a nil map has no entries.\<close>

definition labelsOf :: "'r object \<Rightarrow> (string \<rightharpoonup> string)" where
  "labelsOf obj = deref (om_Labels (ob_ObjectMeta obj)) Map.empty"

definition annotationsOf :: "'r object \<Rightarrow> (string \<rightharpoonup> string)" where
  "annotationsOf obj = deref (om_Annotations (ob_ObjectMeta obj)) Map.empty"

definition ownersOf :: "'r object \<Rightarrow> OwnerReference list" where
  "ownersOf obj = om_OwnerReferences (ob_ObjectMeta obj)"

section \<open>Clients that complete the objects\<close>

definition ensureLabels :: "'r object \<Rightarrow> (string \<rightharpoonup> string) \<Rightarrow> 'r object" where
  "ensureLabels obj defaultLabels =
     obj\<lparr>ob_ObjectMeta := (ob_ObjectMeta obj)\<lparr>om_Labels := Some (labelsOf obj ++ defaultLabels)\<rparr>\<rparr>"

definition NewLabeler :: "('s, 'r) object_client \<Rightarrow> (string \<rightharpoonup> string) \<Rightarrow> ('s, 'r) object_client" where
  "NewLabeler inner labels =
     inner\<lparr>oc_Create := (\<lambda>obj. oc_Create inner (ensureLabels obj labels)),
           oc_Update := (\<lambda>obj. oc_Update inner (ensureLabels obj labels)),
           oc_Patch := (\<lambda>obj. oc_Patch inner (ensureLabels obj labels))\<rparr>"

text \<open>\<open>controllerutil.SetOwnerReference\<close> is a parameter.\<close>

type_synonym 'r owner_setter = "ObjectMeta \<Rightarrow> 'r object \<Rightarrow> (string, 'r object) result"

definition setOwnerReference :: "'r owner_setter \<Rightarrow> ObjectMeta \<Rightarrow> 'r object \<Rightarrow> (go_error, 'r object) result" where
  "setOwnerReference sor owner ownee =
     map_sum (\<lambda>e. Errorf ''failed to set owner reference: '' (NewError e) []) id (sor owner ownee)"

definition withOwner ::
    "'r owner_setter \<Rightarrow> ObjectMeta \<Rightarrow> ('r object \<Rightarrow> 's \<Rightarrow> 's \<times> go_error option) \<Rightarrow>
      'r object \<Rightarrow> 's \<Rightarrow> 's \<times> go_error option" where
  "withOwner sor owner send obj s =
     (case setOwnerReference sor owner obj of Inl err \<Rightarrow> (s, Some err) | Inr obj' \<Rightarrow> send obj' s)"

definition NewOwnerReferenceSetter ::
    "('s, 'r) object_client \<Rightarrow> 'r owner_setter \<Rightarrow> ObjectMeta \<Rightarrow> ('s, 'r) object_client" where
  "NewOwnerReferenceSetter intercepted sor owner =
     intercepted\<lparr>oc_Create := withOwner sor owner (oc_Create intercepted),
                 oc_Update := withOwner sor owner (oc_Update intercepted)\<rparr>"

section \<open>Metadata\<close>

definition mergeMapsByPrefix ::
    "(string \<rightharpoonup> string) option \<Rightarrow> (string \<rightharpoonup> string) option \<Rightarrow> string \<Rightarrow> (string \<rightharpoonup> string) option" where
  "mergeMapsByPrefix newMap oldMap pre =
     Some (\<lambda>k. case deref newMap Map.empty k of
                 Some v \<Rightarrow> Some v
               | None \<Rightarrow> if HasPrefix k pre then deref oldMap Map.empty k else None)"

definition mergeMaps ::
    "(string \<rightharpoonup> string) option \<Rightarrow> (string \<rightharpoonup> string) option \<Rightarrow> (string \<rightharpoonup> string) option" where
  "mergeMaps newMap oldMap = mergeMapsByPrefix newMap oldMap []"

definition ownerSliceContains :: "OwnerReference list \<Rightarrow> OwnerReference \<Rightarrow> bool" where
  "ownerSliceContains owners ref \<longleftrightarrow> list_ex (\<lambda>r. or_UID r = or_UID ref) owners"

definition mergeOwnerReferences :: "OwnerReference list \<Rightarrow> OwnerReference list \<Rightarrow> OwnerReference list" where
  "mergeOwnerReferences newOwners oldOwners =
     oldOwners @ filter (\<lambda>ref. \<not> ownerSliceContains oldOwners ref) newOwners"

definition mergeMetadata :: "ObjectMeta \<Rightarrow> ObjectMeta \<Rightarrow> ObjectMeta" where
  "mergeMetadata newMeta oldMeta =
     newMeta\<lparr>om_ResourceVersion := om_ResourceVersion oldMeta,
             om_Labels := mergeMaps (om_Labels newMeta) (om_Labels oldMeta),
             om_Annotations := mergeMaps (om_Annotations newMeta) (om_Annotations oldMeta),
             om_OwnerReferences := mergeOwnerReferences (om_OwnerReferences newMeta) (om_OwnerReferences oldMeta)\<rparr>"

abbreviation AnnotationKeyChecksumConfig :: string where
  "AnnotationKeyChecksumConfig \<equiv> ''checksum/config''"

definition mergePodAnnotations :: "ObjectMeta \<Rightarrow> ObjectMeta \<Rightarrow> ObjectMeta" where
  "mergePodAnnotations newMeta oldMeta =
     (let merge = (\<lambda>pre m. m\<lparr>om_Annotations := mergeMapsByPrefix (om_Annotations m) (om_Annotations oldMeta) pre\<rparr>)
      in merge ''istio-operator.kyma-project.io/restartedAt'' (merge AnnotationKeyChecksumConfig
           (merge ''kubectl.kubernetes.io/'' newMeta)))"

definition mergeObject :: "'r object \<Rightarrow> 'r object \<Rightarrow> 'r object" where
  "mergeObject desired existing =
     desired\<lparr>ob_ObjectMeta := mergeMetadata (ob_ObjectMeta desired) (ob_ObjectMeta existing)\<rparr>"

section \<open>Creating, updating and deleting\<close>

text \<open>The shape of all \<open>CreateOrUpdate\<close> functions: \<open>combine\<close> is what they take over from the existing object into the
  desired one, \<open>same\<close> the test that makes the update unnecessary.\<close>

definition createOrUpdateWith ::
    "('r object \<Rightarrow> 'r object \<Rightarrow> 'r object) \<Rightarrow> ('r object \<Rightarrow> 'r object \<Rightarrow> bool) \<Rightarrow>
      ('s, 'r) object_client \<Rightarrow> 'r object \<Rightarrow> 's \<Rightarrow> 's \<times> go_error option" where
  "createOrUpdateWith combine same c desired s =
     (case oc_Get c (ob_key desired) s of
        Inl err \<Rightarrow> if \<not> IsNotFound err then (s, Some (KubeError err)) else oc_Create c desired s
      | Inr existing \<Rightarrow>
          let desired' = combine desired existing
          in if same existing desired' then (s, None) else oc_Update c desired' s)"

text \<open>Cluster roles, roles, their bindings, service accounts, ConfigMaps, network policies and Secrets;
  \<open>deepEqual\<close> is \<open>apiequality.Semantic.DeepEqual\<close>.\<close>

definition CreateOrUpdate ::
    "('r object \<Rightarrow> 'r object \<Rightarrow> bool) \<Rightarrow> ('s, 'r) object_client \<Rightarrow> 'r object \<Rightarrow> 's \<Rightarrow> 's \<times> go_error option" where
  "CreateOrUpdate deepEqual = createOrUpdateWith mergeObject deepEqual"

text \<open>Peer authentications, destination rules, webhook configurations and vertical pod autoscalers.\<close>

definition CreateOrUpdateAlways :: "('s, 'r) object_client \<Rightarrow> 'r object \<Rightarrow> 's \<Rightarrow> 's \<times> go_error option" where
  "CreateOrUpdateAlways = createOrUpdateWith mergeObject (\<lambda>_ _. False)"

text \<open>Deployments and DaemonSets: the metadata of the pod template and the rest of the spec.\<close>

record 'r workload =
  wl_Template :: ObjectMeta
  wl_Rest :: 'r

definition mergeWorkload :: "'r workload object \<Rightarrow> 'r workload object \<Rightarrow> 'r workload object" where
  "mergeWorkload desired existing =
     mergeObject (desired\<lparr>ob_Rest := (ob_Rest desired)\<lparr>wl_Template :=
       mergePodAnnotations (wl_Template (ob_Rest desired)) (wl_Template (ob_Rest existing))\<rparr>\<rparr>) existing"

definition CreateOrUpdateWorkload ::
    "('s, 'r workload) object_client \<Rightarrow> 'r workload object \<Rightarrow> 's \<Rightarrow> 's \<times> go_error option" where
  "CreateOrUpdateWorkload = createOrUpdateWith mergeWorkload (\<lambda>_ _. False)"

record 'r ServiceSpec =
  ss_IPFamilies :: "string list"
  ss_IPFamilyPolicy :: "string option"
  ss_ClusterIP :: string
  ss_ClusterIPs :: "string list"
  ss_Rest :: 'r

definition mergeService :: "'r ServiceSpec object \<Rightarrow> 'r ServiceSpec object \<Rightarrow> 'r ServiceSpec object" where
  "mergeService desired existing =
     mergeObject (desired\<lparr>ob_Rest := (ob_Rest desired)
       \<lparr>ss_IPFamilies := ss_IPFamilies (ob_Rest existing), ss_IPFamilyPolicy := ss_IPFamilyPolicy (ob_Rest existing),
        ss_ClusterIP := ss_ClusterIP (ob_Rest existing), ss_ClusterIPs := ss_ClusterIPs (ob_Rest existing)\<rparr>\<rparr>) existing"

definition CreateOrUpdateService ::
    "('s, 'r ServiceSpec) object_client \<Rightarrow> 'r ServiceSpec object \<Rightarrow> 's \<Rightarrow> 's \<times> go_error option" where
  "CreateOrUpdateService = createOrUpdateWith mergeService (\<lambda>_ _. False)"

definition DeleteObject :: "('s, 'r) object_client \<Rightarrow> NamespacedName \<Rightarrow> 's \<Rightarrow> 's \<times> kube_error option" where
  "DeleteObject c key s = (let (s', err) = oc_Delete c key s in (s', IgnoreNotFound err))"

fun deleteEach :: "('s, 'r) object_client \<Rightarrow> 'r object list \<Rightarrow> 's \<Rightarrow> 's \<times> kube_error option" where
  "deleteEach c [] s = (s, None)"
| "deleteEach c (obj # objs) s =
     (case oc_Delete c (ob_key obj) s of
        (s', Some err) \<Rightarrow> (s', IgnoreNotFound (Some err))
      | (s', None) \<Rightarrow> deleteEach c objs s')"

definition DeleteObjectsByLabelSelector ::
    "('s, 'r) object_client \<Rightarrow> (string \<rightharpoonup> string) \<Rightarrow> 's \<Rightarrow> 's \<times> kube_error option" where
  "DeleteObjectsByLabelSelector c labelSelector s =
     (case oc_List c labelSelector s of
        Inl err \<Rightarrow> (s, IgnoreNotFound (Some err))
      | Inr items \<Rightarrow> deleteEach c items s)"

section \<open>What is relied on of a client\<close>

text \<open>What the server keeps of the object it is sent.\<close>

definition stored_as :: "'r object \<Rightarrow> 'r object \<Rightarrow> bool" where
  "stored_as sent obj \<longleftrightarrow> ob_key obj = ob_key sent \<and> ob_Rest obj = ob_Rest sent \<and> labelsOf obj = labelsOf sent \<and>
     annotationsOf obj = annotationsOf sent \<and> ownersOf obj = ownersOf sent"

text \<open>\<open>prepare\<close> is what the client does to an object before it is sent; the server gives every object a UID.\<close>

locale object_api =
  fixes c :: "('s, 'r) object_client"
    and store :: "'s \<Rightarrow> NamespacedName \<Rightarrow> 'r object option"
    and prepare :: "'r object \<Rightarrow> (go_error, 'r object) result"
  assumes get_found: "oc_Get c k s = Inr obj \<Longrightarrow> store s k = Some obj"
    and get_missing: "oc_Get c k s = Inl e \<Longrightarrow> IsNotFound e \<Longrightarrow> store s k = None"
    and store_key: "store s k = Some obj \<Longrightarrow> ob_key obj = k"
    and stored_UID: "store s k = Some obj \<Longrightarrow> om_UID (ob_ObjectMeta obj) \<noteq> []"
    and create_law: "oc_Create c obj s = (s', None) \<Longrightarrow>
      \<exists>sent obj'. prepare obj = Inr sent \<and> stored_as sent obj' \<and> store s' = (store s)(ob_key obj \<mapsto> obj')"
    and update_law: "oc_Update c obj s = (s', None) \<Longrightarrow>
      \<exists>sent obj'. prepare obj = Inr sent \<and> stored_as sent obj' \<and> store s' = (store s)(ob_key obj \<mapsto> obj')"
    and delete_law: "oc_Delete c k s = (s', err) \<Longrightarrow>
      (err = None \<longrightarrow> store s k \<noteq> None \<and> store s' = (store s)(k := None)) \<and>
      (\<forall>e. err = Some e \<longrightarrow> store s' = store s \<and> (IsNotFound e \<longleftrightarrow> store s k = None))"
begin

lemma labeler_api: "object_api (NewLabeler c labels) store (\<lambda>obj. prepare (ensureLabels obj labels))"
proof
  have key: "ob_key (ensureLabels obj labels) = ob_key obj" for obj :: "'r object"
    by (simp add: ob_key_def ensureLabels_def)
  show "oc_Create (NewLabeler c labels) obj s = (s', None) \<Longrightarrow>
      \<exists>sent obj'. prepare (ensureLabels obj labels) = Inr sent \<and> stored_as sent obj' \<and> store s' = (store s)(ob_key obj \<mapsto> obj')"
    for obj s s' using create_law [of "ensureLabels obj labels"] by (simp add: NewLabeler_def key)
  show "oc_Update (NewLabeler c labels) obj s = (s', None) \<Longrightarrow>
      \<exists>sent obj'. prepare (ensureLabels obj labels) = Inr sent \<and> stored_as sent obj' \<and> store s' = (store s)(ob_key obj \<mapsto> obj')"
    for obj s s' using update_law [of "ensureLabels obj labels"] by (simp add: NewLabeler_def key)
qed (use get_found get_missing store_key stored_UID delete_law in \<open>auto simp: NewLabeler_def\<close>)

lemma owner_api:
  assumes key: "\<And>obj obj'. sor owner obj = Inr obj' \<Longrightarrow> ob_key obj' = ob_key obj"
  shows "object_api (NewOwnerReferenceSetter c sor owner) store (\<lambda>obj. rbind (setOwnerReference sor owner obj) prepare)"
proof
  have set: "\<exists>obj'. setOwnerReference sor owner obj = Inr obj' \<and> ob_key obj' = ob_key obj \<and> send obj' s = (s', None)"
    if "withOwner sor owner send obj s = (s', None)" for send :: "'r object \<Rightarrow> 's \<Rightarrow> 's \<times> go_error option" and obj s s'
    using that key by (cases "sor owner obj") (auto simp: withOwner_def setOwnerReference_def)
  show "oc_Create (NewOwnerReferenceSetter c sor owner) obj s = (s', None) \<Longrightarrow>
      \<exists>sent obj'. rbind (setOwnerReference sor owner obj) prepare = Inr sent \<and> stored_as sent obj' \<and>
        store s' = (store s)(ob_key obj \<mapsto> obj')" for obj s s'
    by (auto simp: NewOwnerReferenceSetter_def dest!: set create_law)
  show "oc_Update (NewOwnerReferenceSetter c sor owner) obj s = (s', None) \<Longrightarrow>
      \<exists>sent obj'. rbind (setOwnerReference sor owner obj) prepare = Inr sent \<and> stored_as sent obj' \<and>
        store s' = (store s)(ob_key obj \<mapsto> obj')" for obj s s'
    by (auto simp: NewOwnerReferenceSetter_def dest!: set update_law)
qed (use get_found get_missing store_key stored_UID delete_law in \<open>auto simp: NewOwnerReferenceSetter_def\<close>)

lemma createOrUpdate_applied:
  assumes run: "createOrUpdateWith combine same c desired s = (s', None)"
    and differ: "\<And>existing. store s (ob_key desired) = Some existing \<Longrightarrow> \<not> same existing (combine desired existing)"
    and key: "\<And>existing. ob_key (combine desired existing) = ob_key desired"
  shows "\<exists>sent obj. prepare (case store s (ob_key desired) of None \<Rightarrow> desired | Some e \<Rightarrow> combine desired e) = Inr sent \<and>
    stored_as sent obj \<and> store s' = (store s)(ob_key desired \<mapsto> obj)"
proof (cases "oc_Get c (ob_key desired) s")
  case (Inl e)
  with run have "IsNotFound e" and "oc_Create c desired s = (s', None)"
    by (auto simp: createOrUpdateWith_def split: if_splits)
  with get_missing [OF Inl] create_law show ?thesis by simp
next
  case (Inr existing)
  from get_found [OF Inr] have stored: "store s (ob_key desired) = Some existing" .
  with run Inr differ have "oc_Update c (combine desired existing) s = (s', None)"
    by (auto simp: createOrUpdateWith_def Let_def)
  from update_law [OF this] stored key show ?thesis by simp
qed

text \<open>The objects before the first one that is gone.\<close>

lemma deleteEach_prefix:
  assumes reachable: "\<And>k s s' e. oc_Delete c k s = (s', Some e) \<Longrightarrow> IsNotFound e"
    and distinct: "distinct (map ob_key objs)"
  shows "\<exists>s'. deleteEach c objs s = (s', None) \<and>
    store s' = (\<lambda>k. if k \<in> ob_key ` set (takeWhile (\<lambda>obj. store s (ob_key obj) \<noteq> None) objs) then None else store s k)"
  using distinct
proof (induction objs arbitrary: s)
  case (Cons obj objs)
  obtain s1 err where del: "oc_Delete c (ob_key obj) s = (s1, err)" by fastforce
  show ?case
  proof (cases err)
    case None
    with delete_law [OF del] have gone: "store s (ob_key obj) \<noteq> None" "store s1 = (store s)(ob_key obj := None)" by auto
    have same: "takeWhile (\<lambda>o'. store s1 (ob_key o') \<noteq> None) objs = takeWhile (\<lambda>o'. store s (ob_key o') \<noteq> None) objs"
      using Cons.prems gone(2) by (intro takeWhile_cong) (auto simp: image_iff)
    from Cons.IH [of s1] Cons.prems obtain s' where s': "deleteEach c objs s1 = (s', None)"
      "store s' = (\<lambda>k. if k \<in> ob_key ` set (takeWhile (\<lambda>o'. store s (ob_key o') \<noteq> None) objs) then None else store s1 k)"
      unfolding same by auto
    show ?thesis using del None s' gone by (intro exI [of _ s']) (auto simp: fun_eq_iff)
  next
    case (Some e)
    with reachable del have "IsNotFound e" by blast
    moreover from delete_law [OF del] Some this have "store s (ob_key obj) = None" "store s1 = store s" by auto
    ultimately show ?thesis using del Some by (simp add: IgnoreNotFound_def)
  qed
qed auto

end

section \<open>Applied objects\<close>

definition lawful_owner :: "'r owner_setter \<Rightarrow> bool" where
  "lawful_owner sor \<longleftrightarrow> (\<forall>owner obj obj'. sor owner obj = Inr obj' \<longrightarrow>
     ob_key obj' = ob_key obj \<and> ob_Rest obj' = ob_Rest obj \<and> labelsOf obj' = labelsOf obj \<and>
     annotationsOf obj' = annotationsOf obj \<and> (\<exists>ref\<in>set (ownersOf obj'). or_UID ref = om_UID owner) \<and>
     (\<forall>ref\<in>set (ownersOf obj). ref \<in> set (ownersOf obj') \<or> or_Name ref = om_Name owner))"

lemma mergeObject_simps [simp]:
  "ob_key (mergeObject d e) = ob_key d" "ob_Rest (mergeObject d e) = ob_Rest d"
  "labelsOf (mergeObject d e) = labelsOf e ++ labelsOf d"
  "annotationsOf (mergeObject d e) = annotationsOf e ++ annotationsOf d"
  "om_UID (ob_ObjectMeta (mergeObject d e)) = om_UID (ob_ObjectMeta d)"
  by (auto simp: mergeObject_def mergeMetadata_def mergeMaps_def mergeMapsByPrefix_def ob_key_def labelsOf_def
      annotationsOf_def HasPrefix_def map_add_def fun_eq_iff split: option.splits)

lemma mergeObject_keeps_owners: "ref \<in> set (ownersOf e) \<Longrightarrow> ref \<in> set (ownersOf (mergeObject d e))"
  by (simp add: mergeObject_def mergeMetadata_def mergeOwnerReferences_def ownersOf_def)

lemma ensureLabels_simps [simp]:
  "ob_key (ensureLabels obj labels) = ob_key obj" "ob_Rest (ensureLabels obj labels) = ob_Rest obj"
  "labelsOf (ensureLabels obj labels) = labelsOf obj ++ labels"
  "annotationsOf (ensureLabels obj labels) = annotationsOf obj" "ownersOf (ensureLabels obj labels) = ownersOf obj"
  by (simp_all add: ensureLabels_def ob_key_def labelsOf_def annotationsOf_def ownersOf_def)

lemma setOwnerReference_Inr: "setOwnerReference sor owner obj = Inr obj' \<longleftrightarrow> sor owner obj = Inr obj'"
  by (cases "sor owner obj") (simp_all add: setOwnerReference_def)

text \<open>The object that is applied: the desired one, with the metadata of the existing one merged in.\<close>

definition mergedInto :: "'r object option \<Rightarrow> 'r object \<Rightarrow> 'r object" where
  "mergedInto existing desired = (case existing of None \<Rightarrow> desired | Some e \<Rightarrow> mergeObject desired e)"

lemma mergedInto_simps [simp]:
  "ob_key (mergedInto x d) = ob_key d" "ob_Rest (mergedInto x d) = ob_Rest d"
  "labelsOf (mergedInto x d) = (case x of None \<Rightarrow> Map.empty | Some e \<Rightarrow> labelsOf e) ++ labelsOf d"
  "annotationsOf (mergedInto x d) = (case x of None \<Rightarrow> Map.empty | Some e \<Rightarrow> annotationsOf e) ++ annotationsOf d"
  by (simp_all add: mergedInto_def split: option.split)

text \<open>C13: what the manager applies is stored.  If \<open>CreateOrUpdate\<close> returns no error through a client that adds the
  labels of the component and the owner, as all resources are applied, the stored object has the desired content; the
  labels of the component win over the desired ones and these over the labels it had, annotations likewise; it is
  owned by the owner and keeps every owner of another name; and no other object changes.  The desired object is one that
  the manager has just made, so it has no UID, and the server stores an object as it is sent.\<close>

theorem applied_object:
  assumes "object_api c store Inr" and "lawful_owner sor"
    and "\<forall>a b. deepEqual a b \<longrightarrow> om_UID (ob_ObjectMeta a) = om_UID (ob_ObjectMeta b)"
    and "om_UID (ob_ObjectMeta desired) = []"
    and "CreateOrUpdate deepEqual (NewLabeler (NewOwnerReferenceSetter c sor owner) labels) desired s = (s', None)"
  shows "\<exists>obj. store s' = (store s)(ob_key desired \<mapsto> obj) \<and> ob_Rest obj = ob_Rest desired \<and>
    labelsOf obj = (case store s (ob_key desired) of None \<Rightarrow> Map.empty | Some e \<Rightarrow> labelsOf e) ++ labelsOf desired ++ labels \<and>
    annotationsOf obj = (case store s (ob_key desired) of None \<Rightarrow> Map.empty | Some e \<Rightarrow> annotationsOf e) ++ annotationsOf desired \<and>
    (\<exists>ref\<in>set (ownersOf obj). or_UID ref = om_UID owner) \<and>
    (\<forall>e. store s (ob_key desired) = Some e \<longrightarrow>
       (\<forall>ref\<in>set (ownersOf e). ref \<in> set (ownersOf obj) \<or> or_Name ref = om_Name owner))"
proof -
  have key: "ob_key obj' = ob_key obj" if "sor owner obj = Inr obj'" for obj obj'
    using assms(2) that by (simp add: lawful_owner_def)
  note base = assms(1)
  note api = object_api.labeler_api [where labels = labels, OF object_api.owner_api [where sor = sor and owner = owner, OF base key]]
  let ?m = "mergedInto (store s (ob_key desired)) desired"
  have "\<exists>sent obj. rbind (setOwnerReference sor owner (ensureLabels ?m labels)) Inr = Inr sent \<and>
      stored_as sent obj \<and> store s' = (store s)(ob_key desired \<mapsto> obj)"
    unfolding mergedInto_def
  proof (rule object_api.createOrUpdate_applied [OF api assms(5) [unfolded CreateOrUpdate_def]])
    fix e
    assume "store s (ob_key desired) = Some e"
    from object_api.stored_UID [OF base this] show "\<not> deepEqual e (mergeObject desired e)" using assms(3,4) by force
  qed simp_all
  then obtain sent obj where sent: "sor owner (ensureLabels ?m labels) = Inr sent" and obj: "stored_as sent obj"
    and store: "store s' = (store s)(ob_key desired \<mapsto> obj)"
    by (auto simp: rbind_eq_Inr setOwnerReference_Inr)
  from assms(2) sent have owned: "ob_Rest sent = ob_Rest desired" "labelsOf sent = labelsOf ?m ++ labels"
    "annotationsOf sent = annotationsOf ?m" "\<exists>ref\<in>set (ownersOf sent). or_UID ref = om_UID owner"
    "\<forall>ref\<in>set (ownersOf ?m). ref \<in> set (ownersOf sent) \<or> or_Name ref = om_Name owner"
    unfolding lawful_owner_def by (metis ensureLabels_simps mergedInto_simps(2))+
  have kept: "ref \<in> set (ownersOf sent) \<or> or_Name ref = om_Name owner"
    if "store s (ob_key desired) = Some e" "ref \<in> set (ownersOf e)" for e ref
    using that owned(5) mergeObject_keeps_owners [of ref e desired] by (simp add: mergedInto_def)
  show ?thesis
    using store obj owned(1-4) kept by (intro exI [of _ obj]) (auto simp: stored_as_def)
qed

subsection \<open>A server in memory\<close>

text \<open>The state is a list of objects, which the server shows with a UID; lists come from a cache.\<close>

definition withUID :: "'r object \<Rightarrow> 'r object" where
  "withUID obj = obj\<lparr>ob_ObjectMeta := (ob_ObjectMeta obj)\<lparr>om_UID := ''uid''\<rparr>\<rparr>"

lemma withUID_simps [simp]:
  "ob_key (withUID obj) = ob_key obj" "ob_Rest (withUID obj) = ob_Rest obj" "stored_as obj (withUID obj)"
  "om_UID (ob_ObjectMeta (withUID obj)) = ''uid''"
  by (simp_all add: stored_as_def withUID_def ob_key_def labelsOf_def annotationsOf_def ownersOf_def)

abbreviation notFound :: kube_error where
  "notFound \<equiv> \<lparr>ke_Reason = ReasonNotFound, ke_Message = ''not found''\<rparr>"

definition list_store :: "'r object list \<Rightarrow> NamespacedName \<Rightarrow> 'r object option" where
  "list_store s k = map_option withUID (find (\<lambda>obj. ob_key obj = k) s)"

definition without :: "NamespacedName \<Rightarrow> 'r object list \<Rightarrow> 'r object list" where
  "without k s = filter (\<lambda>obj. ob_key obj \<noteq> k) s"

definition list_client :: "'r object list \<Rightarrow> ('r object list, 'r) object_client" where
  "list_client cached =
     \<lparr>oc_Get = (\<lambda>k s. case list_store s k of Some obj \<Rightarrow> Inr obj | None \<Rightarrow> Inl notFound),
      oc_List = (\<lambda>selector s. Inr cached),
      oc_Create = (\<lambda>obj s. if list_store s (ob_key obj) = None then (obj # s, None)
        else (s, Some (NewError ''already exists''))),
      oc_Update = (\<lambda>obj s. if list_store s (ob_key obj) = None then (s, Some (KubeError notFound))
        else (obj # without (ob_key obj) s, None)),
      oc_Patch = (\<lambda>obj base s. (obj # without (ob_key obj) s, None)),
      oc_Delete = (\<lambda>k s. if list_store s k = None then (s, Some notFound) else (without k s, None))\<rparr>"

lemma list_store_Nil [simp]: "list_store [] k = None"
  by (simp add: list_store_def)

lemma list_store_Cons [simp]: "list_store (obj # s) = (list_store s)(ob_key obj \<mapsto> withUID obj)"
  by (simp add: list_store_def fun_eq_iff)

lemma list_store_without [simp]: "list_store (without k s) = (list_store s)(k := None)"
  by (induction s) (auto simp: without_def list_store_def fun_eq_iff)

lemma list_store_key: "list_store s k = Some obj \<Longrightarrow> ob_key obj = k \<and> om_UID (ob_ObjectMeta obj) = ''uid''"
  by (auto simp: list_store_def find_Some_iff)

interpretation list_api: object_api "list_client cached" list_store Inr
proof
  show "list_store s k = Some obj \<Longrightarrow> ob_key obj = k" "list_store s k = Some obj \<Longrightarrow> om_UID (ob_ObjectMeta obj) \<noteq> []"
    for s :: "'a object list" and k obj by (auto dest: list_store_key)
  show "oc_Create (list_client cached) obj s = (s', None) \<Longrightarrow> \<exists>sent obj'. Inr obj = Inr sent \<and> stored_as sent obj' \<and>
      list_store s' = (list_store s)(ob_key obj \<mapsto> obj')" for obj s s'
    by (auto simp: list_client_def split: if_splits intro!: exI [of _ "withUID obj"])
  show "oc_Update (list_client cached) obj s = (s', None) \<Longrightarrow> \<exists>sent obj'. Inr obj = Inr sent \<and> stored_as sent obj' \<and>
      list_store s' = (list_store s)(ob_key obj \<mapsto> obj')" for obj s s'
    by (auto simp: list_client_def split: if_splits intro!: exI [of _ "withUID obj"])
qed (auto simp: list_client_def IsNotFound_def split: if_splits option.splits)

definition upsertOwner :: "'r owner_setter" where
  "upsertOwner owner obj = Inr (obj\<lparr>ob_ObjectMeta := (ob_ObjectMeta obj)\<lparr>om_OwnerReferences :=
     filter (\<lambda>ref. or_Name ref \<noteq> om_Name owner) (ownersOf obj) @
     [\<lparr>or_Kind = [], or_Name = om_Name owner, or_UID = om_UID owner\<rparr>]\<rparr>\<rparr>)"

lemma upsertOwner_lawful: "lawful_owner upsertOwner"
  by (auto simp: lawful_owner_def upsertOwner_def ob_key_def labelsOf_def annotationsOf_def ownersOf_def)

abbreviation sampleObject :: "nat \<Rightarrow> nat object" where
  "sampleObject n \<equiv> \<lparr>ob_ObjectMeta = zeroObjectMeta, ob_Rest = n\<rparr>"

text \<open>An object of an older version without labels is updated.\<close>

theorem applied_object_witness:
  "\<exists>s'. CreateOrUpdate (=) (NewLabeler (NewOwnerReferenceSetter (list_client []) upsertOwner zeroObjectMeta)
       (DefaultLabels ''agent'' ''agent'')) (sampleObject 2) [sampleObject 1] = (s', None) \<and>
     (\<exists>obj. list_store s' (ob_key (sampleObject 2)) = Some obj \<and> ob_Rest obj = 2 \<and>
     labelsOf obj LabelKeyK8sName = Some ''agent'')"
proof -
  let ?s = "[sampleObject 1]"
  have key: "ob_key (sampleObject 2) = ob_key (sampleObject 1)" by (simp add: ob_key_def)
  have "\<exists>s'. CreateOrUpdate (=) (NewLabeler (NewOwnerReferenceSetter (list_client []) upsertOwner zeroObjectMeta)
       (DefaultLabels ''agent'' ''agent'')) (sampleObject 2) ?s = (s', None)"
    by (simp add: CreateOrUpdate_def createOrUpdateWith_def NewLabeler_def NewOwnerReferenceSetter_def list_client_def
        key withUID_def zeroObjectMeta_def mergeObject_def mergeMetadata_def Let_def withOwner_def
        setOwnerReference_def upsertOwner_def ensureLabels_def ob_key_def)
  then obtain s' where run: "CreateOrUpdate (=) (NewLabeler (NewOwnerReferenceSetter (list_client []) upsertOwner
       zeroObjectMeta) (DefaultLabels ''agent'' ''agent'')) (sampleObject 2) ?s = (s', None)" by blast
  from applied_object [OF list_api.object_api_axioms upsertOwner_lawful _ _ run]
  obtain obj where "list_store s' = (list_store ?s)(ob_key (sampleObject 2) \<mapsto> obj)" "ob_Rest obj = 2"
    "labelsOf obj LabelKeyK8sName = Some ''agent''"
    by (auto simp: zeroObjectMeta_def DefaultLabels_def)
  with run show ?thesis by auto
qed

section \<open>Deletion by label\<close>

text \<open>C31: the deletion by label stops at the first object that is already gone.  The list may come from a cache that
  lags behind.  If the server can be reached, \<open>DeleteObjectsByLabelSelector\<close> reports success, having deleted exactly
  the listed objects before the first one that no longer exists; the ones after it stay.\<close>

theorem delete_by_label_stops_at_missing:
  assumes "object_api c store prepare" and "\<forall>k s s' e. oc_Delete c k s = (s', Some e) \<longrightarrow> IsNotFound e"
    and "oc_List c selector s = Inr items" and "distinct (map ob_key items)"
  shows "\<exists>s'. DeleteObjectsByLabelSelector c selector s = (s', None) \<and>
    (\<forall>k. store s' k = (if k \<in> ob_key ` set (takeWhile (\<lambda>obj. store s (ob_key obj) \<noteq> None) items) then None else store s k))"
  using object_api.deleteEach_prefix [OF assms(1) _ assms(4), of s] assms(2,3)
  by (auto simp: DeleteObjectsByLabelSelector_def)

abbreviation namedObject :: "string \<Rightarrow> nat object" where
  "namedObject n \<equiv> \<lparr>ob_ObjectMeta = zeroObjectMeta\<lparr>om_Name := n\<rparr>, ob_Rest = 0\<rparr>"

text \<open>The cache still has \<open>a\<close>; \<open>b\<close> stays.\<close>

theorem delete_by_label_stops_at_missing_witness:
  "\<exists>s'. DeleteObjectsByLabelSelector (list_client [namedObject ''a'', namedObject ''b'']) Map.empty
       [namedObject ''b''] = (s', None) \<and> list_store s' (ob_key (namedObject ''b'')) \<noteq> None"
proof -
  let ?items = "[namedObject ''a'', namedObject ''b'']"
  let ?s = "[namedObject ''b'']"
  have "\<exists>s'. DeleteObjectsByLabelSelector (list_client ?items) Map.empty ?s = (s', None) \<and>
    (\<forall>k. list_store s' k = (if k \<in> ob_key ` set (takeWhile (\<lambda>obj. list_store ?s (ob_key obj) \<noteq> None) ?items) then None
       else list_store ?s k))"
    by (rule delete_by_label_stops_at_missing [OF list_api.object_api_axioms])
      (auto simp: list_client_def IsNotFound_def ob_key_def zeroObjectMeta_def split: if_splits)
  then obtain s' where "DeleteObjectsByLabelSelector (list_client ?items) Map.empty ?s = (s', None)"
    "list_store s' (ob_key (namedObject ''b'')) = list_store ?s (ob_key (namedObject ''b''))"
    by (auto simp: ob_key_def zeroObjectMeta_def)
  moreover have "list_store ?s (ob_key (namedObject ''b'')) \<noteq> None" by simp
  ultimately show ?thesis by metis
qed

end
