(* ===== verification/StartupTasks.thy ===== *)
theory StartupTasks
  imports KubeUtils Names
begin

text \<open>
  The tasks that the manager runs once after its start, and repeats until they succeed: \<open>internal/storagemigration\<close>
  rewrites the stored custom resources in the current API version and then removes the old version from the resource
  definitions, and \<open>internal/labelupdater\<close> labels objects of older versions of the manager.

  Shown: at no time, whatever call fails, is the old version removed from a definition while an object is stored in
  it; a run without error removes it everywhere; and the loop returns once the API server answers.
\<close>

section \<open>Steps and retries\<close>

text \<open>A step changes the world and may return an error; \<open>thenDo f a b\<close> is
  \<open>if err := a(); err != nil { return f(err) }\<close> followed by \<open>b\<close>.\<close>

type_synonym 'w step = "'w \<Rightarrow> 'w \<times> go_error option"

definition done_ok :: "'w step" where
  "done_ok w = (w, None)"

definition thenDo :: "(go_error \<Rightarrow> go_error) \<Rightarrow> 'w step \<Rightarrow> 'w step \<Rightarrow> 'w step" where
  "thenDo f a b w = (case a w of (w', Some e) \<Rightarrow> (w', Some (f e)) | (w', None) \<Rightarrow> b w')"

abbreviation failed :: "string \<Rightarrow> go_error \<Rightarrow> go_error" where
  "failed what e \<equiv> Errorf (what @ '': '') e []"

text \<open>The loop of the two \<open>Start\<close> functions.  \<open>attempt n\<close> is the n-th attempt on the world as it is by then;
  \<open>cancelled n\<close> tells whether the context ends the wait after it.  The loop may run forever.\<close>

partial_function (option) retry :: "(nat \<Rightarrow> 'w step) \<Rightarrow> (nat \<Rightarrow> bool) \<Rightarrow> nat \<Rightarrow> 'w \<Rightarrow> 'w option" where
  "retry attempt cancelled n w =
     (case attempt n w of
        (w', None) \<Rightarrow> Some w'
      | (w', Some err) \<Rightarrow> if cancelled n then Some w' else retry attempt cancelled (Suc n) w')"

lemma retry_unfold:
  "attempt n w = (w', None) \<Longrightarrow> retry attempt cancelled n w = Some w'"
  "attempt n w = (w', Some err) \<Longrightarrow>
     retry attempt cancelled n w = (if cancelled n then Some w' else retry attempt cancelled (Suc n) w')"
  by (subst retry.simps, simp)+

lemma retry_returns:
  assumes "n \<le> m" and "\<And>w. snd (attempt m w) = None"
  shows "\<exists>w'. retry attempt cancelled n w = Some w'"
  using assms(1)
proof (induction n arbitrary: w rule: inc_induct)
  case base
  obtain w' where "attempt m w = (w', None)" using assms(2) by (metis prod.collapse)
  then show ?case by (simp add: retry_unfold)
next
  case (step i)
  obtain w' err where "attempt i w = (w', err)" by fastforce
  then show ?case using step.IH by (cases err) (auto simp: retry_unfold)
qed

text \<open>What every attempt keeps holds after the loop, and what a successful attempt gives unless the loop was
  cancelled.\<close>

lemma retry_result:
  assumes "retry attempt cancelled n w = Some w'" and "P w"
    and "\<And>k v v' err. P v \<Longrightarrow> attempt k v = (v', err) \<Longrightarrow> P v' \<and> (err = None \<longrightarrow> Q v')"
  shows "P w' \<and> (Q w' \<or> (\<exists>k. cancelled k))"
proof -
  have "(\<forall>k v v' err. P v \<longrightarrow> attempt k v = (v', err) \<longrightarrow> P v' \<and> (err = None \<longrightarrow> Q v')) \<longrightarrow> P w \<longrightarrow>
      P w' \<and> (Q w' \<or> (\<exists>k. cancelled k))"
  proof (rule retry.raw_induct [OF _ assms(1)], goal_cases)
    case (1 self attempt cancelled n w w')
    obtain v err where v: "attempt n w = (v, err)" by fastforce
    show ?case
    proof (cases err)
      case None
      with 1(2) v show ?thesis by auto
    next
      case (Some e)
      with 1(2) v have "cancelled n \<and> w' = v \<or> self attempt cancelled (Suc n) v = Some w'" by (auto split: if_splits)
      with 1(1) v show ?thesis by blast
    qed
  qed
  with assms(2,3) show ?thesis by blast
qed

section \<open>Storage version migration\<close>

definition oldVersion :: string where
  "oldVersion = ''v1alpha1''"

abbreviation logPipelineCRD :: string where "logPipelineCRD \<equiv> ''logpipelines.telemetry.kyma-project.io''"
abbreviation metricPipelineCRD :: string where "metricPipelineCRD \<equiv> ''metricpipelines.telemetry.kyma-project.io''"
abbreviation tracePipelineCRD :: string where "tracePipelineCRD \<equiv> ''tracepipelines.telemetry.kyma-project.io''"
abbreviation telemetryCRD :: string where "telemetryCRD \<equiv> ''telemetries.operator.kyma-project.io''"

definition allCRDs :: "string list" where
  "allCRDs = [logPipelineCRD, metricPipelineCRD, tracePipelineCRD] @ [telemetryCRD]"

text \<open>The client of the migrator.  Of a resource definition the code reads and patches the stored versions; the
  resources themselves are written back as they were read.  Lists and updates are for the kind of a definition;
  \<open>mc_Name\<close> is how the messages name an object.\<close>

record ('s, 'p) migrator_client =
  mc_GetCRD :: "string \<Rightarrow> 's \<Rightarrow> (kube_error, string list) result"
  mc_List :: "string \<Rightarrow> 's \<Rightarrow> (kube_error, 'p list) result"
  mc_Update :: "string \<Rightarrow> 'p \<Rightarrow> 's \<Rightarrow> 's \<times> kube_error option"
  mc_PatchStoredVersions :: "string \<Rightarrow> string list \<Rightarrow> 's \<Rightarrow> 's \<times> kube_error option"
  mc_Name :: "'p \<Rightarrow> string"

text \<open>The state of the API server and the gauge with the stored versions.\<close>

record 's migration =
  mg_Server :: 's
  mg_Info :: "string \<times> string \<Rightarrow> nat option"

definition setInfo :: "string \<Rightarrow> nat \<Rightarrow> string list \<Rightarrow> 's migration \<Rightarrow> 's migration" where
  "setInfo crdName n vs w =
     w\<lparr>mg_Info := (\<lambda>(crd, v). if crd = crdName \<and> v \<in> set vs then Some n else mg_Info w (crd, v))\<rparr>"

definition needsMigration ::
    "('s, 'p) migrator_client \<Rightarrow> string \<Rightarrow> 's migration \<Rightarrow> 's migration \<times> (go_error, bool) result" where
  "needsMigration c crdName w =
     (case mc_GetCRD c crdName (mg_Server w) of
        Inl e \<Rightarrow> (w, Inl (failed (''failed to get CRD '' @ crdName) (KubeError e)))
      | Inr storedVersions \<Rightarrow> (setInfo crdName 1 storedVersions w, Inr (oldVersion \<in> set storedVersions)))"

fun anyNeedsMigration ::
    "('s, 'p) migrator_client \<Rightarrow> string list \<Rightarrow> bool \<Rightarrow> 's migration \<Rightarrow> 's migration \<times> (go_error, bool) result" where
  "anyNeedsMigration c [] needs w = (w, Inr needs)"
| "anyNeedsMigration c (crdName # crdNames) needs w =
     (case needsMigration c crdName w of
        (w', Inl e) \<Rightarrow> (w', Inl (failed (''failed to check migration status for '' @ crdName) e))
      | (w', Inr needed) \<Rightarrow> anyNeedsMigration c crdNames (needs \<or> needed) w')"

fun updateEach :: "('s, 'p) migrator_client \<Rightarrow> string \<Rightarrow> string \<Rightarrow> 'p list \<Rightarrow> 's migration step" where
  "updateEach c crdName kind [] w = (w, None)"
| "updateEach c crdName kind (item # items) w =
     (case mc_Update c crdName item (mg_Server w) of
        (s', None) \<Rightarrow> updateEach c crdName kind items (w\<lparr>mg_Server := s'\<rparr>)
      | (s', Some e) \<Rightarrow>
          if IsNotFound e then updateEach c crdName kind items (w\<lparr>mg_Server := s'\<rparr>)
          else (w\<lparr>mg_Server := s'\<rparr>, Some (failed (''failed to migrate '' @ kind @ '' '' @ mc_Name c item) (KubeError e))))"

text \<open>\<open>migrateLogPipelines\<close>, \<open>migrateMetricPipelines\<close>, \<open>migrateTracePipelines\<close> and \<open>migrateTelemetries\<close>.\<close>

definition migrateObjects ::
    "('s, 'p) migrator_client \<Rightarrow> string \<Rightarrow> string \<Rightarrow> string \<Rightarrow> 's migration step" where
  "migrateObjects c crdName kind plural w =
     (case mc_List c crdName (mg_Server w) of
        Inl e \<Rightarrow> (w, Some (failed (''failed to list '' @ plural) (KubeError e)))
      | Inr items \<Rightarrow> updateEach c crdName kind items w)"

definition clearStoredVersion :: "('s, 'p) migrator_client \<Rightarrow> string \<Rightarrow> 's migration step" where
  "clearStoredVersion c crdName w =
     (case mc_GetCRD c crdName (mg_Server w) of
        Inl e \<Rightarrow> (w, Some (failed (''failed to get CRD '' @ crdName) (KubeError e)))
      | Inr storedVersions \<Rightarrow>
          let newStoredVersions = filter (\<lambda>version. version \<noteq> oldVersion) storedVersions
          in if length newStoredVersions = length storedVersions then (w, None)
             else case mc_PatchStoredVersions c crdName newStoredVersions (mg_Server w) of
                 (s', Some e) \<Rightarrow>
                   (w\<lparr>mg_Server := s'\<rparr>, Some (failed (''failed to patch CRD status for '' @ crdName) (KubeError e)))
               | (s', None) \<Rightarrow>
                   (setInfo crdName 1 newStoredVersions (setInfo crdName 0 [oldVersion] (w\<lparr>mg_Server := s'\<rparr>)), None))"

fun clearEach :: "('s, 'p) migrator_client \<Rightarrow> string list \<Rightarrow> 's migration step" where
  "clearEach c [] w = (w, None)"
| "clearEach c (crdName # crdNames) w =
     thenDo (failed (''failed to clear stored version for '' @ crdName)) (clearStoredVersion c crdName)
       (clearEach c crdNames) w"

definition migratePipelinesIfNeeded :: "('s, 'p) migrator_client \<Rightarrow> 's migration step" where
  "migratePipelinesIfNeeded c w =
     (case anyNeedsMigration c allCRDs False w of
        (w', Inl e) \<Rightarrow> (w', Some e)
      | (w', Inr needs) \<Rightarrow>
          if \<not> needs then (w', None)
          else
            thenDo (failed ''failed to migrate LogPipelines'') (migrateObjects c logPipelineCRD ''LogPipeline'' ''LogPipelines'')
            (thenDo (failed ''failed to migrate MetricPipelines'')
              (migrateObjects c metricPipelineCRD ''MetricPipeline'' ''MetricPipelines'')
            (thenDo (failed ''failed to migrate TracePipelines'')
              (migrateObjects c tracePipelineCRD ''TracePipeline'' ''TracePipelines'')
            (thenDo (failed ''failed to migrate Telemetries'') (migrateObjects c telemetryCRD ''Telemetry'' ''Telemetries'')
            (clearEach c allCRDs)))) w')"

text \<open>\<open>others n\<close> is what happens to the server between the attempts.\<close>

definition Migrator_Start ::
    "('s, 'p) migrator_client \<Rightarrow> (nat \<Rightarrow> 's \<Rightarrow> 's) \<Rightarrow> (nat \<Rightarrow> bool) \<Rightarrow> 's migration \<Rightarrow> 's migration option" where
  "Migrator_Start c others cancelled w =
     retry (\<lambda>n w. migratePipelinesIfNeeded c (w\<lparr>mg_Server := others n (mg_Server w)\<rparr>)) cancelled 0 w"

section \<open>Label updater\<close>

definition hasModuleLabel :: "'r object \<Rightarrow> bool" where
  "hasModuleLabel obj \<longleftrightarrow> labelsOf obj LabelKeyKymaModule \<noteq> None"

definition patchModuleLabel :: "('s, 'r) object_client \<Rightarrow> 'r object \<Rightarrow> 's step" where
  "patchModuleLabel c obj =
     oc_Patch c (obj\<lparr>ob_ObjectMeta := (ob_ObjectMeta obj)
       \<lparr>om_Labels := Some ((labelsOf obj)(LabelKeyKymaModule \<mapsto> LabelValueKymaModule))\<rparr>\<rparr>) obj"

text \<open>\<open>goType\<close> is how \<open>%T\<close> prints the type; the object is read past the cache.\<close>

definition ensureLabelOnResource ::
    "(NamespacedName \<Rightarrow> 's \<Rightarrow> (kube_error, 'r object) result) \<Rightarrow> ('s, 'r) object_client \<Rightarrow> string \<Rightarrow> NamespacedName \<Rightarrow> 's step" where
  "ensureLabelOnResource apiGet c goType key s =
     (let named = goType @ '' '' @ nn_Namespace key @ ''/'' @ nn_Name key
      in case apiGet key s of
           Inl e \<Rightarrow> if IsNotFound e then (s, None) else (s, Some (failed (''failed to get '' @ named) (KubeError e)))
         | Inr obj \<Rightarrow>
             if hasModuleLabel obj then (s, None)
             else thenDo (failed (''failed to patch label on '' @ named)) (patchModuleLabel c obj) done_ok s)"

text \<open>The Fluent Bit service account and its cluster role binding.\<close>

definition updater_ensureLabels ::
    "(NamespacedName \<Rightarrow> 's \<Rightarrow> (kube_error, 'a object) result) \<Rightarrow> ('s, 'a) object_client \<Rightarrow>
      (NamespacedName \<Rightarrow> 's \<Rightarrow> (kube_error, 'b object) result) \<Rightarrow> ('s, 'b) object_client \<Rightarrow> string \<Rightarrow> 's step" where
  "updater_ensureLabels getAccount accounts getBinding bindings namespace =
     thenDo id (ensureLabelOnResource getAccount accounts ''*v1.ServiceAccount''
       \<lparr>nn_Namespace = namespace, nn_Name = Names.FluentBit\<rparr>)
     (thenDo id (ensureLabelOnResource getBinding bindings ''*v1.ClusterRoleBinding''
       \<lparr>nn_Namespace = [], nn_Name = Names.FluentBit\<rparr>) done_ok)"

definition Updater_Start ::
    "(NamespacedName \<Rightarrow> 's \<Rightarrow> (kube_error, 'a object) result) \<Rightarrow> ('s, 'a) object_client \<Rightarrow>
      (NamespacedName \<Rightarrow> 's \<Rightarrow> (kube_error, 'b object) result) \<Rightarrow> ('s, 'b) object_client \<Rightarrow> string \<Rightarrow>
      (nat \<Rightarrow> 's \<Rightarrow> 's) \<Rightarrow> (nat \<Rightarrow> bool) \<Rightarrow> 's \<Rightarrow> 's option" where
  "Updater_Start getAccount accounts getBinding bindings namespace others cancelled =
     retry (\<lambda>n s. updater_ensureLabels getAccount accounts getBinding bindings namespace (others n s)) cancelled 0"

section \<open>The migration is safe\<close>

text \<open>\<open>old s crd k\<close> tells that the object \<open>k\<close> is stored in the old version, \<open>versions s crd\<close> are the stored versions that
  the definition lists.  They are consistent if the definition lists the old version as long as an object is stored
  in it.\<close>

definition consistent :: "('s \<Rightarrow> string \<Rightarrow> 'k \<Rightarrow> bool) \<Rightarrow> ('s \<Rightarrow> string \<Rightarrow> string list) \<Rightarrow> 's \<Rightarrow> bool" where
  "consistent old versions s \<longleftrightarrow> (\<forall>crd k. old s crd k \<longrightarrow> oldVersion \<in> set (versions s crd))"

definition migrated :: "('s \<Rightarrow> string \<Rightarrow> 'k \<Rightarrow> bool) \<Rightarrow> string \<Rightarrow> 's \<Rightarrow> bool" where
  "migrated old crd s \<longleftrightarrow> (\<forall>k. \<not> old s crd k)"

text \<open>No further object in the old version; definitions keep their versions, or only lose some.\<close>

definition later :: "('s \<Rightarrow> string \<Rightarrow> 'k \<Rightarrow> bool) \<Rightarrow> ('s \<Rightarrow> string \<Rightarrow> string list) \<Rightarrow> 's \<Rightarrow> 's \<Rightarrow> bool" where
  "later old versions s s' \<longleftrightarrow> (\<forall>crd k. old s' crd k \<longrightarrow> old s crd k) \<and> versions s' = versions s"

definition shrinks :: "('s \<Rightarrow> string \<Rightarrow> 'k \<Rightarrow> bool) \<Rightarrow> ('s \<Rightarrow> string \<Rightarrow> string list) \<Rightarrow> 's \<Rightarrow> 's \<Rightarrow> bool" where
  "shrinks old versions s s' \<longleftrightarrow> (\<forall>crd k. old s' crd k \<longrightarrow> old s crd k) \<and> (\<forall>crd. set (versions s' crd) \<subseteq> set (versions s crd))"

lemma later_trans: "later old versions r s \<Longrightarrow> later old versions s t \<Longrightarrow> later old versions r t"
  by (simp add: later_def)

lemma later_keeps:
  "later old versions s s' \<Longrightarrow> migrated old crd s \<Longrightarrow> migrated old crd s'"
  "later old versions s s' \<Longrightarrow> consistent old versions s \<Longrightarrow> consistent old versions s'"
  by (auto simp: later_def migrated_def consistent_def)

lemma shrinks_keeps: "shrinks old versions s s' \<Longrightarrow> migrated old crd s \<Longrightarrow> migrated old crd s'"
  by (auto simp: shrinks_def migrated_def)

lemma shrinks_trans: "shrinks old versions r s \<Longrightarrow> shrinks old versions s t \<Longrightarrow> shrinks old versions r t"
  unfolding shrinks_def by (meson subset_trans)

text \<open>A step that is safe once the definitions in \<open>M\<close> are migrated, and clears all of them if it succeeds.\<close>

definition safe_from ::
    "('s \<Rightarrow> string \<Rightarrow> 'k \<Rightarrow> bool) \<Rightarrow> ('s \<Rightarrow> string \<Rightarrow> string list) \<Rightarrow> string set \<Rightarrow> 's migration step \<Rightarrow> bool" where
  "safe_from old versions M step \<longleftrightarrow> (\<forall>w w' err. consistent old versions (mg_Server w) \<longrightarrow>
     (\<forall>crd\<in>M. migrated old crd (mg_Server w)) \<longrightarrow> step w = (w', err) \<longrightarrow>
     consistent old versions (mg_Server w') \<and>
     (err = None \<longrightarrow> (\<forall>crd\<in>set allCRDs. oldVersion \<notin> set (versions (mg_Server w') crd))))"

lemma filter_same_length: "length (filter P xs) = length xs \<longleftrightarrow> (\<forall>x\<in>set xs. P x)"
  by (induction xs) (auto, metis length_filter_le not_less_eq_eq order_refl)

lemma filter_old: "length (filter (\<lambda>v. v \<noteq> u) vs) = length vs \<longleftrightarrow> u \<notin> set vs"
  by (auto simp: filter_same_length)

lemma safe_fromD:
  assumes "safe_from old versions {} step" and "consistent old versions (mg_Server w)" and "step w = (w', err)"
  shows "consistent old versions (mg_Server w') \<and>
    (err = None \<longrightarrow> (\<forall>crd\<in>set allCRDs. oldVersion \<notin> set (versions (mg_Server w') crd)))"
  using assms unfolding safe_from_def by blast

lemma server_setInfo [simp]: "mg_Server (setInfo crd n vs w) = mg_Server w"
  by (simp add: setInfo_def)

text \<open>What is relied on of the API server: it stores whatever is written in the current version, so no call, and nobody else meanwhile, stores an object
  in the old one; an object that was updated or that does not exist is not stored in it.  Lists contain every
  object that is.  A call that fails may have taken effect.\<close>

locale storage_api =
  fixes c :: "('s, 'p) migrator_client"
    and key :: "'p \<Rightarrow> 'k"
    and old :: "'s \<Rightarrow> string \<Rightarrow> 'k \<Rightarrow> bool"
    and versions :: "'s \<Rightarrow> string \<Rightarrow> string list"
  assumes get_law: "mc_GetCRD c crd s = Inr vs \<Longrightarrow> versions s crd = vs"
    and list_law: "mc_List c crd s = Inr items \<Longrightarrow> old s crd k \<Longrightarrow> k \<in> key ` set items"
    and update_law: "mc_Update c crd item s = (s', err) \<Longrightarrow>
      (\<forall>crd' k. old s' crd' k \<longrightarrow> old s crd' k) \<and> versions s' = versions s \<and>
      ((case err of None \<Rightarrow> True | Some e \<Rightarrow> IsNotFound e) \<longrightarrow> \<not> old s' crd (key item))"
    and patch_law: "mc_PatchStoredVersions c crd vs s = (s', err) \<Longrightarrow>
      (\<forall>crd' k. old s' crd' k \<longrightarrow> old s crd' k) \<and>
      (versions s' = versions s \<and> err \<noteq> None \<or> versions s' = (versions s)(crd := vs))"
begin

lemma anyNeedsMigration_law:
  assumes "anyNeedsMigration c crds needs w = (w', res)"
  shows "mg_Server w' = mg_Server w \<and>
    (res = Inr False \<longrightarrow> \<not> needs \<and> (\<forall>crd\<in>set crds. oldVersion \<notin> set (versions (mg_Server w) crd)))"
  using assms
proof (induction crds arbitrary: needs w)
  case (Cons crd crds)
  show ?case
  proof (cases "mc_GetCRD c crd (mg_Server w)")
    case (Inl e)
    with Cons.prems show ?thesis by (auto simp: needsMigration_def)
  next
    case (Inr vs)
    with Cons.prems have "anyNeedsMigration c crds (needs \<or> oldVersion \<in> set vs) (setInfo crd 1 vs w) = (w', res)"
      by (simp add: needsMigration_def)
    from Cons.IH [OF this] get_law [OF Inr] show ?thesis by auto
  qed
qed auto

lemma updateEach_law:
  assumes "updateEach c crd kind items w = (w', err)"
  shows "later old versions (mg_Server w) (mg_Server w') \<and> (err = None \<longrightarrow> (\<forall>k\<in>key ` set items. \<not> old (mg_Server w') crd k))"
  using assms
proof (induction items arbitrary: w)
  case Nil
  then show ?case by (simp add: later_def)
next
  case (Cons item items)
  obtain s1 e1 where upd: "mc_Update c crd item (mg_Server w) = (s1, e1)" by fastforce
  let ?w1 = "w\<lparr>mg_Server := s1\<rparr>"
  note law = update_law [OF upd]
  then have w1: "later old versions (mg_Server w) s1" by (simp add: later_def)
  show ?case
  proof (cases "case e1 of None \<Rightarrow> True | Some e \<Rightarrow> IsNotFound e")
    case True
    with law have item: "\<not> old s1 crd (key item)" by blast
    from True upd Cons.prems have "updateEach c crd kind items ?w1 = (w', err)" by (auto split: option.splits)
    from Cons.IH [OF this] w1 item show ?thesis by (auto simp: later_def)
  next
    case False
    with upd Cons.prems w1 show ?thesis by (auto split: option.splits)
  qed
qed

lemma migrateObjects_law:
  assumes "migrateObjects c crd kind plural w = (w', err)"
  shows "later old versions (mg_Server w) (mg_Server w') \<and> (err = None \<longrightarrow> migrated old crd (mg_Server w'))"
proof (cases "mc_List c crd (mg_Server w)")
  case (Inl e)
  with assms show ?thesis by (auto simp: migrateObjects_def later_def)
next
  case (Inr items)
  with assms have run: "updateEach c crd kind items w = (w', err)" by (simp add: migrateObjects_def)
  from updateEach_law [OF run] list_law [OF Inr] show ?thesis unfolding migrated_def later_def by blast
qed

lemma clearStoredVersion_law:
  assumes "clearStoredVersion c crd w = (w', err)" and "consistent old versions (mg_Server w)"
    and "migrated old crd (mg_Server w)"
  shows "shrinks old versions (mg_Server w) (mg_Server w') \<and> consistent old versions (mg_Server w') \<and>
    (err = None \<longrightarrow> oldVersion \<notin> set (versions (mg_Server w') crd))"
proof (cases "mc_GetCRD c crd (mg_Server w)")
  case (Inl e)
  with assms show ?thesis by (auto simp: clearStoredVersion_def shrinks_def)
next
  case (Inr vs)
  let ?new = "filter (\<lambda>version. version \<noteq> oldVersion) vs"
  note vs = get_law [OF Inr]
  show ?thesis
  proof (cases "length ?new = length vs")
    case True
    with assms(1) Inr have "w' = w" by (simp add: clearStoredVersion_def)
    with True assms(2) vs show ?thesis by (simp add: filter_old shrinks_def)
  next
    case False
    obtain s1 e1 where patch: "mc_PatchStoredVersions c crd ?new (mg_Server w) = (s1, e1)" by fastforce
    with assms(1) Inr False have w': "mg_Server w' = s1" "err = None \<longleftrightarrow> e1 = None"
      by (cases e1; auto simp: clearStoredVersion_def)+
    from patch_law [OF patch] have olds: "\<forall>crd' k. old s1 crd' k \<longrightarrow> old (mg_Server w) crd' k"
      and vers: "versions s1 = versions (mg_Server w) \<and> e1 \<noteq> None \<or> versions s1 = (versions (mg_Server w))(crd := ?new)"
      by blast+
    have sub: "set ?new \<subseteq> set (versions (mg_Server w) crd)" and gone: "oldVersion \<notin> set ?new" using vs by auto
    have other: "crd' \<noteq> crd" if "old s1 crd' k" for crd' k using that olds assms(3) by (auto simp: migrated_def)
    from vers show ?thesis
    proof (elim disjE conjE)
      assume "versions s1 = versions (mg_Server w)" and "e1 \<noteq> None"
      with olds assms(2) w' show ?thesis by (auto simp: shrinks_def consistent_def)
    next
      assume new: "versions s1 = (versions (mg_Server w))(crd := ?new)"
      have "shrinks old versions (mg_Server w) s1" using olds sub by (simp add: shrinks_def new)
      moreover have "consistent old versions s1" using olds assms(2) other by (auto simp: consistent_def new)
      moreover have "oldVersion \<notin> set (versions s1 crd)" using gone by (simp add: new)
      ultimately show ?thesis using w'(1) by simp
    qed
  qed
qed

lemma clearEach_law:
  assumes "clearEach c crds w = (w', err)" and "consistent old versions (mg_Server w)"
    and "\<forall>crd\<in>set crds. migrated old crd (mg_Server w)"
  shows "shrinks old versions (mg_Server w) (mg_Server w') \<and> consistent old versions (mg_Server w') \<and>
    (err = None \<longrightarrow> (\<forall>crd\<in>set crds. oldVersion \<notin> set (versions (mg_Server w') crd)))"
  using assms
proof (induction crds arbitrary: w)
  case Nil
  then show ?case by (simp add: shrinks_def)
next
  case (Cons crd crds)
  obtain w1 e1 where clear: "clearStoredVersion c crd w = (w1, e1)" by fastforce
  with clearStoredVersion_law [OF clear] Cons.prems(2,3) have
    w1: "shrinks old versions (mg_Server w) (mg_Server w1)" "consistent old versions (mg_Server w1)"
    "e1 = None \<longrightarrow> oldVersion \<notin> set (versions (mg_Server w1) crd)" by auto
  show ?case
  proof (cases e1)
    case (Some e)
    with clear Cons.prems(1) w1 show ?thesis by (auto simp: thenDo_def)
  next
    case None
    with clear Cons.prems(1) have "clearEach c crds w1 = (w', err)" by (simp add: thenDo_def)
    from Cons.IH [OF this w1(2)] Cons.prems(3) shrinks_keeps [OF w1(1)] have
      rest: "shrinks old versions (mg_Server w1) (mg_Server w')" "consistent old versions (mg_Server w')"
      "err = None \<longrightarrow> (\<forall>crd\<in>set crds. oldVersion \<notin> set (versions (mg_Server w') crd))" by auto
    from shrinks_trans [OF w1(1) rest(1)] rest w1(3) None show ?thesis by (auto simp: shrinks_def)
  qed
qed

lemma four_in: "set ([a, b, d] @ [e]) \<subseteq> insert e (insert d (insert b (insert a M)))"
  by auto

lemma safe_clear: "set allCRDs \<subseteq> M \<Longrightarrow> safe_from old versions M (clearEach c allCRDs)"
  unfolding safe_from_def using clearEach_law by blast

lemma safe_migrate:
  assumes "safe_from old versions (insert crd M) rest"
  shows "safe_from old versions M (thenDo f (migrateObjects c crd kind plural) rest)"
proof (unfold safe_from_def, intro allI impI)
  fix w w' err
  assume ok: "consistent old versions (mg_Server w)" and M: "\<forall>crd\<in>M. migrated old crd (mg_Server w)"
    and run: "thenDo f (migrateObjects c crd kind plural) rest w = (w', err)"
  obtain w1 e1 where w1: "migrateObjects c crd kind plural w = (w1, e1)" by fastforce
  from migrateObjects_law [OF w1] have late: "later old versions (mg_Server w) (mg_Server w1)"
    and crd: "e1 = None \<longrightarrow> migrated old crd (mg_Server w1)" by auto
  from later_keeps(2) [OF late ok] later_keeps(1) [OF late] M
  have ok1: "consistent old versions (mg_Server w1)" and M1: "\<forall>crd\<in>M. migrated old crd (mg_Server w1)" by auto
  show "consistent old versions (mg_Server w') \<and>
      (err = None \<longrightarrow> (\<forall>crd\<in>set allCRDs. oldVersion \<notin> set (versions (mg_Server w') crd)))"
  proof (cases e1)
    case (Some e)
    with run w1 ok1 show ?thesis by (auto simp: thenDo_def)
  next
    case None
    with run w1 have "rest w1 = (w', err)" by (simp add: thenDo_def)
    with assms ok1 M1 crd None show ?thesis unfolding safe_from_def by blast
  qed
qed

lemma migratePipelinesIfNeeded_safe: "safe_from old versions {} (migratePipelinesIfNeeded c)"
proof (unfold safe_from_def, intro allI impI)
  fix w w' err
  assume ok: "consistent old versions (mg_Server w)" and run: "migratePipelinesIfNeeded c w = (w', err)"
  obtain w0 res where any: "anyNeedsMigration c allCRDs False w = (w0, res)" by fastforce
  note check = anyNeedsMigration_law [OF any]
  let ?rest = "thenDo (failed ''failed to migrate LogPipelines'') (migrateObjects c logPipelineCRD ''LogPipeline'' ''LogPipelines'')
    (thenDo (failed ''failed to migrate MetricPipelines'')
      (migrateObjects c metricPipelineCRD ''MetricPipeline'' ''MetricPipelines'')
    (thenDo (failed ''failed to migrate TracePipelines'')
      (migrateObjects c tracePipelineCRD ''TracePipeline'' ''TracePipelines'')
    (thenDo (failed ''failed to migrate Telemetries'') (migrateObjects c telemetryCRD ''Telemetry'' ''Telemetries'')
    (clearEach c allCRDs))))"
  have safe: "safe_from old versions {} ?rest"
    unfolding allCRDs_def by (intro safe_migrate safe_clear [unfolded allCRDs_def] four_in)
  show "consistent old versions (mg_Server w') \<and>
      (err = None \<longrightarrow> (\<forall>crd\<in>set allCRDs. oldVersion \<notin> set (versions (mg_Server w') crd)))"
  proof (cases "res = Inr True")
    case True
    have "?rest w0 = (w', err)"
      using run unfolding migratePipelinesIfNeeded_def any True prod.case sum.case not_True_eq_False if_False .
    with check ok show ?thesis by (intro safe_fromD [OF safe, of w0]) simp_all
  next
    case False
    then have "w' = w0 \<and> (err = None \<longrightarrow> res = Inr False)"
      using run any by (cases res) (auto simp: migratePipelinesIfNeeded_def)
    with ok check show ?thesis by auto
  qed
qed

end

text \<open>C6: the storage migration is safe.  Whatever calls fail on the way, after an attempt every object that is stored in
  the old version belongs to a definition that still lists it, if this held before; and an attempt without error leaves
  no definition that lists the old version, hence no object that is stored in it.\<close>

theorem storage_migration_safe:
  assumes "storage_api c key old versions" and "consistent old versions (mg_Server w)"
    and "migratePipelinesIfNeeded c w = (w', err)"
  shows "consistent old versions (mg_Server w') \<and>
    (err = None \<longrightarrow> (\<forall>crd\<in>set allCRDs. oldVersion \<notin> set (versions (mg_Server w') crd) \<and> (\<forall>k. \<not> old (mg_Server w') crd k)))"
  using safe_fromD [OF storage_api.migratePipelinesIfNeeded_safe [OF assms(1)] assms(2,3)]
  unfolding consistent_def by blast

section \<open>The start-up tasks end\<close>

text \<open>A server that answers: reads succeed, updates fail only for objects that do not exist, patches succeed.\<close>

definition answers :: "('s, 'p) migrator_client \<Rightarrow> ('s \<Rightarrow> bool) \<Rightarrow> bool" where
  "answers c up \<longleftrightarrow> (\<forall>s crd. up s \<longrightarrow> (\<exists>vs. mc_GetCRD c crd s = Inr vs) \<and> (\<exists>items. mc_List c crd s = Inr items) \<and>
     (\<forall>item s' err. mc_Update c crd item s = (s', err) \<longrightarrow> up s' \<and> (\<forall>e. err = Some e \<longrightarrow> IsNotFound e)) \<and>
     (\<forall>vs s' err. mc_PatchStoredVersions c crd vs s = (s', err) \<longrightarrow> up s' \<and> err = None))"

lemma answers_get: "answers c up \<Longrightarrow> up s \<Longrightarrow> \<exists>vs. mc_GetCRD c crd s = Inr vs"
  and answers_list: "answers c up \<Longrightarrow> up s \<Longrightarrow> \<exists>items. mc_List c crd s = Inr items"
  and answers_update: "answers c up \<Longrightarrow> up s \<Longrightarrow> mc_Update c crd item s = (s', err) \<Longrightarrow>
    up s' \<and> (\<forall>e. err = Some e \<longrightarrow> IsNotFound e)"
  and answers_patch: "answers c up \<Longrightarrow> up s \<Longrightarrow> mc_PatchStoredVersions c crd vs s = (s', err) \<Longrightarrow> up s' \<and> err = None"
  unfolding answers_def by blast+

lemma anyNeedsMigration_answers:
  assumes "answers c up" and "up (mg_Server w)"
  shows "\<exists>w' b. anyNeedsMigration c crds needs w = (w', Inr b) \<and> up (mg_Server w')"
  using assms(2)
proof (induction crds arbitrary: needs w)
  case (Cons crd crds)
  from answers_get [OF assms(1) Cons.prems] obtain vs where "mc_GetCRD c crd (mg_Server w) = Inr vs" by blast
  with Cons.IH [of "setInfo crd 1 vs w"] Cons.prems show ?case by (simp add: needsMigration_def)
qed simp

lemma updateEach_answers:
  assumes "answers c up" and "up (mg_Server w)"
  shows "\<exists>w'. updateEach c crd kind items w = (w', None) \<and> up (mg_Server w')"
  using assms(2)
proof (induction items arbitrary: w)
  case (Cons item items)
  obtain s1 err where upd: "mc_Update c crd item (mg_Server w) = (s1, err)" by fastforce
  from answers_update [OF assms(1) Cons.prems upd] have s1: "up s1" "\<forall>e. err = Some e \<longrightarrow> IsNotFound e" by auto
  from Cons.IH [of "w\<lparr>mg_Server := s1\<rparr>"] s1 upd show ?case by (cases err) auto
qed simp

lemma migrateObjects_answers:
  assumes "answers c up" and "up (mg_Server w)"
  shows "\<exists>w'. migrateObjects c crd kind plural w = (w', None) \<and> up (mg_Server w')"
  using answers_list [OF assms, of crd] updateEach_answers [OF assms] by (auto simp: migrateObjects_def)

lemma clearEach_answers:
  assumes "answers c up" and "up (mg_Server w)"
  shows "\<exists>w'. clearEach c crds w = (w', None)"
  using assms(2)
proof (induction crds arbitrary: w)
  case (Cons crd crds)
  have "\<exists>w1. clearStoredVersion c crd w = (w1, None) \<and> up (mg_Server w1)"
  proof -
    from answers_get [OF assms(1) Cons.prems] obtain vs where vs: "mc_GetCRD c crd (mg_Server w) = Inr vs" by blast
    obtain s1 err where patch:
      "mc_PatchStoredVersions c crd (filter (\<lambda>version. version \<noteq> oldVersion) vs) (mg_Server w) = (s1, err)" by fastforce
    from answers_patch [OF assms(1) Cons.prems patch] vs patch Cons.prems show ?thesis
      by (auto simp: clearStoredVersion_def Let_def)
  qed
  with Cons.IH show ?case by (auto simp: thenDo_def)
qed simp

lemma thenDo_answers:
  assumes "\<exists>w1. a w = (w1, None) \<and> up (mg_Server w1)" and "\<And>w1. up (mg_Server w1) \<Longrightarrow> \<exists>w'. b w1 = (w', None)"
  shows "\<exists>w'. thenDo f a b w = (w', None)"
  using assms by (fastforce simp: thenDo_def)

lemma migratePipelinesIfNeeded_answers:
  assumes "answers c up" and "up (mg_Server w)"
  shows "snd (migratePipelinesIfNeeded c w) = None"
proof -
  note step = migrateObjects_answers [OF assms(1)]
  from anyNeedsMigration_answers [OF assms] obtain w0 b where
    w0: "anyNeedsMigration c allCRDs False w = (w0, Inr b)" "up (mg_Server w0)" by blast
  let ?rest = "thenDo (failed ''failed to migrate LogPipelines'') (migrateObjects c logPipelineCRD ''LogPipeline'' ''LogPipelines'')
    (thenDo (failed ''failed to migrate MetricPipelines'')
      (migrateObjects c metricPipelineCRD ''MetricPipeline'' ''MetricPipelines'')
    (thenDo (failed ''failed to migrate TracePipelines'')
      (migrateObjects c tracePipelineCRD ''TracePipeline'' ''TracePipelines'')
    (thenDo (failed ''failed to migrate Telemetries'') (migrateObjects c telemetryCRD ''Telemetry'' ''Telemetries'')
    (clearEach c allCRDs))))"
  have "\<exists>w'. ?rest w0 = (w', None)"
    by (intro thenDo_answers [where up = up] step clearEach_answers [OF assms(1)] w0(2))
  then have "snd (?rest w0) = None" by auto
  then show ?thesis unfolding migratePipelinesIfNeeded_def w0(1) prod.case sum.case by simp
qed

text \<open>C10: the migration comes to an end.  If at some attempt the server answers, the loop of \<open>Start\<close> returns, no matter
  how the attempts before failed and what others did meanwhile, as long as they store no object in a version that its
  definition does not list; then, unless the context was cancelled, no definition
  lists the old version any more.\<close>

theorem migrator_start_returns:
  assumes "storage_api c key old versions" and "consistent old versions (mg_Server w)"
    and "\<forall>n s. consistent old versions s \<longrightarrow> consistent old versions (others n s)"
    and "answers c up" and "\<forall>s. up (others m s)"
  shows "\<exists>w'. Migrator_Start c others cancelled w = Some w' \<and> consistent old versions (mg_Server w') \<and>
    ((\<forall>crd\<in>set allCRDs. oldVersion \<notin> set (versions (mg_Server w') crd)) \<or> (\<exists>n. cancelled n))"
proof -
  let ?attempt = "\<lambda>n w. migratePipelinesIfNeeded c (w\<lparr>mg_Server := others n (mg_Server w)\<rparr>)"
  let ?clean = "\<lambda>w. \<forall>crd\<in>set allCRDs. oldVersion \<notin> set (versions (mg_Server w) crd)"
  have "snd (?attempt m v) = None" for v
    by (rule migratePipelinesIfNeeded_answers [OF assms(4)]) (simp add: assms(5))
  from retry_returns [of 0 m ?attempt, OF _ this] obtain w' where run: "retry ?attempt cancelled 0 w = Some w'" by blast
  have "consistent old versions (mg_Server w') \<and> (?clean w' \<or> (\<exists>n. cancelled n))"
  proof (rule retry_result [where P = "\<lambda>v. consistent old versions (mg_Server v)" and Q = ?clean, OF run])
    fix k v v' err
    assume "consistent old versions (mg_Server v)" and "?attempt k v = (v', err)"
    with assms(3) show "consistent old versions (mg_Server v') \<and> (err = None \<longrightarrow> ?clean v')"
      by (intro safe_fromD [OF storage_api.migratePipelinesIfNeeded_safe [OF assms(1)]]) auto
  qed (rule assms(2))
  with run show ?thesis unfolding Migrator_Start_def by blast
qed

subsection \<open>A server in memory\<close>

text \<open>The stored objects (definition, name, version), the stored versions of the definitions, and whether the server
  answers.\<close>

type_synonym mem_storage = "(string \<times> string \<times> string) list \<times> (string \<Rightarrow> string list) \<times> bool"

definition rewritten :: "string \<Rightarrow> string \<Rightarrow> string \<times> string \<times> string \<Rightarrow> string \<times> string \<times> string" where
  "rewritten crd name = (\<lambda>(crd', name', v). if crd' = crd \<and> name' = name then (crd', name', ''v1beta1'') else (crd', name', v))"

definition mem_migrator :: "(mem_storage, string) migrator_client" where
  "mem_migrator =
     (let down = \<lparr>ke_Reason = ReasonConflict, ke_Message = ''down''\<rparr>
      in \<lparr>mc_GetCRD = (\<lambda>crd (objs, vs, up). if up then Inr (vs crd) else Inl down),
          mc_List = (\<lambda>crd (objs, vs, up).
            if up then Inr (map (fst \<circ> snd) (filter (\<lambda>(crd', n, v). crd' = crd) objs)) else Inl down),
          mc_Update = (\<lambda>crd name (objs, vs, up).
            if up then ((map (rewritten crd name) objs, vs, up), None) else ((objs, vs, up), Some down)),
          mc_PatchStoredVersions = (\<lambda>crd new (objs, vs, up).
            if up then ((objs, vs(crd := new), up), None) else ((objs, vs, up), Some down)),
          mc_Name = id\<rparr>)"

definition mem_old :: "mem_storage \<Rightarrow> string \<Rightarrow> string \<Rightarrow> bool" where
  "mem_old s crd name \<longleftrightarrow> (crd, name, oldVersion) \<in> set (fst s)"

lemma old_not_new: "oldVersion \<noteq> ''v1beta1''"
  by (simp add: oldVersion_def)

lemma rewritten_old: "rewritten crd name x = (crd', n, oldVersion) \<longleftrightarrow> x = (crd', n, oldVersion) \<and> \<not> (crd' = crd \<and> n = name)"
  using old_not_new by (auto simp: rewritten_def split: prod.splits if_splits)

lemma mem_old_rewritten:
  "mem_old (map (rewritten crd name) objs, vs, up) crd' n \<longleftrightarrow> mem_old (objs, vs, up) crd' n \<and> \<not> (crd' = crd \<and> n = name)"
proof -
  have "(crd', n, oldVersion) \<in> set (map (rewritten crd name) objs) \<longleftrightarrow>
      (\<exists>x\<in>set objs. rewritten crd name x = (crd', n, oldVersion))" by (auto simp: image_iff eq_commute)
  then show ?thesis unfolding mem_old_def fst_conv rewritten_old by blast
qed

lemma mem_old_objs [simp]: "mem_old (objs, vs, up) = mem_old (objs, vs', up')"
  by (simp add: mem_old_def fun_eq_iff)

interpretation mem_storage: storage_api mem_migrator id mem_old "\<lambda>s. fst (snd s)"
proof
  show "mc_GetCRD mem_migrator crd s = Inr vs \<Longrightarrow> fst (snd s) crd = vs" for crd s vs
    by (auto simp: mem_migrator_def Let_def split: prod.splits if_splits)
  show "mc_List mem_migrator crd s = Inr items \<Longrightarrow> mem_old s crd k \<Longrightarrow> k \<in> id ` set items" for crd s items k
    by (force simp: mem_migrator_def mem_old_def Let_def split: prod.splits if_splits)
  show "(\<forall>crd' k. mem_old s' crd' k \<longrightarrow> mem_old s crd' k) \<and> fst (snd s') = fst (snd s) \<and>
      ((case err of None \<Rightarrow> True | Some e \<Rightarrow> IsNotFound e) \<longrightarrow> \<not> mem_old s' crd (id item))"
    if "mc_Update mem_migrator crd item s = (s', err)" for crd item s s' err
    using that by (cases s) (auto simp: mem_migrator_def Let_def mem_old_rewritten IsNotFound_def split: if_splits)
  show "(\<forall>crd' k. mem_old s' crd' k \<longrightarrow> mem_old s crd' k) \<and>
      (fst (snd s') = fst (snd s) \<and> err \<noteq> None \<or> fst (snd s') = (fst (snd s))(crd := vs))"
    if "mc_PatchStoredVersions mem_migrator crd vs s = (s', err)" for crd vs s s' err
    using that by (cases s) (auto simp: mem_migrator_def Let_def mem_old_def split: if_splits)
qed

text \<open>A trace pipeline in the old version; the server answers from the second attempt on.\<close>

abbreviation sampleStorage :: "bool \<Rightarrow> mem_storage" where
  "sampleStorage up \<equiv> ([(tracePipelineCRD, ''p'', oldVersion)], \<lambda>_. [oldVersion, ''v1beta1''], up)"

abbreviation sampleMigration :: "bool \<Rightarrow> mem_storage migration" where
  "sampleMigration up \<equiv> \<lparr>mg_Server = sampleStorage up, mg_Info = Map.empty\<rparr>"

lemma sampleStorage_consistent: "consistent mem_old (\<lambda>s. fst (snd s)) (sampleStorage up)"
  by (simp add: consistent_def mem_old_def)

lemma mem_answers: "answers mem_migrator (\<lambda>s. snd (snd s))"
  by (auto simp: answers_def mem_migrator_def Let_def split: prod.splits)

theorem storage_migration_safe_witness:
  "\<exists>w'. migratePipelinesIfNeeded mem_migrator (sampleMigration True) = (w', None) \<and>
     (\<forall>crd\<in>set allCRDs. oldVersion \<notin> set (fst (snd (mg_Server w')) crd))"
proof -
  have "snd (migratePipelinesIfNeeded mem_migrator (sampleMigration True)) = None"
    by (rule migratePipelinesIfNeeded_answers [OF mem_answers]) simp
  then obtain w' where run: "migratePipelinesIfNeeded mem_migrator (sampleMigration True) = (w', None)"
    by (metis prod.collapse)
  from storage_migration_safe [OF mem_storage.storage_api_axioms _ run] run show ?thesis
    by (auto simp: sampleStorage_consistent)
qed

theorem migrator_start_returns_witness:
  "\<exists>w'. Migrator_Start mem_migrator (\<lambda>n (objs, vs, up). (objs, vs, 1 \<le> n)) (\<lambda>_. False) (sampleMigration False) = Some w' \<and>
     (\<forall>crd\<in>set allCRDs. oldVersion \<notin> set (fst (snd (mg_Server w')) crd))"
proof -
  let ?others = "\<lambda>n::nat. \<lambda>(objs, vs, up). (objs, vs, 1 \<le> n)"
  have keep: "\<forall>n s. consistent mem_old (\<lambda>s. fst (snd s)) s \<longrightarrow> consistent mem_old (\<lambda>s. fst (snd s)) (?others n s)"
    by (auto simp: consistent_def mem_old_def split: prod.splits)
  have up: "\<forall>s. snd (snd (?others 1 s))" by (simp split: prod.splits)
  have start: "consistent mem_old (\<lambda>s. fst (snd s)) (mg_Server (sampleMigration False))"
    using sampleStorage_consistent by simp
  from migrator_start_returns [OF mem_storage.storage_api_axioms start keep mem_answers up,
      of "\<lambda>_. False"] show ?thesis by auto
qed

end
