(* ===== verification/WebhookCert.thy ===== *)
theory WebhookCert
  imports StartupTasks TLSCertValidator
begin

text \<open>
  \<open>internal/webhookcert\<close>: the certificates of the admission and conversion webhooks.  A certificate authority is kept
  in a Secret and a server certificate in two files; both are checked on every reconciliation of the Telemetry
  resource and generated anew when they are missing, invalid or about to expire.  The authority is then written to the
  webhook configurations and the resource definitions, whose clients check the server with it.

  The cryptography and the file system are parameters.  Each kind of object has its own server state, as no write to
  one kind touches another; a run happens at one point in time.

  Shown: after a run without error the server certificate verifies against the authority that all configurations
  carry, and neither is about to expire, unless an authority that cannot sign was in the Secret.  A certificate is not checked against its key: a save that fails halfway
  leaves a pair of files that does not match and that later runs accept.
\<close>

section \<open>Parameters\<close>

text \<open>The fields of \<open>x509.Certificate\<close> that the package sets or reads; \<open>ce_Raw\<close> is the encoding of a parsed one.\<close>

record Certificate =
  ce_Raw :: string
  ce_SerialNumber :: int
  ce_Organization :: "string list"
  ce_CommonName :: string
  ce_NotBefore :: time
  ce_NotAfter :: time
  ce_KeyUsage :: "string list"
  ce_ExtKeyUsage :: "string list"
  ce_BasicConstraintsValid :: bool
  ce_IsCA :: bool
  ce_SignatureAlgorithm :: string
  ce_PublicKeyAlgorithm :: string
  ce_SubjectKeyId :: string
  ce_DNSNames :: "string list"

definition emptyCertificate :: Certificate where
  "emptyCertificate =
     \<lparr>ce_Raw = [], ce_SerialNumber = 0, ce_Organization = [], ce_CommonName = [], ce_NotBefore = 0, ce_NotAfter = 0,
      ce_KeyUsage = [], ce_ExtKeyUsage = [], ce_BasicConstraintsValid = False, ce_IsCA = False,
      ce_SignatureAlgorithm = [], ce_PublicKeyAlgorithm = [], ce_SubjectKeyId = [], ce_DNSNames = []\<rparr>"

text \<open>The functions of \<open>encoding/pem\<close>, \<open>crypto/x509\<close>, \<open>crypto/rsa\<close>, \<open>crypto/rand\<close> and \<open>crypto/sha256\<close>.  A PEM block is
  its type and its bytes.  Functions that use the random source get the number of draws so far.\<close>

record 'k webhook_crypto =
  wc_Decode :: "string \<Rightarrow> (string \<times> string) option"
  wc_Encode :: "string \<times> string \<Rightarrow> (string, string) result"
  wc_ParseCertificate :: "string \<Rightarrow> (string, Certificate) result"
  wc_ParsePKCS1PrivateKey :: "string \<Rightarrow> (string, 'k) result"
  wc_MarshalPKCS1PrivateKey :: "'k \<Rightarrow> string"
  wc_MarshalPKIXPublicKey :: "'k \<Rightarrow> (string, string) result"
  wc_Sum256 :: "string \<Rightarrow> string"
  wc_BitLen :: "'k \<Rightarrow> int"
  wc_GenerateKey :: "nat \<Rightarrow> int \<Rightarrow> (string, 'k) result"
  wc_RandInt :: "nat \<Rightarrow> int \<Rightarrow> (string, int) result"
  wc_CreateCertificate :: "nat \<Rightarrow> Certificate \<Rightarrow> Certificate \<Rightarrow> 'k \<Rightarrow> 'k \<Rightarrow> (string, string) result"
  wc_AppendCertsFromPEM :: "string \<Rightarrow> Certificate list option"
  wc_Verify :: "Certificate list \<Rightarrow> time \<Rightarrow> Certificate \<Rightarrow> (string, nat) result"

text \<open>\<open>os.ReadFile\<close> and \<open>os.WriteFile\<close>.\<close>

record 'f files =
  fi_Read :: "string \<Rightarrow> 'f \<Rightarrow> (string, string) result"
  fi_Write :: "string \<Rightarrow> string \<Rightarrow> 'f \<Rightarrow> 'f \<times> string option"

text \<open>The webhooks of a configuration and a resource definition, as far as the package writes them.\<close>

record webhook =
  wh_CABundle :: string
  wh_Rest :: string

record CustomResourceConversion =
  cv_Strategy :: string
  cv_ServiceNamespace :: string
  cv_ServiceName :: string
  cv_Path :: string
  cv_Port :: int
  cv_CABundle :: string
  cv_ConversionReviewVersions :: "string list"

record CRDSpec =
  crd_Conversion :: "CustomResourceConversion option"
  crd_Rest :: string

type_synonym secret_data = "string \<rightharpoonup> string"

record ('a, 'b, 'd, 'e, 'f, 'k) cert_env =
  en_Crypto :: "'k webhook_crypto"
  en_Files :: "'f files"
  en_Secrets :: "('a, secret_data) object_client"
  en_DeepEqual :: "secret_data object \<Rightarrow> secret_data object \<Rightarrow> bool"
  en_Validating :: "('b, webhook list) object_client"
  en_Mutating :: "('d, webhook list) object_client"
  en_CRDs :: "('e, CRDSpec) object_client"
  en_Now :: time

record ('a, 'b, 'd, 'e, 'f) cert_world =
  cw_Secrets :: 'a
  cw_Validating :: 'b
  cw_Mutating :: 'd
  cw_CRDs :: 'e
  cw_Files :: 'f
  cw_Draws :: nat

record WebhookCertConfig =
  wcf_rsaKeySize :: int
  wcf_CertDir :: string
  wcf_ServiceName :: NamespacedName
  wcf_CASecretName :: NamespacedName
  wcf_ValidatingWebhookName :: NamespacedName
  wcf_MutatingWebhookName :: NamespacedName

abbreviation hour :: int where "hour \<equiv> 60 * 60 * 1000000000"
abbreviation day :: int where "day \<equiv> 24 * (60 * 60 * 1000000000)"

section \<open>Encodings\<close>

abbreviation pemBlockTypeCert :: string where "pemBlockTypeCert \<equiv> ''CERTIFICATE''"
abbreviation pemBlockTypeKey :: string where "pemBlockTypeKey \<equiv> ''RSA PRIVATE KEY''"

definition encodeCertPEM :: "'k webhook_crypto \<Rightarrow> string \<Rightarrow> (go_error, string) result" where
  "encodeCertPEM cr certDER = map_sum NewError id (wc_Encode cr (pemBlockTypeCert, certDER))"

definition encodeKeyPEM :: "'k webhook_crypto \<Rightarrow> 'k \<Rightarrow> (go_error, string) result" where
  "encodeKeyPEM cr key = map_sum NewError id (wc_Encode cr (pemBlockTypeKey, wc_MarshalPKCS1PrivateKey cr key))"

definition parseCertPEM :: "'k webhook_crypto \<Rightarrow> string \<Rightarrow> (go_error, Certificate) result" where
  "parseCertPEM cr certPEM =
     (case wc_Decode cr certPEM of
        None \<Rightarrow> Inl (NewError ''not a cert'')
      | Some (ty, bytes) \<Rightarrow>
          if ty \<noteq> pemBlockTypeCert then Inl (NewError ''not a cert'')
          else map_sum NewError id (wc_ParseCertificate cr bytes))"

definition parseKeyPEM :: "'k webhook_crypto \<Rightarrow> string \<Rightarrow> (go_error, 'k) result" where
  "parseKeyPEM cr keyPEM =
     (case wc_Decode cr keyPEM of
        None \<Rightarrow> Inl (NewError ''not a private key'')
      | Some (ty, bytes) \<Rightarrow>
          if ty \<noteq> pemBlockTypeKey then Inl (NewError ''not a private key'')
          else map_sum NewError id (wc_ParsePKCS1PrivateKey cr bytes))"

section \<open>Checks\<close>

definition checkExpiry :: "'k webhook_crypto \<Rightarrow> time \<Rightarrow> int \<Rightarrow> string \<Rightarrow> (go_error, bool) result" where
  "checkExpiry cr now softExpiryOffset certPEM =
     rbind (parseCertPEM cr certPEM) (\<lambda>cert. Inr (now < ce_NotAfter cert - softExpiryOffset))"

definition checkKeyLength :: "'k webhook_crypto \<Rightarrow> int \<Rightarrow> string \<Rightarrow> (go_error, bool) result" where
  "checkKeyLength cr expectedKeySize keyPEM =
     (case parseKeyPEM cr keyPEM of
        Inl e \<Rightarrow> Inl (failed ''failed to parse key PEM'' e)
      | Inr key \<Rightarrow> Inr (wc_BitLen cr key = expectedKeySize))"

definition checkRoot :: "'k webhook_crypto \<Rightarrow> time \<Rightarrow> string \<Rightarrow> string \<Rightarrow> (go_error, bool) result" where
  "checkRoot cr now serverCertPEM caCertPEM =
     (case wc_AppendCertsFromPEM cr caCertPEM of
        None \<Rightarrow> Inl (NewError ''failed to parse root certificate'')
      | Some roots \<Rightarrow>
          case parseCertPEM cr serverCertPEM of
            Inl e \<Rightarrow> Inl (failed ''failed to parse x509 cert'' e)
          | Inr serverCert \<Rightarrow>
              case wc_Verify cr roots now serverCert of
                Inl e \<Rightarrow> Inl (failed ''failed to verify x509 cert'' (NewError e))
              | Inr n \<Rightarrow> Inr (n > 0))"

section \<open>Generators\<close>

abbreviation defaultKeySize :: int where "defaultKeySize \<equiv> 4096"

text \<open>The generators return the number of draws from the random source as well.\<close>

definition caCertTemplate :: "time \<Rightarrow> string \<Rightarrow> Certificate" where
  "caCertTemplate now subjectKeyId =
     emptyCertificate\<lparr>ce_SerialNumber := 0, ce_Organization := [''kyma-project.io''],
       ce_NotBefore := now - hour, ce_NotAfter := now - hour + 365 * day,
       ce_KeyUsage := [''KeyEncipherment'', ''DigitalSignature'', ''CertSign''],
       ce_BasicConstraintsValid := True, ce_IsCA := True,
       ce_SignatureAlgorithm := ''SHA256WithRSA'', ce_PublicKeyAlgorithm := ''RSA'', ce_SubjectKeyId := subjectKeyId\<rparr>"

definition ca_generateCertInternal ::
    "'k webhook_crypto \<Rightarrow> time \<Rightarrow> int \<Rightarrow> nat \<Rightarrow> nat \<times> (go_error, Certificate \<times> 'k) result" where
  "ca_generateCertInternal cr now keySize d =
     (case wc_GenerateKey cr d (if keySize = 0 then defaultKeySize else keySize) of
        Inl e \<Rightarrow> (Suc d, Inl (failed ''failed to generateCert rsa private key'' (NewError e)))
      | Inr caKey \<Rightarrow>
          case wc_MarshalPKIXPublicKey cr caKey of
            Inl e \<Rightarrow> (Suc d, Inl (failed ''failed to marshal public key'' (NewError e)))
          | Inr publicKey \<Rightarrow>
              let template = caCertTemplate now (wc_Sum256 cr publicKey)
              in case wc_CreateCertificate cr (Suc d) template template caKey caKey of
                   Inl e \<Rightarrow> (Suc (Suc d), Inl (failed ''failed to create x509 cert'' (NewError e)))
                 | Inr certDERBytes \<Rightarrow>
                     case wc_ParseCertificate cr certDERBytes of
                       Inl e \<Rightarrow> (Suc (Suc d), Inl (failed ''failed to parse x509 cert'' (NewError e)))
                     | Inr caCert \<Rightarrow> (Suc (Suc d), Inr (caCert, caKey)))"

text \<open>Both generators end with the encoding of the certificate and the key.\<close>

definition encodePair :: "'k webhook_crypto \<Rightarrow> string \<Rightarrow> 'k \<Rightarrow> (go_error, string \<times> string) result" where
  "encodePair cr certDER key =
     (case encodeCertPEM cr certDER of
        Inl e \<Rightarrow> Inl (failed ''failed to pem encode cert'' e)
      | Inr certPEM \<Rightarrow>
          case encodeKeyPEM cr key of
            Inl e \<Rightarrow> Inl (failed ''failed to pem encode key'' e)
          | Inr keyPEM \<Rightarrow> Inr (certPEM, keyPEM))"

definition ca_generateCert ::
    "'k webhook_crypto \<Rightarrow> time \<Rightarrow> int \<Rightarrow> nat \<Rightarrow> nat \<times> (go_error, string \<times> string) result" where
  "ca_generateCert cr now keySize d =
     (case ca_generateCertInternal cr now keySize d of
        (d', Inl e) \<Rightarrow> (d', Inl e)
      | (d', Inr (caCert, caKey)) \<Rightarrow> (d', encodePair cr (ce_Raw caCert) caKey))"

record serverCertConfig =
  scc_host :: string
  scc_alternativeDNSNames :: "string list"
  scc_caCertPEM :: string
  scc_caKeyPEM :: string

definition serverCertTemplate :: "time \<Rightarrow> int \<Rightarrow> string \<Rightarrow> string list \<Rightarrow> Certificate" where
  "serverCertTemplate now serial host alternativeDNSNames =
     emptyCertificate\<lparr>ce_SerialNumber := serial, ce_CommonName := host @ ''@'' @ Itoa (nat (now div 1000000000)),
       ce_NotBefore := now - hour, ce_NotAfter := now - hour + 7 * day,
       ce_KeyUsage := [''KeyEncipherment'', ''DigitalSignature''], ce_ExtKeyUsage := [''ServerAuth''],
       ce_BasicConstraintsValid := True, ce_DNSNames := host # alternativeDNSNames\<rparr>"

definition server_generateCertInternal ::
    "'k webhook_crypto \<Rightarrow> time \<Rightarrow> int \<Rightarrow> string \<Rightarrow> string list \<Rightarrow> Certificate \<Rightarrow> 'k \<Rightarrow> nat \<Rightarrow>
      nat \<times> (go_error, string \<times> string) result" where
  "server_generateCertInternal cr now keySize host alternativeDNSNames caCert caKey d =
     (case wc_RandInt cr d (2 ^ 63 - 1 - 1) of
        Inl e \<Rightarrow> (Suc d, Inl (failed ''failed to generateCert serial number'' (NewError e)))
      | Inr serial \<Rightarrow>
          case wc_GenerateKey cr (Suc d) (if keySize = 0 then defaultKeySize else keySize) of
            Inl e \<Rightarrow> (Suc (Suc d), Inl (failed ''failed to generateCert rsa private key'' (NewError e)))
          | Inr key \<Rightarrow>
              case wc_CreateCertificate cr (Suc (Suc d)) (serverCertTemplate now serial host alternativeDNSNames)
                     caCert key caKey of
                Inl e \<Rightarrow> (Suc (Suc (Suc d)), Inl (failed ''failed to create x509 cert'' (NewError e)))
              | Inr certBytes \<Rightarrow> (Suc (Suc (Suc d)), encodePair cr certBytes key))"

definition server_generateCert ::
    "'k webhook_crypto \<Rightarrow> time \<Rightarrow> int \<Rightarrow> serverCertConfig \<Rightarrow> nat \<Rightarrow> nat \<times> (go_error, string \<times> string) result" where
  "server_generateCert cr now keySize config d =
     (case parseCertPEM cr (scc_caCertPEM config) of
        Inl e \<Rightarrow> (d, Inl (failed ''failed to parse ca cert'' e))
      | Inr caCert \<Rightarrow>
          case parseKeyPEM cr (scc_caKeyPEM config) of
            Inl e \<Rightarrow> (d, Inl (failed ''failed to parse ca key'' e))
          | Inr caKey \<Rightarrow>
              server_generateCertInternal cr now keySize (scc_host config) (scc_alternativeDNSNames config) caCert caKey d)"

section \<open>The certificate authority\<close>

abbreviation caCertFile :: string where "caCertFile \<equiv> ''ca.crt''"
abbreviation caKeyFile :: string where "caKeyFile \<equiv> ''ca.key''"

definition makeCASecret :: "string \<Rightarrow> string \<Rightarrow> NamespacedName \<Rightarrow> secret_data object" where
  "makeCASecret certificate key name =
     \<lparr>ob_ObjectMeta = zeroObjectMeta\<lparr>om_Name := nn_Name name, om_Namespace := nn_Namespace name\<rparr>,
      ob_Rest = [caCertFile \<mapsto> certificate, caKeyFile \<mapsto> key]\<rparr>"

definition fetchCACertAndKey :: "secret_data \<Rightarrow> (go_error, string \<times> string) result" where
  "fetchCACertAndKey data =
     (case data caCertFile of
        None \<Rightarrow> Inl (NewError (''ca cert not found: '' @ caCertFile))
      | Some caCertPEM \<Rightarrow>
          case data caKeyFile of
            None \<Rightarrow> Inl (NewError (''ca key not found: '' @ caKeyFile))
          | Some caKeyPEM \<Rightarrow> Inr (caCertPEM, caKeyPEM))"

definition checkCASecret :: "'k webhook_crypto \<Rightarrow> time \<Rightarrow> int \<Rightarrow> secret_data object \<Rightarrow> bool" where
  "checkCASecret cr now keySize caSecret =
     (case fetchCACertAndKey (ob_Rest caSecret) of
        Inl e \<Rightarrow> False
      | Inr (caCertPEM, caKeyPEM) \<Rightarrow>
          checkExpiry cr now (30 * day) caCertPEM = Inr True \<and> checkKeyLength cr keySize caKeyPEM = Inr True)"

definition ca_provideCert ::
    "('a, 'b, 'd, 'e, 'f, 'k) cert_env \<Rightarrow> int \<Rightarrow> NamespacedName \<Rightarrow> ('a, 'b, 'd, 'e, 'f) cert_world \<Rightarrow>
      ('a, 'b, 'd, 'e, 'f) cert_world \<times> (go_error, string \<times> string) result" where
  "ca_provideCert en keySize caSecretName w =
     (let createNew =
        (case ca_generateCert (en_Crypto en) (en_Now en) keySize (cw_Draws w) of
           (d', Inl e) \<Rightarrow> (w\<lparr>cw_Draws := d'\<rparr>, Inl (failed ''failed to generateCert ca cert'' e))
         | (d', Inr (caCertPEM, caKeyPEM)) \<Rightarrow>
             case CreateOrUpdate (en_DeepEqual en) (en_Secrets en) (makeCASecret caCertPEM caKeyPEM caSecretName)
                    (cw_Secrets w) of
               (s', Some e) \<Rightarrow>
                 (w\<lparr>cw_Draws := d', cw_Secrets := s'\<rparr>, Inl (failed ''failed to create ca cert caSecretName'' e))
             | (s', None) \<Rightarrow> (w\<lparr>cw_Draws := d', cw_Secrets := s'\<rparr>, Inr (caCertPEM, caKeyPEM)))
      in case oc_Get (en_Secrets en) caSecretName (cw_Secrets w) of
           Inl e \<Rightarrow>
             if \<not> IsNotFound e then (w, Inl (failed ''failed to find ca cert caSecretName'' (KubeError e))) else createNew
         | Inr caSecret \<Rightarrow>
             if \<not> checkCASecret (en_Crypto en) (en_Now en) keySize caSecret then createNew
             else (w, Inr (deref (ob_Rest caSecret caCertFile) [], deref (ob_Rest caSecret caKeyFile) [])))"

section \<open>The server certificate\<close>

text \<open>\<open>path.Join\<close> of a directory and a file name: the elements are joined by a slash and cleaned.\<close>

fun splitSlash :: "string \<Rightarrow> string list" where
  "splitSlash [] = [[]]"
| "splitSlash (c # s) =
     (if c = CHR ''/'' then [] # splitSlash s else (c # hd (splitSlash s)) # tl (splitSlash s))"

text \<open>The elements seen so far, last one first.\<close>

definition cleanElement :: "bool \<Rightarrow> string list \<Rightarrow> string \<Rightarrow> string list" where
  "cleanElement rooted seen e =
     (if e = [] \<or> e = ''.'' then seen
      else if e = ''..''
      then if seen \<noteq> [] \<and> hd seen \<noteq> ''..'' then tl seen else if rooted then seen else e # seen
      else e # seen)"

definition path_Clean :: "string \<Rightarrow> string" where
  "path_Clean s =
     (let rooted = (s \<noteq> [] \<and> hd s = CHR ''/'');
          body = Join (rev (foldl (cleanElement rooted) [] (splitSlash s))) ''/''
      in if rooted then ''/'' @ body else if body = [] then ''.'' else body)"

definition path_Join :: "string \<Rightarrow> string \<Rightarrow> string" where
  "path_Join dir file = path_Clean (if dir = [] then file else dir @ ''/'' @ file)"

definition certFilePath :: "string \<Rightarrow> string" where
  "certFilePath certDir = path_Join certDir ''tls.crt''"

definition keyFilePath :: "string \<Rightarrow> string" where
  "keyFilePath certDir = path_Join certDir ''tls.key''"

definition storage_load :: "'f files \<Rightarrow> string \<Rightarrow> 'f \<Rightarrow> (go_error, string \<times> string) result" where
  "storage_load fi certDir fs =
     (case fi_Read fi (certFilePath certDir) fs of
        Inl e \<Rightarrow> Inl (failed ''failed to load cert'' (NewError e))
      | Inr certPEM \<Rightarrow>
          case fi_Read fi (keyFilePath certDir) fs of
            Inl e \<Rightarrow> Inl (failed ''failed to load key'' (NewError e))
          | Inr keyPEM \<Rightarrow> Inr (certPEM, keyPEM))"

definition storage_save :: "'f files \<Rightarrow> string \<Rightarrow> string \<Rightarrow> string \<Rightarrow> 'f step" where
  "storage_save fi certDir certPEM keyPEM fs =
     (case fi_Write fi (certFilePath certDir) certPEM fs of
        (fs', Some e) \<Rightarrow> (fs', Some (failed ''failed to save cert'' (NewError e)))
      | (fs', None) \<Rightarrow>
          case fi_Write fi (keyFilePath certDir) keyPEM fs' of
            (fs'', Some e) \<Rightarrow> (fs'', Some (failed ''failed to save key'' (NewError e)))
          | (fs'', None) \<Rightarrow> (fs'', None))"

definition checkServerCert :: "'k webhook_crypto \<Rightarrow> time \<Rightarrow> string \<Rightarrow> string \<Rightarrow> bool" where
  "checkServerCert cr now serverCertPEM caCertPEM \<longleftrightarrow>
     checkExpiry cr now day serverCertPEM = Inr True \<and> checkRoot cr now serverCertPEM caCertPEM = Inr True"

definition server_provideCert ::
    "('a, 'b, 'd, 'e, 'f, 'k) cert_env \<Rightarrow> string \<Rightarrow> int \<Rightarrow> serverCertConfig \<Rightarrow> ('a, 'b, 'd, 'e, 'f) cert_world \<Rightarrow>
      ('a, 'b, 'd, 'e, 'f) cert_world \<times> (go_error, string \<times> string) result" where
  "server_provideCert en certDir keySize config w =
     (let shouldCreateNew =
        (case storage_load (en_Files en) certDir (cw_Files w) of
           Inl e \<Rightarrow> True
         | Inr (serverCertPEM, serverKeyPEM) \<Rightarrow>
             serverCertPEM = [] \<or> serverKeyPEM = [] \<or>
             \<not> checkServerCert (en_Crypto en) (en_Now en) serverCertPEM (scc_caCertPEM config))
      in if shouldCreateNew
         then case server_generateCert (en_Crypto en) (en_Now en) keySize config (cw_Draws w) of
             (d', Inl e) \<Rightarrow> (w\<lparr>cw_Draws := d'\<rparr>, Inl (failed ''failed to generate cert'' e))
           | (d', Inr (serverCertPEM, serverKeyPEM)) \<Rightarrow>
               case storage_save (en_Files en) certDir serverCertPEM serverKeyPEM (cw_Files w) of
                 (fs', Some e) \<Rightarrow> (w\<lparr>cw_Draws := d', cw_Files := fs'\<rparr>, Inl (failed ''failed to save server cert'' e))
               | (fs', None) \<Rightarrow> (w\<lparr>cw_Draws := d', cw_Files := fs'\<rparr>, Inr (serverCertPEM, serverKeyPEM))
         else (w, storage_load (en_Files en) certDir (cw_Files w)))"

section \<open>The webhook configurations\<close>

definition withCABundle :: "string \<Rightarrow> webhook list object \<Rightarrow> webhook list object" where
  "withCABundle caBundle obj = obj\<lparr>ob_Rest := map (\<lambda>h. h\<lparr>wh_CABundle := caBundle\<rparr>) (ob_Rest obj)\<rparr>"

text \<open>Reading an object, changing it and updating it; \<open>what\<close> names the object in the error.\<close>

definition getAndUpdate ::
    "string \<Rightarrow> ('s, 'r) object_client \<Rightarrow> NamespacedName \<Rightarrow> ('r object \<Rightarrow> 'r object) \<Rightarrow> 's step" where
  "getAndUpdate what c name change s =
     (case oc_Get c name s of
        Inl e \<Rightarrow> (s, Some (failed (''failed to get '' @ what) (KubeError e)))
      | Inr obj \<Rightarrow> oc_Update c (change obj) s)"

definition updateValidatingWebhookConfig ::
    "('a, 'b, 'd, 'e, 'f, 'k) cert_env \<Rightarrow> string \<Rightarrow> WebhookCertConfig \<Rightarrow> ('a, 'b, 'd, 'e, 'f) cert_world step" where
  "updateValidatingWebhookConfig en caBundle config w =
     (let (s', err) = getAndUpdate ''validating webhook configuration'' (en_Validating en)
        (wcf_ValidatingWebhookName config) (withCABundle caBundle) (cw_Validating w)
      in (w\<lparr>cw_Validating := s'\<rparr>, err))"

definition updateMutatingWebhookConfig ::
    "('a, 'b, 'd, 'e, 'f, 'k) cert_env \<Rightarrow> string \<Rightarrow> WebhookCertConfig \<Rightarrow> ('a, 'b, 'd, 'e, 'f) cert_world step" where
  "updateMutatingWebhookConfig en caBundle config w =
     (let (s', err) = getAndUpdate ''mutating webhook'' (en_Mutating en)
        (wcf_MutatingWebhookName config) (withCABundle caBundle) (cw_Mutating w)
      in (w\<lparr>cw_Mutating := s'\<rparr>, err))"

definition makeConversionWebhookConfig :: "string \<Rightarrow> WebhookCertConfig \<Rightarrow> CustomResourceConversion" where
  "makeConversionWebhookConfig caBundle config =
     \<lparr>cv_Strategy = ''Webhook'', cv_ServiceNamespace = nn_Namespace (wcf_ServiceName config),
      cv_ServiceName = nn_Name (wcf_ServiceName config), cv_Path = ''/convert'', cv_Port = 443,
      cv_CABundle = caBundle, cv_ConversionReviewVersions = [''v1'']\<rparr>"

definition updatePipelineCRD ::
    "('a, 'b, 'd, 'e, 'f, 'k) cert_env \<Rightarrow> string \<Rightarrow> CustomResourceConversion \<Rightarrow> ('a, 'b, 'd, 'e, 'f) cert_world step" where
  "updatePipelineCRD en crdName conversion w =
     (let (s', err) = getAndUpdate (''CRD /'' @ crdName) (en_CRDs en) \<lparr>nn_Namespace = [], nn_Name = crdName\<rparr>
        (\<lambda>crd. crd\<lparr>ob_Rest := (ob_Rest crd)\<lparr>crd_Conversion := Some conversion\<rparr>\<rparr>) (cw_CRDs w)
      in (w\<lparr>cw_CRDs := s'\<rparr>, err))"

definition applyWebhookConfigResources ::
    "('a, 'b, 'd, 'e, 'f, 'k) cert_env \<Rightarrow> string \<Rightarrow> WebhookCertConfig \<Rightarrow> ('a, 'b, 'd, 'e, 'f) cert_world step" where
  "applyWebhookConfigResources en caBundle config =
     (let conversion = makeConversionWebhookConfig caBundle config
      in thenDo (failed ''failed to update validating webhook with CA bundle'')
           (updateValidatingWebhookConfig en caBundle config)
         (thenDo (failed ''failed to update mutating webhook with CA bundle'')
           (updateMutatingWebhookConfig en caBundle config)
         (thenDo (failed ''failed to update LogPipeline CRD with conversion webhook configuration'')
           (updatePipelineCRD en LogPipelineCRD conversion)
         (thenDo (failed ''failed to update MetricPipeline CRD with conversion webhook configuration'')
           (updatePipelineCRD en MetricPipelineCRD conversion) done_ok))))"

definition dnsNames :: "NamespacedName \<Rightarrow> string \<times> string list" where
  "dnsNames webhookService =
     (let host = nn_Name webhookService @ ''.'' @ nn_Namespace webhookService @ ''.svc''
      in (host, [nn_Name webhookService, nn_Name webhookService @ ''.'' @ nn_Namespace webhookService,
                 host @ ''.cluster.local'']))"

definition EnsureCertificate ::
    "('a, 'b, 'd, 'e, 'f, 'k) cert_env \<Rightarrow> WebhookCertConfig \<Rightarrow> ('a, 'b, 'd, 'e, 'f) cert_world step" where
  "EnsureCertificate en config w =
     (case ca_provideCert en (wcf_rsaKeySize config) (wcf_CASecretName config) w of
        (w1, Inl e) \<Rightarrow> (w1, Some (failed ''failed to provide ca cert/key'' e))
      | (w1, Inr (caCertPEM, caKeyPEM)) \<Rightarrow>
          let (host, alternativeDNSNames) = dnsNames (wcf_ServiceName config)
          in case server_provideCert en (wcf_CertDir config) (wcf_rsaKeySize config)
                    \<lparr>scc_host = host, scc_alternativeDNSNames = alternativeDNSNames,
                     scc_caCertPEM = caCertPEM, scc_caKeyPEM = caKeyPEM\<rparr> w1 of
               (w2, Inl e) \<Rightarrow> (w2, Some (failed ''failed to provide server cert/key'' e))
             | (w2, Inr pair) \<Rightarrow> applyWebhookConfigResources en caCertPEM config w2)"

section \<open>What is relied on\<close>

text \<open>PEM blocks are decoded to what was encoded; a certificate that was created can be parsed, has the template's
  fields with times in whole seconds, and verifies with its parent among the roots while both are valid, if the parent
  may sign certificates and the template is for servers; a parsed certificate is added to a pool.  \<open>CheckSignatureFrom\<close>
  and \<open>Verify\<close> demand of a parent that its basic constraints say that it is an authority, and that its key usage, if
  there is one, has the bit for signing certificates.\<close>

definition maySign :: "Certificate \<Rightarrow> bool" where
  "maySign cert \<longleftrightarrow> ce_BasicConstraintsValid cert \<and> ce_IsCA cert \<and>
     (ce_KeyUsage cert = [] \<or> ''CertSign'' \<in> set (ce_KeyUsage cert))"

definition lawful_pem :: "'k webhook_crypto \<Rightarrow> bool" where
  "lawful_pem cr \<longleftrightarrow> (\<forall>block pem. wc_Encode cr block = Inr pem \<longrightarrow> pem \<noteq> [] \<and> wc_Decode cr pem = Some block)"

definition verifies :: "'k webhook_crypto \<Rightarrow> Certificate \<Rightarrow> Certificate \<Rightarrow> bool" where
  "verifies cr parent cert \<longleftrightarrow> (\<forall>roots now. parent \<in> set roots \<and> ce_NotBefore parent \<le> now \<and> now < ce_NotAfter parent \<and>
     ce_NotBefore cert \<le> now \<and> now < ce_NotAfter cert \<longrightarrow> (\<exists>n>0. wc_Verify cr roots now cert = Inr n))"

definition lawful_signing :: "'k webhook_crypto \<Rightarrow> bool" where
  "lawful_signing cr \<longleftrightarrow>
     (\<forall>der cert. wc_ParseCertificate cr der = Inr cert \<longrightarrow> ce_Raw cert = der) \<and>
     (\<forall>d template parent pub priv der. wc_CreateCertificate cr d template parent pub priv = Inr der \<longrightarrow>
        (\<exists>cert. wc_ParseCertificate cr der = Inr cert \<and> ce_IsCA cert = ce_IsCA template \<and>
           ce_BasicConstraintsValid cert = ce_BasicConstraintsValid template \<and>
           set (ce_KeyUsage cert) = set (ce_KeyUsage template) \<and>
           ce_NotBefore cert \<le> ce_NotBefore template \<and> ce_NotAfter template - 1000000000 < ce_NotAfter cert \<and>
           (maySign parent \<and> ''ServerAuth'' \<in> set (ce_ExtKeyUsage template) \<longrightarrow> verifies cr parent cert)))"

definition lawful_pool :: "'k webhook_crypto \<Rightarrow> bool" where
  "lawful_pool cr \<longleftrightarrow> (\<forall>pem cert. parseCertPEM cr pem = Inr cert \<longrightarrow>
     (\<exists>roots. wc_AppendCertsFromPEM cr pem = Some roots \<and> cert \<in> set roots))"

definition lawful_crypto :: "'k webhook_crypto \<Rightarrow> bool" where
  "lawful_crypto cr \<longleftrightarrow> lawful_pem cr \<and> lawful_signing cr \<and> lawful_pool cr"

text \<open>A write changes no other file, and if it succeeds the file has the content.\<close>

definition lawful_files :: "'f files \<Rightarrow> bool" where
  "lawful_files fi \<longleftrightarrow> (\<forall>p x fs fs' err. fi_Write fi p x fs = (fs', err) \<longrightarrow>
     (\<forall>q. q \<noteq> p \<longrightarrow> fi_Read fi q fs' = fi_Read fi q fs) \<and> (err = None \<longrightarrow> fi_Read fi p fs' = Inr x))"

section \<open>The certificates fit\<close>

lemma splitSlash_append: "CHR ''/'' \<notin> set f \<Longrightarrow> splitSlash (a @ CHR ''/'' # f) = splitSlash a @ [f]"
proof (induction a)
  case Nil
  then have "splitSlash f = [f]" by (induction f) auto
  then show ?case by simp
next
  case (Cons c a)
  have "splitSlash a \<noteq> []" by (cases a) auto
  with Cons show ?case by simp
qed

lemma splitSlash_single: "CHR ''/'' \<notin> set f \<Longrightarrow> splitSlash f = [f]"
  by (induction f) auto

lemma Join_snoc: "\<exists>pre. Join (xs @ [f]) sep = pre @ f"
proof (induction xs)
  case (Cons x xs)
  then obtain pre where "Join (xs @ [f]) sep = pre @ f" by blast
  then have "Join ((x # xs) @ [f]) sep = (x @ sep @ pre) @ f" by (cases "xs @ [f]") auto
  then show ?case by blast
qed simp

lemma path_Join_suffix:
  assumes "CHR ''/'' \<notin> set f" and "f \<noteq> []" and "f \<noteq> ''.''" and "f \<noteq> ''..''"
  shows "\<exists>pre. path_Join dir f = pre @ f"
proof -
  have last: "foldl (cleanElement r) acc (es @ [f]) = f # foldl (cleanElement r) acc es" for r acc es
    using assms(2-4) by (simp add: cleanElement_def)
  have "\<exists>es. splitSlash (if dir = [] then f else dir @ ''/'' @ f) = es @ [f]"
    using splitSlash_append [OF assms(1), of dir] splitSlash_single [OF assms(1)] by auto
  then obtain es where es: "splitSlash (if dir = [] then f else dir @ ''/'' @ f) = es @ [f]" by blast
  have body: "\<exists>pre. Join (rev (foldl (cleanElement r) [] (es @ [f]))) ''/'' = pre @ f" for r
    using Join_snoc [of "rev (foldl (cleanElement r) [] es)" f] unfolding last by simp
  have "\<exists>pre. (if r then ''/'' @ b else if b = [] then ''.'' else b) = pre @ f" if "\<exists>pre. b = pre @ f" for r b
  proof -
    from that obtain pre where b: "b = pre @ f" by blast
    then have "''/'' @ b = (''/'' @ pre) @ f" "b \<noteq> []" using assms(2) by simp_all
    with b show ?thesis by (cases r) auto
  qed
  from this [OF body] show ?thesis unfolding path_Join_def path_Clean_def Let_def es .
qed

lemma file_paths_differ: "certFilePath dir \<noteq> keyFilePath dir"
proof
  assume eq: "certFilePath dir = keyFilePath dir"
  have "\<exists>pre. certFilePath dir = pre @ ''tls.crt''" unfolding certFilePath_def by (rule path_Join_suffix) simp_all
  moreover have "\<exists>pre. keyFilePath dir = pre @ ''tls.key''" unfolding keyFilePath_def by (rule path_Join_suffix) simp_all
  ultimately obtain p q where "p @ ''tls.crt'' = q @ ''tls.key''" unfolding eq by auto
  then show False by (simp add: append_eq_append_conv)
qed

lemma lawful_encode: "lawful_crypto cr \<Longrightarrow> wc_Encode cr block = Inr pem \<Longrightarrow> pem \<noteq> [] \<and> wc_Decode cr pem = Some block"
  unfolding lawful_crypto_def lawful_pem_def by blast

lemma lawful_raw: "lawful_crypto cr \<Longrightarrow> wc_ParseCertificate cr der = Inr cert \<Longrightarrow> ce_Raw cert = der"
  by (simp add: lawful_crypto_def lawful_signing_def)

lemma lawful_append: "lawful_crypto cr \<Longrightarrow> parseCertPEM cr pem = Inr cert \<Longrightarrow>
    \<exists>roots. wc_AppendCertsFromPEM cr pem = Some roots \<and> cert \<in> set roots"
  by (simp add: lawful_crypto_def lawful_pool_def)

lemma lawful_create:
  assumes "lawful_crypto cr" and "wc_CreateCertificate cr d template parent pub priv = Inr der"
  shows "\<exists>cert. wc_ParseCertificate cr der = Inr cert \<and> ce_IsCA cert = ce_IsCA template \<and>
    ce_BasicConstraintsValid cert = ce_BasicConstraintsValid template \<and> set (ce_KeyUsage cert) = set (ce_KeyUsage template) \<and>
    ce_NotBefore cert \<le> ce_NotBefore template \<and> ce_NotAfter template - 1000000000 < ce_NotAfter cert \<and>
    (maySign parent \<and> ''ServerAuth'' \<in> set (ce_ExtKeyUsage template) \<longrightarrow> verifies cr parent cert)"
proof -
  from assms(1) have "lawful_signing cr" by (simp add: lawful_crypto_def)
  from this [unfolded lawful_signing_def, THEN conjunct2, rule_format, OF assms(2)] show ?thesis .
qed

lemma encodePair_Inr:
  assumes "lawful_crypto cr" and "encodePair cr der key = Inr (certPEM, keyPEM)" and "wc_ParseCertificate cr der = Inr cert"
  shows "certPEM \<noteq> [] \<and> keyPEM \<noteq> [] \<and> parseCertPEM cr certPEM = Inr cert"
proof -
  obtain a b where "wc_Encode cr (pemBlockTypeCert, der) = Inr a"
    "wc_Encode cr (pemBlockTypeKey, wc_MarshalPKCS1PrivateKey cr key) = Inr b"
    using assms(2) by (cases "wc_Encode cr (pemBlockTypeCert, der)";
      cases "wc_Encode cr (pemBlockTypeKey, wc_MarshalPKCS1PrivateKey cr key)")
      (simp_all add: encodePair_def encodeCertPEM_def encodeKeyPEM_def)
  with assms(2,3) lawful_encode [OF assms(1)] show ?thesis
    by (auto simp: encodePair_def encodeCertPEM_def encodeKeyPEM_def parseCertPEM_def)
qed

text \<open>An authority that may sign, is valid already, and is so for another 30 days.\<close>

definition goodCA :: "'k webhook_crypto \<Rightarrow> time \<Rightarrow> string \<Rightarrow> bool" where
  "goodCA cr now caPEM \<longleftrightarrow> (\<exists>cert. parseCertPEM cr caPEM = Inr cert \<and> maySign cert \<and> ce_NotBefore cert \<le> now \<and>
     now < ce_NotAfter cert - 30 * day)"

text \<open>A certificate, whatever it is for, that does not expire within the time given.\<close>

definition lasts :: "'k webhook_crypto \<Rightarrow> time \<Rightarrow> int \<Rightarrow> string \<Rightarrow> bool" where
  "lasts cr now offset pem \<longleftrightarrow> (\<exists>cert. parseCertPEM cr pem = Inr cert \<and> now < ce_NotAfter cert - offset)"

text \<open>A server certificate that the clients with this authority accept, today and tomorrow.\<close>

definition goodServer :: "'k webhook_crypto \<Rightarrow> time \<Rightarrow> string \<Rightarrow> string \<Rightarrow> bool" where
  "goodServer cr now caPEM certPEM \<longleftrightarrow> (\<exists>cert roots n. parseCertPEM cr certPEM = Inr cert \<and> now < ce_NotAfter cert - day \<and>
     wc_AppendCertsFromPEM cr caPEM = Some roots \<and> wc_Verify cr roots now cert = Inr n \<and> 0 < n)"

lemma ca_generateCert_good:
  assumes "lawful_crypto cr" and "ca_generateCert cr now keySize d = (d', Inr (caPEM, keyPEM))"
  shows "goodCA cr now caPEM"
proof -
  obtain caKey publicKey der cert where create:
      "wc_CreateCertificate cr (Suc d) (caCertTemplate now (wc_Sum256 cr publicKey))
         (caCertTemplate now (wc_Sum256 cr publicKey)) caKey caKey = Inr der"
    and parse: "wc_ParseCertificate cr der = Inr cert" and pair: "encodePair cr (ce_Raw cert) caKey = Inr (caPEM, keyPEM)"
    using assms(2) by (auto simp: ca_generateCert_def ca_generateCertInternal_def Let_def split: sum.splits prod.splits)
  from lawful_create [OF assms(1) create] parse obtain "maySign cert" "ce_NotBefore cert \<le> now"
    "now < ce_NotAfter cert - 30 * day"
    by (auto simp: caCertTemplate_def maySign_def)
  with encodePair_Inr [OF assms(1) pair] parse lawful_raw [OF assms(1) parse] show ?thesis
    by (auto simp: goodCA_def)
qed

lemma server_generateCert_good:
  assumes "lawful_crypto cr" and "server_generateCert cr now keySize config d = (d', Inr (certPEM, keyPEM))"
  shows "certPEM \<noteq> [] \<and> keyPEM \<noteq> [] \<and> lasts cr now day certPEM \<and>
    (goodCA cr now (scc_caCertPEM config) \<longrightarrow> goodServer cr now (scc_caCertPEM config) certPEM)"
proof -
  obtain ca caKey serial key der where ca: "parseCertPEM cr (scc_caCertPEM config) = Inr ca"
    and create: "wc_CreateCertificate cr (Suc (Suc d)) (serverCertTemplate now serial (scc_host config)
      (scc_alternativeDNSNames config)) ca key caKey = Inr der"
    and pair: "encodePair cr der key = Inr (certPEM, keyPEM)"
    using assms(2) by (auto simp: server_generateCert_def server_generateCertInternal_def split: sum.splits prod.splits)
  let ?t = "serverCertTemplate now serial (scc_host config) (scc_alternativeDNSNames config)"
  have t: "''ServerAuth'' \<in> set (ce_ExtKeyUsage ?t)" "ce_NotBefore ?t = now - hour" "ce_NotAfter ?t = now - hour + 7 * day"
    by (simp_all add: serverCertTemplate_def)
  from lawful_create [OF assms(1) create] t(1) obtain cert where parse: "wc_ParseCertificate cr der = Inr cert"
    and times: "ce_NotBefore cert \<le> ce_NotBefore ?t" "ce_NotAfter ?t - 1000000000 < ce_NotAfter cert"
    and verify: "maySign ca \<longrightarrow> verifies cr ca cert" by auto
  from times t(2,3) have valid: "now < ce_NotAfter cert - day" "ce_NotBefore cert \<le> now" "now < ce_NotAfter cert" by linarith+
  have encoded: "certPEM \<noteq> []" "keyPEM \<noteq> []" "parseCertPEM cr certPEM = Inr cert"
    using encodePair_Inr [OF assms(1) pair parse] by simp_all
  have "goodServer cr now (scc_caCertPEM config) certPEM" if "goodCA cr now (scc_caCertPEM config)"
  proof -
    from that ca have "maySign ca" "ce_NotBefore ca \<le> now" "now < ce_NotAfter ca" by (auto simp: goodCA_def)
    moreover from lawful_append [OF assms(1) ca] obtain roots where
      roots: "wc_AppendCertsFromPEM cr (scc_caCertPEM config) = Some roots" "ca \<in> set roots" by blast
    ultimately obtain n where "wc_Verify cr roots now cert = Inr n" "0 < n" using verify valid(2,3) unfolding verifies_def by blast
    with roots(1) valid(1) encoded(3) show ?thesis by (auto simp: goodServer_def)
  qed
  with encoded valid(1) show ?thesis by (auto simp: lasts_def)
qed

lemma checkExpiry_True: "checkExpiry cr now offset pem = Inr True \<longleftrightarrow>
    (\<exists>cert. parseCertPEM cr pem = Inr cert \<and> now < ce_NotAfter cert - offset)"
  by (cases "parseCertPEM cr pem") (auto simp: checkExpiry_def)

lemma checkServerCert_good: "checkServerCert cr now certPEM caPEM \<longleftrightarrow> goodServer cr now caPEM certPEM"
  unfolding checkServerCert_def checkExpiry_True goodServer_def checkRoot_def
  by (auto split: option.splits sum.splits)

text \<open>The authority was in the Secret before, and the run kept it: only its expiry and the length of its key were
  checked.\<close>

definition keptCA :: "'k webhook_crypto \<Rightarrow> time \<Rightarrow> int \<Rightarrow> secret_data object option \<Rightarrow> string \<Rightarrow> bool" where
  "keptCA cr now keySize secret caPEM \<longleftrightarrow>
     (\<exists>obj. secret = Some obj \<and> checkCASecret cr now keySize obj \<and> ob_Rest obj caCertFile = Some caPEM)"

lemma goodServer_lasts: "goodServer cr now caPEM certPEM \<Longrightarrow> lasts cr now day certPEM"
  by (auto simp: goodServer_def lasts_def)

lemma goodCA_lasts: "goodCA cr now caPEM \<Longrightarrow> lasts cr now (30 * day) caPEM"
  by (auto simp: goodCA_def lasts_def)

lemma keptCA_lasts: "keptCA cr now keySize secret caPEM \<Longrightarrow> lasts cr now (30 * day) caPEM"
  by (auto simp: keptCA_def lasts_def checkCASecret_def fetchCACertAndKey_def checkExpiry_True split: option.splits)

lemma ca_provideCert_good:
  assumes "lawful_crypto (en_Crypto en)" and "object_api (en_Secrets en) store Inr"
    and "\<forall>a b. en_DeepEqual en a b \<longrightarrow> om_UID (ob_ObjectMeta a) = om_UID (ob_ObjectMeta b)"
    and run: "ca_provideCert en keySize name w = (w', Inr (caPEM, keyPEM))"
  shows "(goodCA (en_Crypto en) (en_Now en) caPEM \<or>
      keptCA (en_Crypto en) (en_Now en) keySize (store (cw_Secrets w) name) caPEM) \<and> cw_Files w' = cw_Files w \<and> cw_Validating w' = cw_Validating w \<and>
    cw_Mutating w' = cw_Mutating w \<and> cw_CRDs w' = cw_CRDs w \<and>
    (\<exists>obj. store (cw_Secrets w') name = Some obj \<and> ob_Rest obj caCertFile = Some caPEM)"
proof (cases "\<exists>obj. oc_Get (en_Secrets en) name (cw_Secrets w) = Inr obj \<and> checkCASecret (en_Crypto en) (en_Now en) keySize obj")
  case True
  then obtain obj where obj: "oc_Get (en_Secrets en) name (cw_Secrets w) = Inr obj"
    "checkCASecret (en_Crypto en) (en_Now en) keySize obj" by blast
  from object_api.get_found [OF assms(2) obj(1)] have stored: "store (cw_Secrets w) name = Some obj" .
  from obj(2) obtain pem where "ob_Rest obj caCertFile = Some pem"
    by (auto simp: checkCASecret_def fetchCACertAndKey_def split: option.splits)
  with run obj stored show ?thesis by (auto simp: ca_provideCert_def keptCA_def)
next
  case False
  let ?secret = "makeCASecret caPEM keyPEM name"
  obtain d' s' where gen: "ca_generateCert (en_Crypto en) (en_Now en) keySize (cw_Draws w) = (d', Inr (caPEM, keyPEM))"
    and put: "CreateOrUpdate (en_DeepEqual en) (en_Secrets en) ?secret (cw_Secrets w) = (s', None)"
    and w': "w' = w\<lparr>cw_Draws := d', cw_Secrets := s'\<rparr>"
    using run False
    by (auto simp: ca_provideCert_def Let_def split: sum.splits prod.splits if_splits option.splits)
  have key: "ob_key ?secret = name" by (simp add: ob_key_def makeCASecret_def)
  have "\<exists>sent obj. (Inr (mergedInto (store (cw_Secrets w) (ob_key ?secret)) ?secret) :: (go_error, secret_data object) result) = Inr sent \<and> stored_as sent obj \<and>
      store s' = (store (cw_Secrets w))(ob_key ?secret \<mapsto> obj)"
    unfolding mergedInto_def
  proof (rule object_api.createOrUpdate_applied [OF assms(2) put [unfolded CreateOrUpdate_def]])
    fix e
    assume "store (cw_Secrets w) (ob_key ?secret) = Some e"
    from object_api.stored_UID [OF assms(2) this] show "\<not> en_DeepEqual en e (mergeObject ?secret e)"
      using assms(3) by (force simp: makeCASecret_def zeroObjectMeta_def)
  qed simp_all
  then obtain obj where "store s' name = Some obj" "ob_Rest obj = ob_Rest ?secret"
    by (auto simp: key stored_as_def)
  moreover have "goodCA (en_Crypto en) (en_Now en) caPEM" by (rule ca_generateCert_good [OF assms(1) gen])
  ultimately show ?thesis by (auto simp: w' makeCASecret_def)
qed

lemma storage_save_reads:
  assumes "lawful_files fi" and "storage_save fi dir certPEM keyPEM fs = (fs', None)"
  shows "storage_load fi dir fs' = Inr (certPEM, keyPEM)"
proof -
  obtain fs1 where w1: "fi_Write fi (certFilePath dir) certPEM fs = (fs1, None)"
    and w2: "fi_Write fi (keyFilePath dir) keyPEM fs1 = (fs', None)"
    using assms(2) by (auto simp: storage_save_def split: prod.splits option.splits)
  from assms(1) w1 have "fi_Read fi (certFilePath dir) fs1 = Inr certPEM" unfolding lawful_files_def by blast
  moreover from assms(1) w2 file_paths_differ have "fi_Read fi (certFilePath dir) fs' = fi_Read fi (certFilePath dir) fs1"
    unfolding lawful_files_def by metis
  moreover from assms(1) w2 have "fi_Read fi (keyFilePath dir) fs' = Inr keyPEM" unfolding lawful_files_def by blast
  ultimately show ?thesis by (simp add: storage_load_def)
qed

lemma server_provideCert_good:
  assumes "lawful_crypto (en_Crypto en)" and "lawful_files (en_Files en)"
    and run: "server_provideCert en dir keySize config w = (w', Inr (certPEM, keyPEM))"
  shows "storage_load (en_Files en) dir (cw_Files w') = Inr (certPEM, keyPEM) \<and> lasts (en_Crypto en) (en_Now en) day certPEM \<and>
    (goodCA (en_Crypto en) (en_Now en) (scc_caCertPEM config) \<longrightarrow>
       goodServer (en_Crypto en) (en_Now en) (scc_caCertPEM config) certPEM) \<and>
    (\<exists>d fs. w' = w\<lparr>cw_Draws := d, cw_Files := fs\<rparr>)"
proof (cases "\<exists>c k. storage_load (en_Files en) dir (cw_Files w) = Inr (c, k) \<and> c \<noteq> [] \<and> k \<noteq> [] \<and>
    checkServerCert (en_Crypto en) (en_Now en) c (scc_caCertPEM config)")
  case True
  with run have "w' = w" "storage_load (en_Files en) dir (cw_Files w) = Inr (certPEM, keyPEM)"
    "checkServerCert (en_Crypto en) (en_Now en) certPEM (scc_caCertPEM config)" by (auto simp: server_provideCert_def)
  then show ?thesis
    by (auto simp: checkServerCert_good dest: goodServer_lasts intro!: exI [of _ "cw_Draws w"] exI [of _ "cw_Files w"])
next
  case False
  then obtain d' fs' where
    gen: "server_generateCert (en_Crypto en) (en_Now en) keySize config (cw_Draws w) = (d', Inr (certPEM, keyPEM))"
    and save: "storage_save (en_Files en) dir certPEM keyPEM (cw_Files w) = (fs', None)"
    and w': "w' = w\<lparr>cw_Draws := d', cw_Files := fs'\<rparr>"
    using run by (auto simp: server_provideCert_def Let_def split: sum.splits prod.splits if_splits option.splits)
  from storage_save_reads [OF assms(2) save] server_generateCert_good [OF assms(1) gen] show ?thesis
    unfolding w' by auto
qed

lemma getAndUpdate_law:
  assumes "object_api c store Inr" and "getAndUpdate what c name change s = (s', None)"
    and "\<And>obj. ob_key (change obj) = ob_key obj"
  shows "\<exists>obj obj'. store s' = (store s)(name \<mapsto> obj') \<and> ob_Rest obj' = ob_Rest (change obj)"
proof -
  from assms(2) obtain obj where obj: "oc_Get c name s = Inr obj" and upd: "oc_Update c (change obj) s = (s', None)"
    by (auto simp: getAndUpdate_def split: sum.splits)
  from object_api.get_found [OF assms(1) obj] object_api.store_key [OF assms(1)] assms(3)
  have "ob_key (change obj) = name" by simp
  with object_api.update_law [OF assms(1) upd] show ?thesis by (auto simp: stored_as_def)
qed

lemma withCABundle_key: "ob_key (withCABundle caBundle obj) = ob_key obj"
  by (simp add: withCABundle_def ob_key_def)

text \<open>What the configurations look like after they were written.\<close>

definition trusts :: "string \<Rightarrow> webhook list object option \<Rightarrow> bool" where
  "trusts caPEM configuration \<longleftrightarrow> (\<exists>obj. configuration = Some obj \<and> (\<forall>h\<in>set (ob_Rest obj). wh_CABundle h = caPEM))"

definition converts :: "CustomResourceConversion \<Rightarrow> CRDSpec object option \<Rightarrow> bool" where
  "converts conversion crd \<longleftrightarrow> (\<exists>obj. crd = Some obj \<and> crd_Conversion (ob_Rest obj) = Some conversion)"

lemma getAndUpdate_trusts:
  assumes "object_api c store Inr" and "getAndUpdate what c name (withCABundle caPEM) s = (s', None)"
  shows "trusts caPEM (store s' name)"
  using getAndUpdate_law [where change = "withCABundle caPEM", OF assms withCABundle_key]
  by (auto simp: trusts_def withCABundle_def)

lemma updateCRD_law:
  assumes "object_api (en_CRDs en) store Inr" and "updatePipelineCRD en crdName conversion w = (w', None)"
  shows "\<exists>obj. converts conversion (Some obj) \<and> w' = w\<lparr>cw_CRDs := cw_CRDs w'\<rparr> \<and>
    store (cw_CRDs w') = (store (cw_CRDs w))(\<lparr>nn_Namespace = [], nn_Name = crdName\<rparr> \<mapsto> obj)"
proof -
  let ?change = "\<lambda>crd :: CRDSpec object. crd\<lparr>ob_Rest := (ob_Rest crd)\<lparr>crd_Conversion := Some conversion\<rparr>\<rparr>"
  from assms(2) obtain s' where run: "getAndUpdate (''CRD /'' @ crdName) (en_CRDs en) \<lparr>nn_Namespace = [], nn_Name = crdName\<rparr>
      ?change (cw_CRDs w) = (s', None)" and w': "w' = w\<lparr>cw_CRDs := s'\<rparr>"
    by (auto simp: updatePipelineCRD_def split: prod.splits)
  have "ob_key (?change crd) = ob_key crd" for crd by (simp add: ob_key_def)
  from getAndUpdate_law [where change = ?change, OF assms(1) run this] obtain obj obj' where
    "store s' = (store (cw_CRDs w))(\<lparr>nn_Namespace = [], nn_Name = crdName\<rparr> \<mapsto> obj')"
    "ob_Rest obj' = ob_Rest (?change obj)" by blast
  then show ?thesis unfolding w' by (intro exI [of _ obj']) (simp add: converts_def)
qed

lemma crd_names_differ: "MetricPipelineCRD \<noteq> LogPipelineCRD"
  by simp

lemma applyWebhookConfigResources_law:
  assumes v: "object_api (en_Validating en) sv Inr" and m: "object_api (en_Mutating en) sm Inr"
    and d: "object_api (en_CRDs en) sd Inr"
    and run: "applyWebhookConfigResources en caPEM config w = (w', None)"
  shows "cw_Secrets w' = cw_Secrets w \<and> cw_Files w' = cw_Files w \<and>
    trusts caPEM (sv (cw_Validating w') (wcf_ValidatingWebhookName config)) \<and>
    trusts caPEM (sm (cw_Mutating w') (wcf_MutatingWebhookName config)) \<and>
    (\<forall>crd\<in>{LogPipelineCRD, MetricPipelineCRD}.
       converts (makeConversionWebhookConfig caPEM config) (sd (cw_CRDs w') \<lparr>nn_Namespace = [], nn_Name = crd\<rparr>))"
proof -
  let ?cv = "makeConversionWebhookConfig caPEM config"
  obtain w1 w2 w3 where 1: "updateValidatingWebhookConfig en caPEM config w = (w1, None)"
    and 2: "updateMutatingWebhookConfig en caPEM config w1 = (w2, None)"
    and 3: "updatePipelineCRD en LogPipelineCRD ?cv w2 = (w3, None)" and 4: "updatePipelineCRD en MetricPipelineCRD ?cv w3 = (w', None)"
    using run by (auto simp: applyWebhookConfigResources_def Let_def thenDo_def done_ok_def split: prod.splits option.splits)
  from 1 have
    w1: "trusts caPEM (sv (cw_Validating w1) (wcf_ValidatingWebhookName config))" "w1 = w\<lparr>cw_Validating := cw_Validating w1\<rparr>"
    by (auto simp: updateValidatingWebhookConfig_def split: prod.splits intro: getAndUpdate_trusts [OF v])
  from 2 have
    w2: "trusts caPEM (sm (cw_Mutating w2) (wcf_MutatingWebhookName config))" "w2 = w1\<lparr>cw_Mutating := cw_Mutating w2\<rparr>"
    by (auto simp: updateMutatingWebhookConfig_def split: prod.splits intro: getAndUpdate_trusts [OF m])
  from updateCRD_law [OF d 3] updateCRD_law [OF d 4] obtain a b where
    crds: "converts ?cv (Some a)" "converts ?cv (Some b)" "w3 = w2\<lparr>cw_CRDs := cw_CRDs w3\<rparr>" "w' = w3\<lparr>cw_CRDs := cw_CRDs w'\<rparr>"
    "sd (cw_CRDs w') = (sd (cw_CRDs w2))(\<lparr>nn_Namespace = [], nn_Name = LogPipelineCRD\<rparr> \<mapsto> a,
       \<lparr>nn_Namespace = [], nn_Name = MetricPipelineCRD\<rparr> \<mapsto> b)" by auto
  have "cw_Validating w' = cw_Validating w1" "cw_Mutating w' = cw_Mutating w2" "cw_Secrets w' = cw_Secrets w"
    "cw_Files w' = cw_Files w"
    by (subst crds(4), subst crds(3), (subst w2(2))?, (subst w1(2))?, simp)+
  then show ?thesis using w1(1) w2(1) crds(1,2) crd_names_differ unfolding crds(5) by simp
qed

text \<open>C7: the certificates fit.  After \<open>EnsureCertificate\<close> without error there is an authority, kept in its Secret, that
  does not expire within 30 days, and the validating and the mutating webhooks and both resource definitions carry exactly
  this authority; the server certificate on disk does not expire within a day.  The authority may sign certificates and
  is valid already, or it was in the Secret before and passed the check of its expiry and key length, which does not look
  at that.  In the first case the server certificate on disk verifies against the authority.\<close>

theorem webhook_certificates_fit:
  assumes "lawful_crypto (en_Crypto en)" and "lawful_files (en_Files en)"
    and "object_api (en_Secrets en) ss Inr" and "object_api (en_Validating en) sv Inr"
    and "object_api (en_Mutating en) sm Inr" and "object_api (en_CRDs en) sd Inr"
    and "\<forall>a b. en_DeepEqual en a b \<longrightarrow> om_UID (ob_ObjectMeta a) = om_UID (ob_ObjectMeta b)"
    and "EnsureCertificate en config w = (w', None)"
  shows "\<exists>caPEM certPEM keyPEM. lasts (en_Crypto en) (en_Now en) (30 * day) caPEM \<and>
    (\<exists>obj. ss (cw_Secrets w') (wcf_CASecretName config) = Some obj \<and> ob_Rest obj caCertFile = Some caPEM) \<and>
    trusts caPEM (sv (cw_Validating w') (wcf_ValidatingWebhookName config)) \<and>
    trusts caPEM (sm (cw_Mutating w') (wcf_MutatingWebhookName config)) \<and>
    (\<forall>crd\<in>{LogPipelineCRD, MetricPipelineCRD}.
       converts (makeConversionWebhookConfig caPEM config) (sd (cw_CRDs w') \<lparr>nn_Namespace = [], nn_Name = crd\<rparr>)) \<and>
    storage_load (en_Files en) (wcf_CertDir config) (cw_Files w') = Inr (certPEM, keyPEM) \<and>
    lasts (en_Crypto en) (en_Now en) day certPEM \<and>
    (goodCA (en_Crypto en) (en_Now en) caPEM \<or>
     keptCA (en_Crypto en) (en_Now en) (wcf_rsaKeySize config) (ss (cw_Secrets w) (wcf_CASecretName config)) caPEM) \<and>
    (goodCA (en_Crypto en) (en_Now en) caPEM \<longrightarrow> goodServer (en_Crypto en) (en_Now en) caPEM certPEM)"
proof -
  obtain w1 caPEM caKey where ca: "ca_provideCert en (wcf_rsaKeySize config) (wcf_CASecretName config) w = (w1, Inr (caPEM, caKey))"
    using assms(8) by (auto simp: EnsureCertificate_def split: sum.splits prod.splits)
  obtain w2 certPEM keyPEM cfg where server: "server_provideCert en (wcf_CertDir config) (wcf_rsaKeySize config) cfg w1 =
      (w2, Inr (certPEM, keyPEM))" "scc_caCertPEM cfg = caPEM" and conf: "applyWebhookConfigResources en caPEM config w2 = (w', None)"
    using assms(8) ca by (auto simp: EnsureCertificate_def Let_def split: sum.splits prod.splits)
  from ca_provideCert_good [OF assms(1,3,7) ca] have 1: "goodCA (en_Crypto en) (en_Now en) caPEM \<or>
     keptCA (en_Crypto en) (en_Now en) (wcf_rsaKeySize config) (ss (cw_Secrets w) (wcf_CASecretName config)) caPEM"
    "\<exists>obj. ss (cw_Secrets w1) (wcf_CASecretName config) = Some obj \<and> ob_Rest obj caCertFile = Some caPEM" by blast+
  from 1(1) have lasts: "lasts (en_Crypto en) (en_Now en) (30 * day) caPEM" using goodCA_lasts keptCA_lasts by blast
  from server_provideCert_good [OF assms(1,2) server(1)] server(2) have
    2: "storage_load (en_Files en) (wcf_CertDir config) (cw_Files w2) = Inr (certPEM, keyPEM)"
    "lasts (en_Crypto en) (en_Now en) day certPEM"
    "goodCA (en_Crypto en) (en_Now en) caPEM \<longrightarrow> goodServer (en_Crypto en) (en_Now en) caPEM certPEM"
    "cw_Secrets w2 = cw_Secrets w1" by auto
  from applyWebhookConfigResources_law [OF assms(4-6) conf] have
    3: "cw_Secrets w' = cw_Secrets w2" "cw_Files w' = cw_Files w2" by blast+
  show ?thesis
    using applyWebhookConfigResources_law [OF assms(4-6) conf] lasts 1 2 unfolding 3
    by (intro exI [of _ caPEM] exI [of _ certPEM] exI [of _ keyPEM]) simp
qed

text \<open>C30: a save that fails halfway is accepted later.  Suppose a new server certificate was generated and written, and
  writing its key failed but left some key in the file, the one of the old certificate or a part of the new one.  The
  run reports the error; every later run with the same authority, as long as the certificate is not about to expire,
  accepts the new certificate together with that key.\<close>

theorem torn_save_accepted:
  assumes "lawful_crypto (en_Crypto en)" and "lawful_files (en_Files en)"
    and "\<forall>pair. storage_load (en_Files en) dir (cw_Files w) = Inr pair \<longrightarrow>
      \<not> goodServer (en_Crypto en) (en_Now en) (scc_caCertPEM config) (fst pair)"
    and "server_generateCert (en_Crypto en) (en_Now en) keySize config (cw_Draws w) = (d', Inr (certPEM, keyPEM))"
    and "fi_Write (en_Files en) (certFilePath dir) certPEM (cw_Files w) = (fs1, None)"
    and "fi_Write (en_Files en) (keyFilePath dir) keyPEM fs1 = (fs2, Some e)"
    and "fi_Read (en_Files en) (keyFilePath dir) fs2 = Inr otherKey" and "otherKey \<noteq> []"
  shows "\<exists>w1 err. server_provideCert en dir keySize config w = (w1, Inl err) \<and>
    (\<forall>now. goodServer (en_Crypto en) now (scc_caCertPEM config) certPEM \<longrightarrow>
       server_provideCert (en\<lparr>en_Now := now\<rparr>) dir keySize config w1 = (w1, Inr (certPEM, otherKey)))"
proof -
  let ?w1 = "w\<lparr>cw_Draws := d', cw_Files := fs2\<rparr>"
  from assms(2,6) file_paths_differ [of dir] have "fi_Read (en_Files en) (certFilePath dir) fs2 = fi_Read (en_Files en) (certFilePath dir) fs1"
    unfolding lawful_files_def by metis
  also from assms(2,5) have "\<dots> = Inr certPEM" unfolding lawful_files_def by blast
  finally have load: "storage_load (en_Files en) dir fs2 = Inr (certPEM, otherKey)"
    using assms(7) by (simp add: storage_load_def)
  have "certPEM \<noteq> []" using server_generateCert_good [OF assms(1,4)] by simp
  with load assms(8) have later: "server_provideCert (en\<lparr>en_Now := now\<rparr>) dir keySize config ?w1 = (?w1, Inr (certPEM, otherKey))"
    if "goodServer (en_Crypto en) now (scc_caCertPEM config) certPEM" for now
    using that by (simp add: server_provideCert_def checkServerCert_good)
  have save: "storage_save (en_Files en) dir certPEM keyPEM (cw_Files w) = (fs2, Some (failed ''failed to save key'' (NewError e)))"
    using assms(5,6) by (simp add: storage_save_def)
  have "\<exists>err. server_provideCert en dir keySize config w = (?w1, Inl err)"
  proof (cases "storage_load (en_Files en) dir (cw_Files w)")
    case (Inl e)
    then show ?thesis using assms(4) save by (simp add: server_provideCert_def)
  next
    case (Inr pair)
    then show ?thesis using assms(3,4) save by (cases pair) (simp add: server_provideCert_def checkServerCert_good)
  qed
  then show ?thesis using later by blast
qed

section \<open>An instance\<close>

text \<open>A library with one authority and one server certificate, at time 0.\<close>

abbreviation sampleCA :: Certificate where
  "sampleCA \<equiv> emptyCertificate\<lparr>ce_Raw := ''ca'', ce_IsCA := True, ce_BasicConstraintsValid := True,
     ce_KeyUsage := [''KeyEncipherment'', ''DigitalSignature'', ''CertSign''], ce_NotBefore := - hour, ce_NotAfter := 365 * day - hour\<rparr>"

abbreviation sampleServerCert :: Certificate where
  "sampleServerCert \<equiv> emptyCertificate\<lparr>ce_Raw := ''server'', ce_BasicConstraintsValid := True,
     ce_KeyUsage := [''KeyEncipherment'', ''DigitalSignature''], ce_NotBefore := - hour, ce_NotAfter := 7 * day - hour\<rparr>"

definition sampleWebhookCrypto :: "unit webhook_crypto" where
  "sampleWebhookCrypto =
     \<lparr>wc_Decode = (\<lambda>s. case s of [] \<Rightarrow> None
        | c # t \<Rightarrow> if c = CHR ''C'' then Some (pemBlockTypeCert, t) else Some (pemBlockTypeKey, t)),
      wc_Encode = (\<lambda>(ty, bytes). if ty = pemBlockTypeCert then Inr (CHR ''C'' # bytes)
        else if ty = pemBlockTypeKey then Inr (CHR ''K'' # bytes) else Inl ''unknown type''),
      wc_ParseCertificate = (\<lambda>der. if der = ''ca'' then Inr sampleCA
        else if der = ''server'' then Inr sampleServerCert else Inl ''malformed certificate''),
      wc_ParsePKCS1PrivateKey = (\<lambda>der. Inr ()), wc_MarshalPKCS1PrivateKey = (\<lambda>k. ''key''),
      wc_MarshalPKIXPublicKey = (\<lambda>k. Inr ''key''), wc_Sum256 = id, wc_BitLen = (\<lambda>k. 4096),
      wc_GenerateKey = (\<lambda>d n. Inr ()), wc_RandInt = (\<lambda>d n. Inr 1),
      wc_CreateCertificate = (\<lambda>d template parent pub priv.
        if ce_NotBefore template = - hour \<and> ce_NotAfter template = 365 * day - hour \<and> ce_IsCA template \<and>
          ce_BasicConstraintsValid template \<and> ce_KeyUsage template = [''KeyEncipherment'', ''DigitalSignature'', ''CertSign'']
        then Inr ''ca''
        else if ce_NotBefore template = - hour \<and> ce_NotAfter template = 7 * day - hour \<and> \<not> ce_IsCA template \<and>
          ce_BasicConstraintsValid template \<and> ce_KeyUsage template = [''KeyEncipherment'', ''DigitalSignature'']
        then Inr ''server''
        else Inl ''unsupported template''),
      wc_AppendCertsFromPEM = (\<lambda>pem. if pem = ''Cca'' then Some [sampleCA] else if pem = ''Cserver'' then Some [sampleServerCert]
        else None),
      wc_Verify = (\<lambda>roots now cert. Inr 1)\<rparr>"

lemma sampleWebhookCrypto_lawful: "lawful_crypto sampleWebhookCrypto"
proof -
  have "lawful_pem sampleWebhookCrypto"
    by (auto simp: lawful_pem_def sampleWebhookCrypto_def split: if_splits)
  moreover have "lawful_signing sampleWebhookCrypto"
    by (auto simp: lawful_signing_def verifies_def sampleWebhookCrypto_def emptyCertificate_def split: if_splits)
  moreover have "lawful_pool sampleWebhookCrypto"
    by (auto simp: lawful_pool_def parseCertPEM_def sampleWebhookCrypto_def split: if_splits list.splits)
  ultimately show ?thesis by (simp add: lawful_crypto_def)
qed

text \<open>Files as a map; in the second file system the key cannot be written.\<close>

definition mapFiles :: "string option \<Rightarrow> (string \<rightharpoonup> string) files" where
  "mapFiles broken =
     \<lparr>fi_Read = (\<lambda>p fs. case fs p of Some x \<Rightarrow> Inr x | None \<Rightarrow> Inl ''no such file''),
      fi_Write = (\<lambda>p x fs. if broken = Some p then (fs, Some ''no space left'') else (fs(p \<mapsto> x), None))\<rparr>"

lemma mapFiles_simps:
  "fi_Read (mapFiles broken) p fs = (case fs p of Some x \<Rightarrow> Inr x | None \<Rightarrow> Inl ''no such file'')"
  "fi_Write (mapFiles broken) p x fs = (if broken = Some p then (fs, Some ''no space left'') else (fs(p \<mapsto> x), None))"
  by (simp_all add: mapFiles_def)

lemma mapFiles_lawful: "lawful_files (mapFiles broken)"
  by (auto simp: lawful_files_def mapFiles_def split: if_splits)

abbreviation sampleNamed :: "string \<Rightarrow> 'r \<Rightarrow> 'r object" where
  "sampleNamed n x \<equiv> \<lparr>ob_ObjectMeta = zeroObjectMeta\<lparr>om_Name := n\<rparr>, ob_Rest = x\<rparr>"

definition sampleCertEnv ::
    "string option \<Rightarrow> (secret_data object list, webhook list object list, webhook list object list, CRDSpec object list,
      string \<rightharpoonup> string, unit) cert_env" where
  "sampleCertEnv broken =
     \<lparr>en_Crypto = sampleWebhookCrypto, en_Files = mapFiles broken, en_Secrets = list_client [], en_DeepEqual = (\<lambda>a b. False),
      en_Validating = list_client [], en_Mutating = list_client [], en_CRDs = list_client [], en_Now = 0\<rparr>"

abbreviation named :: "string \<Rightarrow> NamespacedName" where
  "named n \<equiv> \<lparr>nn_Namespace = [], nn_Name = n\<rparr>"

abbreviation sampleCertConfig :: WebhookCertConfig where
  "sampleCertConfig \<equiv> \<lparr>wcf_rsaKeySize = 4096, wcf_CertDir = ''.'', wcf_ServiceName = named ''svc'', wcf_CASecretName = named ''ca'',
     wcf_ValidatingWebhookName = named ''v'', wcf_MutatingWebhookName = named ''m''\<rparr>"

abbreviation sampleCertWorld where
  "sampleCertWorld fs \<equiv> \<lparr>cw_Secrets = [], cw_Validating = [sampleNamed ''v'' [\<lparr>wh_CABundle = [], wh_Rest = []\<rparr>]],
     cw_Mutating = [sampleNamed ''m'' []], cw_CRDs = [sampleNamed LogPipelineCRD \<lparr>crd_Conversion = None, crd_Rest = []\<rparr>,
       sampleNamed MetricPipelineCRD \<lparr>crd_Conversion = None, crd_Rest = []\<rparr>], cw_Files = fs, cw_Draws = 0\<rparr>"

lemma sample_ca: "ca_provideCert (sampleCertEnv broken) 4096 (named ''ca'') (sampleCertWorld fs) =
    ((sampleCertWorld fs)\<lparr>cw_Draws := 2, cw_Secrets := [makeCASecret ''Cca'' ''Kkey'' (named ''ca'')]\<rparr>, Inr (''Cca'', ''Kkey''))"
  by (simp add: ca_provideCert_def sampleCertEnv_def list_client_def ca_generateCert_def ca_generateCertInternal_def
      sampleWebhookCrypto_def caCertTemplate_def encodePair_def encodeCertPEM_def encodeKeyPEM_def CreateOrUpdate_def
      createOrUpdateWith_def IsNotFound_def emptyCertificate_def Let_def)

lemma sample_paths: "certFilePath ''.'' = ''tls.crt''" "keyFilePath ''.'' = ''tls.key''"
  by (simp_all add: certFilePath_def keyFilePath_def path_Join_def path_Clean_def cleanElement_def)

lemma sample_generate: "scc_caCertPEM cfg = ''Cca'' \<Longrightarrow> scc_caKeyPEM cfg = ''Kkey'' \<Longrightarrow>
    server_generateCert sampleWebhookCrypto 0 4096 cfg d = (d + 3, Inr (''Cserver'', ''Kkey''))"
  by (simp add: server_generateCert_def server_generateCertInternal_def parseCertPEM_def parseKeyPEM_def sampleWebhookCrypto_def
      serverCertTemplate_def emptyCertificate_def encodePair_def encodeCertPEM_def encodeKeyPEM_def)

lemma sample_server:
  "scc_caCertPEM cfg = ''Cca'' \<Longrightarrow> scc_caKeyPEM cfg = ''Kkey'' \<Longrightarrow> cw_Files w = Map.empty \<Longrightarrow>
    server_provideCert (sampleCertEnv None) ''.'' 4096 cfg w =
      (w\<lparr>cw_Draws := cw_Draws w + 3, cw_Files := [''tls.crt'' \<mapsto> ''Cserver'', ''tls.key'' \<mapsto> ''Kkey'']\<rparr>, Inr (''Cserver'', ''Kkey''))"
  by (simp add: server_provideCert_def sampleCertEnv_def mapFiles_def storage_load_def storage_save_def sample_paths
      sample_generate)

theorem webhook_certificates_fit_witness:
  "\<exists>w' caPEM. EnsureCertificate (sampleCertEnv None) sampleCertConfig (sampleCertWorld Map.empty) = (w', None) \<and>
     trusts caPEM (list_store (cw_Validating w') (named ''v'')) \<and> goodCA sampleWebhookCrypto 0 caPEM \<and>
     (\<exists>certPEM keyPEM. storage_load (mapFiles None) ''.'' (cw_Files w') = Inr (certPEM, keyPEM) \<and>
        goodServer sampleWebhookCrypto 0 caPEM certPEM)"
proof -
  let ?en = "sampleCertEnv None" and ?w = "sampleCertWorld Map.empty"
  have "\<exists>w'. EnsureCertificate ?en sampleCertConfig ?w = (w', None)"
    by (simp add: EnsureCertificate_def dnsNames_def sample_ca sample_server Let_def)
      (simp add: applyWebhookConfigResources_def updateValidatingWebhookConfig_def updateMutatingWebhookConfig_def
        updatePipelineCRD_def getAndUpdate_def thenDo_def done_ok_def sampleCertEnv_def list_client_def withCABundle_def
        ob_key_def zeroObjectMeta_def withUID_def Let_def)
  then obtain w' where run: "EnsureCertificate ?en sampleCertConfig ?w = (w', None)" by blast
  have env: "en_Crypto ?en = sampleWebhookCrypto" "en_Files ?en = mapFiles None" "en_Secrets ?en = list_client []"
    "en_Validating ?en = list_client []" "en_Mutating ?en = list_client []" "en_CRDs ?en = list_client []" "en_Now ?en = 0"
    "en_DeepEqual ?en = (\<lambda>a b. False)"
    by (simp_all add: sampleCertEnv_def)
  from webhook_certificates_fit [of ?en list_store list_store list_store list_store sampleCertConfig ?w, OF _ _ _ _ _ _ _ run]
  show ?thesis
    using run sampleWebhookCrypto_lawful mapFiles_lawful by (auto simp: env keptCA_def list_api.object_api_axioms)
qed

text \<open>The old key file stays; the certificate is new.\<close>

theorem torn_save_accepted_witness:
  "\<exists>w1 err. server_provideCert (sampleCertEnv (Some ''tls.key'')) ''.'' 4096
      \<lparr>scc_host = [], scc_alternativeDNSNames = [], scc_caCertPEM = ''Cca'', scc_caKeyPEM = ''Kkey''\<rparr>
      (sampleCertWorld [''tls.key'' \<mapsto> ''Kold'']) = (w1, Inl err) \<and>
    server_provideCert (sampleCertEnv (Some ''tls.key'')\<lparr>en_Now := day\<rparr>) ''.'' 4096
      \<lparr>scc_host = [], scc_alternativeDNSNames = [], scc_caCertPEM = ''Cca'', scc_caKeyPEM = ''Kkey''\<rparr> w1 =
      (w1, Inr (''Cserver'', ''Kold''))"
proof -
  let ?en = "sampleCertEnv (Some ''tls.key'')" and ?w = "sampleCertWorld [''tls.key'' \<mapsto> ''Kold'']"
  let ?cfg = "\<lparr>scc_host = [], scc_alternativeDNSNames = [], scc_caCertPEM = ''Cca'', scc_caKeyPEM = ''Kkey''\<rparr>"
  have env: "en_Crypto ?en = sampleWebhookCrypto" "en_Files ?en = mapFiles (Some ''tls.key'')" "en_Now ?en = 0"
    by (simp_all add: sampleCertEnv_def)
  have good: "goodServer sampleWebhookCrypto day ''Cca'' ''Cserver''" "goodCA sampleWebhookCrypto 0 ''Cca''"
    by (simp_all add: goodServer_def goodCA_def maySign_def parseCertPEM_def sampleWebhookCrypto_def emptyCertificate_def)
  from torn_save_accepted [of ?en "''.''" ?w ?cfg 4096 3 "''Cserver''" "''Kkey''" "[''tls.key'' \<mapsto> ''Kold'', ''tls.crt'' \<mapsto> ''Cserver'']"
      "[''tls.key'' \<mapsto> ''Kold'', ''tls.crt'' \<mapsto> ''Cserver'']" "''no space left''" "''Kold''"]
  obtain w1 err where "server_provideCert ?en ''.'' 4096 ?cfg ?w = (w1, Inl err)"
    "\<forall>now. goodServer sampleWebhookCrypto now ''Cca'' ''Cserver'' \<longrightarrow>
       server_provideCert (?en\<lparr>en_Now := now\<rparr>) ''.'' 4096 ?cfg w1 = (w1, Inr (''Cserver'', ''Kold''))"
    using sampleWebhookCrypto_lawful mapFiles_lawful good
    by (auto simp: env sample_paths sample_generate mapFiles_simps storage_load_def)
  with good show ?thesis by blast
qed

end
