(* ===== verification/FluentBitConfig.thy ===== *)
theory FluentBitConfig
  imports PipelineValidators OTLPExporter WorkloadStatus Names Regexp
begin

text \<open>
  The configuration of the Fluent Bit agent (\<open>internal/fluentbit/config\<close>) and the validation of the pipelines that it
  is built from (\<open>validator.go\<close> of \<open>internal/reconciler/logpipeline/fluentbit\<close>).  Per pipeline there is a text of
  sections: an input, filters and an output, with the custom filters and the custom output of the user among them.
  Secrets appear in it as environment variables and as files.

  Shown: the pipelines that pass the validation render, with every variable and file defined; the sections of a
  pipeline match the tag of its own records only, which is also a prefix of the tags of a pipeline named after it
  with a dot; the variables of two pipelines can collide; and a password can add a match condition.

  \<open>strings.ToLower\<close>, \<open>ToUpper\<close>, \<open>TrimSpace\<close> and \<open>EqualFold\<close> are modelled on ASCII.
\<close>

section \<open>Go library functions\<close>

definition toLowerChar :: "char \<Rightarrow> char" where
  "toLowerChar c = (let n = (of_char c :: nat) in if 65 \<le> n \<and> n \<le> 90 then char_of (n + 32) else c)"

definition ToLower :: "string \<Rightarrow> string" where
  "ToLower s = map toLowerChar s"

definition EqualFold :: "string \<Rightarrow> string \<Rightarrow> bool" where
  "EqualFold s t \<longleftrightarrow> ToLower s = ToLower t"

abbreviation newline :: char where "newline \<equiv> CHR 0x0A"

text \<open>\<open>strings.SplitSeq(s, "\n")\<close>.\<close>

fun splitLines :: "string \<Rightarrow> string list" where
  "splitLines [] = [[]]"
| "splitLines (c # s) =
     (if c = newline then [] # splitLines s
      else case splitLines s of [] \<Rightarrow> [[c]] | l # ls \<Rightarrow> (c # l) # ls)"

text \<open>\<open>strings.Cut(s, " ")\<close>, with \<open>None\<close> for not found.\<close>

fun Cut :: "string \<Rightarrow> (string \<times> string) option" where
  "Cut [] = None"
| "Cut (c # s) = (if c = CHR '' '' then Some ([], s) else map_option (\<lambda>(before, after). (c # before, after)) (Cut s))"

text \<open>\<open>strings.Trim(s, " ")\<close>.\<close>

definition trimBlanks :: "string \<Rightarrow> string" where
  "trimBlanks s = rev (dropWhile ((=) CHR '' '') (rev (dropWhile ((=) CHR '' '') s)))"

section \<open>Parameters\<close>

record Parameter =
  pm_Key :: string
  pm_Value :: string

definition ContainsKey :: "Parameter list \<Rightarrow> string \<Rightarrow> bool" where
  "ContainsKey ps key \<longleftrightarrow> list_ex (\<lambda>p. pm_Key p = key) ps"

definition GetByKey :: "Parameter list \<Rightarrow> string \<Rightarrow> Parameter option" where
  "GetByKey ps key = find (\<lambda>p. pm_Key p = key) ps"

text \<open>What the two parsers do with a line: nothing for an empty line or a comment, else a key and a value.\<close>

datatype parsed_line = SkipLine | BadLine string | ParamLine Parameter

definition parseLine :: "string \<Rightarrow> parsed_line" where
  "parseLine raw =
     (let line = TrimSpace raw
      in if line = [] \<or> HasPrefix line ''#'' then SkipLine
         else case Cut line of
             None \<Rightarrow> BadLine line
           | Some (key, value) \<Rightarrow> ParamLine \<lparr>pm_Key = ToLower (TrimSpace key), pm_Value = TrimSpace value\<rparr>)"

fun parseSectionLines :: "string list \<Rightarrow> (go_error, Parameter list) result" where
  "parseSectionLines [] = Inr []"
| "parseSectionLines (l # ls) =
     (case parseLine l of
        SkipLine \<Rightarrow> parseSectionLines ls
      | BadLine line \<Rightarrow> Inl (NewError (''invalid line: '' @ line))
      | ParamLine p \<Rightarrow> rbind (parseSectionLines ls) (\<lambda>ps. Inr (p # ps)))"

definition ParseCustomSection :: "string \<Rightarrow> (go_error, Parameter list) result" where
  "ParseCustomSection section = parseSectionLines (splitLines section)"

definition lineParams :: "string \<Rightarrow> Parameter list" where
  "lineParams l = (case parseLine l of ParamLine p \<Rightarrow> [p] | _ \<Rightarrow> [])"

definition parseMultiline :: "string \<Rightarrow> Parameter list" where
  "parseMultiline section = concat (map lineParams (splitLines section))"

section \<open>Section builder\<close>

record SectionBuilder =
  sb_params :: "Parameter list"
  sb_keyLen :: nat
  sb_builder :: string

definition newSection :: "string \<Rightarrow> SectionBuilder" where
  "newSection header = \<lparr>sb_params = [], sb_keyLen = 0, sb_builder = header @ [newline]\<rparr>"

abbreviation NewInputSectionBuilder :: SectionBuilder where
  "NewInputSectionBuilder \<equiv> newSection ''[INPUT]''"

abbreviation NewFilterSectionBuilder :: SectionBuilder where
  "NewFilterSectionBuilder \<equiv> newSection ''[FILTER]''"

abbreviation NewOutputSectionBuilder :: SectionBuilder where
  "NewOutputSectionBuilder \<equiv> newSection ''[OUTPUT]''"

text \<open>The order of \<open>sort.Slice\<close>: \<open>name\<close> first, then \<open>match\<close>, then by key, and by value among equal keys.\<close>

definition param_less :: "Parameter \<Rightarrow> Parameter \<Rightarrow> bool" where
  "param_less p q =
     (if pm_Key p \<noteq> pm_Key q
      then if pm_Key p = ''name'' then True
           else if pm_Key q = ''name'' then False
           else if pm_Key p = ''match'' then True
           else if pm_Key q = ''match'' then False
           else str_less (pm_Key p) (pm_Key q)
      else str_less (pm_Value p) (pm_Value q))"

text \<open>The order is total and equal elements are the same, so the result does not depend on the algorithm.\<close>

fun param_insert :: "Parameter \<Rightarrow> Parameter list \<Rightarrow> Parameter list" where
  "param_insert x [] = [x]"
| "param_insert x (y # ys) = (if param_less y x then y # param_insert x ys else x # y # ys)"

definition param_sort :: "Parameter list \<Rightarrow> Parameter list" where
  "param_sort ps = foldr param_insert ps []"

definition renderParam :: "nat \<Rightarrow> Parameter \<Rightarrow> string" where
  "renderParam keyLen p =
     replicate 4 CHR '' '' @ pm_Key p @ replicate (keyLen + 1 - length (pm_Key p)) CHR '' '' @ pm_Value p @ [newline]"

definition Build_section :: "SectionBuilder \<Rightarrow> string" where
  "Build_section sb = sb_builder sb @ concat (map (renderParam (sb_keyLen sb)) (param_sort (sb_params sb))) @ [newline]"

definition AddConfigParam :: "string \<Rightarrow> string \<Rightarrow> SectionBuilder \<Rightarrow> SectionBuilder" where
  "AddConfigParam key value sb =
     sb\<lparr>sb_keyLen := (if sb_keyLen sb < length key then length key else sb_keyLen sb),
        sb_params := sb_params sb @ [\<lparr>pm_Key = ToLower key, pm_Value = value\<rparr>]\<rparr>"

definition AddIfNotEmpty :: "string \<Rightarrow> string \<Rightarrow> SectionBuilder \<Rightarrow> SectionBuilder" where
  "AddIfNotEmpty key value sb = (if value \<noteq> [] then AddConfigParam key value sb else sb)"

definition AddIfNotEmptyOrDefault :: "string \<Rightarrow> string \<Rightarrow> string \<Rightarrow> SectionBuilder \<Rightarrow> SectionBuilder" where
  "AddIfNotEmptyOrDefault key value defaultValue =
     (if value = [] then AddConfigParam key defaultValue else AddConfigParam key value)"

text \<open>A chain of calls on a builder, a call under a condition, and the loop over parsed parameters.\<close>

definition chain :: "(SectionBuilder \<Rightarrow> SectionBuilder) list \<Rightarrow> SectionBuilder \<Rightarrow> SectionBuilder" where
  "chain = fold (\<lambda>f. f)"

definition doIf :: "bool \<Rightarrow> (SectionBuilder \<Rightarrow> SectionBuilder) \<Rightarrow> SectionBuilder \<Rightarrow> SectionBuilder" where
  "doIf c f = (if c then f else id)"

definition addParams :: "Parameter list \<Rightarrow> SectionBuilder \<Rightarrow> SectionBuilder" where
  "addParams = fold (\<lambda>p. AddConfigParam (pm_Key p) (pm_Value p))"

abbreviation lp_Name :: "LogPipeline \<Rightarrow> string" where
  "lp_Name p \<equiv> om_Name (lp_ObjectMeta p)"

abbreviation ownMatch :: "LogPipeline \<Rightarrow> string" where
  "ownMatch p \<equiv> lp_Name p @ ''.*''"

section \<open>Sections of a pipeline\<close>

definition makeLogPath :: "string \<Rightarrow> string \<Rightarrow> string \<Rightarrow> string" where
  "makeLogPath namespace pod container = ''/var/log/pods/'' @ namespace @ ''_'' @ pod @ ''/'' @ container @ ''/*.log''"

abbreviation runtimeOf :: "LogPipeline \<Rightarrow> LogPipelineRuntimeInput option" where
  "runtimeOf p \<equiv> li_Runtime (ls_Input (lp_Spec p))"

definition createIncludePath :: "LogPipeline \<Rightarrow> string" where
  "createIncludePath p =
     (let includeNamespaces =
            (case Option.bind (runtimeOf p) lri_Namespaces of
               Some nss \<Rightarrow> if length (ns_Include nss) > 0 then ns_Include nss else [''*'']
             | None \<Rightarrow> [''*'']);
          includeContainers =
            (case Option.bind (runtimeOf p) lri_Containers of
               Some cs \<Rightarrow> if length (elems (lcs_Include cs)) > 0 then elems (lcs_Include cs) else [''*'']
             | None \<Rightarrow> [''*''])
      in Join [makeLogPath ns ''*'' container. ns \<leftarrow> includeNamespaces, container \<leftarrow> includeContainers] '','')"

abbreviation SystemLogCollectorName :: string where "SystemLogCollectorName \<equiv> ''system-logs-collector''"
abbreviation SystemLogAgentName :: string where "SystemLogAgentName \<equiv> ''system-logs-agent''"

definition createExcludePath :: "LogPipeline \<Rightarrow> bool \<Rightarrow> string" where
  "createExcludePath p collectAgentLogs =
     (let ownAgent =
            (if \<not> collectAgentLogs then [makeLogPath ''kyma-system'' (Names.FluentBit @ ''-*'') ''fluent-bit''] else []);
          others =
            [makeLogPath ''kyma-system'' (''*'' @ SystemLogAgentName @ ''-*'') ''collector'',
             makeLogPath ''kyma-system'' (''*'' @ SystemLogCollectorName @ ''-*'') ''collector'',
             makeLogPath ''kyma-system'' (Names.LogAgent @ ''-*'') ''collector''];
          excludeNamespaces =
            (case Option.bind (runtimeOf p) lri_Namespaces of
               Some nss \<Rightarrow> ns_Exclude nss
             | None \<Rightarrow> [''kyma-system'', ''kube-system'', ''istio-system'']);
          excludeContainers =
            (case Option.bind (runtimeOf p) lri_Containers of Some cs \<Rightarrow> elems (lcs_Exclude cs) | None \<Rightarrow> [])
      in Join (ownAgent @ others @ map (\<lambda>ns. makeLogPath ns ''*'' ''*'') excludeNamespaces @
               map (\<lambda>container. makeLogPath ''*'' ''*'' container) excludeContainers) '','')"

definition createInputSection :: "LogPipeline \<Rightarrow> string \<Rightarrow> string \<Rightarrow> string" where
  "createInputSection p includePath excludePath =
     Build_section (chain
       [AddConfigParam ''name'' ''tail'', AddConfigParam ''alias'' (lp_Name p), AddConfigParam ''path'' includePath,
        AddIfNotEmpty ''exclude_path'' excludePath, AddConfigParam ''multiline.parser'' ''cri'',
        AddConfigParam ''tag'' (ownMatch p), AddConfigParam ''skip_long_lines'' ''on'',
        AddConfigParam ''db'' (''/data/flb_'' @ lp_Name p @ ''.db''), AddConfigParam ''db.compare_filename'' ''on'',
        AddConfigParam ''storage.type'' ''filesystem'', AddConfigParam ''read_from_head'' ''true'',
        AddConfigParam ''mem_buf_limit'' ''5MB''] NewInputSectionBuilder)"

definition isMultilineFilter :: "Parameter list \<Rightarrow> bool" where
  "isMultilineFilter ps \<longleftrightarrow> (case GetByKey ps ''name'' of None \<Rightarrow> False | Some p \<Rightarrow> pm_Value p = ''multiline'')"

definition customFilterSection :: "LogPipeline \<Rightarrow> FluentBitFilter \<Rightarrow> string" where
  "customFilterSection p f =
     Build_section (chain [addParams (parseMultiline (fbf_Custom f)), AddConfigParam ''match'' (ownMatch p)]
       NewFilterSectionBuilder)"

text \<open>The type of filter is whether it is a multiline filter.\<close>

definition createCustomFilters :: "LogPipeline \<Rightarrow> bool \<Rightarrow> string" where
  "createCustomFilters p multiline =
     Join (map (customFilterSection p)
       (filter (\<lambda>f. isMultilineFilter (parseMultiline (fbf_Custom f)) = multiline) (ls_FluentBitFilters (lp_Spec p))))
       [newline]"

definition createRecordModifierFilter :: "LogPipeline \<Rightarrow> string \<Rightarrow> string" where
  "createRecordModifierFilter p clusterName =
     Build_section (chain
       [AddConfigParam ''name'' ''record_modifier'', AddConfigParam ''match'' (ownMatch p),
        AddConfigParam ''record'' (''cluster_identifier '' @ clusterName)] NewFilterSectionBuilder)"

definition fluentBitBool :: "bool \<Rightarrow> string" where
  "fluentBitBool b = (if b then ''on'' else ''off'')"

definition createKubernetesFilter :: "LogPipeline \<Rightarrow> string" where
  "createKubernetesFilter p =
     (let keepAnnotations = deref (Option.bind (runtimeOf p) lri_FluentBitKeepAnnotations) False;
          keepLabels = \<not> deref (Option.bind (runtimeOf p) lri_FluentBitDropLabels) False;
          keepOriginalBody = deref (Option.bind (runtimeOf p) lri_KeepOriginalBody) True
      in Build_section (chain
           [AddConfigParam ''name'' ''kubernetes'', AddConfigParam ''match'' (ownMatch p),
            AddConfigParam ''merge_log'' ''on'', AddConfigParam ''k8s-logging.parser'' ''on'',
            AddConfigParam ''k8s-logging.exclude'' ''off'',
            AddConfigParam ''kube_tag_prefix'' (lp_Name p @ ''.var.log.pods.''),
            AddConfigParam ''regex_parser'' ''k8s-pods'', AddConfigParam ''annotations'' (fluentBitBool keepAnnotations),
            AddConfigParam ''labels'' (fluentBitBool keepLabels), AddConfigParam ''buffer_size'' ''1MB'',
            AddConfigParam ''keep_log'' (fluentBitBool keepOriginalBody)] NewFilterSectionBuilder))"

definition createTimestampModifyFilter :: "LogPipeline \<Rightarrow> string" where
  "createTimestampModifyFilter p =
     (if \<not> IsHTTPOutputDefined (ls_Output (lp_Spec p)) then []
      else Build_section (chain
        [AddConfigParam ''name'' ''modify'', AddConfigParam ''match'' (ownMatch p),
         AddConfigParam ''copy'' ''time @timestamp''] NewFilterSectionBuilder))"

definition createLuaFilter :: "LogPipeline \<Rightarrow> string" where
  "createLuaFilter p =
     (if \<not> IsHTTPOutputDefined (ls_Output (lp_Spec p)) then []
      else let call = (case lo_FluentBitHTTP (ls_Output (lp_Spec p)) of
                 Some h \<Rightarrow> if fh_Dedot h then ''dedot_and_enrich_app_name'' else ''enrich_app_name''
               | None \<Rightarrow> ''enrich_app_name'')
           in Build_section (chain
                [AddConfigParam ''name'' ''lua'', AddConfigParam ''match'' (ownMatch p),
                 AddConfigParam ''script'' ''/fluent-bit/scripts/filter-script.lua'', AddConfigParam ''call'' call]
                NewFilterSectionBuilder))"

subsection \<open>Output\<close>

abbreviation retryLimit :: string where "retryLimit \<equiv> ''300''"

definition formatEnvVarName :: "string \<Rightarrow> string \<Rightarrow> string \<Rightarrow> string \<Rightarrow> string" where
  "formatEnvVarName prefix namespace name key =
     map (\<lambda>c. if c = CHR ''-'' then CHR ''_'' else c)
       (map (\<lambda>c. if c = CHR ''.'' then CHR ''_'' else c)
         (ToUpper (prefix @ ''_'' @ namespace @ ''_'' @ name @ ''_'' @ key)))"

definition refEnvVarName :: "string \<Rightarrow> SecretKeyRef \<Rightarrow> string" where
  "refEnvVarName prefix ref = formatEnvVarName prefix (skr_Namespace ref) (skr_Name ref) (skr_Key ref)"

definition fluentbit_resolveValue :: "ValueType \<Rightarrow> string \<Rightarrow> string" where
  "fluentbit_resolveValue v pipeline =
     (if vt_Value v \<noteq> [] then vt_Value v
      else if IsValid (Some v)
      then case Option.bind (vt_ValueFrom v) vfs_SecretKeyRef of
             Some ref \<Rightarrow> ''${'' @ refEnvVarName pipeline ref @ ''}''
           | None \<Rightarrow> []
      else [])"

definition generateCustomOutput :: "LogPipelineOutput \<Rightarrow> string \<Rightarrow> string \<Rightarrow> string" where
  "generateCustomOutput out fsBufferLimit name =
     (let customOutputParams = parseMultiline (lo_FluentBitCustom out);
          aliasPresent = ContainsKey customOutputParams ''alias''
      in Build_section (chain
           [addParams customOutputParams, doIf (\<not> aliasPresent) (AddConfigParam ''alias'' name),
            AddConfigParam ''match'' (name @ ''.*''), AddConfigParam ''storage.total_limit_size'' fsBufferLimit,
            AddConfigParam ''retry_limit'' retryLimit] NewOutputSectionBuilder))"

definition addIfValid :: "string \<Rightarrow> ValueType option \<Rightarrow> string \<Rightarrow> SectionBuilder \<Rightarrow> SectionBuilder" where
  "addIfValid key v name =
     (case v of Some vt \<Rightarrow> doIf (IsValid v) (AddConfigParam key (fluentbit_resolveValue vt name)) | None \<Rightarrow> id)"

abbreviation tlsFile :: "string \<Rightarrow> string" where
  "tlsFile f \<equiv> ''/fluent-bit/etc/output-tls-config/'' @ f"

definition generateHTTPOutput :: "FluentBitHTTPOutput \<Rightarrow> string \<Rightarrow> string \<Rightarrow> string" where
  "generateHTTPOutput h fsBufferLimit name =
     (let tls = fh_TLS h in
      Build_section (chain
       [AddConfigParam ''name'' ''http'', AddConfigParam ''allow_duplicated_headers'' ''true'',
        AddConfigParam ''match'' (name @ ''.*''), AddConfigParam ''alias'' name,
        AddConfigParam ''storage.total_limit_size'' fsBufferLimit, AddConfigParam ''retry_limit'' retryLimit,
        AddIfNotEmpty ''uri'' (fh_URI h), AddIfNotEmpty ''compress'' (fh_Compress h),
        AddIfNotEmptyOrDefault ''port'' (fh_Port h) ''443'', AddIfNotEmptyOrDefault ''format'' (fh_Format h) ''json'',
        AddConfigParam ''json_date_format'' ''iso8601'',
        addIfValid ''host'' (Some (fh_Host h)) name, addIfValid ''http_passwd'' (fh_Password h) name,
        addIfValid ''http_user'' (fh_User h) name,
        AddConfigParam ''tls'' (if tls_Insecure tls then ''off'' else ''on''),
        AddConfigParam ''tls.verify'' (if tls_InsecureSkipVerify tls then ''off'' else ''on''),
        doIf (IsValid (tls_CA tls)) (AddConfigParam ''tls.ca_file'' (tlsFile (name @ ''-ca.crt''))),
        doIf (IsValid (tls_Cert tls)) (AddConfigParam ''tls.crt_file'' (tlsFile (name @ ''-cert.crt''))),
        doIf (IsValid (tls_Key tls)) (AddConfigParam ''tls.key_file'' (tlsFile (name @ ''-key.key'')))]
       NewOutputSectionBuilder))"

record builderConfig =
  bc_InputTag :: string
  bc_MemoryBufferLimit :: string
  bc_StorageType :: string
  bc_FsBufferLimit :: string
  bc_collectAgentLogs :: bool

definition createOutputSection :: "LogPipeline \<Rightarrow> builderConfig \<Rightarrow> string" where
  "createOutputSection p defaults =
     (let out = ls_Output (lp_Spec p)
      in if IsCustomOutputDefined out then generateCustomOutput out (bc_FsBufferLimit defaults) (lp_Name p)
         else if IsHTTPOutputDefined out
         then case lo_FluentBitHTTP out of
                Some h \<Rightarrow> generateHTTPOutput h (bc_FsBufferLimit defaults) (lp_Name p)
              | None \<Rightarrow> []
         else [])"

definition sectionError :: "string \<Rightarrow> go_error option" where
  "sectionError custom = (case ParseCustomSection custom of Inl e \<Rightarrow> Some e | Inr _ \<Rightarrow> None)"

definition validateCustomSections :: "LogPipeline \<Rightarrow> go_error option" where
  "validateCustomSections p =
     (let customOutput = lo_FluentBitCustom (ls_Output (lp_Spec p))
      in orelse (if customOutput \<noteq> [] then sectionError customOutput else None)
           (range_check (\<lambda>f. sectionError (fbf_Custom f)) (ls_FluentBitFilters (lp_Spec p))))"

definition modeString :: "Mode \<Rightarrow> string" where
  "modeString m = (case m of OTel \<Rightarrow> ''OTel'' | Mode.FluentBit \<Rightarrow> ''FluentBit'')"

definition buildFluentBitSectionsConfig :: "LogPipeline \<Rightarrow> builderConfig \<Rightarrow> string \<Rightarrow> (go_error, string) result" where
  "buildFluentBitSectionsConfig p config clusterName =
     (let pm = PipelineMode p
      in if pm \<noteq> Mode.FluentBit
         then Inl (Errorf [] (Sentinel errInvalidPipelineDefinition) ('': unsupported pipeline mode: '' @ modeString pm))
         else case validateCustomSections p of
             Some e \<Rightarrow> Inl e
           | None \<Rightarrow>
               Inr (createInputSection p (createIncludePath p) (createExcludePath p (bc_collectAgentLogs config)) @
                    createCustomFilters p True @ createRecordModifierFilter p clusterName @ createKubernetesFilter p @
                    createTimestampModifyFilter p @ createCustomFilters p False @ createLuaFilter p @
                    createOutputSection p config))"

section \<open>Secrets and files\<close>

definition getSecretData :: "secret_reader \<Rightarrow> SecretKeyRef \<Rightarrow> string \<Rightarrow> (go_error, string \<rightharpoonup> string) result" where
  "getSecretData get ref targetKey =
     (case get (secretKeyRefName ref) of
        Inl e \<Rightarrow>
          Inl (Errorf (''unable to read secret '' @ quoted (skr_Name ref) @ '' from namespace '' @
             quoted (skr_Namespace ref) @ '': '') (KubeError e) [])
      | Inr source \<Rightarrow>
          (case sec_Data source (skr_Key ref) of
             Some val \<Rightarrow> Inr [targetKey \<mapsto> val]
           | None \<Rightarrow> Inl (NewError (''unable to find key '' @ quoted (skr_Key ref) @ '' in secret '' @
               quoted (skr_Name ref) @ '' from namespace '' @ quoted (skr_Namespace ref)))))"

text \<open>\<open>value.ValueFrom.SecretKeyRef\<close> of a pointer, dereferenced.\<close>

definition derefSecretRef :: "ValueType \<Rightarrow> (SecretKeyRef \<Rightarrow> 'a go) \<Rightarrow> 'a go" where
  "derefSecretRef v k = gderef (vt_ValueFrom v) (\<lambda>vf. gderef (vfs_SecretKeyRef vf) k)"

definition getEnvConfigSecret ::
    "secret_reader \<Rightarrow> string \<Rightarrow> ValueType \<Rightarrow> (go_error, string \<rightharpoonup> string) result go" where
  "getEnvConfigSecret get prefix v =
     derefSecretRef v (\<lambda>ref. Ret (getSecretData get ref (refEnvVarName prefix ref)))"

definition shouldCopySecret :: "ValueType option \<Rightarrow> bool" where
  "shouldCopySecret v =
     (case v of
        None \<Rightarrow> False
      | Some vt \<Rightarrow> vt_Value vt = [] \<and> Option.bind (vt_ValueFrom vt) vfs_SecretKeyRef \<noteq> None)"

definition getFromValueOrSecret ::
    "secret_reader \<Rightarrow> ValueType \<Rightarrow> string \<Rightarrow> (go_error, string \<rightharpoonup> string) result go" where
  "getFromValueOrSecret get v targetKey =
     (if vt_Value v \<noteq> [] then Ret (Inr [targetKey \<mapsto> vt_Value v])
      else gwrap (\<lambda>e. Errorf ''unable to get secret data: '' e [])
             (derefSecretRef v (\<lambda>ref. Ret (getSecretData get ref targetKey))))"

definition copyEnvSecret ::
    "secret_reader \<Rightarrow> string \<Rightarrow> string \<Rightarrow> ValueType option \<Rightarrow> (string \<rightharpoonup> string) \<Rightarrow> (go_error, string \<rightharpoonup> string) result go" where
  "copyEnvSecret get name what v env =
     (if shouldCopySecret v
      then gderef v (\<lambda>vt. grbind (gwrap (\<lambda>e. Errorf what e []) (getEnvConfigSecret get name vt))
             (\<lambda>secret. Ret (Inr (env ++ secret))))
      else Ret (Inr env))"

definition extractHTTPSecrets ::
    "secret_reader \<Rightarrow> LogPipeline \<Rightarrow> (string \<rightharpoonup> string) \<Rightarrow> (go_error, string \<rightharpoonup> string) result go" where
  "extractHTTPSecrets get p env =
     (case lo_FluentBitHTTP (ls_Output (lp_Spec p)) of
        None \<Rightarrow> Ret (Inr env)
      | Some h \<Rightarrow>
          grbind (copyEnvSecret get (lp_Name p) ''failed to get host secret: '' (Some (fh_Host h)) env) (\<lambda>env1.
          grbind (copyEnvSecret get (lp_Name p) ''failed to get user secret: '' (fh_User h) env1) (\<lambda>env2.
          copyEnvSecret get (lp_Name p) ''failed to get password secret: '' (fh_Password h) env2)))"

definition copyVariable ::
    "secret_reader \<Rightarrow> FluentBitVariable \<Rightarrow> (string \<rightharpoonup> string) \<Rightarrow> (go_error, string \<rightharpoonup> string) result go" where
  "copyVariable get var env =
     (case vfs_SecretKeyRef (fbv_ValueFrom var) of
        None \<Rightarrow> Ret (Inr env)
      | Some ref \<Rightarrow>
          grbind (gwrap (\<lambda>e. Errorf ''failed to get variable secret: '' e []) (Ret (getSecretData get ref (fbv_Name var))))
            (\<lambda>secret. Ret (Inr (env ++ secret))))"

definition extractVariableSecrets ::
    "secret_reader \<Rightarrow> LogPipeline \<Rightarrow> (string \<rightharpoonup> string) \<Rightarrow> (go_error, string \<rightharpoonup> string) result go" where
  "extractVariableSecrets get p = range_state (copyVariable get) (ls_FluentBitVariables (lp_Spec p))"

definition buildEnvConfigSecret ::
    "secret_reader \<Rightarrow> LogPipeline list \<Rightarrow> (go_error, string \<rightharpoonup> string) result go" where
  "buildEnvConfigSecret get ps =
     range_state (\<lambda>p env. grbind (extractHTTPSecrets get p env) (extractVariableSecrets get p)) ps Map.empty"

text \<open>The files of one pipeline.  Only the certificate and the key have their line breaks restored.\<close>

definition addTLSFiles ::
    "secret_reader \<Rightarrow> LogPipeline \<Rightarrow> (string \<rightharpoonup> string) \<Rightarrow> (go_error, string \<rightharpoonup> string) result go" where
  "addTLSFiles get p files =
     (if \<not> IsHTTPOutputDefined (ls_Output (lp_Spec p)) then Ret (Inr files)
      else gderef (lo_FluentBitHTTP (ls_Output (lp_Spec p))) (\<lambda>h.
        let tls = fh_TLS h; certFile = lp_Name p @ ''-cert.crt''; keyFile = lp_Name p @ ''-key.key'' in
        grbind
          (if IsValid (tls_CA tls)
           then gderef (tls_CA tls) (\<lambda>ca.
                  grbind (gwrap (\<lambda>e. Errorf ''failed to get CA secret data: '' e [])
                      (getFromValueOrSecret get ca (lp_Name p @ ''-ca.crt'')))
                    (\<lambda>caData. Ret (Inr (files ++ caData))))
           else Ret (Inr files))
        (\<lambda>files1.
          if IsValid (tls_Cert tls) \<and> IsValid (tls_Key tls)
          then gderef (tls_Cert tls) (\<lambda>cert. gderef (tls_Key tls) (\<lambda>key.
                 grbind (gwrap (\<lambda>e. Errorf ''failed to get cert secret data: '' e []) (getFromValueOrSecret get cert certFile))
                 (\<lambda>certData.
                 grbind (gwrap (\<lambda>e. Errorf ''failed to get key secret data: '' e []) (getFromValueOrSecret get key keyFile))
                 (\<lambda>keyData.
                   Ret (Inr (files1 ++ certData(certFile \<mapsto> sanitizeValue (deref (certData certFile) [])) ++
                             keyData(keyFile \<mapsto> sanitizeValue (deref (keyData keyFile) []))))))))
          else Ret (Inr files1))))"

definition buildTLSFileConfigSecret ::
    "secret_reader \<Rightarrow> LogPipeline list \<Rightarrow> (go_error, string \<rightharpoonup> string) result go" where
  "buildTLSFileConfigSecret get ps = range_state (addTLSFiles get) ps Map.empty"

definition buildFluentBitFilesConfig :: "LogPipeline \<Rightarrow> (string \<rightharpoonup> string)" where
  "buildFluentBitFilesConfig p =
     fold (\<lambda>file m. m(file_Name file \<mapsto> file_Content file)) (ls_FluentBitFiles (lp_Spec p)) Map.empty"

section \<open>The builder\<close>

record FluentBitConfig =
  fc_SectionsConfig :: "string \<rightharpoonup> string"
  fc_FilesConfig :: "string \<rightharpoonup> string"
  fc_EnvConfigSecret :: "string \<rightharpoonup> string"
  fc_TLSConfigSecret :: "string \<rightharpoonup> string"

definition NewFluentBitConfigBuilder :: builderConfig where
  "NewFluentBitConfigBuilder =
     \<lparr>bc_InputTag = ''tele'', bc_MemoryBufferLimit = ''10M'', bc_StorageType = ''filesystem'', bc_FsBufferLimit = ''1G'',
      bc_collectAgentLogs = False\<rparr>"

definition addPipelineConfig ::
    "secret_reader \<Rightarrow> LogPipeline list \<Rightarrow> string \<Rightarrow> LogPipeline \<Rightarrow> FluentBitConfig \<Rightarrow> (go_error, FluentBitConfig) result go" where
  "addPipelineConfig get allPipelines clusterName p config =
     grbind (gwrap (\<lambda>e. Errorf ''unable to build section: '' e [])
         (Ret (buildFluentBitSectionsConfig p NewFluentBitConfigBuilder clusterName))) (\<lambda>sections.
     grbind (gwrap (\<lambda>e. Errorf ''unable to build env config: '' e []) (buildEnvConfigSecret get allPipelines)) (\<lambda>env.
     grbind (gwrap (\<lambda>e. Errorf ''unable to build tls secret: '' e []) (buildTLSFileConfigSecret get allPipelines)) (\<lambda>tls.
       Ret (Inr
         \<lparr>fc_SectionsConfig = (fc_SectionsConfig config)(lp_Name p @ ''.conf'' \<mapsto> sections),
          fc_FilesConfig = fc_FilesConfig config ++ buildFluentBitFilesConfig p,
          fc_EnvConfigSecret = fc_EnvConfigSecret config ++ env,
          fc_TLSConfigSecret = fc_TLSConfigSecret config ++ tls\<rparr>))))"

definition fluentbit_Build ::
    "secret_reader \<Rightarrow> LogPipeline list \<Rightarrow> string \<Rightarrow> (go_error, FluentBitConfig) result go" where
  "fluentbit_Build get allPipelines clusterName =
     range_state (addPipelineConfig get allPipelines clusterName) allPipelines
       \<lparr>fc_SectionsConfig = Map.empty, fc_FilesConfig = Map.empty, fc_EnvConfigSecret = Map.empty,
        fc_TLSConfigSecret = Map.empty\<rparr>"

section \<open>Validation\<close>

abbreviation alnum :: "char \<Rightarrow> bool" where
  "alnum c \<equiv> (let n = (of_char c :: nat) in 48 \<le> n \<and> n \<le> 57 \<or> 65 \<le> n \<and> n \<le> 90 \<or> 97 \<le> n \<and> n \<le> 122)"

text \<open>\<open>[a-zA-Z0-9]|[a-zA-Z0-9][a-zA-Z0-9\-]*[a-zA-Z0-9]\<close>, and the names of such labels with dots.\<close>

definition hostLabel :: rx where
  "hostLabel = Alt (Class alnum) (Seq (Class alnum) (Seq (Star (Class (\<lambda>c. alnum c \<or> c = CHR ''-''))) (Class alnum)))"

definition validHostNamePattern :: rx where
  "validHostNamePattern = Seq (Star (Seq hostLabel (Class (\<lambda>c. c = CHR ''.'')))) hostLabel"

definition isValidHostname :: "string \<Rightarrow> bool" where
  "isValidHostname host = MatchString validHostNamePattern (trimBlanks host)"

definition validateFileNames :: "LogPipeline \<Rightarrow> go_error option" where
  "validateFileNames p =
     (let files = ls_FluentBitFiles (lp_Spec p)
      in if card (set (map file_Name files)) \<noteq> length files
         then Some (NewError ''duplicate file names detected please review your pipeline'') else None)"

abbreviation forbiddenFilters :: "string list" where "forbiddenFilters \<equiv> [''kubernetes'', ''rewrite_tag'']"

definition validateCustomFilter :: "string \<Rightarrow> go_error option" where
  "validateCustomFilter content =
     (if content = [] then None
      else case ParseCustomSection content of
          Inl e \<Rightarrow> Some e
        | Inr sect \<Rightarrow>
            (case GetByKey sect ''name'' of
               None \<Rightarrow> Some (NewError ''custom filter configuration must have name attribute'')
             | Some p \<Rightarrow>
                 let pluginName = pm_Value p
                 in if list_ex (EqualFold pluginName) forbiddenFilters
                    then Some (NewError (''custom filter plugin '' @ quoted pluginName @ '' is not supported. ''))
                    else if ContainsKey sect ''match''
                    then Some (NewError (''custom filter plugin '' @ quoted pluginName @
                           '' contains match condition. Match conditions are forbidden''))
                    else None))"

definition validateFilters :: "LogPipeline \<Rightarrow> go_error option" where
  "validateFilters p = range_check (\<lambda>f. validateCustomFilter (fbf_Custom f)) (ls_FluentBitFilters (lp_Spec p))"

definition validateCustomOutput :: "string \<Rightarrow> go_error option" where
  "validateCustomOutput content =
     (if content = [] then None
      else case ParseCustomSection content of
          Inl e \<Rightarrow> Some e
        | Inr sect \<Rightarrow>
            (case GetByKey sect ''name'' of
               None \<Rightarrow> Some (NewError ''custom output configuration section must have name attribute'')
             | Some p \<Rightarrow>
                 let pluginName = pm_Value p
                 in if ContainsKey sect ''match''
                    then Some (NewError (''custom output plugin '' @ quoted pluginName @
                           '' contains match condition. Match conditions are forbidden''))
                    else if ContainsKey sect ''storage.total_limit_size''
                    then Some (NewError (''custom output plugin '' @ quoted pluginName @
                           '' contains forbidden configuration key '' @ quoted ''storage.total_limit_size''))
                    else None))"

definition http_tlsValidationRequired :: "FluentBitHTTPOutput option \<Rightarrow> bool" where
  "http_tlsValidationRequired http =
     (case http of
        None \<Rightarrow> False
      | Some h \<Rightarrow> tls_Cert (fh_TLS h) \<noteq> None \<or> tls_Key (fh_TLS h) \<noteq> None \<or> tls_CA (fh_TLS h) \<noteq> None)"

definition validateHTTPOutput :: "LogPipeline Validator \<Rightarrow> FluentBitHTTPOutput option \<Rightarrow> go_error option go" where
  "validateHTTPOutput v http =
     gcheck (case http of
          None \<Rightarrow> Ret None
        | Some h \<Rightarrow> v_Endpoint v \<lparr>evp_Endpoint = Some (fh_Host h), evp_Protocol = FluentdProtocolHTTP,
                     evp_OutputTLS = None, evp_OTLPOAuth2 = None\<rparr>)
       (if http_tlsValidationRequired http then gderef http (\<lambda>h. Ret (v_TLSCert v (tlsParams (fh_TLS h)))) else Ret None)"

definition validateHostname :: "FluentBitHTTPOutput option \<Rightarrow> go_error option" where
  "validateHostname http =
     (case http of
        None \<Rightarrow> None
      | Some h \<Rightarrow>
          if vt_Value (fh_Host h) \<noteq> [] \<and> \<not> isValidHostname (vt_Value (fh_Host h))
          then Some (NewError (''invalid hostname '' @ quoted (vt_Value (fh_Host h)))) else None)"

text \<open>\<open>Validate\<close> after the lock was acquired.\<close>

definition fluentbit_checks :: "LogPipeline Validator \<Rightarrow> LogPipeline \<Rightarrow> go_error option go" where
  "fluentbit_checks v p =
     gcheck (v_SecretRef v p)
     (gcheck (validateHTTPOutput v (lo_FluentBitHTTP (ls_Output (lp_Spec p))))
     (gcheck (Ret (validateFileNames p))
     (gcheck (Ret (validateFilters p))
     (gcheck (Ret (validateCustomOutput (lo_FluentBitCustom (ls_Output (lp_Spec p)))))
       (Ret (validateHostname (lo_FluentBitHTTP (ls_Output (lp_Spec p)))))))))"

text \<open>The validator acquires a place in the lock for the pipeline it validates.\<close>

definition fluentbit_Validate ::
    "LogPipeline Validator \<Rightarrow> (ObjectMeta \<Rightarrow> 's \<Rightarrow> 's \<times> go_error option) \<Rightarrow> LogPipeline \<Rightarrow> 's \<Rightarrow>
      ('s \<times> go_error option) go" where
  "fluentbit_Validate v tryAcquireLock p s =
     (case tryAcquireLock (lp_ObjectMeta p) s of
        (s', Some e) \<Rightarrow> Ret (s', Some e)
      | (s', None) \<Rightarrow> gbind (fluentbit_checks v p) (\<lambda>err. Ret (s', err)))"

section \<open>Reading a section back\<close>

text \<open>Trimming on either side.\<close>

definition rtrim :: "string \<Rightarrow> string" where
  "rtrim s = rev (dropWhile isSpace (rev s))"

lemma TrimSpace_eq: "TrimSpace s = rtrim (dropWhile isSpace s)"
  by (simp add: TrimSpace_def rtrim_def)

lemma rtrim_Nil [simp]: "rtrim [] = []" and rtrim_single: "rtrim [c] = (if isSpace c then [] else [c])"
  by (simp_all add: rtrim_def)

lemma rtrim_append:
  "rtrim (a @ b) = (if \<forall>c\<in>set b. isSpace c then rtrim a else a @ rtrim b)"
  by (simp add: rtrim_def dropWhile_append)

lemma rtrim_append_blank: "\<forall>c\<in>set b. isSpace c \<Longrightarrow> rtrim (a @ b) = rtrim a"
  by (simp add: rtrim_append)

lemma rtrim_Cons: "rtrim (c # t) = (if \<forall>d\<in>set t. isSpace d then rtrim [c] else c # rtrim t)"
  using rtrim_append [of "[c]" t] by (simp only: append_Cons append_Nil)

lemma rtrim_eq_Nil: "rtrim s = [] \<longleftrightarrow> (\<forall>c\<in>set s. isSpace c)"
  by (auto simp: rtrim_def dropWhile_eq_Nil_conv)

lemma rtrim_id: "s = [] \<or> \<not> isSpace (last s) \<Longrightarrow> rtrim s = s"
  by (cases s rule: rev_cases) (auto simp: rtrim_def)

lemma rtrim_last: "rtrim s \<noteq> [] \<Longrightarrow> \<not> isSpace (last (rtrim s))"
  by (simp add: rtrim_def last_rev hd_dropWhile)

lemma set_rtrim: "c \<in> set (rtrim s) \<Longrightarrow> c \<in> set s"
  by (auto simp: rtrim_def dest: set_dropWhileD)

lemma set_TrimSpace: "c \<in> set (TrimSpace s) \<Longrightarrow> c \<in> set s"
  by (auto simp: TrimSpace_eq dest!: set_rtrim set_dropWhileD)

lemma rtrim_hd: "rtrim s \<noteq> [] \<Longrightarrow> hd (rtrim s) = hd s"
  by (metis Nil_is_rev_conv append.right_neutral hd_append2 rev_append rev_rev_ident rtrim_def takeWhile_dropWhile_id)

lemma TrimSpace_blank: "\<forall>c\<in>set s. isSpace c \<Longrightarrow> TrimSpace s = []"
  by (metis TrimSpace_eq dropWhile_eq_Nil_conv rtrim_Nil)

lemma TrimSpace_ends:
  assumes "TrimSpace s \<noteq> []"
  shows "\<not> isSpace (hd (TrimSpace s))" "\<not> isSpace (last (TrimSpace s))"
proof -
  have "dropWhile isSpace s \<noteq> []" using assms by (metis TrimSpace_eq rtrim_Nil)
  then show "\<not> isSpace (hd (TrimSpace s))" using assms by (simp add: TrimSpace_eq rtrim_hd hd_dropWhile)
  show "\<not> isSpace (last (TrimSpace s))" using assms by (simp add: TrimSpace_eq rtrim_last)
qed

lemma TrimSpace_id: "s = [] \<or> \<not> isSpace (hd s) \<and> \<not> isSpace (last s) \<Longrightarrow> TrimSpace s = s"
  by (cases s) (auto simp: TrimSpace_eq rtrim_id)

lemma TrimSpace_rtrim: "\<not> (\<forall>c\<in>set s. isSpace c) \<Longrightarrow> TrimSpace (replicate n CHR '' '' @ rtrim s) = TrimSpace s"
proof -
  assume s: "\<not> (\<forall>c\<in>set s. isSpace c)"
  have blank: "dropWhile isSpace (replicate n CHR '' '' @ t) = dropWhile isSpace t" for t
    by (induction n) (simp_all add: isSpace_def)
  have "rtrim (dropWhile isSpace (rtrim t)) = rtrim (dropWhile isSpace t)" for t
  proof (induction t)
    case (Cons c t)
    show ?case
    proof (cases "\<forall>d\<in>set t. isSpace d")
      case True
      have "rtrim (dropWhile isSpace t) = []" using TrimSpace_blank [OF True] by (simp add: TrimSpace_eq)
      then show ?thesis using True by (simp add: rtrim_Cons [of c t] rtrim_single)
    next
      case False
      have "rtrim (c # rtrim t) = c # rtrim t"
        by (rule rtrim_id) (use False rtrim_last [of t] in \<open>auto simp: rtrim_eq_Nil\<close>)
      moreover have "rtrim (c # t) = c # rtrim t" using False by (simp only: rtrim_Cons [of c t] if_False)
      ultimately show ?thesis using Cons.IH by simp
    qed
  qed (simp add: rtrim_def)
  then show ?thesis by (simp add: TrimSpace_eq blank)
qed

subsection \<open>Lines\<close>

lemma splitLines_not_Nil [simp]: "splitLines s \<noteq> []"
  by (cases s) (auto split: list.split)

lemma splitLines_append: "splitLines (a @ newline # b) = splitLines a @ splitLines b"
  by (induction a) (auto split: list.split)

lemma splitLines_single: "newline \<notin> set s \<Longrightarrow> splitLines s = [s]"
  by (induction s) auto

lemma splitLines_newline_free: "l \<in> set (splitLines s) \<Longrightarrow> newline \<notin> set l"
  by (induction s arbitrary: l) (fastforce split: list.splits if_splits)+

lemma parseMultiline_append: "parseMultiline (a @ newline # b) = parseMultiline a @ parseMultiline b"
  by (simp add: parseMultiline_def splitLines_append)

lemma lineParams_Nil [simp]: "lineParams [] = []"
  by (simp add: lineParams_def parseLine_def TrimSpace_def)

lemma parseMultiline_Nil [simp]: "parseMultiline [] = []"
  by (simp add: parseMultiline_def)

lemma parseMultiline_newline: "parseMultiline (a @ [newline]) = parseMultiline a"
  using parseMultiline_append [of a "[]"] by simp

lemma Cut_None: "CHR '' '' \<notin> set s \<Longrightarrow> Cut s = None"
  by (induction s) auto

lemma Cut_Some: "CHR '' '' \<notin> set k \<Longrightarrow> Cut (k @ CHR '' '' # v) = Some (k, v)"
  by (induction k) auto

lemma Cut_SomeD: "Cut s = Some (k, v) \<Longrightarrow> CHR '' '' \<notin> set k \<and> s = k @ CHR '' '' # v"
  by (induction s arbitrary: k) (auto split: if_splits)

text \<open>A key as the parser returns it.\<close>

definition plain_key :: "string \<Rightarrow> bool" where
  "plain_key k \<longleftrightarrow> k \<noteq> [] \<and> hd k \<noteq> CHR ''#'' \<and> CHR '' '' \<notin> set k \<and> newline \<notin> set k \<and>
     \<not> isSpace (hd k) \<and> \<not> isSpace (last k) \<and> ToLower k = k"

lemma toLowerChar_idem: "toLowerChar (toLowerChar c) = toLowerChar c"
proof -
  have "of_char (char_of (n + 32) :: char) = n + 32" if "n \<le> 90" for n :: nat
    using that by simp
  then show ?thesis by (auto simp: toLowerChar_def Let_def)
qed

lemma ToLower_idem: "ToLower (ToLower s) = ToLower s"
  by (simp add: ToLower_def toLowerChar_idem)

lemma toLowerChar_eq: "d \<notin> {c. 97 \<le> (of_char c :: nat) \<and> (of_char c :: nat) \<le> 122} \<Longrightarrow> toLowerChar c = d \<Longrightarrow> c = d"
  by (auto simp: toLowerChar_def Let_def split: if_splits)

lemma toLowerChar_simps:
  "toLowerChar c = CHR '' '' \<Longrightarrow> c = CHR '' ''" "toLowerChar c = CHR ''#'' \<Longrightarrow> c = CHR ''#''"
  "toLowerChar c = newline \<Longrightarrow> c = newline"
  by (rule toLowerChar_eq [rotated], assumption, simp)+

lemma isSpace_toLowerChar: "isSpace (toLowerChar c) = isSpace c"
proof
  assume "isSpace (toLowerChar c)"
  then have "toLowerChar c = c"
    using toLowerChar_eq [of "toLowerChar c" c] by (auto simp: isSpace_def)
  with \<open>isSpace (toLowerChar c)\<close> show "isSpace c" by simp
next
  assume "isSpace c"
  then show "isSpace (toLowerChar c)" by (auto simp: isSpace_def toLowerChar_def)
qed

lemma plain_key_ToLower:
  assumes "w \<noteq> []" and "hd w \<noteq> CHR ''#''" and "CHR '' '' \<notin> set w" and "newline \<notin> set w"
    and "\<not> isSpace (hd w)" and "\<not> isSpace (last w)"
  shows "plain_key (ToLower w)"
proof -
  have "CHR '' '' \<notin> toLowerChar ` set w" "newline \<notin> toLowerChar ` set w"
    using assms(3,4) by (metis imageE toLowerChar_simps(1), metis imageE toLowerChar_simps(3))
  moreover have "toLowerChar (hd w) \<noteq> CHR ''#''" using assms(2) toLowerChar_simps(2) by blast
  ultimately show ?thesis using assms(1,5,6) ToLower_idem [of w]
    by (simp add: plain_key_def ToLower_def hd_map last_map isSpace_toLowerChar)
qed

lemma plain_key_parsed:
  assumes "parseLine l = ParamLine p" and "newline \<notin> set l"
  shows "plain_key (pm_Key p) \<and> newline \<notin> set (pm_Value p)"
proof -
  define line where "line = TrimSpace l"
  obtain key v where line: "line \<noteq> []" "\<not> HasPrefix line ''#''" and cut: "Cut line = Some (key, v)"
    and p: "p = \<lparr>pm_Key = ToLower (TrimSpace key), pm_Value = TrimSpace v\<rparr>"
    using assms(1) by (auto simp: parseLine_def line_def Let_def split: if_splits option.splits)
  from Cut_SomeD [OF cut] have key: "CHR '' '' \<notin> set key" and split: "line = key @ CHR '' '' # v" by auto
  have hd: "\<not> isSpace (hd line)" using TrimSpace_ends(1) [of l] line(1) by (simp add: line_def)
  have "key \<noteq> []" using hd split by (auto simp: isSpace_def)
  then have hdk: "hd key = hd line" using split by simp
  have "TrimSpace key \<noteq> []"
    using \<open>key \<noteq> []\<close> hd hdk by (cases key) (auto simp: TrimSpace_eq rtrim_eq_Nil)
  moreover have "hd (TrimSpace key) = hd line"
    using \<open>key \<noteq> []\<close> hd hdk calculation by (cases key) (auto simp: TrimSpace_eq rtrim_hd)
  moreover have "hd line \<noteq> CHR ''#''" using line by (cases line) (auto simp: HasPrefix_def)
  moreover have "newline \<notin> set line" using assms(2) set_TrimSpace [of newline l] by (auto simp: line_def)
  moreover have "CHR '' '' \<notin> set (TrimSpace key)" using key set_TrimSpace by blast
  moreover have "newline \<notin> set (TrimSpace key)" "newline \<notin> set (TrimSpace v)"
    using \<open>newline \<notin> set line\<close> split by (auto dest: set_TrimSpace)
  ultimately show ?thesis using TrimSpace_ends [of key] by (simp add: p plain_key_ToLower)
qed

lemma parseMultiline_plain:
  "p \<in> set (parseMultiline s) \<Longrightarrow> plain_key (pm_Key p) \<and> newline \<notin> set (pm_Value p)"
  using plain_key_parsed splitLines_newline_free
  by (fastforce simp: parseMultiline_def lineParams_def split: parsed_line.splits)

text \<open>A rendered parameter is read back with its key, unless its value is blank.\<close>

lemma lineParams_rendered:
  assumes "plain_key k"
  shows "lineParams (replicate 4 CHR '' '' @ k @ replicate (Suc n) CHR '' '' @ v) =
    (if \<forall>c\<in>set v. isSpace c then [] else [\<lparr>pm_Key = k, pm_Value = TrimSpace v\<rparr>])"
proof -
  have k: "k \<noteq> []" "\<not> isSpace (hd k)" "\<not> isSpace (last k)" "CHR '' '' \<notin> set k" "hd k \<noteq> CHR ''#''" "ToLower k = k"
    using assms by (simp_all add: plain_key_def)
  have left: "dropWhile isSpace (replicate 4 CHR '' '' @ k @ w) = k @ w" for w
    using k(1,2) by (cases k) (simp_all add: isSpace_def numeral_eq_Suc)
  have blank: "isSpace CHR '' ''" by (simp add: isSpace_def)
  have kk: "TrimSpace k = k" using k by (simp add: TrimSpace_id)
  show ?thesis
  proof (cases "\<forall>c\<in>set v. isSpace c")
    case True
    then have "\<forall>c\<in>set (replicate (Suc n) CHR '' '' @ v). isSpace c" using blank by auto
    then have "TrimSpace (replicate 4 CHR '' '' @ k @ replicate (Suc n) CHR '' '' @ v) = k"
      unfolding TrimSpace_eq left using k(3) by (simp only: rtrim_append_blank rtrim_id simp_thms)
    then show ?thesis using True k by (simp add: lineParams_def parseLine_def Cut_None)
  next
    case False
    then have "TrimSpace (replicate 4 CHR '' '' @ k @ replicate (Suc n) CHR '' '' @ v) =
        k @ CHR '' '' # replicate n CHR '' '' @ rtrim v"
      using rtrim_append [of "k @ replicate (Suc n) CHR '' ''" v]
      by (simp only: TrimSpace_eq left) (auto simp: rtrim_append)
    moreover have "\<not> HasPrefix (k @ w) ''#''" for w
      using k(1,5) by (cases k) (simp_all add: HasPrefix_def)
    ultimately show ?thesis using False k kk TrimSpace_rtrim [OF False, of n]
      by (simp add: lineParams_def parseLine_def Cut_Some Let_def)
  qed
qed

subsection \<open>Sections\<close>

lemma set_param_insert: "set (param_insert x ys) = insert x (set ys)"
  by (induction ys) auto

lemma set_param_sort [simp]: "set (param_sort ps) = set ps"
  by (induction ps) (simp_all add: param_sort_def set_param_insert)

text \<open>Every call on the builder adds a list of parameters.\<close>

lemma steps:
  "AddConfigParam k v = addParams [\<lparr>pm_Key = k, pm_Value = v\<rparr>]"
  "AddIfNotEmpty k v = addParams (if v = [] then [] else [\<lparr>pm_Key = k, pm_Value = v\<rparr>])"
  "AddIfNotEmptyOrDefault k v d = addParams [\<lparr>pm_Key = k, pm_Value = if v = [] then d else v\<rparr>]"
  "doIf c (addParams ps) = addParams (if c then ps else [])"
  "addIfValid k w name = addParams (case w of
     None \<Rightarrow> [] | Some vt \<Rightarrow> if IsValid w then [\<lparr>pm_Key = k, pm_Value = fluentbit_resolveValue vt name\<rparr>] else [])"
  by (auto simp: fun_eq_iff addParams_def AddIfNotEmpty_def AddIfNotEmptyOrDefault_def doIf_def addIfValid_def
      split: option.split)

lemma chain_simps:
  "chain [addParams ps] = addParams ps"
  "chain (addParams ps # addParams qs # fs) = chain (addParams (ps @ qs) # fs)"
  by (simp_all add: chain_def addParams_def fun_eq_iff)

lemma sb_addParams:
  "sb_builder (addParams ps sb) = sb_builder sb"
  "sb_params (addParams ps sb) = sb_params sb @ map (\<lambda>p. p\<lparr>pm_Key := ToLower (pm_Key p)\<rparr>) ps"
  by (induction ps arbitrary: sb) (auto simp: addParams_def AddConfigParam_def)

lemma keyLen_addParams: "sb_keyLen sb \<le> sb_keyLen (addParams ps sb)"
proof (induction ps arbitrary: sb)
  case (Cons p ps)
  have "sb_keyLen sb \<le> sb_keyLen (AddConfigParam (pm_Key p) (pm_Value p) sb)" by (simp add: AddConfigParam_def)
  also note Cons.IH
  finally show ?case by (simp add: addParams_def)
qed (simp add: addParams_def)

lemma addParams_keyLen: "p \<in> set ps \<Longrightarrow> length (pm_Key p) \<le> sb_keyLen (addParams ps sb)"
proof (induction ps arbitrary: sb)
  case (Cons q ps)
  show ?case
  proof (cases "p = q")
    case True
    then have "length (pm_Key p) \<le> sb_keyLen (AddConfigParam (pm_Key q) (pm_Value q) sb)"
      by (simp add: AddConfigParam_def)
    also have "\<dots> \<le> sb_keyLen (addParams (q # ps) sb)"
      using keyLen_addParams [of "AddConfigParam (pm_Key q) (pm_Value q) sb" ps] by (simp add: addParams_def)
    finally show ?thesis .
  next
    case False
    with Cons show ?thesis by (simp add: addParams_def)
  qed
qed simp

definition readBack :: "Parameter \<Rightarrow> Parameter list" where
  "readBack p = (if \<forall>c\<in>set (pm_Value p). isSpace c then [] else [p\<lparr>pm_Value := TrimSpace (pm_Value p)\<rparr>])"

definition plain_param :: "Parameter \<Rightarrow> bool" where
  "plain_param p \<longleftrightarrow> plain_key (pm_Key p) \<and> newline \<notin> set (pm_Value p)"

lemma parseMultiline_rendered:
  assumes "\<forall>p\<in>set ps. plain_param p \<and> length (pm_Key p) \<le> n"
  shows "parseMultiline (concat (map (renderParam n) ps) @ rest) = concat (map readBack ps) @ parseMultiline rest"
  using assms
proof (induction ps)
  case (Cons p ps)
  define line where "line = replicate 4 CHR '' '' @ pm_Key p @ replicate (Suc (n - length (pm_Key p))) CHR '' '' @ pm_Value p"
  have r: "renderParam n p = line @ [newline]"
    using Cons.prems by (simp add: renderParam_def line_def Suc_diff_le)
  have "newline \<notin> set line" using Cons.prems by (auto simp: line_def plain_param_def plain_key_def)
  then have "parseMultiline line = lineParams line" by (simp add: parseMultiline_def splitLines_single)
  also have "\<dots> = readBack p"
    using Cons.prems lineParams_rendered [of "pm_Key p" "n - length (pm_Key p)" "pm_Value p"]
    by (simp add: line_def readBack_def plain_param_def)
  finally show ?case using Cons
      parseMultiline_append [of line "concat (map (renderParam n) ps) @ rest"] by (simp add: r)
qed simp

lemma parse_section:
  assumes "\<forall>p\<in>set ps. plain_param p" and "parseMultiline h = []"
  shows "parseMultiline (Build_section (addParams ps (newSection h))) = concat (map readBack (param_sort ps))"
proof -
  have "map (\<lambda>p. p\<lparr>pm_Key := ToLower (pm_Key p)\<rparr>) ps = ps"
    using assms(1) by (intro map_idI) (simp add: plain_param_def plain_key_def)
  then have "parseMultiline (Build_section (addParams ps (newSection h))) =
      parseMultiline (h @ newline # concat (map (renderParam (sb_keyLen (addParams ps (newSection h)))) (param_sort ps)) @ [newline])"
    by (simp add: Build_section_def sb_addParams newSection_def)
  also have "\<dots> = concat (map readBack (param_sort ps))"
    using assms parseMultiline_rendered [of "param_sort ps" _ "[newline]"] parseMultiline_newline [of "[]"]
    by (simp add: parseMultiline_append addParams_keyLen)
  finally show ?thesis .
qed

section \<open>Sections match the records of their own pipeline\<close>

definition matchValues :: "string \<Rightarrow> string list" where
  "matchValues text = map pm_Value (filter (\<lambda>p. pm_Key p = ''match'') (parseMultiline text))"

text \<open>A text of whole sections all of whose matches are \<open>m\<close>.\<close>

definition owned :: "string \<Rightarrow> string \<Rightarrow> bool" where
  "owned m text \<longleftrightarrow> (text = [] \<or> last text = newline) \<and> set (matchValues text) \<subseteq> {m}"

lemma matchValues_append: "a = [] \<or> last a = newline \<Longrightarrow> matchValues (a @ b) = matchValues a @ matchValues b"
proof -
  assume a: "a = [] \<or> last a = newline"
  show ?thesis
  proof (cases "a = []")
    case False
    with a obtain c where "a = c @ [newline]" by (metis append_butlast_last_id)
    then show ?thesis by (simp add: matchValues_def parseMultiline_append parseMultiline_newline)
  qed (simp add: matchValues_def)
qed

lemma owned_Nil [simp]: "owned m []"
  by (simp add: owned_def matchValues_def)

lemma owned_append [intro]: "owned m a \<Longrightarrow> owned m b \<Longrightarrow> owned m (a @ b)"
  by (auto simp: owned_def matchValues_append last_append)

lemma owned_newline: "owned m [newline]"
  using parseMultiline_newline [of "[]"] by (simp add: owned_def matchValues_def)

lemma owned_Join: "\<forall>x\<in>set xs. owned m x \<Longrightarrow> owned m (Join xs [newline])"
proof (induction xs "[newline]" rule: Join.induct)
  case (3 x y xs)
  then show ?case using owned_append [OF owned_append [OF _ owned_newline]] by fastforce
qed simp_all

definition param_owned :: "string \<Rightarrow> Parameter \<Rightarrow> bool" where
  "param_owned m p \<longleftrightarrow> plain_param p \<and> (pm_Key p = ''match'' \<longrightarrow> TrimSpace (pm_Value p) = m)"

lemma owned_section:
  assumes "\<forall>p\<in>set ps. param_owned m p" and "parseMultiline h = []"
  shows "owned m (Build_section (addParams ps (newSection h)))"
proof -
  have "parseMultiline (Build_section (addParams ps (newSection h))) = concat (map readBack (param_sort ps))"
    using assms by (intro parse_section) (simp_all add: param_owned_def)
  then have "set (matchValues (Build_section (addParams ps (newSection h)))) \<subseteq> {m}"
    using assms(1) by (auto simp: matchValues_def param_owned_def readBack_def)
  then show ?thesis by (simp add: owned_def Build_section_def)
qed

lemma headers: "parseMultiline ''[INPUT]'' = []" "parseMultiline ''[FILTER]'' = []" "parseMultiline ''[OUTPUT]'' = []"
  by code_simp+

lemma plain_keys [simp]:
  "plain_key ''name''" "plain_key ''match''" "plain_key ''alias''" "plain_key ''path''" "plain_key ''exclude_path''"
  "plain_key ''multiline.parser''" "plain_key ''tag''" "plain_key ''skip_long_lines''" "plain_key ''db''"
  "plain_key ''db.compare_filename''" "plain_key ''storage.type''" "plain_key ''read_from_head''"
  "plain_key ''mem_buf_limit''" "plain_key ''record''" "plain_key ''merge_log''" "plain_key ''k8s-logging.parser''"
  "plain_key ''k8s-logging.exclude''" "plain_key ''kube_tag_prefix''" "plain_key ''regex_parser''"
  "plain_key ''annotations''" "plain_key ''labels''" "plain_key ''buffer_size''" "plain_key ''keep_log''"
  "plain_key ''copy''" "plain_key ''script''" "plain_key ''call''"
  by code_simp+

lemma plain_output_keys [simp]:
  "plain_key ''allow_duplicated_headers''" "plain_key ''storage.total_limit_size''"
  "plain_key ''retry_limit''" "plain_key ''uri''" "plain_key ''compress''" "plain_key ''port''" "plain_key ''format''"
  "plain_key ''json_date_format''" "plain_key ''host''" "plain_key ''http_passwd''" "plain_key ''http_user''"
  "plain_key ''tls''" "plain_key ''tls.verify''" "plain_key ''tls.ca_file''" "plain_key ''tls.crt_file''"
  "plain_key ''tls.key_file''"
  by code_simp+

lemma ParseCustomSection_parse: "ParseCustomSection s = Inr ps \<Longrightarrow> parseMultiline s = ps"
proof -
  have "parseSectionLines ls = Inr qs \<Longrightarrow> concat (map lineParams ls) = qs" for ls qs
    by (induction ls arbitrary: qs) (auto simp: lineParams_def rbind_eq_Inr split: parsed_line.splits)
  then show "ParseCustomSection s = Inr ps \<Longrightarrow> parseMultiline s = ps"
    by (simp add: ParseCustomSection_def parseMultiline_def)
qed

lemma accepted_custom:
  "validateCustomFilter s = None \<Longrightarrow> sectionError s = None \<and> \<not> ContainsKey (parseMultiline s) ''match''"
  "validateCustomOutput s = None \<Longrightarrow> sectionError s = None \<and> \<not> ContainsKey (parseMultiline s) ''match''"
proof -
  have empty: "ParseCustomSection [] = Inr []" by code_simp
  show "validateCustomFilter s = None \<Longrightarrow> sectionError s = None \<and> \<not> ContainsKey (parseMultiline s) ''match''"
    "validateCustomOutput s = None \<Longrightarrow> sectionError s = None \<and> \<not> ContainsKey (parseMultiline s) ''match''"
    by (auto simp: validateCustomFilter_def validateCustomOutput_def sectionError_def empty Let_def ContainsKey_def
        dest: ParseCustomSection_parse split: if_splits sum.splits option.splits)
qed

text \<open>The values that the manager writes into a line as they are have no line breaks.\<close>

definition lineSafe :: "LogPipeline \<Rightarrow> string \<Rightarrow> bool" where
  "lineSafe p clusterName \<longleftrightarrow>
     \<not> isSpace (hd (ownMatch p)) \<and> newline \<notin> set (lp_Name p) \<and> newline \<notin> set clusterName \<and>
     newline \<notin> set (createIncludePath p) \<and> newline \<notin> set (createExcludePath p False) \<and>
     (case lo_FluentBitHTTP (ls_Output (lp_Spec p)) of
        None \<Rightarrow> True
      | Some h \<Rightarrow>
          newline \<notin> set (fh_URI h) \<and> newline \<notin> set (fh_Compress h) \<and> newline \<notin> set (fh_Port h) \<and>
          newline \<notin> set (fh_Format h) \<and>
          list_all (\<lambda>v. newline \<notin> set (fluentbit_resolveValue v (lp_Name p)))
            (fh_Host h # opt_list (fh_User h) @ opt_list (fh_Password h)))"

lemma ownMatch_trimmed: "lineSafe p c \<Longrightarrow> TrimSpace (ownMatch p) = ownMatch p"
  by (rule TrimSpace_id) (simp add: lineSafe_def isSpace_def)

lemma owned_created:
  assumes "lineSafe p clusterName"
  shows "owned (ownMatch p) (createInputSection p (createIncludePath p) (createExcludePath p False))"
    and "owned (ownMatch p) (createRecordModifierFilter p clusterName)"
    and "owned (ownMatch p) (createKubernetesFilter p)"
    and "owned (ownMatch p) (createTimestampModifyFilter p)"
    and "owned (ownMatch p) (createLuaFilter p)"
proof -
  have safe: "newline \<notin> set (lp_Name p)" "newline \<notin> set clusterName" "newline \<notin> set (createIncludePath p)"
    "newline \<notin> set (createExcludePath p False)"
    using assms by (simp_all add: lineSafe_def)
  note trimmed = ownMatch_trimmed [OF assms]
  show "owned (ownMatch p) (createInputSection p (createIncludePath p) (createExcludePath p False))"
    unfolding createInputSection_def steps chain_simps
    by (rule owned_section) (use safe headers in \<open>auto simp: param_owned_def plain_param_def split: if_splits\<close>)
  show "owned (ownMatch p) (createRecordModifierFilter p clusterName)"
    unfolding createRecordModifierFilter_def steps chain_simps
    by (rule owned_section) (use safe trimmed headers in \<open>auto simp: param_owned_def plain_param_def\<close>)
  show "owned (ownMatch p) (createKubernetesFilter p)"
    unfolding createKubernetesFilter_def steps chain_simps Let_def
    by (rule owned_section) (use safe trimmed headers in \<open>auto simp: param_owned_def plain_param_def fluentBitBool_def\<close>)
  show "owned (ownMatch p) (createTimestampModifyFilter p)"
  proof (cases "IsHTTPOutputDefined (ls_Output (lp_Spec p))")
    case True
    then show ?thesis unfolding createTimestampModifyFilter_def steps chain_simps
      by (simp, intro owned_section) (use safe trimmed headers in \<open>auto simp: param_owned_def plain_param_def\<close>)
  qed (simp add: createTimestampModifyFilter_def)
  show "owned (ownMatch p) (createLuaFilter p)"
  proof (cases "IsHTTPOutputDefined (ls_Output (lp_Spec p))")
    case True
    then show ?thesis unfolding createLuaFilter_def steps chain_simps Let_def
      by (simp, intro owned_section) (use safe trimmed headers in \<open>auto simp: param_owned_def plain_param_def split: option.split\<close>)
  qed (simp add: createLuaFilter_def)
qed

lemma param_owned_parsed:
  "\<not> ContainsKey (parseMultiline s) ''match'' \<Longrightarrow> q \<in> set (parseMultiline s) \<Longrightarrow> param_owned m q"
  using parseMultiline_plain by (auto simp: param_owned_def plain_param_def ContainsKey_def list_ex_iff)

lemma owned_custom_filters:
  assumes "lineSafe p clusterName" and "validateFilters p = None"
  shows "owned (ownMatch p) (createCustomFilters p multiline)"
proof -
  have "owned (ownMatch p) (customFilterSection p f)" if "f \<in> set (ls_FluentBitFilters (lp_Spec p))" for f
  proof -
    have "\<not> ContainsKey (parseMultiline (fbf_Custom f)) ''match''"
      using assms(2) that accepted_custom(1) by (auto simp: validateFilters_def range_check_None)
    then show ?thesis unfolding customFilterSection_def steps chain_simps
      using assms(1) ownMatch_trimmed [OF assms(1)] param_owned_parsed headers
      by (intro owned_section) (auto simp: param_owned_def plain_param_def lineSafe_def)
  qed
  then show ?thesis unfolding createCustomFilters_def by (intro owned_Join) auto
qed

lemma owned_http_output:
  assumes "lineSafe p clusterName" and "lo_FluentBitHTTP (ls_Output (lp_Spec p)) = Some h" and "newline \<notin> set limit"
  shows "owned (ownMatch p) (generateHTTPOutput h limit (lp_Name p))"
proof -
  note trimmed = ownMatch_trimmed [OF assms(1)]
  have safe: "newline \<notin> set (lp_Name p)" "newline \<notin> set (fh_URI h)" "newline \<notin> set (fh_Compress h)"
    "newline \<notin> set (fh_Port h)" "newline \<notin> set (fh_Format h)"
    "newline \<notin> set (fluentbit_resolveValue (fh_Host h) (lp_Name p))"
    "fh_User h = Some v \<Longrightarrow> newline \<notin> set (fluentbit_resolveValue v (lp_Name p))"
    "fh_Password h = Some v \<Longrightarrow> newline \<notin> set (fluentbit_resolveValue v (lp_Name p))" for v
    using assms(1,2) by (simp_all add: lineSafe_def opt_list_def)
  show ?thesis unfolding generateHTTPOutput_def Let_def steps chain_simps
    by (rule owned_section)
      (use safe trimmed headers assms(3) in \<open>auto simp: param_owned_def plain_param_def split: option.splits if_splits\<close>)
qed

lemma owned_custom_output:
  assumes "lineSafe p clusterName" and "validateCustomOutput (lo_FluentBitCustom out) = None" and "newline \<notin> set limit"
  shows "owned (ownMatch p) (generateCustomOutput out limit (lp_Name p))"
proof -
  have "\<not> ContainsKey (parseMultiline (lo_FluentBitCustom out)) ''match''" using accepted_custom(2) [OF assms(2)] by simp
  then show ?thesis unfolding generateCustomOutput_def Let_def steps chain_simps
    using assms(1,3) ownMatch_trimmed [OF assms(1)] param_owned_parsed headers
    by (intro owned_section) (auto simp: param_owned_def plain_param_def lineSafe_def split: if_splits)
qed

lemma owned_output:
  assumes "lineSafe p clusterName" and "validateCustomOutput (lo_FluentBitCustom (ls_Output (lp_Spec p))) = None"
  shows "owned (ownMatch p) (createOutputSection p NewFluentBitConfigBuilder)"
  using owned_http_output [OF assms(1)] owned_custom_output [OF assms]
  by (auto simp: createOutputSection_def NewFluentBitConfigBuilder_def Let_def split: option.split)

lemma record_modifier_matches:
  assumes "lineSafe p clusterName"
  shows "ownMatch p \<in> set (matchValues (createRecordModifierFilter p clusterName))"
proof -
  let ?ps = "[\<lparr>pm_Key = ''name'', pm_Value = ''record_modifier''\<rparr>, \<lparr>pm_Key = ''match'', pm_Value = ownMatch p\<rparr>,
     \<lparr>pm_Key = ''record'', pm_Value = ''cluster_identifier '' @ clusterName\<rparr>]"
  have plain: "\<forall>q\<in>set ?ps. plain_param q" using assms by (auto simp: plain_param_def lineSafe_def)
  have "createRecordModifierFilter p clusterName = Build_section (addParams ?ps (newSection ''[FILTER]''))"
    unfolding createRecordModifierFilter_def steps chain_simps by simp
  then have parsed: "parseMultiline (createRecordModifierFilter p clusterName) = concat (map readBack (param_sort ?ps))"
    using parse_section [OF plain headers(2)] by (simp only:)
  have "\<lparr>pm_Key = ''match'', pm_Value = ownMatch p\<rparr> \<in> set (readBack \<lparr>pm_Key = ''match'', pm_Value = ownMatch p\<rparr>)"
    using ownMatch_trimmed [OF assms] by (auto simp: readBack_def isSpace_def)
  then have "\<lparr>pm_Key = ''match'', pm_Value = ownMatch p\<rparr> \<in> set (parseMultiline (createRecordModifierFilter p clusterName))"
    unfolding parsed by (auto simp del: append_Cons)
  then show ?thesis by (force simp: matchValues_def)
qed

text \<open>How Fluent Bit compares a tag with a pattern that ends in the only wildcard.  The input of a pipeline gives its records
  a tag that starts with the name of the pipeline and a dot.\<close>

definition matchesByPrefix :: "(string \<Rightarrow> string \<Rightarrow> bool) \<Rightarrow> bool" where
  "matchesByPrefix matchTag \<longleftrightarrow>
     (\<forall>s tag. CHR ''*'' \<notin> set s \<longrightarrow> matchTag (s @ ''*'') tag = HasPrefix tag s)"

definition recordTag :: "string \<Rightarrow> string \<Rightarrow> string" where
  "recordTag pipeline path = pipeline @ CHR ''.'' # path"

lemma recordTag_prefix:
  assumes "CHR ''.'' \<notin> set a" and "CHR ''.'' \<notin> set b"
  shows "HasPrefix (recordTag b path) (a @ ''.'') \<longleftrightarrow> a = b"
proof
  assume "HasPrefix (recordTag b path) (a @ ''.'')"
  then obtain rest where "b @ CHR ''.'' # path = a @ CHR ''.'' # rest"
    by (auto simp: HasPrefix_iff recordTag_def)
  with assms show "a = b" by (auto simp: append_eq_append_conv2 append_eq_Cons_conv Cons_eq_append_conv)
qed (simp add: HasPrefix_iff recordTag_def)


section \<open>Accepted pipelines render\<close>

definition newFluentBitValidator :: "url_parser \<Rightarrow> crypto \<Rightarrow> secret_reader \<Rightarrow> time \<Rightarrow> LogPipeline Validator" where
  "newFluentBitValidator parse cr get now =
     \<lparr>v_SecretRef = (\<lambda>p. Ret (secretref_ValidateLogPipeline get p)), v_Endpoint = endpoint_Validate parse get,
      v_TLSCert = tlscert_Validate cr get now, v_IsLockHolder = (\<lambda>_. None), v_Transform = (\<lambda>_. None),
      v_Filter = (\<lambda>_. None), v_AdditionalMetrics = (\<lambda>_. None)\<rparr>"

definition valueOf :: "secret_reader \<Rightarrow> SecretKeyRef \<Rightarrow> string" where
  "valueOf get ref = (case GetValue get ref of Inl e \<Rightarrow> [] | Inr v \<Rightarrow> v)"

definition readable :: "secret_reader \<Rightarrow> SecretKeyRef \<Rightarrow> bool" where
  "readable get ref \<longleftrightarrow> (\<exists>v. GetValue get ref = Inr v)"

lemma getSecretData_readable: "readable get ref \<Longrightarrow> getSecretData get ref k = Inr [k \<mapsto> valueOf get ref]"
  by (auto simp: readable_def valueOf_def GetValue_def getSecretData_def split: option.splits sum.splits if_splits)

text \<open>The variables of a pipeline, in the order in which they are set.\<close>

definition httpValues :: "FluentBitHTTPOutput \<Rightarrow> ValueType list" where
  "httpValues h = fh_Host h # opt_list (fh_User h) @ opt_list (fh_Password h)"

definition valueVariables :: "string \<Rightarrow> ValueType list \<Rightarrow> (string \<times> SecretKeyRef) list" where
  "valueVariables name vs = map (\<lambda>ref. (refEnvVarName name ref, ref)) (secretRefsOf vs)"

definition envVariables :: "LogPipeline \<Rightarrow> (string \<times> SecretKeyRef) list" where
  "envVariables p =
     (case lo_FluentBitHTTP (ls_Output (lp_Spec p)) of None \<Rightarrow> [] | Some h \<Rightarrow> valueVariables (lp_Name p) (httpValues h)) @
     concat (map (\<lambda>var. map (Pair (fbv_Name var)) (opt_list (vfs_SecretKeyRef (fbv_ValueFrom var))))
       (ls_FluentBitVariables (lp_Spec p)))"

definition setVariables :: "secret_reader \<Rightarrow> (string \<times> SecretKeyRef) list \<Rightarrow> (string \<rightharpoonup> string) \<Rightarrow> (string \<rightharpoonup> string)" where
  "setVariables get = fold (\<lambda>(k, ref) env. env(k \<mapsto> valueOf get ref))"

lemma setVariables_simps [simp]:
  "setVariables get [] env = env"
  "setVariables get (x # xs) env = setVariables get xs (env(fst x \<mapsto> valueOf get (snd x)))"
  "setVariables get (xs @ ys) env = setVariables get ys (setVariables get xs env)"
  by (simp_all add: setVariables_def split_beta)

lemma setVariables_lookup:
  assumes "k \<in> fst ` set xs"
  shows "\<exists>ref. (k, ref) \<in> set xs \<and> setVariables get xs env k = Some (valueOf get ref)"
  using assms
proof (induction xs rule: rev_induct)
  case (snoc x xs)
  show ?case by (cases x; cases "k = fst x") (use snoc in auto)
qed simp

lemma range_state_fold:
  "(\<And>x s. x \<in> set xs \<Longrightarrow> f x s = Ret (Inr (g x s))) \<Longrightarrow> range_state f xs s = Ret (Inr (fold g xs s))"
  by (induction xs arbitrary: s) simp_all

lemma fold_setVariables: "fold (\<lambda>x. setVariables get (f x)) xs env = setVariables get (concat (map f xs)) env"
  by (induction xs arbitrary: env) simp_all

lemma copyEnvSecret_ok:
  assumes "\<forall>ref\<in>set (secretRefsOf (opt_list v)). readable get ref"
  shows "copyEnvSecret get name what v env = Ret (Inr (setVariables get (valueVariables name (opt_list v)) env))"
proof (cases v)
  case (Some vt)
  show ?thesis
  proof (cases "secretRefOf vt")
    case None
    then show ?thesis using Some
      by (auto simp: copyEnvSecret_def shouldCopySecret_def secretRefOf_def opt_list_def valueVariables_def split: if_splits)
  next
    case (Some ref)
    then have "vt_Value vt = []" and "Option.bind (vt_ValueFrom vt) vfs_SecretKeyRef = Some ref"
      by (auto simp: secretRefOf_def split: if_splits)
    moreover from this(2) obtain vf where "vt_ValueFrom vt = Some vf" "vfs_SecretKeyRef vf = Some ref"
      by (auto simp: bind_eq_Some_conv)
    moreover have "readable get ref" using assms \<open>v = Some vt\<close> Some by (simp add: opt_list_def)
    ultimately show ?thesis using \<open>v = Some vt\<close> Some
      by (simp add: copyEnvSecret_def shouldCopySecret_def getEnvConfigSecret_def derefSecretRef_def
          getSecretData_readable opt_list_def valueVariables_def)
  qed
qed (simp add: copyEnvSecret_def shouldCopySecret_def opt_list_def valueVariables_def)

lemma extractHTTPSecrets_ok:
  assumes "\<forall>(k, ref)\<in>set (envVariables p). readable get ref"
  shows "grbind (extractHTTPSecrets get p env) (extractVariableSecrets get p) = Ret (Inr (setVariables get (envVariables p) env))"
proof -
  let ?http = "case lo_FluentBitHTTP (ls_Output (lp_Spec p)) of None \<Rightarrow> [] | Some h \<Rightarrow> valueVariables (lp_Name p) (httpValues h)"
  have "extractHTTPSecrets get p env = Ret (Inr (setVariables get ?http env))"
  proof (cases "lo_FluentBitHTTP (ls_Output (lp_Spec p))")
    case (Some h)
    have refs: "\<forall>ref\<in>set (secretRefsOf (httpValues h)). readable get ref"
      using assms Some by (auto simp: envVariables_def valueVariables_def)
    have "copyEnvSecret get (lp_Name p) what (Some (fh_Host h)) e =
        Ret (Inr (setVariables get (valueVariables (lp_Name p) [fh_Host h]) e))" for what e
      using copyEnvSecret_ok [of "Some (fh_Host h)"] refs by (simp add: httpValues_def opt_list_def)
    moreover have "copyEnvSecret get (lp_Name p) what (fh_User h) e =
        Ret (Inr (setVariables get (valueVariables (lp_Name p) (opt_list (fh_User h))) e))" for what e
      using refs by (intro copyEnvSecret_ok) (simp add: httpValues_def)
    moreover have "copyEnvSecret get (lp_Name p) what (fh_Password h) e =
        Ret (Inr (setVariables get (valueVariables (lp_Name p) (opt_list (fh_Password h))) e))" for what e
      using refs by (intro copyEnvSecret_ok) (simp add: httpValues_def)
    ultimately show ?thesis using Some by (simp add: extractHTTPSecrets_def valueVariables_def httpValues_def)
  qed (simp add: extractHTTPSecrets_def)
  moreover have "extractVariableSecrets get p e = Ret (Inr (setVariables get (concat (map (\<lambda>var. map (Pair (fbv_Name var))
      (opt_list (vfs_SecretKeyRef (fbv_ValueFrom var)))) (ls_FluentBitVariables (lp_Spec p)))) e))" for e
    unfolding extractVariableSecrets_def fold_setVariables [symmetric]
    using assms by (intro range_state_fold)
      (force simp: copyVariable_def envVariables_def opt_list_def getSecretData_readable split: option.splits)
  ultimately show ?thesis by (simp add: envVariables_def)
qed

lemma buildEnvConfigSecret_ok:
  assumes "\<forall>p\<in>set ps. \<forall>(k, ref)\<in>set (envVariables p). readable get ref"
  shows "buildEnvConfigSecret get ps = Ret (Inr (setVariables get (concat (map envVariables ps)) Map.empty))"
  unfolding buildEnvConfigSecret_def fold_setVariables [symmetric]
  using assms by (intro range_state_fold extractHTTPSecrets_ok) auto

subsection \<open>Files\<close>

definition setFiles :: "(string \<times> string) list \<Rightarrow> (string \<rightharpoonup> string) \<Rightarrow> (string \<rightharpoonup> string)" where
  "setFiles = fold (\<lambda>(k, v) m. m(k \<mapsto> v))"

lemma setFiles_simps [simp]:
  "setFiles [] m = m" "setFiles (x # xs) m = setFiles xs (m(fst x \<mapsto> snd x))"
  "setFiles (xs @ ys) m = setFiles ys (setFiles xs m)"
  by (simp_all add: setFiles_def split_beta)

lemma setFiles_lookup: "distinct (map fst xs) \<Longrightarrow> (k, v) \<in> set xs \<Longrightarrow> setFiles xs m k = Some v"
proof (induction xs rule: rev_induct)
  case (snoc x xs)
  then show ?case by (cases x) (force simp: image_iff)
qed simp

lemma fold_setFiles: "fold (\<lambda>x. setFiles (f x)) xs m = setFiles (concat (map f xs)) m"
  by (induction xs arbitrary: m) simp_all

definition fileValue :: "secret_reader \<Rightarrow> ValueType \<Rightarrow> string" where
  "fileValue get v = (case tls_resolveValue get v of Inl e \<Rightarrow> [] | Inr b \<Rightarrow> b)"

definition tlsFiles :: "secret_reader \<Rightarrow> LogPipeline \<Rightarrow> (string \<times> string) list" where
  "tlsFiles get p =
     (case lo_FluentBitHTTP (ls_Output (lp_Spec p)) of
        None \<Rightarrow> []
      | Some h \<Rightarrow>
          map (\<lambda>v. (lp_Name p @ ''-ca.crt'', fileValue get v)) (opt_list (tls_CA (fh_TLS h))) @
          map (\<lambda>v. (lp_Name p @ ''-cert.crt'', sanitizeValue (fileValue get v))) (opt_list (tls_Cert (fh_TLS h))) @
          map (\<lambda>v. (lp_Name p @ ''-key.key'', sanitizeValue (fileValue get v))) (opt_list (tls_Key (fh_TLS h))))"

definition resolvable :: "secret_reader \<Rightarrow> ValueType option \<Rightarrow> bool" where
  "resolvable get v \<longleftrightarrow> (\<forall>vt. v = Some vt \<longrightarrow> (\<exists>b. tls_resolveValue get vt = Inr b))"

lemma resolvable_IsValid: "resolvable get v \<Longrightarrow> IsValid v \<longleftrightarrow> v \<noteq> None"
proof -
  have "IsValid (Some vt)" if "tls_resolveValue get vt = Inr b" for vt b
    using that by (auto simp: tls_resolveValue_def IsValid_def GetValue_def checkForMissingFields_def bind_eq_Some_conv
        Let_def split: if_splits option.splits sum.splits)
  then show "resolvable get v \<Longrightarrow> IsValid v \<longleftrightarrow> v \<noteq> None"
    by (cases v) (auto simp: resolvable_def IsValid_def)
qed

lemma getFromValueOrSecret_ok:
  assumes "tls_resolveValue get v = Inr b"
  shows "getFromValueOrSecret get v k = Ret (Inr [k \<mapsto> fileValue get v])"
proof (cases "vt_Value v = []")
  case True
  then obtain vf ref where "vt_ValueFrom v = Some vf" "vfs_SecretKeyRef vf = Some ref" "GetValue get ref = Inr b"
    using assms by (auto simp: tls_resolveValue_def bind_eq_Some_conv split: option.splits sum.splits)
  moreover from this(3) have "getSecretData get ref k = Inr [k \<mapsto> b]"
    using getSecretData_readable [of get ref k] by (simp add: readable_def valueOf_def)
  ultimately show ?thesis using True assms by (simp add: getFromValueOrSecret_def derefSecretRef_def fileValue_def)
qed (simp add: getFromValueOrSecret_def fileValue_def tls_resolveValue_def)

definition tlsReady :: "secret_reader \<Rightarrow> LogPipeline \<Rightarrow> bool" where
  "tlsReady get p \<longleftrightarrow>
     (\<forall>h. lo_FluentBitHTTP (ls_Output (lp_Spec p)) = Some h \<longrightarrow>
        IsValid (Some (fh_Host h)) \<and> resolvable get (tls_CA (fh_TLS h)) \<and> resolvable get (tls_Cert (fh_TLS h)) \<and>
        resolvable get (tls_Key (fh_TLS h)) \<and> (tls_Cert (fh_TLS h) = None \<longleftrightarrow> tls_Key (fh_TLS h) = None))"

lemma addTLSFiles_ok:
  assumes "tlsReady get p"
  shows "addTLSFiles get p m = Ret (Inr (setFiles (tlsFiles get p) m))"
proof (cases "lo_FluentBitHTTP (ls_Output (lp_Spec p))")
  case (Some h)
  let ?tls = "fh_TLS h"
  have ready: "IsValid (Some (fh_Host h))" "resolvable get (tls_CA ?tls)" "resolvable get (tls_Cert ?tls)"
    "resolvable get (tls_Key ?tls)" "tls_Cert ?tls = None \<longleftrightarrow> tls_Key ?tls = None"
    using assms Some by (simp_all add: tlsReady_def)
  note valid = ready(2-4) [THEN resolvable_IsValid]
  have got: "resolvable get (Some v) \<Longrightarrow> getFromValueOrSecret get v k = Ret (Inr [k \<mapsto> fileValue get v])" for v k
    by (auto simp: resolvable_def getFromValueOrSecret_ok)
  have http: "IsHTTPOutputDefined (ls_Output (lp_Spec p))" using Some ready(1) by (simp add: IsHTTPOutputDefined_def)
  show ?thesis
    using Some http ready valid
    by (cases "tls_CA ?tls"; cases "tls_Cert ?tls"; cases "tls_Key ?tls")
      (simp_all add: addTLSFiles_def tlsFiles_def opt_list_def got)
qed (simp add: addTLSFiles_def tlsFiles_def IsHTTPOutputDefined_def)

lemma buildTLSFileConfigSecret_ok:
  assumes "\<forall>p\<in>set ps. tlsReady get p"
  shows "buildTLSFileConfigSecret get ps = Ret (Inr (setFiles (concat (map (tlsFiles get) ps)) Map.empty))"
  unfolding buildTLSFileConfigSecret_def fold_setFiles [symmetric]
  using assms by (intro range_state_fold addTLSFiles_ok) auto

lemma file_suffixes:
  assumes "a @ s = b @ t" and "s \<in> {''-ca.crt'', ''-cert.crt'', ''-key.key''}" and "t \<in> {''-ca.crt'', ''-cert.crt'', ''-key.key''}"
  shows "a = b \<and> s = t"
proof -
  have "rev s @ rev a = rev t @ rev b" using assms(1) by (metis rev_append)
  with assms(2,3) show ?thesis by (elim insertE emptyE) simp_all
qed

lemma tlsFiles_names: "f \<in> fst ` set (tlsFiles get p) \<Longrightarrow> \<exists>s\<in>{''-ca.crt'', ''-cert.crt'', ''-key.key''}. f = lp_Name p @ s"
  by (auto simp: tlsFiles_def split: option.splits)

lemma distinct_tlsFiles: "distinct (map lp_Name ps) \<Longrightarrow> distinct (map fst (concat (map (tlsFiles get) ps)))"
proof (induction ps)
  case (Cons p ps)
  have own: "distinct (map fst (tlsFiles get p))"
    by (auto simp: tlsFiles_def opt_list_def split: option.split)
  have "lp_Name p = lp_Name q" if "f \<in> fst ` set (tlsFiles get p)" "f \<in> fst ` set (tlsFiles get q)" for f q
    using tlsFiles_names [OF that(1)] tlsFiles_names [OF that(2)] file_suffixes by metis
  then show ?case using Cons own by (auto simp: image_iff)
qed simp

subsection \<open>The whole configuration\<close>

lemma tlscert_resolves:
  assumes "tlscert_Validate cr get now p = None"
  shows "(tvp_Cert p = None \<longleftrightarrow> tvp_Key p = None) \<and> resolvable get (tvp_Cert p) \<and> resolvable get (tvp_Key p) \<and>
    resolvable get (tvp_CA p)"
  using assms
  by (auto simp: tlscert_Validate_def resolveValues_def resolveOpt_def resolvable_def rbind_eq_Inr
      split: if_splits sum.splits option.splits)

lemma endpoint_resolves: "endpoint_Validate parse get params = Ret None \<Longrightarrow> IsValid (evp_Endpoint params)"
proof -
  have "IsValid (Some v)" if "endpoint_resolveValue get v = Inr b" for v b
  proof -
    have "resolvable get (Some v)"
      using that by (auto simp: resolvable_def endpoint_resolveValue_def tls_resolveValue_def
          split: if_splits option.splits sum.splits)
    then show ?thesis by (simp add: resolvable_IsValid)
  qed
  then show "endpoint_Validate parse get params = Ret None \<Longrightarrow> IsValid (evp_Endpoint params)"
    by (auto simp: endpoint_Validate_def rbind_def split: option.splits sum.splits)
qed

lemma http_accepted:
  assumes "validateHTTPOutput (newFluentBitValidator parse cr get now) (Some h) = Ret None"
  shows "IsValid (Some (fh_Host h)) \<and> resolvable get (tls_CA (fh_TLS h)) \<and> resolvable get (tls_Cert (fh_TLS h)) \<and>
    resolvable get (tls_Key (fh_TLS h)) \<and> (tls_Cert (fh_TLS h) = None \<longleftrightarrow> tls_Key (fh_TLS h) = None)"
proof -
  have "IsValid (Some (fh_Host h))"
    using assms endpoint_resolves by (fastforce simp: validateHTTPOutput_def newFluentBitValidator_def)
  moreover have "tlscert_Validate cr get now (tlsParams (fh_TLS h)) = None" if "http_tlsValidationRequired (Some h)"
    using assms that by (simp add: validateHTTPOutput_def newFluentBitValidator_def)
  then have "resolvable get (tls_CA (fh_TLS h)) \<and> resolvable get (tls_Cert (fh_TLS h)) \<and>
      resolvable get (tls_Key (fh_TLS h)) \<and> (tls_Cert (fh_TLS h) = None \<longleftrightarrow> tls_Key (fh_TLS h) = None)"
    using tlscert_resolves [of cr get now "tlsParams (fh_TLS h)"]
    by (cases "http_tlsValidationRequired (Some h)")
      (simp_all add: tlsParams_def http_tlsValidationRequired_def resolvable_def)
  ultimately show ?thesis by simp
qed

lemma variables_referenced: "snd ` set (envVariables p) \<subseteq> set (getSecretRefsFluentBitLogPipeline p)"
proof -
  have variables: "set (foldl (\<lambda>refs v. case vfs_SecretKeyRef (fbv_ValueFrom v) of None \<Rightarrow> refs | Some ref \<Rightarrow> refs @ [ref]) refs vs) =
      set refs \<union> set (concat (map (\<lambda>var. opt_list (vfs_SecretKeyRef (fbv_ValueFrom var))) vs))" for refs vs
    by (induction vs arbitrary: refs) (auto simp: opt_list_def split: option.split)
  have http: "getSecretRefsInHTTPOutput (Some h) = secretRefsOf (httpValues h @ tlsValues (fh_TLS h))" for h
    by (cases "fh_User h"; cases "fh_Password h"; cases "tls_CA (fh_TLS h)"; cases "tls_Cert (fh_TLS h)";
        cases "tls_Key (fh_TLS h)")
      (simp_all add: httpValues_def getSecretRefsInHTTPOutput_def opt_list_def tlsValues_def)
  show ?thesis
    by (cases "lo_FluentBitHTTP (ls_Output (lp_Spec p))")
      (auto simp: envVariables_def getSecretRefsFluentBitLogPipeline_def valueVariables_def variables http)
qed

lemma accepted_pipeline:
  assumes "fluentbit_checks (newFluentBitValidator parse cr get now) p = Ret None" and "PipelineMode p = Mode.FluentBit"
  shows "tlsReady get p" and "\<forall>(k, ref)\<in>set (envVariables p). readable get ref" and "validateCustomSections p = None"
    and "validateFilters p = None" and "validateCustomOutput (lo_FluentBitCustom (ls_Output (lp_Spec p))) = None"
proof -
  let ?http = "lo_FluentBitHTTP (ls_Output (lp_Spec p))"
  have passed: "secretref_ValidateLogPipeline get p = None"
    "validateHTTPOutput (newFluentBitValidator parse cr get now) ?http = Ret None"
    "validateFilters p = None" "validateCustomOutput (lo_FluentBitCustom (ls_Output (lp_Spec p))) = None"
    using assms(1) by (simp_all add: fluentbit_checks_def newFluentBitValidator_def)
  show "tlsReady get p" unfolding tlsReady_def using passed(2) http_accepted by metis
  have "\<forall>ref\<in>set (getSecretRefsFluentBitLogPipeline p). readable get ref"
    using passed(1) assms(2) by (simp add: secretref_ValidateLogPipeline_def GetSecretRefsLogPipeline_def
        secretref_validate_None readable_def PipelineMode_def split: option.splits if_splits)
  then show "\<forall>(k, ref)\<in>set (envVariables p). readable get ref" using variables_referenced [of p] by force
  show "validateCustomSections p = None"
    using passed(3,4) accepted_custom
    by (auto simp: validateCustomSections_def validateFilters_def range_check_None Let_def)
  show "validateFilters p = None" "validateCustomOutput (lo_FluentBitCustom (ls_Output (lp_Spec p))) = None"
    using passed by simp_all
qed

definition sectionsOf :: "LogPipeline \<Rightarrow> string \<Rightarrow> string" where
  "sectionsOf p clusterName =
     (case buildFluentBitSectionsConfig p NewFluentBitConfigBuilder clusterName of Inl e \<Rightarrow> [] | Inr text \<Rightarrow> text)"

lemma fluentbit_Build_ok:
  assumes "\<forall>p\<in>set ps. tlsReady get p \<and> (\<forall>(k, ref)\<in>set (envVariables p). readable get ref) \<and>
    buildFluentBitSectionsConfig p NewFluentBitConfigBuilder clusterName = Inr (sectionsOf p clusterName)"
    and "ps \<noteq> []"
  shows "\<exists>config. fluentbit_Build get ps clusterName = Ret (Inr config) \<and>
    fc_SectionsConfig config = setFiles (map (\<lambda>p. (lp_Name p @ ''.conf'', sectionsOf p clusterName)) ps) Map.empty \<and>
    fc_EnvConfigSecret config = setVariables get (concat (map envVariables ps)) Map.empty \<and>
    fc_TLSConfigSecret config = setFiles (concat (map (tlsFiles get) ps)) Map.empty"
proof -
  define env where "env = setVariables get (concat (map envVariables ps)) Map.empty"
  define tls where "tls = setFiles (concat (map (tlsFiles get) ps)) Map.empty"
  define add where "add = (\<lambda>p (config :: FluentBitConfig).
    \<lparr>fc_SectionsConfig = (fc_SectionsConfig config)(lp_Name p @ ''.conf'' \<mapsto> sectionsOf p clusterName),
     fc_FilesConfig = fc_FilesConfig config ++ buildFluentBitFilesConfig p,
     fc_EnvConfigSecret = fc_EnvConfigSecret config ++ env, fc_TLSConfigSecret = fc_TLSConfigSecret config ++ tls\<rparr>)"
  have "buildEnvConfigSecret get ps = Ret (Inr env)" "buildTLSFileConfigSecret get ps = Ret (Inr tls)"
    using assms(1) buildEnvConfigSecret_ok buildTLSFileConfigSecret_ok by (simp_all add: env_def tls_def)
  then have "addPipelineConfig get ps clusterName p config = Ret (Inr (add p config))" if "p \<in> set ps" for p config
    using assms(1) that by (simp add: addPipelineConfig_def add_def)
  then have build: "fluentbit_Build get ps clusterName = Ret (Inr (fold add ps
      \<lparr>fc_SectionsConfig = Map.empty, fc_FilesConfig = Map.empty, fc_EnvConfigSecret = Map.empty,
       fc_TLSConfigSecret = Map.empty\<rparr>))"
    unfolding fluentbit_Build_def by (rule range_state_fold)
  have sections: "fc_SectionsConfig (fold add xs c) =
      setFiles (map (\<lambda>p. (lp_Name p @ ''.conf'', sectionsOf p clusterName)) xs) (fc_SectionsConfig c)" for xs c
    by (induction xs arbitrary: c) (simp_all add: add_def)
  have step: "fc_EnvConfigSecret (add p c) = fc_EnvConfigSecret c ++ env" "fc_TLSConfigSecret (add p c) = fc_TLSConfigSecret c ++ tls"
    "fc_SectionsConfig (add p c) = (fc_SectionsConfig c)(lp_Name p @ ''.conf'' \<mapsto> sectionsOf p clusterName)" for p c
    by (simp_all add: add_def)
  have twice: "m ++ n ++ n = m ++ n" for m n :: "string \<rightharpoonup> string"
    by (auto simp: map_add_def fun_eq_iff split: option.split)
  have idem: "fc_EnvConfigSecret (fold add xs (add p c)) = fc_EnvConfigSecret c ++ env"
    "fc_TLSConfigSecret (fold add xs (add p c)) = fc_TLSConfigSecret c ++ tls" for xs p c
    by (induction xs arbitrary: p c) (simp_all add: step twice del: map_add_assoc)
  obtain q qs where "ps = q # qs" using assms(2) by (cases ps) auto
  then show ?thesis using build sections idem by (simp add: env_def tls_def step(3))
qed

lemma variable_defined:
  assumes "p \<in> set ps" and "lo_FluentBitHTTP (ls_Output (lp_Spec p)) = Some h" and "v \<in> set (httpValues h)"
    and "secretRefOf v = Some ref" and "readable get ref"
    and "env = setVariables get (concat (map envVariables ps)) Map.empty"
  shows "\<exists>k. fluentbit_resolveValue v (lp_Name p) = ''${'' @ k @ ''}'' \<and> k \<in> dom env \<and>
    ((\<forall>q\<in>set ps. \<forall>ref'. (k, ref') \<in> set (envVariables q) \<longrightarrow> ref' = ref) \<longrightarrow> env k = Some (valueOf get ref))"
proof -
  let ?k = "refEnvVarName (lp_Name p) ref"
  have "ref \<in> set (secretRefsOf (httpValues h))" using assms(3,4) by (auto simp: set_secretRefsOf)
  then have "(?k, ref) \<in> set (envVariables p)" using assms(2) by (simp add: envVariables_def valueVariables_def)
  then have "?k \<in> fst ` set (concat (map envVariables ps))" using assms(1) by force
  then obtain ref' where ref': "(?k, ref') \<in> set (concat (map envVariables ps))" "env ?k = Some (valueOf get ref')"
    using setVariables_lookup [of ?k "concat (map envVariables ps)" get Map.empty] assms(6) by blast
  have "fluentbit_resolveValue v (lp_Name p) = ''${'' @ ?k @ ''}''"
    using assms(4,5) by (auto simp: fluentbit_resolveValue_def secretRefOf_def IsValid_def readable_def GetValue_def
        checkForMissingFields_def bind_eq_Some_conv Let_def split: if_splits)
  moreover from ref' have "ref' = ref" if "\<forall>q\<in>set ps. \<forall>r. (?k, r) \<in> set (envVariables q) \<longrightarrow> r = ref"
    using that by auto
  ultimately show ?thesis using ref'(2) by blast
qed

lemma sections_stored:
  assumes "distinct (map lp_Name ps)" and "p \<in> set ps"
  shows "setFiles (map (\<lambda>p. (lp_Name p @ ''.conf'', sectionsOf p clusterName)) ps) m (lp_Name p @ ''.conf'') =
    Some (sectionsOf p clusterName)"
proof (rule setFiles_lookup)
  have "distinct (map (\<lambda>p. lp_Name p @ ''.conf'') ps)" using assms(1) by (auto simp: distinct_map inj_on_def)
  then show "distinct (map fst (map (\<lambda>p. (lp_Name p @ ''.conf'', sectionsOf p clusterName)) ps))" by (simp add: comp_def)
  show "(lp_Name p @ ''.conf'', sectionsOf p clusterName) \<in> set (map (\<lambda>p. (lp_Name p @ ''.conf'', sectionsOf p clusterName)) ps)"
    using assms(2) by (simp add: image_iff) blast
qed


section \<open>Examples\<close>

definition httpOutputTo :: "ValueType \<Rightarrow> ValueType option \<Rightarrow> FluentBitHTTPOutput" where
  "httpOutputTo host password =
     \<lparr>fh_Host = host, fh_User = None, fh_Password = password, fh_URI = [], fh_Port = [], fh_Compress = [], fh_Format = [],
      fh_TLS = \<lparr>tls_Insecure = False, tls_InsecureSkipVerify = False, tls_CA = None, tls_Cert = None, tls_Key = None\<rparr>,
      fh_Dedot = False\<rparr>"

definition httpPipeline :: "string \<Rightarrow> string list \<Rightarrow> FluentBitHTTPOutput \<Rightarrow> LogPipeline" where
  "httpPipeline name filters h = zeroLogPipeline
     \<lparr>lp_ObjectMeta := zeroObjectMeta\<lparr>om_Name := name\<rparr>,
      lp_Spec := (lp_Spec zeroLogPipeline)
        \<lparr>ls_FluentBitFilters := map (\<lambda>c. \<lparr>fbf_Custom = c\<rparr>) filters,
         ls_Output := \<lparr>lo_FluentBitCustom = [], lo_FluentBitHTTP = Some h, lo_OTLP = None\<rparr>\<rparr>\<rparr>"

abbreviation grepFilter :: string where
  "grepFilter \<equiv> ''Name grep'' @ [newline] @ ''Regex level error''"

definition grepPipeline :: LogPipeline where
  "grepPipeline = httpPipeline ''app'' [grepFilter] (httpOutputTo (plainValue ''backend'') None)"

text \<open>Secrets whose value tells their name and namespace.\<close>

definition namingSecrets :: secret_reader where
  "namingSecrets nn = Inr \<lparr>sec_ObjectMeta = zeroObjectMeta, sec_Data = [''pw'' \<mapsto> nn_Namespace nn @ ''/'' @ nn_Name nn]\<rparr>"

definition sampleFluentBitValidator :: "LogPipeline Validator" where
  "sampleFluentBitValidator = newFluentBitValidator (\<lambda>_. Inr sampleURL) sampleCrypto namingSecrets 0"

definition passwordPipeline :: "string \<Rightarrow> string \<Rightarrow> LogPipeline" where
  "passwordPipeline name namespace =
     httpPipeline name [] (httpOutputTo (plainValue ''backend'') (Some (secretValue namespace ''creds'' ''pw'')))"

definition sampleMatch :: "string \<Rightarrow> string \<Rightarrow> bool" where
  "sampleMatch pattern tag \<longleftrightarrow> (if HasSuffix pattern ''*'' then HasPrefix tag (butlast pattern) else tag = pattern)"

lemma sampleMatch_prefix: "matchesByPrefix sampleMatch"
  by (simp add: matchesByPrefix_def sampleMatch_def HasSuffix_def)


lemma passwordPipelines:
  "PipelineMode (passwordPipeline ''a'' ''b-c'') = Mode.FluentBit" "PipelineMode (passwordPipeline ''a-b'' ''c'') = Mode.FluentBit"
  "fluentbit_checks sampleFluentBitValidator (passwordPipeline ''a'' ''b-c'') = Ret None"
  "fluentbit_checks sampleFluentBitValidator (passwordPipeline ''a-b'' ''c'') = Ret None"
  by code_simp+

definition passwordRef :: "string \<Rightarrow> SecretKeyRef" where
  "passwordRef namespace = \<lparr>skr_Name = ''creds'', skr_Namespace = namespace, skr_Key = ''pw''\<rparr>"

lemma password_variables:
  "envVariables (passwordPipeline ''a'' ''b-c'') = [(''A_B_C_CREDS_PW'', passwordRef ''b-c'')]"
  "envVariables (passwordPipeline ''a-b'' ''c'') = [(''A_B_C_CREDS_PW'', passwordRef ''c'')]"
  "valueOf namingSecrets (passwordRef ''b-c'') = ''b-c/creds''" "valueOf namingSecrets (passwordRef ''c'') = ''c/creds''"
  "fluentbit_resolveValue (secretValue ''b-c'' ''creds'' ''pw'') ''a'' = ''${A_B_C_CREDS_PW}''"
  "secretRefOf (secretValue namespace ''creds'' ''pw'') = Some (passwordRef namespace)"
  by (code_simp, code_simp, code_simp, code_simp, code_simp) (simp add: secretRefOf_def secretValue_def passwordRef_def)

lemma passwordPipeline_simps:
  "lp_Name (passwordPipeline name namespace) = name"
  "lo_FluentBitHTTP (ls_Output (lp_Spec (passwordPipeline name namespace))) =
     Some (httpOutputTo (plainValue ''backend'') (Some (secretValue namespace ''creds'' ''pw'')))"
  by (simp_all add: passwordPipeline_def httpPipeline_def)


text \<open>The names of the environment variables do not tell the pipelines apart.  The pipeline \<open>a\<close> with a password in the
  namespace \<open>b-c\<close> and the pipeline \<open>a-b\<close> with a password in the namespace \<open>c\<close> are both accepted, and the configuration
  gives pipeline \<open>a\<close> the password of pipeline \<open>a-b\<close>, to be sent to the backend of \<open>a\<close>.\<close>

lemma fluentbit_variables_collide:
  "\<exists>config. fluentbit_Build namingSecrets [passwordPipeline ''a'' ''b-c'', passwordPipeline ''a-b'' ''c''] clusterName = Ret (Inr config) \<and>
     fluentbit_checks sampleFluentBitValidator (passwordPipeline ''a'' ''b-c'') = Ret None \<and>
     fluentbit_checks sampleFluentBitValidator (passwordPipeline ''a-b'' ''c'') = Ret None \<and>
     fluentbit_resolveValue (secretValue ''b-c'' ''creds'' ''pw'') ''a'' = ''${A_B_C_CREDS_PW}'' \<and>
     valueOf namingSecrets (passwordRef ''b-c'') = ''b-c/creds'' \<and>
     fc_EnvConfigSecret config ''A_B_C_CREDS_PW'' = Some ''c/creds''"
proof -
  let ?ps = "[passwordPipeline ''a'' ''b-c'', passwordPipeline ''a-b'' ''c'']"
  have "\<forall>p\<in>set ?ps. tlsReady namingSecrets p \<and> (\<forall>(k, ref)\<in>set (envVariables p). readable namingSecrets ref) \<and>
      buildFluentBitSectionsConfig p NewFluentBitConfigBuilder clusterName = Inr (sectionsOf p clusterName)"
    using passwordPipelines accepted_pipeline(1-3) [of _ _ namingSecrets _ "passwordPipeline ''a'' ''b-c''"]
      accepted_pipeline(1-3) [of _ _ namingSecrets _ "passwordPipeline ''a-b'' ''c''"]
    by (auto simp: sampleFluentBitValidator_def sectionsOf_def buildFluentBitSectionsConfig_def)
  from fluentbit_Build_ok [OF this] show ?thesis
    using passwordPipelines by (auto simp: password_variables)
qed

lemma parse_inner_line:
  "newline \<notin> set l \<Longrightarrow> set (lineParams l) \<subseteq> set (parseMultiline (a @ newline # l @ newline # b))"
  using parseMultiline_append [of a "l @ newline # b"] parseMultiline_append [of l b]
  by (auto simp: parseMultiline_def [of l] splitLines_single)

lemma injected_line:
  assumes "newline \<notin> set l"
  shows "set (lineParams l) \<subseteq> set (parseMultiline (a @ renderParam n \<lparr>pm_Key = k, pm_Value = v @ newline # l\<rparr> @ b))"
  using parse_inner_line [OF assms, of "a @ replicate 4 CHR '' '' @ k @ replicate (n + 1 - length k) CHR '' '' @ v" b]
  by (simp add: renderParam_def)

lemma lineParams_match:
  assumes "m \<noteq> []" and "TrimSpace m = m"
  shows "lineParams (''match '' @ m) = [\<lparr>pm_Key = ''match'', pm_Value = m\<rparr>]"
proof -
  have "\<not> isSpace (last m)" using TrimSpace_ends(2) [of m] assms by simp
  then have trimmed: "TrimSpace (''match '' @ m) = ''match '' @ m"
    using assms(1) by (intro TrimSpace_id) (simp add: isSpace_def)
  have key: "TrimSpace ''match'' = ''match''" "ToLower ''match'' = ''match''" by code_simp+
  have "Cut (''match '' @ m) = Some (''match'', m)" by simp
  moreover have "\<not> HasPrefix (''match '' @ m) ''#''" by (simp add: HasPrefix_def)
  ultimately show ?thesis
    unfolding lineParams_def parseLine_def trimmed Let_def using assms(2) key by simp
qed

lemma rendered_in_section:
  assumes "p \<in> set ps" and "ToLower (pm_Key p) = pm_Key p"
  shows "\<exists>a b n. Build_section (addParams ps (newSection h)) = a @ renderParam n p @ b"
proof -
  let ?sb = "addParams ps (newSection h)"
  have "p \<in> set (param_sort (sb_params ?sb))"
    using assms by (auto simp: sb_addParams image_iff intro!: bexI [of _ p])
  then obtain xs ys where "param_sort (sb_params ?sb) = xs @ p # ys" by (metis split_list)
  then have "Build_section ?sb = (sb_builder ?sb @ concat (map (renderParam (sb_keyLen ?sb)) xs)) @
      renderParam (sb_keyLen ?sb) p @ concat (map (renderParam (sb_keyLen ?sb)) ys) @ [newline]"
    by (simp add: Build_section_def)
  then show ?thesis by blast
qed

lemma sections_built:
  assumes "PipelineMode p = Mode.FluentBit" and "validateCustomSections p = None"
  shows "buildFluentBitSectionsConfig p NewFluentBitConfigBuilder clusterName = Inr (sectionsOf p clusterName)"
    and "\<exists>front. sectionsOf p clusterName = front @ createOutputSection p NewFluentBitConfigBuilder"
  using assms by (simp_all add: sectionsOf_def buildFluentBitSectionsConfig_def flip: append_assoc)

lemma httpPipeline_simps:
  "lp_Name (httpPipeline name filters h) = name"
  "ls_Output (lp_Spec (httpPipeline name filters h)) = \<lparr>lo_FluentBitCustom = [], lo_FluentBitHTTP = Some h, lo_OTLP = None\<rparr>"
  "ls_FluentBitFilters (lp_Spec (httpPipeline name filters h)) = map (\<lambda>c. \<lparr>fbf_Custom = c\<rparr>) filters"
  by (simp_all add: httpPipeline_def)

text \<open>A password can carry a match condition.  The validation gives the same result whatever plain password the
  pipeline has, and the text of the password is written into the section as it is: after a line break, a match
  condition in the password becomes a parameter of the output section, although match conditions are forbidden in
  the custom sections.\<close>

lemma fluentbit_password_injects_match:
  assumes "IsValid (Some (fh_Host h))" and "m \<noteq> []" and "TrimSpace m = m" and "newline \<notin> set m"
    and "validateFilters (httpPipeline name filters (h\<lparr>fh_Password := None\<rparr>)) = None"
  defines "pipeline \<equiv> \<lambda>password. httpPipeline name filters (h\<lparr>fh_Password := Some (plainValue password)\<rparr>)"
  shows "fluentbit_checks (newFluentBitValidator parse cr get now) (pipeline (pw @ newline # ''match '' @ m)) =
      fluentbit_checks (newFluentBitValidator parse cr get now) (pipeline pw) \<and>
    (\<exists>text. buildFluentBitSectionsConfig (pipeline (pw @ newline # ''match '' @ m)) NewFluentBitConfigBuilder clusterName =
       Inr text \<and> m \<in> set (matchValues text))"
proof
  have "GetSecretRefsLogPipeline (pipeline s) = GetSecretRefsLogPipeline (pipeline [])" for s
    by (simp add: pipeline_def httpPipeline_def GetSecretRefsLogPipeline_def getSecretRefsFluentBitLogPipeline_def
        getSecretRefsInHTTPOutput_def plainValue_def secretRefOf_def)
  from this [of "pw @ newline # ''match '' @ m"] this [of pw]
  show "fluentbit_checks (newFluentBitValidator parse cr get now) (pipeline (pw @ newline # ''match '' @ m)) =
      fluentbit_checks (newFluentBitValidator parse cr get now) (pipeline pw)"
    by (simp add: fluentbit_checks_def newFluentBitValidator_def secretref_ValidateLogPipeline_def)
      (simp add: pipeline_def httpPipeline_def validateHTTPOutput_def http_tlsValidationRequired_def
        validateFileNames_def validateFilters_def validateHostname_def)
next
  let ?s = "pw @ newline # ''match '' @ m"
  let ?p = "pipeline ?s"
  let ?h = "h\<lparr>fh_Password := Some (plainValue ?s)\<rparr>"
  have mode: "PipelineMode ?p = Mode.FluentBit" by (simp add: pipeline_def PipelineMode_def httpPipeline_simps)
  have custom: "validateCustomSections ?p = None"
    using assms(5) accepted_custom(1)
    by (simp add: validateCustomSections_def validateFilters_def range_check_None pipeline_def httpPipeline_simps)
  note built = sections_built [OF mode custom]
  have "createOutputSection ?p NewFluentBitConfigBuilder = generateHTTPOutput ?h ''1G'' name"
    using assms(1) by (simp add: createOutputSection_def IsCustomOutputDefined_def IsHTTPOutputDefined_def
        NewFluentBitConfigBuilder_def pipeline_def httpPipeline_simps)
  with built(2) obtain front where front: "sectionsOf ?p clusterName = front @ generateHTTPOutput ?h ''1G'' name" by metis
  have "\<lparr>pm_Key = ''http_passwd'', pm_Value = ?s\<rparr> \<in> set (case fh_Password ?h of None \<Rightarrow> []
      | Some vt \<Rightarrow> if IsValid (fh_Password ?h) then [\<lparr>pm_Key = ''http_passwd'', pm_Value = fluentbit_resolveValue vt name\<rparr>] else [])"
    by (simp add: plainValue_def IsValid_def fluentbit_resolveValue_def)
  then have "\<exists>a b n. generateHTTPOutput ?h ''1G'' name = a @ renderParam n \<lparr>pm_Key = ''http_passwd'', pm_Value = ?s\<rparr> @ b"
    unfolding generateHTTPOutput_def Let_def steps chain_simps
    by (intro rendered_in_section) (simp, simp add: ToLower_def toLowerChar_def)
  then obtain a b n where "generateHTTPOutput ?h ''1G'' name = a @ renderParam n \<lparr>pm_Key = ''http_passwd'', pm_Value = ?s\<rparr> @ b"
    by blast
  then have "sectionsOf ?p clusterName = (front @ a) @ renderParam n \<lparr>pm_Key = ''http_passwd'', pm_Value = ?s\<rparr> @ b"
    unfolding front by (simp only: append_assoc)
  moreover have "newline \<notin> set (''match '' @ m)" using assms(4) by simp
  ultimately have "\<lparr>pm_Key = ''match'', pm_Value = m\<rparr> \<in> set (parseMultiline (sectionsOf ?p clusterName))"
    using injected_line [of "''match '' @ m" "front @ a" n "''http_passwd''" pw b]
    unfolding lineParams_match [OF assms(2,3)] by (metis insert_subset list.set(2))
  then have "m \<in> set (matchValues (sectionsOf ?p clusterName))" by (force simp: matchValues_def)
  then show "\<exists>text. buildFluentBitSectionsConfig ?p NewFluentBitConfigBuilder clusterName = Inr text \<and>
      m \<in> set (matchValues text)"
    using built(1) by blast
qed

lemma fluentbit_password_injects_match_witness:
  "\<exists>text. fluentbit_checks sampleFluentBitValidator
        (httpPipeline ''app'' [] (httpOutputTo (plainValue ''backend'') (Some (plainValue (''pw'' @ newline # ''match *''))))) = Ret None \<and>
      buildFluentBitSectionsConfig
        (httpPipeline ''app'' [] (httpOutputTo (plainValue ''backend'') (Some (plainValue (''pw'' @ newline # ''match *'')))))
        NewFluentBitConfigBuilder ''cluster'' = Inr text \<and> ''*'' \<in> set (matchValues text)"
proof -
  let ?h = "httpOutputTo (plainValue ''backend'') None"
  have valid: "IsValid (Some (fh_Host ?h))" "TrimSpace ''*'' = ''*''" "validateFilters (httpPipeline ''app'' [] (?h\<lparr>fh_Password := None\<rparr>)) = None"
    "fluentbit_checks sampleFluentBitValidator (httpPipeline ''app'' [] (?h\<lparr>fh_Password := Some (plainValue ''pw'')\<rparr>)) = Ret None"
    by code_simp+
  have "?h\<lparr>fh_Password := v\<rparr> = httpOutputTo (plainValue ''backend'') v" for v by (simp add: httpOutputTo_def)
  then show ?thesis
    using fluentbit_password_injects_match [OF valid(1) _ valid(2) _ valid(3), of "\<lambda>_. Inr sampleURL" sampleCrypto
        namingSecrets 0 "''pw''" "''cluster''"] valid(4)
    by (simp add: sampleFluentBitValidator_def)
qed

text \<open>A filter without text passes the validation and is rendered as a section that names no plugin.\<close>

lemma empty_filter_nameless:
  assumes "lineSafe p clusterName"
  shows "validateCustomFilter [] = None"
    and "\<not> ContainsKey (parseMultiline (customFilterSection p \<lparr>fbf_Custom = []\<rparr>)) ''name''"
proof -
  have "customFilterSection p \<lparr>fbf_Custom = []\<rparr> =
      Build_section (addParams [\<lparr>pm_Key = ''match'', pm_Value = ownMatch p\<rparr>] (newSection ''[FILTER]''))"
    unfolding customFilterSection_def steps chain_simps by simp
  then show "\<not> ContainsKey (parseMultiline (customFilterSection p \<lparr>fbf_Custom = []\<rparr>)) ''name''"
    using parse_section [of "[\<lparr>pm_Key = ''match'', pm_Value = ownMatch p\<rparr>]"] headers(2) assms
    by (simp add: plain_param_def lineSafe_def ContainsKey_def readBack_def param_sort_def)
qed (simp add: validateCustomFilter_def)

end
