(* ===== verification/FluentBitReconciler.thy ===== *)
theory FluentBitReconciler
  imports FluentBitConfig ReconcilerProperties
begin

text \<open>
  The reconciler of log pipelines in Fluent Bit mode: \<open>reconciler.go\<close> of
  \<open>internal/reconciler/logpipeline/fluentbit\<close>.  The validator acquires a place in the lock for every pipeline that it
  sees, so validating changes the API server.  The applier of the agent's resources is a parameter that acts on the
  server; the builder of the configuration is the one of \<open>FluentBitConfig\<close>.

  Shown: which configuration a reconciliation applies, when it fails for all pipelines because of one, and what a
  failed access to the lock does to a pipeline.
\<close>

section \<open>The reconciler\<close>

record 's fluentbit_env =
  fe_OperateInFIPSMode :: bool
  fe_IsIstioActive :: "(go_error, bool) result"
  fe_Telemetry :: telemetry_reader
  fe_defaultTelemetryNamespace :: string
  fe_ApplyResources :: "ObjectMeta \<Rightarrow> FluentBitConfig \<Rightarrow> bool \<Rightarrow> 's \<Rightarrow> 's \<times> go_error option"
  fe_DeleteResources :: "'s \<Rightarrow> 's \<times> go_error option"

definition acquireLock :: "('s, LogPipeline, 'l) Reconciler \<Rightarrow> ObjectMeta \<Rightarrow> 's \<Rightarrow> 's \<times> go_error option" where
  "acquireLock r = TryAcquireLock (r_Client r) (r_SetOwner r) (r_pipelineLock r)"

definition validatePipeline ::
    "('s, LogPipeline, 'l) Reconciler \<Rightarrow> LogPipeline \<Rightarrow> 's \<Rightarrow> ('s \<times> go_error option) go" where
  "validatePipeline r p s = fluentbit_Validate (r_pipelineValidator r s) (acquireLock r) p s"

definition fluentbit_IsReconcilable ::
    "('s, LogPipeline, 'l) Reconciler \<Rightarrow> bool \<Rightarrow> LogPipeline \<Rightarrow> 's \<Rightarrow> ('s \<times> (go_error, bool) result) go" where
  "fluentbit_IsReconcilable r fipsMode p s =
     (if fipsMode then Ret (s, Inr False)
      else if om_DeletionTimestamp (lp_ObjectMeta p) \<noteq> None then Ret (s, Inr False)
      else if Option.bind (runtimeOf p) lri_Enabled = Some False then Ret (s, Inr False)
      else gbind (validatePipeline r p s) (\<lambda>(s', err). Ret (s', case err of
          None \<Rightarrow> Inr True
        | Some e \<Rightarrow>
            if IsCertAboutToExpireError e then Inr True
            else case asAPIRequestFailed e of Some d \<Rightarrow> Inl d | None \<Rightarrow> Inr False)))"

fun fluentbit_getReconcilablePipelines ::
    "('s, LogPipeline, 'l) Reconciler \<Rightarrow> bool \<Rightarrow> LogPipeline list \<Rightarrow> 's \<Rightarrow> ('s \<times> (go_error, LogPipeline list) result) go" where
  "fluentbit_getReconcilablePipelines r fipsMode [] s = Ret (s, Inr [])"
| "fluentbit_getReconcilablePipelines r fipsMode (p # ps) s =
     gbind (fluentbit_IsReconcilable r fipsMode p s) (\<lambda>(s1, res). case res of
         Inl e \<Rightarrow> Ret (s1, Inl e)
       | Inr ok \<Rightarrow>
           gbind (fluentbit_getReconcilablePipelines r fipsMode ps s1) (\<lambda>(s2, rest).
             Ret (s2, rbind rest (\<lambda>qs. Inr (if ok then p # qs else qs)))))"

definition fluentbit_getEndpoint :: "secret_reader \<Rightarrow> LogPipeline \<Rightarrow> string go" where
  "fluentbit_getEndpoint get p = endpointOf get (map_option fh_Host (lo_FluentBitHTTP (ls_Output (lp_Spec p))))"

definition fluentbit_trackPipelineInfo ::
    "secret_reader \<Rightarrow> LogPipeline \<Rightarrow> string list set \<Rightarrow> string list set go" where
  "fluentbit_trackPipelineInfo get p info =
     (let features =
            feature (IsLogRuntimeInputEnabled (ls_Input (lp_Spec p))) ''input-runtime'' @
            feature (IsCustomFilterDefined (ls_FluentBitFilters (lp_Spec p))) ''filters-custom'' @
            feature (IsCustomOutputDefined (ls_Output (lp_Spec p))) ''output-custom'' @
            feature (IsHTTPOutputDefined (ls_Output (lp_Spec p))) ''output-http'' @
            feature (IsVariablesDefined (ls_FluentBitVariables (lp_Spec p))) ''variables'' @
            feature (IsFilesDefined (ls_FluentBitFiles (lp_Spec p))) ''files''
      in gbind (fluentbit_getEndpoint get p) (\<lambda>endpoint.
           Ret (recordPipelineInfo LogPipelineFeatures (lp_Name p) endpoint features info)))"

text \<open>A call that acts on the server only.\<close>

definition onServer :: "('s \<Rightarrow> 's \<times> go_error option) \<Rightarrow> ('s, 'p, 'l) world action" where
  "onServer f w = (let (s', err) = f (w_Server w) in Ret (w\<lparr>w_Server := s'\<rparr>, err))"

definition applyFluentBit ::
    "('s, LogPipeline, 'l) Reconciler \<Rightarrow> 's fluentbit_env \<Rightarrow> LogPipeline \<Rightarrow> LogPipeline list \<Rightarrow> ('s, LogPipeline, 'l) world action" where
  "applyFluentBit r fe pipeline reconcilablePipelines w =
     (let clusterName = GetClusterNameFromTelemetry (r_Client r) (fe_Telemetry fe) (fe_defaultTelemetryNamespace fe) (w_Server w)
      in ask (wrap ''failed to build fluentbit config: '')
           (fluentbit_Build (r_Secrets r) reconcilablePipelines clusterName) (\<lambda>config.
         ask (wrap ''failed to check Istio status: '') (Ret (fe_IsIstioActive fe)) (\<lambda>isIstioActive.
         onServer (fe_ApplyResources fe (lp_ObjectMeta pipeline) config isIstioActive))) w)"

definition fluentbit_doReconcile ::
    "('s, LogPipeline, 'l) Reconciler \<Rightarrow> 's fluentbit_env \<Rightarrow> LogPipeline \<Rightarrow> ('s, LogPipeline, 'l) world action" where
  "fluentbit_doReconcile r fe pipeline w =
     (case tryLock r (r_pipelineLock r) (lp_ObjectMeta pipeline) w of
        (w1, Exceeded) \<Rightarrow> Ret (w1, None)
      | (w1, LockFailed e) \<Rightarrow> Ret (w1, Some (wrap ''failed to acquire lock: '' e))
      | (w1, Acquired) \<Rightarrow>
          ask id (Ret (GetPipelinesForType (r_List r) Mode.FluentBit)) (\<lambda>allPipelines.
          track (fluentbit_trackPipelineInfo (r_Secrets r)) allPipelines (\<lambda>w2.
            gbind (fluentbit_getReconcilablePipelines r (fe_OperateInFIPSMode fe) allPipelines (w_Server w2)) (\<lambda>(s', res).
              let w3 = w2\<lparr>w_Server := s'\<rparr>
              in case res of
                   Inl e \<Rightarrow> Ret (w3, Some (wrap ''failed to fetch reconcilable log pipelines: '' e))
                 | Inr reconcilablePipelines \<Rightarrow>
                     if reconcilablePipelines = []
                     then andThen (wrap ''failed to delete log pipeline resources: '') (onServer (fe_DeleteResources fe)) finish w3
                     else applyFluentBit r fe pipeline reconcilablePipelines w3))) w1)"

definition fluentbit_calculateRequeueAfterDuration ::
    "('s, LogPipeline, 'l) Reconciler \<Rightarrow> LogPipeline \<Rightarrow> 's \<Rightarrow> ('s \<times> Duration option) go" where
  "fluentbit_calculateRequeueAfterDuration r p s =
     gbind (validatePipeline r p s) (\<lambda>(s', err). gbind (requeueAfter (r_now r) (Ret err)) (\<lambda>d. Ret (s', d)))"

section \<open>When the configuration cannot be built\<close>

lemma custom_errors_plain:
  "sectionError c = Some e \<Longrightarrow> \<exists>m. e = NewError m"
  "validateCustomFilter c = Some e \<Longrightarrow> \<exists>m. e = NewError m"
  "validateCustomOutput c = Some e \<Longrightarrow> \<exists>m. e = NewError m"
proof -
  have parse: "parseSectionLines ls = Inl e \<Longrightarrow> \<exists>m. e = NewError m" for ls
    by (induction ls) (auto simp: rbind_eq_Inl split: parsed_line.splits)
  then show "sectionError c = Some e \<Longrightarrow> \<exists>m. e = NewError m"
    by (auto simp: sectionError_def ParseCustomSection_def split: sum.splits)
  show "validateCustomFilter c = Some e \<Longrightarrow> \<exists>m. e = NewError m" "validateCustomOutput c = Some e \<Longrightarrow> \<exists>m. e = NewError m"
    using parse by (auto simp: validateCustomFilter_def validateCustomOutput_def ParseCustomSection_def Let_def
        split: if_splits sum.splits option.splits)
qed

lemma late_errors_plain:
  assumes "gcheck (Ret (validateFileNames p)) (gcheck (Ret (validateFilters p)) (gcheck (Ret (validateCustomOutput out))
    (Ret (validateHostname http)))) = Ret (Some e)"
  shows "\<exists>m. e = NewError m"
  using assms custom_errors_plain(2,3)
  by (auto simp: gcheck_Some validateFileNames_def validateFilters_def validateHostname_def Let_def elim!: range_check_Some
      split: if_splits option.splits)

text \<open>An expiry warning comes from the TLS check, after the checks of the Secrets and of the endpoint, and before those of
  the custom sections.\<close>

lemma expiring_stage:
  assumes "fluentbit_checks (newFluentBitValidator parse cr get now) p = Ret (Some e)" and "IsCertAboutToExpireError e"
  shows "secretref_ValidateLogPipeline get p = None \<and>
    (\<exists>h. lo_FluentBitHTTP (ls_Output (lp_Spec p)) = Some h \<and> IsValid (Some (fh_Host h)) \<and>
       tlscert_Validate cr get now (tlsParams (fh_TLS h)) = Some e)"
proof -
  let ?v = "newFluentBitValidator parse cr get now" and ?http = "lo_FluentBitHTTP (ls_Output (lp_Spec p))"
  have secret_checked: "v_SecretRef ?v p = Ret (secretref_ValidateLogPipeline get p)" by (simp add: newFluentBitValidator_def)
  have "\<not> IsCertAboutToExpireError (NewError m)" for m by (simp add: IsCertAboutToExpireError_def)
  moreover have "secretref_ValidateLogPipeline get p \<noteq> Some e"
    unfolding secretref_ValidateLogPipeline_def
    using assms(2) secretref_validate_error not_about_to_expire(1,2) by blast
  ultimately have ok: "secretref_ValidateLogPipeline get p = None" and http: "validateHTTPOutput ?v ?http = Ret (Some e)"
    using iffD1 [OF gcheck_Some assms(1) [unfolded fluentbit_checks_def]] assms(2)
    by (auto simp: gcheck_Some [of "validateHTTPOutput ?v ?http"] secret_checked dest!: late_errors_plain)
  obtain h where h: "?http = Some h" using http by (cases ?http) (auto simp: validateHTTPOutput_def http_tlsValidationRequired_def)
  have "endpoint_Validate parse get q \<noteq> Ret (Some e)" for q
    using assms(2) endpoint_Validate_error not_about_to_expire(3) by blast
  with http h show ?thesis using ok endpoint_resolves
    by (fastforce simp: validateHTTPOutput_def newFluentBitValidator_def gcheck_Some split: if_splits)
qed

lemma tlscert_expiring_resolves:
  assumes "tlscert_Validate cr get now q = Some e" and "IsCertAboutToExpireError e"
  shows "(tvp_Cert q = None \<longleftrightarrow> tvp_Key q = None) \<and> resolvable get (tvp_Cert q) \<and> resolvable get (tvp_Key q) \<and>
    resolvable get (tvp_CA q)"
proof -
  have "resolveValues get q \<noteq> Inl e"
    using assms(2) not_about_to_expire(4)
    by (auto simp: resolveValues_def rbind_eq_Inl resolveOpt_def tls_resolveValue_def split: option.splits sum.splits if_splits)
  then show ?thesis using assms not_about_to_expire(4)
    by (auto simp: tlscert_Validate_def resolveValues_def resolveOpt_def resolvable_def rbind_eq_Inr
        split: if_splits sum.splits option.splits)
qed

definition passes :: "go_error option \<Rightarrow> bool" where
  "passes r \<longleftrightarrow> (case r of None \<Rightarrow> True | Some e \<Rightarrow> IsCertAboutToExpireError e)"

lemma passing_ready:
  assumes "fluentbit_checks (newFluentBitValidator parse cr get now) p = Ret r" and "passes r"
    and "PipelineMode p = Mode.FluentBit"
  shows "tlsReady get p \<and> (\<forall>(k, ref)\<in>set (envVariables p). readable get ref)"
proof (cases r)
  case None
  with assms accepted_pipeline(1,2) show ?thesis by simp
next
  case (Some e)
  then have e: "IsCertAboutToExpireError e" using assms(2) by (simp add: passes_def)
  from expiring_stage [OF _ e] assms(1) Some obtain h where
    refs: "secretref_ValidateLogPipeline get p = None" and h: "lo_FluentBitHTTP (ls_Output (lp_Spec p)) = Some h"
    and host: "IsValid (Some (fh_Host h))" and tls: "tlscert_Validate cr get now (tlsParams (fh_TLS h)) = Some e"
    by blast
  have "tlsReady get p" using h host tlscert_expiring_resolves [OF tls e] by (simp add: tlsReady_def tlsParams_def)
  moreover have "\<forall>ref\<in>set (getSecretRefsFluentBitLogPipeline p). readable get ref"
    using refs assms(3) by (simp add: secretref_ValidateLogPipeline_def GetSecretRefsLogPipeline_def
        secretref_validate_None readable_def PipelineMode_def split: option.splits if_splits)
  ultimately show ?thesis using variables_referenced [of p] by force
qed

lemma range_state_fails:
  assumes "\<And>x s. x \<in> set xs \<Longrightarrow> \<exists>r. f x s = Ret r \<and> ((\<exists>e. r = Inl e) \<longleftrightarrow> bad x)"
  shows "\<exists>r. range_state f xs s = Ret r \<and> ((\<exists>e. r = Inl e) \<longleftrightarrow> (\<exists>x\<in>set xs. bad x))"
  using assms
proof (induction xs arbitrary: s)
  case (Cons x xs)
  obtain r where r: "f x s = Ret r" "(\<exists>e. r = Inl e) \<longleftrightarrow> bad x" using Cons.prems [of x s] by auto
  show ?case
  proof (cases r)
    case (Inr s')
    obtain r' where "range_state f xs s' = Ret r'" "(\<exists>e. r' = Inl e) \<longleftrightarrow> (\<exists>x\<in>set xs. bad x)"
      using Cons.IH [of s'] Cons.prems by auto
    with r Inr show ?thesis by simp
  qed (use r in auto)
qed simp

text \<open>One pipeline can keep the agent from being configured for all.  For pipelines that the validation lets
  through, the builder returns, and it returns an error exactly if the custom filters or the custom output of one of them
  cannot be parsed.  The validation lets such a pipeline through only if its certificate is about to expire, since the
  warning ends the validation before the custom sections are looked at.\<close>

lemma fluentbit_build_fails_iff:
  assumes "\<forall>p\<in>set ps. PipelineMode p = Mode.FluentBit \<and>
      (\<exists>r. fluentbit_checks (newFluentBitValidator parse cr get now) p = Ret r \<and> passes r)"
  shows "(\<exists>result. fluentbit_Build get ps clusterName = Ret result \<and>
      ((\<exists>e. result = Inl e) \<longleftrightarrow> (\<exists>p\<in>set ps. validateCustomSections p \<noteq> None))) \<and>
    (\<forall>p\<in>set ps. validateCustomSections p \<noteq> None \<longrightarrow>
      (\<exists>e. fluentbit_checks (newFluentBitValidator parse cr get now) p = Ret (Some e) \<and> IsCertAboutToExpireError e))"
proof
  have ready: "tlsReady get p \<and> (\<forall>(k, ref)\<in>set (envVariables p). readable get ref)" if "p \<in> set ps" for p
    using assms that passing_ready by blast
  obtain env tls where "buildEnvConfigSecret get ps = Ret (Inr env)" "buildTLSFileConfigSecret get ps = Ret (Inr tls)"
    using ready buildEnvConfigSecret_ok [of ps get] buildTLSFileConfigSecret_ok [of ps get] by blast
  then have "\<exists>r. addPipelineConfig get ps clusterName p config = Ret r \<and> ((\<exists>e. r = Inl e) \<longleftrightarrow> validateCustomSections p \<noteq> None)"
    if "p \<in> set ps" for p config
    using assms that by (auto simp: addPipelineConfig_def buildFluentBitSectionsConfig_def split: option.split)
  then show "\<exists>result. fluentbit_Build get ps clusterName = Ret result \<and>
      ((\<exists>e. result = Inl e) \<longleftrightarrow> (\<exists>p\<in>set ps. validateCustomSections p \<noteq> None))"
    unfolding fluentbit_Build_def by (rule range_state_fails)
next
  show "\<forall>p\<in>set ps. validateCustomSections p \<noteq> None \<longrightarrow>
      (\<exists>e. fluentbit_checks (newFluentBitValidator parse cr get now) p = Ret (Some e) \<and> IsCertAboutToExpireError e)"
  proof (intro ballI impI)
    fix p assume p: "p \<in> set ps" "validateCustomSections p \<noteq> None"
    obtain r where r: "fluentbit_checks (newFluentBitValidator parse cr get now) p = Ret r" "passes r" "PipelineMode p = Mode.FluentBit"
      using assms p(1) by blast
    show "\<exists>e. fluentbit_checks (newFluentBitValidator parse cr get now) p = Ret (Some e) \<and> IsCertAboutToExpireError e"
      using r p(2) accepted_pipeline(3) [of parse cr get now p] by (cases r) (auto simp: passes_def)
  qed
qed

section \<open>What is applied\<close>

lemma fluentbit_Build_sections:
  assumes "fluentbit_Build get ps clusterName = Ret (Inr config)"
  shows "dom (fc_SectionsConfig config) = (\<lambda>p. lp_Name p @ ''.conf'') ` set ps"
proof -
  have step: "dom (fc_SectionsConfig c') = insert (lp_Name p @ ''.conf'') (dom (fc_SectionsConfig c))"
    if "addPipelineConfig get ps clusterName p c = Ret (Inr c')" for p c c'
    using that by (auto simp: addPipelineConfig_def grbind_eq_Inr)
  have "dom (fc_SectionsConfig c') = dom (fc_SectionsConfig c) \<union> (\<lambda>p. lp_Name p @ ''.conf'') ` set qs"
    if "range_state (addPipelineConfig get ps clusterName) qs c = Ret (Inr c')" for qs c c'
    using that
  proof (induction qs arbitrary: c)
    case (Cons p qs)
    then obtain c1 where "addPipelineConfig get ps clusterName p c = Ret (Inr c1)"
      and "range_state (addPipelineConfig get ps clusterName) qs c1 = Ret (Inr c')" by (auto simp: grbind_eq_Inr)
    with Cons.IH [of c1] step [of p c c1] show ?case by simp
  qed simp
  from this [OF assms [unfolded fluentbit_Build_def]] show ?thesis by simp
qed

lemma fips_none_reconcilable: "fluentbit_getReconcilablePipelines r True ps s = Ret (s, Inr [])"
  by (induction ps) (simp_all add: fluentbit_IsReconcilable_def)

section \<open>The lock and the configuration\<close>

definition lockOwners :: "('s \<Rightarrow> NamespacedName \<Rightarrow> ConfigMap option) \<Rightarrow> Checker \<Rightarrow> 's \<Rightarrow> OwnerReference list" where
  "lockOwners store ck s = (case store s (ck_lockName ck) of None \<Rightarrow> [] | Some lock \<Rightarrow> cm_Owners lock)"

definition withinLimit :: "('s \<Rightarrow> NamespacedName \<Rightarrow> ConfigMap option) \<Rightarrow> Checker \<Rightarrow> 's \<Rightarrow> bool" where
  "withinLimit store ck s \<longleftrightarrow> int (length (lockOwners store ck s)) \<le> ck_maxOwners ck"

text \<open>What an acquisition does to the owners in the store, whatever it returns.\<close>

lemma create_owners:
  assumes api: "optimistic_api c store rvn fmt" and law: "lawful_SetOwnerReference sor"
    and "createLock c sor ck owner s = (s', err)" and "store s (ck_lockName ck) = None" and "0 < ck_maxOwners ck"
  shows "(err = None \<longrightarrow> hasOwner owner (lockOwners store ck s')) \<and> withinLimit store ck s'"
proof (cases "sor owner (newLock ck)")
  case (Inl e)
  with assms show ?thesis by (auto simp: createLock_def lockOwners_def withinLimit_def)
next
  case (Inr l)
  then obtain err' where create: "cc_Create c l s = (s', err')" and err: "err = None \<longleftrightarrow> err' = None"
    using assms(3) by (auto simp: createLock_def split: prod.splits)
  note props = SetOwnerReference_props [OF law Inr]
  from optimistic_api.create_law [OF api create] err props assms(4,5) show ?thesis
    by (auto simp: lockOwners_def withinLimit_def same_content_def)
qed

lemma update_owners:
  assumes api: "optimistic_api c store rvn fmt" and law: "lawful_SetOwnerReference sor"
    and "store s (ck_lockName ck) = Some lock" and "sor owner lock = Inr l" and "cc_Update c l s = (s', err)"
  shows "store s' = store s \<and> err \<noteq> None \<or> lockOwners store ck s' = cm_Owners l"
proof -
  note props = SetOwnerReference_props [OF law assms(4)]
  have "cm_RV l \<noteq> []" "cm_key l = ck_lockName ck"
    using props(1,2) optimistic_api.store_RV_nonempty [OF api assms(3)] optimistic_api.store_key [OF api assms(3)] by simp_all
  with optimistic_api.update_law [OF api assms(5)] show ?thesis by (auto simp: lockOwners_def same_content_def)
qed

lemma acquire_owners:
  assumes api: "optimistic_api c store rvn fmt" and law: "lawful_SetOwnerReference sor" and max: "0 < ck_maxOwners ck"
    and call: "TryAcquireLock c sor ck owner s = (s', err)"
  shows "err = None \<Longrightarrow> hasOwner owner (lockOwners store ck s')"
    and "ref \<in> set (lockOwners store ck s) \<Longrightarrow> or_Name ref \<noteq> om_Name owner \<Longrightarrow> ref \<in> set (lockOwners store ck s')"
    and "withinLimit store ck s \<Longrightarrow> withinLimit store ck s'"
proof -
  have "(err = None \<longrightarrow> hasOwner owner (lockOwners store ck s')) \<and>
    (\<forall>ref\<in>set (lockOwners store ck s). or_Name ref \<noteq> om_Name owner \<longrightarrow> ref \<in> set (lockOwners store ck s')) \<and>
    (withinLimit store ck s \<longrightarrow> withinLimit store ck s')"
  proof (cases "cc_Get c (ck_lockName ck) s")
    case (Inl e)
    show ?thesis
    proof (cases "IsNotFound e")
      case True
      with optimistic_api.get_missing [OF api Inl] have none: "store s (ck_lockName ck) = None" by blast
      from create_owners [OF api law _ none max, where owner = owner] True Inl call none show ?thesis
        by (simp add: TryAcquireLock_def lockOwners_def)
    qed (use Inl call in \<open>auto simp: TryAcquireLock_def\<close>)
  next
    case (Inr lock)
    with optimistic_api.get_found [OF api] have found: "store s (ck_lockName ck) = Some lock" by blast
    then have owners: "lockOwners store ck s = cm_Owners lock" by (simp add: lockOwners_def)
    consider (same) "s' = s" "err = None \<longrightarrow> hasOwner owner (cm_Owners lock)"
      | (wrote) l err' where "canAddOwner (length (cm_Owners lock)) (ck_maxOwners ck)" "sor owner lock = Inr l"
          "cc_Update c l s = (s', err')" "err = None \<longleftrightarrow> err' = None"
      using call Inr max by (auto simp: TryAcquireLock_def split: if_splits sum.splits prod.splits)
    then show ?thesis
    proof cases
      case wrote
      note props = SetOwnerReference_props [OF law wrote(2)]
      have "int (length (cm_Owners l)) \<le> ck_maxOwners ck"
        using wrote(1) props(3) max by (simp add: canAddOwner_def UnlimitedPipelineCount_def split: if_splits)
      moreover have "lockOwners store ck s' = lockOwners store ck s" if "store s' = store s" using that by (simp add: lockOwners_def)
      ultimately show ?thesis using update_owners [OF api law found wrote(2,3)] wrote(4) props(4,5) owners
        by (auto simp: withinLimit_def)
    qed (simp add: owners)
  qed
  then show "err = None \<Longrightarrow> hasOwner owner (lockOwners store ck s')"
    and "ref \<in> set (lockOwners store ck s) \<Longrightarrow> or_Name ref \<noteq> om_Name owner \<Longrightarrow> ref \<in> set (lockOwners store ck s')"
    and "withinLimit store ck s \<Longrightarrow> withinLimit store ck s'" by blast+
qed

text \<open>A pipeline that is reconcilable has a place in the lock, and keeps it while the others are validated.\<close>

lemma lock_errors_plain:
  assumes "acquireLock r owner s = (s', Some e)"
  shows "\<not> IsCertAboutToExpireError e \<and> asAPIRequestFailed e = None"
proof -
  have "\<not> IsCertAboutToExpireError (NewError m) \<and> asAPIRequestFailed (NewError m) = None"
    "\<not> IsCertAboutToExpireError (KubeError k) \<and> asAPIRequestFailed (KubeError k) = None"
    "\<not> IsCertAboutToExpireError (Sentinel x) \<and> asAPIRequestFailed (Sentinel x) = None" for m k x
    by (simp_all add: error_type_defs errors_As_wrapped)
  with assms show ?thesis
    by (auto simp: acquireLock_def TryAcquireLock_def createLock_def split: sum.splits if_splits prod.splits)
qed

lemma validatePipeline_returns:
  assumes "validatePipeline r p s = Ret (s', err)"
  shows "acquireLock r (lp_ObjectMeta p) s = (s', err) \<and> err \<noteq> None \<or>
    acquireLock r (lp_ObjectMeta p) s = (s', None) \<and> fluentbit_checks (r_pipelineValidator r s) p = Ret err"
proof -
  obtain s1 e where lock: "acquireLock r (lp_ObjectMeta p) s = (s1, e)" by fastforce
  with assms show ?thesis
    by (cases e) (auto simp: validatePipeline_def fluentbit_Validate_def gbind_eq_Ret)
qed

lemma reconcilable_pipeline:
  assumes "fluentbit_IsReconcilable r fipsMode p s = Ret (s', Inr ok)"
  shows "s' = s \<and> \<not> ok \<or> (\<exists>err. acquireLock r (lp_ObjectMeta p) s = (s', err) \<and> (ok \<longrightarrow> err = None))"
    and "ok \<Longrightarrow> \<not> fipsMode \<and> om_DeletionTimestamp (lp_ObjectMeta p) = None \<and> Option.bind (runtimeOf p) lri_Enabled \<noteq> Some False \<and>
      (\<exists>err. fluentbit_checks (r_pipelineValidator r s) p = Ret err \<and> passes err)"
proof -
  consider (skipped) "s' = s" "\<not> ok"
    | (validated) err where "validatePipeline r p s = Ret (s', err)" "ok = passes err" "\<not> fipsMode"
        "om_DeletionTimestamp (lp_ObjectMeta p) = None" "Option.bind (runtimeOf p) lri_Enabled \<noteq> Some False"
  proof (cases "fipsMode \<or> om_DeletionTimestamp (lp_ObjectMeta p) \<noteq> None \<or> Option.bind (runtimeOf p) lri_Enabled = Some False")
    case True
    with assms skipped show ?thesis by (auto simp: fluentbit_IsReconcilable_def split: if_splits)
  next
    case False
    with assms obtain err where err: "validatePipeline r p s = Ret (s', err)" and
      "(case err of None \<Rightarrow> Inr True | Some e \<Rightarrow> if IsCertAboutToExpireError e then Inr True
         else case asAPIRequestFailed e of Some d \<Rightarrow> Inl d | None \<Rightarrow> Inr False) = Inr ok"
      by (auto simp: fluentbit_IsReconcilable_def gbind_eq_Ret)
    from this(2) have "ok = passes err" by (cases err) (simp_all add: passes_def split: if_splits option.splits)
    with False err validated show ?thesis by blast
  qed
  note cases = this
  have passed: "acquireLock r (lp_ObjectMeta p) s = (s', None) \<and> fluentbit_checks (r_pipelineValidator r s) p = Ret err"
    if "validatePipeline r p s = Ret (s', err)" "passes err" for err
    using validatePipeline_returns [OF that(1)] that(2) lock_errors_plain [of r "lp_ObjectMeta p" s s']
    by (auto simp: passes_def)
  show "s' = s \<and> \<not> ok \<or> (\<exists>err. acquireLock r (lp_ObjectMeta p) s = (s', err) \<and> (ok \<longrightarrow> err = None))"
    using cases
  proof cases
    case (validated err)
    then show ?thesis using validatePipeline_returns [OF validated(1)] passed [OF validated(1)] by blast
  qed blast
  show "\<not> fipsMode \<and> om_DeletionTimestamp (lp_ObjectMeta p) = None \<and> Option.bind (runtimeOf p) lri_Enabled \<noteq> Some False \<and>
      (\<exists>err. fluentbit_checks (r_pipelineValidator r s) p = Ret err \<and> passes err)" if ok
    using cases
  proof cases
    case (validated err)
    then show ?thesis using passed [OF validated(1)] that by blast
  qed (use that in blast)
qed

lemma reconcilable_Cons:
  assumes "fluentbit_getReconcilablePipelines r fipsMode (p # ps) s = Ret (s', Inr qs)"
  obtains s1 ok rest where "fluentbit_IsReconcilable r fipsMode p s = Ret (s1, Inr ok)"
    and "fluentbit_getReconcilablePipelines r fipsMode ps s1 = Ret (s', Inr rest)" and "qs = (if ok then p # rest else rest)"
proof -
  obtain s1 res where one: "fluentbit_IsReconcilable r fipsMode p s = Ret (s1, res)"
    using assms by (auto simp: gbind_eq_Ret)
  then obtain ok where ok: "res = Inr ok" using assms by (cases res) auto
  then obtain rest where "fluentbit_getReconcilablePipelines r fipsMode ps s1 = Ret (s', Inr rest)" "qs = (if ok then p # rest else rest)"
    using assms one by (auto simp: gbind_eq_Ret rbind_eq_Inr)
  with one ok that show ?thesis by blast
qed

lemma reconcilable_pipelines:
  assumes api: "optimistic_api (r_Client r) store rvn fmt" and law: "lawful_SetOwnerReference (r_SetOwner r)"
    and max: "0 < ck_maxOwners (r_pipelineLock r)"
  shows "fluentbit_getReconcilablePipelines r fipsMode ps s = Ret (s', Inr qs) \<Longrightarrow> distinct (map lp_Name ps) \<Longrightarrow>
    withinLimit store (r_pipelineLock r) s \<Longrightarrow>
    set qs \<subseteq> set ps \<and> distinct (map lp_Name qs) \<and> withinLimit store (r_pipelineLock r) s' \<and>
    (\<forall>ref\<in>set (lockOwners store (r_pipelineLock r) s). or_Name ref \<notin> lp_Name ` set ps \<longrightarrow>
       ref \<in> set (lockOwners store (r_pipelineLock r) s')) \<and>
    (\<forall>q\<in>set qs. hasOwner (lp_ObjectMeta q) (lockOwners store (r_pipelineLock r) s') \<and>
       om_DeletionTimestamp (lp_ObjectMeta q) = None \<and> Option.bind (runtimeOf q) lri_Enabled \<noteq> Some False \<and>
       (\<exists>s err. fluentbit_checks (r_pipelineValidator r s) q = Ret err \<and> passes err))"
proof (induction ps arbitrary: s qs)
  case (Cons p ps)
  let ?ck = "r_pipelineLock r"
  from Cons.prems(1) obtain s1 ok rest where one: "fluentbit_IsReconcilable r fipsMode p s = Ret (s1, Inr ok)"
    and more: "fluentbit_getReconcilablePipelines r fipsMode ps s1 = Ret (s', Inr rest)" and qs: "qs = (if ok then p # rest else rest)"
    by (rule reconcilable_Cons)
  have step: "withinLimit store ?ck s1" "ok \<longrightarrow> hasOwner (lp_ObjectMeta p) (lockOwners store ?ck s1)"
    "ref \<in> set (lockOwners store ?ck s) \<Longrightarrow> or_Name ref \<noteq> lp_Name p \<Longrightarrow> ref \<in> set (lockOwners store ?ck s1)" for ref
    using reconcilable_pipeline(1) [OF one] Cons.prems(3) acquire_owners [OF api law max, of "lp_ObjectMeta p" s s1]
    by (auto simp: acquireLock_def)
  have IH: "set rest \<subseteq> set ps \<and> distinct (map lp_Name rest) \<and> withinLimit store ?ck s' \<and>
    (\<forall>ref\<in>set (lockOwners store ?ck s1). or_Name ref \<notin> lp_Name ` set ps \<longrightarrow> ref \<in> set (lockOwners store ?ck s')) \<and>
    (\<forall>q\<in>set rest. hasOwner (lp_ObjectMeta q) (lockOwners store ?ck s') \<and>
       om_DeletionTimestamp (lp_ObjectMeta q) = None \<and> Option.bind (runtimeOf q) lri_Enabled \<noteq> Some False \<and>
       (\<exists>s err. fluentbit_checks (r_pipelineValidator r s) q = Ret err \<and> passes err))"
    using Cons.IH [OF more] Cons.prems(2) step(1) by simp
  have keep: "hasOwner (lp_ObjectMeta p) (lockOwners store ?ck s')" if ok
  proof -
    obtain ref where ref: "ref \<in> set (lockOwners store ?ck s1)" "or_Name ref = lp_Name p" "or_UID ref = om_UID (lp_ObjectMeta p)"
      using step(2) \<open>ok\<close> by (auto simp: hasOwner_iff)
    then have "ref \<in> set (lockOwners store ?ck s')" using IH Cons.prems(2) by auto
    with ref show ?thesis by (auto simp: hasOwner_iff)
  qed
  have own: "lp_Name p \<notin> lp_Name ` set rest" using IH Cons.prems(2) by auto
  show ?case
  proof (intro conjI ballI)
    show "set qs \<subseteq> set (p # ps)" "distinct (map lp_Name qs)" "withinLimit store ?ck s'"
      using qs IH own by (auto split: if_splits)
    show "or_Name ref \<notin> lp_Name ` set (p # ps) \<longrightarrow> ref \<in> set (lockOwners store ?ck s')" if "ref \<in> set (lockOwners store ?ck s)" for ref
      using step(3) [OF that] IH by simp
  next
    fix q assume "q \<in> set qs"
    then consider "q \<in> set rest" | "q = p" ok using qs by (auto split: if_splits)
    then have "hasOwner (lp_ObjectMeta q) (lockOwners store ?ck s') \<and> om_DeletionTimestamp (lp_ObjectMeta q) = None \<and>
        Option.bind (runtimeOf q) lri_Enabled \<noteq> Some False \<and> (\<exists>s err. fluentbit_checks (r_pipelineValidator r s) q = Ret err \<and> passes err)"
      using IH keep reconcilable_pipeline(2) [OF one] by cases blast+
    then show "hasOwner (lp_ObjectMeta q) (lockOwners store ?ck s')" "om_DeletionTimestamp (lp_ObjectMeta q) = None"
      "Option.bind (runtimeOf q) lri_Enabled \<noteq> Some False"
      "\<exists>s err. fluentbit_checks (r_pipelineValidator r s) q = Ret err \<and> passes err" by blast+
  qed
qed auto

lemma holders_within_limit:
  assumes "distinct (map lp_Name qs)" and "\<forall>q\<in>set qs. hasOwner (lp_ObjectMeta q) (lockOwners store ck s)" and "withinLimit store ck s"
  shows "int (length qs) \<le> ck_maxOwners ck"
proof -
  have "lp_Name ` set qs \<subseteq> or_Name ` set (lockOwners store ck s)" using assms(2) by (force simp: hasOwner_iff)
  then have "card (lp_Name ` set qs) \<le> card (or_Name ` set (lockOwners store ck s))" by (rule card_mono [rotated]) simp
  also have "\<dots> \<le> length (lockOwners store ck s)" using card_length [of "map or_Name (lockOwners store ck s)"] by simp
  finally show ?thesis using assms(1,3) distinct_card [of "map lp_Name qs"] by (simp add: withinLimit_def)
qed

text \<open>What the agent may be given: the configuration built for some of the pipelines in Fluent Bit mode, no more than the lock
  has places for, each of them with a place in the lock and let through by the validation.  With \<open>s\<close> the state of the
  server at that time.\<close>

definition limitedConfig ::
    "('s, LogPipeline, 'l) Reconciler \<Rightarrow> 's fluentbit_env \<Rightarrow> ('s \<Rightarrow> NamespacedName \<Rightarrow> ConfigMap option) \<Rightarrow> LogPipeline list \<Rightarrow>
      FluentBitConfig \<Rightarrow> 's \<Rightarrow> bool" where
  "limitedConfig r fe store ps config s \<longleftrightarrow> \<not> fe_OperateInFIPSMode fe \<and>
     (\<exists>qs clusterName. fluentbit_Build (r_Secrets r) qs clusterName = Ret (Inr config) \<and>
        dom (fc_SectionsConfig config) = (\<lambda>q. lp_Name q @ ''.conf'') ` set qs \<and>
        qs \<noteq> [] \<and> int (length qs) \<le> ck_maxOwners (r_pipelineLock r) \<and> set qs \<subseteq> set ps \<and>
        (\<forall>q\<in>set qs. GetOutputType q = Mode.FluentBit \<and> om_DeletionTimestamp (lp_ObjectMeta q) = None \<and>
           Option.bind (runtimeOf q) lri_Enabled \<noteq> Some False \<and>
           hasOwner (lp_ObjectMeta q) (lockOwners store (r_pipelineLock r) s) \<and>
           (\<exists>s err. fluentbit_checks (r_pipelineValidator r s) q = Ret err \<and> passes err)))"

lemma applyFluentBit_cong:
  assumes "\<And>config isIstioActive clusterName. fluentbit_Build (r_Secrets r) qs clusterName = Ret (Inr config) \<Longrightarrow>
    apply (lp_ObjectMeta p) config isIstioActive (w_Server w) = fe_ApplyResources fe (lp_ObjectMeta p) config isIstioActive (w_Server w)"
  shows "applyFluentBit r (fe\<lparr>fe_ApplyResources := apply\<rparr>) p qs w = applyFluentBit r fe p qs w"
proof -
  define clusterName where "clusterName = GetClusterNameFromTelemetry (r_Client r) (fe_Telemetry fe) (fe_defaultTelemetryNamespace fe) (w_Server w)"
  show ?thesis
  proof (cases "fluentbit_Build (r_Secrets r) qs clusterName")
    case (Ret res)
    with assms [of clusterName] show ?thesis
      by (cases res; cases "fe_IsIstioActive fe") (simp_all add: applyFluentBit_def ask_def onServer_def clusterName_def [symmetric])
  qed (simp add: applyFluentBit_def ask_def clusterName_def [symmetric])
qed

text \<open>C24: The agent is only ever given a configuration within the limit.  Whatever a reconciliation does, it calls the
  applier of the agent's resources only with the configuration built for pipelines in Fluent Bit mode that passed the
  validation, are not being deleted, have the runtime input on and each have a place in the lock, at most as many as
  the lock has places, with one file of sections for each; and not at all in FIPS mode.  An applier that behaves
  differently on every other configuration makes no difference.\<close>

theorem fluentbit_agent_config_limited:
  assumes "optimistic_api (r_Client r) store rvn fmt" and "lawful_SetOwnerReference (r_SetOwner r)"
    and "0 < ck_maxOwners (r_pipelineLock r)" and "withinLimit store (r_pipelineLock r) (w_Server w)"
    and "r_List r = Inr ps" and "distinct (map lp_Name ps)"
    and "\<forall>owner config isIstioActive s. limitedConfig r fe store ps config s \<longrightarrow>
      apply owner config isIstioActive s = fe_ApplyResources fe owner config isIstioActive s"
  shows "fluentbit_doReconcile r (fe\<lparr>fe_ApplyResources := apply\<rparr>) pipeline w = fluentbit_doReconcile r fe pipeline w"
proof -
  let ?all = "filter (\<lambda>lp. GetOutputType lp = Mode.FluentBit) ps"
  have names: "distinct (map lp_Name ?all)" using assms(6) by (simp add: distinct_map_filter)
  have same: "applyFluentBit r (fe\<lparr>fe_ApplyResources := apply\<rparr>) pipeline qs w2 = applyFluentBit r fe pipeline qs w2"
    if qs: "fluentbit_getReconcilablePipelines r (fe_OperateInFIPSMode fe) ?all s = Ret (w_Server w2, Inr qs)" "qs \<noteq> []"
      and lim: "withinLimit store (r_pipelineLock r) s" for qs s w2
  proof (rule applyFluentBit_cong)
    fix config isIstioActive clusterName
    assume built: "fluentbit_Build (r_Secrets r) qs clusterName = Ret (Inr config)"
    note got = reconcilable_pipelines [OF assms(1-3) qs(1) names lim]
    have "\<not> fe_OperateInFIPSMode fe" using qs by (cases "fe_OperateInFIPSMode fe") (auto simp: fips_none_reconcilable)
    moreover have "int (length qs) \<le> ck_maxOwners (r_pipelineLock r)" using got by (intro holders_within_limit) blast+
    ultimately have "limitedConfig r fe store ps config (w_Server w2)"
      unfolding limitedConfig_def using got built fluentbit_Build_sections [OF built] qs(2) by fastforce
    then show "apply (lp_ObjectMeta pipeline) config isIstioActive (w_Server w2) =
        fe_ApplyResources fe (lp_ObjectMeta pipeline) config isIstioActive (w_Server w2)" using assms(7) by blast
  qed
  obtain s1 err where lock: "TryAcquireLock (r_Client r) (r_SetOwner r) (r_pipelineLock r) (lp_ObjectMeta pipeline) (w_Server w) = (s1, err)"
    by fastforce
  have lim: "withinLimit store (r_pipelineLock r) s1" using acquire_owners(3) [OF assms(1-3) lock assms(4)] .
  show ?thesis
  proof (cases "\<exists>s' qs. fluentbit_getReconcilablePipelines r (fe_OperateInFIPSMode fe) ?all s1 = Ret (s', Inr qs) \<and> qs \<noteq> []")
    case True
    then show ?thesis using same [OF _ _ lim]
      by (auto simp: fluentbit_doReconcile_def tryLock_def lock ask_def track_def GetPipelinesForType_def assms(5) gbind_def Let_def
          split: option.splits go.splits lock_result.splits)
  next
    case False
    then show ?thesis
      by (auto simp: fluentbit_doReconcile_def tryLock_def lock ask_def track_def GetPipelinesForType_def assms(5) gbind_def Let_def
          split: option.splits go.splits sum.splits lock_result.splits)
  qed
qed

text \<open>A cluster with two pipelines, and an applier that refuses every configuration outside of the limit.\<close>

abbreviation "fluentbitRec \<equiv> sampleReconciler ''LogPipeline'' sampleYaml typeLogPipeline lp_ObjectMeta
  [passwordPipeline ''a'' ''b-c'', grepPipeline]"

definition sampleFluentBit :: "mem_event list fluentbit_env" where
  "sampleFluentBit = \<lparr>fe_OperateInFIPSMode = False, fe_IsIstioActive = Inr False,
     fe_Telemetry = (\<lambda>_. Inl \<lparr>ke_Reason = ReasonNotFound, ke_Message = ''not found''\<rparr>), fe_defaultTelemetryNamespace = ''kyma-system'',
     fe_ApplyResources = (\<lambda>_ _ _ s. (s, None)), fe_DeleteResources = (\<lambda>s. (s, None))\<rparr>"

definition refusing :: "ObjectMeta \<Rightarrow> FluentBitConfig \<Rightarrow> bool \<Rightarrow> mem_event list \<Rightarrow> mem_event list \<times> go_error option" where
  "refusing owner config isIstioActive s =
     (if limitedConfig fluentbitRec sampleFluentBit mem_store [passwordPipeline ''a'' ''b-c'', grepPipeline] config s
      then (s, None) else (s, Some (NewError ''outside of the limit'')))"

theorem fluentbit_agent_config_limited_witness:
  "fluentbit_doReconcile fluentbitRec (sampleFluentBit\<lparr>fe_ApplyResources := refusing\<rparr>) grepPipeline sampleWorld =
     fluentbit_doReconcile fluentbitRec sampleFluentBit grepPipeline sampleWorld"
proof (rule fluentbit_agent_config_limited [where store = mem_store and rvn = length and fmt = rv_fmt
      and ps = "[passwordPipeline ''a'' ''b-c'', grepPipeline]"])
  show "optimistic_api (r_Client fluentbitRec) mem_store length rv_fmt"
    using mem.optimistic_api_axioms by (simp add: sampleReconciler_def)
  show "lawful_SetOwnerReference (r_SetOwner fluentbitRec)"
    using upsertOwnerRef_lawful by (simp add: sampleReconciler_def)
  show "0 < ck_maxOwners (r_pipelineLock fluentbitRec)" "withinLimit mem_store (r_pipelineLock fluentbitRec) (w_Server sampleWorld)"
    by (simp_all add: sampleReconciler_def sampleWorld_def withinLimit_def lockOwners_def controllerLock_def NewLocker_def
        newChecker_def MaxPipelineCount_def)
  show "r_List fluentbitRec = Inr [passwordPipeline ''a'' ''b-c'', grepPipeline]" by (simp add: sampleReconciler_def)
  show "distinct (map lp_Name [passwordPipeline ''a'' ''b-c'', grepPipeline])"
    by (simp add: passwordPipeline_simps grepPipeline_def httpPipeline_def)
  show "\<forall>owner config isIstioActive s. limitedConfig fluentbitRec sampleFluentBit mem_store
      [passwordPipeline ''a'' ''b-c'', grepPipeline] config s \<longrightarrow>
    refusing owner config isIstioActive s = fe_ApplyResources sampleFluentBit owner config isIstioActive s"
    by (simp add: refusing_def sampleFluentBit_def)
qed

end
