(* ===== verification/Spec2Isabelle.thy ===== *)
theory Spec2Isabelle
  imports Api_Conversion PipelineStatus SecretWatch GatewayIsolation ReconcilerProperties Webhooks SelfMonitorConfig
    TelemetryReconciler WebhookCert FluentBitReconciler
begin

text \<open>
  \<^bold>\<open>Verification of the Kyma telemetry manager\<close>, a Kubernetes operator in Go.

  \<^bold>\<open>The program.\<close>  Users describe with custom resources (\<open>LogPipeline\<close>, \<open>TracePipeline\<close>, \<open>MetricPipeline\<close>) where their
  logs, traces and metrics are to be sent, and with a \<open>Telemetry\<close> resource how the module is set up.  The admission
  webhooks default and validate these resources, and the conversion webhook translates between the stored version
  \<open>v1beta1\<close> and \<open>v1alpha1\<close>.  Per kind a reconciler validates each pipeline, acquires one of a bounded number of places
  in a lock, links the pipeline with the watchers of its Secrets, configures the agents and adds a reference to the
  pipeline to the coordination ConfigMap.  The gateway reconciler reads these references and builds the configuration
  of one OpenTelemetry collector that serves all pipelines.  A Prometheus instance, the self monitor, watches the
  collectors and triggers reconciliations through a webhook; the status of a pipeline combines the validation, the
  readiness of the workloads and the alerts, and the status of the Telemetry resource summarises all pipelines.

  \<^bold>\<open>How the model is written.\<close>  A struct is a record and an enumeration a datatype or a string as in the source; a
  pointer is an option; a pair of value and error is a sum; where the code can dereference nil the result is in the
  type \<open>go\<close>, with \<open>Panic\<close> as the other outcome.  An operation of the source is one definition with its name, prefixed
  by the package where names clash; the suffix \<open>A\<close> marks the \<open>v1alpha1\<close> version.  Operations on shared objects pass
  the state explicitly; a reconciliation is an action on a world, composed with \<open>ask\<close> (a call that reads) and
  \<open>andThen\<close> (a call that writes).  No definition needs fuel: every loop runs over a finite list and is structurally
  recursive, and every function is total.  The one exception is the retry loop of the start-up tasks, a partial function
  that is shown to return.

  \<^bold>\<open>Parameters.\<close>  Code outside \<open>src\<close> is an argument: the API client (reads as functions, ConfigMaps with the optimistic
  concurrency of the locale \<open>optimistic_api\<close>), the YAML and JSON encoders, \<open>net/url\<close>, the PEM, X.509 and TLS
  libraries, the OTTL parsers, \<open>controllerutil\<close>, \<open>meta.SetStatusCondition\<close>, and the clock.  Their documented laws are
  named hypotheses (\<open>lawful_yaml\<close>, \<open>lawful_find\<close>, \<open>lawful_finalizers\<close> and so on); a theorem that uses them has a
  witness with concrete functions for the parameters.  Logging, tracing and the cancellation of contexts are left out.

  \<^bold>\<open>The theories.\<close>
  \<^item> \<open>Go_Prelude\<close>, \<open>Names\<close>, \<open>Errors\<close>, \<open>Regexp\<close>: the fragment of the language and its library, \<open>internal/resources/names\<close>,
    the error types with \<open>errors.Is\<close> and \<open>errors.As\<close>, and the anchored regular expressions, with a compiler from their
    text and a derivative matcher that is shown to decide their language.
  \<^item> \<open>Api_Types\<close>, \<open>Api_Conversion\<close>: the resources of \<open>apis/telemetry\<close> and their conversion.  Shown: both round trips
    return the object up to stated losses, and the data that \<open>v1beta1\<close> cannot represent survive in an annotation.
  \<^item> \<open>Kube\<close>, \<open>ResourceLock\<close>, \<open>CoordinationConfig\<close>: reading, changing and writing one ConfigMap under optimistic
    concurrency (locales \<open>optimistic_api\<close> and \<open>rmw\<close>, interpreted for \<open>internal/resourcelock\<close> and
    \<open>internal/resources/coordinationconfig\<close>).  Shown by rule induction over all interleavings: the lock never has more
    owners than admitted, and no controller loses another's reference.
  \<^item> \<open>SecretRef\<close>, \<open>EndpointValidator\<close>, \<open>TLSCertValidator\<close>, \<open>RuntimeMetrics\<close>, \<open>PipelineValidators\<close>:
    \<open>internal/validators\<close> and the \<open>validator.go\<close> of the reconcilers; the locale \<open>otlp_validator\<close> has the checks that
    the three kinds share.  Shown: what an accepted pipeline satisfies, and when the checks stop early.
  \<^item> \<open>Conditions\<close>, \<open>WorkloadStatus\<close>, \<open>SelfMonitor\<close>, \<open>SelfMonitorConfig\<close>, \<open>PipelineStatus\<close>: \<open>internal/conditions\<close>,
    \<open>internal/workloadstatus\<close>, \<open>internal/selfmonitor\<close> and the \<open>status.go\<close> files.  Shown: the condition on the
    configuration is true exactly for reconcilable pipelines, the flow is healthy exactly if no alert for the pipeline
    fires, alerts of other pipelines do not matter unless a name has a dot, every rule's alert is noticed by exactly one
    prober, and unhealthy pipelines are reconciled.
  \<^item> \<open>SecretWatch\<close>: \<open>internal/secretwatch\<close> as a state machine (locale \<open>secret_watcher\<close>).  Shown for every reachable
    state: one goroutine per watched Secret, and the links are those of the last synchronisation.
  \<^item> \<open>CollectorConfig\<close>, \<open>ComponentBuilder\<close>, \<open>OTLPExporter\<close>, \<open>GatewayConfig\<close>, \<open>GatewayProperties\<close>,
    \<open>GatewayIsolation\<close>: \<open>internal/otelcollector/config/common\<close> and \<open>otlpgateway\<close>; the locale \<open>pipeline_step\<close> is the
    contract of a loop over pipelines.  Shown: every configuration is well formed and independent of the order of the
    pipelines, validated pipelines render, each pipeline has its data path, queue share and backend, and where the
    pipelines influence each other after all.
  \<^item> \<open>ModuleConfig\<close>, \<open>PipelineReconcilers\<close>, \<open>GatewayReconciler\<close>, \<open>ReconcilerProperties\<close>: \<open>internal/overrides\<close>, the
    cluster facts and the four \<open>reconciler.go\<close> files; the locale \<open>reconciliation\<close> is what a \<open>doReconcile\<close> promises
    about the coordination ConfigMap.  Shown: which reference a reconciliation leaves, that the gateway serves exactly
    the reconcilable pipelines, that the watchers follow the references, and how one pipeline can stop all others.
  \<^item> \<open>Webhooks\<close>: the defaulters and validators of \<open>webhook\<close> (locale \<open>defaulting\<close>).  Shown: defaulting completes a
    pipeline and is idempotent, defaulting and conversion between the API versions commute up
    to inputs that are switched off, admission agrees with the reconcilers' checks, and the
    reconciliation of what the webhook defaulted does not panic.
  \<^item> \<open>TelemetryReconciler\<close>: \<open>internal/reconciler/telemetry\<close>.  Shown: when the finalizer is removed, and that the state
    summarises the pipelines.
  \<^item> \<open>KubeUtils\<close>: \<open>internal/utils/k8s/utils.go\<close> and \<open>internal/k8sclients\<close>; the locale \<open>object_api\<close> is what a client of
    the API server promises, and each wrapping client keeps it.  Shown: what an applied object looks like, and where the
    deletion by label ends.
  \<^item> \<open>StartupTasks\<close>: \<open>internal/storagemigration\<close> and \<open>internal/labelupdater\<close>, with the stored objects described by the
    locale \<open>storage_api\<close>.  Shown: the migration is safe whatever call fails, and its retry loop returns.
  \<^item> \<open>WebhookCert\<close>: \<open>internal/webhookcert\<close>.  Shown: the API server is told to trust one authority, the server
    certificate verifies against it if it may sign, which is not checked for one found in the Secret, and how a failed write of the key goes unnoticed.
  \<^item> \<open>FluentBitConfig\<close>, \<open>FluentBitReconciler\<close>: \<open>internal/fluentbit/config\<close> and \<open>internal/reconciler/logpipeline/fluentbit\<close>.
    Shown: what passes the validation renders completely, the sections match the pipeline's own tag only, the agent is
    given configurations of lock holders only, and how names with dots, variables and passwords break the separation.

  \<^bold>\<open>Not modelled.\<close>
  The agents' collector configurations (\<open>internal/otelcollector/config/metricagent\<close> and \<open>logagent\<close>, apart from the
  runtime metrics) are parameters of the reconcilers that call them; the log reconciler takes the Fluent Bit reconciler
  as a parameter, and \<open>Reconcile\<close> of the latter is modelled in its parts only.
  The Kubernetes objects of the workloads (\<open>internal/resources\<close>) are mostly constant documents for the API server.
  \<open>main.go\<close> and \<open>controllers\<close> wire the parts to the controller runtime.  Generated deep copies and mocks, the test
  kit, the stubs, and the programs under \<open>dependencies\<close> and \<open>docs\<close> are not part of the manager's behaviour.
\<close>

end
